(* ===== verification/Prelude.thy ===== *)
theory Prelude
  imports Main "HOL-Library.AList"
begin

section \<open>Prelude\<close>

text \<open>
  What every component shares: the exceptions of the Python code, instants, Python
  dictionaries as association lists that keep insertion order, the truthiness of
  optional strings, and the simplification rules the component proofs rest on.

  A Python \<^verbatim>\<open>dict\<close> keeps its keys in insertion order and overwrites in place. This is
  what \<open>AList.update\<close> of the library does, so a dictionary is an association list whose
  keys are distinct; \<open>dict_wf\<close> is that representation invariant.
\<close>

named_theorems dict_simps \<open>lookups, keys and invariant of a dictionary after each operation\<close>
named_theorems splits_intro \<open>case rules the error paths are split with\<close>

subsection \<open>Exceptions, instants, randomness\<close>

datatype exn =
    ValueError string
  | RuntimeError string
  | TypeError string
  | OtherException string

text \<open>
  A \<^verbatim>\<open>datetime\<close> is a time-zone aware instant: microseconds since the epoch, in UTC.
  \<^verbatim>\<open>timedelta(seconds=n)\<close> is \<open>timedelta_seconds n\<close>.
\<close>

type_synonym instant = int

definition timedelta_seconds :: "int \<Rightarrow> int" where
  "timedelta_seconds n = n * 1000000"

text \<open>
  \<^verbatim>\<open>secrets.token_urlsafe\<close> is the environment's choice: an operation that draws
  random tokens takes \<open>rnd\<close>, and \<open>rnd i\<close> is what its \<open>i\<close>-th call site obtains.
\<close>

type_synonym entropy = "nat \<Rightarrow> string"

subsection \<open>Truthiness\<close>

text \<open>\<^verbatim>\<open>x or d\<close> on an optional string: \<^verbatim>\<open>None\<close> and the empty string are false.\<close>

definition py_or :: "string option \<Rightarrow> string \<Rightarrow> string" where
  "py_or x d = (case x of None \<Rightarrow> d | Some s \<Rightarrow> if s = [] then d else s)"

definition py_or_opt :: "string option \<Rightarrow> string option \<Rightarrow> string option" where
  "py_or_opt x d = (case x of None \<Rightarrow> d | Some s \<Rightarrow> if s = [] then d else Some s)"

lemma py_or_simps [simp]:
  "py_or None d = d"
  "py_or (Some []) d = d"
  "py_or (Some (c # s)) d = c # s"
  by (simp_all add: py_or_def)

lemma py_or_opt_simps [simp]:
  "py_or_opt None d = d"
  "py_or_opt (Some []) d = d"
  "py_or_opt (Some (c # s)) d = Some (c # s)"
  by (simp_all add: py_or_opt_def)

lemma py_or_Some_nonempty: "s \<noteq> [] \<Longrightarrow> py_or (Some s) d = s"
  by (simp add: py_or_def)

lemma py_or_opt_same [simp]: "py_or_opt x x = x"
  by (simp add: py_or_opt_def split: option.split)

subsection \<open>Dictionaries\<close>

type_synonym ('k, 'v) dict = "('k \<times> 'v) list"

abbreviation dict_get :: "('k, 'v) dict \<Rightarrow> 'k \<Rightarrow> 'v option" where
  "dict_get d k \<equiv> map_of d k"

abbreviation dict_set :: "'k \<Rightarrow> 'v \<Rightarrow> ('k, 'v) dict \<Rightarrow> ('k, 'v) dict" where
  "dict_set k v d \<equiv> AList.update k v d"

abbreviation dict_values :: "('k, 'v) dict \<Rightarrow> 'v list" where
  "dict_values d \<equiv> map snd d"

definition dict_wf :: "('k, 'v) dict \<Rightarrow> bool" where
  "dict_wf d \<longleftrightarrow> distinct (map fst d)"

lemma dict_get_set [simp, dict_simps]:
  "dict_get (dict_set k v d) k' = (if k' = k then Some v else dict_get d k')"
  by (simp add: update_conv')

lemma dict_wf_Nil [simp, dict_simps]: "dict_wf []"
  by (simp add: dict_wf_def)

lemma dict_wf_set [simp, dict_simps]: "dict_wf d \<Longrightarrow> dict_wf (dict_set k v d)"
  by (simp add: dict_wf_def distinct_update)

lemma dict_wf_filter [simp, dict_simps]: "dict_wf d \<Longrightarrow> dict_wf (filter P d)"
  by (simp add: dict_wf_def distinct_map_filter)

lemma dict_get_filter [dict_simps]:
  "dict_wf d \<Longrightarrow>
     dict_get (filter P d) k =
       (case dict_get d k of None \<Rightarrow> None | Some v \<Rightarrow> if P (k, v) then Some v else None)"
  by (induction d) (auto simp: dict_wf_def image_iff split: option.splits dest: map_of_SomeD)

lemma dict_get_iff_mem [dict_simps]: "dict_wf d \<Longrightarrow> dict_get d k = Some v \<longleftrightarrow> (k, v) \<in> set d"
  by (simp add: dict_wf_def)

lemma dict_set_fresh [dict_simps]: "dict_get d k = None \<Longrightarrow> dict_set k v d = d @ [(k, v)]"
  by (induction d) (auto split: if_splits)

lemma dict_length_set [dict_simps]:
  "length (dict_set k v d) = (if dict_get d k = None then Suc (length d) else length d)"
  by (induction d) auto

lemma dict_values_set_subset: "set (dict_values (dict_set k v d)) \<subseteq> insert v (set (dict_values d))"
  by (induction d) auto

lemma dict_set_mem [dict_simps]:
  "dict_wf d \<Longrightarrow> (k', v') \<in> set (dict_set k v d) \<longleftrightarrow>
     (if k' = k then v' = v else (k', v') \<in> set d)"
  using dict_get_iff_mem [of "dict_set k v d" k' v'] dict_get_iff_mem [of d k' v'] by auto

lemma dict_keys_set [simp]: "fst ` set (dict_set k v d) = insert k (fst ` set d)"
  by (induction d) auto

subsection \<open>Lists\<close>

text \<open>The first element that satisfies a predicate: \<^verbatim>\<open>next((x for x in xs if p(x)), None)\<close>.\<close>

fun find_first :: "('a \<Rightarrow> bool) \<Rightarrow> 'a list \<Rightarrow> 'a option" where
  "find_first P [] = None"
| "find_first P (x # xs) = (if P x then Some x else find_first P xs)"

lemma find_first_Some: "find_first P xs = Some x \<Longrightarrow> x \<in> set xs \<and> P x"
  by (induction xs) (auto split: if_splits)

lemma find_first_None_iff: "find_first P xs = None \<longleftrightarrow> (\<forall>x\<in>set xs. \<not> P x)"
  by (induction xs) auto

lemma find_first_append:
  "find_first P (xs @ ys) = (case find_first P xs of None \<Rightarrow> find_first P ys | Some x \<Rightarrow> Some x)"
  by (induction xs) auto

lemma length_filter_filter_le: "length (filter P (filter Q xs)) \<le> length (filter P xs)"
  by (induction xs) auto

subsection \<open>Tables\<close>

text \<open>
  A table whose rows carry a unique key, in row order, is the dictionary \<open>by_key\<close> of its
  rows: appending a row and updating a row in place are the dictionary's insertions.
\<close>

definition by_key :: "('a \<Rightarrow> 'k) \<Rightarrow> 'a list \<Rightarrow> ('k, 'a) dict" where
  "by_key key rows = map (\<lambda>x. (key x, x)) rows"

lemma by_key_Nil [simp]: "by_key key [] = []"
  by (simp add: by_key_def)

lemma dict_values_by_key [simp]: "dict_values (by_key key rows) = rows"
  by (simp add: by_key_def comp_def)

lemma dict_wf_by_key [simp]: "dict_wf (by_key key rows) \<longleftrightarrow> distinct (map key rows)"
  by (simp add: dict_wf_def by_key_def comp_def)

lemma dict_get_by_key: "dict_get (by_key key rows) k = find_first (\<lambda>x. key x = k) rows"
  by (induction rows) (auto simp: by_key_def)

lemma dict_set_by_key_fresh:
  "find_first (\<lambda>x. key x = key v) rows = None \<Longrightarrow> dict_set (key v) v (by_key key rows) = by_key key (rows @ [v])"
  by (subst dict_set_fresh) (simp_all add: dict_get_by_key, simp add: by_key_def)

lemma dict_set_by_key_update:
  "distinct (map key rows) \<Longrightarrow> find_first (\<lambda>x. key x = key v) rows = Some w \<Longrightarrow>
     dict_set (key v) v (by_key key rows) = by_key key (map (\<lambda>x. if key x = key v then v else x) rows)"
proof (induction rows)
  case (Cons r rows)
  show ?case
  proof (cases "key r = key v")
    case True
    with Cons.prems have "map (\<lambda>x. if key x = key v then v else x) rows = rows"
      by (intro map_idI) (auto simp: image_iff)
    with True show ?thesis by (simp add: by_key_def)
  next
    case False
    with Cons show ?thesis by (simp add: by_key_def)
  qed
qed simp

subsection \<open>Joining and slicing\<close>

text \<open>\<^verbatim>\<open>sep.join(parts)\<close> for a separator string.\<close>

fun join_with :: "string \<Rightarrow> string list \<Rightarrow> string" where
  "join_with sep [] = []"
| "join_with sep [x] = x"
| "join_with sep (x # y # ys) = x @ sep @ join_with sep (y # ys)"

text \<open>\<^verbatim>\<open>xs[-n:]\<close> for a non-negative \<open>n\<close>; \<^verbatim>\<open>xs[-0:]\<close> is the whole list.\<close>

definition slice_last :: "int \<Rightarrow> 'a list \<Rightarrow> 'a list" where
  "slice_last n xs =
     (let start = - n; len = int (length xs)
      in drop (nat (if start < 0 then max 0 (len + start) else min start len)) xs)"

lemma slice_last_pos: "0 < n \<Longrightarrow> slice_last n xs = drop (length xs - nat n) xs"
proof -
  assume "0 < n"
  then have "nat (max 0 (int (length xs) + - n)) = length xs - nat n" by linarith
  with \<open>0 < n\<close> show ?thesis by (simp add: slice_last_def)
qed

lemma slice_last_zero: "slice_last 0 xs = xs"
  by (simp add: slice_last_def)

subsection \<open>Options and sums\<close>

lemma case_option_same [simp]: "(case x of None \<Rightarrow> y | Some _ \<Rightarrow> y) = y"
  by (simp split: option.split)

definition is_Inr :: "'a + 'b \<Rightarrow> bool" where
  "is_Inr x = (case x of Inl _ \<Rightarrow> False | Inr _ \<Rightarrow> True)"

lemma is_Inr_simps [simp]: "is_Inr (Inl a) = False" "is_Inr (Inr b) = True"
  by (simp_all add: is_Inr_def)

end
