(* ===== verification/PyStr.thy ===== *)
theory PyStr
  imports Prelude
begin

section \<open>Python strings\<close>

text \<open>
  The \<^verbatim>\<open>str\<close> operations the code uses, over \<open>string\<close>: one \<open>char\<close> is one code point
  (of the first 256), so \<open>length\<close> counts what Python's \<^verbatim>\<open>len\<close> counts. \<open>split_on\<close> is
  \<^verbatim>\<open>str.split\<close> with a one-character separator, \<open>partition_on\<close> is \<^verbatim>\<open>str.partition\<close>,
  \<open>rsplit_head\<close> is \<^verbatim>\<open>s.rsplit(sep, 1)[0]\<close>, \<open>py_strip\<close> is \<^verbatim>\<open>str.strip()\<close>, \<open>py_int\<close> is
  \<^verbatim>\<open>int(s)\<close> (\<^verbatim>\<open>ValueError\<close> is \<open>None\<close>) and \<open>py_str_int\<close> is \<^verbatim>\<open>str(n)\<close>. The lemmas are the
  round trips between splitting and joining and between printing and parsing numbers.
\<close>

named_theorems str_simps \<open>prefix, suffix, split and join of strings\<close>

subsection \<open>Prefixes and suffixes\<close>

definition startswith :: "string \<Rightarrow> string \<Rightarrow> bool" where
  "startswith s p \<longleftrightarrow> take (length p) s = p"

definition endswith :: "string \<Rightarrow> string \<Rightarrow> bool" where
  "endswith s q \<longleftrightarrow> length q \<le> length s \<and> drop (length s - length q) s = q"

definition removesuffix :: "string \<Rightarrow> string \<Rightarrow> string" where
  "removesuffix s q = (if q \<noteq> [] \<and> endswith s q then take (length s - length q) s else s)"

lemma startswith_iff [str_simps]: "startswith s p \<longleftrightarrow> (\<exists>r. s = p @ r)"
  by (metis append_eq_conv_conj startswith_def)

lemma endswith_iff [str_simps]: "endswith s q \<longleftrightarrow> (\<exists>r. s = r @ q)"
proof
  assume "endswith s q"
  then have "s = take (length s - length q) s @ q"
    unfolding endswith_def by (metis append_take_drop_id)
  then show "\<exists>r. s = r @ q" ..
next
  assume "\<exists>r. s = r @ q"
  then show "endswith s q" by (auto simp: endswith_def)
qed

lemma startswith_append [simp]: "startswith (p @ r) p"
  by (simp add: startswith_def)

lemma endswith_append [simp]: "endswith (r @ q) q"
  by (simp add: endswith_def)

lemma removesuffix_append [simp]: "q \<noteq> [] \<Longrightarrow> removesuffix (r @ q) q = r"
  by (simp add: removesuffix_def)

subsection \<open>Splitting and joining\<close>

fun split_on :: "char \<Rightarrow> string \<Rightarrow> string list" where
  "split_on c [] = [[]]"
| "split_on c (x # xs) =
     (if x = c then [] # split_on c xs
      else (case split_on c xs of [] \<Rightarrow> [[x]] | y # ys \<Rightarrow> (x # y) # ys))"

lemma split_on_ne [simp]: "split_on c s \<noteq> []"
  by (cases s) (auto split: list.split)

lemma split_on_Cons_ne:
  "x \<noteq> c \<Longrightarrow> split_on c (x # xs) = (x # hd (split_on c xs)) # tl (split_on c xs)"
  by (cases "split_on c xs") auto

lemma join_with_Cons: "xs \<noteq> [] \<Longrightarrow> join_with sep (x # xs) = x @ sep @ join_with sep xs"
  by (cases xs) auto

lemma join_with_Cons_char: "join_with sep ((x # y) # ys) = x # join_with sep (y # ys)"
  by (cases ys) auto

lemma join_split [simp]: "join_with [c] (split_on c s) = s"
proof (induction s)
  case Nil
  show ?case by simp
next
  case (Cons x s)
  show ?case
  proof (cases "x = c")
    case True
    with Cons show ?thesis by (simp add: join_with_Cons)
  next
    case False
    obtain y ys where "split_on c s = y # ys" by (meson split_on_ne neq_Nil_conv)
    with False Cons show ?thesis by (simp add: join_with_Cons_char)
  qed
qed

lemma split_on_no_sep [simp]: "c \<notin> set s \<Longrightarrow> split_on c s = [s]"
  by (induction s) auto

lemma split_on_parts: "x \<in> set (split_on c s) \<Longrightarrow> c \<notin> set x"
proof (induction s arbitrary: x)
  case Nil
  then show ?case by simp
next
  case (Cons a s)
  show ?case
  proof (cases "a = c")
    case True
    with Cons show ?thesis by auto
  next
    case False
    obtain y ys where "split_on c s = y # ys" by (meson split_on_ne neq_Nil_conv)
    with False Cons show ?thesis by auto
  qed
qed

lemma split_on_append_sep [str_simps]: "split_on c (a @ c # b) = split_on c a @ split_on c b"
proof (induction a)
  case Nil
  show ?case by simp
next
  case (Cons x a)
  obtain y ys where "split_on c a = y # ys" by (meson split_on_ne neq_Nil_conv)
  with Cons show ?case by simp
qed

lemma split_join:
  "xs \<noteq> [] \<Longrightarrow> \<forall>x\<in>set xs. c \<notin> set x \<Longrightarrow> split_on c (join_with [c] xs) = xs"
proof (induction xs)
  case Nil
  then show ?case by simp
next
  case (Cons x xs)
  show ?case
  proof (cases "xs = []")
    case True
    with Cons.prems show ?thesis by simp
  next
    case False
    with Cons show ?thesis by (simp add: join_with_Cons split_on_append_sep)
  qed
qed

lemma split_on_inj: "split_on c s = split_on c t \<Longrightarrow> s = t"
  by (metis join_split)

lemma join_with_append:
  "xs \<noteq> [] \<Longrightarrow> ys \<noteq> [] \<Longrightarrow> join_with sep (xs @ ys) = join_with sep xs @ sep @ join_with sep ys"
proof (induction xs)
  case Nil
  then show ?case by simp
next
  case (Cons x xs)
  then show ?case by (cases "xs = []") (simp_all add: join_with_Cons)
qed

lemma set_join_with: "set (join_with sep xs) \<subseteq> set sep \<union> (\<Union>x\<in>set xs. set x)"
proof (induction xs)
  case Nil
  show ?case by simp
next
  case (Cons x xs)
  then show ?case by (cases "xs = []") (auto simp: join_with_Cons)
qed

lemma split_on_char_mem: "c \<noteq> d \<Longrightarrow> d \<in> set s \<longleftrightarrow> (\<exists>x\<in>set (split_on c s). d \<in> set x)"
proof (induction s)
  case Nil
  then show ?case by simp
next
  case (Cons a s)
  obtain y ys where "split_on c s = y # ys" by (meson split_on_ne neq_Nil_conv)
  with Cons show ?case by auto
qed

subsection \<open>Partition\<close>

definition partition_on :: "char \<Rightarrow> string \<Rightarrow> string \<times> string \<times> string" where
  "partition_on c s =
     (case dropWhile (\<lambda>x. x \<noteq> c) s of
        [] \<Rightarrow> (s, [], [])
      | _ # r \<Rightarrow> (takeWhile (\<lambda>x. x \<noteq> c) s, [c], r))"

lemma partition_on_found [simp]: "c \<notin> set a \<Longrightarrow> partition_on c (a @ c # b) = (a, [c], b)"
  by (simp add: partition_on_def dropWhile_append takeWhile_append)

lemma partition_on_absent [simp]: "c \<notin> set s \<Longrightarrow> partition_on c s = (s, [], [])"
proof -
  assume "c \<notin> set s"
  then have "dropWhile (\<lambda>x. x \<noteq> c) s = []" by (auto simp: dropWhile_eq_Nil_conv)
  then show ?thesis unfolding partition_on_def by (simp only: list.case)
qed

lemma partition_on_cases:
  obtains (absent) "c \<notin> set s" "partition_on c s = (s, [], [])"
  | (found) a b where "s = a @ c # b" "c \<notin> set a" "partition_on c s = (a, [c], b)"
proof (cases "c \<in> set s")
  case True
  then obtain a b where "s = a @ c # b" "c \<notin> set a" by (meson split_list_first)
  then show ?thesis using found by simp
next
  case False
  then show ?thesis using absent by simp
qed

lemma split_on_two: "split_on c s = [a, b] \<longleftrightarrow> s = a @ c # b \<and> c \<notin> set a \<and> c \<notin> set b"
proof
  assume h: "split_on c s = [a, b]"
  then have "join_with [c] [a, b] = s" by (metis join_split)
  moreover have "c \<notin> set a" "c \<notin> set b" using split_on_parts [of _ c s] h by auto
  ultimately show "s = a @ c # b \<and> c \<notin> set a \<and> c \<notin> set b" by simp
next
  assume "s = a @ c # b \<and> c \<notin> set a \<and> c \<notin> set b"
  then show "split_on c s = [a, b]" by (simp add: split_on_append_sep)
qed

definition rsplit_head :: "char \<Rightarrow> string \<Rightarrow> string" where
  "rsplit_head c s =
     (if c \<in> set s then join_with [c] (butlast (split_on c s)) else s)"

subsection \<open>White space, integers\<close>

definition is_space :: "char \<Rightarrow> bool" where
  "is_space c \<longleftrightarrow>
     (let n = (of_char c :: nat)
      in (9 \<le> n \<and> n \<le> 13) \<or> (28 \<le> n \<and> n \<le> 32) \<or> n = 133 \<or> n = 160)"

definition py_strip :: "string \<Rightarrow> string" where
  "py_strip s = rev (dropWhile is_space (rev (dropWhile is_space s)))"

definition is_ascii :: "string \<Rightarrow> bool" where
  "is_ascii s \<longleftrightarrow> (\<forall>c\<in>set s. (of_char c :: nat) < 128)"

definition is_digit :: "char \<Rightarrow> bool" where
  "is_digit c \<longleftrightarrow> 48 \<le> (of_char c :: nat) \<and> (of_char c :: nat) \<le> 57"

definition digit_value :: "char \<Rightarrow> nat" where
  "digit_value c = of_char c - 48"

definition digits_value :: "string \<Rightarrow> nat" where
  "digits_value ds = foldl (\<lambda>n c. 10 * n + digit_value c) 0 ds"

text \<open>
  \<^verbatim>\<open>int(s)\<close>: surrounding white space, a sign, digits with single underscores between
  them, at most 4300 digits. On a string that is ASCII only the six ASCII blanks are
  white space; on others every blank is first replaced by a space.
\<close>

definition int_space :: "char \<Rightarrow> bool" where
  "int_space c \<longleftrightarrow>
     (let n = (of_char c :: nat) in (9 \<le> n \<and> n \<le> 13) \<or> n = 32)"

definition int_prepare :: "string \<Rightarrow> string" where
  "int_prepare s =
     (let t = (if is_ascii s then s else map (\<lambda>c. if is_space c then CHR '' '' else c) s)
      in rev (dropWhile int_space (rev (dropWhile int_space t))))"

definition int_digits :: "string \<Rightarrow> string option" where
  "int_digits body =
     (let parts = split_on CHR ''_'' body
      in if (\<forall>p\<in>set parts. p \<noteq> [] \<and> (\<forall>c\<in>set p. is_digit c)) then Some (concat parts) else None)"

definition int_unsigned :: "string \<Rightarrow> int option" where
  "int_unsigned body =
     (case int_digits body of
        None \<Rightarrow> None
      | Some ds \<Rightarrow> if length ds \<le> 4300 then Some (int (digits_value ds)) else None)"

definition py_int :: "string \<Rightarrow> int option" where
  "py_int s =
     (case int_prepare s of
        [] \<Rightarrow> None
      | c # body \<Rightarrow>
          if c = CHR ''-'' then map_option uminus (int_unsigned body)
          else if c = CHR ''+'' then int_unsigned body
          else int_unsigned (c # body))"

text \<open>\<^verbatim>\<open>str(n)\<close>.\<close>

definition digit_char :: "nat \<Rightarrow> char" where
  "digit_char n = char_of (48 + n)"

fun nat_digits :: "nat \<Rightarrow> string" where
  "nat_digits n = (if n < 10 then [digit_char n] else nat_digits (n div 10) @ [digit_char (n mod 10)])"

declare nat_digits.simps [simp del]

definition py_str_int :: "int \<Rightarrow> string" where
  "py_str_int n = (if n < 0 then CHR ''-'' # nat_digits (nat (- n)) else nat_digits (nat n))"

definition hex_digit :: "nat \<Rightarrow> char" where
  "hex_digit n = ''0123456789abcdef'' ! (n mod 16)"

lemma hex_digit_mem: "hex_digit n \<in> set ''0123456789abcdef''"
  unfolding hex_digit_def by (rule nth_mem) simp

lemma of_char_digit_char: "n < 10 \<Longrightarrow> (of_char (digit_char n) :: nat) = 48 + n"
  by (simp add: digit_char_def)

lemma is_digit_digit_char [simp]: "n < 10 \<Longrightarrow> is_digit (digit_char n)"
  by (simp add: is_digit_def of_char_digit_char)

lemma digit_value_digit_char [simp]: "n < 10 \<Longrightarrow> digit_value (digit_char n) = n"
  by (simp add: digit_value_def of_char_digit_char)

lemma nat_digits_ne [simp]: "nat_digits n \<noteq> []"
  by (subst nat_digits.simps) simp

lemma nat_digits_are_digits: "\<forall>c\<in>set (nat_digits n). is_digit c"
proof (induction n rule: nat_digits.induct)
  case (1 n)
  then show ?case by (subst nat_digits.simps) auto
qed

lemma digits_value_snoc: "digits_value (ds @ [c]) = 10 * digits_value ds + digit_value c"
  by (simp add: digits_value_def)

lemma digits_value_nat_digits [simp]: "digits_value (nat_digits n) = n"
proof (induction n rule: nat_digits.induct)
  case (1 n)
  show ?case
  proof (cases "n < 10")
    case True
    then show ?thesis by (subst nat_digits.simps) (simp add: digits_value_def)
  next
    case False
    with 1 show ?thesis
      by (subst nat_digits.simps) (simp add: digits_value_snoc mult_div_mod_eq)
  qed
qed

lemma nat_digits_inj: "nat_digits m = nat_digits n \<Longrightarrow> m = n"
  by (metis digits_value_nat_digits)

lemma is_digit_not_sign: "is_digit c \<Longrightarrow> c \<noteq> CHR ''-'' \<and> c \<noteq> CHR ''+'' \<and> c \<noteq> CHR ''_''"
  by (auto simp: is_digit_def)

lemma is_digit_not_space: "is_digit c \<Longrightarrow> \<not> int_space c \<and> \<not> is_space c"
  by (auto simp: is_digit_def int_space_def is_space_def Let_def)

lemma is_digit_ascii: "is_digit c \<Longrightarrow> (of_char c :: nat) < 128"
  by (simp add: is_digit_def)

lemma is_digit_not_newline: "is_digit c \<Longrightarrow> c \<noteq> CHR 0x0A"
  by (auto simp: is_digit_def)

lemma py_str_int_inj: "py_str_int m = py_str_int n \<Longrightarrow> m = n"
proof -
  assume eq: "py_str_int m = py_str_int n"
  have neq: "CHR ''-'' # xs \<noteq> nat_digits k" for xs k
    using nat_digits_are_digits [of k] is_digit_not_sign by (metis list.set_intros(1))
  show ?thesis
    using eq neq neq [symmetric]
    by (auto simp: py_str_int_def dest!: nat_digits_inj split: if_splits)
qed

lemma py_str_int_not_newline: "CHR 0x0A \<notin> set (py_str_int n)"
  using nat_digits_are_digits is_digit_not_newline by (auto simp: py_str_int_def)

lemma dropWhile_digits: "\<forall>c\<in>set ds. is_digit c \<Longrightarrow> ds \<noteq> [] \<Longrightarrow> dropWhile int_space ds = ds"
  by (cases ds) (auto dest: is_digit_not_space)

lemma int_prepare_py_str_int [simp]: "int_prepare (py_str_int n) = py_str_int n"
proof -
  let ?ds = "nat_digits (nat (- n))" and ?es = "nat_digits (nat n)"
  have asc: "is_ascii (py_str_int n)"
    using nat_digits_are_digits is_digit_ascii by (auto simp: is_ascii_def py_str_int_def)
  have digs: "\<forall>c\<in>set (rev (nat_digits k)). is_digit c" for k
    using nat_digits_are_digits by simp
  have rv: "dropWhile int_space (rev (nat_digits k) @ zs) = rev (nat_digits k) @ zs" for k zs
    using digs [of k] dropWhile_digits [of "rev (nat_digits k)"]
    by (cases "rev (nat_digits k)") (auto dest: is_digit_not_space)
  have fw: "dropWhile int_space (nat_digits k) = nat_digits k" for k
    using nat_digits_are_digits by (simp add: dropWhile_digits)
  have ms: "\<not> int_space CHR ''-''" by (simp add: int_space_def)
  show ?thesis
    using asc rv [of "nat (- n)" "[CHR ''-'']"] rv [of "nat n" "[]"] fw ms
    by (simp add: int_prepare_def Let_def py_str_int_def)
qed

lemma int_digits_nat_digits [simp]: "int_digits (nat_digits n) = Some (nat_digits n)"
proof -
  have "CHR ''_'' \<notin> set (nat_digits n)"
    using nat_digits_are_digits is_digit_not_sign by blast
  then show ?thesis
    using nat_digits_are_digits by (simp add: int_digits_def Let_def)
qed

lemma py_int_py_str_int:
  "length (py_str_int n) \<le> 4300 \<Longrightarrow> py_int (py_str_int n) = Some n"
proof -
  assume len: "length (py_str_int n) \<le> 4300"
  show ?thesis
  proof (cases "n < 0")
    case True
    with len have "length (nat_digits (nat (- n))) \<le> 4300" by (simp add: py_str_int_def)
    with True show ?thesis
      unfolding py_int_def int_prepare_py_str_int
      by (simp add: py_str_int_def int_unsigned_def)
  next
    case False
    obtain c ds where ds: "nat_digits (nat n) = c # ds" by (meson nat_digits_ne neq_Nil_conv)
    then have "is_digit c" using nat_digits_are_digits [of "nat n"] by simp
    then have "c \<noteq> CHR ''-''" "c \<noteq> CHR ''+''" by (auto dest: is_digit_not_sign)
    moreover have "int_unsigned (c # ds) = Some n"
      using ds len False int_digits_nat_digits [of "nat n"] digits_value_nat_digits [of "nat n"]
      by (simp add: int_unsigned_def py_str_int_def)
    ultimately show ?thesis
      using ds False unfolding py_int_def int_prepare_py_str_int by (simp add: py_str_int_def)
  qed
qed

end
