(* ===== verification/Scope.thy ===== *)
theory Scope
  imports PyStr
begin

section \<open>Scopes\<close>

text \<open>
  The scope language of \<^verbatim>\<open>src/vinctor_core/scope.py\<close>: a scope is \<^verbatim>\<open>action:resource\<close>, a
  resource is a slash-separated path, and a grant scope may end in one wildcard segment.
  The definitions follow the string code. The second half gives the language a meaning
  over path segments (\<open>scope_covers\<close>) and shows that the string operations compute it:
  matching is segment-wise matching, and subsumption is inclusion of what the two scopes
  authorise.
\<close>

subsection \<open>The code\<close>

definition ALLOWED_ACTIONS :: "string set" where
  "ALLOWED_ACTIONS = {''read'', ''write'', ''execute'', ''deploy'', ''delete'', ''send''}"

definition segment_char :: "char \<Rightarrow> bool" where
  "segment_char c \<longleftrightarrow>
     (let n = (of_char c :: nat)
      in (65 \<le> n \<and> n \<le> 90) \<or> (97 \<le> n \<and> n \<le> 122) \<or> (48 \<le> n \<and> n \<le> 57)
         \<or> c = CHR ''.'' \<or> c = CHR ''_'' \<or> c = CHR ''-'')"

definition RESOURCE_SEGMENT_RE :: "string \<Rightarrow> bool" where
  "RESOURCE_SEGMENT_RE segment \<longleftrightarrow> segment \<noteq> [] \<and> (\<forall>c\<in>set segment. segment_char c)"

definition attempted_scope :: "string \<Rightarrow> string \<Rightarrow> string" where
  "attempted_scope action resource = action @ '':'' @ resource"

definition is_valid_requested_action :: "string \<Rightarrow> bool" where
  "is_valid_requested_action action \<longleftrightarrow> action \<in> ALLOWED_ACTIONS"

definition is_valid_resource :: "string \<Rightarrow> bool \<Rightarrow> bool" where
  "is_valid_resource resource allow_terminal_wildcard =
     (if resource = [] then False
      else if CHR 0x00 \<in> set resource \<or> CHR 0x5C \<in> set resource \<or> CHR '':'' \<in> set resource
      then False
      else if startswith resource ''/'' \<or> endswith resource ''/'' then False
      else
        let segments = split_on CHR ''/'' resource
        in if length segments < 2 then False
           else if (\<exists>segment\<in>set segments. segment = []) then False
           else if (\<exists>segment\<in>set segments. segment \<in> {''.'', ''..''}) then False
           else
             let wildcard_segments =
                   filter (\<lambda>index. CHR ''*'' \<in> set (segments ! index)) [0..<length segments]
             in if wildcard_segments \<noteq> []
                then allow_terminal_wildcard
                     \<and> length wildcard_segments = 1
                     \<and> hd wildcard_segments = length segments - 1
                     \<and> last segments = ''*''
                     \<and> 3 \<le> length segments
                else (\<forall>segment\<in>set segments. RESOURCE_SEGMENT_RE segment))"

definition is_valid_requested_resource :: "string \<Rightarrow> bool" where
  "is_valid_requested_resource resource \<longleftrightarrow> is_valid_resource resource False"

definition is_valid_grant_scope :: "string \<Rightarrow> bool" where
  "is_valid_grant_scope scope =
     (case split_on CHR '':'' scope of
        [action, resource] \<Rightarrow>
          is_valid_requested_action action \<and> is_valid_resource resource True
      | _ \<Rightarrow> False)"

definition matches_terminal_resource_wildcard :: "string \<Rightarrow> string \<Rightarrow> string \<Rightarrow> bool" where
  "matches_terminal_resource_wildcard scope action resource =
     (case partition_on CHR '':'' scope of (scope_action, separator, scope_resource) \<Rightarrow>
        if separator \<noteq> '':'' \<or> scope_action \<noteq> action then False
        else if \<not> endswith scope_resource ''/*'' then False
        else startswith resource (removesuffix scope_resource ''*''))"

fun match_scope :: "string list \<Rightarrow> string \<Rightarrow> string \<Rightarrow> string option" where
  "match_scope [] action resource = None"
| "match_scope (scope # scopes) action resource =
     (if scope = attempted_scope action resource then Some scope
      else if matches_terminal_resource_wildcard scope action resource then Some scope
      else match_scope scopes action resource)"

definition scope_subsumes :: "string \<Rightarrow> string \<Rightarrow> bool" where
  "scope_subsumes broad_scope narrow_scope =
     (if broad_scope = narrow_scope then True
      else if \<not> is_valid_grant_scope broad_scope \<or> \<not> is_valid_grant_scope narrow_scope then False
      else
        case partition_on CHR '':'' broad_scope of (broad_action, _, broad_resource) \<Rightarrow>
        case partition_on CHR '':'' narrow_scope of (narrow_action, _, narrow_resource) \<Rightarrow>
          if broad_action \<noteq> narrow_action \<or> \<not> endswith broad_resource ''/*'' then False
          else startswith narrow_resource (removesuffix broad_resource ''*''))"

subsection \<open>The meaning of a scope over path segments\<close>

abbreviation segments_of :: "string \<Rightarrow> string list" where
  "segments_of \<equiv> split_on CHR ''/''"

definition pattern_covers :: "string list \<Rightarrow> string list \<Rightarrow> bool" where
  "pattern_covers ps rs \<longleftrightarrow>
     ps = rs \<or> (last ps = ''*'' \<and> length ps \<le> length rs \<and> take (length ps - 1) rs = butlast ps)"

definition scope_covers :: "string \<Rightarrow> string \<Rightarrow> string \<Rightarrow> bool" where
  "scope_covers scope action resource =
     (case split_on CHR '':'' scope of
        [scope_action, scope_resource] \<Rightarrow>
          scope_action = action \<and> pattern_covers (segments_of scope_resource) (segments_of resource)
      | _ \<Rightarrow> False)"

definition requestable :: "string \<Rightarrow> string \<Rightarrow> bool" where
  "requestable action resource \<longleftrightarrow>
     is_valid_requested_action action \<and> is_valid_requested_resource resource"

definition authorises :: "string \<Rightarrow> (string \<times> string) set" where
  "authorises scope = {(a, r). requestable a r \<and> match_scope [scope] a r \<noteq> None}"

definition concrete_segment :: "string \<Rightarrow> bool" where
  "concrete_segment s \<longleftrightarrow> RESOURCE_SEGMENT_RE s \<and> s \<noteq> ''.'' \<and> s \<noteq> ''..''"

definition loose_segment :: "string \<Rightarrow> bool" where
  "loose_segment s \<longleftrightarrow>
     s \<noteq> [] \<and> s \<noteq> ''.'' \<and> s \<noteq> ''..''
     \<and> CHR ''*'' \<notin> set s \<and> CHR 0x00 \<notin> set s \<and> CHR 0x5C \<notin> set s \<and> CHR '':'' \<notin> set s"

subsection \<open>Valid resources\<close>

lemma segment_char_not_special:
  "segment_char c \<Longrightarrow> c \<noteq> CHR ''*'' \<and> c \<noteq> CHR 0x00 \<and> c \<noteq> CHR 0x5C \<and> c \<noteq> CHR '':'' \<and> c \<noteq> CHR ''/''"
  by (auto simp: segment_char_def)

lemma concrete_is_loose: "concrete_segment s \<Longrightarrow> loose_segment s"
  using segment_char_not_special
  by (auto simp: concrete_segment_def loose_segment_def RESOURCE_SEGMENT_RE_def)

lemma filter_index_only_last:
  "filter (\<lambda>i. P (xs ! i)) [0..<length xs] = [length xs - 1]
     \<longleftrightarrow> xs \<noteq> [] \<and> P (last xs) \<and> (\<forall>x\<in>set (butlast xs). \<not> P x)"
proof (cases xs rule: rev_cases)
  case Nil
  then show ?thesis by simp
next
  case (snoc ys y)
  have "filter (\<lambda>i. P ((ys @ [y]) ! i)) [0..<length ys] = filter (\<lambda>i. P (ys ! i)) [0..<length ys]"
    by (rule filter_cong) (auto simp: nth_append)
  moreover have "filter (\<lambda>i. P (ys ! i)) [0..<length ys] = [] \<longleftrightarrow> (\<forall>x\<in>set ys. \<not> P x)"
    by (auto simp: filter_empty_conv all_set_conv_all_nth)
  ultimately show ?thesis
    using snoc by (auto simp: append_eq_Cons_conv filter_eq_Cons_iff)
qed

lemma filter_index_empty:
  "filter (\<lambda>i. P (xs ! i)) [0..<length xs] = [] \<longleftrightarrow> (\<forall>x\<in>set xs. \<not> P x)"
  by (auto simp: filter_empty_conv all_set_conv_all_nth)

lemma startswith_slash_segment: "startswith r ''/'' \<Longrightarrow> [] \<in> set (segments_of r)"
  by (auto simp: startswith_iff)

lemma endswith_slash_segment: "endswith r ''/'' \<Longrightarrow> [] \<in> set (segments_of r)"
  by (auto simp: endswith_iff split_on_append_sep)

lemma valid_segments_no_slash_ends:
  assumes "[] \<notin> set (segments_of r)"
  shows "\<not> startswith r ''/''" "\<not> endswith r ''/''" "r \<noteq> []"
  using assms startswith_slash_segment endswith_slash_segment by auto

lemma length_one_last: "length xs = 1 \<and> hd xs = n \<longleftrightarrow> xs = [n]"
  by (cases xs) auto

lemma is_valid_resourceD:
  assumes "is_valid_resource r allow"
  shows "CHR 0x00 \<notin> set r" "CHR 0x5C \<notin> set r" "CHR '':'' \<notin> set r"
    "2 \<le> length (segments_of r)"
    "\<And>s. s \<in> set (segments_of r) \<Longrightarrow> s \<noteq> [] \<and> s \<noteq> ''.'' \<and> s \<noteq> ''..''"
  using assms unfolding is_valid_resource_def Let_def by (simp_all split: if_splits) metis+

text \<open>A requested resource is valid when it has at least two segments, all of them concrete.\<close>

lemma valid_requested_resource_iff:
  "is_valid_requested_resource r \<longleftrightarrow>
     2 \<le> length (segments_of r) \<and> (\<forall>s\<in>set (segments_of r). concrete_segment s)"
  (is "?L \<longleftrightarrow> ?R")
proof
  assume ?L
  then show ?R
    unfolding is_valid_requested_resource_def is_valid_resource_def Let_def
    by (auto simp: concrete_segment_def split: if_splits)
next
  assume R: ?R
  have chars: "c \<notin> set r" if "c \<in> {CHR 0x00, CHR 0x5C, CHR '':'', CHR ''*''}" for c
  proof
    assume "c \<in> set r"
    moreover have "c \<noteq> CHR ''/''" using that by auto
    ultimately obtain s where "s \<in> set (segments_of r)" "c \<in> set s"
      by (metis split_on_char_mem)
    with R that show False
      using segment_char_not_special by (auto simp: concrete_segment_def RESOURCE_SEGMENT_RE_def)
  qed
  have ne: "[] \<notin> set (segments_of r)"
    using R by (auto simp: concrete_segment_def RESOURCE_SEGMENT_RE_def)
  have stars: "\<forall>s\<in>set (segments_of r). CHR ''*'' \<notin> set s"
    using R concrete_is_loose by (auto simp: loose_segment_def)
  then have "filter (\<lambda>i. CHR ''*'' \<in> set (segments_of r ! i)) [0..<length (segments_of r)] = []"
    by (simp add: filter_index_empty)
  then show ?L
    using R chars ne valid_segments_no_slash_ends [OF ne]
    unfolding is_valid_requested_resource_def is_valid_resource_def Let_def
    by (auto simp: concrete_segment_def)
qed

text \<open>
  A grant resource is either concrete, or ends in the one segment \<^verbatim>\<open>*\<close> after at least two
  segments that are merely loose.
\<close>

lemma valid_grant_resource_iff:
  "is_valid_resource r True \<longleftrightarrow>
     is_valid_requested_resource r
     \<or> (3 \<le> length (segments_of r) \<and> last (segments_of r) = ''*''
         \<and> (\<forall>s\<in>set (butlast (segments_of r)). loose_segment s))"
  (is "?L \<longleftrightarrow> ?C \<or> ?W")
proof
  assume L: ?L
  let ?segs = "segments_of r"
  let ?ws = "filter (\<lambda>i. CHR ''*'' \<in> set (?segs ! i)) [0..<length ?segs]"
  show "?C \<or> ?W"
  proof (cases "?ws = []")
    case True
    with L show ?thesis
      unfolding is_valid_requested_resource_def is_valid_resource_def Let_def
      by (auto split: if_splits)
  next
    case False
    then have ws: "?ws = [length ?segs - 1]" "last ?segs = ''*''" "3 \<le> length ?segs"
      using L length_one_last [of ?ws "length ?segs - 1"]
      unfolding is_valid_resource_def Let_def by (auto split: if_splits)
    then have stars: "\<forall>s\<in>set (butlast ?segs). CHR ''*'' \<notin> set s"
      using filter_index_only_last [of "\<lambda>s. CHR ''*'' \<in> set s" ?segs] by blast
    have nochar: "c \<notin> set s" if "s \<in> set ?segs" "c \<in> {CHR 0x00, CHR 0x5C, CHR '':''}" for s c
    proof
      assume "c \<in> set s"
      moreover have "CHR ''/'' \<noteq> c" using that(2) by auto
      ultimately have "c \<in> set r" using that(1) split_on_char_mem by metis
      with that(2) is_valid_resourceD(1-3) [OF L] show False by auto
    qed
    have "\<forall>s\<in>set (butlast ?segs). loose_segment s"
    proof
      fix s assume s: "s \<in> set (butlast ?segs)"
      then have "s \<in> set ?segs" by (rule in_set_butlastD)
      then show "loose_segment s"
        using s stars is_valid_resourceD(5) [OF L, of s] nochar [of s]
        unfolding loose_segment_def by simp
    qed
    with ws show ?thesis by simp
  qed
next
  assume "?C \<or> ?W"
  then show ?L
  proof
    assume C: ?C
    then have "\<forall>s\<in>set (segments_of r). CHR ''*'' \<notin> set s"
      using concrete_is_loose by (auto simp: valid_requested_resource_iff loose_segment_def)
    with C show ?L
      unfolding is_valid_requested_resource_def is_valid_resource_def Let_def
      by (auto simp: filter_index_empty split: if_splits)
  next
    assume W: ?W
    let ?segs = "segments_of r"
    have segs: "?segs = butlast ?segs @ [''*'']"
      using W by (metis append_butlast_last_id split_on_ne)
    have mem: "s \<in> set ?segs \<Longrightarrow> s = ''*'' \<or> loose_segment s" for s
      using W segs by (metis Un_iff empty_iff empty_set list.set_intros(1) set_ConsD set_append)
    have chars: "c \<notin> set r" if "c \<in> {CHR 0x00, CHR 0x5C, CHR '':''}" for c
    proof
      assume "c \<in> set r"
      moreover have "CHR ''/'' \<noteq> c" using that by auto
      ultimately obtain s where "s \<in> set ?segs" "c \<in> set s" by (metis split_on_char_mem)
      with mem [of s] that show False by (auto simp: loose_segment_def)
    qed
    have nd: "[] \<notin> set ?segs" "''.'' \<notin> set ?segs" "''..'' \<notin> set ?segs"
      using mem [of "[]"] mem [of "''.''"] mem [of "''..''"] by (auto simp: loose_segment_def)
    have ws: "filter (\<lambda>i. CHR ''*'' \<in> set (?segs ! i)) [0..<length ?segs] = [length ?segs - 1]"
      using W filter_index_only_last [of "\<lambda>s. CHR ''*'' \<in> set s" ?segs]
      by (simp add: loose_segment_def)
    show ?L
      unfolding is_valid_resource_def Let_def ws
      using W chars nd valid_segments_no_slash_ends [OF nd(1)] by auto
  qed
qed

subsection \<open>Matching is segment-wise\<close>

lemma allowed_action_no_colon: "is_valid_requested_action a \<Longrightarrow> CHR '':'' \<notin> set a"
  by (auto simp: is_valid_requested_action_def ALLOWED_ACTIONS_def)

lemma valid_grant_scope_iff:
  "is_valid_grant_scope s \<longleftrightarrow>
     (\<exists>a p. s = a @ CHR '':'' # p \<and> CHR '':'' \<notin> set a \<and> CHR '':'' \<notin> set p
            \<and> is_valid_requested_action a \<and> is_valid_resource p True)"
proof -
  have "is_valid_grant_scope s \<longleftrightarrow>
     (\<exists>a p. split_on CHR '':'' s = [a, p] \<and> is_valid_requested_action a \<and> is_valid_resource p True)"
    by (auto simp: is_valid_grant_scope_def split: list.splits)
  then show ?thesis by (auto simp: split_on_two)
qed

lemma valid_grant_scopeE:
  assumes "is_valid_grant_scope s"
  obtains a p where "s = a @ CHR '':'' # p" "CHR '':'' \<notin> set a" "CHR '':'' \<notin> set p"
    "is_valid_requested_action a" "is_valid_resource p True"
    "split_on CHR '':'' s = [a, p]" "partition_on CHR '':'' s = (a, '':'', p)"
  using assms by (auto simp: valid_grant_scope_iff split_on_two)

lemma valid_grant_resource_cases:
  assumes "is_valid_resource p True"
  obtains (concrete) "is_valid_requested_resource p" "CHR ''*'' \<notin> set p"
  | (wildcard) pre where "segments_of p = pre @ [''*'']" "2 \<le> length pre"
      "\<forall>s\<in>set pre. loose_segment s" "p = join_with ''/'' pre @ ''/*''"
proof (cases "is_valid_requested_resource p")
  case True
  moreover have "CHR ''*'' \<notin> set p"
  proof
    assume "CHR ''*'' \<in> set p"
    then have "\<exists>x\<in>set (segments_of p). CHR ''*'' \<in> set x"
      using split_on_char_mem [of "CHR ''/''" "CHR ''*''" p] by simp
    with True show False
      using concrete_is_loose by (auto simp: valid_requested_resource_iff loose_segment_def)
  qed
  ultimately show ?thesis using concrete by blast
next
  case False
  let ?pre = "butlast (segments_of p)"
  from False assms have W: "3 \<le> length (segments_of p)" "last (segments_of p) = ''*''"
    "\<forall>s\<in>set ?pre. loose_segment s" by (auto simp: valid_grant_resource_iff)
  then have segs: "segments_of p = ?pre @ [''*'']" by (metis append_butlast_last_id split_on_ne)
  moreover have "2 \<le> length ?pre" using W(1) by simp
  moreover have "p = join_with ''/'' ?pre @ ''/*''"
  proof -
    have ne: "?pre \<noteq> []" using \<open>2 \<le> length ?pre\<close> by (metis list.size(3) not_numeral_le_zero)
    have "p = join_with ''/'' (segments_of p)" by simp
    also have "\<dots> = join_with ''/'' (?pre @ [''*''])" using segs by (rule arg_cong)
    finally show ?thesis unfolding join_with_append [OF ne, of "[''*'']" "''/''", simplified] .
  qed
  ultimately show ?thesis using W wildcard by blast
qed

lemma startswith_segments:
  assumes "pre \<noteq> []"
    and no_slash: "\<forall>s\<in>set pre. CHR ''/'' \<notin> set s"
  shows "startswith r (join_with ''/'' pre @ ''/'') \<longleftrightarrow>
     length pre < length (segments_of r) \<and> take (length pre) (segments_of r) = pre"
proof
  assume "startswith r (join_with ''/'' pre @ ''/'')"
  then obtain t where r: "r = join_with ''/'' pre @ CHR ''/'' # t"
    by (auto simp: startswith_iff)
  then have "segments_of r = pre @ segments_of t"
    using split_join [OF assms] by (simp add: split_on_append_sep)
  then show "length pre < length (segments_of r) \<and> take (length pre) (segments_of r) = pre"
    by simp
next
  assume h: "length pre < length (segments_of r) \<and> take (length pre) (segments_of r) = pre"
  then obtain ys where ys: "segments_of r = pre @ ys" "ys \<noteq> []"
    by (metis append_take_drop_id drop_eq_Nil not_le)
  have "r = join_with ''/'' pre @ ''/'' @ join_with ''/'' ys"
    using join_with_append [OF assms(1) ys(2), of "''/''"] ys(1) join_split [of "CHR ''/''" r] by simp
  then show "startswith r (join_with ''/'' pre @ ''/'')"
    by (auto simp: startswith_iff)
qed

lemma wildcard_matches:
  assumes "CHR '':'' \<notin> set a" "p = join_with ''/'' pre @ ''/*''" "pre \<noteq> []"
    "segments_of p = pre @ [''*'']"
  shows "matches_terminal_resource_wildcard (a @ CHR '':'' # p) act r \<longleftrightarrow>
     a = act \<and> length pre < length (segments_of r) \<and> take (length pre) (segments_of r) = pre"
proof -
  have e: "endswith p ''/*''" using assms(2) by simp
  have "p = (join_with ''/'' pre @ ''/'') @ ''*''" using assms(2) by simp
  then have rem: "removesuffix p ''*'' = join_with ''/'' pre @ ''/''"
    by (metis list.discI removesuffix_append)
  have ns: "\<forall>s\<in>set pre. CHR ''/'' \<notin> set s"
    using split_on_parts [of _ "CHR ''/''" p] assms(4) by simp
  show ?thesis
    unfolding matches_terminal_resource_wildcard_def partition_on_found [OF assms(1)]
    using e rem startswith_segments [OF assms(3) ns] by simp
qed

lemma concrete_no_wildcard_match:
  assumes "CHR '':'' \<notin> set a" "CHR ''*'' \<notin> set p"
  shows "\<not> matches_terminal_resource_wildcard (a @ CHR '':'' # p) act r"
  using assms by (auto simp: matches_terminal_resource_wildcard_def endswith_iff)

lemma requested_no_star_segment:
  "is_valid_requested_resource r \<Longrightarrow> s \<in> set (segments_of r) \<Longrightarrow> CHR ''*'' \<notin> set s"
  using concrete_is_loose by (auto simp: valid_requested_resource_iff loose_segment_def)

lemma attempted_scope_eq_iff:
  "CHR '':'' \<notin> set a \<Longrightarrow> CHR '':'' \<notin> set act \<Longrightarrow>
     a @ CHR '':'' # p = attempted_scope act r \<longleftrightarrow> a = act \<and> p = r"
proof -
  assume a: "CHR '':'' \<notin> set a" "CHR '':'' \<notin> set act"
  have "a @ CHR '':'' # p = act @ CHR '':'' # r \<Longrightarrow> a = act \<and> p = r"
    using arg_cong [of "a @ CHR '':'' # p" "act @ CHR '':'' # r" "partition_on CHR '':''"]
    unfolding partition_on_found [OF a(1)] partition_on_found [OF a(2)] by simp
  then show ?thesis unfolding attempted_scope_def by auto
qed

lemma matches_iff_covers:
  assumes s: "is_valid_grant_scope s" and req: "requestable act r"
  shows "s = attempted_scope act r \<or> matches_terminal_resource_wildcard s act r
           \<longleftrightarrow> scope_covers s act r"
proof -
  obtain a p where ap: "s = a @ CHR '':'' # p" "CHR '':'' \<notin> set a" "is_valid_resource p True"
      "split_on CHR '':'' s = [a, p]"
    using s by (rule valid_grant_scopeE)
  have act: "CHR '':'' \<notin> set act" and r: "is_valid_requested_resource r"
    using req allowed_action_no_colon by (auto simp: requestable_def)
  note eq = attempted_scope_eq_iff [OF ap(2) act, of p r]
  show ?thesis
    using ap(3)
  proof (cases rule: valid_grant_resource_cases)
    case concrete
    have "last (segments_of p) \<noteq> ''*''"
      using requested_no_star_segment [OF concrete(1), of "last (segments_of p)"] by auto
    then have "pattern_covers (segments_of p) (segments_of r) \<longleftrightarrow> p = r"
      by (auto simp: pattern_covers_def dest: split_on_inj)
    then show ?thesis
      using eq ap concrete_no_wildcard_match [OF ap(2) concrete(2)] by (auto simp: scope_covers_def)
  next
    case (wildcard pre)
    have pre: "pre \<noteq> []" using wildcard(2) by auto
    have "p \<noteq> r"
      using requested_no_star_segment [OF r, of "''*''"] wildcard(1) by auto
    moreover have "pattern_covers (segments_of p) (segments_of r) \<longleftrightarrow>
      length pre < length (segments_of r) \<and> take (length pre) (segments_of r) = pre"
      using \<open>p \<noteq> r\<close> split_on_inj [of "CHR ''/''" p r] wildcard(1)
      by (auto simp: pattern_covers_def)
    ultimately show ?thesis
      using eq ap wildcard_matches [OF ap(2) wildcard(4) pre wildcard(1)]
      by (auto simp: scope_covers_def)
  qed
qed

lemma match_scope_eq_find:
  "match_scope scopes act r =
     find_first (\<lambda>s. s = attempted_scope act r \<or> matches_terminal_resource_wildcard s act r) scopes"
  by (induction scopes) auto

lemma match_scope_Some_mem: "match_scope scopes a r = Some s \<Longrightarrow> s \<in> set scopes"
  unfolding match_scope_eq_find by (drule find_first_Some) simp

lemma find_first_cong: "(\<And>x. x \<in> set xs \<Longrightarrow> P x = Q x) \<Longrightarrow> find_first P xs = find_first Q xs"
  by (induction xs) auto

lemmas scope_eval =
  is_valid_grant_scope_def is_valid_requested_action_def ALLOWED_ACTIONS_def
  is_valid_resource_def is_valid_requested_resource_def startswith_def endswith_def
  RESOURCE_SEGMENT_RE_def segment_char_def upt_rec

text \<open>
  (C30) On valid grant scopes and a valid request, the string matching of
  \<^verbatim>\<open>match_scope\<close> returns the first scope whose path pattern covers the requested path
  segment by segment: a wildcard stands for one or more whole segments below its prefix,
  never for a part of one.
\<close>

theorem match_scope_refines_segments:
  assumes "\<forall>s\<in>set scopes. is_valid_grant_scope s"
    and "is_valid_requested_action action" and "is_valid_requested_resource resource"
  shows "match_scope scopes action resource = find_first (\<lambda>s. scope_covers s action resource) scopes"
  using assms matches_iff_covers
  by (auto simp: match_scope_eq_find requestable_def intro!: find_first_cong)

theorem match_scope_refines_segments_witness:
  "match_scope [''write:repo/feature/*'', ''read:repo/main''] ''write'' ''repo/feature/x/y''
     = find_first (\<lambda>s. scope_covers s ''write'' ''repo/feature/x/y'')
         [''write:repo/feature/*'', ''read:repo/main'']"
  by (rule match_scope_refines_segments)
    (simp_all add: scope_eval)

subsection \<open>Subsumption is inclusion\<close>

lemma authorises_iff:
  "is_valid_grant_scope s \<Longrightarrow> (a, r) \<in> authorises s \<longleftrightarrow> requestable a r \<and> scope_covers s a r"
  using matches_iff_covers [of s a r] by (auto simp: authorises_def)

lemma pattern_covers_wildcard:
  "pattern_covers (pre @ [''*'']) rs \<longleftrightarrow>
     rs = pre @ [''*''] \<or> (length pre < length rs \<and> take (length pre) rs = pre)"
  by (auto simp: pattern_covers_def)

text \<open>Subsumption of valid scopes, read off their segments.\<close>

lemma scope_subsumes_segments:
  assumes b: "is_valid_grant_scope b" "split_on CHR '':'' b = [ab, pb]"
    and n: "is_valid_grant_scope n" "split_on CHR '':'' n = [an, pn]"
  shows "scope_subsumes b n \<longleftrightarrow>
     b = n \<or> (ab = an \<and> last (segments_of pb) = ''*''
               \<and> length (segments_of pb) \<le> length (segments_of pn)
               \<and> take (length (segments_of pb) - 1) (segments_of pn) = butlast (segments_of pb))"
proof -
  have pb: "partition_on CHR '':'' b = (ab, '':'', pb)" "is_valid_resource pb True"
    using b by (auto elim!: valid_grant_scopeE)
  have pn: "partition_on CHR '':'' n = (an, '':'', pn)"
    using n by (auto elim!: valid_grant_scopeE)
  note unfolded = scope_subsumes_def pb(1) pn prod.case
  show ?thesis
    using pb(2)
  proof (cases rule: valid_grant_resource_cases)
    case concrete
    have "\<not> endswith pb ''/*''" using concrete(2) by (auto simp: endswith_iff)
    moreover have "last (segments_of pb) \<noteq> ''*''"
      using requested_no_star_segment [OF concrete(1), of "last (segments_of pb)"] by auto
    ultimately show ?thesis unfolding unfolded by simp
  next
    case (wildcard pre)
    have ne: "pre \<noteq> []" using wildcard(2) by auto
    have ns: "\<forall>s\<in>set pre. CHR ''/'' \<notin> set s"
      using split_on_parts [of _ "CHR ''/''" pb] wildcard(1) by simp
    have "pb = (join_with ''/'' pre @ ''/'') @ ''*''" using wildcard(4) by simp
    then have rem: "removesuffix pb ''*'' = join_with ''/'' pre @ ''/''"
      by (metis list.discI removesuffix_append)
    have e: "endswith pb ''/*''" using wildcard(4) by simp
    show ?thesis
      unfolding unfolded rem startswith_segments [OF ne ns]
      using b(1) n(1) e wildcard(1) by auto
  qed
qed

lemma take_take_butlast:
  assumes "k < length ps" "length ps \<le> length rs" "take (length ps - 1) rs = butlast ps"
  shows "take k rs = take k ps"
proof -
  have "take k rs = take k (take (length ps - 1) rs)" using assms(1) by simp
  also have "\<dots> = take k ps" using assms(1,3) by (simp add: take_butlast)
  finally show ?thesis .
qed

lemma scope_subsumes_authorises:
  assumes b: "is_valid_grant_scope b" and n: "is_valid_grant_scope n" and sub: "scope_subsumes b n"
  shows "authorises n \<subseteq> authorises b"
proof (cases "b = n")
  case False
  obtain ab pb where ab: "split_on CHR '':'' b = [ab, pb]" using b by (rule valid_grant_scopeE)
  obtain an pn where an: "split_on CHR '':'' n = [an, pn]" using n by (rule valid_grant_scopeE)
  have seg: "ab = an" "last (segments_of pb) = ''*''"
      "length (segments_of pb) \<le> length (segments_of pn)"
      "take (length (segments_of pb) - 1) (segments_of pn) = butlast (segments_of pb)"
    using scope_subsumes_segments [OF b ab n an] sub False by auto
  show ?thesis
  proof
    fix x assume "x \<in> authorises n"
    then obtain a r where x: "x = (a, r)" "requestable a r" "scope_covers n a r"
      using authorises_iff [OF n] by (cases x) auto
    then have cov: "an = a" "pattern_covers (segments_of pn) (segments_of r)"
      by (auto simp: scope_covers_def an)
    have "take (length (segments_of pb) - 1) (segments_of r) = butlast (segments_of pb)
        \<and> length (segments_of pb) \<le> length (segments_of r)"
    proof (cases "segments_of pn = segments_of r")
      case True
      with seg show ?thesis by simp
    next
      case neq: False
      then have "length (segments_of pn) \<le> length (segments_of r)"
        "take (length (segments_of pn) - 1) (segments_of r) = butlast (segments_of pn)"
        using cov(2) by (auto simp: pattern_covers_def)
      moreover have "length (segments_of pb) - 1 < length (segments_of pn)"
        using seg(3) split_on_ne by (metis diff_less length_greater_0_conv less_le_trans zero_less_one)
      ultimately show ?thesis using seg take_take_butlast by fastforce
    qed
    then have "scope_covers b a r"
      using seg cov(1) by (simp add: scope_covers_def ab pattern_covers_def)
    with x show "x \<in> authorises b" using authorises_iff [OF b] by simp
  qed
qed simp

lemma requested_of_segments:
  assumes "2 \<le> length ss" "\<forall>s\<in>set ss. concrete_segment s"
  shows "is_valid_requested_resource (join_with ''/'' ss)" "segments_of (join_with ''/'' ss) = ss"
proof -
  have ns: "\<forall>s\<in>set ss. CHR ''/'' \<notin> set s"
    using assms(2) segment_char_not_special
    by (fastforce simp: concrete_segment_def RESOURCE_SEGMENT_RE_def)
  moreover have "ss \<noteq> []" using assms(1) by auto
  ultimately show s: "segments_of (join_with ''/'' ss) = ss" by (simp add: split_join)
  then show "is_valid_requested_resource (join_with ''/'' ss)"
    using assms by (simp add: valid_requested_resource_iff)
qed

lemma authorised_prefix_concrete:
  assumes n: "is_valid_grant_scope n" "split_on CHR '':'' n = [an, pn]"
    and pre: "segments_of pn = pre @ [''*'']" and ne: "authorises n \<noteq> {}"
  shows "is_valid_requested_action an" "\<forall>s\<in>set pre. concrete_segment s"
proof -
  obtain a r where ar: "requestable a r" "scope_covers n a r"
    using ne authorises_iff [OF n(1)] by fastforce
  then have "an = a" and cov: "pattern_covers (pre @ [''*'']) (segments_of r)"
    by (auto simp: scope_covers_def n(2) pre)
  then show "is_valid_requested_action an" using ar(1) by (simp add: requestable_def)
  have "segments_of r \<noteq> pre @ [''*'']"
    using requested_no_star_segment [of r "''*''"] ar(1) by (auto simp: requestable_def)
  then have "take (length pre) (segments_of r) = pre"
    using cov by (simp add: pattern_covers_wildcard)
  then have "set pre \<subseteq> set (segments_of r)" by (metis set_take_subset)
  then show "\<forall>s\<in>set pre. concrete_segment s"
    using ar(1) by (auto simp: requestable_def valid_requested_resource_iff)
qed

lemma concrete_letter: "concrete_segment ''x''" "concrete_segment ''y''"
  by (simp_all add: concrete_segment_def RESOURCE_SEGMENT_RE_def segment_char_def)

lemma authorises_subset_subsumes:
  assumes b: "is_valid_grant_scope b" and n: "is_valid_grant_scope n"
    and ne: "authorises n \<noteq> {}" and sub: "authorises n \<subseteq> authorises b"
  shows "scope_subsumes b n"
proof -
  obtain ab pb where ab: "b = ab @ CHR '':'' # pb" "split_on CHR '':'' b = [ab, pb]"
      "is_valid_resource pb True"
    using b by (rule valid_grant_scopeE)
  obtain an pn where an: "n = an @ CHR '':'' # pn" "split_on CHR '':'' n = [an, pn]"
      "is_valid_requested_action an" "is_valid_resource pn True"
    using n by (rule valid_grant_scopeE)
  note iff = scope_subsumes_segments [OF b ab(2) n an(2)]
  have transfer: "ab = an \<and> pattern_covers (segments_of pb) (segments_of r)"
    if "is_valid_requested_resource r" "pattern_covers (segments_of pn) (segments_of r)" for r
  proof -
    have "(an, r) \<in> authorises n"
      using that an(3) authorises_iff [OF n] by (simp add: requestable_def scope_covers_def an(2))
    with sub have "scope_covers b an r" using authorises_iff [OF b] by blast
    then show ?thesis by (simp add: scope_covers_def ab(2))
  qed
  show ?thesis
    using an(4)
  proof (cases rule: valid_grant_resource_cases)
    case concrete
    then have t: "ab = an" "pattern_covers (segments_of pb) (segments_of pn)"
      using transfer [of pn] by (auto simp: pattern_covers_def)
    show ?thesis
    proof (cases "segments_of pb = segments_of pn")
      case True
      then have "b = n" using t(1) ab(1) an(1) by (simp add: split_on_inj)
      then show ?thesis by (simp add: scope_subsumes_def)
    next
      case False
      with t show ?thesis unfolding iff pattern_covers_def by auto
    qed
  next
    case (wildcard pre)
    have conc: "\<forall>s\<in>set pre. concrete_segment s"
      using authorised_prefix_concrete [OF n an(2) wildcard(1) ne] by blast
    have cov: "ab = an \<and> pattern_covers (segments_of pb) (pre @ [z])" if "concrete_segment z" for z
      using transfer [of "join_with ''/'' (pre @ [z])"] requested_of_segments [of "pre @ [z]"]
        conc that wildcard(1,2) by (simp add: pattern_covers_wildcard)
    have xy: "ab = an" "pattern_covers (segments_of pb) (pre @ [''x''])"
        "pattern_covers (segments_of pb) (pre @ [''y''])"
      using cov concrete_letter by blast+
    then have w: "last (segments_of pb) = ''*''" by (auto simp: pattern_covers_def)
    then have "segments_of pb \<noteq> pre @ [''x'']" by auto
    then have "length (segments_of pb) \<le> Suc (length pre)"
      "take (length (segments_of pb) - 1) (pre @ [''x'']) = butlast (segments_of pb)"
      using xy(2) by (auto simp: pattern_covers_def)
    then show ?thesis unfolding iff using xy(1) w wildcard(1) by auto
  qed
qed

text \<open>The valid scopes that authorise no request: a wildcard after a segment no request can have.\<close>

lemma authorises_nothing_iff:
  assumes n: "is_valid_grant_scope n"
  shows "authorises n = {} \<longleftrightarrow>
    (\<exists>a pre. n = a @ '':'' @ join_with ''/'' pre @ ''/*'' \<and> segments_of (join_with ''/'' pre @ ''/*'') = pre @ [''*'']
       \<and> (\<exists>s\<in>set pre. \<not> concrete_segment s))"
proof -
  obtain an pn where an: "n = an @ CHR '':'' # pn" "CHR '':'' \<notin> set an" "CHR '':'' \<notin> set pn"
      "split_on CHR '':'' n = [an, pn]" "is_valid_requested_action an" "is_valid_resource pn True"
    using n by (rule valid_grant_scopeE)
  have authorised: "authorises n \<noteq> {}"
    if "is_valid_requested_resource r" "pattern_covers (segments_of pn) (segments_of r)" for r
    using that an(4,5) authorises_iff [OF n] by (auto simp: requestable_def scope_covers_def)
  show ?thesis
  proof
    assume empty: "authorises n = {}"
    from an(6) show "\<exists>a pre. n = a @ '':'' @ join_with ''/'' pre @ ''/*''
        \<and> segments_of (join_with ''/'' pre @ ''/*'') = pre @ [''*''] \<and> (\<exists>s\<in>set pre. \<not> concrete_segment s)"
    proof (cases rule: valid_grant_resource_cases)
      case concrete
      then show ?thesis using authorised [of pn] empty by (simp add: pattern_covers_def)
    next
      case (wildcard pre)
      have "\<exists>s\<in>set pre. \<not> concrete_segment s"
      proof (rule ccontr)
        assume "\<not> (\<exists>s\<in>set pre. \<not> concrete_segment s)"
        then have "is_valid_requested_resource (join_with ''/'' (pre @ [''x'']))"
          "segments_of (join_with ''/'' (pre @ [''x''])) = pre @ [''x'']"
          using requested_of_segments [of "pre @ [''x'']"] concrete_letter wildcard(2) by auto
        then show False
          using authorised [of "join_with ''/'' (pre @ [''x''])"] empty wildcard(1) by (simp add: pattern_covers_wildcard)
      qed
      then show ?thesis using an(1) wildcard(1,4) by (intro exI [of _ an] exI [of _ pre]) simp
    qed
  next
    assume "\<exists>a pre. n = a @ '':'' @ join_with ''/'' pre @ ''/*'' \<and> segments_of (join_with ''/'' pre @ ''/*'') = pre @ [''*'']
        \<and> (\<exists>s\<in>set pre. \<not> concrete_segment s)"
    then obtain a pre where p: "n = a @ CHR '':'' # join_with ''/'' pre @ ''/*''"
      "segments_of (join_with ''/'' pre @ ''/*'') = pre @ [''*'']" "\<exists>s\<in>set pre. \<not> concrete_segment s" by auto
    have "count_list (an @ CHR '':'' # pn) CHR '':'' = 1" using an(2,3) by (simp add: count_list_0_iff)
    then have "count_list (a @ CHR '':'' # join_with ''/'' pre @ ''/*'') CHR '':'' = 1" using an(1) p(1) by simp
    then have "CHR '':'' \<notin> set a \<and> CHR '':'' \<notin> set (join_with ''/'' pre @ ''/*'')"
      by (simp add: count_list_0_iff)
    then have "split_on CHR '':'' n = [a, join_with ''/'' pre @ ''/*'']" unfolding p(1) by (simp add: split_on_two)
    with authorised_prefix_concrete(2) [OF n _ p(2)] p(3) show "authorises n = {}" by blast
  qed
qed

text \<open>
  (C3) \<^verbatim>\<open>scope_subsumes\<close> is privilege inclusion between valid grant scopes. If the broad scope subsumes
  the narrow one, every request the narrow scope matches is matched by the broad one. For a
  narrow scope that matches any request at all the converse holds too, so there subsumption is
  exactly inclusion. The only valid scopes that match no request are those that end in a wildcard after a segment with a
  character no request may have; validation lets them pass, and for them inclusion holds of
  every broad scope while subsumption need not.
\<close>

theorem scope_subsumes_iff_authorises:
  assumes "is_valid_grant_scope broad_scope" and "is_valid_grant_scope narrow_scope"
  shows "(scope_subsumes broad_scope narrow_scope \<longrightarrow> authorises narrow_scope \<subseteq> authorises broad_scope)
       \<and> (authorises narrow_scope \<noteq> {} \<longrightarrow>
            scope_subsumes broad_scope narrow_scope = (authorises narrow_scope \<subseteq> authorises broad_scope))
       \<and> (authorises narrow_scope = {} \<longleftrightarrow>
            (\<exists>a pre. narrow_scope = a @ '':'' @ join_with ''/'' pre @ ''/*''
               \<and> segments_of (join_with ''/'' pre @ ''/*'') = pre @ [''*''] \<and> (\<exists>s\<in>set pre. \<not> concrete_segment s)))"
  using assms scope_subsumes_authorises authorises_subset_subsumes authorises_nothing_iff [OF assms(2)] by blast

lemma scope_eval_feature:
  "is_valid_grant_scope ''write:repo/feature/*''" "is_valid_grant_scope ''write:repo/feature/a''"
  by (simp_all add: scope_eval)

theorem scope_subsumes_iff_authorises_witness:
  "scope_subsumes ''write:repo/feature/*'' ''write:repo/feature/a''
     \<and> authorises ''write:repo/feature/a'' \<subseteq> authorises ''write:repo/feature/*''"
proof -
  have sub: "scope_subsumes ''write:repo/feature/*'' ''write:repo/feature/a''"
    by (simp add: scope_subsumes_def scope_eval partition_on_def removesuffix_def)
  then show ?thesis
    using scope_subsumes_iff_authorises [OF scope_eval_feature] by blast
qed

text \<open>
  The wildcard branch of \<^verbatim>\<open>_is_valid_resource\<close> returns before the
  character check of the segments, so a grant scope whose prefix holds characters outside
  letters, digits, \<^verbatim>\<open>.\<close>, \<^verbatim>\<open>_\<close> and \<^verbatim>\<open>-\<close> passes validation when it ends in a wildcard and fails
  when it does not. Such a scope authorises no valid request.
\<close>

theorem wildcard_scope_charset_gap:
  "is_valid_grant_scope ''write:repo/read me/*'' \<and> \<not> is_valid_grant_scope ''write:repo/read me''
     \<and> authorises ''write:repo/read me/*'' = {}"
proof -
  have v: "is_valid_grant_scope ''write:repo/read me/*''" by (simp add: scope_eval)
  moreover have "\<not> is_valid_grant_scope ''write:repo/read me''" by (simp add: scope_eval)
  moreover have "authorises ''write:repo/read me/*'' = {}"
  proof (rule ccontr)
    assume ne: "authorises ''write:repo/read me/*'' \<noteq> {}"
    have "\<forall>s\<in>set [''repo'', ''read me'']. concrete_segment s"
      by (rule authorised_prefix_concrete(2) [OF v _ _ ne, of "''write''" "''repo/read me/*''"])
        simp_all
    then show False by (simp add: concrete_segment_def RESOURCE_SEGMENT_RE_def segment_char_def)
  qed
  ultimately show ?thesis by blast
qed

end
