(* ===== verification/CoreModels.thy ===== *)
theory CoreModels
  imports Prelude
begin

section \<open>Data of the authorization core\<close>

text \<open>
  The dataclasses of \<^verbatim>\<open>src/vinctor_core/models.py\<close> as records, one field per field, in the
  order of the source. Field names carry a prefix for their class, since several classes
  share names. Statuses and modes stay strings: the code compares them with literals and
  handles every other value. A \<^verbatim>\<open>BoundaryLookup\<close> is its \<^verbatim>\<open>get\<close> method.
\<close>

datatype Decision = Permit | Deny

record Grant =
  g_grant_id :: string
  g_grant_ref :: string
  g_workspace_id :: string
  g_agent_id :: string
  g_scopes :: "string list"
  g_status :: string
  g_expires_at :: "instant option"

record Boundary =
  b_boundary_id :: string
  b_workspace_id :: string
  b_name :: string
  b_runtime :: string
  b_boundary_type :: string
  b_mode :: string
  b_status :: string
  b_created_at :: instant
  b_updated_at :: instant

definition with_status :: "Boundary \<Rightarrow> string \<Rightarrow> instant \<Rightarrow> Boundary" where
  "with_status self status updated_at =
     \<lparr>b_boundary_id = b_boundary_id self,
      b_workspace_id = b_workspace_id self,
      b_name = b_name self,
      b_runtime = b_runtime self,
      b_boundary_type = b_boundary_type self,
      b_mode = b_mode self,
      b_status = status,
      b_created_at = b_created_at self,
      b_updated_at = updated_at\<rparr>"

lemma with_status_sel [simp]:
  "b_boundary_id (with_status b st t) = b_boundary_id b"
  "b_workspace_id (with_status b st t) = b_workspace_id b"
  "b_name (with_status b st t) = b_name b"
  "b_runtime (with_status b st t) = b_runtime b"
  "b_boundary_type (with_status b st t) = b_boundary_type b"
  "b_mode (with_status b st t) = b_mode b"
  "b_status (with_status b st t) = st"
  "b_created_at (with_status b st t) = b_created_at b"
  "b_updated_at (with_status b st t) = t"
  by (simp_all add: with_status_def)

record BoundaryRegistrationInput =
  bri_workspace_id :: string
  bri_name :: string
  bri_runtime :: string
  bri_boundary_type :: string
  bri_mode :: string
  bri_status :: string

type_synonym BoundaryLookup = "string \<Rightarrow> Boundary option"

record EnforceInput =
  ei_grant :: Grant
  ei_action :: string
  ei_resource :: string
  ei_now :: instant
  ei_boundary_id :: "string option"
  ei_boundary_registry :: "BoundaryLookup option"
  ei_require_boundary :: bool

record DecisionResult =
  dr_decision :: Decision
  dr_reason :: string
  dr_grant_id :: string
  dr_grant_ref :: string
  dr_workspace_id :: string
  dr_agent_id :: string
  dr_action :: string
  dr_resource :: string
  dr_scope_attempted :: string
  dr_scope_matched :: "string option"
  dr_boundary :: "Boundary option"
  dr_attempted_boundary_id :: "string option"

record PolicyInput =
  pi_workspace_id :: string
  pi_agent_id :: string
  pi_grants :: "Grant list"
  pi_action :: string
  pi_resource :: string
  pi_now :: instant
  pi_boundary_id :: "string option"
  pi_boundary_registry :: "BoundaryLookup option"

record PolicyResult =
  pr_decision :: Decision
  pr_reason :: string
  pr_workspace_id :: string
  pr_agent_id :: string
  pr_action :: string
  pr_resource :: string
  pr_scope_attempted :: string
  pr_scope_matched :: "string option"
  pr_grant_id :: "string option"
  pr_grant_ref :: "string option"
  pr_enforce_result :: "DecisionResult option"

record AuditEvent =
  ae_event_id :: string
  ae_event_type :: string
  ae_decision :: Decision
  ae_reason :: string
  ae_workspace_id :: string
  ae_agent_id :: string
  ae_grant_id :: string
  ae_grant_ref :: string
  ae_action :: string
  ae_resource :: string
  ae_scope_attempted :: string
  ae_scope_matched :: "string option"
  ae_boundary_id :: "string option"
  ae_runtime :: "string option"
  ae_boundary_type :: "string option"
  ae_created_at :: instant
  ae_enforcing_principal :: "string option"
  ae_reason_code :: "string option"
  ae_occurrence_count :: "int option"
  ae_first_seen_at :: "instant option"
  ae_last_seen_at :: "instant option"
  ae_subject_token_verified :: bool
  ae_token_id :: "string option"
  ae_event_class :: string

end
