(* ===== verification/Enforce.thy ===== *)
theory Enforce
  imports Scope CoreModels
begin

section \<open>Enforcement of one grant\<close>

text \<open>
  \<^verbatim>\<open>src/vinctor_core/enforce.py\<close>: the decision on one action under one grant. The checks are
  the code's, in its order: the boundary first, then the request, the grant's state, the
  grant's scopes and the match. The theorems say exactly when the answer is \<^verbatim>\<open>permit\<close> and
  that every other answer is a \<^verbatim>\<open>deny\<close> with a reason of the fixed vocabulary.
\<close>

subsection \<open>The code\<close>

definition enforce_deny ::
  "EnforceInput \<Rightarrow> string \<Rightarrow> string \<Rightarrow> Boundary option \<Rightarrow> string option \<Rightarrow> DecisionResult" where
  "enforce_deny enforce_input reason scope_attempted boundary attempted_boundary_id =
     (let grant = ei_grant enforce_input
      in \<lparr>dr_decision = Deny,
          dr_reason = reason,
          dr_grant_id = g_grant_id grant,
          dr_grant_ref = g_grant_ref grant,
          dr_workspace_id = g_workspace_id grant,
          dr_agent_id = g_agent_id grant,
          dr_action = ei_action enforce_input,
          dr_resource = ei_resource enforce_input,
          dr_scope_attempted = scope_attempted,
          dr_scope_matched = None,
          dr_boundary = boundary,
          dr_attempted_boundary_id = py_or_opt attempted_boundary_id (ei_boundary_id enforce_input)\<rparr>)"

definition resolve_boundary :: "EnforceInput \<Rightarrow> DecisionResult + Boundary option" where
  "resolve_boundary enforce_input =
     (case ei_boundary_id enforce_input of
        None \<Rightarrow>
          if ei_require_boundary enforce_input
          then Inl (enforce_deny enforce_input ''boundary_required''
                      (attempted_scope (ei_action enforce_input) (ei_resource enforce_input)) None None)
          else Inr None
      | Some boundary_id \<Rightarrow>
          let boundary = (case ei_boundary_registry enforce_input of
                            None \<Rightarrow> None
                          | Some registry \<Rightarrow> registry boundary_id);
              scope_attempted = attempted_scope (ei_action enforce_input) (ei_resource enforce_input)
          in (case boundary of
                None \<Rightarrow> Inl (enforce_deny enforce_input ''boundary_not_found'' scope_attempted
                               None (Some boundary_id))
              | Some boundary \<Rightarrow>
                  if b_workspace_id boundary \<noteq> g_workspace_id (ei_grant enforce_input)
                  then Inl (enforce_deny enforce_input ''boundary_wrong_workspace'' scope_attempted
                              None (Some boundary_id))
                  else if b_status boundary \<noteq> ''active''
                  then Inl (enforce_deny enforce_input ''boundary_inactive'' scope_attempted
                              (Some boundary) (Some boundary_id))
                  else Inr (Some boundary)))"

definition grant_expired_at :: "Grant \<Rightarrow> instant \<Rightarrow> bool" where
  "grant_expired_at grant now =
     (case g_expires_at grant of None \<Rightarrow> False | Some expires_at \<Rightarrow> expires_at \<le> now)"

definition evaluate_enforce :: "EnforceInput \<Rightarrow> DecisionResult" where
  "evaluate_enforce enforce_input =
     (let grant = ei_grant enforce_input;
          scope_attempted = attempted_scope (ei_action enforce_input) (ei_resource enforce_input)
      in (case resolve_boundary enforce_input of
            Inl denied \<Rightarrow> denied
          | Inr boundary \<Rightarrow>
              if \<not> is_valid_requested_action (ei_action enforce_input)
              then enforce_deny enforce_input ''invalid_action'' scope_attempted boundary None
              else if \<not> is_valid_requested_resource (ei_resource enforce_input)
              then enforce_deny enforce_input ''invalid_resource'' scope_attempted boundary None
              else if g_status grant = ''revoked''
              then enforce_deny enforce_input ''grant_revoked'' scope_attempted boundary None
              else if g_status grant = ''expired''
              then enforce_deny enforce_input ''grant_expired'' scope_attempted boundary None
              else if g_status grant \<noteq> ''active''
              then enforce_deny enforce_input ''grant_not_active'' scope_attempted boundary None
              else if grant_expired_at grant (ei_now enforce_input)
              then enforce_deny enforce_input ''grant_expired'' scope_attempted boundary None
              else if (\<exists>scope\<in>set (g_scopes grant). \<not> is_valid_grant_scope scope)
              then enforce_deny enforce_input ''invalid_grant_scope'' scope_attempted boundary None
              else
                (case match_scope (g_scopes grant) (ei_action enforce_input) (ei_resource enforce_input) of
                   None \<Rightarrow> enforce_deny enforce_input ''action_denied'' scope_attempted boundary None
                 | Some matched \<Rightarrow>
                     \<lparr>dr_decision = Permit,
                      dr_reason = ''permitted'',
                      dr_grant_id = g_grant_id grant,
                      dr_grant_ref = g_grant_ref grant,
                      dr_workspace_id = g_workspace_id grant,
                      dr_agent_id = g_agent_id grant,
                      dr_action = ei_action enforce_input,
                      dr_resource = ei_resource enforce_input,
                      dr_scope_attempted = scope_attempted,
                      dr_scope_matched = Some matched,
                      dr_boundary = boundary,
                      dr_attempted_boundary_id = ei_boundary_id enforce_input\<rparr>)))"

subsection \<open>When a boundary is accepted\<close>

lemma enforce_deny_sel [simp]:
  "dr_decision (enforce_deny i rs sc b ab) = Deny"
  "dr_reason (enforce_deny i rs sc b ab) = rs"
  "dr_grant_id (enforce_deny i rs sc b ab) = g_grant_id (ei_grant i)"
  "dr_grant_ref (enforce_deny i rs sc b ab) = g_grant_ref (ei_grant i)"
  "dr_workspace_id (enforce_deny i rs sc b ab) = g_workspace_id (ei_grant i)"
  "dr_agent_id (enforce_deny i rs sc b ab) = g_agent_id (ei_grant i)"
  "dr_action (enforce_deny i rs sc b ab) = ei_action i"
  "dr_resource (enforce_deny i rs sc b ab) = ei_resource i"
  "dr_scope_attempted (enforce_deny i rs sc b ab) = sc"
  "dr_scope_matched (enforce_deny i rs sc b ab) = None"
  "dr_boundary (enforce_deny i rs sc b ab) = b"
  "dr_attempted_boundary_id (enforce_deny i rs sc b ab) = py_or_opt ab (ei_boundary_id i)"
  by (simp_all add: enforce_deny_def Let_def)

definition boundary_acceptable :: "EnforceInput \<Rightarrow> bool" where
  "boundary_acceptable i =
     (case ei_boundary_id i of
        None \<Rightarrow> \<not> ei_require_boundary i
      | Some boundary_id \<Rightarrow>
          (case ei_boundary_registry i of
             None \<Rightarrow> False
           | Some registry \<Rightarrow>
               (case registry boundary_id of
                  None \<Rightarrow> False
                | Some b \<Rightarrow> b_workspace_id b = g_workspace_id (ei_grant i) \<and> b_status b = ''active'')))"

definition BOUNDARY_REASONS :: "string set" where
  "BOUNDARY_REASONS =
     {''boundary_required'', ''boundary_not_found'', ''boundary_wrong_workspace'', ''boundary_inactive''}"

lemma resolve_boundary_Inr_iff: "is_Inr (resolve_boundary i) \<longleftrightarrow> boundary_acceptable i"
  by (auto simp: resolve_boundary_def boundary_acceptable_def Let_def split: option.splits)

lemma resolve_boundary_Inl:
  assumes "resolve_boundary i = Inl d"
  shows "\<not> boundary_acceptable i" "dr_decision d = Deny" "dr_reason d \<in> BOUNDARY_REASONS"
    "dr_scope_matched d = None" "dr_grant_ref d = g_grant_ref (ei_grant i)"
    "dr_workspace_id d = g_workspace_id (ei_grant i)" "dr_agent_id d = g_agent_id (ei_grant i)"
    "dr_action d = ei_action i" "dr_resource d = ei_resource i"
    "dr_grant_id d = g_grant_id (ei_grant i)"
    "dr_scope_attempted d = attempted_scope (ei_action i) (ei_resource i)"
  using assms
  by (auto simp: resolve_boundary_def boundary_acceptable_def BOUNDARY_REASONS_def Let_def
      split: option.splits if_splits)

lemma resolve_boundary_Inr:
  assumes "resolve_boundary i = Inr b"
  shows "boundary_acceptable i"
  using assms resolve_boundary_Inr_iff by (metis is_Inr_simps(2))

lemma resolve_boundary_Inr_Some:
  assumes "resolve_boundary i = Inr (Some b)"
  shows "b_workspace_id b = g_workspace_id (ei_grant i) \<and> b_status b = ''active''"
  using assms by (auto simp: resolve_boundary_def Let_def split: option.splits if_splits)

subsection \<open>The decision\<close>

definition grant_usable :: "Grant \<Rightarrow> instant \<Rightarrow> bool" where
  "grant_usable g now \<longleftrightarrow>
     g_status g = ''active'' \<and> \<not> grant_expired_at g now \<and> (\<forall>s\<in>set (g_scopes g). is_valid_grant_scope s)"

definition ENFORCE_REASONS :: "string set" where
  "ENFORCE_REASONS = BOUNDARY_REASONS \<union>
     {''permitted'', ''invalid_action'', ''invalid_resource'', ''grant_revoked'', ''grant_expired'',
      ''grant_not_active'', ''invalid_grant_scope'', ''action_denied''}"

lemma evaluate_enforce_permit_iff:
  "dr_decision (evaluate_enforce i) = Permit \<longleftrightarrow>
     boundary_acceptable i
     \<and> requestable (ei_action i) (ei_resource i)
     \<and> grant_usable (ei_grant i) (ei_now i)
     \<and> match_scope (g_scopes (ei_grant i)) (ei_action i) (ei_resource i) \<noteq> None"
proof (cases "resolve_boundary i")
  case (Inl d)
  with resolve_boundary_Inl [OF Inl] show ?thesis by (simp add: evaluate_enforce_def Let_def)
next
  case (Inr b)
  with resolve_boundary_Inr [OF Inr] show ?thesis
    by (auto simp: evaluate_enforce_def Let_def requestable_def grant_usable_def split: option.splits)
qed

lemma evaluate_enforce_copies:
  "dr_grant_ref (evaluate_enforce i) = g_grant_ref (ei_grant i)"
  "dr_grant_id (evaluate_enforce i) = g_grant_id (ei_grant i)"
  "dr_workspace_id (evaluate_enforce i) = g_workspace_id (ei_grant i)"
  "dr_agent_id (evaluate_enforce i) = g_agent_id (ei_grant i)"
  "dr_action (evaluate_enforce i) = ei_action i"
  "dr_resource (evaluate_enforce i) = ei_resource i"
  "dr_scope_attempted (evaluate_enforce i) = attempted_scope (ei_action i) (ei_resource i)"
  using resolve_boundary_Inl [of i]
  by (auto simp: evaluate_enforce_def Let_def split: sum.splits option.splits)

lemma evaluate_enforce_reasons: "dr_reason (evaluate_enforce i) \<in> ENFORCE_REASONS"
  using resolve_boundary_Inl(3) [of i]
  by (auto simp: evaluate_enforce_def Let_def ENFORCE_REASONS_def split: sum.splits option.splits)

lemma evaluate_enforce_consistent:
  "dr_decision (evaluate_enforce i) = Permit \<longleftrightarrow> dr_reason (evaluate_enforce i) = ''permitted''"
  "dr_decision (evaluate_enforce i) = Permit \<longleftrightarrow> dr_scope_matched (evaluate_enforce i) \<noteq> None"
  using resolve_boundary_Inl [of i]
  by (auto simp: evaluate_enforce_def Let_def BOUNDARY_REASONS_def split: sum.splits option.splits)

lemma match_scope_None_iff:
  "match_scope scopes a r = None \<longleftrightarrow>
     (\<forall>s\<in>set scopes. \<not> (s = attempted_scope a r \<or> matches_terminal_resource_wildcard s a r))"
  unfolding match_scope_eq_find find_first_None_iff ..

lemma match_scope_authorises:
  assumes "requestable a r"
  shows "match_scope scopes a r \<noteq> None \<longleftrightarrow> (\<exists>s\<in>set scopes. (a, r) \<in> authorises s)"
  using assms by (auto simp: match_scope_None_iff authorises_def)

text \<open>
  (C1) \<^verbatim>\<open>evaluate_enforce\<close> answers \<^verbatim>\<open>permit\<close> exactly when the boundary is
  acceptable (an active boundary of the grant's workspace, or none asked for and none
  required), the request is well formed, the grant is active, not past its expiry and
  holds valid scopes only, and one of these scopes covers the requested path segment by
  segment. In every other case the answer is \<^verbatim>\<open>deny\<close>: the core fails closed.
\<close>

theorem enforce_permits_exactly:
  "dr_decision (evaluate_enforce i) = Permit \<longleftrightarrow>
     boundary_acceptable i
     \<and> is_valid_requested_action (ei_action i) \<and> is_valid_requested_resource (ei_resource i)
     \<and> g_status (ei_grant i) = ''active''
     \<and> (case g_expires_at (ei_grant i) of None \<Rightarrow> True | Some e \<Rightarrow> ei_now i < e)
     \<and> filter is_valid_grant_scope (g_scopes (ei_grant i)) = g_scopes (ei_grant i)
     \<and> list_ex (\<lambda>s. scope_covers s (ei_action i) (ei_resource i)) (g_scopes (ei_grant i))"
proof -
  have exp: "\<not> grant_expired_at (ei_grant i) (ei_now i) \<longleftrightarrow>
      (case g_expires_at (ei_grant i) of None \<Rightarrow> True | Some e \<Rightarrow> ei_now i < e)"
    by (auto simp: grant_expired_at_def split: option.split)
  have val: "filter is_valid_grant_scope xs = xs \<longleftrightarrow> (\<forall>s\<in>set xs. is_valid_grant_scope s)" for xs
    by (rule filter_id_conv)
  show ?thesis
  proof (cases "requestable (ei_action i) (ei_resource i)
                \<and> (\<forall>s\<in>set (g_scopes (ei_grant i)). is_valid_grant_scope s)")
    case True
    then have "match_scope (g_scopes (ei_grant i)) (ei_action i) (ei_resource i) \<noteq> None \<longleftrightarrow>
        list_ex (\<lambda>s. scope_covers s (ei_action i) (ei_resource i)) (g_scopes (ei_grant i))"
      using match_scope_authorises authorises_iff unfolding list_ex_iff by blast
    with True show ?thesis
      unfolding evaluate_enforce_permit_iff grant_usable_def val exp requestable_def by blast
  next
    case False
    then show ?thesis
      unfolding evaluate_enforce_permit_iff grant_usable_def val exp requestable_def by blast
  qed
qed

text \<open>
  (C40) Every answer is a permit with reason \<^verbatim>\<open>permitted\<close> and a matched scope of
  the grant, or a deny with no matched scope and one of the eleven deny reasons.
\<close>

theorem enforce_deny_vocabulary:
  "case dr_scope_matched (evaluate_enforce i) of
     Some scope \<Rightarrow> dr_decision (evaluate_enforce i) = Permit
                   \<and> dr_reason (evaluate_enforce i) = ''permitted'' \<and> scope \<in> set (g_scopes (ei_grant i))
   | None \<Rightarrow> dr_decision (evaluate_enforce i) = Deny
              \<and> dr_reason (evaluate_enforce i) \<in> ENFORCE_REASONS - {''permitted''}"
proof (cases "dr_scope_matched (evaluate_enforce i)")
  case None
  then show ?thesis
    using evaluate_enforce_consistent [of i] evaluate_enforce_reasons [of i]
    by (cases "dr_decision (evaluate_enforce i)") auto
next
  case (Some scope)
  then have "scope \<in> set (g_scopes (ei_grant i))"
    using resolve_boundary_Inl(4) [of i] match_scope_Some_mem
    by (fastforce simp: evaluate_enforce_def Let_def split: sum.splits option.splits if_splits)
  with Some show ?thesis using evaluate_enforce_consistent [of i] by simp
qed

end
