(* ===== verification/Policy.thy ===== *)
theory Policy
  imports Enforce
begin

section \<open>Policy over several grants\<close>

text \<open>
  \<^verbatim>\<open>src/vinctor_core/policy.py\<close>: the grants of one workspace and agent are tried in order. The
  loop stops at the first permit, and also at the first deny that is about the boundary or
  about the form of the request or of the grant; the remaining denies are skipped.
\<close>

definition policy_deny :: "PolicyInput \<Rightarrow> string \<Rightarrow> string \<Rightarrow> PolicyResult" where
  "policy_deny policy_input reason scope_attempted =
     \<lparr>pr_decision = Deny,
      pr_reason = reason,
      pr_workspace_id = pi_workspace_id policy_input,
      pr_agent_id = pi_agent_id policy_input,
      pr_action = pi_action policy_input,
      pr_resource = pi_resource policy_input,
      pr_scope_attempted = scope_attempted,
      pr_scope_matched = None,
      pr_grant_id = None,
      pr_grant_ref = None,
      pr_enforce_result = None\<rparr>"

definition from_enforce_result :: "PolicyInput \<Rightarrow> DecisionResult \<Rightarrow> PolicyResult" where
  "from_enforce_result policy_input result =
     \<lparr>pr_decision = dr_decision result,
      pr_reason = dr_reason result,
      pr_workspace_id = pi_workspace_id policy_input,
      pr_agent_id = pi_agent_id policy_input,
      pr_action = pi_action policy_input,
      pr_resource = pi_resource policy_input,
      pr_scope_attempted = dr_scope_attempted result,
      pr_scope_matched = dr_scope_matched result,
      pr_grant_id = Some (dr_grant_id result),
      pr_grant_ref = Some (dr_grant_ref result),
      pr_enforce_result = Some result\<rparr>"

definition candidate_grants :: "PolicyInput \<Rightarrow> Grant list" where
  "candidate_grants policy_input =
     filter (\<lambda>grant. g_workspace_id grant = pi_workspace_id policy_input
                      \<and> g_agent_id grant = pi_agent_id policy_input) (pi_grants policy_input)"

definition policy_enforce_input :: "PolicyInput \<Rightarrow> Grant \<Rightarrow> EnforceInput" where
  "policy_enforce_input policy_input grant =
     \<lparr>ei_grant = grant,
      ei_action = pi_action policy_input,
      ei_resource = pi_resource policy_input,
      ei_now = pi_now policy_input,
      ei_boundary_id = pi_boundary_id policy_input,
      ei_boundary_registry = pi_boundary_registry policy_input,
      ei_require_boundary = False\<rparr>"

fun policy_loop :: "PolicyInput \<Rightarrow> Grant list \<Rightarrow> PolicyResult option" where
  "policy_loop policy_input [] = None"
| "policy_loop policy_input (grant # grants) =
     (let result = evaluate_enforce (policy_enforce_input policy_input grant)
      in if dr_decision result = Permit then Some (from_enforce_result policy_input result)
         else if startswith (dr_reason result) ''boundary_''
         then Some (from_enforce_result policy_input result)
         else if dr_reason result \<in> {''invalid_action'', ''invalid_resource'', ''invalid_grant_scope''}
         then Some (from_enforce_result policy_input result)
         else policy_loop policy_input grants)"

definition evaluate_policy :: "PolicyInput \<Rightarrow> PolicyResult" where
  "evaluate_policy policy_input =
     (let scope_attempted = attempted_scope (pi_action policy_input) (pi_resource policy_input)
      in if \<not> is_valid_requested_action (pi_action policy_input)
         then policy_deny policy_input ''invalid_action'' scope_attempted
         else if \<not> is_valid_requested_resource (pi_resource policy_input)
         then policy_deny policy_input ''invalid_resource'' scope_attempted
         else (case policy_loop policy_input (candidate_grants policy_input) of
                 Some result \<Rightarrow> result
               | None \<Rightarrow> policy_deny policy_input ''no_applicable_grant'' scope_attempted))"

subsection \<open>What the loop returns\<close>

lemma find_first_filter: "find_first P (filter Q xs) = find_first (\<lambda>x. Q x \<and> P x) xs"
  by (induction xs) auto

abbreviation grant_permits :: "PolicyInput \<Rightarrow> Grant \<Rightarrow> bool" where
  "grant_permits p g \<equiv> dr_decision (evaluate_enforce (policy_enforce_input p g)) = Permit"

definition grant_skipped :: "PolicyInput \<Rightarrow> Grant \<Rightarrow> bool" where
  "grant_skipped p g \<longleftrightarrow>
     dr_reason (evaluate_enforce (policy_enforce_input p g))
       \<in> {''grant_revoked'', ''grant_expired'', ''grant_not_active'', ''action_denied''}"

lemma policy_enforce_input_sel [simp]:
  "ei_grant (policy_enforce_input p g) = g"
  "ei_action (policy_enforce_input p g) = pi_action p"
  "ei_resource (policy_enforce_input p g) = pi_resource p"
  "ei_now (policy_enforce_input p g) = pi_now p"
  "ei_boundary_id (policy_enforce_input p g) = pi_boundary_id p"
  "ei_boundary_registry (policy_enforce_input p g) = pi_boundary_registry p"
  "ei_require_boundary (policy_enforce_input p g) = False"
  by (simp_all add: policy_enforce_input_def)

lemma from_enforce_result_sel [simp]:
  "pr_decision (from_enforce_result p r) = dr_decision r"
  "pr_reason (from_enforce_result p r) = dr_reason r"
  "pr_grant_ref (from_enforce_result p r) = Some (dr_grant_ref r)"
  "pr_enforce_result (from_enforce_result p r) = Some r"
  by (simp_all add: from_enforce_result_def)

lemma policy_deny_sel [simp]:
  "pr_decision (policy_deny p rs sc) = Deny" "pr_reason (policy_deny p rs sc) = rs"
  by (simp_all add: policy_deny_def)

lemma skipped_iff:
  "\<not> grant_permits p g \<and> \<not> startswith (dr_reason (evaluate_enforce (policy_enforce_input p g))) ''boundary_''
     \<and> dr_reason (evaluate_enforce (policy_enforce_input p g))
         \<notin> {''invalid_action'', ''invalid_resource'', ''invalid_grant_scope''}
   \<longleftrightarrow> grant_skipped p g"
  using evaluate_enforce_reasons [of "policy_enforce_input p g"]
    evaluate_enforce_consistent(1) [of "policy_enforce_input p g"]
  by (auto simp: ENFORCE_REASONS_def BOUNDARY_REASONS_def grant_skipped_def startswith_def)

lemma policy_loop_Cons:
  "policy_loop p (g # gs) =
     (if grant_skipped p g then policy_loop p gs
      else Some (from_enforce_result p (evaluate_enforce (policy_enforce_input p g))))"
  by (cases "grant_skipped p g") (use skipped_iff [of p g] in \<open>auto simp: Let_def\<close>)

declare policy_loop.simps(2) [simp del]

lemma policy_loop_eq_find:
  "policy_loop p gs =
     map_option (\<lambda>g. from_enforce_result p (evaluate_enforce (policy_enforce_input p g)))
       (find_first (\<lambda>g. \<not> grant_skipped p g) gs)"
  by (induction gs) (auto simp: policy_loop_Cons)

lemma permits_not_skipped: "grant_permits p g \<Longrightarrow> \<not> grant_skipped p g"
  using evaluate_enforce_consistent(1) [of "policy_enforce_input p g"] by (auto simp: grant_skipped_def)

lemma candidate_grants_mem:
  "g \<in> set (candidate_grants p) \<longleftrightarrow>
     g \<in> set (pi_grants p) \<and> g_workspace_id g = pi_workspace_id p \<and> g_agent_id g = pi_agent_id p"
  by (auto simp: candidate_grants_def)

text \<open>
  (C34) \<^verbatim>\<open>evaluate_policy\<close>, field by field. An invalid request is denied as such. Otherwise the first
  grant of the caller's own workspace and agent whose evaluation says anything else than
  revoked, expired, inactive or out of scope decides: the answer has the decision, reason and matched scope of that
  evaluation and names that grant, so a grant with an invalid scope, or a boundary problem, stops the search
  even when a later grant would permit. Without such a grant the answer is
  \<^verbatim>\<open>no_applicable_grant\<close> and names none. In particular a permit is given exactly when the deciding
  grant permits by itself.
\<close>

theorem policy_decides_by_first_decisive_grant:
  "evaluate_policy p =
     (let attempted = attempted_scope (pi_action p) (pi_resource p);
          outcome = (\<lambda>g. evaluate_enforce \<lparr>ei_grant = g, ei_action = pi_action p, ei_resource = pi_resource p,
             ei_now = pi_now p, ei_boundary_id = pi_boundary_id p, ei_boundary_registry = pi_boundary_registry p,
             ei_require_boundary = False\<rparr>);
          decisive = (\<lambda>g. g_workspace_id g = pi_workspace_id p \<and> g_agent_id g = pi_agent_id p
             \<and> dr_reason (outcome g) \<notin> {''grant_revoked'', ''grant_expired'', ''grant_not_active'', ''action_denied''});
          answer = (\<lambda>decision reason matched grant.
             \<lparr>pr_decision = decision, pr_reason = reason, pr_workspace_id = pi_workspace_id p, pr_agent_id = pi_agent_id p,
              pr_action = pi_action p, pr_resource = pi_resource p, pr_scope_attempted = attempted, pr_scope_matched = matched,
              pr_grant_id = map_option g_grant_id grant, pr_grant_ref = map_option g_grant_ref grant,
              pr_enforce_result = map_option outcome grant\<rparr>)
      in if \<not> is_valid_requested_action (pi_action p) then answer Deny ''invalid_action'' None None
         else if \<not> is_valid_requested_resource (pi_resource p) then answer Deny ''invalid_resource'' None None
         else (case find_first decisive (pi_grants p) of
                 None \<Rightarrow> answer Deny ''no_applicable_grant'' None None
               | Some g \<Rightarrow> answer (dr_decision (outcome g)) (dr_reason (outcome g)) (dr_scope_matched (outcome g)) (Some g)))
   \<and> (pr_decision (evaluate_policy p) = Permit \<longleftrightarrow>
     is_valid_requested_action (pi_action p) \<and> is_valid_requested_resource (pi_resource p)
     \<and> (case find_first (\<lambda>g. \<not> grant_skipped p g) (candidate_grants p) of
          None \<Rightarrow> False
        | Some g \<Rightarrow> g \<in> set (pi_grants p) \<and> g_workspace_id g = pi_workspace_id p
                     \<and> g_agent_id g = pi_agent_id p
                     \<and> dr_decision (evaluate_enforce (policy_enforce_input p g)) = Permit))"
proof -
  let ?first = "find_first (\<lambda>g. \<not> grant_skipped p g) (candidate_grants p)"
  have first: "find_first (\<lambda>g. g_workspace_id g = pi_workspace_id p \<and> g_agent_id g = pi_agent_id p
      \<and> dr_reason (evaluate_enforce (policy_enforce_input p g))
          \<notin> {''grant_revoked'', ''grant_expired'', ''grant_not_active'', ''action_denied''}) (pi_grants p) = ?first"
    unfolding candidate_grants_def find_first_filter grant_skipped_def by simp
  have own: "g \<in> set (candidate_grants p)" if "?first = Some g" for g using that by (auto dest: find_first_Some)
  show ?thesis
    unfolding Let_def policy_enforce_input_def [symmetric] first
    using own
    by (cases ?first)
      (simp_all add: evaluate_policy_def policy_loop_eq_find Let_def candidate_grants_mem policy_deny_def
        from_enforce_result_def evaluate_enforce_copies)
qed

text \<open>
  The answer \<^verbatim>\<open>no_applicable_grant\<close> is complete: when it is given, no grant of
  the caller's workspace and agent permits the action.
\<close>

theorem policy_no_applicable_grant_complete:
  assumes "pr_reason (evaluate_policy p) = ''no_applicable_grant''"
    and "g \<in> set (pi_grants p)" and "g_workspace_id g = pi_workspace_id p"
    and "g_agent_id g = pi_agent_id p"
  shows "dr_decision (evaluate_enforce (policy_enforce_input p g)) = Deny"
proof -
  have "find_first (\<lambda>g. \<not> grant_skipped p g) (candidate_grants p) = None"
  proof (cases "find_first (\<lambda>g. \<not> grant_skipped p g) (candidate_grants p)")
    case (Some h)
    have "''no_applicable_grant'' \<notin> ENFORCE_REASONS"
      by (simp add: ENFORCE_REASONS_def BOUNDARY_REASONS_def)
    with Some assms(1) evaluate_enforce_reasons [of "policy_enforce_input p h"] show ?thesis
      by (auto simp: evaluate_policy_def policy_loop_eq_find Let_def split: if_splits)
  qed simp
  with assms(2-4) have "grant_skipped p g"
    by (auto simp: find_first_None_iff candidate_grants_mem)
  then show ?thesis using permits_not_skipped [of p g] by (cases "dr_decision (evaluate_enforce (policy_enforce_input p g))") auto
qed

definition example_grant :: Grant where
  "example_grant =
     \<lparr>g_grant_id = ''grnt_1'', g_grant_ref = ''grt_1'', g_workspace_id = ''ws'', g_agent_id = ''agent'',
      g_scopes = [''write:repo/feature/*''], g_status = ''active'', g_expires_at = None\<rparr>"

definition example_policy_input :: PolicyInput where
  "example_policy_input =
     \<lparr>pi_workspace_id = ''ws'', pi_agent_id = ''agent'', pi_grants = [example_grant],
      pi_action = ''read'', pi_resource = ''repo/feature/x'', pi_now = 0,
      pi_boundary_id = None, pi_boundary_registry = None\<rparr>"

lemmas enforce_eval =
  scope_eval evaluate_enforce_def resolve_boundary_def enforce_deny_def grant_expired_at_def
  attempted_scope_def matches_terminal_resource_wildcard_def partition_on_def removesuffix_def

theorem policy_no_applicable_grant_complete_witness:
  "pr_reason (evaluate_policy example_policy_input) = ''no_applicable_grant''
     \<and> dr_decision (evaluate_enforce (policy_enforce_input example_policy_input example_grant)) = Deny"
proof -
  have r: "pr_reason (evaluate_policy example_policy_input) = ''no_applicable_grant''"
    by (simp add: evaluate_policy_def example_policy_input_def candidate_grants_def example_grant_def
        policy_loop_Cons grant_skipped_def policy_enforce_input_def enforce_eval)
  have "dr_decision (evaluate_enforce (policy_enforce_input example_policy_input example_grant)) = Deny"
    by (rule policy_no_applicable_grant_complete [OF r])
      (simp_all add: example_policy_input_def example_grant_def)
  with r show ?thesis by simp
qed

end
