(* ===== verification/ServiceModels.thy ===== *)
theory ServiceModels
  imports CoreModels
begin

section \<open>Data of the service\<close>

text \<open>
  The dataclasses of \<^verbatim>\<open>src/vinctor_service/models.py\<close> as records, one field per field, in the
  order of the source, with a prefix per class. The \<^verbatim>\<open>Literal\<close> types are strings: the code
  compares them with literals and stores whatever it is given.
\<close>

record AuthorizationRequest =
  ar_workspace_id :: string
  ar_agent_id :: string
  ar_action :: string
  ar_resource :: string
  ar_boundary_id :: "string option"

record AuthorizationResponse =
  as_decision :: Decision
  as_reason :: string
  as_workspace_id :: string
  as_agent_id :: string
  as_action :: string
  as_resource :: string
  as_scope_attempted :: string
  as_scope_matched :: "string option"
  as_grant_id :: "string option"
  as_grant_ref :: "string option"
  as_boundary_id :: "string option"

record V1EnforceRequest =
  er_workspace_id :: string
  er_agent_id :: string
  er_grant_ref :: string
  er_action :: string
  er_resource :: string
  er_boundary_id :: "string option"

record V1DelegatedEnforceRequest =
  dq_pep_id :: string
  dq_workspace_id :: string
  dq_agent_id :: string
  dq_grant_ref :: string
  dq_action :: string
  dq_resource :: string
  dq_boundary_id :: "string option"
  dq_subject_token :: "string option"
  dq_subject_token_proof :: "string option"

record V1EnforceResponse =
  ers_status_code :: int
  ers_decision :: "Decision option"
  ers_error :: "string option"
  ers_reason :: "string option"
  ers_audit_event_id :: "string option"

record V1ObserveRequest =
  oq_workspace_id :: string
  oq_agent_id :: string
  oq_classification :: string
  oq_action :: "string option"
  oq_resource :: "string option"
  oq_boundary_id :: "string option"
  oq_outcome :: "string option"

record V1ObserveResponse =
  ors_status_code :: int
  ors_audit_event_id :: "string option"
  ors_error :: "string option"
  ors_reason :: "string option"

record V1SimulateRequest =
  sq_workspace_id :: string
  sq_agent_id :: string
  sq_grant_ref :: string
  sq_action :: string
  sq_resource :: string
  sq_boundary_id :: "string option"

record V1SimulateResponse =
  srs_status_code :: int
  srs_would_decision :: "Decision option"
  srs_error :: "string option"
  srs_reason :: "string option"
  srs_audit_event_id :: "string option"

record GrantIssueRequest =
  giq_workspace_id :: string
  giq_target_agent_id :: string
  giq_requested_scopes :: "string list"
  giq_ttl_seconds :: int
  giq_grant_id :: "string option"
  giq_grant_ref :: "string option"

record GrantIssueResult =
  gir_status :: string
  gir_reason :: string
  gir_grant :: "Grant option"
  gir_audit_event_id :: "string option"
  gir_detail :: "string option"

record AgentIssuableBounds =
  aib_scopes :: "string list"
  aib_max_ttl_seconds :: "int option"

record GrantRequest =
  gr_request_id :: string
  gr_workspace_id :: string
  gr_requester_agent_id :: string
  gr_target_agent_id :: string
  gr_requested_scopes :: "string list"
  gr_requested_ttl_seconds :: int
  gr_reason :: string
  gr_status :: string
  gr_created_at :: instant
  gr_decided_at :: "instant option"
  gr_decided_by :: "string option"
  gr_decision_reason :: "string option"
  gr_issued_grant_ref :: "string option"
  gr_task_id :: "string option"
  gr_session_id :: "string option"
  gr_boundary_id :: "string option"
  gr_requester_runtime :: "string option"
  gr_repo :: "string option"
  gr_worktree :: "string option"

record GrantRequestCreateRequest =
  gcq_workspace_id :: string
  gcq_requester_agent_id :: string
  gcq_requested_scopes :: "string list"
  gcq_requested_ttl_seconds :: int
  gcq_reason :: string
  gcq_target_agent_id :: "string option"
  gcq_request_id :: "string option"
  gcq_task_id :: "string option"
  gcq_session_id :: "string option"
  gcq_boundary_id :: "string option"
  gcq_requester_runtime :: "string option"
  gcq_repo :: "string option"
  gcq_worktree :: "string option"

record GrantRequestCreateResult =
  gcr_status :: string
  gcr_reason :: string
  gcr_request :: "GrantRequest option"
  gcr_audit_event_id :: "string option"

record AutoApprovalRule =
  aar_rule_id :: string
  aar_workspace_id :: string
  aar_name :: string
  aar_target_agent_id :: string
  aar_allowed_scopes :: "string list"
  aar_max_ttl_seconds :: int
  aar_status :: string
  aar_created_by :: string
  aar_created_at :: instant
  aar_updated_by :: "string option"
  aar_updated_at :: "instant option"

record GrantRequestDecisionResult =
  gdr_status :: string
  gdr_reason :: string
  gdr_request :: "GrantRequest option"
  gdr_grant :: "Grant option"
  gdr_audit_event_id :: "string option"
  gdr_auto_approval_rule_id :: "string option"

record AutoApprovalEvaluationResult =
  aer_decision :: string
  aer_reason :: string
  aer_request :: GrantRequest
  aer_rule :: "AutoApprovalRule option"

record SubjectToken =
  st_token_id :: string
  st_token_hash :: string
  st_workspace_id :: string
  st_agent_id :: string
  st_grant_ref :: string
  st_audience :: string
  st_issued_at :: instant
  st_expires_at :: instant
  st_created_by :: string
  st_revoked_at :: "instant option"
  st_bound_action :: "string option"
  st_bound_resource :: "string option"
  st_pop_secret :: "string option"

end
