(* ===== verification/Authorize.thy ===== *)
theory Authorize
  imports Policy ServiceModels
begin

section \<open>Authorization requests\<close>

text \<open>
  \<^verbatim>\<open>src/vinctor_service/authorize.py\<close>: an authorization request is answered by the policy over
  the grants handed in.
\<close>

definition response_from_policy_result ::
  "AuthorizationRequest \<Rightarrow> PolicyResult \<Rightarrow> AuthorizationResponse" where
  "response_from_policy_result request policy_result =
     \<lparr>as_decision = pr_decision policy_result,
      as_reason = pr_reason policy_result,
      as_workspace_id = pr_workspace_id policy_result,
      as_agent_id = pr_agent_id policy_result,
      as_action = pr_action policy_result,
      as_resource = pr_resource policy_result,
      as_scope_attempted = pr_scope_attempted policy_result,
      as_scope_matched = pr_scope_matched policy_result,
      as_grant_id = pr_grant_id policy_result,
      as_grant_ref = pr_grant_ref policy_result,
      as_boundary_id = ar_boundary_id request\<rparr>"

definition authorize_action ::
  "AuthorizationRequest \<Rightarrow> Grant list \<Rightarrow> instant \<Rightarrow> BoundaryLookup option \<Rightarrow> AuthorizationResponse" where
  "authorize_action request grants now boundary_registry =
     response_from_policy_result request
       (evaluate_policy
          \<lparr>pi_workspace_id = ar_workspace_id request,
           pi_agent_id = ar_agent_id request,
           pi_grants = grants,
           pi_action = ar_action request,
           pi_resource = ar_resource request,
           pi_now = now,
           pi_boundary_id = ar_boundary_id request,
           pi_boundary_registry = boundary_registry\<rparr>)"

text \<open>The policy over the grants of one workspace and agent.\<close>

lemma policy_permit_grant:
  assumes "pr_decision (evaluate_policy p) = Permit"
  obtains g where "g \<in> set (pi_grants p)" "g_workspace_id g = pi_workspace_id p"
    "g_agent_id g = pi_agent_id p" "grant_permits p g"
    "pr_grant_ref (evaluate_policy p) = Some (g_grant_ref g)"
proof (cases "find_first (\<lambda>g. \<not> grant_skipped p g) (candidate_grants p)")
  case None
  with assms show ?thesis by (simp add: evaluate_policy_def policy_loop_eq_find Let_def split: if_splits)
next
  case (Some g)
  then have "g \<in> set (candidate_grants p)" by (auto dest: find_first_Some)
  with Some assms that [of g] show ?thesis
    by (simp add: evaluate_policy_def policy_loop_eq_find Let_def candidate_grants_mem
        evaluate_enforce_copies split: if_splits)
qed

text \<open>
  A permit is always backed by one live grant of the requesting agent in its own
  workspace: a grant of another workspace or another agent, a revoked or an expired one
  never authorises, and the grant named in the response is the one that does.
\<close>

theorem authorize_action_tenant_isolation:
  assumes "as_decision (authorize_action request grants now registry) = Permit"
  shows "\<exists>g\<in>set grants.
           g_workspace_id g = ar_workspace_id request \<and> g_agent_id g = ar_agent_id request
           \<and> g_status g = ''active'' \<and> \<not> grant_expired_at g now
           \<and> (\<exists>s\<in>set (g_scopes g). (ar_action request, ar_resource request) \<in> authorises s)
           \<and> as_grant_ref (authorize_action request grants now registry) = Some (g_grant_ref g)"
proof -
  let ?p = "\<lparr>pi_workspace_id = ar_workspace_id request, pi_agent_id = ar_agent_id request,
     pi_grants = grants, pi_action = ar_action request, pi_resource = ar_resource request,
     pi_now = now, pi_boundary_id = ar_boundary_id request, pi_boundary_registry = registry\<rparr>"
  have "pr_decision (evaluate_policy ?p) = Permit"
    using assms by (simp add: authorize_action_def response_from_policy_result_def)
  then obtain g where g: "g \<in> set grants" "g_workspace_id g = ar_workspace_id request"
      "g_agent_id g = ar_agent_id request" "grant_permits ?p g"
      "pr_grant_ref (evaluate_policy ?p) = Some (g_grant_ref g)"
    by (rule policy_permit_grant) simp
  have "\<exists>s\<in>set (g_scopes g). (ar_action request, ar_resource request) \<in> authorises s"
    using g(4) match_scope_authorises [of "ar_action request" "ar_resource request"]
    by (simp add: evaluate_enforce_permit_iff)
  moreover have "g_status g = ''active''" "\<not> grant_expired_at g now"
    using g(4) by (simp_all add: evaluate_enforce_permit_iff grant_usable_def)
  ultimately show ?thesis
    using g by (auto simp: authorize_action_def response_from_policy_result_def)
qed

theorem authorize_action_tenant_isolation_witness:
  "as_decision (authorize_action
      \<lparr>ar_workspace_id = ''ws'', ar_agent_id = ''agent'', ar_action = ''write'',
       ar_resource = ''repo/feature/x'', ar_boundary_id = None\<rparr> [example_grant] 0 None) = Permit
   \<and> (''write'', ''repo/feature/x'') \<in> authorises ''write:repo/feature/*''"
proof -
  let ?r = "\<lparr>ar_workspace_id = ''ws'', ar_agent_id = ''agent'', ar_action = ''write'',
       ar_resource = ''repo/feature/x'', ar_boundary_id = None\<rparr>"
  have d: "as_decision (authorize_action ?r [example_grant] 0 None) = Permit"
    by (simp add: authorize_action_def response_from_policy_result_def evaluate_policy_def
        candidate_grants_def example_grant_def policy_loop_Cons grant_skipped_def
        policy_enforce_input_def enforce_eval)
  with authorize_action_tenant_isolation [OF d] show ?thesis by (simp add: example_grant_def)
qed

end
