(* ===== verification/Infer.thy ===== *)
theory Infer
  imports Scope "HOL-Library.List_Lexorder" "HOL-Library.Char_ord"
begin

section \<open>Policy inference\<close>

text \<open>
  \<^verbatim>\<open>src/vinctor_core/infer.py\<close>: the proposal of grant scopes from observed accesses.
  \<^verbatim>\<open>sorted\<close> with a key is the library's stable \<open>sort_key\<close>; strings compare by code point.
\<close>

subsection \<open>The code\<close>

record Observation =
  ob_action :: string
  ob_resource :: string
  ob_count :: int
  ob_last_seen :: "string option"

record ScopeProposal =
  sp_scope :: string
  sp_count :: int
  sp_last_seen :: "string option"
  sp_generalized :: bool
  sp_covers :: "string list"

definition latest :: "string option \<Rightarrow> string option \<Rightarrow> string option" where
  "latest a b =
     (case a of None \<Rightarrow> b
      | Some x \<Rightarrow> (case b of None \<Rightarrow> a | Some y \<Rightarrow> Some (if y > x then y else x)))"

type_synonym agg_dict = "(string \<times> string, int \<times> string option) dict"

definition agg_step :: "agg_dict \<Rightarrow> Observation \<Rightarrow> agg_dict" where
  "agg_step agg obs =
     (if \<not> is_valid_requested_action (ob_action obs) then agg
      else if \<not> is_valid_requested_resource (ob_resource obs) then agg
      else
        let key = (ob_action obs, ob_resource obs)
        in case (case dict_get agg key of None \<Rightarrow> (0, None) | Some v \<Rightarrow> v) of (count, last_seen) \<Rightarrow>
             dict_set key (count + ob_count obs, latest last_seen (ob_last_seen obs)) agg)"

definition aggregate :: "Observation list \<Rightarrow> int \<Rightarrow> agg_dict" where
  "aggregate observations min_count =
     filter (\<lambda>(key, val). min_count \<le> fst val) (foldl agg_step [] observations)"

definition exact_proposal :: "string \<Rightarrow> string \<Rightarrow> int \<Rightarrow> string option \<Rightarrow> ScopeProposal" where
  "exact_proposal action resource count last_seen =
     (let scope = attempted_scope action resource
      in \<lparr>sp_scope = scope, sp_count = count, sp_last_seen = last_seen, sp_generalized = False,
          sp_covers = [scope]\<rparr>)"

type_synonym group_member = "string \<times> int \<times> string option"
type_synonym group_dict = "(string \<times> string, group_member list) dict"

definition group_step ::
  "group_dict \<Rightarrow> (string \<times> string) \<times> (int \<times> string option) \<Rightarrow> group_dict" where
  "group_step groups item =
     (case item of ((action, resource), (count, last_seen)) \<Rightarrow>
        let parent = rsplit_head CHR ''/'' resource; key = (action, parent)
        in dict_set key
             ((case dict_get groups key of None \<Rightarrow> [] | Some ms \<Rightarrow> ms) @ [(resource, count, last_seen)])
             groups)"

definition group_proposals :: "(string \<times> string) \<times> group_member list \<Rightarrow> ScopeProposal list" where
  "group_proposals item =
     (case item of ((action, parent), members) \<Rightarrow>
        let wildcard = action @ '':'' @ parent @ ''/*'';
            deep_enough = 2 \<le> length (split_on CHR ''/'' parent)
        in if 2 \<le> length members \<and> deep_enough \<and> is_valid_grant_scope wildcard
           then [\<lparr>sp_scope = wildcard,
                  sp_count = sum_list (map (\<lambda>(_, count, _). count) members),
                  sp_last_seen = foldl (\<lambda>l (_, _, last_seen). latest l last_seen) None members,
                  sp_generalized = True,
                  sp_covers = sort (map (\<lambda>(resource, _, _). attempted_scope action resource) members)\<rparr>]
           else map (\<lambda>(resource, count, last_seen). exact_proposal action resource count last_seen)
                  members)"

definition propose_scopes :: "Observation list \<Rightarrow> bool \<Rightarrow> int \<Rightarrow> exn + ScopeProposal list" where
  "propose_scopes observations generalize min_count =
     (if min_count < 1 then Inl (ValueError ''min_count must be positive'')
      else
        let agg = aggregate observations min_count
        in if \<not> generalize
           then Inr (sort_key sp_scope
             (map (\<lambda>((action, resource), (count, last_seen)).
                     exact_proposal action resource count last_seen) agg))
           else
             let groups = foldl group_step [] agg
             in Inr (sort_key sp_scope (concat (map group_proposals groups))))"

subsection \<open>Aggregation\<close>

text \<open>How often a request was observed, and that it was observed at all.\<close>

definition observed_count :: "Observation list \<Rightarrow> string \<Rightarrow> string \<Rightarrow> int" where
  "observed_count observations a r =
     sum_list (map ob_count (filter (\<lambda>obs. ob_action obs = a \<and> ob_resource obs = r) observations))"

definition observed :: "Observation list \<Rightarrow> string \<Rightarrow> string \<Rightarrow> bool" where
  "observed observations a r \<longleftrightarrow> (\<exists>obs\<in>set observations. ob_action obs = a \<and> ob_resource obs = r)"

lemma observed_simps [simp]:
  "\<not> observed [] a r"
  "observed (os @ [ob]) a r \<longleftrightarrow> observed os a r \<or> (ob_action ob = a \<and> ob_resource ob = r)"
  by (auto simp: observed_def)

lemma observed_count_simps [simp]:
  "observed_count [] a r = 0"
  "observed_count (os @ [ob]) a r =
     observed_count os a r + (if ob_action ob = a \<and> ob_resource ob = r then ob_count ob else 0)"
  by (auto simp: observed_count_def)

lemma agg_fold_wf: "dict_wf (foldl agg_step [] os)"
  by (induction os rule: rev_induct) (auto simp: agg_step_def Let_def split: prod.split)

lemma agg_step_valid:
  "requestable (ob_action ob) (ob_resource ob) \<Longrightarrow>
     agg_step agg ob =
       (let key = (ob_action ob, ob_resource ob);
            d = (case dict_get agg key of None \<Rightarrow> (0, None) | Some v \<Rightarrow> v)
        in dict_set key (fst d + ob_count ob, latest (snd d) (ob_last_seen ob)) agg)"
  by (simp add: agg_step_def requestable_def Let_def case_prod_beta)

lemma agg_fold_get:
  "map_option fst (dict_get (foldl agg_step [] os) (a, r)) =
     (if requestable a r \<and> observed os a r then Some (observed_count os a r) else None)"
proof (induction os rule: rev_induct)
  case Nil
  show ?case by simp
next
  case (snoc ob os)
  let ?agg = "foldl agg_step [] os"
  have zero: "\<not> observed os a r \<Longrightarrow> observed_count os a r = 0"
    by (induction os rule: rev_induct) auto
  show ?case
  proof (cases "requestable (ob_action ob) (ob_resource ob)")
    case False
    then have "agg_step ?agg ob = ?agg" by (auto simp: agg_step_def requestable_def)
    with snoc False show ?thesis by auto
  next
    case True
    show ?thesis
      unfolding foldl_append foldl.simps agg_step_valid [OF True]
      using snoc True zero by (auto simp: Let_def split: option.splits if_splits)
  qed
qed

lemma aggregate_mem:
  assumes "((a, r), v) \<in> set (aggregate os m)"
  shows "requestable a r" "observed os a r" "fst v = observed_count os a r" "m \<le> observed_count os a r"
proof -
  have "dict_get (foldl agg_step [] os) (a, r) = Some v"
    using assms agg_fold_wf dict_get_iff_mem unfolding aggregate_def by fastforce
  then have "Some (fst v) = (if requestable a r \<and> observed os a r then Some (observed_count os a r) else None)"
    using agg_fold_get [of os a r] by simp
  then show "requestable a r" "observed os a r" "fst v = observed_count os a r"
    by (auto split: if_splits)
  with assms show "m \<le> observed_count os a r" by (auto simp: aggregate_def)
qed

lemma aggregate_complete:
  assumes "requestable a r" "observed os a r" "m \<le> observed_count os a r"
  shows "\<exists>v. ((a, r), v) \<in> set (aggregate os m)"
proof -
  obtain v where v: "dict_get (foldl agg_step [] os) (a, r) = Some v" "fst v = observed_count os a r"
    using agg_fold_get [of os a r] assms by auto
  then have "((a, r), v) \<in> set (aggregate os m)"
    using assms dict_get_iff_mem [OF agg_fold_wf] by (auto simp: aggregate_def)
  then show ?thesis ..
qed

lemma aggregate_wf: "dict_wf (aggregate os m)"
  unfolding aggregate_def using agg_fold_wf by simp

subsection \<open>Grouping\<close>

definition members_of :: "agg_dict \<Rightarrow> string \<times> string \<Rightarrow> group_member list" where
  "members_of agg key =
     map (\<lambda>((a, r), c, l). (r, c, l))
       (filter (\<lambda>((a, r), _). (a, rsplit_head CHR ''/'' r) = key) agg)"

lemma group_fold_wf: "dict_wf (foldl group_step [] agg)"
  by (induction agg rule: rev_induct) (auto simp: group_step_def Let_def split: prod.split)

lemma group_fold_get:
  "dict_get (foldl group_step [] agg) key =
     (if members_of agg key = [] then None else Some (members_of agg key))"
proof (induction agg rule: rev_induct)
  case Nil
  show ?case by (simp add: members_of_def)
next
  case (snoc item agg)
  obtain a r c l where item: "item = ((a, r), c, l)" by (metis surj_pair)
  have "members_of (agg @ [item]) key =
      members_of agg key @ (if (a, rsplit_head CHR ''/'' r) = key then [(r, c, l)] else [])"
    by (simp add: members_of_def item)
  with snoc show ?case by (auto simp: group_step_def item Let_def split: option.splits if_splits)
qed

lemma group_mem:
  assumes "((a, parent), members) \<in> set (foldl group_step [] agg)"
  shows "members = members_of agg (a, parent)" "members \<noteq> []"
proof -
  have "dict_get (foldl group_step [] agg) (a, parent) = Some members"
    using assms dict_get_iff_mem [OF group_fold_wf] by fastforce
  then show "members = members_of agg (a, parent)" "members \<noteq> []"
    unfolding group_fold_get by (auto split: if_splits)
qed

lemma members_of_iff:
  "(r, c, l) \<in> set (members_of agg (a, parent)) \<longleftrightarrow>
     ((a, r), c, l) \<in> set agg \<and> rsplit_head CHR ''/'' r = parent"
  by (force simp: members_of_def)

lemma members_distinct: "dict_wf agg \<Longrightarrow> distinct (map fst (members_of agg (a, parent)))"
  by (induction agg) (auto simp: dict_wf_def members_of_def image_iff split: if_splits)

lemma agg_grouped:
  assumes "((a, r), c, l) \<in> set agg"
  shows "((a, rsplit_head CHR ''/'' r), members_of agg (a, rsplit_head CHR ''/'' r))
           \<in> set (foldl group_step [] agg)"
proof -
  have "(r, c, l) \<in> set (members_of agg (a, rsplit_head CHR ''/'' r))"
    using assms by (simp add: members_of_iff)
  then have "dict_get (foldl group_step [] agg) (a, rsplit_head CHR ''/'' r) =
      Some (members_of agg (a, rsplit_head CHR ''/'' r))"
    unfolding group_fold_get by force
  then show ?thesis using dict_get_iff_mem [OF group_fold_wf] by fastforce
qed

subsection \<open>What the proposals authorise\<close>

lemma attempted_scope_valid: "requestable a r \<Longrightarrow> is_valid_grant_scope (attempted_scope a r)"
  using allowed_action_no_colon is_valid_resourceD(3) valid_grant_resource_iff
  unfolding valid_grant_scope_iff attempted_scope_def requestable_def
  by (metis append_Cons append_Nil)

lemma requested_no_star: "is_valid_requested_resource r \<Longrightarrow> CHR ''*'' \<notin> set r"
  using requested_no_star_segment split_on_char_mem [of "CHR ''/''" "CHR ''*''" r] by auto

lemma attempted_scope_authorises:
  assumes "requestable a r"
  shows "authorises (attempted_scope a r) = {(a, r)}"
proof -
  have a: "CHR '':'' \<notin> set a" "CHR ''*'' \<notin> set r"
    using assms allowed_action_no_colon requested_no_star by (auto simp: requestable_def)
  have "x = a \<and> y = r" if "requestable x y" "match_scope [attempted_scope a r] x y \<noteq> None" for x y
  proof -
    have "\<not> matches_terminal_resource_wildcard (attempted_scope a r) x y"
      unfolding attempted_scope_def using concrete_no_wildcard_match [OF a] by simp
    moreover have "CHR '':'' \<notin> set x" using that allowed_action_no_colon by (auto simp: requestable_def)
    ultimately show ?thesis
      using that(2) attempted_scope_eq_iff [OF a(1), of x r y] by (simp add: attempted_scope_def split: if_splits)
  qed
  with assms show ?thesis by (auto simp: authorises_def)
qed

lemma rsplit_head_segments:
  assumes "is_valid_requested_resource r"
  shows "segments_of r = segments_of (rsplit_head CHR ''/'' r) @ [last (segments_of r)]"
proof -
  have len: "2 \<le> length (segments_of r)" using assms by (simp add: valid_requested_resource_iff)
  then have "CHR ''/'' \<in> set r" by (cases "CHR ''/'' \<in> set r") simp_all
  moreover have "segments_of (join_with ''/'' (butlast (segments_of r))) = butlast (segments_of r)"
  proof (rule split_join)
    show "butlast (segments_of r) \<noteq> []" using len by (cases "segments_of r" rule: rev_cases) auto
    show "\<forall>x\<in>set (butlast (segments_of r)). CHR ''/'' \<notin> set x"
      using split_on_parts in_set_butlastD by metis
  qed
  ultimately show ?thesis by (simp add: rsplit_head_def)
qed

lemma wildcard_authorises_child:
  assumes req: "requestable a r" and v: "is_valid_grant_scope (a @ '':'' @ rsplit_head CHR ''/'' r @ ''/*'')"
  shows "(a, r) \<in> authorises (a @ '':'' @ rsplit_head CHR ''/'' r @ ''/*'')"
proof -
  let ?p = "rsplit_head CHR ''/'' r"
  have r: "is_valid_requested_resource r" and a: "CHR '':'' \<notin> set a"
    using req allowed_action_no_colon by (auto simp: requestable_def)
  have p: "CHR '':'' \<notin> set (?p @ ''/*'')"
  proof -
    obtain x q where s: "a @ '':'' @ ?p @ ''/*'' = x @ CHR '':'' # q" and x: "CHR '':'' \<notin> set x"
      and q: "CHR '':'' \<notin> set q"
      using v by (elim valid_grant_scopeE)
    have "?p @ ''/*'' = q"
      using arg_cong [OF s, of "partition_on CHR '':''"] partition_on_found [OF a, of "?p @ ''/*''"]
        partition_on_found [OF x, of q] by simp
    with q show ?thesis by simp
  qed
  have "split_on CHR '':'' (a @ '':'' @ ?p @ ''/*'') = [a, ?p @ ''/*'']"
    using a p by (simp add: split_on_two)
  moreover have "segments_of (?p @ ''/*'') = segments_of ?p @ [''*'']"
    using split_on_append_sep [of "CHR ''/''" ?p "''*''"] by simp
  moreover have "length (segments_of ?p) < length (segments_of r)
      \<and> take (length (segments_of ?p)) (segments_of r) = segments_of ?p"
    using rsplit_head_segments [OF r] by (metis append_eq_conv_conj length_append_singleton lessI)
  ultimately have "scope_covers (a @ '':'' @ ?p @ ''/*'') a r"
    by (simp add: scope_covers_def pattern_covers_wildcard)
  with v req show ?thesis by (simp add: authorises_iff)
qed

text \<open>A proposal is one observed request, or a wildcard that the observations justify.\<close>

definition justified :: "Observation list \<Rightarrow> int \<Rightarrow> ScopeProposal \<Rightarrow> bool" where
  "justified observations min_count p \<longleftrightarrow>
     (if sp_generalized p
      then \<exists>a parent. sp_scope p = a @ '':'' @ parent @ ''/*''
             \<and> 2 \<le> length (segments_of parent)
             \<and> 2 \<le> card {r. requestable a r \<and> observed observations a r
                          \<and> min_count \<le> observed_count observations a r
                          \<and> rsplit_head CHR ''/'' r = parent}
      else \<exists>a r. sp_scope p = attempted_scope a r \<and> requestable a r \<and> observed observations a r
             \<and> min_count \<le> observed_count observations a r \<and> authorises (sp_scope p) = {(a, r)})"

lemma exact_justified:
  assumes "((a, r), c, l) \<in> set (aggregate os m)"
  shows "is_valid_grant_scope (sp_scope (exact_proposal a r c l))" "justified os m (exact_proposal a r c l)"
    "(a, r) \<in> authorises (sp_scope (exact_proposal a r c l))"
  using aggregate_mem [OF assms] attempted_scope_valid attempted_scope_authorises
  by (auto simp: exact_proposal_def justified_def Let_def)

lemma finite_observed: "finite {r. P r \<and> observed os a r \<and> Q r}"
  by (rule finite_subset [of _ "ob_resource ` set os"]) (auto simp: observed_def)

lemma members_card:
  assumes "2 \<le> length (members_of (aggregate os m) (a, parent))"
  shows "2 \<le> card {r. requestable a r \<and> observed os a r \<and> m \<le> observed_count os a r
                      \<and> rsplit_head CHR ''/'' r = parent}"
proof -
  let ?ms = "members_of (aggregate os m) (a, parent)"
  have "set (map fst ?ms) \<subseteq> {r. requestable a r \<and> observed os a r \<and> m \<le> observed_count os a r
                      \<and> rsplit_head CHR ''/'' r = parent}" (is "_ \<subseteq> ?R")
    using aggregate_mem by (auto simp: members_of_iff)
  moreover have "finite ?R" by (rule finite_observed)
  ultimately have "card (set (map fst ?ms)) \<le> card ?R" by (rule card_mono [rotated])
  then show ?thesis
    using assms distinct_card [OF members_distinct [OF aggregate_wf, of os m a parent]] by simp
qed

lemma group_proposals_justified:
  assumes g: "((a, parent), members) \<in> set (foldl group_step [] (aggregate os m))"
    and p: "p \<in> set (group_proposals ((a, parent), members))"
  shows "is_valid_grant_scope (sp_scope p)" "justified os m p"
proof -
  have ms: "members = members_of (aggregate os m) (a, parent)" by (rule group_mem [OF g])
  let ?wide = "2 \<le> length members \<and> 2 \<le> length (segments_of parent)
     \<and> is_valid_grant_scope (a @ '':'' @ parent @ ''/*'')"
  show "is_valid_grant_scope (sp_scope p)" "justified os m p"
  proof (atomize (full), cases ?wide)
    case True
    with p ms members_card [of os m a parent] show "is_valid_grant_scope (sp_scope p) \<and> justified os m p"
      by (auto simp: group_proposals_def justified_def Let_def)
  next
    case False
    then obtain r c l where "p = exact_proposal a r c l" "(r, c, l) \<in> set members"
      using p by (auto simp: group_proposals_def Let_def split: if_splits)
    with ms exact_justified show "is_valid_grant_scope (sp_scope p) \<and> justified os m p"
      by (auto simp: members_of_iff)
  qed
qed

lemma group_proposals_cover:
  assumes "((a, r), c, l) \<in> set (aggregate os m)"
  shows "\<exists>p\<in>set (concat (map group_proposals (foldl group_step [] (aggregate os m)))).
           (a, r) \<in> authorises (sp_scope p)"
proof -
  let ?par = "rsplit_head CHR ''/'' r"
  let ?ms = "members_of (aggregate os m) (a, ?par)"
  have mem: "(r, c, l) \<in> set ?ms" using assms by (simp add: members_of_iff)
  have "\<exists>p\<in>set (group_proposals ((a, ?par), ?ms)). (a, r) \<in> authorises (sp_scope p)"
  proof (cases "2 \<le> length ?ms \<and> 2 \<le> length (segments_of ?par)
       \<and> is_valid_grant_scope (a @ '':'' @ ?par @ ''/*'')")
    case True
    with wildcard_authorises_child [of a r] aggregate_mem(1) [OF assms] show ?thesis
      by (auto simp: group_proposals_def Let_def)
  next
    case False
    then have "exact_proposal a r c l \<in> set (group_proposals ((a, ?par), ?ms))"
      using mem by (force simp: group_proposals_def Let_def)
    with exact_justified(3) [OF assms] show ?thesis by blast
  qed
  with agg_grouped [OF assms] show ?thesis by force
qed

text \<open>
  (C38) The proposals inferred from observations are valid grant scopes; they authorise every
  valid request that was seen at least \<^verbatim>\<open>min_count\<close> times; and none is broader than the
  observations justify: an exact proposal authorises one such request and nothing else, and
  a wildcard is proposed only when asked for, below a parent of two or more segments under
  which two or more such requests were seen. The only error is a \<^verbatim>\<open>min_count\<close> below one.
\<close>

theorem propose_scopes_covers_and_narrow:
  "(case propose_scopes observations generalize min_count of
      Inl e \<Rightarrow> min_count < 1 \<and> e = ValueError ''min_count must be positive''
    | Inr proposals \<Rightarrow>
        1 \<le> min_count
        \<and> sorted (map sp_scope proposals)
        \<and> (\<forall>p\<in>set proposals. is_valid_grant_scope (sp_scope p) \<and> justified observations min_count p
              \<and> (sp_generalized p \<longrightarrow> generalize))
        \<and> (\<forall>a r. requestable a r \<and> observed observations a r \<and> min_count \<le> observed_count observations a r
              \<longrightarrow> (\<exists>p\<in>set proposals. (a, r) \<in> authorises (sp_scope p))))"
proof (cases "min_count < 1")
  case True
  then show ?thesis by (simp add: propose_scopes_def)
next
  case pos: False
  let ?agg = "aggregate observations min_count"
  show ?thesis
  proof (cases generalize)
    case True
    have "is_valid_grant_scope (sp_scope p) \<and> justified observations min_count p"
      if "p \<in> set (concat (map group_proposals (foldl group_step [] ?agg)))" for p
      using that group_proposals_justified by force
    moreover have "\<exists>p\<in>set (concat (map group_proposals (foldl group_step [] ?agg))).
        (a, r) \<in> authorises (sp_scope p)"
      if "requestable a r \<and> observed observations a r \<and> min_count \<le> observed_count observations a r" for a r
      using that aggregate_complete [of a r observations min_count] group_proposals_cover by force
    ultimately show ?thesis using pos True by (simp add: propose_scopes_def Let_def)
  next
    case False
    let ?ps = "map (\<lambda>((a, r), (c, l)). exact_proposal a r c l) ?agg"
    have "is_valid_grant_scope (sp_scope p) \<and> justified observations min_count p \<and> \<not> sp_generalized p"
      if "p \<in> set ?ps" for p
      using that exact_justified by (fastforce simp: exact_proposal_def Let_def)
    moreover have "\<exists>p\<in>set ?ps. (a, r) \<in> authorises (sp_scope p)"
      if "requestable a r \<and> observed observations a r \<and> min_count \<le> observed_count observations a r" for a r
      using that aggregate_complete [of a r observations min_count] exact_justified(3) by force
    ultimately show ?thesis using pos False by (simp add: propose_scopes_def Let_def)
  qed
qed

theorem propose_scopes_covers_and_narrow_witness:
  "propose_scopes [\<lparr>ob_action = ''read'', ob_resource = ''repo/x'', ob_count = 2, ob_last_seen = None\<rparr>] True 2
     = Inr [exact_proposal ''read'' ''repo/x'' 2 None]
   \<and> is_valid_grant_scope ''read:repo/x'' \<and> (''read'', ''repo/x'') \<in> authorises ''read:repo/x''"
proof -
  let ?os = "[\<lparr>ob_action = ''read'', ob_resource = ''repo/x'', ob_count = 2, ob_last_seen = None\<rparr>]"
  have v: "requestable ''read'' ''repo/x''" by (simp add: requestable_def scope_eval)
  have p: "propose_scopes ?os True 2 = Inr [exact_proposal ''read'' ''repo/x'' 2 None]"
    by (simp add: propose_scopes_def aggregate_def agg_step_def scope_eval latest_def group_step_def
        rsplit_head_def group_proposals_def)
  have "observed ?os ''read'' ''repo/x''" "observed_count ?os ''read'' ''repo/x'' = 2"
    by (simp_all add: observed_def observed_count_def)
  with propose_scopes_covers_and_narrow [where observations = ?os and generalize = True and min_count = 2] v p show ?thesis
    by (simp add: exact_proposal_def attempted_scope_def Let_def)
qed

end
