(* ===== verification/GrantRepo.thy ===== *)
theory GrantRepo
  imports ServiceModels "HOL-Library.List_Lexorder" "HOL-Library.Char_ord"
begin

section \<open>Grant repositories\<close>

text \<open>
  The grant repositories of \<^verbatim>\<open>src/vinctor_service/repositories.py\<close> and \<^verbatim>\<open>sqlite.py\<close>. The
  protocol \<^verbatim>\<open>GrantLifecycleRepository\<close> is the record of its methods; the locale
  \<open>grant_store\<close> states what its clients rely on, with \<open>grants\<close> the finite map from grant
  references to grants that a store represents.

  The SQLite table is the list of its rows in row order, each row decoded (the \<^verbatim>\<open>scopes_json\<close>
  and date columns hold the JSON and ISO texts of the fields). A write that violates a key
  constraint raises \<^verbatim>\<open>sqlite3.IntegrityError\<close> and is rolled back by \<^verbatim>\<open>_write_scope\<close>.
\<close>

record 'g GrantLifecycleRepository =
  gl_get_by_ref :: "'g \<Rightarrow> string \<Rightarrow> Grant option"
  gl_list_grants_for_workspace :: "'g \<Rightarrow> string \<Rightarrow> string option \<Rightarrow> string option \<Rightarrow> Grant list"
  gl_insert :: "Grant \<Rightarrow> 'g \<Rightarrow> exn option \<times> 'g"
  gl_revoke :: "string \<Rightarrow> string \<Rightarrow> 'g \<Rightarrow> (exn + Grant option) \<times> 'g"

definition grant_listed :: "string \<Rightarrow> string option \<Rightarrow> string option \<Rightarrow> Grant \<Rightarrow> bool" where
  "grant_listed workspace_id agent_id status grant \<longleftrightarrow>
     g_workspace_id grant = workspace_id
     \<and> (case agent_id of None \<Rightarrow> True | Some a \<Rightarrow> g_agent_id grant = a)
     \<and> (case status of None \<Rightarrow> True | Some st \<Rightarrow> g_status grant = st)"

subsection \<open>In memory\<close>

type_synonym grants_by_ref = "(string, Grant) dict"

definition im_get_by_ref :: "grants_by_ref \<Rightarrow> string \<Rightarrow> Grant option" where
  "im_get_by_ref store grant_ref = dict_get store grant_ref"

definition im_list_grants ::
  "grants_by_ref \<Rightarrow> string \<Rightarrow> string option \<Rightarrow> string option \<Rightarrow> Grant list" where
  "im_list_grants store workspace_id agent_id status =
     filter (grant_listed workspace_id agent_id status) (sort_key g_grant_id (dict_values store))"

definition im_insert_grant :: "Grant \<Rightarrow> grants_by_ref \<Rightarrow> exn option \<times> grants_by_ref" where
  "im_insert_grant grant store =
     (if dict_get store (g_grant_ref grant) \<noteq> None
      then (Some (ValueError (''duplicate grant_ref: '' @ g_grant_ref grant)), store)
      else (None, dict_set (g_grant_ref grant) grant store))"

definition im_revoke_grant ::
  "string \<Rightarrow> string \<Rightarrow> grants_by_ref \<Rightarrow> (exn + Grant option) \<times> grants_by_ref" where
  "im_revoke_grant grant_ref workspace_id store =
     (case im_get_by_ref store grant_ref of
        None \<Rightarrow> (Inr None, store)
      | Some grant \<Rightarrow>
          if g_workspace_id grant \<noteq> workspace_id then (Inr None, store)
          else let revoked = grant\<lparr>g_status := ''revoked''\<rparr>
               in (Inr (Some revoked), dict_set grant_ref revoked store))"

fun im_init_grants_from :: "Grant list \<Rightarrow> grants_by_ref \<Rightarrow> exn + grants_by_ref" where
  "im_init_grants_from [] store = Inr store"
| "im_init_grants_from (grant # grants) store =
     (case im_insert_grant grant store of
        (Some e, _) \<Rightarrow> Inl e
      | (None, store') \<Rightarrow> im_init_grants_from grants store')"

definition im_init_grants :: "Grant list \<Rightarrow> exn + grants_by_ref" where
  "im_init_grants grants = im_init_grants_from grants []"

definition InMemoryGrantRepository :: "grants_by_ref GrantLifecycleRepository" where
  "InMemoryGrantRepository =
     \<lparr>gl_get_by_ref = im_get_by_ref, gl_list_grants_for_workspace = im_list_grants,
      gl_insert = im_insert_grant, gl_revoke = im_revoke_grant\<rparr>"

subsection \<open>SQLite\<close>

type_synonym grants_table = "Grant list"

definition sq_get_by_ref :: "grants_table \<Rightarrow> string \<Rightarrow> Grant option" where
  "sq_get_by_ref rows grant_ref = find_first (\<lambda>row. g_grant_ref row = grant_ref) rows"

definition sq_list_grants ::
  "grants_table \<Rightarrow> string \<Rightarrow> string option \<Rightarrow> string option \<Rightarrow> Grant list" where
  "sq_list_grants rows workspace_id agent_id status =
     sort_key g_grant_id (filter (grant_listed workspace_id agent_id status) rows)"

definition sq_insert_grant :: "Grant \<Rightarrow> grants_table \<Rightarrow> exn option \<times> grants_table" where
  "sq_insert_grant grant rows =
     (if sq_get_by_ref rows (g_grant_ref grant) \<noteq> None
      then (Some (ValueError (''duplicate grant_ref: '' @ g_grant_ref grant)), rows)
      else if g_grant_id grant \<in> g_grant_id ` set rows
      then (Some (OtherException ''IntegrityError''), rows)
      else (None, rows @ [grant]))"

definition sq_revoke_grant ::
  "string \<Rightarrow> string \<Rightarrow> grants_table \<Rightarrow> (exn + Grant option) \<times> grants_table" where
  "sq_revoke_grant grant_ref workspace_id rows =
     (case sq_get_by_ref rows grant_ref of
        None \<Rightarrow> (Inr None, rows)
      | Some grant \<Rightarrow>
          if g_workspace_id grant \<noteq> workspace_id then (Inr None, rows)
          else if g_status grant = ''revoked'' then (Inr (Some grant), rows)
          else
            let rows' = map (\<lambda>row. if g_grant_ref row = grant_ref \<and> g_workspace_id row = workspace_id
                                    then row\<lparr>g_status := ''revoked''\<rparr> else row) rows
            in case sq_get_by_ref rows' grant_ref of
                 None \<Rightarrow> (Inl (RuntimeError (''grant disappeared during revocation: '' @ grant_ref)), rows')
               | Some revoked \<Rightarrow> (Inr (Some revoked), rows'))"

definition SQLiteGrantRepository :: "grants_table GrantLifecycleRepository" where
  "SQLiteGrantRepository =
     \<lparr>gl_get_by_ref = sq_get_by_ref, gl_list_grants_for_workspace = sq_list_grants,
      gl_insert = sq_insert_grant, gl_revoke = sq_revoke_grant\<rparr>"

lemmas grant_repo_defs =
  InMemoryGrantRepository_def im_get_by_ref_def im_insert_grant_def im_revoke_grant_def
  SQLiteGrantRepository_def sq_get_by_ref_def sq_insert_grant_def sq_revoke_grant_def

subsection \<open>The contract\<close>

locale grant_store =
  fixes repo :: "'g GrantLifecycleRepository"
    and grants :: "'g \<Rightarrow> string \<Rightarrow> Grant option"
    and inv :: "'g \<Rightarrow> bool"
  assumes get_by_ref: "gl_get_by_ref repo g r = grants g r"
    and own_ref: "inv g \<Longrightarrow> grants g r = Some x \<Longrightarrow> g_grant_ref x = r"
    and insert_ok: "inv g \<Longrightarrow> gl_insert repo x g = (None, g') \<Longrightarrow>
          inv g' \<and> grants g (g_grant_ref x) = None \<and> grants g' = (grants g)(g_grant_ref x \<mapsto> x)"
    and insert_raises: "gl_insert repo x g = (Some e, g') \<Longrightarrow> g' = g"
    and insert_duplicate: "grants g (g_grant_ref x) \<noteq> None \<Longrightarrow>
          \<exists>m. gl_insert repo x g = (Some (ValueError m), g)"
    and revoke_found: "inv g \<Longrightarrow> grants g r = Some x \<Longrightarrow> g_workspace_id x = w \<Longrightarrow>
          \<exists>g'. gl_revoke repo r w g = (Inr (Some (x\<lparr>g_status := ''revoked''\<rparr>)), g') \<and> inv g'
               \<and> grants g' = (grants g)(r \<mapsto> x\<lparr>g_status := ''revoked''\<rparr>)"
    and revoke_absent: "grants g r = None \<or> (\<exists>x. grants g r = Some x \<and> g_workspace_id x \<noteq> w) \<Longrightarrow>
          gl_revoke repo r w g = (Inr None, g)"
begin

lemma revoke_keeps_others:
  assumes "inv g" "gl_revoke repo r w g = (res, g')" "q \<noteq> r"
  shows "grants g' q = grants g q"
proof (cases "\<exists>x. grants g r = Some x \<and> g_workspace_id x = w")
  case True
  then show ?thesis using assms revoke_found [OF assms(1)] by fastforce
next
  case False
  then have "gl_revoke repo r w g = (Inr None, g)" by (intro revoke_absent) (auto split: option.splits)
  with assms show ?thesis by simp
qed

lemma revoke_inv: "inv g \<Longrightarrow> gl_revoke repo r w g = (res, g') \<Longrightarrow> inv g'"
  using revoke_found [of g r _ w] revoke_absent [of g r w] by (metis not_None_eq prod.inject)

lemma insert_inv: "inv g \<Longrightarrow> gl_insert repo x g = (e, g') \<Longrightarrow> inv g'"
  using insert_ok insert_raises by (cases e) blast+

end

lemma dict_set_map: "dict_get (dict_set k v d) = (dict_get d)(k \<mapsto> v)"
  by (rule ext) simp

definition im_grants_inv :: "grants_by_ref \<Rightarrow> bool" where
  "im_grants_inv store \<longleftrightarrow> dict_wf store \<and> (\<forall>r x. dict_get store r = Some x \<longrightarrow> g_grant_ref x = r)"

interpretation im_grants: grant_store InMemoryGrantRepository "dict_get" im_grants_inv
  by unfold_locales
    (auto simp: grant_repo_defs im_grants_inv_def dict_set_map Let_def split: if_splits option.splits)

definition sq_grants_inv :: "grants_table \<Rightarrow> bool" where
  "sq_grants_inv rows \<longleftrightarrow> distinct (map g_grant_ref rows) \<and> distinct (map g_grant_id rows)"

lemma find_first_key: "find_first (\<lambda>x. key x = k) xs = Some y \<Longrightarrow> key y = k"
  by (auto dest: find_first_Some)

lemma sq_revoke_update:
  assumes "sq_grants_inv rows" "sq_get_by_ref rows r = Some x" "g_workspace_id x = w"
  shows "map (\<lambda>row. if g_grant_ref row = r \<and> g_workspace_id row = w then row\<lparr>g_status := ''revoked''\<rparr> else row) rows
       = map (\<lambda>row. if g_grant_ref row = r then x\<lparr>g_status := ''revoked''\<rparr> else row) rows"
proof (rule map_cong [OF refl])
  fix row assume "row \<in> set rows"
  moreover have "x \<in> set rows" "g_grant_ref x = r"
    using assms(2) by (auto simp: sq_get_by_ref_def dest: find_first_Some)
  ultimately have "g_grant_ref row = r \<Longrightarrow> row = x"
    using assms(1) by (auto simp: sq_grants_inv_def distinct_map inj_on_def)
  then show "(if g_grant_ref row = r \<and> g_workspace_id row = w then row\<lparr>g_status := ''revoked''\<rparr> else row)
      = (if g_grant_ref row = r then x\<lparr>g_status := ''revoked''\<rparr> else row)"
    using assms(3) by auto
qed

text \<open>The SQLite operations are the in-memory ones on the dictionary of the table's rows.\<close>

abbreviation grants_dict :: "grants_table \<Rightarrow> grants_by_ref" where
  "grants_dict \<equiv> by_key g_grant_ref"

lemma sq_get_refines: "sq_get_by_ref rows r = im_get_by_ref (grants_dict rows) r"
  by (simp add: sq_get_by_ref_def im_get_by_ref_def dict_get_by_key)

lemma sq_insert_refines:
  assumes "g_grant_id x \<notin> g_grant_id ` set rows"
  shows "im_insert_grant x (grants_dict rows) =
     map_prod id grants_dict (sq_insert_grant x rows)"
  using assms dict_set_by_key_fresh [of g_grant_ref x rows]
  by (auto simp: im_insert_grant_def sq_insert_grant_def sq_get_by_ref_def dict_get_by_key)

lemma grant_with_own_status: "g_status x = st \<Longrightarrow> x\<lparr>g_status := st\<rparr> = x"
  by (cases x) simp

lemma sq_revoke_refines:
  assumes inv: "sq_grants_inv rows"
  shows "im_revoke_grant r w (grants_dict rows) = map_prod id grants_dict (sq_revoke_grant r w rows)"
proof (cases "sq_get_by_ref rows r")
  case None
  then show ?thesis
    by (simp add: im_revoke_grant_def sq_revoke_grant_def sq_get_refines)
next
  case (Some x)
  have r: "g_grant_ref x = r" using Some by (auto simp: sq_get_by_ref_def dest: find_first_key)
  have ff: "find_first (\<lambda>y. g_grant_ref y = r) rows = Some x" using Some by (simp add: sq_get_by_ref_def)
  have set: "dict_set r v (grants_dict rows) = grants_dict (map (\<lambda>row. if g_grant_ref row = r then v else row) rows)"
    if "g_grant_ref v = r" for v
    using dict_set_by_key_update [of g_grant_ref rows v x] inv ff that by (simp add: sq_grants_inv_def)
  show ?thesis
  proof (cases "g_workspace_id x = w")
    case False
    with Some show ?thesis by (simp add: im_revoke_grant_def sq_revoke_grant_def sq_get_refines)
  next
    case w: True
    let ?v = "x\<lparr>g_status := ''revoked''\<rparr>"
    show ?thesis
    proof (cases "g_status x = ''revoked''")
      case True
      have "map (\<lambda>row. if g_grant_ref row = r then x else row) rows = rows"
        using inv Some r by (intro map_idI)
          (auto simp: sq_grants_inv_def sq_get_by_ref_def distinct_map inj_on_def dest!: find_first_Some)
      with Some w True set [of x] r show ?thesis
        by (simp add: im_revoke_grant_def sq_revoke_grant_def sq_get_refines grant_with_own_status Let_def)
    next
      case False
      let ?rows' = "map (\<lambda>row. if g_grant_ref row = r then ?v else row) rows"
      have "sq_get_by_ref ?rows' r = Some ?v"
        unfolding sq_get_refines using set [of ?v] r by (simp add: im_get_by_ref_def flip: set)
      then have "sq_revoke_grant r w rows = (Inr (Some ?v), ?rows')"
        unfolding sq_revoke_grant_def Let_def sq_revoke_update [OF inv Some w] using Some w False by simp
      with Some w set [of ?v] r show ?thesis
        by (simp add: im_revoke_grant_def sq_get_refines Let_def)
    qed
  qed
qed

lemma map_restatus:
  "map g_grant_ref (map (\<lambda>row. if P row then row\<lparr>g_status := st\<rparr> else row) rows) = map g_grant_ref rows"
  "map g_grant_id (map (\<lambda>row. if P row then row\<lparr>g_status := st\<rparr> else row) rows) = map g_grant_id rows"
  by simp_all

lemma sq_revoke_inv:
  assumes "sq_grants_inv rows"
  shows "sq_grants_inv (snd (sq_revoke_grant r w rows))"
proof -
  have "sq_grants_inv (map (\<lambda>row. if P row then row\<lparr>g_status := ''revoked''\<rparr> else row) rows)" for P
    using assms unfolding sq_grants_inv_def map_restatus .
  with assms show ?thesis by (simp add: sq_revoke_grant_def Let_def split: option.splits)
qed

text \<open>The contract holds of the SQLite store because it holds of the dictionary it represents.\<close>

lemma grants_dict_inv: "sq_grants_inv rows \<Longrightarrow> im_grants_inv (grants_dict rows)"
  by (auto simp: sq_grants_inv_def im_grants_inv_def dict_get_by_key dest: find_first_key)

interpretation sq_grants: grant_store SQLiteGrantRepository "\<lambda>rows. dict_get (grants_dict rows)" sq_grants_inv
proof unfold_locales
  fix rows r x w assume inv: "sq_grants_inv rows" and x: "dict_get (grants_dict rows) r = Some x"
    and w: "g_workspace_id x = w"
  let ?v = "x\<lparr>g_status := ''revoked''\<rparr>"
  obtain res rows' where s: "sq_revoke_grant r w rows = (res, rows')" by (metis surj_pair)
  have "im_revoke_grant r w (grants_dict rows) = (res, grants_dict rows')"
    using sq_revoke_refines [OF inv, of r w] s by simp
  then have "res = Inr (Some ?v)" "dict_get (grants_dict rows') = (dict_get (grants_dict rows))(r \<mapsto> ?v)"
    using x w by (auto simp: im_revoke_grant_def im_get_by_ref_def Let_def simp flip: dict_set_map)
  then show "\<exists>g'. gl_revoke SQLiteGrantRepository r w rows = (Inr (Some ?v), g') \<and> sq_grants_inv g'
      \<and> dict_get (grants_dict g') = (dict_get (grants_dict rows))(r \<mapsto> ?v)"
    using s sq_revoke_inv [OF inv, of r w] by (simp add: SQLiteGrantRepository_def)
next
  fix rows r x assume "sq_grants_inv rows" "dict_get (grants_dict rows) r = Some x"
  then show "g_grant_ref x = r" by (auto simp: dict_get_by_key dest: find_first_key)
next
  fix rows x rows'
  assume inv: "sq_grants_inv rows" and ins: "gl_insert SQLiteGrantRepository x rows = (None, rows')"
  then have new: "g_grant_id x \<notin> g_grant_id ` set rows" "sq_get_by_ref rows (g_grant_ref x) = None"
      "rows' = rows @ [x]"
    by (auto simp: SQLiteGrantRepository_def sq_insert_grant_def split: if_splits)
  have "g_grant_ref x \<notin> g_grant_ref ` set rows"
    using new(2) by (auto simp: sq_get_by_ref_def find_first_None_iff)
  then have "sq_grants_inv rows'" using inv new(1,3) by (simp add: sq_grants_inv_def)
  moreover have "dict_get (grants_dict rows) (g_grant_ref x) = None"
    using new(2) by (simp add: sq_get_by_ref_def dict_get_by_key)
  moreover have "dict_get (grants_dict rows') = (dict_get (grants_dict rows))(g_grant_ref x \<mapsto> x)"
    using dict_set_by_key_fresh [of g_grant_ref x rows] new(2,3)
    by (simp add: sq_get_by_ref_def flip: dict_set_map)
  ultimately show "sq_grants_inv rows' \<and> dict_get (grants_dict rows) (g_grant_ref x) = None
      \<and> dict_get (grants_dict rows') = (dict_get (grants_dict rows))(g_grant_ref x \<mapsto> x)" by blast
qed (auto simp: grant_repo_defs dict_get_by_key split: if_splits option.splits)

text \<open>
  (C35) The SQLite grant repository is a refinement of the in-memory one: reading the table as
  the dictionary of its rows, every lookup, listing, insertion and revocation gives the same
  answer and the same new contents. The one exception is an insertion whose \<^verbatim>\<open>grant_id\<close> is
  taken while its \<^verbatim>\<open>grant_ref\<close> is fresh: the table raises \<^verbatim>\<open>IntegrityError\<close> and is unchanged,
  the dictionary accepts it.
\<close>

theorem sqlite_grants_refine_in_memory:
  assumes inv: "sq_grants_inv rows"
  shows "sq_get_by_ref rows grant_ref = im_get_by_ref (grants_dict rows) grant_ref
     \<and> sq_list_grants rows workspace_id agent_id status = im_list_grants (grants_dict rows) workspace_id agent_id status
     \<and> map_prod id grants_dict (sq_revoke_grant grant_ref workspace_id rows)
         = im_revoke_grant grant_ref workspace_id (grants_dict rows)
     \<and> sq_grants_inv (snd (sq_revoke_grant grant_ref workspace_id rows))
     \<and> sq_grants_inv (snd (sq_insert_grant grant rows))
     \<and> (if sq_get_by_ref rows (g_grant_ref grant) = None \<and> g_grant_id grant \<in> g_grant_id ` set rows
         then sq_insert_grant grant rows = (Some (OtherException ''IntegrityError''), rows)
              \<and> im_insert_grant grant (grants_dict rows)
                  = (None, dict_set (g_grant_ref grant) grant (grants_dict rows))
         else map_prod id grants_dict (sq_insert_grant grant rows) = im_insert_grant grant (grants_dict rows))"
proof -
  have list: "sq_list_grants rows workspace_id agent_id status
      = im_list_grants (grants_dict rows) workspace_id agent_id status"
    by (simp add: sq_list_grants_def im_list_grants_def filter_sort)
  have ins: "if sq_get_by_ref rows (g_grant_ref grant) = None \<and> g_grant_id grant \<in> g_grant_id ` set rows
         then sq_insert_grant grant rows = (Some (OtherException ''IntegrityError''), rows)
              \<and> im_insert_grant grant (grants_dict rows)
                  = (None, dict_set (g_grant_ref grant) grant (grants_dict rows))
         else map_prod id grants_dict (sq_insert_grant grant rows) = im_insert_grant grant (grants_dict rows)"
    using sq_insert_refines [of grant rows]
    by (auto simp: sq_insert_grant_def im_insert_grant_def sq_get_by_ref_def dict_get_by_key)
  have "sq_grants_inv (snd (sq_insert_grant grant rows))"
    using sq_grants.insert_inv [OF inv, of grant] by (simp add: SQLiteGrantRepository_def prod_eq_iff)
  then show ?thesis
    using list ins sq_get_refines sq_revoke_refines [OF inv] sq_revoke_inv [OF inv] by metis
qed

theorem sqlite_grants_refine_in_memory_witness:
  "sq_list_grants [] ''ws'' None None = im_list_grants (grants_dict []) ''ws'' None None
   \<and> sq_grants_inv (snd (sq_insert_grant
       \<lparr>g_grant_id = ''i'', g_grant_ref = ''r'', g_workspace_id = ''ws'', g_agent_id = ''a'',
        g_scopes = [''read:a/b''], g_status = ''active'', g_expires_at = None\<rparr> []))"
  using sqlite_grants_refine_in_memory [of "[]" "''r''" "''ws''" None None
      "\<lparr>g_grant_id = ''i'', g_grant_ref = ''r'', g_workspace_id = ''ws'', g_agent_id = ''a'',
        g_scopes = [''read:a/b''], g_status = ''active'', g_expires_at = None\<rparr>"]
  by (simp add: sq_grants_inv_def)

end
