(* ===== verification/PyJson.thy ===== *)
theory PyJson
  imports PyStr "HOL-Library.List_Lexorder" "HOL-Library.Char_ord"
begin

section \<open>JSON text of the Python library\<close>

text \<open>
  The serialisation of the standard library the audit code uses: \<^verbatim>\<open>json.dumps\<close> with
  \<^verbatim>\<open>sort_keys=True\<close> and the default separators and escaping. Strings are ordered by code point, as Python orders them, which is the
  order of the library on lists of characters.
\<close>

subsection \<open>Values and their text\<close>

datatype json =
    JNull
  | JBool bool
  | JInt int
  | JStr string
  | JList "json list"
  | JObj "(string \<times> json) list"

definition json_opt :: "string option \<Rightarrow> json" where
  "json_opt x = (case x of None \<Rightarrow> JNull | Some s \<Rightarrow> JStr s)"

definition json_escape_char :: "char \<Rightarrow> string" where
  "json_escape_char c =
     (if c = CHR 0x22 then [CHR 0x5C, CHR 0x22]
      else if c = CHR 0x5C then [CHR 0x5C, CHR 0x5C]
      else if c = CHR 0x0A then [CHR 0x5C, CHR ''n'']
      else if c = CHR 0x0D then [CHR 0x5C, CHR ''r'']
      else if c = CHR 0x09 then [CHR 0x5C, CHR ''t'']
      else if c = CHR 0x08 then [CHR 0x5C, CHR ''b'']
      else if c = CHR 0x0C then [CHR 0x5C, CHR ''f'']
      else let n = of_char c :: nat
        in if 32 \<le> n \<and> n \<le> 126 then [c]
           else CHR 0x5C # ''u00'' @ [hex_digit (n div 16), hex_digit n])"

definition json_string :: "string \<Rightarrow> string" where
  "json_string s = CHR 0x22 # concat (map json_escape_char s) @ [CHR 0x22]"

text \<open>\<^verbatim>\<open>json.dumps(value, sort_keys=True)\<close>. The keys of a dictionary are distinct.\<close>

fun json_dumps :: "json \<Rightarrow> string" where
  "json_dumps JNull = ''null''"
| "json_dumps (JBool b) = (if b then ''true'' else ''false'')"
| "json_dumps (JInt n) = py_str_int n"
| "json_dumps (JStr s) = json_string s"
| "json_dumps (JList xs) = ''['' @ join_with '', '' (map json_dumps xs) @ '']''"
| "json_dumps (JObj kvs) =
     ''{'' @ join_with '', ''
       (map (\<lambda>kt. json_string (fst kt) @ '': '' @ snd kt)
          (sort_key fst (map (\<lambda>(k, v). (k, json_dumps v)) kvs))) @ ''}''"

subsection \<open>The text has no line break\<close>

lemma hex_digit_printable: "32 \<le> (of_char (hex_digit n) :: nat) \<and> (of_char (hex_digit n) :: nat) \<le> 126"
  using hex_digit_mem [of n] by auto

definition printable :: "string \<Rightarrow> bool" where
  "printable s \<longleftrightarrow> (\<forall>c\<in>set s. 32 \<le> (of_char c :: nat) \<and> (of_char c :: nat) \<le> 126)"

lemma printable_simps [simp]:
  "printable []"
  "printable (c # s) \<longleftrightarrow> 32 \<le> (of_char c :: nat) \<and> (of_char c :: nat) \<le> 126 \<and> printable s"
  "printable (s @ t) \<longleftrightarrow> printable s \<and> printable t"
  by (auto simp: printable_def)

lemma printable_escape [simp]: "printable (json_escape_char c)"
  by (simp add: json_escape_char_def Let_def hex_digit_printable)

lemma printable_json_string [simp]: "printable (json_string s)"
  by (induction s) (simp_all add: json_string_def)

lemma printable_join: "printable sep \<Longrightarrow> (\<forall>x\<in>set xs. printable x) \<Longrightarrow> printable (join_with sep xs)"
  by (induction sep xs rule: join_with.induct) auto

lemma printable_nat_digits: "printable (nat_digits n)"
proof (induction n rule: nat_digits.induct)
  case (1 n)
  then show ?case by (subst nat_digits.simps) (auto simp: digit_char_def)
qed

lemma printable_py_str_int [simp]: "printable (py_str_int n)"
  by (simp add: py_str_int_def printable_nat_digits)

lemma printable_json_dumps [simp]: "printable (json_dumps v)"
proof (induction v)
  case (JObj kvs)
  have "\<forall>x\<in>set kvs. printable (json_dumps (snd x))" using JObj by (metis prod.collapse snds.intros)
  then show ?case by (force intro!: printable_join)
qed (auto intro!: printable_join)

lemma printable_not_newline: "printable s \<Longrightarrow> CHR 0x0A \<notin> set s"
  by (auto simp: printable_def)

lemma json_dumps_not_newline [simp]: "CHR 0x0A \<notin> set (json_dumps v)"
  by (rule printable_not_newline) simp

end
