(* ===== verification/PyTime.thy ===== *)
theory PyTime
  imports PyStr "HOL-Library.Monad_Syntax"
begin

section \<open>Dates of the Python library\<close>

text \<open>
  \<^verbatim>\<open>datetime.isoformat\<close> of a UTC instant and \<^verbatim>\<open>datetime.fromisoformat\<close>, with the calendar functions
  of Python's own \<^verbatim>\<open>datetime\<close> module (\<^verbatim>\<open>_ord2ymd\<close>, \<^verbatim>\<open>_ymd2ord\<close>). An instant is its number of
  microseconds since the epoch; it is a \<^verbatim>\<open>datetime\<close> when its date is in the years 1 to 9999.
  \<open>fromisoformat\<close> reads the full date and time with a numeric offset or \<open>Z\<close>, which is what
  \<open>isoformat\<close> writes of an aware value; shorter and week-based forms that Python also
  accepts are not read.
\<close>

subsection \<open>The calendar\<close>

definition is_leap :: "int \<Rightarrow> bool" where
  "is_leap y \<longleftrightarrow> y mod 4 = 0 \<and> (y mod 100 \<noteq> 0 \<or> y mod 400 = 0)"

definition days_before_year :: "int \<Rightarrow> int" where
  "days_before_year year = (let y = year - 1 in y * 365 + y div 4 - y div 100 + y div 400)"

definition DAYS_BEFORE_MONTH :: "int list" where
  "DAYS_BEFORE_MONTH = [0, 31, 59, 90, 120, 151, 181, 212, 243, 273, 304, 334]"

definition days_before_month :: "bool \<Rightarrow> int \<Rightarrow> int" where
  "days_before_month leap m = DAYS_BEFORE_MONTH ! nat (m - 1) + (if m > 2 \<and> leap then 1 else 0)"

definition days_in_month :: "bool \<Rightarrow> int \<Rightarrow> int" where
  "days_in_month leap m = (if m = 2 then (if leap then 29 else 28) else if m \<in> {4, 6, 9, 11} then 30 else 31)"

definition ymd2ord :: "int \<Rightarrow> int \<Rightarrow> int \<Rightarrow> int" where
  "ymd2ord y m d = days_before_year y + days_before_month (is_leap y) m + d"

text \<open>The month and day of a day number within its year.\<close>

definition month_day :: "bool \<Rightarrow> int \<Rightarrow> int \<times> int" where
  "month_day leap n =
     (let m = (n + 50) div 32;
          preceding = days_before_month leap m;
          m' = (if preceding > n then m - 1 else m);
          preceding' = (if preceding > n then preceding - days_in_month leap (m - 1) else preceding)
      in (m', n - preceding' + 1))"

definition ord2ymd :: "int \<Rightarrow> int \<times> int \<times> int" where
  "ord2ymd ordinal =
     (let n0 = ordinal - 1;
          n400 = n0 div 146097; r400 = n0 mod 146097;
          n100 = r400 div 36524; r100 = r400 mod 36524;
          n4 = r100 div 1461; r4 = r100 mod 1461;
          n1 = r4 div 365; n = r4 mod 365;
          year = n400 * 400 + 1 + n100 * 100 + n4 * 4 + n1
      in if n1 = 4 \<or> n100 = 4 then (year - 1, 12, 31)
         else let leapyear = (n1 = 3 \<and> (n4 \<noteq> 24 \<or> n100 = 3))
              in (year, month_day leapyear n))"

subsection \<open>Text\<close>

definition pad_left :: "nat \<Rightarrow> int \<Rightarrow> string" where
  "pad_left w n = (let s = py_str_int n in replicate (w - length s) CHR ''0'' @ s)"

definition EPOCH_ORDINAL :: int where
  "EPOCH_ORDINAL = 719163"

definition is_datetime :: "instant \<Rightarrow> bool" where
  "is_datetime t \<longleftrightarrow> (let n = t div 1000000 div 86400 + EPOCH_ORDINAL in 1 \<le> n \<and> n \<le> 3652059)"

definition isoformat :: "instant \<Rightarrow> string" where
  "isoformat t =
     (let us = t mod 1000000; secs = t div 1000000; sod = secs mod 86400
      in case ord2ymd (secs div 86400 + EPOCH_ORDINAL) of (y, m, d) \<Rightarrow>
        pad_left 4 y @ ''-'' @ pad_left 2 m @ ''-'' @ pad_left 2 d @ ''T''
        @ pad_left 2 (sod div 3600) @ '':'' @ pad_left 2 (sod div 60 mod 60) @ '':''
        @ pad_left 2 (sod mod 60)
        @ (if us = 0 then [] else ''.'' @ pad_left 6 us) @ ''+00:00'')"

text \<open>A number of exactly \<open>w\<close> digits, and a given character.\<close>

definition read_num :: "nat \<Rightarrow> string \<Rightarrow> (int \<times> string) option" where
  "read_num w s =
     (if length s < w \<or> \<not> list_all is_digit (take w s) then None
      else Some (int (digits_value (take w s)), drop w s))"

definition read_char :: "char \<Rightarrow> string \<Rightarrow> string option" where
  "read_char c s = (case s of d # r \<Rightarrow> if d = c then Some r else None | [] \<Rightarrow> None)"

definition read_fraction :: "string \<Rightarrow> (int \<times> string) option" where
  "read_fraction s = (case read_char CHR ''.'' s of None \<Rightarrow> Some (0, s) | Some r \<Rightarrow> read_num 6 r)"

text \<open>The offset in seconds.\<close>

definition read_offset :: "string \<Rightarrow> int option" where
  "read_offset s =
     (if s = ''Z'' then Some 0
      else do {
        (neg, r) \<leftarrow> (case s of c # r \<Rightarrow> if c = CHR ''+'' then Some (False, r)
                              else if c = CHR ''-'' then Some (True, r) else None | [] \<Rightarrow> None);
        (h, r) \<leftarrow> read_num 2 r;
        r \<leftarrow> read_char CHR '':'' r;
        (mi, r) \<leftarrow> read_num 2 r;
        (if r = [] \<and> h < 24 \<and> mi < 60 then Some (if neg then - (3600 * h + 60 * mi) else 3600 * h + 60 * mi) else None)
      })"

definition fromisoformat :: "string \<Rightarrow> instant option" where
  "fromisoformat s = do {
     (y, r) \<leftarrow> read_num 4 s;
     r \<leftarrow> read_char CHR ''-'' r;
     (m, r) \<leftarrow> read_num 2 r;
     r \<leftarrow> read_char CHR ''-'' r;
     (d, r) \<leftarrow> read_num 2 r;
     r \<leftarrow> (case r of [] \<Rightarrow> None | _ # r' \<Rightarrow> Some r');
     (h, r) \<leftarrow> read_num 2 r;
     r \<leftarrow> read_char CHR '':'' r;
     (mi, r) \<leftarrow> read_num 2 r;
     r \<leftarrow> read_char CHR '':'' r;
     (sec, r) \<leftarrow> read_num 2 r;
     (us, r) \<leftarrow> read_fraction r;
     off \<leftarrow> read_offset r;
     (if 1 \<le> y \<and> 1 \<le> m \<and> m \<le> 12 \<and> 1 \<le> d \<and> d \<le> days_in_month (is_leap y) m \<and> h < 24 \<and> mi < 60 \<and> sec < 60
      then Some (((ymd2ord y m d - EPOCH_ORDINAL) * 86400 + 3600 * h + 60 * mi + sec - off) * 1000000 + us)
      else None)
   }"

subsection \<open>Reading back a date\<close>

lemma month_day_table:
  "\<forall>leap\<in>{False, True}. \<forall>n\<in>set [0..364 + (if leap then 1 else 0)].
     case month_day leap n of (m, d) \<Rightarrow>
       1 \<le> m \<and> m \<le> 12 \<and> 1 \<le> d \<and> d \<le> days_in_month leap m \<and> days_before_month leap m + d = n + 1"
  by code_simp

lemma month_day_correct:
  assumes "0 \<le> n" "n < 365" "month_day leap n = (m, d)"
  shows "1 \<le> m" "m \<le> 12" "1 \<le> d" "d \<le> days_in_month leap m" "days_before_month leap m + d = n + 1"
proof -
  have n: "n \<in> set [0..364 + (if leap then 1 else 0)]" and l: "leap \<in> {False, True}" using assms by auto
  have "case month_day leap n of (m, d) \<Rightarrow>
       1 \<le> m \<and> m \<le> 12 \<and> 1 \<le> d \<and> d \<le> days_in_month leap m \<and> days_before_month leap m + d = n + 1"
    by (rule bspec [OF bspec [OF month_day_table l] n])
  then show "1 \<le> m" "m \<le> 12" "1 \<le> d" "d \<le> days_in_month leap m" "days_before_month leap m + d = n + 1"
    using assms(3) by simp_all
qed

lemma days_before_year_split:
  assumes "0 \<le> b" "b < 4" "0 \<le> c" "c < 25" "0 \<le> d" "d < (4 :: int)"
  shows "days_before_year (a * 400 + 1 + b * 100 + c * 4 + d) = a * 146097 + b * 36524 + c * 1461 + d * 365"
proof -
  let ?y = "a * 400 + b * 100 + c * 4 + d"
  have "?y div 4 = a * 100 + b * 25 + c" by (rule int_div_pos_eq [of _ _ _ d]) (use assms in simp_all)
  moreover have "?y div 100 = a * 4 + b" by (rule int_div_pos_eq [of _ _ _ "c * 4 + d"]) (use assms in simp_all)
  moreover have "?y div 400 = a" by (rule int_div_pos_eq [of _ _ _ "b * 100 + c * 4 + d"]) (use assms in simp_all)
  ultimately show ?thesis by (simp add: days_before_year_def algebra_simps)
qed

lemma is_leap_split:
  assumes "0 \<le> b" "b < 4" "0 \<le> c" "c < 25" "0 \<le> d" "d < (4 :: int)"
  shows "is_leap (a * 400 + 1 + b * 100 + c * 4 + d) \<longleftrightarrow> d = 3 \<and> (c \<noteq> 24 \<or> b = 3)"
proof (cases "d = 3")
  case False
  have "(a * 400 + 1 + b * 100 + c * 4 + d) mod 4 = d + 1"
    by (rule int_mod_pos_eq [of _ _ "a * 100 + b * 25 + c"]) (use assms False in simp_all)
  with False assms show ?thesis by (simp add: is_leap_def)
next
  case d: True
  let ?y = "a * 400 + 1 + b * 100 + c * 4 + d"
  have m4: "?y mod 4 = 0"
    by (rule int_mod_pos_eq [of _ _ "a * 100 + b * 25 + c + 1"]) (use d in simp_all)
  show ?thesis
  proof (cases "c = 24")
    case False
    have "?y mod 100 = 4 * (c + 1)"
      by (rule int_mod_pos_eq [of _ _ "a * 4 + b"]) (use assms False d in simp_all)
    with False m4 d assms show ?thesis by (simp add: is_leap_def)
  next
    case c: True
    have m100: "?y mod 100 = 0"
      by (rule int_mod_pos_eq [of _ _ "a * 4 + b + 1"]) (use c d in simp_all)
    have "?y mod 400 = (if b = 3 then 0 else 100 * (b + 1))"
      by (rule int_mod_pos_eq [of _ _ "if b = 3 then a + 1 else a"]) (use assms c d in auto)
    with m4 m100 c d assms show ?thesis by (auto simp: is_leap_def)
  qed
qed

lemma ymd2ord_ord2ymd:
  assumes "ord2ymd n = (y, m, d)"
  shows "ymd2ord y m d = n" "1 \<le> m" "m \<le> 12" "1 \<le> d" "d \<le> days_in_month (is_leap y) m"
proof -
  define a where "a = (n - 1) div 146097"
  define r400 where "r400 = (n - 1) mod 146097"
  define b where "b = r400 div 36524"
  define r100 where "r100 = r400 mod 36524"
  define c where "c = r100 div 1461"
  define r4 where "r4 = r100 mod 1461"
  define e where "e = r4 div 365"
  define k where "k = r4 mod 365"
  note defs = a_def r400_def b_def r100_def c_def r4_def e_def k_def
  have parts: "n - 1 = a * 146097 + r400" "r400 = b * 36524 + r100" "r100 = c * 1461 + r4" "r4 = e * 365 + k"
    unfolding defs by (simp_all only: div_mult_mod_eq)
  have sum: "n = 1 + a * 146097 + b * 36524 + c * 1461 + e * 365 + k" using parts by linarith
  have bounds: "0 \<le> r400" "r400 < 146097" "0 \<le> r100" "r100 < 36524" "0 \<le> r4" "r4 < 1461" "0 \<le> k" "k < 365"
    unfolding defs by simp_all
  have b: "0 \<le> b" "b \<le> 4" and c: "0 \<le> c" "c \<le> 24" and e: "0 \<le> e" "e \<le> 4"
    using bounds parts by linarith+
  have b4: "b = 4 \<Longrightarrow> r100 = 0" using bounds parts by linarith
  have e4: "e = 4 \<Longrightarrow> k = 0" using bounds parts by linarith
  have o: "ord2ymd n = (if e = 4 \<or> b = 4 then (a * 400 + 1 + b * 100 + c * 4 + e - 1, 12, 31)
      else (a * 400 + 1 + b * 100 + c * 4 + e, month_day (e = 3 \<and> (c \<noteq> 24 \<or> b = 3)) k))"
    unfolding ord2ymd_def Let_def defs by simp
  have dec: "days_before_month leap 12 = 334 + (if leap then 1 else 0)" "days_in_month leap 12 = 31" for leap
    by (simp_all add: days_before_month_def DAYS_BEFORE_MONTH_def days_in_month_def)
  consider (b4) "b = 4" | (e4) "b \<noteq> 4" "e = 4" | (other) "b \<noteq> 4" "e \<noteq> 4" by blast
  then have "ymd2ord y m d = n \<and> 1 \<le> m \<and> m \<le> 12 \<and> 1 \<le> d \<and> d \<le> days_in_month (is_leap y) m"
  proof cases
    case b4
    then have z: "c = 0" "e = 0" "k = 0" using \<open>b = 4 \<Longrightarrow> r100 = 0\<close> unfolding c_def e_def k_def r4_def by simp_all
    have y: "y = a * 400 + 1 + 3 * 100 + 24 * 4 + 3" "m = 12" "d = 31" using o assms b4 z by simp_all
    have "days_before_year y = a * 146097 + 3 * 36524 + 24 * 1461 + 3 * 365" "is_leap y"
      unfolding y using days_before_year_split [of 3 24 3 a] is_leap_split [of 3 24 3 a] by simp_all
    then show ?thesis using y sum b4 z dec [of True] by (simp add: ymd2ord_def)
  next
    case e4
    have bc: "b < 4" "c < 25" using b c e4 by simp_all
    have nleap: "c \<noteq> 24 \<or> b = 3"
    proof (rule ccontr)
      assume "\<not> ?thesis"
      then have "r100 = 24 * 1461 + r4" "r4 = 4 * 365 + k" using e4 parts by simp_all
      then show False using bounds by linarith
    qed
    have y: "y = a * 400 + 1 + b * 100 + c * 4 + 3" "m = 12" "d = 31" using o assms e4 by simp_all
    have "days_before_year y = a * 146097 + b * 36524 + c * 1461 + 3 * 365" "is_leap y"
      unfolding y using days_before_year_split [of b c 3 a] is_leap_split [of b c 3 a] b c bc nleap by simp_all
    then show ?thesis using y sum e4 \<open>e = 4 \<Longrightarrow> k = 0\<close> dec [of True] by (simp add: ymd2ord_def)
  next
    case other
    have lt: "b < 4" "c < 25" "e < 4" using b c e other by simp_all
    have y: "y = a * 400 + 1 + b * 100 + c * 4 + e" and md: "month_day (is_leap y) k = (m, d)"
      using o assms other is_leap_split [of b c e a] b c e lt by simp_all
    have "days_before_year y = a * 146097 + b * 36524 + c * 1461 + e * 365"
      unfolding y using days_before_year_split [of b c e a] b c e lt by simp
    then show ?thesis using month_day_correct [OF bounds(7,8) md] sum by (simp add: ymd2ord_def)
  qed
  then show "ymd2ord y m d = n" "1 \<le> m" "m \<le> 12" "1 \<le> d" "d \<le> days_in_month (is_leap y) m" by simp_all
qed

subsection \<open>Reading back a time\<close>

lemma length_nat_digits: "n < 10 ^ w \<Longrightarrow> 0 < w \<Longrightarrow> length (nat_digits n) \<le> w"
proof (induction n arbitrary: w rule: nat_digits.induct)
  case (1 n)
  show ?case
  proof (cases "n < 10")
    case True
    then show ?thesis using 1(3) by (subst nat_digits.simps) simp
  next
    case False
    obtain v where v: "w = Suc v" using 1(3) by (cases w) auto
    have "0 < v" using False 1(2) v by (cases v) auto
    moreover have "n div 10 < 10 ^ v" using 1(2) v by (simp add: div_less_iff_less_mult mult.commute)
    ultimately show ?thesis using 1(1) [OF False] False v by (subst nat_digits.simps) simp
  qed
qed

lemma digits_value_zeros: "digits_value (replicate k CHR ''0'' @ s) = digits_value s"
proof -
  have "digit_value CHR ''0'' = 0" by code_simp
  then have "foldl (\<lambda>n c. 10 * n + digit_value c) 0 (replicate k CHR ''0'') = 0" by (induction k) simp_all
  then show ?thesis by (simp add: digits_value_def)
qed

lemma read_num_pad:
  assumes "0 \<le> n" "n < 10 ^ w" "0 < w"
  shows "read_num w (pad_left w n @ r) = Some (n, r)"
proof -
  have m: "nat n < 10 ^ w" using assms by (simp add: nat_less_iff)
  have len: "length (pad_left w n) = w"
    using length_nat_digits [OF m assms(3)] assms(1) by (simp add: pad_left_def py_str_int_def Let_def)
  have dig: "list_all is_digit (pad_left w n)"
    using nat_digits_are_digits [of "nat n"] assms(1)
    by (auto simp: pad_left_def py_str_int_def Let_def list_all_iff is_digit_def)
  have "digits_value (pad_left w n) = nat n"
    using assms(1) by (simp add: pad_left_def py_str_int_def Let_def digits_value_zeros)
  then show ?thesis using len dig assms(1) by (simp add: read_num_def)
qed

lemma read_char_Cons [simp]: "read_char c (c # r) = Some r"
  by (simp add: read_char_def)

lemma read_offset_utc [simp]: "read_offset ''+00:00'' = Some 0"
  by code_simp

lemma read_fraction_written:
  assumes "0 \<le> us" "us < 1000000"
  shows "read_fraction ((if us = 0 then [] else ''.'' @ pad_left 6 us) @ ''+00:00'') = Some (us, ''+00:00'')"
  using assms read_num_pad [of us 6] by (simp add: read_fraction_def read_char_def)

lemma year_sum_mono:
  "p4 \<le> q4 \<Longrightarrow> p400 \<le> q400 \<Longrightarrow> q100 \<le> v - u + p100 \<Longrightarrow> u \<le> v \<Longrightarrow>
     (u - 1) * 365 + p4 - p100 + p400 \<le> (v - 1) * 365 + q4 - q100 + (q400 :: int)"
  by presburger

lemma instant_sum:
  "n = day + k \<Longrightarrow> h + mi + sec = sod \<Longrightarrow> t = secs * 1000000 + us \<Longrightarrow> secs = day * 86400 + sod \<Longrightarrow>
     ((n - k) * 86400 + h + mi + sec - 0) * 1000000 + us = (t :: int)"
  by simp

lemma is_datetime_year:
  assumes "1 \<le> n" "n \<le> 3652059" "ord2ymd n = (y, m, d)"
  shows "1 \<le> y" "y \<le> 9999"
proof -
  have mono: "days_before_year u \<le> days_before_year v" if "u \<le> v" for u v
  proof -
    have "(u - 1) div 4 \<le> (v - 1) div 4" "(u - 1) div 400 \<le> (v - 1) div 400"
      using that by (simp_all add: zdiv_mono1)
    moreover have "(v - 1) div 100 \<le> v - u + (u - 1) div 100"
    proof -
      have "(v - 1) div 100 \<le> (u - 1 + (v - u) * 100) div 100" using that by (intro zdiv_mono1) simp_all
      also have "\<dots> = v - u + (u - 1) div 100" by (rule div_mult_self1) simp
      finally show ?thesis .
    qed
    ultimately show ?thesis using that unfolding days_before_year_def Let_def by (rule year_sum_mono)
  qed
  have dbm: "0 \<le> days_before_month leap k \<and> days_before_month leap k + days_in_month leap k \<le> 366"
    if "1 \<le> k" "k \<le> 12" for leap k
  proof -
    have "\<forall>leap\<in>{False, True}. \<forall>k\<in>set [1..12]. 0 \<le> days_before_month leap k
        \<and> days_before_month leap k + days_in_month leap k \<le> 366" by code_simp
    then show ?thesis using that by (cases leap) auto
  qed
  note r = ymd2ord_ord2ymd [OF assms(3)]
  have k: "0 \<le> days_before_month (is_leap y) m" "days_before_month (is_leap y) m + d \<le> 366"
    using dbm [OF r(2,3), of "is_leap y"] r(5) by linarith+
  show "1 \<le> y"
  proof (rule ccontr)
    assume "\<not> 1 \<le> y"
    then have "days_before_year y \<le> days_before_year 0" by (intro mono) simp
    moreover have "days_before_year 0 = - 366" by code_simp
    ultimately show False using k r(1) assms(1) by (simp add: ymd2ord_def)
  qed
  show "y \<le> 9999"
  proof (rule ccontr)
    assume "\<not> y \<le> 9999"
    then have "days_before_year 10000 \<le> days_before_year y" by (intro mono) simp
    moreover have "days_before_year 10000 = 3652059" by code_simp
    ultimately show False using k r(1,4) assms(2) by (simp add: ymd2ord_def)
  qed
qed

theorem fromisoformat_isoformat:
  assumes "is_datetime t"
  shows "fromisoformat (isoformat t) = Some t"
proof -
  define us where "us = t mod 1000000"
  define secs where "secs = t div 1000000"
  define sod where "sod = secs mod 86400"
  obtain y m d where ymd: "ord2ymd (secs div 86400 + EPOCH_ORDINAL) = (y, m, d)" by (metis prod_cases3)
  have ord: "ymd2ord y m d = secs div 86400 + EPOCH_ORDINAL" "1 \<le> m" "m \<le> 12" "1 \<le> d"
      "d \<le> days_in_month (is_leap y) m"
    using ymd2ord_ord2ymd [OF ymd] by simp_all
  have y: "1 \<le> y" "y \<le> 9999"
    using is_datetime_year [OF _ _ ymd] assms by (simp_all add: is_datetime_def secs_def Let_def)
  have d: "d \<le> 31" using ord(5) by (auto simp: days_in_month_def split: if_splits)
  have us: "0 \<le> us" "us < 1000000" by (simp_all add: us_def)
  have sod: "0 \<le> sod" "sod < 86400" by (simp_all add: sod_def)
  have h: "0 \<le> sod div 3600" "sod div 3600 < 24" "0 \<le> sod div 60 mod 60" "sod div 60 mod 60 < 60"
      "0 \<le> sod mod 60" "sod mod 60 < 60"
    using sod by (simp_all add: div_less_iff_less_mult pos_imp_zdiv_nonneg_iff)
  have hms: "3600 * (sod div 3600) + 60 * (sod div 60 mod 60) + sod mod 60 = sod"
  proof -
    have "sod div 3600 = sod div 60 div 60" by (simp add: zdiv_zmult2_eq [symmetric])
    then show ?thesis using div_mult_mod_eq [of sod 60] div_mult_mod_eq [of "sod div 60" 60] by linarith
  qed
  have t: "t = secs * 1000000 + us" "secs = secs div 86400 * 86400 + sod"
    by (simp_all add: us_def secs_def sod_def)
  have iso: "isoformat t = pad_left 4 y @ CHR ''-'' # pad_left 2 m @ CHR ''-'' # pad_left 2 d @ CHR ''T''
      # pad_left 2 (sod div 3600) @ CHR '':'' # pad_left 2 (sod div 60 mod 60) @ CHR '':''
      # pad_left 2 (sod mod 60) @ (if us = 0 then [] else ''.'' @ pad_left 6 us) @ ''+00:00''"
    unfolding isoformat_def Let_def us_def [symmetric] secs_def [symmetric] sod_def [symmetric] ymd by simp
  have n: "read_num 4 (pad_left 4 y @ r) = Some (y, r)" for r by (rule read_num_pad) (use y in simp_all)
  have n2: "read_num 2 (pad_left 2 k @ r) = Some (k, r)" if "0 \<le> k" "k < 100" for k r
    by (rule read_num_pad) (use that in simp_all)
  have k: "0 \<le> m" "m < 100" "0 \<le> d" "d < 100" "sod div 3600 < 100" "sod div 60 mod 60 < 100" "sod mod 60 < 100"
    using ord(2-4) d h by linarith+
  have val: "((ymd2ord y m d - EPOCH_ORDINAL) * 86400 + 3600 * (sod div 3600) + 60 * (sod div 60 mod 60) + sod mod 60 - 0)
      * 1000000 + us = t"
    by (rule instant_sum [OF ord(1) hms t])
  show ?thesis
    unfolding iso fromisoformat_def
    by (simp only: n n2 [OF k(1,2)] n2 [OF k(3,4)] n2 [OF h(1) k(5)] n2 [OF h(3) k(6)] n2 [OF h(5) k(7)] read_char_Cons read_fraction_written [OF us] read_offset_utc val Option.bind.simps prod.case list.case)
      (use y ord h in simp)
qed

end
