(* ===== verification/CoreAudit.thy ===== *)
theory CoreAudit
  imports CoreModels PyJson PyTime "HOL-Library.Sublist"
begin

section \<open>Audit events\<close>

text \<open>
  \<^verbatim>\<open>src/vinctor_core/audit.py\<close> and \<^verbatim>\<open>AuditEvent.to_dict\<close> of \<^verbatim>\<open>models.py\<close>: how the three kinds
  of audit events are built and what they are serialised to. The keyword arguments with
  defaults of the two builders are records (\<open>rejection_args\<close>, \<open>control_args\<close>) whose default
  values \<open>rejection\<close> and \<open>control\<close> fill in; a call that passes a keyword updates that field.
\<close>

subsection \<open>Serialisation\<close>

definition decision_string :: "Decision \<Rightarrow> string" where
  "decision_string d = (case d of Permit \<Rightarrow> ''permit'' | Deny \<Rightarrow> ''deny'')"

definition to_dict :: "AuditEvent \<Rightarrow> (string \<times> json) list" where
  "to_dict self =
     [(''event_id'', JStr (ae_event_id self)),
      (''event_type'', JStr (ae_event_type self)),
      (''decision'', JStr (decision_string (ae_decision self))),
      (''reason'', JStr (ae_reason self)),
      (''workspace_id'', JStr (ae_workspace_id self)),
      (''agent_id'', JStr (ae_agent_id self)),
      (''grant_id'', JStr (ae_grant_id self)),
      (''grant_ref'', JStr (ae_grant_ref self)),
      (''action'', JStr (ae_action self)),
      (''resource'', JStr (ae_resource self)),
      (''scope_attempted'', JStr (ae_scope_attempted self)),
      (''scope_matched'', json_opt (ae_scope_matched self)),
      (''boundary_id'', json_opt (ae_boundary_id self)),
      (''runtime'', json_opt (ae_runtime self)),
      (''boundary_type'', json_opt (ae_boundary_type self)),
      (''created_at'', JStr (isoformat (ae_created_at self)))]
     @ (case ae_enforcing_principal self of None \<Rightarrow> [] | Some p \<Rightarrow> [(''enforcing_principal'', JStr p)])
     @ (case ae_reason_code self of None \<Rightarrow> [] | Some c \<Rightarrow> [(''reason_code'', JStr c)])
     @ (case ae_occurrence_count self of None \<Rightarrow> [] | Some n \<Rightarrow> [(''occurrence_count'', JInt n)])
     @ (case ae_first_seen_at self of None \<Rightarrow> [] | Some t \<Rightarrow> [(''first_seen_at'', JStr (isoformat t))])
     @ (case ae_last_seen_at self of None \<Rightarrow> [] | Some t \<Rightarrow> [(''last_seen_at'', JStr (isoformat t))])
     @ (if ae_subject_token_verified self then [(''subject_token_verified'', JBool True)] else [])
     @ (case ae_token_id self of None \<Rightarrow> [] | Some i \<Rightarrow> [(''token_id'', JStr i)])
     @ (if ae_event_class self \<noteq> ''decision'' then [(''event_class'', JStr (ae_event_class self))] else [])"

subsection \<open>Decision events\<close>

record AuditEventInput =
  aei_decision :: DecisionResult
  aei_event_id :: "string option"
  aei_created_at :: "instant option"
  aei_enforcing_principal :: "string option"
  aei_subject_token_verified :: bool
  aei_token_id :: "string option"

definition new_event_id :: "entropy \<Rightarrow> string" where
  "new_event_id rnd = ''evt_'' @ rnd 0"

definition build_audit_event :: "AuditEventInput \<Rightarrow> instant \<Rightarrow> entropy \<Rightarrow> AuditEvent" where
  "build_audit_event audit_input wall rnd =
     (let decision = aei_decision audit_input;
          boundary = dr_boundary decision;
          boundary_id = (case boundary of Some b \<Rightarrow> Some (b_boundary_id b)
                         | None \<Rightarrow> dr_attempted_boundary_id decision)
      in \<lparr>ae_event_id = py_or (aei_event_id audit_input) (new_event_id rnd),
          ae_event_type = (if dr_decision decision = Permit then ''action_permitted'' else ''action_denied''),
          ae_decision = dr_decision decision,
          ae_reason = dr_reason decision,
          ae_workspace_id = dr_workspace_id decision,
          ae_agent_id = dr_agent_id decision,
          ae_grant_id = dr_grant_id decision,
          ae_grant_ref = dr_grant_ref decision,
          ae_action = dr_action decision,
          ae_resource = dr_resource decision,
          ae_scope_attempted = dr_scope_attempted decision,
          ae_scope_matched = dr_scope_matched decision,
          ae_boundary_id = boundary_id,
          ae_runtime = map_option b_runtime boundary,
          ae_boundary_type = map_option b_boundary_type boundary,
          ae_created_at = (case aei_created_at audit_input of None \<Rightarrow> wall | Some t \<Rightarrow> t),
          ae_enforcing_principal = aei_enforcing_principal audit_input,
          ae_reason_code = None,
          ae_occurrence_count = None,
          ae_first_seen_at = None,
          ae_last_seen_at = None,
          ae_subject_token_verified = aei_subject_token_verified audit_input,
          ae_token_id = aei_token_id audit_input,
          ae_event_class = ''decision''\<rparr>)"

subsection \<open>Event names and reason codes\<close>

definition EVENT_ACCESS_REJECTED :: string where "EVENT_ACCESS_REJECTED = ''access_rejected''"
definition EVENT_AUTH_FAILED :: string where "EVENT_AUTH_FAILED = ''auth_failed''"
definition EVENT_GRANT_ISSUE_REJECTED :: string where "EVENT_GRANT_ISSUE_REJECTED = ''grant_issue_rejected''"
definition EVENT_SUBJECT_TOKEN_MINTED :: string where "EVENT_SUBJECT_TOKEN_MINTED = ''subject_token_minted''"

definition REASON_AGENT_GRANT_MISMATCH :: string where "REASON_AGENT_GRANT_MISMATCH = ''agent_grant_mismatch''"
definition REASON_AUTH_FAILED :: string where "REASON_AUTH_FAILED = ''auth_failed''"
definition REASON_SCOPE_OUTSIDE_ISSUABLE_BOUNDS :: string where
  "REASON_SCOPE_OUTSIDE_ISSUABLE_BOUNDS = ''scope_outside_issuable_bounds''"
definition REASON_ISSUABLE_BOUNDS_NOT_FOUND :: string where
  "REASON_ISSUABLE_BOUNDS_NOT_FOUND = ''issuable_bounds_not_found''"
definition REASON_TTL_EXCEEDS_ISSUABLE_MAX :: string where
  "REASON_TTL_EXCEEDS_ISSUABLE_MAX = ''ttl_exceeds_issuable_max''"
definition REASON_SUBJECT_TOKEN_REQUIRED :: string where "REASON_SUBJECT_TOKEN_REQUIRED = ''subject_token_required''"
definition REASON_POP_REQUIRED :: string where "REASON_POP_REQUIRED = ''pop_required''"
definition REASON_SUBJECT_TOKEN_NOT_FOUND :: string where "REASON_SUBJECT_TOKEN_NOT_FOUND = ''subject_token_not_found''"
definition REASON_SUBJECT_TOKEN_REVOKED :: string where "REASON_SUBJECT_TOKEN_REVOKED = ''subject_token_revoked''"
definition REASON_SUBJECT_TOKEN_EXPIRED :: string where "REASON_SUBJECT_TOKEN_EXPIRED = ''subject_token_expired''"
definition REASON_SUBJECT_TOKEN_MISMATCH :: string where "REASON_SUBJECT_TOKEN_MISMATCH = ''subject_token_mismatch''"
definition REASON_POP_PROOF_INVALID :: string where "REASON_POP_PROOF_INVALID = ''pop_proof_invalid''"
definition REASON_BOUNDARY_UNAVAILABLE :: string where "REASON_BOUNDARY_UNAVAILABLE = ''boundary_unavailable''"

lemmas audit_constants =
  EVENT_ACCESS_REJECTED_def EVENT_AUTH_FAILED_def EVENT_GRANT_ISSUE_REJECTED_def
  EVENT_SUBJECT_TOKEN_MINTED_def REASON_AGENT_GRANT_MISMATCH_def REASON_AUTH_FAILED_def
  REASON_SCOPE_OUTSIDE_ISSUABLE_BOUNDS_def REASON_ISSUABLE_BOUNDS_NOT_FOUND_def
  REASON_TTL_EXCEEDS_ISSUABLE_MAX_def REASON_SUBJECT_TOKEN_REQUIRED_def REASON_POP_REQUIRED_def
  REASON_SUBJECT_TOKEN_NOT_FOUND_def REASON_SUBJECT_TOKEN_REVOKED_def
  REASON_SUBJECT_TOKEN_EXPIRED_def REASON_SUBJECT_TOKEN_MISMATCH_def
  REASON_POP_PROOF_INVALID_def REASON_BOUNDARY_UNAVAILABLE_def

definition BOUNDARY_EXISTENCE_REASONS :: "string set" where
  "BOUNDARY_EXISTENCE_REASONS = {''boundary_not_found'', ''boundary_wrong_workspace'', ''boundary_inactive''}"

definition agent_facing_reason :: "string \<Rightarrow> string" where
  "agent_facing_reason reason =
     (if reason \<in> BOUNDARY_EXISTENCE_REASONS then REASON_BOUNDARY_UNAVAILABLE else reason)"

subsection \<open>Rejection events\<close>

record rejection_args =
  ra_reason_code :: string
  ra_workspace_id :: string
  ra_agent_id :: string
  ra_created_at :: instant
  ra_event_type :: string
  ra_action :: string
  ra_resource :: string
  ra_scope_attempted :: "string option"
  ra_boundary_id :: "string option"
  ra_enforcing_principal :: "string option"
  ra_event_id :: "string option"
  ra_occurrence_count :: "int option"
  ra_first_seen_at :: "instant option"
  ra_last_seen_at :: "instant option"

definition rejection :: "string \<Rightarrow> string \<Rightarrow> string \<Rightarrow> instant \<Rightarrow> rejection_args" where
  "rejection reason_code workspace_id agent_id created_at =
     \<lparr>ra_reason_code = reason_code, ra_workspace_id = workspace_id, ra_agent_id = agent_id,
      ra_created_at = created_at, ra_event_type = EVENT_ACCESS_REJECTED, ra_action = [],
      ra_resource = [], ra_scope_attempted = None, ra_boundary_id = None,
      ra_enforcing_principal = None, ra_event_id = None, ra_occurrence_count = None,
      ra_first_seen_at = None, ra_last_seen_at = None\<rparr>"

definition build_rejection_audit_event :: "rejection_args \<Rightarrow> entropy \<Rightarrow> AuditEvent" where
  "build_rejection_audit_event a rnd =
     \<lparr>ae_event_id = py_or (ra_event_id a) (new_event_id rnd),
      ae_event_type = ra_event_type a,
      ae_decision = Deny,
      ae_reason = ra_reason_code a,
      ae_workspace_id = ra_workspace_id a,
      ae_agent_id = ra_agent_id a,
      ae_grant_id = [],
      ae_grant_ref = [],
      ae_action = ra_action a,
      ae_resource = ra_resource a,
      ae_scope_attempted = (case ra_scope_attempted a of Some s \<Rightarrow> s
                            | None \<Rightarrow> ra_action a @ '':'' @ ra_resource a),
      ae_scope_matched = None,
      ae_boundary_id = ra_boundary_id a,
      ae_runtime = None,
      ae_boundary_type = None,
      ae_created_at = ra_created_at a,
      ae_enforcing_principal = ra_enforcing_principal a,
      ae_reason_code = Some (ra_reason_code a),
      ae_occurrence_count = ra_occurrence_count a,
      ae_first_seen_at = ra_first_seen_at a,
      ae_last_seen_at = ra_last_seen_at a,
      ae_subject_token_verified = False,
      ae_token_id = None,
      ae_event_class = ''decision''\<rparr>"

subsection \<open>Control-plane events\<close>

definition EVENT_CLASS_CONTROL :: string where "EVENT_CLASS_CONTROL = ''control''"
definition EVENT_CLASS_DECISION :: string where "EVENT_CLASS_DECISION = ''decision''"

definition AUDIT_EVENT_CLASSES :: "string list" where
  "AUDIT_EVENT_CLASSES = [EVENT_CLASS_CONTROL, EVENT_CLASS_DECISION]"

definition validate_audit_event_class :: "string option \<Rightarrow> exn option" where
  "validate_audit_event_class event_class =
     (case event_class of
        None \<Rightarrow> None
      | Some c \<Rightarrow>
          if c \<notin> set AUDIT_EVENT_CLASSES
          then Some (ValueError (''event_class must be one of: '' @ join_with '', '' AUDIT_EVENT_CLASSES))
          else None)"

definition EVENT_ENFORCEMENT_SETTING_CHANGED :: string where
  "EVENT_ENFORCEMENT_SETTING_CHANGED = ''enforcement_setting_changed''"
definition EVENT_SCOPE_BOUNDS_SET :: string where "EVENT_SCOPE_BOUNDS_SET = ''scope_bounds_set''"

record control_args =
  ca_event_type :: string
  ca_workspace_id :: string
  ca_action :: string
  ca_resource :: string
  ca_reason :: string
  ca_created_at :: instant
  ca_agent_id :: string
  ca_scope_attempted :: string
  ca_boundary_id :: "string option"
  ca_enforcing_principal :: "string option"
  ca_event_id :: "string option"

definition control :: "string \<Rightarrow> string \<Rightarrow> string \<Rightarrow> string \<Rightarrow> string \<Rightarrow> instant \<Rightarrow> control_args" where
  "control event_type workspace_id action resource reason created_at =
     \<lparr>ca_event_type = event_type, ca_workspace_id = workspace_id, ca_action = action,
      ca_resource = resource, ca_reason = reason, ca_created_at = created_at,
      ca_agent_id = [], ca_scope_attempted = [], ca_boundary_id = None,
      ca_enforcing_principal = None, ca_event_id = None\<rparr>"

definition build_control_audit_event :: "control_args \<Rightarrow> entropy \<Rightarrow> AuditEvent" where
  "build_control_audit_event a rnd =
     \<lparr>ae_event_id = py_or (ca_event_id a) (new_event_id rnd),
      ae_event_type = ca_event_type a,
      ae_decision = Permit,
      ae_reason = ca_reason a,
      ae_workspace_id = ca_workspace_id a,
      ae_agent_id = ca_agent_id a,
      ae_grant_id = [],
      ae_grant_ref = [],
      ae_action = ca_action a,
      ae_resource = ca_resource a,
      ae_scope_attempted = ca_scope_attempted a,
      ae_scope_matched = None,
      ae_boundary_id = ca_boundary_id a,
      ae_runtime = None,
      ae_boundary_type = None,
      ae_created_at = ca_created_at a,
      ae_enforcing_principal = ca_enforcing_principal a,
      ae_reason_code = None,
      ae_occurrence_count = None,
      ae_first_seen_at = None,
      ae_last_seen_at = None,
      ae_subject_token_verified = False,
      ae_token_id = None,
      ae_event_class = EVENT_CLASS_CONTROL\<rparr>"

subsection \<open>What the events disclose and record\<close>

lemma build_audit_event_sel [simp]:
  "ae_decision (build_audit_event i wall rnd) = dr_decision (aei_decision i)"
  "ae_reason (build_audit_event i wall rnd) = dr_reason (aei_decision i)"
  "ae_workspace_id (build_audit_event i wall rnd) = dr_workspace_id (aei_decision i)"
  "ae_agent_id (build_audit_event i wall rnd) = dr_agent_id (aei_decision i)"
  "ae_grant_id (build_audit_event i wall rnd) = dr_grant_id (aei_decision i)"
  "ae_grant_ref (build_audit_event i wall rnd) = dr_grant_ref (aei_decision i)"
  "ae_action (build_audit_event i wall rnd) = dr_action (aei_decision i)"
  "ae_resource (build_audit_event i wall rnd) = dr_resource (aei_decision i)"
  "ae_scope_matched (build_audit_event i wall rnd) = dr_scope_matched (aei_decision i)"
  "ae_event_id (build_audit_event i wall rnd) = py_or (aei_event_id i) (new_event_id rnd)"
  "ae_enforcing_principal (build_audit_event i wall rnd) = aei_enforcing_principal i"
  "ae_subject_token_verified (build_audit_event i wall rnd) = aei_subject_token_verified i"
  "ae_token_id (build_audit_event i wall rnd) = aei_token_id i"
  "ae_event_class (build_audit_event i wall rnd) = ''decision''"
  by (simp_all add: build_audit_event_def Let_def)

lemma build_rejection_audit_event_sel [simp]:
  "ae_decision (build_rejection_audit_event a rnd) = Deny"
  "ae_reason (build_rejection_audit_event a rnd) = ra_reason_code a"
  "ae_reason_code (build_rejection_audit_event a rnd) = Some (ra_reason_code a)"
  "ae_workspace_id (build_rejection_audit_event a rnd) = ra_workspace_id a"
  "ae_agent_id (build_rejection_audit_event a rnd) = ra_agent_id a"
  "ae_grant_id (build_rejection_audit_event a rnd) = []"
  "ae_grant_ref (build_rejection_audit_event a rnd) = []"
  "ae_action (build_rejection_audit_event a rnd) = ra_action a"
  "ae_resource (build_rejection_audit_event a rnd) = ra_resource a"
  "ae_scope_matched (build_rejection_audit_event a rnd) = None"
  "ae_event_type (build_rejection_audit_event a rnd) = ra_event_type a"
  "ae_created_at (build_rejection_audit_event a rnd) = ra_created_at a"
  "ae_occurrence_count (build_rejection_audit_event a rnd) = ra_occurrence_count a"
  "ae_first_seen_at (build_rejection_audit_event a rnd) = ra_first_seen_at a"
  "ae_last_seen_at (build_rejection_audit_event a rnd) = ra_last_seen_at a"
  "ae_subject_token_verified (build_rejection_audit_event a rnd) = False"
  by (simp_all add: build_rejection_audit_event_def)

lemma rejection_sel [simp]:
  "ra_reason_code (rejection c w a t) = c" "ra_workspace_id (rejection c w a t) = w"
  "ra_agent_id (rejection c w a t) = a" "ra_created_at (rejection c w a t) = t"
  "ra_event_type (rejection c w a t) = EVENT_ACCESS_REJECTED"
  "ra_event_id (rejection c w a t) = None"
  by (simp_all add: rejection_def)

lemma build_control_audit_event_sel [simp]:
  "ae_event_class (build_control_audit_event a rnd) = EVENT_CLASS_CONTROL"
  "ae_event_type (build_control_audit_event a rnd) = ca_event_type a"
  "ae_workspace_id (build_control_audit_event a rnd) = ca_workspace_id a"
  "ae_grant_id (build_control_audit_event a rnd) = []"
  "ae_grant_ref (build_control_audit_event a rnd) = []"
  "ae_agent_id (build_control_audit_event a rnd) = ca_agent_id a"
  by (simp_all add: build_control_audit_event_def)

definition AUDIT_EVENT_KEYS :: "string list" where
  "AUDIT_EVENT_KEYS =
     [''event_id'', ''event_type'', ''decision'', ''reason'', ''workspace_id'', ''agent_id'', ''grant_id'',
      ''grant_ref'', ''action'', ''resource'', ''scope_attempted'', ''scope_matched'', ''boundary_id'',
      ''runtime'', ''boundary_type'', ''created_at'']
     @ [''enforcing_principal''] @ [''reason_code''] @ [''occurrence_count''] @ [''first_seen_at'']
     @ [''last_seen_at''] @ [''subject_token_verified''] @ [''token_id''] @ [''event_class'']"

lemma to_dict_keys: "subseq (map fst (to_dict e)) AUDIT_EVENT_KEYS"
  unfolding to_dict_def AUDIT_EVENT_KEYS_def map_append
  by (intro list_emb_append_mono) (simp_all split: option.split)

lemma to_dict_wf: "dict_wf (to_dict e)"
proof -
  have "distinct AUDIT_EVENT_KEYS" by (simp add: AUDIT_EVENT_KEYS_def)
  then show ?thesis
    unfolding dict_wf_def by (metis to_dict_keys subseq_conv_nths distinct_nthsI)
qed

text \<open>
  The three deny reasons a caller could tell boundaries apart with become one, and no other
  reason is changed.
\<close>

lemma agent_facing_reason_coarse:
  "agent_facing_reason r \<notin> BOUNDARY_EXISTENCE_REASONS"
  by (simp add: agent_facing_reason_def BOUNDARY_EXISTENCE_REASONS_def REASON_BOUNDARY_UNAVAILABLE_def)

lemma agent_facing_reason_collapses:
  "r \<in> BOUNDARY_EXISTENCE_REASONS \<Longrightarrow> agent_facing_reason r = REASON_BOUNDARY_UNAVAILABLE"
  by (simp add: agent_facing_reason_def)

lemma agent_facing_reason_other:
  "r \<notin> BOUNDARY_EXISTENCE_REASONS \<Longrightarrow> agent_facing_reason r = r"
  by (simp add: agent_facing_reason_def)

end
