(* ===== verification/ServiceAudit.thy ===== *)
theory ServiceAudit
  imports CoreAudit
begin

section \<open>Audit writers and the authentication-failure throttle\<close>

text \<open>
  \<^verbatim>\<open>src/vinctor_service/audit.py\<close>. An audit writer is the record of its methods over the
  state of its store: \<^verbatim>\<open>write\<close> raises or not, \<^verbatim>\<open>write_best_effort\<close> is present only on the
  writers that satisfy the runtime-checked protocol \<^verbatim>\<open>BestEffortAuditWriter\<close>. The locale
  \<open>audit_log\<close> is the contract the callers rely on, with \<open>log\<close> the sequence of events stored.
\<close>

subsection \<open>Writers\<close>

record 's AuditWriter =
  aw_write :: "AuditEvent \<Rightarrow> 's \<Rightarrow> exn option \<times> 's"
  aw_write_best_effort :: "(AuditEvent \<Rightarrow> 's \<Rightarrow> (exn + bool) \<times> 's) option"

definition InMemoryAuditWriter_write :: "AuditEvent \<Rightarrow> AuditEvent list \<Rightarrow> exn option \<times> AuditEvent list" where
  "InMemoryAuditWriter_write event events = (None, events @ [event])"

definition InMemoryAuditWriter_write_best_effort ::
  "AuditEvent \<Rightarrow> AuditEvent list \<Rightarrow> (exn + bool) \<times> AuditEvent list" where
  "InMemoryAuditWriter_write_best_effort event events = (Inr True, events @ [event])"

definition InMemoryAuditWriter :: "AuditEvent list AuditWriter" where
  "InMemoryAuditWriter =
     \<lparr>aw_write = InMemoryAuditWriter_write,
      aw_write_best_effort = Some InMemoryAuditWriter_write_best_effort\<rparr>"

definition record_rejection :: "'s AuditWriter \<Rightarrow> AuditEvent \<Rightarrow> 's \<Rightarrow> bool \<times> 's" where
  "record_rejection audit_writer event s =
     (case aw_write_best_effort audit_writer of
        Some write_best_effort \<Rightarrow>
          (case write_best_effort event s of (Inl e, s') \<Rightarrow> (False, s') | (Inr b, s') \<Rightarrow> (b, s'))
      | None \<Rightarrow>
          (case aw_write audit_writer event s of (Some e, s') \<Rightarrow> (False, s') | (None, s') \<Rightarrow> (True, s')))"

subsection \<open>The contract of a writer\<close>

locale audit_log =
  fixes writer :: "'s AuditWriter" and log :: "'s \<Rightarrow> AuditEvent list"
  assumes write_ok: "aw_write writer e s = (None, s') \<Longrightarrow> log s' = log s @ [e]"
    and write_raises: "aw_write writer e s = (Some x, s') \<Longrightarrow> log s' = log s"
    and best_effort_ok: "aw_write_best_effort writer = Some be \<Longrightarrow> be e s = (Inr True, s') \<Longrightarrow>
          log s' = log s @ [e]"
    and best_effort_false: "aw_write_best_effort writer = Some be \<Longrightarrow> be e s = (Inr False, s') \<Longrightarrow>
          log s' = log s"
    and best_effort_raises: "aw_write_best_effort writer = Some be \<Longrightarrow> be e s = (Inl x, s') \<Longrightarrow>
          log s' = log s"
begin

text \<open>A rejection is in the log exactly when its recording says so, and it never raises.\<close>

lemma record_rejection_log:
  assumes "record_rejection writer e s = (b, s')"
  shows "log s' = log s @ (if b then [e] else [])"
proof (cases "aw_write_best_effort writer")
  case None
  then show ?thesis
    using assms write_ok write_raises
    by (auto simp: record_rejection_def split: prod.splits option.splits)
next
  case (Some be)
  obtain r t where r: "be e s = (r, t)" by (metis surj_pair)
  show ?thesis
    using assms Some r best_effort_ok [OF Some] best_effort_false [OF Some] best_effort_raises [OF Some]
    by (cases r; cases "projr r") (auto simp: record_rejection_def)
qed

lemma record_rejection_grows: "\<exists>new. log (snd (record_rejection writer e s)) = log s @ new \<and> set new \<subseteq> {e}"
  by (cases "record_rejection writer e s") (auto dest: record_rejection_log)

end

interpretation in_memory_log: audit_log InMemoryAuditWriter "\<lambda>s. s"
  by unfold_locales
    (auto simp: InMemoryAuditWriter_def InMemoryAuditWriter_write_def
      InMemoryAuditWriter_write_best_effort_def)

lemma in_memory_record_rejection [simp]:
  "record_rejection InMemoryAuditWriter e s = (True, s @ [e])"
  by (simp add: record_rejection_def InMemoryAuditWriter_def InMemoryAuditWriter_write_best_effort_def)

subsection \<open>The throttle\<close>

definition AUTH_FAILURE_WINDOW_SECONDS :: int where
  "AUTH_FAILURE_WINDOW_SECONDS = 60"

record AuthFailureWindow =
  afw_start :: instant
  afw_last_seen :: instant
  afw_count :: int

type_synonym throttle_windows = "(string, AuthFailureWindow) dict"

datatype throttle_outcome = Counted | Rolled "AuthFailureWindow option"

text \<open>The part of \<^verbatim>\<open>record\<close> that runs under the lock.\<close>

definition throttle_decide ::
  "int \<Rightarrow> throttle_windows \<Rightarrow> string \<Rightarrow> instant \<Rightarrow> throttle_outcome \<times> throttle_windows" where
  "throttle_decide window_td windows key now =
     (let window = dict_get windows key;
          fresh = \<lparr>afw_start = now, afw_last_seen = now, afw_count = 1\<rparr>
      in case window of
           Some w \<Rightarrow>
             if now - afw_start w < window_td
             then (Counted, dict_set key (w\<lparr>afw_count := afw_count w + 1, afw_last_seen := now\<rparr>) windows)
             else (Rolled (if 1 < afw_count w then Some w else None), dict_set key fresh windows)
         | None \<Rightarrow> (Rolled None, dict_set key fresh windows))"

definition throttle_event ::
  "string \<Rightarrow> instant \<Rightarrow> int \<Rightarrow> instant \<Rightarrow> instant \<Rightarrow> entropy \<Rightarrow> AuditEvent" where
  "throttle_event surface created_at occurrence_count first_seen_at last_seen_at rnd =
     build_rejection_audit_event
       ((rejection REASON_AUTH_FAILED [] [] created_at)
          \<lparr>ra_event_type := EVENT_AUTH_FAILED, ra_action := surface, ra_scope_attempted := Some [],
           ra_boundary_id := None, ra_occurrence_count := Some occurrence_count,
           ra_first_seen_at := Some first_seen_at, ra_last_seen_at := Some last_seen_at\<rparr>) rnd"

definition throttle_emit ::
  "'s AuditWriter \<Rightarrow> string \<Rightarrow> instant \<Rightarrow> int \<Rightarrow> instant \<Rightarrow> instant \<Rightarrow> entropy \<Rightarrow> 's \<Rightarrow> 's" where
  "throttle_emit audit_writer surface created_at occurrence_count first_seen_at last_seen_at rnd s =
     snd (record_rejection audit_writer
            (throttle_event surface created_at occurrence_count first_seen_at last_seen_at rnd) s)"

definition throttle_record ::
  "int \<Rightarrow> 's AuditWriter \<Rightarrow> string \<Rightarrow> instant \<Rightarrow> entropy \<Rightarrow> throttle_windows \<times> 's \<Rightarrow> throttle_windows \<times> 's" where
  "throttle_record window_seconds audit_writer surface now rnd st =
     (case st of (windows, s) \<Rightarrow>
        (case throttle_decide (timedelta_seconds window_seconds) windows surface now of
           (Counted, windows') \<Rightarrow> (windows', s)
         | (Rolled closed, windows') \<Rightarrow>
             let s1 = (case closed of
                         None \<Rightarrow> s
                       | Some c \<Rightarrow> throttle_emit audit_writer surface (afw_last_seen c) (afw_count c)
                                     (afw_start c) (afw_last_seen c) (\<lambda>i. rnd 0) s)
             in (windows', throttle_emit audit_writer surface now 1 now now (\<lambda>i. rnd 1) s1)))"

subsection \<open>A flood of failures\<close>

text \<open>The failures of a run, each with its surface, its instant and its random draws.\<close>

fun throttle_run ::
  "int \<Rightarrow> 's AuditWriter \<Rightarrow> (string \<times> instant \<times> entropy) list \<Rightarrow> throttle_windows \<times> 's
     \<Rightarrow> throttle_windows \<times> 's" where
  "throttle_run W w [] st = st"
| "throttle_run W w ((surface, now, rnd) # fs) st = throttle_run W w fs (throttle_record W w surface now rnd st)"

lemma throttle_run_snoc:
  "throttle_run W w (fs @ [(surface, now, rnd)]) st = throttle_record W w surface now rnd (throttle_run W w fs st)"
  by (induction W w fs st rule: throttle_run.induct) simp_all

definition rows_of :: "string \<Rightarrow> AuditEvent list \<Rightarrow> AuditEvent list" where
  "rows_of surface events = filter (\<lambda>e. ae_event_type e = EVENT_AUTH_FAILED \<and> ae_action e = surface) events"

lemma rows_of_simps [simp]:
  "rows_of s [] = []"
  "rows_of s (xs @ ys) = rows_of s xs @ rows_of s ys"
  by (simp_all add: rows_of_def)

lemma rows_of_throttle_event [simp]:
  "rows_of s [throttle_event u t n f l rnd] = (if u = s then [throttle_event u t n f l rnd] else [])"
  by (simp add: rows_of_def throttle_event_def)

definition occ :: "AuditEvent \<Rightarrow> int" where
  "occ e = (case ae_occurrence_count e of None \<Rightarrow> 0 | Some n \<Rightarrow> n)"

lemma occ_throttle_event [simp]: "occ (throttle_event u t n f l rnd) = n"
  by (simp add: occ_def throttle_event_def)

definition accounted :: "AuditEvent list \<Rightarrow> int" where
  "accounted rows = int (length (filter (\<lambda>e. occ e = 1) rows)) + sum_list (map (\<lambda>e. occ e - 1) rows)"

lemma accounted_simps [simp]:
  "accounted [] = 0"
  "accounted (xs @ ys) = accounted xs + accounted ys"
  "accounted [throttle_event u t n f l rnd] = (if n = 1 then 1 else n - 1)"
  by (simp_all add: accounted_def)

definition failures_on :: "string \<Rightarrow> (string \<times> instant \<times> entropy) list \<Rightarrow> int" where
  "failures_on surface fs = int (length (filter (\<lambda>f. fst f = surface) fs))"

text \<open>
  What holds of one surface after a run: the rows written and the failures still counted in
  the open window add up to the failures seen, and the window starts are at least one window
  apart.
\<close>

definition throttle_inv ::
  "int \<Rightarrow> int \<Rightarrow> string \<Rightarrow> int \<Rightarrow> throttle_windows \<Rightarrow> AuditEvent list \<Rightarrow> bool" where
  "throttle_inv W lo surface n windows rows =
     (case dict_get windows surface of
        None \<Rightarrow> rows = [] \<and> n = 0
      | Some w \<Rightarrow> n = accounted rows + (afw_count w - 1) \<and> 1 \<le> afw_count w
          \<and> (\<exists>k\<ge>0. int (length rows) \<le> 2 * k + 1 \<and> k * timedelta_seconds W \<le> afw_start w - lo))"

lemma throttle_record_other:
  assumes "u \<noteq> s"
  shows "dict_get (fst (throttle_record W InMemoryAuditWriter u now rnd (windows, es))) s = dict_get windows s"
    "rows_of s (snd (throttle_record W InMemoryAuditWriter u now rnd (windows, es))) = rows_of s es"
  using assms
  by (auto simp: throttle_record_def throttle_decide_def throttle_emit_def Let_def split: option.splits)

lemma throttle_record_same:
  assumes "throttle_inv W lo s n windows (rows_of s es)" and "lo \<le> now"
  shows "throttle_inv W lo s (n + 1) (fst (throttle_record W InMemoryAuditWriter s now rnd (windows, es)))
           (rows_of s (snd (throttle_record W InMemoryAuditWriter s now rnd (windows, es))))"
proof (cases "dict_get windows s")
  case None
  with assms show ?thesis
    by (auto simp: throttle_inv_def throttle_record_def throttle_decide_def throttle_emit_def Let_def
        intro!: exI [of _ 0])
next
  case (Some w)
  obtain k where k: "0 \<le> k" "int (length (rows_of s es)) \<le> 2 * k + 1" "k * timedelta_seconds W \<le> afw_start w - lo"
    and w: "n = accounted (rows_of s es) + (afw_count w - 1)" "1 \<le> afw_count w"
    using assms(1) Some by (auto simp: throttle_inv_def)
  show ?thesis
  proof (cases "now - afw_start w < timedelta_seconds W")
    case True
    with Some k w show ?thesis
      by (auto simp: throttle_inv_def throttle_record_def throttle_decide_def Let_def intro!: exI [of _ k])
  next
    case False
    then have "(k + 1) * timedelta_seconds W \<le> now - lo" using k(3) by (simp add: algebra_simps)
    with Some False k w show ?thesis
      by (auto simp: throttle_inv_def throttle_record_def throttle_decide_def throttle_emit_def Let_def
          intro!: exI [of _ "k + 1"])
  qed
qed

lemma throttle_run_inv:
  assumes "\<forall>f\<in>set fs. lo \<le> fst (snd f)"
  shows "throttle_inv W lo s (failures_on s fs) (fst (throttle_run W InMemoryAuditWriter fs ([], [])))
           (rows_of s (snd (throttle_run W InMemoryAuditWriter fs ([], []))))"
  using assms
proof (induction fs rule: rev_induct)
  case Nil
  show ?case by (simp add: throttle_inv_def failures_on_def)
next
  case (snoc f fs)
  obtain u now rnd where f: "f = (u, now, rnd)" by (metis surj_pair)
  obtain ws es where st: "throttle_run W InMemoryAuditWriter fs ([], []) = (ws, es)" by (metis surj_pair)
  have IH: "throttle_inv W lo s (failures_on s fs) ws (rows_of s es)" using snoc st by simp
  show ?case
  proof (cases "u = s")
    case True
    have "failures_on s (fs @ [f]) = failures_on s fs + 1" using True f by (simp add: failures_on_def)
    then show ?thesis
      using throttle_record_same [OF IH, of now rnd] snoc.prems
      by (simp add: f True throttle_run_snoc st)
  next
    case False
    then have "failures_on s (fs @ [f]) = failures_on s fs" using f by (simp add: failures_on_def)
    with IH False show ?thesis
      by (simp add: f throttle_run_snoc st throttle_inv_def throttle_record_other)
  qed
qed

lemma throttle_start_bound:
  assumes "\<forall>f\<in>set fs. fst (snd f) \<le> hi"
    and "dict_get (fst (throttle_run W w fs ([], es))) s = Some win"
  shows "afw_start win \<le> hi"
  using assms
proof (induction fs arbitrary: win rule: rev_induct)
  case (snoc f fs)
  obtain u now rnd where f: "f = (u, now, rnd)" by (metis surj_pair)
  obtain ws es' where st: "throttle_run W w fs ([], es) = (ws, es')" by (metis surj_pair)
  have IH: "\<And>win'. dict_get ws s = Some win' \<Longrightarrow> afw_start win' \<le> hi" using snoc st by auto
  have "now \<le> hi" using snoc.prems(1) f by simp
  then show ?case
    using snoc.prems(2) IH
    by (auto simp: f throttle_run_snoc st throttle_record_def throttle_decide_def Let_def
        split: option.splits if_splits)
qed simp

text \<open>
  (C37) However many authentication failures arrive in a period of length \<open>hi - lo\<close>, in any order
  of their clock readings and mixed over any surfaces, the throttle writes at most two rows
  per elapsed window and surface plus one; and no failure is lost: the rows written for a
  surface, with the failures counted in its open window, account for every failure on it.
\<close>

theorem auth_failure_throttle_bounds_and_accounts:
  assumes W: "0 < window_seconds" and lohi: "lo \<le> hi"
    and range: "\<forall>f\<in>set failures. lo \<le> fst (snd f) \<and> fst (snd f) \<le> hi"
    and run: "throttle_run window_seconds InMemoryAuditWriter failures ([], []) = (windows, events)"
  shows "int (length (rows_of surface events)) \<le> 2 * ((hi - lo) div timedelta_seconds window_seconds) + 1
       \<and> failures_on surface failures = accounted (rows_of surface events)
           + (case dict_get windows surface of None \<Rightarrow> 0 | Some w \<Rightarrow> afw_count w - 1)"
proof (intro conjI)
  have inv: "throttle_inv window_seconds lo surface (failures_on surface failures) windows (rows_of surface events)"
    using throttle_run_inv [of failures lo window_seconds surface] range run by simp
  then show "failures_on surface failures = accounted (rows_of surface events)
           + (case dict_get windows surface of None \<Rightarrow> 0 | Some w \<Rightarrow> afw_count w - 1)"
    by (auto simp: throttle_inv_def split: option.splits)
  have pos: "0 < timedelta_seconds window_seconds" using W by (simp add: timedelta_seconds_def)
  show "int (length (rows_of surface events)) \<le> 2 * ((hi - lo) div timedelta_seconds window_seconds) + 1"
  proof (cases "dict_get windows surface")
    case None
    with inv lohi pos show ?thesis by (simp add: throttle_inv_def pos_imp_zdiv_nonneg_iff)
  next
    case (Some w)
    then obtain k where k: "int (length (rows_of surface events)) \<le> 2 * k + 1"
        "k * timedelta_seconds window_seconds \<le> afw_start w - lo"
      using inv by (auto simp: throttle_inv_def)
    have "afw_start w \<le> hi"
      using throttle_start_bound [of failures hi window_seconds InMemoryAuditWriter "[]" surface w]
        range run Some by simp
    then have "k * timedelta_seconds window_seconds \<le> hi - lo" using k(2) by simp
    then have "k \<le> (hi - lo) div timedelta_seconds window_seconds"
      using zdiv_mono1 [OF _ pos, of "k * timedelta_seconds window_seconds" "hi - lo"] pos by simp
    with k(1) show ?thesis by linarith
  qed
qed

theorem auth_failure_throttle_bounds_and_accounts_witness:
  "failures_on ''http'' [(''http'', 0, \<lambda>_. []), (''http'', 5, \<lambda>_. []), (''http'', 60000000, \<lambda>_. [])] = 3
   \<and> accounted (rows_of ''http'' (snd (throttle_run 60 InMemoryAuditWriter
       [(''http'', 0, \<lambda>_. []), (''http'', 5, \<lambda>_. []), (''http'', 60000000, \<lambda>_. [])] ([], [])))) = 3"
proof -
  let ?fs = "[(''http'', 0, \<lambda>_. []), (''http'', 5, \<lambda>_. []), (''http'', 60000000, \<lambda>_. [])]
     :: (string \<times> instant \<times> entropy) list"
  have run: "throttle_run 60 InMemoryAuditWriter ?fs ([], []) =
      ([(''http'', \<lparr>afw_start = 60000000, afw_last_seen = 60000000, afw_count = 1\<rparr>)],
       snd (throttle_run 60 InMemoryAuditWriter ?fs ([], [])))"
    by (simp add: throttle_record_def throttle_decide_def timedelta_seconds_def Let_def)
  have r: "\<forall>f\<in>set ?fs. 0 \<le> fst (snd f) \<and> fst (snd f) \<le> 60000000" by simp
  have "failures_on ''http'' ?fs = 3" by (simp add: failures_on_def)
  with auth_failure_throttle_bounds_and_accounts [OF _ _ r run, of "''http''"] show ?thesis by simp
qed

end
