(* ===== verification/Grants.thy ===== *)
theory Grants
  imports GrantRepo ServiceAudit Enforce "HOL-Library.Product_Lexorder"
begin

section \<open>Issuing and revoking grants\<close>

text \<open>
  \<^verbatim>\<open>src/vinctor_service/grants.py\<close>: the issuable scope bounds of an agent, the issuance of a
  grant within them, lookup, listing and revocation. An operation returns its result, or the
  exception it raises (\<open>Inl\<close>), with the states of the grant store and of the audit store. The
  tokens drawn are \<open>rnd 0\<close> for the grant id, \<open>rnd 1\<close> for the grant reference, \<open>rnd 2\<close> for the
  event id.
\<close>

subsection \<open>The code\<close>

definition DEFAULT_TTL_SECONDS :: int where "DEFAULT_TTL_SECONDS = 1800"

definition MAX_TTL_SECONDS_CEILING :: int where "MAX_TTL_SECONDS_CEILING = 30 * 24 * 3600"

definition new_id :: "string \<Rightarrow> string \<Rightarrow> string" where
  "new_id kind tok = kind @ ''_'' @ tok"

definition validate_issuable_scope_bounds :: "string list \<Rightarrow> int option \<Rightarrow> exn option" where
  "validate_issuable_scope_bounds scopes max_ttl_seconds =
     (if scopes = [] then Some (ValueError ''at least one issuable scope bound is required'')
      else
        let invalid = filter (\<lambda>scope. \<not> is_valid_grant_scope scope) scopes
        in if invalid \<noteq> [] then Some (ValueError (''invalid issuable scope bound: '' @ hd invalid))
           else (case max_ttl_seconds of
                   None \<Rightarrow> None
                 | Some m \<Rightarrow>
                     if m \<le> 0 \<or> m > MAX_TTL_SECONDS_CEILING
                     then Some (ValueError ''max_ttl_seconds must be a positive integer within the TTL ceiling'')
                     else None))"

definition validate_clear_max_ttl :: "int option \<Rightarrow> bool \<Rightarrow> exn option" where
  "validate_clear_max_ttl max_ttl_seconds clear_max_ttl =
     (if clear_max_ttl \<and> max_ttl_seconds \<noteq> None
      then Some (ValueError ''clear_max_ttl requires max_ttl_seconds to be None'') else None)"

definition set_bounds_audit_reason :: "int option \<Rightarrow> bool \<Rightarrow> string" where
  "set_bounds_audit_reason max_ttl_seconds clear_max_ttl =
     (if clear_max_ttl then ''max_ttl_seconds=cleared''
      else (case max_ttl_seconds of
              None \<Rightarrow> ''max_ttl_seconds=preserved''
            | Some m \<Rightarrow> ''max_ttl_seconds='' @ py_str_int m))"

type_synonym bounds_dict = "(string \<times> string, AgentIssuableBounds) dict"

definition bounds_init :: "(string \<times> string, string list) dict \<Rightarrow> bounds_dict" where
  "bounds_init bounds = map (\<lambda>(key, scopes). (key, \<lparr>aib_scopes = scopes, aib_max_ttl_seconds = None\<rparr>)) bounds"

definition get_bounds :: "bounds_dict \<Rightarrow> string \<Rightarrow> string \<Rightarrow> string list option" where
  "get_bounds bounds workspace_id agent_id = map_option aib_scopes (dict_get bounds (workspace_id, agent_id))"

definition get_max_ttl_seconds :: "bounds_dict \<Rightarrow> string \<Rightarrow> string \<Rightarrow> int option" where
  "get_max_ttl_seconds bounds workspace_id agent_id =
     (case dict_get bounds (workspace_id, agent_id) of
        None \<Rightarrow> None | Some entry \<Rightarrow> aib_max_ttl_seconds entry)"

definition get_bounds_with_max_ttl :: "bounds_dict \<Rightarrow> string \<Rightarrow> string \<Rightarrow> AgentIssuableBounds option" where
  "get_bounds_with_max_ttl bounds workspace_id agent_id = dict_get bounds (workspace_id, agent_id)"

definition list_bounds_for_workspace :: "bounds_dict \<Rightarrow> string \<Rightarrow> (string \<times> string list) list" where
  "list_bounds_for_workspace bounds workspace_id =
     map (\<lambda>((_, agent_id), entry). (agent_id, aib_scopes entry))
       (filter (\<lambda>((bound_workspace_id, _), _). bound_workspace_id = workspace_id) (sort_key fst bounds))"

definition set_bounds ::
  "string \<Rightarrow> string \<Rightarrow> string list \<Rightarrow> int option \<Rightarrow> bool \<Rightarrow> bounds_dict \<Rightarrow> exn option \<times> bounds_dict" where
  "set_bounds workspace_id agent_id scopes max_ttl_seconds clear_max_ttl bounds =
     (case validate_issuable_scope_bounds scopes max_ttl_seconds of
        Some e \<Rightarrow> (Some e, bounds)
      | None \<Rightarrow>
          (case validate_clear_max_ttl max_ttl_seconds clear_max_ttl of
             Some e \<Rightarrow> (Some e, bounds)
           | None \<Rightarrow>
               let max_ttl =
                     (if max_ttl_seconds = None \<and> \<not> clear_max_ttl
                      then (case dict_get bounds (workspace_id, agent_id) of
                              None \<Rightarrow> max_ttl_seconds
                            | Some existing \<Rightarrow> aib_max_ttl_seconds existing)
                      else max_ttl_seconds)
               in (None, dict_set (workspace_id, agent_id)
                          \<lparr>aib_scopes = scopes, aib_max_ttl_seconds = max_ttl\<rparr> bounds)))"

definition validate_issue_request :: "GrantIssueRequest \<Rightarrow> int \<Rightarrow> string option" where
  "validate_issue_request request applied_ttl_seconds =
     (if giq_workspace_id request = [] then Some ''invalid_workspace_id''
      else if giq_target_agent_id request = [] then Some ''invalid_agent_id''
      else if giq_ttl_seconds request < 0 then Some ''invalid_ttl''
      else if applied_ttl_seconds > MAX_TTL_SECONDS_CEILING then Some ''ttl_exceeds_max''
      else if giq_requested_scopes request = [] then Some ''missing_requested_scopes''
      else if \<exists>scope\<in>set (giq_requested_scopes request). \<not> is_valid_grant_scope scope
      then Some ''invalid_requested_scope''
      else None)"

definition scopes_outside_bounds :: "string list \<Rightarrow> string list \<Rightarrow> string list" where
  "scopes_outside_bounds requested_scopes bounds =
     filter (\<lambda>requested. \<not> (\<exists>bound\<in>set bounds. scope_subsumes bound requested)) requested_scopes"

definition record_issue_rejection ::
  "'s AuditWriter \<Rightarrow> GrantIssueRequest \<Rightarrow> string \<Rightarrow> instant \<Rightarrow> entropy \<Rightarrow> 's \<Rightarrow> 's" where
  "record_issue_rejection audit_writer request reason_code now rnd s =
     snd (record_rejection audit_writer
       (build_rejection_audit_event
          ((rejection reason_code (giq_workspace_id request) (giq_target_agent_id request) now)
             \<lparr>ra_event_type := EVENT_GRANT_ISSUE_REJECTED, ra_action := ''issue_grant'',
              ra_resource := ''agent/'' @ giq_target_agent_id request,
              ra_scope_attempted := Some (join_with '','' (giq_requested_scopes request))\<rparr>)
          (\<lambda>i. rnd 2)) s)"

definition grant_lifecycle_event ::
  "string \<Rightarrow> Decision \<Rightarrow> string \<Rightarrow> Grant \<Rightarrow> string \<Rightarrow> string \<Rightarrow> string \<Rightarrow> instant \<Rightarrow> entropy \<Rightarrow> AuditEvent" where
  "grant_lifecycle_event event_type decision reason grant action resource scope_attempted now rnd =
     \<lparr>ae_event_id = new_id ''evt'' (rnd 2),
      ae_event_type = event_type,
      ae_decision = decision,
      ae_reason = reason,
      ae_workspace_id = g_workspace_id grant,
      ae_agent_id = g_agent_id grant,
      ae_grant_id = g_grant_id grant,
      ae_grant_ref = g_grant_ref grant,
      ae_action = action,
      ae_resource = resource,
      ae_scope_attempted = scope_attempted,
      ae_scope_matched = None,
      ae_boundary_id = None,
      ae_runtime = None,
      ae_boundary_type = None,
      ae_created_at = now,
      ae_enforcing_principal = None,
      ae_reason_code = None,
      ae_occurrence_count = None,
      ae_first_seen_at = None,
      ae_last_seen_at = None,
      ae_subject_token_verified = False,
      ae_token_id = None,
      ae_event_class = ''decision''\<rparr>"

definition issue_rejected :: "string \<Rightarrow> string option \<Rightarrow> GrantIssueResult" where
  "issue_rejected reason detail =
     \<lparr>gir_status = ''rejected'', gir_reason = reason, gir_grant = None, gir_audit_event_id = None,
      gir_detail = detail\<rparr>"

definition quoted :: "string \<Rightarrow> string" where
  "quoted s = [CHR 0x27] @ s @ [CHR 0x27]"

definition applied_ttl :: "int \<Rightarrow> int" where
  "applied_ttl ttl_seconds = (if ttl_seconds > 0 then ttl_seconds else DEFAULT_TTL_SECONDS)"

definition build_issued_grant :: "GrantIssueRequest \<Rightarrow> instant \<Rightarrow> entropy \<Rightarrow> Grant" where
  "build_issued_grant request now rnd =
     \<lparr>g_grant_id = py_or (giq_grant_id request) (new_id ''grnt'' (rnd 0)),
      g_grant_ref = py_or (giq_grant_ref request) (new_id ''grt'' (rnd 1)),
      g_workspace_id = giq_workspace_id request,
      g_agent_id = giq_target_agent_id request,
      g_scopes = giq_requested_scopes request,
      g_status = ''active'',
      g_expires_at = Some (now + timedelta_seconds (applied_ttl (giq_ttl_seconds request)))\<rparr>"

definition insert_issued_grant ::
  "GrantIssueRequest \<Rightarrow> 'g GrantLifecycleRepository \<Rightarrow> 's AuditWriter \<Rightarrow> instant \<Rightarrow> entropy \<Rightarrow> 'g \<times> 's
     \<Rightarrow> (exn + GrantIssueResult) \<times> 'g \<times> 's" where
  "insert_issued_grant request grant_repository audit_writer now rnd st =
     (case st of (g, s) \<Rightarrow>
        let grant = build_issued_grant request now rnd
        in (case gl_insert grant_repository grant g of
              (Some (ValueError _), g') \<Rightarrow> (Inr (issue_rejected ''duplicate_grant_ref'' None), g', s)
            | (Some e, g') \<Rightarrow> (Inl e, g', s)
            | (None, g') \<Rightarrow>
                let audit_event =
                      grant_lifecycle_event ''grant_issued'' Permit ''grant_issued'' grant ''issue_grant''
                        (''agent/'' @ g_agent_id grant) (join_with '','' (g_scopes grant)) now rnd
                in (case aw_write audit_writer audit_event s of
                      (Some e, s') \<Rightarrow> (Inl e, g', s')
                    | (None, s') \<Rightarrow>
                        (Inr \<lparr>gir_status = ''issued'', gir_reason = ''grant_issued'', gir_grant = Some grant,
                              gir_audit_event_id = Some (ae_event_id audit_event), gir_detail = None\<rparr>,
                         g', s'))))"

definition issue_grant ::
  "GrantIssueRequest \<Rightarrow> 'g GrantLifecycleRepository \<Rightarrow> (string \<Rightarrow> string \<Rightarrow> AgentIssuableBounds option)
     \<Rightarrow> 's AuditWriter \<Rightarrow> instant \<Rightarrow> entropy \<Rightarrow> 'g \<times> 's \<Rightarrow> (exn + GrantIssueResult) \<times> 'g \<times> 's" where
  "issue_grant request grant_repository bounds_of audit_writer now rnd st =
     (case st of (g, s) \<Rightarrow>
        let applied_ttl_seconds = applied_ttl (giq_ttl_seconds request);
            agent = giq_target_agent_id request
        in case validate_issue_request request applied_ttl_seconds of
             Some invalid_reason \<Rightarrow> (Inr (issue_rejected invalid_reason None), g, s)
           | None \<Rightarrow>
        (case bounds_of (giq_workspace_id request) agent of
           None \<Rightarrow>
             (Inr (issue_rejected ''issuable_bounds_not_found''
                (Some (''no issuable scope bounds are configured for agent '' @ quoted agent))),
              g, record_issue_rejection audit_writer request REASON_ISSUABLE_BOUNDS_NOT_FOUND now rnd s)
         | Some issuable \<Rightarrow>
             let bounds = aib_scopes issuable;
                 outside = scopes_outside_bounds (giq_requested_scopes request) bounds
             in if \<exists>scope\<in>set bounds. \<not> is_valid_grant_scope scope
                then (Inr (issue_rejected ''invalid_issuable_scope_bound'' None), g, s)
                else if outside \<noteq> []
                then (Inr (issue_rejected ''scope_outside_issuable_bounds''
                        (Some (''requested scope(s) '' @ join_with '', '' outside @ '' are outside agent ''
                               @ quoted agent @ '' issuable bounds ('' @ join_with '', '' bounds @ '')''))),
                      g, record_issue_rejection audit_writer request REASON_SCOPE_OUTSIDE_ISSUABLE_BOUNDS now rnd s)
                else (case aib_max_ttl_seconds issuable of
                        Some max_ttl_seconds \<Rightarrow>
                          if applied_ttl_seconds > max_ttl_seconds
                          then (Inr (issue_rejected ''ttl_exceeds_issuable_max''
                                  (Some (''requested TTL '' @ py_str_int applied_ttl_seconds
                                         @ ''s exceeds the max issuable TTL '' @ py_str_int max_ttl_seconds
                                         @ ''s for agent '' @ quoted agent))),
                                g, record_issue_rejection audit_writer request REASON_TTL_EXCEEDS_ISSUABLE_MAX now rnd s)
                          else insert_issued_grant request grant_repository audit_writer now rnd (g, s)
                      | None \<Rightarrow> insert_issued_grant request grant_repository audit_writer now rnd (g, s))))"

definition lookup_grant :: "string \<Rightarrow> string \<Rightarrow> 'g GrantLifecycleRepository \<Rightarrow> 'g \<Rightarrow> Grant option" where
  "lookup_grant grant_ref workspace_id grant_repository g =
     (case gl_get_by_ref grant_repository g grant_ref of
        None \<Rightarrow> None
      | Some grant \<Rightarrow> if g_workspace_id grant \<noteq> workspace_id then None else Some grant)"

definition list_grants ::
  "string \<Rightarrow> string option \<Rightarrow> string option \<Rightarrow> 'g GrantLifecycleRepository \<Rightarrow> 'g \<Rightarrow> Grant list" where
  "list_grants workspace_id agent_id status grant_repository g =
     gl_list_grants_for_workspace grant_repository g workspace_id agent_id status"

definition revoke_grant ::
  "string \<Rightarrow> string \<Rightarrow> 'g GrantLifecycleRepository \<Rightarrow> 's AuditWriter \<Rightarrow> instant \<Rightarrow> entropy \<Rightarrow> 'g \<times> 's
     \<Rightarrow> (exn + (Grant \<times> string) option) \<times> 'g \<times> 's" where
  "revoke_grant grant_ref workspace_id grant_repository audit_writer now rnd st =
     (case st of (g, s) \<Rightarrow>
        (case gl_revoke grant_repository grant_ref workspace_id g of
           (Inl e, g') \<Rightarrow> (Inl e, g', s)
         | (Inr None, g') \<Rightarrow> (Inr None, g', s)
         | (Inr (Some grant), g') \<Rightarrow>
             let audit_event =
                   grant_lifecycle_event ''grant_revoked'' Deny ''grant_revoked'' grant ''revoke_grant''
                     (''grant/'' @ g_grant_ref grant) (join_with '','' (g_scopes grant)) now rnd
             in (case aw_write audit_writer audit_event s of
                   (Some e, s') \<Rightarrow> (Inl e, g', s')
                 | (None, s') \<Rightarrow> (Inr (Some (grant, ae_event_id audit_event)), g', s'))))"

subsection \<open>Issuance stays within the bounds\<close>

definition issuable_within :: "(string \<Rightarrow> string \<Rightarrow> AgentIssuableBounds option) \<Rightarrow> GrantIssueRequest \<Rightarrow> bool" where
  "issuable_within bounds_of request =
     (case bounds_of (giq_workspace_id request) (giq_target_agent_id request) of
        None \<Rightarrow> False
      | Some b \<Rightarrow>
          validate_issue_request request (applied_ttl (giq_ttl_seconds request)) = None
          \<and> (\<forall>scope\<in>set (aib_scopes b). is_valid_grant_scope scope)
          \<and> scopes_outside_bounds (giq_requested_scopes request) (aib_scopes b) = []
          \<and> (case aib_max_ttl_seconds b of None \<Rightarrow> True
              | Some m \<Rightarrow> applied_ttl (giq_ttl_seconds request) \<le> m))"

lemma issue_grant_within:
  "issuable_within bounds_of request \<Longrightarrow>
     issue_grant request repo bounds_of writer now rnd st = insert_issued_grant request repo writer now rnd st"
  by (auto simp: issue_grant_def issuable_within_def Let_def split: option.splits prod.splits)

definition issue_rejection_event :: "GrantIssueRequest \<Rightarrow> AuditEvent \<Rightarrow> bool" where
  "issue_rejection_event request e \<longleftrightarrow>
     ae_event_type e = EVENT_GRANT_ISSUE_REJECTED \<and> ae_decision e = Deny
     \<and> ae_grant_id e = [] \<and> ae_grant_ref e = []
     \<and> ae_workspace_id e = giq_workspace_id request \<and> ae_agent_id e = giq_target_agent_id request"

lemma issue_grant_outside:
  assumes "\<not> issuable_within bounds_of request"
  shows "\<exists>reason detail code.
      fst (issue_grant request repo bounds_of writer now rnd (g, s)) = Inr (issue_rejected reason detail)
      \<and> fst (snd (issue_grant request repo bounds_of writer now rnd (g, s))) = g
      \<and> snd (snd (issue_grant request repo bounds_of writer now rnd (g, s)))
          \<in> {s, record_issue_rejection writer request code now rnd s}"
  using assms
  by (auto simp: issue_grant_def issuable_within_def Let_def split: option.splits)

lemma applied_ttl_positive: "0 < applied_ttl n"
  by (simp add: applied_ttl_def DEFAULT_TTL_SECONDS_def)

lemma validate_issue_request_None:
  "validate_issue_request request ttl = None \<longleftrightarrow>
     giq_workspace_id request \<noteq> [] \<and> giq_target_agent_id request \<noteq> [] \<and> 0 \<le> giq_ttl_seconds request
     \<and> ttl \<le> MAX_TTL_SECONDS_CEILING \<and> giq_requested_scopes request \<noteq> []
     \<and> (\<forall>scope\<in>set (giq_requested_scopes request). is_valid_grant_scope scope)"
  by (auto simp: validate_issue_request_def)

text \<open>What it means for a grant to be confined by the bounds of its agent at an instant.\<close>

definition confined ::
  "(string \<Rightarrow> string \<Rightarrow> AgentIssuableBounds option) \<Rightarrow> instant \<Rightarrow> Grant \<Rightarrow> bool" where
  "confined bounds_of now grant \<longleftrightarrow>
     (\<exists>b e. bounds_of (g_workspace_id grant) (g_agent_id grant) = Some b
        \<and> (\<Union>scope\<in>set (g_scopes grant). authorises scope) \<subseteq> (\<Union>bound\<in>set (aib_scopes b). authorises bound)
        \<and> (\<forall>scope\<in>set (g_scopes grant). is_valid_grant_scope scope)
        \<and> g_expires_at grant = Some e \<and> now < e \<and> e \<le> now + timedelta_seconds MAX_TTL_SECONDS_CEILING
        \<and> (\<forall>m. aib_max_ttl_seconds b = Some m \<longrightarrow> e \<le> now + timedelta_seconds m))"

lemma scopes_within_authorise:
  assumes "\<forall>scope\<in>set req. is_valid_grant_scope scope" "\<forall>scope\<in>set bounds. is_valid_grant_scope scope"
    and "scopes_outside_bounds req bounds = []"
  shows "(\<Union>scope\<in>set req. authorises scope) \<subseteq> (\<Union>bound\<in>set bounds. authorises bound)"
proof (rule UN_least)
  fix scope assume "scope \<in> set req"
  then obtain bound where "bound \<in> set bounds" "scope_subsumes bound scope"
    using assms(3) by (auto simp: scopes_outside_bounds_def filter_empty_conv)
  moreover from this have "authorises scope \<subseteq> authorises bound"
    using scope_subsumes_authorises assms(1,2) \<open>scope \<in> set req\<close> by simp
  ultimately show "authorises scope \<subseteq> (\<Union>bound\<in>set bounds. authorises bound)" by blast
qed

lemma issued_grant_confined:
  assumes "issuable_within bounds_of request"
  shows "confined bounds_of now (build_issued_grant request now rnd)"
proof -
  obtain b where b: "bounds_of (giq_workspace_id request) (giq_target_agent_id request) = Some b"
      "validate_issue_request request (applied_ttl (giq_ttl_seconds request)) = None"
      "\<forall>scope\<in>set (aib_scopes b). is_valid_grant_scope scope"
      "scopes_outside_bounds (giq_requested_scopes request) (aib_scopes b) = []"
      "\<And>m. aib_max_ttl_seconds b = Some m \<Longrightarrow> applied_ttl (giq_ttl_seconds request) \<le> m"
    using assms by (auto simp: issuable_within_def split: option.splits)
  have v: "\<forall>scope\<in>set (giq_requested_scopes request). is_valid_grant_scope scope"
      "applied_ttl (giq_ttl_seconds request) \<le> MAX_TTL_SECONDS_CEILING"
    using b(2) by (auto simp: validate_issue_request_None)
  show ?thesis
    unfolding confined_def
  proof (intro exI conjI allI impI)
    show "bounds_of (g_workspace_id (build_issued_grant request now rnd))
        (g_agent_id (build_issued_grant request now rnd)) = Some b"
      using b(1) by (simp add: build_issued_grant_def)
    show "(\<Union>scope\<in>set (g_scopes (build_issued_grant request now rnd)). authorises scope)
        \<subseteq> (\<Union>bound\<in>set (aib_scopes b). authorises bound)"
      using scopes_within_authorise [OF v(1) b(3,4)] by (simp add: build_issued_grant_def)
    show "\<forall>scope\<in>set (g_scopes (build_issued_grant request now rnd)). is_valid_grant_scope scope"
      using v(1) by (simp add: build_issued_grant_def)
    show "g_expires_at (build_issued_grant request now rnd)
        = Some (now + timedelta_seconds (applied_ttl (giq_ttl_seconds request)))"
      by (simp add: build_issued_grant_def)
  qed (use v(2) b(5) applied_ttl_positive in \<open>simp_all add: timedelta_seconds_def\<close>)
qed

locale issuance = grant_store repo grants inv + audit_log writer log
  for repo :: "'g GrantLifecycleRepository" and grants and inv and writer :: "'s AuditWriter" and log
begin

text \<open>The three ways an issuance ends: rejected, issued and recorded, or interrupted by a store.\<close>

lemma record_issue_rejection_log:
  "\<exists>new. log (record_issue_rejection writer request code now rnd s) = log s @ new
     \<and> length new \<le> 1 \<and> (\<forall>e\<in>set new. issue_rejection_event request e)"
proof -
  obtain b s' where r: "record_rejection writer
      (build_rejection_audit_event
          ((rejection code (giq_workspace_id request) (giq_target_agent_id request) now)
             \<lparr>ra_event_type := EVENT_GRANT_ISSUE_REJECTED, ra_action := ''issue_grant'',
              ra_resource := ''agent/'' @ giq_target_agent_id request,
              ra_scope_attempted := Some (join_with '','' (giq_requested_scopes request))\<rparr>)
          (\<lambda>i. rnd 2)) s = (b, s')"
    by (metis surj_pair)
  show ?thesis
    using record_rejection_log [OF r] r
    by (auto simp: record_issue_rejection_def issue_rejection_event_def)
qed

lemma issue_grant_cases:
  assumes inv: "inv g" and i: "issue_grant request repo bounds_of writer now rnd (g, s) = (res, g', s')"
  obtains (rejected) reason detail new where "res = Inr (issue_rejected reason detail)" "g' = g"
      "log s' = log s @ new" "length new \<le> 1" "\<forall>e\<in>set new. issue_rejection_event request e"
  | (issued) grant event where "grant = build_issued_grant request now rnd" "issuable_within bounds_of request"
      "res = Inr \<lparr>gir_status = ''issued'', gir_reason = ''grant_issued'', gir_grant = Some grant,
                  gir_audit_event_id = Some (ae_event_id event), gir_detail = None\<rparr>"
      "grants g (g_grant_ref grant) = None" "grants g' = (grants g)(g_grant_ref grant \<mapsto> grant)"
      "inv g'" "log s' = log s @ [event]"
      "event = grant_lifecycle_event ''grant_issued'' Permit ''grant_issued'' grant ''issue_grant''
                 (''agent/'' @ g_agent_id grant) (join_with '','' (g_scopes grant)) now rnd"
  | (raised) e where "res = Inl e" "log s' = log s"
proof (cases "issuable_within bounds_of request")
  case False
  obtain reason detail code where "res = Inr (issue_rejected reason detail)" "g' = g"
      "s' \<in> {s, record_issue_rejection writer request code now rnd s}"
    using issue_grant_outside [OF False, of repo writer now rnd g s] i by auto
  then show ?thesis
    using rejected [of reason detail] record_issue_rejection_log [of request code now rnd s] by auto
next
  case True
  let ?g = "build_issued_grant request now rnd"
  let ?e = "grant_lifecycle_event ''grant_issued'' Permit ''grant_issued'' ?g ''issue_grant''
                 (''agent/'' @ g_agent_id ?g) (join_with '','' (g_scopes ?g)) now rnd"
  have ins: "insert_issued_grant request repo writer now rnd (g, s) = (res, g', s')"
    using i issue_grant_within [OF True] by metis
  obtain x g1 where x: "gl_insert repo ?g g = (x, g1)" by (metis surj_pair)
  show ?thesis
  proof (cases x)
    case (Some e)
    have "g1 = g" using insert_raises x Some by blast
    then show ?thesis
      using ins x Some rejected [of "''duplicate_grant_ref''" None "[]"] raised
      by (cases e) (auto simp: insert_issued_grant_def Let_def)
  next
    case None
    obtain y s1 where y: "aw_write writer ?e s = (y, s1)" by (metis surj_pair)
    show ?thesis
    proof (cases y)
      case (Some e)
      then show ?thesis
        using ins x None y raised write_raises by (auto simp: insert_issued_grant_def Let_def)
    next
      case N: None
      have "inv g1 \<and> grants g (g_grant_ref ?g) = None \<and> grants g1 = (grants g)(g_grant_ref ?g \<mapsto> ?g)"
        using insert_ok [OF inv] x None by blast
      moreover have "log s1 = log s @ [?e]" using write_ok y N by blast
      ultimately show ?thesis
        using ins x None y N True issued [OF refl True _ _ _ _ _ refl]
        by (auto simp: insert_issued_grant_def Let_def)
    qed
  qed
qed

end

interpretation im_issuance: issuance InMemoryGrantRepository dict_get im_grants_inv InMemoryAuditWriter "\<lambda>s. s"
  by unfold_locales

interpretation sq_issuance: issuance SQLiteGrantRepository "\<lambda>rows. dict_get (grants_dict rows)" sq_grants_inv
  InMemoryAuditWriter "\<lambda>s. s"
  by unfold_locales

text \<open>
  (C4) A grant issued by the in-memory service is confined by the agent's bounds at that moment:
  it belongs to the requested workspace and agent, it authorises nothing that no bound
  authorises, its scopes are all valid, and it expires after \<^verbatim>\<open>now\<close>, within thirty days and
  within the agent's cap. It is stored under a reference that was free, exactly one event
  that names it is appended to the audit log, and nothing else changes. A rejected issuance
  leaves the grants as they were and appends at most one event, which names no grant.
\<close>

theorem issued_grants_are_confined:
  assumes inv: "im_grants_inv g"
    and i: "issue_grant request InMemoryGrantRepository bounds_of InMemoryAuditWriter now rnd (g, s)
              = (Inr result, g', s')"
  shows "im_grants_inv g'
     \<and> (case gir_grant result of
          None \<Rightarrow> gir_status result = ''rejected'' \<and> g' = g
                  \<and> (\<exists>new. s' = s @ new \<and> length new \<le> 1 \<and> (\<forall>e\<in>set new. issue_rejection_event request e))
        | Some grant \<Rightarrow>
            gir_status result = ''issued''
            \<and> g_workspace_id grant = giq_workspace_id request \<and> g_agent_id grant = giq_target_agent_id request
            \<and> g_status grant = ''active'' \<and> confined bounds_of now grant
            \<and> dict_get g (g_grant_ref grant) = None
            \<and> dict_get g' = (dict_get g)(g_grant_ref grant \<mapsto> grant)
            \<and> (\<exists>event. s' = s @ [event] \<and> ae_event_type event = ''grant_issued''
                   \<and> ae_grant_ref event = g_grant_ref grant
                   \<and> gir_audit_event_id result = Some (ae_event_id event)))"
  using inv i
proof (cases rule: im_issuance.issue_grant_cases)
  case (rejected reason detail new)
  then show ?thesis using inv by (auto simp: issue_rejected_def)
next
  case (issued grant event)
  have "confined bounds_of now grant" using issued_grant_confined issued(1,2) by simp
  moreover have "g_workspace_id grant = giq_workspace_id request" "g_agent_id grant = giq_target_agent_id request"
      "g_status grant = ''active''"
    using issued(1) by (simp_all add: build_issued_grant_def)
  ultimately show ?thesis
    using issued(3-8) by (simp add: grant_lifecycle_event_def)
qed simp

definition example_issue_request :: GrantIssueRequest where
  "example_issue_request =
     \<lparr>giq_workspace_id = ''ws'', giq_target_agent_id = ''agent'',
      giq_requested_scopes = [''write:repo/feature/a''], giq_ttl_seconds = 600,
      giq_grant_id = Some ''grnt_1'', giq_grant_ref = Some ''grt_1''\<rparr>"

definition example_bounds :: "string \<Rightarrow> string \<Rightarrow> AgentIssuableBounds option" where
  "example_bounds w a =
     (if w = ''ws'' \<and> a = ''agent''
      then Some \<lparr>aib_scopes = [''write:repo/feature/*''], aib_max_ttl_seconds = Some 900\<rparr> else None)"

lemma example_issue_within: "issuable_within example_bounds example_issue_request"
proof -
  have "scope_subsumes ''write:repo/feature/*'' ''write:repo/feature/a''"
    by (simp add: scope_subsumes_def scope_eval partition_on_def removesuffix_def)
  then show ?thesis
    by (simp add: issuable_within_def example_bounds_def example_issue_request_def validate_issue_request_None
        scope_eval_feature applied_ttl_def MAX_TTL_SECONDS_CEILING_def scopes_outside_bounds_def)
qed

theorem issued_grants_are_confined_witness:
  "\<exists>result g' s'.
     issue_grant example_issue_request InMemoryGrantRepository example_bounds InMemoryAuditWriter 0 (\<lambda>_. ''r'') ([], [])
       = (Inr result, g', s')
     \<and> gir_status result = ''issued''
     \<and> confined example_bounds 0 (build_issued_grant example_issue_request 0 (\<lambda>_. ''r''))"
proof -
  let ?i = "issue_grant example_issue_request InMemoryGrantRepository example_bounds InMemoryAuditWriter 0
      (\<lambda>_. ''r'') ([], [])"
  let ?g = "build_issued_grant example_issue_request 0 (\<lambda>_. ''r'')"
  obtain result g' s' where r: "?i = (Inr result, g', s')" "gir_grant result = Some ?g"
    unfolding issue_grant_within [OF example_issue_within]
    by (simp add: insert_issued_grant_def InMemoryGrantRepository_def im_insert_grant_def
        InMemoryAuditWriter_def InMemoryAuditWriter_write_def Let_def)
  have "im_grants_inv []" by (simp add: im_grants_inv_def)
  from issued_grants_are_confined [OF this r(1)] r show ?thesis by auto
qed

subsection \<open>Bounds keep their cap\<close>

definition bounds_ok :: "bounds_dict \<Rightarrow> bool" where
  "bounds_ok bounds \<longleftrightarrow>
     (\<forall>k b. dict_get bounds k = Some b \<longrightarrow>
        aib_scopes b \<noteq> [] \<and> (\<forall>s\<in>set (aib_scopes b). is_valid_grant_scope s)
        \<and> (\<forall>m. aib_max_ttl_seconds b = Some m \<longrightarrow> 0 < m \<and> m \<le> MAX_TTL_SECONDS_CEILING))"

lemma validate_bounds_None:
  "validate_issuable_scope_bounds scopes m = None \<longleftrightarrow>
     scopes \<noteq> [] \<and> (\<forall>s\<in>set scopes. is_valid_grant_scope s)
     \<and> (case m of None \<Rightarrow> True | Some n \<Rightarrow> 0 < n \<and> n \<le> MAX_TTL_SECONDS_CEILING)"
  by (auto simp: validate_issuable_scope_bounds_def Let_def filter_empty_conv split: option.splits)

text \<open>
  Setting bounds keeps the stored bounds valid (scopes present and valid, caps positive and
  below the ceiling), touches no other agent, and never removes or changes the cap of an
  agent unless a new cap or the explicit clearing is asked for.
\<close>

theorem set_bounds_never_widens_silently:
  assumes ok: "bounds_ok bounds"
    and s: "set_bounds workspace_id agent_id scopes max_ttl clear bounds = (err, bounds')"
  shows "bounds_ok bounds'
     \<and> (\<forall>k. k \<noteq> (workspace_id, agent_id) \<longrightarrow> dict_get bounds' k = dict_get bounds k)
     \<and> (case err of
          Some e \<Rightarrow> bounds' = bounds
        | None \<Rightarrow> get_bounds bounds' workspace_id agent_id = Some scopes
            \<and> get_max_ttl_seconds bounds' workspace_id agent_id =
                (if clear then None
                 else if max_ttl = None then get_max_ttl_seconds bounds workspace_id agent_id else max_ttl))"
proof (cases err)
  case (Some e)
  with s have "bounds' = bounds" by (auto simp: set_bounds_def Let_def split: option.splits)
  with Some ok show ?thesis by simp
next
  case None
  let ?key = "(workspace_id, agent_id)"
  let ?cap = "if clear then None
     else if max_ttl = None then get_max_ttl_seconds bounds workspace_id agent_id else max_ttl"
  have v: "validate_issuable_scope_bounds scopes max_ttl = None" "\<not> (clear \<and> max_ttl \<noteq> None)"
    using s None by (auto simp: set_bounds_def validate_clear_max_ttl_def Let_def split: option.splits if_splits)
  have b: "bounds' = dict_set ?key \<lparr>aib_scopes = scopes, aib_max_ttl_seconds = ?cap\<rparr> bounds"
    using s None v by (auto simp: set_bounds_def validate_clear_max_ttl_def get_max_ttl_seconds_def split: option.splits)
  have "\<forall>m. ?cap = Some m \<longrightarrow> 0 < m \<and> m \<le> MAX_TTL_SECONDS_CEILING"
    using ok v(1) unfolding validate_bounds_None bounds_ok_def get_max_ttl_seconds_def
    by (auto split: option.splits)
  with ok v(1) have "bounds_ok bounds'" unfolding b bounds_ok_def validate_bounds_None by auto
  with None show ?thesis by (simp add: b get_bounds_def get_max_ttl_seconds_def)
qed

theorem set_bounds_never_widens_silently_witness:
  "get_max_ttl_seconds (snd (set_bounds ''ws'' ''a'' [''write:repo/feature/a''] None False
      [((''ws'', ''a''), \<lparr>aib_scopes = [''write:repo/feature/*''], aib_max_ttl_seconds = Some 900\<rparr>)])) ''ws'' ''a''
   = Some 900"
proof -
  let ?b = "[((''ws'', ''a''), \<lparr>aib_scopes = [''write:repo/feature/*''], aib_max_ttl_seconds = Some 900\<rparr>)]"
  have ok: "bounds_ok ?b"
    using scope_eval_feature by (simp add: bounds_ok_def MAX_TTL_SECONDS_CEILING_def)
  have "set_bounds ''ws'' ''a'' [''write:repo/feature/a''] None False ?b
      = (None, snd (set_bounds ''ws'' ''a'' [''write:repo/feature/a''] None False ?b))"
    using scope_eval_feature by (simp add: set_bounds_def validate_issuable_scope_bounds_def validate_clear_max_ttl_def)
  from set_bounds_never_widens_silently [OF ok this] show ?thesis
    by (simp add: get_max_ttl_seconds_def)
qed

subsection \<open>Revocation takes effect\<close>

text \<open>
  Revoking a grant of the caller's workspace marks it revoked in the store and appends the
  revocation event; from then on every action under that reference is denied, at any later
  time. A reference of another workspace, or an unknown one, changes nothing. No other grant
  is affected.
\<close>

theorem revocation_is_effective:
  assumes inv: "im_grants_inv g"
    and r: "revoke_grant grant_ref workspace_id InMemoryGrantRepository InMemoryAuditWriter now rnd (g, s)
              = (res, g', s')"
  shows "im_grants_inv g' \<and> (\<forall>q. q \<noteq> grant_ref \<longrightarrow> dict_get g' q = dict_get g q)
     \<and> (case lookup_grant grant_ref workspace_id InMemoryGrantRepository g of
          None \<Rightarrow> res = Inr None \<and> g' = g \<and> s' = s
        | Some x \<Rightarrow>
            \<exists>event. res = Inr (Some (x\<lparr>g_status := ''revoked''\<rparr>, ae_event_id event))
              \<and> s' = s @ [event] \<and> ae_event_type event = ''grant_revoked'' \<and> ae_grant_ref event = grant_ref
              \<and> dict_get g' grant_ref = Some (x\<lparr>g_status := ''revoked''\<rparr>)
              \<and> (\<forall>i. dict_get g' grant_ref = Some (ei_grant i) \<longrightarrow> dr_decision (evaluate_enforce i) = Deny))"
proof (cases "lookup_grant grant_ref workspace_id InMemoryGrantRepository g")
  case None
  then have "dict_get g grant_ref = None \<or> (\<exists>x. dict_get g grant_ref = Some x \<and> g_workspace_id x \<noteq> workspace_id)"
    by (auto simp: lookup_grant_def grant_repo_defs split: option.splits if_splits)
  then have "gl_revoke InMemoryGrantRepository grant_ref workspace_id g = (Inr None, g)"
    by (rule im_grants.revoke_absent)
  with r None inv show ?thesis by (simp add: revoke_grant_def)
next
  case (Some x)
  then have x: "dict_get g grant_ref = Some x" "g_workspace_id x = workspace_id"
    by (auto simp: lookup_grant_def grant_repo_defs split: option.splits if_splits)
  let ?v = "x\<lparr>g_status := ''revoked''\<rparr>"
  obtain g1 where g1: "gl_revoke InMemoryGrantRepository grant_ref workspace_id g = (Inr (Some ?v), g1)"
      "im_grants_inv g1" "dict_get g1 = (dict_get g)(grant_ref \<mapsto> ?v)"
    using im_grants.revoke_found [OF inv x] by blast
  have "g_grant_ref x = grant_ref" using im_grants.own_ref [OF inv x(1)] .
  moreover have "dr_decision (evaluate_enforce i) = Deny" if "ei_grant i = ?v" for i
    using evaluate_enforce_permit_iff [of i] that
    by (cases "dr_decision (evaluate_enforce i)") (auto simp: grant_usable_def)
  ultimately show ?thesis
    using r Some g1
    by (auto simp: revoke_grant_def InMemoryAuditWriter_def InMemoryAuditWriter_write_def
        grant_lifecycle_event_def)
qed

theorem revocation_is_effective_witness:
  "dict_get (fst (snd (revoke_grant ''grt_1'' ''ws'' InMemoryGrantRepository InMemoryAuditWriter 7 (\<lambda>_. ''r'')
      ([(''grt_1'', build_issued_grant example_issue_request 0 (\<lambda>_. ''r''))], [])))) ''grt_1''
   = Some (build_issued_grant example_issue_request 0 (\<lambda>_. ''r'')\<lparr>g_status := ''revoked''\<rparr>)"
proof -
  let ?g = "build_issued_grant example_issue_request 0 (\<lambda>_. ''r'')"
  have g: "g_grant_ref ?g = ''grt_1''" "g_workspace_id ?g = ''ws''"
    by (simp_all add: build_issued_grant_def example_issue_request_def)
  obtain res g' s' where r: "revoke_grant ''grt_1'' ''ws'' InMemoryGrantRepository InMemoryAuditWriter 7 (\<lambda>_. ''r'')
      ([(''grt_1'', ?g)], []) = (res, g', s')"
    by (metis surj_pair)
  have "im_grants_inv [(''grt_1'', ?g)]" using g by (simp add: im_grants_inv_def dict_wf_def)
  moreover have "lookup_grant ''grt_1'' ''ws'' InMemoryGrantRepository [(''grt_1'', ?g)] = Some ?g"
    using g by (simp add: lookup_grant_def grant_repo_defs)
  ultimately show ?thesis using revocation_is_effective [OF _ r] by (auto simp: r)
qed

end
