(* ===== verification/RequestRepo.thy ===== *)
theory RequestRepo
  imports GrantRepo "HOL-Library.Product_Lexorder"
begin

section \<open>Grant request repositories\<close>

text \<open>
  The repositories of grant requests in \<^verbatim>\<open>src/vinctor_service/repositories.py\<close> and \<^verbatim>\<open>sqlite.py\<close>.
  A decision is a compare-and-set on the status \<^verbatim>\<open>pending\<close>: under the lock in memory, as one
  conditional \<^verbatim>\<open>UPDATE\<close> in SQLite. The in-memory store replaces the whole request, the table
  its five decision columns; the contract \<open>request_store\<close> is stated for requests that differ
  from the stored one in these columns only, which is how the deciders call it.
\<close>

record 'q GrantRequestRepository =
  rq_insert_request :: "GrantRequest \<Rightarrow> 'q \<Rightarrow> exn option \<times> 'q"
  rq_get_request :: "'q \<Rightarrow> string \<Rightarrow> GrantRequest option"
  rq_list_requests_for_workspace :: "'q \<Rightarrow> string \<Rightarrow> GrantRequest list"
  rq_update_request :: "GrantRequest \<Rightarrow> 'q \<Rightarrow> exn option \<times> 'q"
  rq_decide_request :: "GrantRequest \<Rightarrow> 'q \<Rightarrow> bool \<times> 'q"

subsection \<open>In memory\<close>

type_synonym requests_by_id = "(string, GrantRequest) dict"

definition im_insert_request :: "GrantRequest \<Rightarrow> requests_by_id \<Rightarrow> exn option \<times> requests_by_id" where
  "im_insert_request request store =
     (if dict_get store (gr_request_id request) \<noteq> None
      then (Some (ValueError (''duplicate grant request_id: '' @ gr_request_id request)), store)
      else (None, dict_set (gr_request_id request) request store))"

definition im_get_request :: "requests_by_id \<Rightarrow> string \<Rightarrow> GrantRequest option" where
  "im_get_request store request_id = dict_get store request_id"

definition im_list_requests :: "requests_by_id \<Rightarrow> string \<Rightarrow> GrantRequest list" where
  "im_list_requests store workspace_id =
     filter (\<lambda>request. gr_workspace_id request = workspace_id) (dict_values store)"

definition im_update_request :: "GrantRequest \<Rightarrow> requests_by_id \<Rightarrow> exn option \<times> requests_by_id" where
  "im_update_request request store =
     (if dict_get store (gr_request_id request) = None
      then (Some (ValueError (''unknown grant request_id: '' @ gr_request_id request)), store)
      else (None, dict_set (gr_request_id request) request store))"

definition im_decide_request :: "GrantRequest \<Rightarrow> requests_by_id \<Rightarrow> bool \<times> requests_by_id" where
  "im_decide_request request store =
     (case dict_get store (gr_request_id request) of
        None \<Rightarrow> (False, store)
      | Some current \<Rightarrow>
          if gr_status current \<noteq> ''pending'' then (False, store)
          else (True, dict_set (gr_request_id request) request store))"

definition InMemoryGrantRequestRepository :: "requests_by_id GrantRequestRepository" where
  "InMemoryGrantRequestRepository =
     \<lparr>rq_insert_request = im_insert_request, rq_get_request = im_get_request,
      rq_list_requests_for_workspace = im_list_requests, rq_update_request = im_update_request,
      rq_decide_request = im_decide_request\<rparr>"

subsection \<open>SQLite\<close>

type_synonym requests_table = "GrantRequest list"

definition sq_get_request :: "requests_table \<Rightarrow> string \<Rightarrow> GrantRequest option" where
  "sq_get_request rows request_id = find_first (\<lambda>row. gr_request_id row = request_id) rows"

definition sq_insert_request :: "GrantRequest \<Rightarrow> requests_table \<Rightarrow> exn option \<times> requests_table" where
  "sq_insert_request request rows =
     (if sq_get_request rows (gr_request_id request) \<noteq> None
      then (Some (ValueError (''duplicate grant request_id: '' @ gr_request_id request)), rows)
      else (None, rows @ [request]))"

definition sq_list_requests :: "requests_table \<Rightarrow> string \<Rightarrow> GrantRequest list" where
  "sq_list_requests rows workspace_id =
     sort_key (\<lambda>row. (gr_created_at row, gr_request_id row))
       (filter (\<lambda>row. gr_workspace_id row = workspace_id) rows)"

definition sq_update_request :: "GrantRequest \<Rightarrow> requests_table \<Rightarrow> exn option \<times> requests_table" where
  "sq_update_request request rows =
     (if sq_get_request rows (gr_request_id request) = None
      then (Some (ValueError (''unknown grant request_id: '' @ gr_request_id request)), rows)
      else (None, map (\<lambda>row. if gr_request_id row = gr_request_id request then request else row) rows))"

definition with_decision :: "GrantRequest \<Rightarrow> GrantRequest \<Rightarrow> GrantRequest" where
  "with_decision row request =
     row\<lparr>gr_status := gr_status request, gr_decided_at := gr_decided_at request,
         gr_decided_by := gr_decided_by request, gr_decision_reason := gr_decision_reason request,
         gr_issued_grant_ref := gr_issued_grant_ref request\<rparr>"

definition sq_decide_request :: "GrantRequest \<Rightarrow> requests_table \<Rightarrow> bool \<times> requests_table" where
  "sq_decide_request request rows =
     (let hit = (\<lambda>row. gr_request_id row = gr_request_id request \<and> gr_status row = ''pending'')
      in (length (filter hit rows) = 1,
          map (\<lambda>row. if hit row then with_decision row request else row) rows))"

definition SQLiteGrantRequestRepository :: "requests_table GrantRequestRepository" where
  "SQLiteGrantRequestRepository =
     \<lparr>rq_insert_request = sq_insert_request, rq_get_request = sq_get_request,
      rq_list_requests_for_workspace = sq_list_requests, rq_update_request = sq_update_request,
      rq_decide_request = sq_decide_request\<rparr>"

lemmas request_repo_defs =
  InMemoryGrantRequestRepository_def im_insert_request_def im_get_request_def im_update_request_def
  im_decide_request_def SQLiteGrantRequestRepository_def sq_get_request_def sq_insert_request_def
  sq_update_request_def

subsection \<open>The contract\<close>

locale request_store =
  fixes rrepo :: "'q GrantRequestRepository"
    and requests :: "'q \<Rightarrow> string \<Rightarrow> GrantRequest option"
    and rinv :: "'q \<Rightarrow> bool"
  assumes get_request: "rq_get_request rrepo q i = requests q i"
    and own_id: "rinv q \<Longrightarrow> requests q i = Some r \<Longrightarrow> gr_request_id r = i"
    and rinsert_ok: "rinv q \<Longrightarrow> rq_insert_request rrepo r q = (None, q') \<Longrightarrow>
          rinv q' \<and> requests q (gr_request_id r) = None \<and> requests q' = (requests q)(gr_request_id r \<mapsto> r)"
    and rinsert_raises: "rq_insert_request rrepo r q = (Some e, q') \<Longrightarrow> q' = q"
    and update_known: "rinv q \<Longrightarrow> requests q (gr_request_id r) \<noteq> None \<Longrightarrow>
          \<exists>q'. rq_update_request rrepo r q = (None, q') \<and> rinv q'
               \<and> requests q' = (requests q)(gr_request_id r \<mapsto> r)"
    and decide_pending: "rinv q \<Longrightarrow> requests q (gr_request_id r) = Some c \<Longrightarrow> gr_status c = ''pending'' \<Longrightarrow>
          with_decision c r = r \<Longrightarrow>
          \<exists>q'. rq_decide_request rrepo r q = (True, q') \<and> rinv q'
               \<and> requests q' = (requests q)(gr_request_id r \<mapsto> r)"
    and decide_lost: "rinv q \<Longrightarrow> (\<forall>c. requests q (gr_request_id r) = Some c \<longrightarrow> gr_status c \<noteq> ''pending'') \<Longrightarrow>
          rq_decide_request rrepo r q = (False, q)"

definition im_requests_inv :: "requests_by_id \<Rightarrow> bool" where
  "im_requests_inv store \<longleftrightarrow> dict_wf store \<and> (\<forall>i r. dict_get store i = Some r \<longrightarrow> gr_request_id r = i)"

interpretation im_requests: request_store InMemoryGrantRequestRepository dict_get im_requests_inv
  by unfold_locales
    (auto simp: request_repo_defs im_requests_inv_def dict_set_map split: if_splits option.splits)

definition sq_requests_inv :: "requests_table \<Rightarrow> bool" where
  "sq_requests_inv rows \<longleftrightarrow> distinct (map gr_request_id rows)"

abbreviation requests_dict :: "requests_table \<Rightarrow> requests_by_id" where
  "requests_dict \<equiv> by_key gr_request_id"

lemma with_decision_id [simp]: "gr_request_id (with_decision c r) = gr_request_id c"
  by (simp add: with_decision_def)

lemma sq_unique_row:
  assumes "sq_requests_inv rows" "find_first (\<lambda>row. gr_request_id row = i) rows = Some c"
    and "row \<in> set rows" "gr_request_id row = i"
  shows "row = c"
  using assms find_first_Some [OF assms(2)] by (auto simp: sq_requests_inv_def distinct_map inj_on_def)

lemma map_replace_ids:
  "(\<And>row. gr_request_id (f row) = gr_request_id row) \<Longrightarrow>
     map gr_request_id (map (\<lambda>row. if P row then f row else row) rows) = map gr_request_id rows"
  by simp

lemma map_update_ids:
  "map gr_request_id (map (\<lambda>row. if gr_request_id row = gr_request_id r then r else row) rows)
     = map gr_request_id rows"
  by simp

lemma sq_decide_pending:
  assumes inv: "sq_requests_inv rows"
    and c: "find_first (\<lambda>row. gr_request_id row = gr_request_id r) rows = Some c"
    and p: "gr_status c = ''pending''" and w: "with_decision c r = r"
  shows "sq_decide_request r rows
     = (True, map (\<lambda>row. if gr_request_id row = gr_request_id r then r else row) rows)"
proof -
  let ?hit = "\<lambda>row. gr_request_id row = gr_request_id r \<and> gr_status row = ''pending''"
  have cm: "c \<in> set rows" "gr_request_id c = gr_request_id r" using find_first_Some [OF c] by auto
  have uniq: "row = c" if "row \<in> set rows" "gr_request_id row = gr_request_id r" for row
    using sq_unique_row [OF inv c] that by blast
  have hit: "?hit row \<longleftrightarrow> row = c" if "row \<in> set rows" for row
    using uniq [OF that] cm(2) p by metis
  have d: "distinct rows" using inv by (simp add: sq_requests_inv_def distinct_map)
  have "filter ?hit rows = filter (\<lambda>row. row = c) rows" using hit by (intro filter_cong) auto
  also have "length \<dots> = 1"
    using d cm(1) by (simp add: distinct_length_filter)
  finally have one: "length (filter ?hit rows) = 1" .
  have "map (\<lambda>row. if ?hit row then with_decision row r else row) rows
      = map (\<lambda>row. if gr_request_id row = gr_request_id r then r else row) rows"
  proof (rule map_cong [OF refl])
    fix row assume m: "row \<in> set rows"
    show "(if ?hit row then with_decision row r else row) = (if gr_request_id row = gr_request_id r then r else row)"
    proof (cases "gr_request_id row = gr_request_id r")
      case True
      then have "row = c" by (rule uniq [OF m])
      with w p cm(2) show ?thesis by simp
    qed simp
  qed
  with one show ?thesis by (simp add: sq_decide_request_def Let_def)
qed

lemma sq_decide_lost:
  assumes inv: "sq_requests_inv rows"
    and l: "\<forall>c. find_first (\<lambda>row. gr_request_id row = gr_request_id r) rows = Some c \<longrightarrow> gr_status c \<noteq> ''pending''"
  shows "sq_decide_request r rows = (False, rows)"
proof -
  have no: "\<not> (gr_request_id row = gr_request_id r \<and> gr_status row = ''pending'')" if "row \<in> set rows" for row
  proof (cases "find_first (\<lambda>row. gr_request_id row = gr_request_id r) rows")
    case None
    with that show ?thesis by (auto simp: find_first_None_iff)
  next
    case (Some c)
    with that l sq_unique_row [OF inv Some that] show ?thesis by auto
  qed
  then have "filter (\<lambda>row. gr_request_id row = gr_request_id r \<and> gr_status row = ''pending'') rows = []"
    by (auto simp: filter_empty_conv)
  moreover have "map (\<lambda>row. if gr_request_id row = gr_request_id r \<and> gr_status row = ''pending''
      then with_decision row r else row) rows = rows"
    using no by (intro map_idI) auto
  ultimately show ?thesis by (simp add: sq_decide_request_def Let_def)
qed

interpretation sq_requests: request_store SQLiteGrantRequestRepository
  "\<lambda>rows. dict_get (requests_dict rows)" sq_requests_inv
proof unfold_locales
  fix rows and r :: GrantRequest assume inv: "sq_requests_inv rows" and k: "dict_get (requests_dict rows) (gr_request_id r) \<noteq> None"
  let ?rows' = "map (\<lambda>row. if gr_request_id row = gr_request_id r then r else row) rows"
  obtain c where c: "find_first (\<lambda>row. gr_request_id row = gr_request_id r) rows = Some c"
    using k by (auto simp: dict_get_by_key)
  have "dict_get (requests_dict ?rows') = (dict_get (requests_dict rows))(gr_request_id r \<mapsto> r)"
    using dict_set_by_key_update [of gr_request_id rows r c] inv c
    by (simp add: sq_requests_inv_def flip: dict_set_map)
  moreover have "sq_requests_inv ?rows'" using inv unfolding sq_requests_inv_def map_update_ids .
  ultimately show "\<exists>q'. rq_update_request SQLiteGrantRequestRepository r rows = (None, q')
      \<and> sq_requests_inv q' \<and> dict_get (requests_dict q') = (dict_get (requests_dict rows))(gr_request_id r \<mapsto> r)"
    using c by (simp add: SQLiteGrantRequestRepository_def sq_update_request_def sq_get_request_def)
next
  fix rows and r :: GrantRequest and c
  assume inv: "sq_requests_inv rows" and c: "dict_get (requests_dict rows) (gr_request_id r) = Some c"
    and p: "gr_status c = ''pending''" and w: "with_decision c r = r"
  let ?rows' = "map (\<lambda>row. if gr_request_id row = gr_request_id r then r else row) rows"
  have f: "find_first (\<lambda>row. gr_request_id row = gr_request_id r) rows = Some c"
    using c by (simp add: dict_get_by_key)
  have "dict_get (requests_dict ?rows') = (dict_get (requests_dict rows))(gr_request_id r \<mapsto> r)"
    using dict_set_by_key_update [of gr_request_id rows r c] inv f
    by (simp add: sq_requests_inv_def flip: dict_set_map)
  moreover have "sq_requests_inv ?rows'" using inv unfolding sq_requests_inv_def map_update_ids .
  ultimately show "\<exists>q'. rq_decide_request SQLiteGrantRequestRepository r rows = (True, q')
      \<and> sq_requests_inv q' \<and> dict_get (requests_dict q') = (dict_get (requests_dict rows))(gr_request_id r \<mapsto> r)"
    using sq_decide_pending [OF inv f p w] by (simp add: SQLiteGrantRequestRepository_def)
next
  fix rows and r :: GrantRequest
  assume "sq_requests_inv rows"
    and "\<forall>c. dict_get (requests_dict rows) (gr_request_id r) = Some c \<longrightarrow> gr_status c \<noteq> ''pending''"
  then show "rq_decide_request SQLiteGrantRequestRepository r rows = (False, rows)"
    using sq_decide_lost by (simp add: SQLiteGrantRequestRepository_def dict_get_by_key)
next
  fix rows and r :: GrantRequest and rows'
  assume inv: "sq_requests_inv rows" and i: "rq_insert_request SQLiteGrantRequestRepository r rows = (None, rows')"
  then have n: "find_first (\<lambda>row. gr_request_id row = gr_request_id r) rows = None" "rows' = rows @ [r]"
    by (auto simp: SQLiteGrantRequestRepository_def sq_insert_request_def sq_get_request_def split: if_splits)
  have "gr_request_id r \<notin> gr_request_id ` set rows" using n(1) by (auto simp: find_first_None_iff)
  then have "sq_requests_inv rows'" using inv n(2) by (simp add: sq_requests_inv_def)
  moreover have "dict_get (requests_dict rows) (gr_request_id r) = None" using n(1) by (simp add: dict_get_by_key)
  moreover have "dict_get (requests_dict rows') = (dict_get (requests_dict rows))(gr_request_id r \<mapsto> r)"
    using dict_set_by_key_fresh [of gr_request_id r rows] n by (simp flip: dict_set_map)
  ultimately show "sq_requests_inv rows' \<and> dict_get (requests_dict rows) (gr_request_id r) = None
      \<and> dict_get (requests_dict rows') = (dict_get (requests_dict rows))(gr_request_id r \<mapsto> r)" by blast
qed (auto simp: request_repo_defs dict_get_by_key dest: find_first_key split: if_splits)

end
