(* ===== verification/GrantRequests.thy ===== *)
theory GrantRequests
  imports Grants RequestRepo
begin

section \<open>Grant requests\<close>

text \<open>
  \<^verbatim>\<open>src/vinctor_service/grant_requests.py\<close>: creating a request for a grant and deciding it. A
  decision claims the request by compare-and-set before it issues anything, and releases the
  claim when the issuance is refused. The state is the triple of the request store, the grant
  store and the audit store. Tokens: \<open>rnd 0\<close> for the claimed reference or the request id,
  \<open>rnd 1\<close> to \<open>rnd 3\<close> for the issuance, \<open>rnd 4\<close> for the decision event.
\<close>

subsection \<open>The code\<close>

definition validate_create_request :: "GrantRequestCreateRequest \<Rightarrow> string option" where
  "validate_create_request request =
     (if gcq_workspace_id request = [] then Some ''invalid_workspace_id''
      else if gcq_requester_agent_id request = [] then Some ''invalid_requester_agent_id''
      else if gcq_target_agent_id request = Some [] then Some ''invalid_target_agent_id''
      else if gcq_requested_ttl_seconds request \<le> 0 then Some ''invalid_ttl''
      else if gcq_requested_scopes request = [] then Some ''missing_requested_scopes''
      else if \<exists>scope\<in>set (gcq_requested_scopes request). \<not> is_valid_grant_scope scope
      then Some ''invalid_requested_scope''
      else if gcq_reason request = [] then Some ''missing_reason''
      else None)"

definition request_lifecycle_event ::
  "string \<Rightarrow> Decision \<Rightarrow> string \<Rightarrow> GrantRequest \<Rightarrow> string \<Rightarrow> string \<Rightarrow> instant \<Rightarrow> entropy \<Rightarrow> AuditEvent" where
  "request_lifecycle_event event_type decision reason request action resource now rnd =
     \<lparr>ae_event_id = new_id ''evt'' (rnd 4),
      ae_event_type = event_type,
      ae_decision = decision,
      ae_reason = reason,
      ae_workspace_id = gr_workspace_id request,
      ae_agent_id = gr_requester_agent_id request,
      ae_grant_id = gr_request_id request,
      ae_grant_ref = gr_request_id request,
      ae_action = action,
      ae_resource = resource,
      ae_scope_attempted = join_with '','' (gr_requested_scopes request),
      ae_scope_matched = None,
      ae_boundary_id = gr_boundary_id request,
      ae_runtime = gr_requester_runtime request,
      ae_boundary_type = None,
      ae_created_at = now,
      ae_enforcing_principal = None, ae_reason_code = None, ae_occurrence_count = None,
      ae_first_seen_at = None, ae_last_seen_at = None, ae_subject_token_verified = False,
      ae_token_id = None, ae_event_class = ''decision''\<rparr>"

definition request_decision_event ::
  "string \<Rightarrow> string \<Rightarrow> GrantRequest \<Rightarrow> Grant \<Rightarrow> string \<Rightarrow> instant \<Rightarrow> entropy \<Rightarrow> AuditEvent" where
  "request_decision_event event_type reason request grant action now rnd =
     \<lparr>ae_event_id = new_id ''evt'' (rnd 4),
      ae_event_type = event_type,
      ae_decision = Permit,
      ae_reason = reason,
      ae_workspace_id = gr_workspace_id request,
      ae_agent_id = gr_target_agent_id request,
      ae_grant_id = g_grant_id grant,
      ae_grant_ref = g_grant_ref grant,
      ae_action = action,
      ae_resource = ''grant_request/'' @ gr_request_id request,
      ae_scope_attempted = join_with '','' (gr_requested_scopes request),
      ae_scope_matched = None,
      ae_boundary_id = gr_boundary_id request,
      ae_runtime = gr_requester_runtime request,
      ae_boundary_type = None,
      ae_created_at = now,
      ae_enforcing_principal = None, ae_reason_code = None, ae_occurrence_count = None,
      ae_first_seen_at = None, ae_last_seen_at = None, ae_subject_token_verified = False,
      ae_token_id = None, ae_event_class = ''decision''\<rparr>"

definition build_grant_request :: "GrantRequestCreateRequest \<Rightarrow> instant \<Rightarrow> entropy \<Rightarrow> GrantRequest" where
  "build_grant_request request now rnd =
     \<lparr>gr_request_id = py_or (gcq_request_id request) (new_id ''grq'' (rnd 0)),
      gr_workspace_id = gcq_workspace_id request,
      gr_requester_agent_id = gcq_requester_agent_id request,
      gr_target_agent_id = py_or (gcq_target_agent_id request) (gcq_requester_agent_id request),
      gr_requested_scopes = gcq_requested_scopes request,
      gr_requested_ttl_seconds = gcq_requested_ttl_seconds request,
      gr_reason = gcq_reason request,
      gr_status = ''pending'',
      gr_created_at = now,
      gr_decided_at = None, gr_decided_by = None, gr_decision_reason = None, gr_issued_grant_ref = None,
      gr_task_id = gcq_task_id request,
      gr_session_id = gcq_session_id request,
      gr_boundary_id = gcq_boundary_id request,
      gr_requester_runtime = gcq_requester_runtime request,
      gr_repo = gcq_repo request,
      gr_worktree = gcq_worktree request\<rparr>"

definition create_rejected :: "string \<Rightarrow> GrantRequestCreateResult" where
  "create_rejected reason =
     \<lparr>gcr_status = ''rejected'', gcr_reason = reason, gcr_request = None, gcr_audit_event_id = None\<rparr>"

definition create_grant_request ::
  "GrantRequestCreateRequest \<Rightarrow> 'q GrantRequestRepository \<Rightarrow> 's AuditWriter \<Rightarrow> instant \<Rightarrow> entropy \<Rightarrow> 'q \<times> 's
     \<Rightarrow> (exn + GrantRequestCreateResult) \<times> 'q \<times> 's" where
  "create_grant_request request request_repository audit_writer now rnd st =
     (case st of (q, s) \<Rightarrow>
        case validate_create_request request of
          Some invalid_reason \<Rightarrow> (Inr (create_rejected invalid_reason), q, s)
        | None \<Rightarrow>
            let grant_request = build_grant_request request now rnd
            in (case rq_insert_request request_repository grant_request q of
                  (Some (ValueError _), q') \<Rightarrow> (Inr (create_rejected ''duplicate_request_id''), q', s)
                | (Some e, q') \<Rightarrow> (Inl e, q', s)
                | (None, q') \<Rightarrow>
                    let audit_event = request_lifecycle_event ''grant_requested'' Permit ''grant_requested''
                          grant_request ''request_grant''
                          (''agent/'' @ gr_target_agent_id grant_request) now rnd
                    in (case aw_write audit_writer audit_event s of
                          (Some e, s') \<Rightarrow> (Inl e, q', s')
                        | (None, s') \<Rightarrow>
                            (Inr \<lparr>gcr_status = ''created'', gcr_reason = ''grant_requested'',
                                  gcr_request = Some grant_request,
                                  gcr_audit_event_id = Some (ae_event_id audit_event)\<rparr>, q', s'))))"

definition lookup_grant_request ::
  "string \<Rightarrow> string \<Rightarrow> 'q GrantRequestRepository \<Rightarrow> 'q \<Rightarrow> GrantRequest option" where
  "lookup_grant_request request_id workspace_id request_repository q =
     (case rq_get_request request_repository q request_id of
        None \<Rightarrow> None
      | Some request \<Rightarrow> if gr_workspace_id request \<noteq> workspace_id then None else Some request)"

definition get_pending_workspace_request ::
  "string \<Rightarrow> string \<Rightarrow> 'q GrantRequestRepository \<Rightarrow> 'q \<Rightarrow> GrantRequest option" where
  "get_pending_workspace_request request_id workspace_id request_repository q =
     (case lookup_grant_request request_id workspace_id request_repository q of
        None \<Rightarrow> None
      | Some grant_request \<Rightarrow> Some grant_request)"

definition list_grant_requests :: "string \<Rightarrow> 'q GrantRequestRepository \<Rightarrow> 'q \<Rightarrow> GrantRequest list" where
  "list_grant_requests workspace_id request_repository q =
     rq_list_requests_for_workspace request_repository q workspace_id"

definition decision_failed :: "string \<Rightarrow> GrantRequestDecisionResult" where
  "decision_failed reason =
     \<lparr>gdr_status = ''failed'', gdr_reason = reason, gdr_request = None, gdr_grant = None,
      gdr_audit_event_id = None, gdr_auto_approval_rule_id = None\<rparr>"

record decision_args =
  da_request_id :: string
  da_workspace_id :: string
  da_decided_by :: string
  da_decision_reason :: "string option"
  da_now :: instant
  da_audit_event_type :: string
  da_audit_reason :: string
  da_audit_action :: string

definition approval_args ::
  "string \<Rightarrow> string \<Rightarrow> string \<Rightarrow> string option \<Rightarrow> instant \<Rightarrow> decision_args" where
  "approval_args request_id workspace_id decided_by decision_reason now =
     \<lparr>da_request_id = request_id, da_workspace_id = workspace_id, da_decided_by = decided_by,
      da_decision_reason = decision_reason, da_now = now,
      da_audit_event_type = ''grant_request_approved'', da_audit_reason = ''grant_request_approved'',
      da_audit_action = ''approve_grant_request''\<rparr>"

definition claimed_request :: "decision_args \<Rightarrow> entropy \<Rightarrow> GrantRequest \<Rightarrow> GrantRequest" where
  "claimed_request a rnd grant_request =
     grant_request\<lparr>gr_status := ''approved'', gr_decided_at := Some (da_now a),
        gr_decided_by := Some (da_decided_by a), gr_decision_reason := da_decision_reason a,
        gr_issued_grant_ref := Some (new_id ''grt'' (rnd 0))\<rparr>"

definition approval_issue_request :: "GrantRequest \<Rightarrow> GrantRequest \<Rightarrow> GrantIssueRequest" where
  "approval_issue_request grant_request updated =
     \<lparr>giq_workspace_id = gr_workspace_id grant_request,
      giq_target_agent_id = gr_target_agent_id grant_request,
      giq_requested_scopes = gr_requested_scopes grant_request,
      giq_ttl_seconds = gr_requested_ttl_seconds grant_request,
      giq_grant_id = None,
      giq_grant_ref = gr_issued_grant_ref updated\<rparr>"

definition approve_grant_request ::
  "decision_args \<Rightarrow> 'q GrantRequestRepository \<Rightarrow> 'g GrantLifecycleRepository
     \<Rightarrow> (string \<Rightarrow> string \<Rightarrow> AgentIssuableBounds option) \<Rightarrow> 's AuditWriter \<Rightarrow> entropy \<Rightarrow> 'q \<times> 'g \<times> 's
     \<Rightarrow> (exn + GrantRequestDecisionResult) \<times> 'q \<times> 'g \<times> 's" where
  "approve_grant_request a request_repository grant_repository bounds_of audit_writer rnd st =
     (case st of (q, g, s) \<Rightarrow>
        case get_pending_workspace_request (da_request_id a) (da_workspace_id a) request_repository q of
          None \<Rightarrow> (Inr (decision_failed ''grant_request_not_found''), q, g, s)
        | Some grant_request \<Rightarrow>
            if gr_status grant_request \<noteq> ''pending''
            then (Inr (decision_failed ''grant_request_not_pending''), q, g, s)
            else
              let updated = claimed_request a rnd grant_request
              in case rq_decide_request request_repository updated q of
                   (False, q') \<Rightarrow> (Inr (decision_failed ''grant_request_not_pending''), q', g, s)
                 | (True, q') \<Rightarrow>
              (case issue_grant (approval_issue_request grant_request updated) grant_repository bounds_of
                      audit_writer (da_now a) (\<lambda>i. rnd (i + 1)) (g, s) of
                 (Inl e, g', s') \<Rightarrow> (Inl e, q', g', s')
               | (Inr issued, g', s') \<Rightarrow>
                   (case (if gir_status issued = ''rejected'' then None else gir_grant issued) of
                      None \<Rightarrow>
                        (case rq_update_request request_repository grant_request q' of
                           (Some e, q'') \<Rightarrow> (Inl e, q'', g', s')
                         | (None, q'') \<Rightarrow> (Inr (decision_failed (gir_reason issued)), q'', g', s'))
                    | Some grant \<Rightarrow>
                        let audit_event = request_decision_event (da_audit_event_type a) (da_audit_reason a)
                              updated grant (da_audit_action a) (da_now a) rnd
                        in (case aw_write audit_writer audit_event s' of
                              (Some e, s'') \<Rightarrow> (Inl e, q', g', s'')
                            | (None, s'') \<Rightarrow>
                                (Inr \<lparr>gdr_status = ''approved'', gdr_reason = da_audit_reason a,
                                      gdr_request = Some updated, gdr_grant = Some grant,
                                      gdr_audit_event_id = Some (ae_event_id audit_event),
                                      gdr_auto_approval_rule_id = None\<rparr>, q', g', s'')))))"

definition rejected_request :: "decision_args \<Rightarrow> GrantRequest \<Rightarrow> GrantRequest" where
  "rejected_request a grant_request =
     grant_request\<lparr>gr_status := ''rejected'', gr_decided_at := Some (da_now a),
        gr_decided_by := Some (da_decided_by a), gr_decision_reason := da_decision_reason a\<rparr>"

definition reject_grant_request ::
  "decision_args \<Rightarrow> 'q GrantRequestRepository \<Rightarrow> 's AuditWriter \<Rightarrow> entropy \<Rightarrow> 'q \<times> 's
     \<Rightarrow> (exn + GrantRequestDecisionResult) \<times> 'q \<times> 's" where
  "reject_grant_request a request_repository audit_writer rnd st =
     (case st of (q, s) \<Rightarrow>
        case get_pending_workspace_request (da_request_id a) (da_workspace_id a) request_repository q of
          None \<Rightarrow> (Inr (decision_failed ''grant_request_not_found''), q, s)
        | Some grant_request \<Rightarrow>
            if gr_status grant_request \<noteq> ''pending''
            then (Inr (decision_failed ''grant_request_not_pending''), q, s)
            else
              let updated = rejected_request a grant_request
              in case rq_decide_request request_repository updated q of
                   (False, q') \<Rightarrow> (Inr (decision_failed ''grant_request_not_pending''), q', s)
                 | (True, q') \<Rightarrow>
                     let audit_event = request_lifecycle_event ''grant_request_rejected'' Deny
                           ''grant_request_rejected'' updated ''reject_grant_request''
                           (''grant_request/'' @ gr_request_id updated) (da_now a) rnd
                     in (case aw_write audit_writer audit_event s of
                           (Some e, s') \<Rightarrow> (Inl e, q', s')
                         | (None, s') \<Rightarrow>
                             (Inr \<lparr>gdr_status = ''rejected'', gdr_reason = ''grant_request_rejected'',
                                   gdr_request = Some updated, gdr_grant = None,
                                   gdr_audit_event_id = Some (ae_event_id audit_event),
                                   gdr_auto_approval_rule_id = None\<rparr>, q', s')))"

subsection \<open>Deciders as interleaved steps\<close>

text \<open>
  Several operators may decide one request at the same time. Each store operation is atomic
  (the in-memory compare-and-set holds its lock, a SQLite statement is one transaction), and
  the deciders interleave between them. \<open>approver_step\<close> and \<open>rejecter_step\<close> cut the two functions
  above at their store operations; run without interruption they compute the functions.
\<close>

datatype decider_pc =
    D_start
  | D_seen GrantRequest
  | D_claimed GrantRequest GrantRequest
  | D_release GrantRequest string
  | D_issued GrantRequest Grant
  | D_rejected GrantRequest
  | D_done "exn + GrantRequestDecisionResult"

fun approver_step ::
  "decision_args \<Rightarrow> 'q GrantRequestRepository \<Rightarrow> 'g GrantLifecycleRepository
     \<Rightarrow> (string \<Rightarrow> string \<Rightarrow> AgentIssuableBounds option) \<Rightarrow> 's AuditWriter \<Rightarrow> entropy
     \<Rightarrow> decider_pc \<times> 'q \<times> 'g \<times> 's \<Rightarrow> decider_pc \<times> 'q \<times> 'g \<times> 's" where
  "approver_step a rrepo grepo bounds_of writer rnd (D_start, q, g, s) =
     (case get_pending_workspace_request (da_request_id a) (da_workspace_id a) rrepo q of
        None \<Rightarrow> (D_done (Inr (decision_failed ''grant_request_not_found'')), q, g, s)
      | Some r \<Rightarrow>
          if gr_status r \<noteq> ''pending''
          then (D_done (Inr (decision_failed ''grant_request_not_pending'')), q, g, s)
          else (D_seen r, q, g, s))"
| "approver_step a rrepo grepo bounds_of writer rnd (D_seen r, q, g, s) =
     (case rq_decide_request rrepo (claimed_request a rnd r) q of
        (False, q') \<Rightarrow> (D_done (Inr (decision_failed ''grant_request_not_pending'')), q', g, s)
      | (True, q') \<Rightarrow> (D_claimed r (claimed_request a rnd r), q', g, s))"
| "approver_step a rrepo grepo bounds_of writer rnd (D_claimed r u, q, g, s) =
     (case issue_grant (approval_issue_request r u) grepo bounds_of writer (da_now a) (\<lambda>i. rnd (i + 1)) (g, s) of
        (Inl e, g', s') \<Rightarrow> (D_done (Inl e), q, g', s')
      | (Inr issued, g', s') \<Rightarrow>
          (case (if gir_status issued = ''rejected'' then None else gir_grant issued) of
             None \<Rightarrow> (D_release r (gir_reason issued), q, g', s')
           | Some grant \<Rightarrow> (D_issued u grant, q, g', s')))"
| "approver_step a rrepo grepo bounds_of writer rnd (D_release r reason, q, g, s) =
     (case rq_update_request rrepo r q of
        (Some e, q') \<Rightarrow> (D_done (Inl e), q', g, s)
      | (None, q') \<Rightarrow> (D_done (Inr (decision_failed reason)), q', g, s))"
| "approver_step a rrepo grepo bounds_of writer rnd (D_issued u grant, q, g, s) =
     (let e = request_decision_event (da_audit_event_type a) (da_audit_reason a) u grant
                (da_audit_action a) (da_now a) rnd
      in case aw_write writer e s of
           (Some x, s') \<Rightarrow> (D_done (Inl x), q, g, s')
         | (None, s') \<Rightarrow>
             (D_done (Inr \<lparr>gdr_status = ''approved'', gdr_reason = da_audit_reason a, gdr_request = Some u,
                gdr_grant = Some grant, gdr_audit_event_id = Some (ae_event_id e),
                gdr_auto_approval_rule_id = None\<rparr>), q, g, s'))"
| "approver_step a rrepo grepo bounds_of writer rnd (D_rejected u, st) = (D_rejected u, st)"
| "approver_step a rrepo grepo bounds_of writer rnd (D_done res, st) = (D_done res, st)"

fun rejecter_step ::
  "decision_args \<Rightarrow> 'q GrantRequestRepository \<Rightarrow> 's AuditWriter \<Rightarrow> entropy
     \<Rightarrow> decider_pc \<times> 'q \<times> 'g \<times> 's \<Rightarrow> decider_pc \<times> 'q \<times> 'g \<times> 's" where
  "rejecter_step a rrepo writer rnd (D_start, q, g, s) =
     (case get_pending_workspace_request (da_request_id a) (da_workspace_id a) rrepo q of
        None \<Rightarrow> (D_done (Inr (decision_failed ''grant_request_not_found'')), q, g, s)
      | Some r \<Rightarrow>
          if gr_status r \<noteq> ''pending''
          then (D_done (Inr (decision_failed ''grant_request_not_pending'')), q, g, s)
          else (D_seen r, q, g, s))"
| "rejecter_step a rrepo writer rnd (D_seen r, q, g, s) =
     (case rq_decide_request rrepo (rejected_request a r) q of
        (False, q') \<Rightarrow> (D_done (Inr (decision_failed ''grant_request_not_pending'')), q', g, s)
      | (True, q') \<Rightarrow> (D_rejected (rejected_request a r), q', g, s))"
| "rejecter_step a rrepo writer rnd (D_rejected u, q, g, s) =
     (let e = request_lifecycle_event ''grant_request_rejected'' Deny ''grant_request_rejected'' u
                ''reject_grant_request'' (''grant_request/'' @ gr_request_id u) (da_now a) rnd
      in case aw_write writer e s of
           (Some x, s') \<Rightarrow> (D_done (Inl x), q, g, s')
         | (None, s') \<Rightarrow>
             (D_done (Inr \<lparr>gdr_status = ''rejected'', gdr_reason = ''grant_request_rejected'',
                gdr_request = Some u, gdr_grant = None, gdr_audit_event_id = Some (ae_event_id e),
                gdr_auto_approval_rule_id = None\<rparr>), q, g, s'))"
| "rejecter_step a rrepo writer rnd (pc, st) = (pc, st)"

lemma approver_steps_compute:
  "(approver_step a rrepo grepo bounds_of writer rnd ^^ 5) (D_start, st)
     = (case approve_grant_request a rrepo grepo bounds_of writer rnd st of (res, st') \<Rightarrow> (D_done res, st'))"
  by (cases st)
    (auto simp: approve_grant_request_def Let_def numeral_eq_Suc
      split: option.splits sum.splits prod.splits bool.splits if_splits)

lemma rejecter_steps_compute:
  "(rejecter_step a rrepo writer rnd ^^ 3) (D_start, q, g, s)
     = (case reject_grant_request a rrepo writer rnd (q, s) of (res, q', s') \<Rightarrow> (D_done res, q', g, s'))"
  by (auto simp: reject_grant_request_def Let_def numeral_eq_Suc
      split: option.splits prod.splits bool.splits if_splits)

record decider =
  dc_approves :: bool
  dc_args :: decision_args
  dc_rnd :: entropy

definition decider_step ::
  "'q GrantRequestRepository \<Rightarrow> 'g GrantLifecycleRepository
     \<Rightarrow> (string \<Rightarrow> string \<Rightarrow> AgentIssuableBounds option) \<Rightarrow> 's AuditWriter \<Rightarrow> decider
     \<Rightarrow> decider_pc \<times> 'q \<times> 'g \<times> 's \<Rightarrow> decider_pc \<times> 'q \<times> 'g \<times> 's" where
  "decider_step rrepo grepo bounds_of writer d =
     (if dc_approves d then approver_step (dc_args d) rrepo grepo bounds_of writer (dc_rnd d)
      else rejecter_step (dc_args d) rrepo writer (dc_rnd d))"

inductive race ::
  "'q GrantRequestRepository \<Rightarrow> 'g GrantLifecycleRepository
     \<Rightarrow> (string \<Rightarrow> string \<Rightarrow> AgentIssuableBounds option) \<Rightarrow> 's AuditWriter \<Rightarrow> (nat \<Rightarrow> decider)
     \<Rightarrow> 'q \<times> 'g \<times> 's \<Rightarrow> (nat \<Rightarrow> decider_pc) \<Rightarrow> 'q \<times> 'g \<times> 's \<Rightarrow> bool"
  for rrepo grepo bounds_of writer ds st0 where
  race_start: "race rrepo grepo bounds_of writer ds st0 (\<lambda>_. D_start) st0"
| race_step: "race rrepo grepo bounds_of writer ds st0 pcs st \<Longrightarrow>
     decider_step rrepo grepo bounds_of writer (ds i) (pcs i, st) = (pc', st') \<Longrightarrow>
     race rrepo grepo bounds_of writer ds st0 (pcs(i := pc')) st'"

subsection \<open>One decision per request\<close>

text \<open>A decider holds a request from its claim on, unless it releases the claim.\<close>

fun holding :: "decider_pc \<Rightarrow> bool" where
  "holding D_start = False"
| "holding (D_seen r) = False"
| "holding (D_claimed r u) = True"
| "holding (D_release r reason) = True"
| "holding (D_issued u x) = True"
| "holding (D_rejected u) = True"
| "holding (D_done (Inl e)) = True"
| "holding (D_done (Inr res)) = (gdr_status res \<noteq> ''failed'')"

definition seen_ok :: "(string \<Rightarrow> GrantRequest option) \<Rightarrow> string \<Rightarrow> GrantRequest \<Rightarrow> bool" where
  "seen_ok m i r \<longleftrightarrow> gr_status r = ''pending'' \<and> gr_request_id r = i \<and> (\<exists>c. m i = Some c \<and> with_decision c r = r)"

definition stored_decided :: "(string \<Rightarrow> GrantRequest option) \<Rightarrow> string \<Rightarrow> bool" where
  "stored_decided m i \<longleftrightarrow> (\<exists>c. m i = Some c \<and> gr_status c \<noteq> ''pending'')"

text \<open>An approved result names the grant that the stored request names.\<close>

definition approved_ok :: "(string \<Rightarrow> GrantRequest option) \<Rightarrow> string \<Rightarrow> GrantRequest \<Rightarrow> Grant \<Rightarrow> bool" where
  "approved_ok m i u x \<longleftrightarrow>
     m i = Some u \<and> gr_status u = ''approved'' \<and> gr_issued_grant_ref u = Some (g_grant_ref x)"

definition result_ok :: "(string \<Rightarrow> GrantRequest option) \<Rightarrow> string \<Rightarrow> GrantRequestDecisionResult \<Rightarrow> bool" where
  "result_ok m i res \<longleftrightarrow>
     gdr_status res = ''failed''
     \<or> (gdr_status res = ''approved''
        \<and> (\<exists>u x. gdr_request res = Some u \<and> gdr_grant res = Some x \<and> approved_ok m i u x))
     \<or> (gdr_status res = ''rejected''
        \<and> (\<exists>u. gdr_request res = Some u \<and> m i = Some u \<and> gr_status u = ''rejected''))"

fun pc_ok :: "(string \<Rightarrow> GrantRequest option) \<Rightarrow> decider \<Rightarrow> decider_pc \<Rightarrow> bool" where
  "pc_ok m d D_start = True"
| "pc_ok m d (D_seen r) = seen_ok m (da_request_id (dc_args d)) r"
| "pc_ok m d (D_claimed r u) =
     (seen_ok m (da_request_id (dc_args d)) r \<and> u = claimed_request (dc_args d) (dc_rnd d) r
      \<and> m (da_request_id (dc_args d)) = Some u)"
| "pc_ok m d (D_release r reason) =
     (seen_ok m (da_request_id (dc_args d)) r \<and> stored_decided m (da_request_id (dc_args d)))"
| "pc_ok m d (D_issued u x) = approved_ok m (da_request_id (dc_args d)) u x"
| "pc_ok m d (D_rejected u) = (m (da_request_id (dc_args d)) = Some u \<and> gr_status u = ''rejected'')"
| "pc_ok m d (D_done (Inl e)) = stored_decided m (da_request_id (dc_args d))"
| "pc_ok m d (D_done (Inr res)) = result_ok m (da_request_id (dc_args d)) res"

lemma holding_stored_decided:
  "pc_ok m d pc \<Longrightarrow> holding pc \<Longrightarrow> stored_decided m (da_request_id (dc_args d))"
  by (cases "(m, d, pc)" rule: pc_ok.cases)
    (auto simp: stored_decided_def approved_ok_def result_ok_def claimed_request_def)

lemma with_decision_twice [simp]: "with_decision (with_decision c y) r = with_decision c r"
  by (simp add: with_decision_def)

lemma seen_ok_update:
  assumes "seen_ok m i r" "m k = Some c" "with_decision c c' = c'"
  shows "seen_ok (m(k \<mapsto> c')) i r"
proof (cases "i = k")
  case True
  then have "with_decision c' r = r"
    using assms with_decision_twice [of c c' r] by (auto simp: seen_ok_def)
  with True assms(1) show ?thesis by (auto simp: seen_ok_def)
next
  case False
  with assms(1) show ?thesis by (auto simp: seen_ok_def)
qed

text \<open>A write to a request leaves alone every decider that does not hold that request.\<close>

lemma pc_ok_update:
  assumes "pc_ok m d pc" "m k = Some c" "with_decision c c' = c'"
    and "\<not> (holding pc \<and> da_request_id (dc_args d) = k)"
  shows "pc_ok (m(k \<mapsto> c')) d pc"
  using assms seen_ok_update
  by (cases "(m, d, pc)" rule: pc_ok.cases)
    (auto simp: stored_decided_def approved_ok_def result_ok_def)

lemma claimed_request_decision:
  "with_decision c r = r \<Longrightarrow> with_decision c (claimed_request a rnd r) = claimed_request a rnd r"
  "with_decision c r = r \<Longrightarrow> with_decision c (rejected_request a r) = rejected_request a r"
  "gr_request_id (claimed_request a rnd r) = gr_request_id r"
  "gr_request_id (rejected_request a r) = gr_request_id r"
  by (cases c; cases r; simp add: with_decision_def claimed_request_def rejected_request_def)+

lemma issue_grant_result:
  assumes "issue_grant request repo bounds_of writer now rnd (g, s) = (Inr issued, g', s')"
    and "gir_status issued \<noteq> ''rejected''" and "gir_grant issued = Some x"
  shows "x = build_issued_grant request now rnd"
proof (cases "issuable_within bounds_of request")
  case True
  have "insert_issued_grant request repo writer now rnd (g, s) = (Inr issued, g', s')"
    using assms(1) issue_grant_within [OF True] by metis
  with assms(2,3) show ?thesis
    by (auto simp: insert_issued_grant_def issue_rejected_def Let_def
        split: prod.splits option.splits exn.splits)
next
  case False
  with assms issue_grant_outside [OF False, of repo writer now rnd g s] show ?thesis
    by (auto simp: issue_rejected_def)
qed

lemma approval_grant_ref:
  assumes "gr_issued_grant_ref u = Some (new_id ''grt'' t)"
  shows "g_grant_ref (build_issued_grant (approval_issue_request r u) now rnd) = new_id ''grt'' t"
  using assms by (simp add: build_issued_grant_def approval_issue_request_def new_id_def)

locale deciding = request_store rrepo requests rinv
  for rrepo :: "'q GrantRequestRepository" and requests and rinv
begin

text \<open>One step: what it makes of its own decider, and that it writes only under a claim.\<close>

definition step_ok :: "decider \<Rightarrow> decider_pc \<Rightarrow> 'q \<Rightarrow> decider_pc \<Rightarrow> 'q \<Rightarrow> bool" where
  "step_ok d pc q pc' q' \<longleftrightarrow>
     rinv q' \<and> pc_ok (requests q') d pc'
     \<and> (requests q' = requests q \<and> (holding pc' \<longrightarrow> holding pc)
        \<or> (\<exists>c c'. requests q (da_request_id (dc_args d)) = Some c \<and> with_decision c c' = c'
              \<and> requests q' = (requests q)(da_request_id (dc_args d) \<mapsto> c')
              \<and> (holding pc \<or> gr_status c = ''pending'')))"

lemma start_step_ok:
  assumes "rinv q" "get_pending_workspace_request (da_request_id (dc_args d)) w rrepo q = Some r"
    "gr_status r = ''pending''"
  shows "step_ok d D_start q (D_seen r) q"
proof -
  have "requests q (da_request_id (dc_args d)) = Some r"
    using assms(2) get_request
    by (auto simp: get_pending_workspace_request_def lookup_grant_request_def split: option.splits if_splits)
  moreover have "with_decision r r = r" by (simp add: with_decision_def)
  ultimately show ?thesis
    using assms own_id by (auto simp: step_ok_def seen_ok_def)
qed

lemma failed_step_ok: "rinv q \<Longrightarrow> step_ok d pc q (D_done (Inr (decision_failed reason))) q"
  by (simp add: step_ok_def result_ok_def decision_failed_def)

lemma decide_step_ok:
  assumes inv: "rinv q" and seen: "seen_ok (requests q) (da_request_id (dc_args d)) r"
    and u: "gr_request_id u = gr_request_id r" "\<And>c. with_decision c r = r \<Longrightarrow> with_decision c u = u"
    and dec: "rq_decide_request rrepo u q = (b, q')"
    and ok: "\<And>m. seen_ok m (da_request_id (dc_args d)) r \<Longrightarrow> m (da_request_id (dc_args d)) = Some u \<Longrightarrow> pc_ok m d pc'"
  shows "if b then step_ok d (D_seen r) q pc' q' else q' = q"
proof -
  let ?i = "da_request_id (dc_args d)"
  obtain c where c: "requests q ?i = Some c" "with_decision c r = r" "gr_request_id r = ?i"
    using seen by (auto simp: seen_ok_def)
  show ?thesis
  proof (cases "gr_status c = ''pending''")
    case True
    obtain q1 where q1: "rq_decide_request rrepo u q = (True, q1)" "rinv q1"
        "requests q1 = (requests q)(?i \<mapsto> u)"
      using decide_pending [OF inv, of u c] c u True by auto
    have "pc_ok (requests q1) d pc'"
      using ok seen_ok_update [OF seen c(1) u(2) [OF c(2)]] q1(3) by simp
    with q1 dec c u(2) [OF c(2)] True show ?thesis by (auto simp: step_ok_def)
  next
    case False
    then have "rq_decide_request rrepo u q = (False, q)"
      using decide_lost [OF inv, of u] c u by auto
    with dec show ?thesis by simp
  qed
qed

lemma release_step_ok:
  assumes inv: "rinv q" and seen: "seen_ok (requests q) (da_request_id (dc_args d)) r"
    and upd: "rq_update_request rrepo r q = (e, q')"
  shows "e = None \<and> step_ok d (D_release r reason) q (D_done (Inr (decision_failed x))) q'"
proof -
  let ?i = "da_request_id (dc_args d)"
  obtain c where c: "requests q ?i = Some c" "with_decision c r = r" "gr_request_id r = ?i"
    using seen by (auto simp: seen_ok_def)
  obtain q1 where "rq_update_request rrepo r q = (None, q1)" "rinv q1" "requests q1 = (requests q)(?i \<mapsto> r)"
    using update_known [OF inv, of r] c by auto
  with upd c show ?thesis by (auto simp: step_ok_def result_ok_def decision_failed_def)
qed

lemma claimed_step_ok:
  assumes inv: "rinv q" and ok: "pc_ok (requests q) d (D_claimed r u)"
    and i: "issue_grant (approval_issue_request r u) grepo bounds_of writer now rnd (g, s) = (res, g', s')"
  shows "case res of
      Inl e \<Rightarrow> step_ok d (D_claimed r u) q (D_done (Inl e)) q
    | Inr issued \<Rightarrow>
        (case (if gir_status issued = ''rejected'' then None else gir_grant issued) of
           None \<Rightarrow> step_ok d (D_claimed r u) q (D_release r reason) q
         | Some x \<Rightarrow> step_ok d (D_claimed r u) q (D_issued u x) q)"
proof -
  have dec: "stored_decided (requests q) (da_request_id (dc_args d))"
    using holding_stored_decided [OF ok] by simp
  have u: "u = claimed_request (dc_args d) (dc_rnd d) r" using ok by simp
  have "g_grant_ref x = new_id ''grt'' (dc_rnd d 0)"
    if "res = Inr issued" "gir_status issued \<noteq> ''rejected''" "gir_grant issued = Some x" for issued x
  proof -
    have "x = build_issued_grant (approval_issue_request r u) now rnd"
      by (rule issue_grant_result [OF i [unfolded that(1)] that(2,3)])
    then show ?thesis using approval_grant_ref u by (simp add: claimed_request_def)
  qed
  with dec ok inv u show ?thesis
    by (auto simp: step_ok_def approved_ok_def claimed_request_def split: sum.splits option.splits)
qed

lemma approver_step_ok:
  assumes inv: "rinv q" and ok: "pc_ok (requests q) d pc"
    and st: "approver_step (dc_args d) rrepo grepo bounds_of writer (dc_rnd d) (pc, q, g, s) = (pc', q', g', s')"
  shows "step_ok d pc q pc' q'"
proof (cases pc)
  case D_start
  with st inv start_step_ok [OF inv, of d "da_workspace_id (dc_args d)"] failed_step_ok show ?thesis
    by (auto split: option.splits if_splits)
next
  case (D_seen r)
  let ?u = "claimed_request (dc_args d) (dc_rnd d) r"
  obtain b q1 where b: "rq_decide_request rrepo ?u q = (b, q1)" by (metis surj_pair)
  have "if b then step_ok d (D_seen r) q (D_claimed r ?u) q1 else q1 = q"
    by (rule decide_step_ok [OF inv _ _ _ b]) (use ok D_seen claimed_request_decision in auto)
  with st b D_seen inv failed_step_ok show ?thesis by (auto split: bool.splits)
next
  case (D_claimed r u)
  obtain res g1 s1 where i: "issue_grant (approval_issue_request r u) grepo bounds_of writer
      (da_now (dc_args d)) (\<lambda>i. dc_rnd d (i + 1)) (g, s) = (res, g1, s1)" by (metis surj_pair)
  from claimed_step_ok [OF inv ok [unfolded D_claimed] i] st i D_claimed show ?thesis
    by (auto split: sum.splits option.splits if_splits)
next
  case (D_release r reason)
  obtain e q1 where e: "rq_update_request rrepo r q = (e, q1)" by (metis surj_pair)
  have "seen_ok (requests q) (da_request_id (dc_args d)) r" using ok D_release by simp
  from release_step_ok [OF inv this e] st e D_release show ?thesis by auto
next
  case (D_issued u x)
  with st inv ok holding_stored_decided [OF ok] show ?thesis
    by (auto simp: step_ok_def result_ok_def Let_def split: prod.splits option.splits)
qed (use st inv ok in \<open>auto simp: step_ok_def\<close>)

lemma rejecter_step_ok:
  assumes inv: "rinv q" and ok: "pc_ok (requests q) d pc"
    and st: "rejecter_step (dc_args d) rrepo writer (dc_rnd d) (pc, q, g, s) = (pc', q', g', s')"
  shows "step_ok d pc q pc' q'"
proof (cases pc)
  case D_start
  with st inv start_step_ok [OF inv, of d "da_workspace_id (dc_args d)"] failed_step_ok show ?thesis
    by (auto split: option.splits if_splits)
next
  case (D_seen r)
  let ?u = "rejected_request (dc_args d) r"
  obtain b q1 where b: "rq_decide_request rrepo ?u q = (b, q1)" by (metis surj_pair)
  have "if b then step_ok d (D_seen r) q (D_rejected ?u) q1 else q1 = q"
    by (rule decide_step_ok [OF inv _ _ _ b])
      (use ok D_seen claimed_request_decision in \<open>auto simp: rejected_request_def\<close>)
  with st b D_seen inv failed_step_ok show ?thesis by (auto split: bool.splits)
next
  case (D_rejected u)
  with st inv ok holding_stored_decided [OF ok] show ?thesis
    by (auto simp: step_ok_def result_ok_def Let_def split: prod.splits option.splits)
qed (use st inv ok in \<open>auto simp: step_ok_def\<close>)

lemma decider_step_ok:
  assumes "rinv q" "pc_ok (requests q) d pc"
    and "decider_step rrepo grepo bounds_of writer d (pc, q, g, s) = (pc', q', g', s')"
  shows "step_ok d pc q pc' q'"
  using assms approver_step_ok rejecter_step_ok
  by (auto simp: decider_step_def split: if_splits)

definition race_inv :: "(nat \<Rightarrow> decider) \<Rightarrow> (nat \<Rightarrow> decider_pc) \<Rightarrow> 'q \<Rightarrow> bool" where
  "race_inv ds pcs q \<longleftrightarrow>
     rinv q \<and> (\<forall>i. pc_ok (requests q) (ds i) (pcs i))
     \<and> (\<forall>i j. da_request_id (dc_args (ds i)) = da_request_id (dc_args (ds j))
           \<and> holding (pcs i) \<and> holding (pcs j) \<longrightarrow> i = j)"

lemma race_inv_step:
  assumes J: "race_inv ds pcs q" and ok: "step_ok (ds i) (pcs i) q pc' q'"
  shows "race_inv ds (pcs(i := pc')) q'"
proof -
  let ?k = "da_request_id (dc_args (ds i))"
  have inv: "rinv q'" and own: "pc_ok (requests q') (ds i) pc'" using ok by (auto simp: step_ok_def)
  from ok consider (same) "requests q' = requests q" "holding pc' \<longrightarrow> holding (pcs i)"
    | (wrote) c c' where "requests q ?k = Some c" "with_decision c c' = c'"
        "requests q' = (requests q)(?k \<mapsto> c')" "holding (pcs i) \<or> gr_status c = ''pending''"
    unfolding step_ok_def by blast
  then show ?thesis
  proof cases
    case same
    with J inv own show ?thesis by (auto simp: race_inv_def)
  next
    case wrote
    have none: "\<not> (holding (pcs j) \<and> da_request_id (dc_args (ds j)) = ?k)" if "j \<noteq> i" for j
    proof
      assume j: "holding (pcs j) \<and> da_request_id (dc_args (ds j)) = ?k"
      then have "stored_decided (requests q) ?k"
        using J holding_stored_decided [of "requests q" "ds j" "pcs j"] by (auto simp: race_inv_def)
      then have "holding (pcs i)" using wrote(1,4) by (auto simp: stored_decided_def)
      with j J that show False unfolding race_inv_def by blast
    qed
    have "pc_ok (requests q') (ds j) (pcs j)" if "j \<noteq> i" for j
      using J pc_ok_update [of "requests q" "ds j" "pcs j" ?k c c'] wrote(1-3) none [OF that]
      by (simp add: race_inv_def)
    moreover have "a = b"
      if "da_request_id (dc_args (ds a)) = da_request_id (dc_args (ds b))"
        "holding ((pcs(i := pc')) a)" "holding ((pcs(i := pc')) b)" for a b
      using that none [of a] none [of b] J unfolding race_inv_def by (metis fun_upd_apply)
    ultimately show ?thesis using inv own unfolding race_inv_def by (metis fun_upd_apply)
  qed
qed

lemma race_invariant:
  assumes "race rrepo grepo bounds_of writer ds st0 pcs st" and "rinv (fst st0)"
  shows "race_inv ds pcs (fst st)"
  using assms
proof (induction rule: race.induct)
  case race_start
  then show ?case by (simp add: race_inv_def)
next
  case (race_step pcs st i pc' st')
  obtain q g s where st: "st = (q, g, s)" by (metis surj_pair)
  obtain q' g' s' where st': "st' = (q', g', s')" by (metis surj_pair)
  have J: "race_inv ds pcs q" using race_step st by simp
  then have "step_ok (ds i) (pcs i) q pc' q'"
    using decider_step_ok [of q "ds i" "pcs i" grepo bounds_of writer g s pc' q' g' s']
      race_step.hyps(2) unfolding st st' race_inv_def by simp
  then show ?case unfolding st' fst_conv by (rule race_inv_step [OF J])
qed

end

interpretation im_deciding: deciding InMemoryGrantRequestRepository dict_get im_requests_inv
  by unfold_locales

interpretation sq_deciding: deciding SQLiteGrantRequestRepository
  "\<lambda>rows. dict_get (requests_dict rows)" sq_requests_inv
  by unfold_locales

text \<open>
  (C6) However the store operations of any number of concurrent approvals and rejections
  interleave, a request is decided at most once: of all the deciders of one request, at most
  one reports an approval or a rejection, and what it reports is what the store holds. An
  approval names the grant whose reference the stored request carries. A decider that claims
  the request and then fails to issue a grant gives the request back as pending.
\<close>

theorem concurrent_deciders_decide_once:
  assumes run: "race InMemoryGrantRequestRepository grepo bounds_of writer ds st0 pcs st"
    and inv: "im_requests_inv (fst st0)"
    and i: "pcs i = D_done (Inr ri)" "gdr_status ri \<noteq> ''failed''"
  shows "result_ok (dict_get (fst st)) (da_request_id (dc_args (ds i))) ri
     \<and> (\<forall>j rj. j \<noteq> i \<longrightarrow> da_request_id (dc_args (ds j)) = da_request_id (dc_args (ds i)) \<longrightarrow>
           pcs j = D_done (Inr rj) \<longrightarrow> gdr_status rj = ''failed'')"
proof -
  have J: "im_deciding.race_inv ds pcs (fst st)" using im_deciding.race_invariant [OF run inv] .
  have "pc_ok (dict_get (fst st)) (ds i) (pcs i)" using J by (simp add: im_deciding.race_inv_def)
  then have "result_ok (dict_get (fst st)) (da_request_id (dc_args (ds i))) ri" using i by simp
  moreover have "gdr_status rj = ''failed''"
    if "j \<noteq> i" "da_request_id (dc_args (ds j)) = da_request_id (dc_args (ds i))" "pcs j = D_done (Inr rj)" for j rj
  proof (rule ccontr)
    assume "gdr_status rj \<noteq> ''failed''"
    then have "holding (pcs i)" "holding (pcs j)" using that i by simp_all
    with that J show False unfolding im_deciding.race_inv_def by blast
  qed
  ultimately show ?thesis by blast
qed

definition example_request :: GrantRequest where
  "example_request = build_grant_request
     \<lparr>gcq_workspace_id = ''ws'', gcq_requester_agent_id = ''agent'',
      gcq_requested_scopes = [''write:repo/feature/a''], gcq_requested_ttl_seconds = 600,
      gcq_reason = ''fix'', gcq_target_agent_id = None, gcq_request_id = Some ''grq_1'', gcq_task_id = None,
      gcq_session_id = None, gcq_boundary_id = None, gcq_requester_runtime = None, gcq_repo = None,
      gcq_worktree = None\<rparr> 0 (\<lambda>_. ''r'')"

definition example_rejecter :: decider where
  "example_rejecter =
     \<lparr>dc_approves = False, dc_args = approval_args ''grq_1'' ''ws'' ''op'' None 5, dc_rnd = \<lambda>_. ''e''\<rparr>"

lemma race_run:
  assumes "race rrepo grepo bounds_of writer ds st0 pcs st"
    and "(decider_step rrepo grepo bounds_of writer (ds i) ^^ n) (pcs i, st) = (pc', st')"
  shows "race rrepo grepo bounds_of writer ds st0 (pcs(i := pc')) st'"
  using assms(2)
proof (induction n arbitrary: pc' st')
  case 0
  with assms(1) show ?case by (simp add: fun_upd_idem)
next
  case (Suc n)
  obtain pc1 st1 where m: "(decider_step rrepo grepo bounds_of writer (ds i) ^^ n) (pcs i, st) = (pc1, st1)"
    by (metis surj_pair)
  have "decider_step rrepo grepo bounds_of writer (ds i) ((pcs(i := pc1)) i, st1) = (pc', st')"
    using Suc.prems m by simp
  from race_step [OF Suc.IH [OF m] this] show ?case by (simp only: fun_upd_upd)
qed

theorem concurrent_deciders_decide_once_witness:
  "\<exists>pcs st ri. race InMemoryGrantRequestRepository InMemoryGrantRepository example_bounds InMemoryAuditWriter
       (\<lambda>_. example_rejecter) ([(''grq_1'', example_request)], [], []) pcs st
     \<and> pcs 0 = D_done (Inr ri) \<and> gdr_status ri = ''rejected''
     \<and> result_ok (dict_get (fst st)) ''grq_1'' ri"
proof -
  let ?st0 = "([(''grq_1'', example_request)], [], []) :: requests_by_id \<times> grants_by_ref \<times> AuditEvent list"
  let ?step = "decider_step InMemoryGrantRequestRepository InMemoryGrantRepository example_bounds
      InMemoryAuditWriter example_rejecter"
  have ids: "gr_request_id example_request = ''grq_1''" "gr_workspace_id example_request = ''ws''"
      "gr_status example_request = ''pending''"
    by (simp_all add: example_request_def build_grant_request_def)
  obtain ri st where r: "(?step ^^ 3) (D_start, ?st0) = (D_done (Inr ri), st)" "gdr_status ri = ''rejected''"
    using ids
    by (auto simp: numeral_eq_Suc decider_step_def example_rejecter_def approval_args_def
        get_pending_workspace_request_def lookup_grant_request_def request_repo_defs rejected_request_def
        InMemoryAuditWriter_def InMemoryAuditWriter_write_def Let_def)
  have run: "race InMemoryGrantRequestRepository InMemoryGrantRepository example_bounds InMemoryAuditWriter
       (\<lambda>_. example_rejecter) ?st0 ((\<lambda>_. D_start)(0 := D_done (Inr ri))) st"
    by (rule race_run [OF race_start]) (use r in simp)
  have "im_requests_inv (fst ?st0)" using ids by (simp add: im_requests_inv_def dict_wf_def)
  from concurrent_deciders_decide_once [OF run this, of 0 ri] r(2)
  have "result_ok (dict_get (fst st)) ''grq_1'' ri"
    by (simp add: example_rejecter_def approval_args_def)
  with run r(2) show ?thesis by (metis fun_upd_same)
qed

end
