(* ===== verification/AutoApproval.thy ===== *)
theory AutoApproval
  imports GrantRequests
begin

section \<open>Auto-approval rules\<close>

text \<open>
  \<^verbatim>\<open>src/vinctor_service/auto_approval.py\<close> and the in-memory rule repository of
  \<^verbatim>\<open>repositories.py\<close>: rules under which a pending grant request is approved without an
  operator. The rule repository is a record of its methods; reading never raises.
\<close>

subsection \<open>Rules and their repository\<close>

record 'r AutoApprovalRuleRepository =
  ar_add_rule :: "AutoApprovalRule \<Rightarrow> 'r \<Rightarrow> exn option \<times> 'r"
  ar_get_rule :: "'r \<Rightarrow> string \<Rightarrow> AutoApprovalRule option"
  ar_list_rules_for_workspace :: "'r \<Rightarrow> string \<Rightarrow> AutoApprovalRule list"
  ar_update_rule :: "AutoApprovalRule \<Rightarrow> 'r \<Rightarrow> exn option \<times> 'r"

type_synonym rules_by_id = "(string, AutoApprovalRule) dict"

definition im_add_rule :: "AutoApprovalRule \<Rightarrow> rules_by_id \<Rightarrow> exn option \<times> rules_by_id" where
  "im_add_rule rule store =
     (if dict_get store (aar_rule_id rule) \<noteq> None
      then (Some (ValueError (''duplicate auto-approval rule_id: '' @ aar_rule_id rule)), store)
      else (None, dict_set (aar_rule_id rule) rule store))"

definition im_get_rule :: "rules_by_id \<Rightarrow> string \<Rightarrow> AutoApprovalRule option" where
  "im_get_rule store rule_id = dict_get store rule_id"

definition im_list_rules :: "rules_by_id \<Rightarrow> string \<Rightarrow> AutoApprovalRule list" where
  "im_list_rules store workspace_id = filter (\<lambda>rule. aar_workspace_id rule = workspace_id) (dict_values store)"

definition im_update_rule :: "AutoApprovalRule \<Rightarrow> rules_by_id \<Rightarrow> exn option \<times> rules_by_id" where
  "im_update_rule rule store =
     (if dict_get store (aar_rule_id rule) = None
      then (Some (ValueError (''unknown auto-approval rule_id: '' @ aar_rule_id rule)), store)
      else (None, dict_set (aar_rule_id rule) rule store))"

definition InMemoryAutoApprovalRuleRepository :: "rules_by_id AutoApprovalRuleRepository" where
  "InMemoryAutoApprovalRuleRepository =
     \<lparr>ar_add_rule = im_add_rule, ar_get_rule = im_get_rule,
      ar_list_rules_for_workspace = im_list_rules, ar_update_rule = im_update_rule\<rparr>"

definition validate_rule :: "AutoApprovalRule \<Rightarrow> exn option" where
  "validate_rule rule =
     (if aar_workspace_id rule = [] then Some (ValueError ''workspace_id must be non-empty'')
      else if aar_rule_id rule = [] then Some (ValueError ''rule_id must be non-empty'')
      else if aar_name rule = [] then Some (ValueError ''name must be non-empty'')
      else if aar_target_agent_id rule = [] then Some (ValueError ''target_agent_id must be non-empty'')
      else if aar_max_ttl_seconds rule \<le> 0 then Some (ValueError ''max_ttl_seconds must be positive'')
      else if aar_status rule \<notin> {''active'', ''disabled''}
      then Some (ValueError (''invalid rule status: '' @ aar_status rule))
      else if aar_allowed_scopes rule = [] then Some (ValueError ''at least one allowed scope is required'')
      else
        let invalid_scopes = filter (\<lambda>scope. \<not> is_valid_grant_scope scope) (aar_allowed_scopes rule)
        in if invalid_scopes \<noteq> [] then Some (ValueError (''invalid allowed scope: '' @ hd invalid_scopes))
           else if aar_created_by rule = [] then Some (ValueError ''created_by must be non-empty'')
           else None)"

subsection \<open>Control events of a rule update\<close>

definition EVENT_AUTO_APPROVAL_RULE_UPDATED :: string where
  "EVENT_AUTO_APPROVAL_RULE_UPDATED = ''auto_approval_rule_updated''"

definition EVENT_AUTO_APPROVAL_RULE_DISABLED :: string where
  "EVENT_AUTO_APPROVAL_RULE_DISABLED = ''auto_approval_rule_disabled''"

record RuleUpdateControlEvent =
  ru_event_type :: string
  ru_action :: string
  ru_reason :: string
  ru_scope_attempted :: string

definition changed_rule_fields :: "AutoApprovalRule \<Rightarrow> AutoApprovalRule \<Rightarrow> string list" where
  "changed_rule_fields prior rule =
     map fst (filter snd
       [(''name'', aar_name prior \<noteq> aar_name rule),
        (''target_agent_id'', aar_target_agent_id prior \<noteq> aar_target_agent_id rule),
        (''allowed_scopes'', aar_allowed_scopes prior \<noteq> aar_allowed_scopes rule),
        (''max_ttl_seconds'', aar_max_ttl_seconds prior \<noteq> aar_max_ttl_seconds rule),
        (''status'', aar_status prior \<noteq> aar_status rule)])"

definition auto_approval_update_control_event ::
  "AutoApprovalRule \<Rightarrow> AutoApprovalRule \<Rightarrow> RuleUpdateControlEvent" where
  "auto_approval_update_control_event prior rule =
     (let changed = changed_rule_fields prior rule
      in if aar_status prior = ''active'' \<and> aar_status rule = ''disabled''
         then let other = filter (\<lambda>field. field \<noteq> ''status'') changed
              in \<lparr>ru_event_type = EVENT_AUTO_APPROVAL_RULE_DISABLED,
                  ru_action = ''disable_auto_approval_rule'',
                  ru_reason = ''status=disabled''
                    @ (if other \<noteq> [] then '' changed='' @ join_with '','' other else []),
                  ru_scope_attempted = []\<rparr>
         else \<lparr>ru_event_type = EVENT_AUTO_APPROVAL_RULE_UPDATED,
               ru_action = ''update_auto_approval_rule'',
               ru_reason = ''status='' @ aar_status rule @ '' changed=''
                 @ (if changed \<noteq> [] then join_with '','' changed else ''none''),
               ru_scope_attempted = []\<rparr>)"

subsection \<open>Operations\<close>

definition create_auto_approval_rule ::
  "'r AutoApprovalRuleRepository \<Rightarrow> AutoApprovalRule \<Rightarrow> 'r \<Rightarrow> (exn + AutoApprovalRule) \<times> 'r" where
  "create_auto_approval_rule rule_repository rule st =
     (case validate_rule rule of
        Some e \<Rightarrow> (Inl e, st)
      | None \<Rightarrow> (case ar_add_rule rule_repository rule st of
                   (Some e, st') \<Rightarrow> (Inl e, st')
                 | (None, st') \<Rightarrow> (Inr rule, st')))"

definition upsert_auto_approval_rule ::
  "'r AutoApprovalRuleRepository \<Rightarrow> AutoApprovalRule \<Rightarrow> 'r \<Rightarrow> (exn + string) \<times> 'r" where
  "upsert_auto_approval_rule rule_repository rule st =
     (case validate_rule rule of
        Some e \<Rightarrow> (Inl e, st)
      | None \<Rightarrow>
          (case ar_get_rule rule_repository st (aar_rule_id rule) of
             None \<Rightarrow> (case ar_add_rule rule_repository rule st of
                        (Some e, st') \<Rightarrow> (Inl e, st')
                      | (None, st') \<Rightarrow> (Inr ''created'', st'))
           | Some existing \<Rightarrow>
               if aar_workspace_id existing \<noteq> aar_workspace_id rule
               then (Inl (ValueError ''auto-approval rule_id belongs to another workspace''), st)
               else (case ar_update_rule rule_repository rule st of
                       (Some e, st') \<Rightarrow> (Inl e, st')
                     | (None, st') \<Rightarrow> (Inr ''updated'', st'))))"

definition disable_auto_approval_rule ::
  "'r AutoApprovalRuleRepository \<Rightarrow> string \<Rightarrow> string \<Rightarrow> string \<Rightarrow> instant \<Rightarrow> 'r
     \<Rightarrow> (exn + AutoApprovalRule option) \<times> 'r" where
  "disable_auto_approval_rule rule_repository rule_id workspace_id disabled_by now st =
     (case ar_get_rule rule_repository st rule_id of
        None \<Rightarrow> (Inr None, st)
      | Some rule \<Rightarrow>
          if aar_workspace_id rule \<noteq> workspace_id then (Inr None, st)
          else
            let disabled = rule\<lparr>aar_status := ''disabled'', aar_updated_by := Some disabled_by,
                                aar_updated_at := Some now\<rparr>
            in (case ar_update_rule rule_repository disabled st of
                  (Some e, st') \<Rightarrow> (Inl e, st')
                | (None, st') \<Rightarrow> (Inr (Some disabled), st')))"

definition list_auto_approval_rules :: "'r AutoApprovalRuleRepository \<Rightarrow> string \<Rightarrow> 'r \<Rightarrow> AutoApprovalRule list" where
  "list_auto_approval_rules rule_repository workspace_id st =
     ar_list_rules_for_workspace rule_repository st workspace_id"

definition scopes_within_rule :: "string list \<Rightarrow> string list \<Rightarrow> bool" where
  "scopes_within_rule requested_scopes allowed_scopes \<longleftrightarrow>
     (\<forall>requested\<in>set requested_scopes. \<exists>allowed\<in>set allowed_scopes. scope_subsumes allowed requested)"

definition evaluation_result ::
  "string \<Rightarrow> string \<Rightarrow> GrantRequest \<Rightarrow> AutoApprovalRule option \<Rightarrow> AutoApprovalEvaluationResult" where
  "evaluation_result decision reason request rule =
     \<lparr>aer_decision = decision, aer_reason = reason, aer_request = request, aer_rule = rule\<rparr>"

text \<open>The loop over the rules, with its two flags \<^verbatim>\<open>saw_scope_candidate\<close> and \<^verbatim>\<open>saw_ttl_candidate\<close>.\<close>

fun auto_approval_loop ::
  "GrantRequest \<Rightarrow> AutoApprovalRule list \<Rightarrow> bool \<Rightarrow> bool \<Rightarrow> AutoApprovalEvaluationResult" where
  "auto_approval_loop request [] saw_scope saw_ttl =
     (if saw_ttl then evaluation_result ''would_not_approve'' ''ttl_exceeds_rule'' request None
      else evaluation_result ''would_not_approve''
             (if saw_scope then ''scope_outside_rule'' else ''no_matching_rule'') request None)"
| "auto_approval_loop request (rule # rules) saw_scope saw_ttl =
     (if aar_status rule \<noteq> ''active'' \<or> aar_target_agent_id rule \<noteq> gr_target_agent_id request
      then auto_approval_loop request rules saw_scope saw_ttl
      else if \<not> scopes_within_rule (gr_requested_scopes request) (aar_allowed_scopes rule)
      then auto_approval_loop request rules True saw_ttl
      else if gr_requested_ttl_seconds request > aar_max_ttl_seconds rule
      then auto_approval_loop request rules saw_scope True
      else evaluation_result ''would_approve'' ''auto_approval_match'' request (Some rule))"

definition evaluate_auto_approval ::
  "GrantRequest \<Rightarrow> 'r AutoApprovalRuleRepository \<Rightarrow> 'r \<Rightarrow> AutoApprovalEvaluationResult" where
  "evaluate_auto_approval request rule_repository st =
     (if gr_status request \<noteq> ''pending''
      then evaluation_result ''would_not_approve'' ''grant_request_not_pending'' request None
      else auto_approval_loop request
             (ar_list_rules_for_workspace rule_repository st (gr_workspace_id request)) False False)"

definition auto_approve_grant_request ::
  "string \<Rightarrow> string \<Rightarrow> string \<Rightarrow> 'q GrantRequestRepository \<Rightarrow> 'r AutoApprovalRuleRepository
     \<Rightarrow> 'g GrantLifecycleRepository \<Rightarrow> (string \<Rightarrow> string \<Rightarrow> AgentIssuableBounds option) \<Rightarrow> 's AuditWriter
     \<Rightarrow> instant \<Rightarrow> entropy \<Rightarrow> 'r \<Rightarrow> 'q \<times> 'g \<times> 's \<Rightarrow> (exn + GrantRequestDecisionResult) \<times> 'q \<times> 'g \<times> 's" where
  "auto_approve_grant_request request_id workspace_id decided_by request_repository rule_repository
       grant_repository bounds_of audit_writer now rnd rules st =
     (case st of (q, g, s) \<Rightarrow>
        case lookup_grant_request request_id workspace_id request_repository q of
          None \<Rightarrow> (Inr (decision_failed ''grant_request_not_found''), q, g, s)
        | Some request \<Rightarrow>
            let evaluation = evaluate_auto_approval request rule_repository rules
            in case (if aer_decision evaluation \<noteq> ''would_approve'' then None else aer_rule evaluation) of
                 None \<Rightarrow> (Inr ((decision_failed (aer_reason evaluation))
                                 \<lparr>gdr_request := Some (aer_request evaluation)\<rparr>), q, g, s)
               | Some rule \<Rightarrow>
                   (case approve_grant_request
                      \<lparr>da_request_id = gr_request_id request, da_workspace_id = gr_workspace_id request,
                       da_decided_by = decided_by,
                       da_decision_reason = Some (''auto_approval_rule:'' @ aar_rule_id rule), da_now = now,
                       da_audit_event_type = ''grant_request_auto_approved'',
                       da_audit_reason = ''grant_request_auto_approved'',
                       da_audit_action = ''auto_approve_grant_request''\<rparr>
                      request_repository grant_repository bounds_of audit_writer rnd (q, g, s) of
                    (Inl e, st') \<Rightarrow> (Inl e, st')
                  | (Inr approved, st') \<Rightarrow>
                      (Inr \<lparr>gdr_status = gdr_status approved, gdr_reason = gdr_reason approved,
                            gdr_request = (case gdr_request approved of Some r \<Rightarrow> Some r | None \<Rightarrow> Some request),
                            gdr_grant = gdr_grant approved, gdr_audit_event_id = gdr_audit_event_id approved,
                            gdr_auto_approval_rule_id =
                              (if gdr_status approved = ''approved'' then Some (aar_rule_id rule) else None)\<rparr>,
                       st')))"

subsection \<open>When a rule approves\<close>

definition rule_candidate :: "GrantRequest \<Rightarrow> AutoApprovalRule \<Rightarrow> bool" where
  "rule_candidate request rule \<longleftrightarrow>
     aar_status rule = ''active'' \<and> aar_target_agent_id rule = gr_target_agent_id request"

definition rule_covers :: "GrantRequest \<Rightarrow> AutoApprovalRule \<Rightarrow> bool" where
  "rule_covers request rule \<longleftrightarrow>
     rule_candidate request rule
     \<and> scopes_within_rule (gr_requested_scopes request) (aar_allowed_scopes rule)
     \<and> gr_requested_ttl_seconds request \<le> aar_max_ttl_seconds rule"

definition refusal :: "GrantRequest \<Rightarrow> bool \<Rightarrow> bool \<Rightarrow> AutoApprovalEvaluationResult" where
  "refusal request saw_scope saw_ttl =
     evaluation_result ''would_not_approve''
       (if saw_ttl then ''ttl_exceeds_rule'' else if saw_scope then ''scope_outside_rule''
        else ''no_matching_rule'') request None"

abbreviation approval :: "GrantRequest \<Rightarrow> AutoApprovalRule \<Rightarrow> AutoApprovalEvaluationResult" where
  "approval request rule \<equiv> evaluation_result ''would_approve'' ''auto_approval_match'' request (Some rule)"

definition scope_candidate :: "GrantRequest \<Rightarrow> AutoApprovalRule \<Rightarrow> bool" where
  "scope_candidate request rule \<longleftrightarrow>
     rule_candidate request rule \<and> \<not> scopes_within_rule (gr_requested_scopes request) (aar_allowed_scopes rule)"

definition ttl_candidate :: "GrantRequest \<Rightarrow> AutoApprovalRule \<Rightarrow> bool" where
  "ttl_candidate request rule \<longleftrightarrow>
     rule_candidate request rule \<and> scopes_within_rule (gr_requested_scopes request) (aar_allowed_scopes rule)
     \<and> aar_max_ttl_seconds rule < gr_requested_ttl_seconds request"

lemma auto_approval_loop_Cons:
  "auto_approval_loop request (rule # rules) b c =
     (if rule_covers request rule then approval request rule
      else auto_approval_loop request rules (b \<or> scope_candidate request rule) (c \<or> ttl_candidate request rule))"
proof -
  have cand: "(aar_status rule \<noteq> ''active'' \<or> aar_target_agent_id rule \<noteq> gr_target_agent_id request)
      \<longleftrightarrow> \<not> rule_candidate request rule"
    by (simp add: rule_candidate_def)
  show ?thesis
    unfolding auto_approval_loop.simps cand
    by (cases "rule_candidate request rule";
        cases "scopes_within_rule (gr_requested_scopes request) (aar_allowed_scopes rule)";
        cases "aar_max_ttl_seconds rule < gr_requested_ttl_seconds request")
      (simp_all add: rule_covers_def scope_candidate_def ttl_candidate_def)
qed

lemma auto_approval_loop_eq:
  "auto_approval_loop request rules b c =
     (case find_first (rule_covers request) rules of
        Some rule \<Rightarrow> approval request rule
      | None \<Rightarrow> refusal request (b \<or> list_ex (scope_candidate request) rules)
                  (c \<or> list_ex (ttl_candidate request) rules))"
proof (induction rules arbitrary: b c)
  case Nil
  show ?case by (simp add: refusal_def)
next
  case (Cons rule rules)
  show ?case
    unfolding auto_approval_loop_Cons Cons.IH
    by (cases "find_first (rule_covers request) rules") (simp_all add: disj_assoc)
qed

text \<open>
  Auto-approval answers \<^verbatim>\<open>would_approve\<close> exactly for a pending request that some active
  rule of the request's workspace, for the same target agent, covers in scopes and lifetime,
  and it names the first such rule. A refusal says why: a time limit when some rule covered
  the scopes, else the scopes when some rule was for the agent, else no rule.
\<close>

theorem auto_approval_first_covering_rule:
  "evaluate_auto_approval request InMemoryAutoApprovalRuleRepository rules =
     (let candidates = filter (\<lambda>rule. aar_workspace_id rule = gr_workspace_id request
                          \<and> aar_status rule = ''active''
                          \<and> aar_target_agent_id rule = gr_target_agent_id request) (dict_values rules);
          scoped = filter (\<lambda>rule. scopes_within_rule (gr_requested_scopes request) (aar_allowed_scopes rule))
                     candidates;
          covering = filter (\<lambda>rule. gr_requested_ttl_seconds request \<le> aar_max_ttl_seconds rule) scoped
      in \<lparr>aer_decision = (if gr_status request = ''pending'' \<and> covering \<noteq> [] then ''would_approve''
                          else ''would_not_approve''),
          aer_reason = (if gr_status request \<noteq> ''pending'' then ''grant_request_not_pending''
                        else if covering \<noteq> [] then ''auto_approval_match''
                        else if scoped \<noteq> [] then ''ttl_exceeds_rule''
                        else if candidates \<noteq> [] then ''scope_outside_rule''
                        else ''no_matching_rule''),
          aer_request = request,
          aer_rule = (if gr_status request = ''pending'' \<and> covering \<noteq> [] then Some (hd covering) else None)\<rparr>)"
proof -
  define rs where "rs = filter (\<lambda>rule. aar_workspace_id rule = gr_workspace_id request) (dict_values rules)"
  define cs where "cs = filter (rule_candidate request) rs"
  define ss where "ss = filter (\<lambda>rule. scopes_within_rule (gr_requested_scopes request) (aar_allowed_scopes rule)) cs"
  define vs where "vs = filter (\<lambda>rule. gr_requested_ttl_seconds request \<le> aar_max_ttl_seconds rule) ss"
  have cs: "filter (\<lambda>rule. aar_workspace_id rule = gr_workspace_id request \<and> aar_status rule = ''active''
        \<and> aar_target_agent_id rule = gr_target_agent_id request) (dict_values rules) = cs"
    by (simp add: cs_def rs_def rule_candidate_def)
  have vs: "filter (rule_covers request) rs = vs"
    unfolding vs_def ss_def cs_def filter_filter by (rule filter_cong) (auto simp: rule_covers_def)
  have find: "find_first (rule_covers request) rs = (if vs = [] then None else Some (hd vs))"
    unfolding vs [symmetric] by (induction rs) auto
  have "vs = [] \<Longrightarrow> list_ex (ttl_candidate request) rs \<longleftrightarrow> ss \<noteq> []"
    by (fastforce simp: vs_def ss_def cs_def ttl_candidate_def list_ex_iff filter_empty_conv)
  moreover have "ss = [] \<Longrightarrow> list_ex (scope_candidate request) rs \<longleftrightarrow> cs \<noteq> []"
    by (auto simp: ss_def cs_def scope_candidate_def list_ex_iff filter_empty_conv)
  moreover have "evaluate_auto_approval request InMemoryAutoApprovalRuleRepository rules =
      (if gr_status request \<noteq> ''pending''
       then evaluation_result ''would_not_approve'' ''grant_request_not_pending'' request None
       else auto_approval_loop request rs False False)"
    by (simp add: evaluate_auto_approval_def InMemoryAutoApprovalRuleRepository_def im_list_rules_def rs_def)
  ultimately show ?thesis
    unfolding cs Let_def ss_def [symmetric] vs_def [symmetric] auto_approval_loop_eq find
    by (cases "gr_status request = ''pending''"; cases "vs = []"; cases "ss = []"; cases "cs = []")
      (simp_all add: refusal_def evaluation_result_def)
qed

lemma evaluate_auto_approval_rule:
  assumes "(if aer_decision (evaluate_auto_approval request repo st) \<noteq> ''would_approve'' then None
            else aer_rule (evaluate_auto_approval request repo st)) = Some rule"
  shows "gr_status request = ''pending''
     \<and> rule \<in> set (ar_list_rules_for_workspace repo st (gr_workspace_id request)) \<and> rule_covers request rule"
proof -
  let ?rules = "ar_list_rules_for_workspace repo st (gr_workspace_id request)"
  have "gr_status request = ''pending'' \<and> find_first (rule_covers request) ?rules = Some rule"
    using assms
    by (cases "gr_status request = ''pending''"; cases "find_first (rule_covers request) ?rules")
      (simp_all add: evaluate_auto_approval_def auto_approval_loop_eq evaluation_result_def refusal_def)
  then show ?thesis using find_first_Some [of "rule_covers request" ?rules rule] by simp
qed

subsection \<open>What an approval issues\<close>

lemma issue_grant_issued_within:
  assumes "issue_grant request repo bounds_of writer now rnd (g, s) = (Inr issued, g', s')"
    and "gir_status issued \<noteq> ''rejected''"
  shows "issuable_within bounds_of request"
proof (rule ccontr)
  assume "\<not> issuable_within bounds_of request"
  from issue_grant_outside [OF this, of repo writer now rnd g s] assms show False
    by (auto simp: issue_rejected_def)
qed

lemma approve_grant_request_approved:
  assumes "approve_grant_request a rrepo grepo bounds_of writer rnd (q, g, s) = (Inr res, q', g', s')"
    and "gdr_status res = ''approved''"
  obtains r u where "lookup_grant_request (da_request_id a) (da_workspace_id a) rrepo q = Some r"
    "gr_status r = ''pending''" "u = claimed_request a rnd r" "gdr_request res = Some u"
    "issuable_within bounds_of (approval_issue_request r u)"
    "gdr_grant res = Some (build_issued_grant (approval_issue_request r u) (da_now a) (\<lambda>i. rnd (i + 1)))"
proof -
  obtain r where r: "lookup_grant_request (da_request_id a) (da_workspace_id a) rrepo q = Some r"
      "gr_status r = ''pending''"
    using assms
    by (auto simp: approve_grant_request_def get_pending_workspace_request_def decision_failed_def
        split: option.splits if_splits)
  let ?u = "claimed_request a rnd r"
  obtain q1 where d: "rq_decide_request rrepo ?u q = (True, q1)"
    using assms r
    by (auto simp: approve_grant_request_def get_pending_workspace_request_def decision_failed_def Let_def
        split: prod.splits bool.splits)
  obtain issued g1 s1 where i: "issue_grant (approval_issue_request r ?u) grepo bounds_of writer (da_now a)
      (\<lambda>i. rnd (i + 1)) (g, s) = (Inr issued, g1, s1)"
    using assms r d
    by (auto simp: approve_grant_request_def get_pending_workspace_request_def Let_def
        split: prod.splits sum.splits)
  obtain x where x: "gir_status issued \<noteq> ''rejected''" "gir_grant issued = Some x"
      "gdr_request res = Some ?u" "gdr_grant res = Some x"
    using assms r d i
    by (auto simp: approve_grant_request_def get_pending_workspace_request_def decision_failed_def Let_def
        split: prod.splits option.splits if_splits)
  show ?thesis
    using that [OF r refl x(3) issue_grant_issued_within [OF i x(1)]] issue_grant_result [OF i x(1,2)] x(4)
    by simp
qed

text \<open>
  (C29) A grant that auto-approval hands out is doubly confined: the request was pending in the
  caller's workspace and an active rule of that workspace for the requested agent covers it. The
  grant is for that workspace and agent, authorises nothing outside the rule's scopes and, the
  requested lifetime being positive, lives no longer than the rule
  allows; and it is within the agent's issuable bounds besides. The result names the rule.
\<close>

theorem auto_approved_grants_within_rule_and_bounds:
  assumes inv: "im_requests_inv q"
    and a: "auto_approve_grant_request request_id workspace_id decided_by InMemoryGrantRequestRepository
              InMemoryAutoApprovalRuleRepository grepo bounds_of writer now rnd rules (q, g, s)
            = (Inr res, q', g', s')"
    and ok: "gdr_status res = ''approved''"
    and valid: "\<forall>rule\<in>set (dict_values rules). validate_rule rule = None"
  shows "\<exists>request rule grant.
       lookup_grant_request request_id workspace_id InMemoryGrantRequestRepository q = Some request \<and> gr_status request = ''pending''
     \<and> rule \<in> set (dict_values rules) \<and> aar_workspace_id rule = gr_workspace_id request
     \<and> aar_target_agent_id rule = gr_target_agent_id request
     \<and> aar_status rule = ''active'' \<and> gdr_auto_approval_rule_id res = Some (aar_rule_id rule)
     \<and> gdr_grant res = Some grant \<and> g_workspace_id grant = aar_workspace_id rule
     \<and> g_agent_id grant = aar_target_agent_id rule \<and> confined bounds_of now grant
     \<and> (\<Union>scope\<in>set (g_scopes grant). authorises scope)
          \<subseteq> (\<Union>scope\<in>set (aar_allowed_scopes rule). authorises scope)
     \<and> (case g_expires_at grant of None \<Rightarrow> False
        | Some e \<Rightarrow> 0 < gr_requested_ttl_seconds request
                     \<longrightarrow> e \<le> now + timedelta_seconds (aar_max_ttl_seconds rule))"
proof -
  obtain request where r: "lookup_grant_request request_id workspace_id InMemoryGrantRequestRepository q = Some request"
    using a ok by (auto simp: auto_approve_grant_request_def decision_failed_def split: option.splits)
  let ?ev = "evaluate_auto_approval request InMemoryAutoApprovalRuleRepository rules"
  obtain rule where rule: "(if aer_decision ?ev \<noteq> ''would_approve'' then None else aer_rule ?ev) = Some rule"
    using a ok r by (auto simp: auto_approve_grant_request_def decision_failed_def Let_def split: option.splits)
  let ?a = "\<lparr>da_request_id = gr_request_id request, da_workspace_id = gr_workspace_id request,
     da_decided_by = decided_by, da_decision_reason = Some (''auto_approval_rule:'' @ aar_rule_id rule),
     da_now = now, da_audit_event_type = ''grant_request_auto_approved'',
     da_audit_reason = ''grant_request_auto_approved'', da_audit_action = ''auto_approve_grant_request''\<rparr>"
  have cov: "gr_status request = ''pending''" "rule \<in> set (dict_values rules)"
      "aar_workspace_id rule = gr_workspace_id request" "rule_covers request rule"
    using evaluate_auto_approval_rule [OF rule]
    by (auto simp: InMemoryAutoApprovalRuleRepository_def im_list_rules_def)
  obtain ap where ap: "approve_grant_request ?a InMemoryGrantRequestRepository grepo bounds_of writer rnd (q, g, s) = (Inr ap, q', g', s')"
      "gdr_status ap = ''approved''" "gdr_grant res = gdr_grant ap"
      "gdr_auto_approval_rule_id res = Some (aar_rule_id rule)"
    using a ok r rule by (auto simp: auto_approve_grant_request_def Let_def split: prod.splits sum.splits)
  obtain r' u where u: "lookup_grant_request (da_request_id ?a) (da_workspace_id ?a) InMemoryGrantRequestRepository q = Some r'"
      "issuable_within bounds_of (approval_issue_request r' u)"
      "gdr_grant ap = Some (build_issued_grant (approval_issue_request r' u) (da_now ?a) (\<lambda>i. rnd (i + 1)))"
    by (rule approve_grant_request_approved [OF ap(1,2)])
  have same: "r' = request"
    using r u(1) inv by (auto simp: lookup_grant_request_def request_repo_defs im_requests_inv_def
        split: option.splits if_splits)
  let ?grant = "build_issued_grant (approval_issue_request r' u) now (\<lambda>i. rnd (i + 1))"
  have conf: "confined bounds_of now ?grant" by (rule issued_grant_confined [OF u(2)])
  have scopes: "g_scopes ?grant = gr_requested_scopes request"
    by (simp add: build_issued_grant_def approval_issue_request_def same)
  have "\<forall>scope\<in>set (gr_requested_scopes request). is_valid_grant_scope scope"
    using conf unfolding confined_def scopes by blast
  moreover have "\<forall>scope\<in>set (aar_allowed_scopes rule). is_valid_grant_scope scope"
    using valid cov(2) by (auto simp: validate_rule_def Let_def filter_empty_conv split: if_splits)
  moreover have "scopes_outside_bounds (gr_requested_scopes request) (aar_allowed_scopes rule) = []"
    using cov(4) by (auto simp: rule_covers_def scopes_within_rule_def scopes_outside_bounds_def filter_empty_conv)
  ultimately have within: "(\<Union>scope\<in>set (g_scopes ?grant). authorises scope)
      \<subseteq> (\<Union>scope\<in>set (aar_allowed_scopes rule). authorises scope)"
    unfolding scopes by (rule scopes_within_authorise)
  have ttl: "case g_expires_at ?grant of None \<Rightarrow> False
      | Some e \<Rightarrow> 0 < gr_requested_ttl_seconds request \<longrightarrow> e \<le> now + timedelta_seconds (aar_max_ttl_seconds rule)"
    using cov(4) by (simp add: build_issued_grant_def approval_issue_request_def same applied_ttl_def
        rule_covers_def timedelta_seconds_def)
  have act: "aar_status rule = ''active''" and agent: "aar_target_agent_id rule = gr_target_agent_id request"
    using cov(4) by (simp_all add: rule_covers_def rule_candidate_def)
  have own: "g_workspace_id ?grant = gr_workspace_id request" "g_agent_id ?grant = gr_target_agent_id request"
    by (simp_all add: build_issued_grant_def approval_issue_request_def same)
  with act agent r cov ap(3,4) u(3) conf within ttl show ?thesis
    by (intro exI [of _ request] exI [of _ rule] exI [of _ ?grant]) simp
qed

definition example_rule :: AutoApprovalRule where
  "example_rule =
     \<lparr>aar_rule_id = ''rule_1'', aar_workspace_id = ''ws'', aar_name = ''features'', aar_target_agent_id = ''agent'',
      aar_allowed_scopes = [''write:repo/feature/*''], aar_max_ttl_seconds = 900, aar_status = ''active'',
      aar_created_by = ''op'', aar_created_at = 0, aar_updated_by = None, aar_updated_at = None\<rparr>"

lemma example_scopes_within: "scopes_within_rule [''write:repo/feature/a''] [''write:repo/feature/*'']"
  by (simp add: scopes_within_rule_def scope_subsumes_def scope_eval partition_on_def removesuffix_def)

lemma example_evaluation:
  "evaluate_auto_approval example_request InMemoryAutoApprovalRuleRepository [(''rule_1'', example_rule)]
     = approval example_request example_rule"
  using example_scopes_within
  by (simp add: evaluate_auto_approval_def InMemoryAutoApprovalRuleRepository_def im_list_rules_def
      example_rule_def example_request_def build_grant_request_def)

lemma example_approval:
  "\<exists>res q' g' s'. auto_approve_grant_request ''grq_1'' ''ws'' ''op'' InMemoryGrantRequestRepository
      InMemoryAutoApprovalRuleRepository InMemoryGrantRepository example_bounds InMemoryAuditWriter 5 (\<lambda>_. ''t'')
      [(''rule_1'', example_rule)] ([(''grq_1'', example_request)], [], []) = (Inr res, q', g', s')
    \<and> gdr_status res = ''approved''"
proof -
  have r: "gr_request_id example_request = ''grq_1''" "gr_workspace_id example_request = ''ws''"
      "gr_status example_request = ''pending''" "gr_target_agent_id example_request = ''agent''"
      "gr_requested_scopes example_request = [''write:repo/feature/a'']"
      "gr_requested_ttl_seconds example_request = 600"
    by (simp_all add: example_request_def build_grant_request_def)
  have w: "issuable_within example_bounds (approval_issue_request example_request u)" for u
    using example_issue_within r
    by (auto simp: issuable_within_def approval_issue_request_def example_issue_request_def
        validate_issue_request_None split: option.splits)
  show ?thesis
    using r
    by (simp add: auto_approve_grant_request_def lookup_grant_request_def request_repo_defs example_evaluation
        evaluation_result_def approve_grant_request_def get_pending_workspace_request_def claimed_request_def
        issue_grant_within [OF w] insert_issued_grant_def InMemoryGrantRepository_def im_insert_grant_def
        InMemoryAuditWriter_def InMemoryAuditWriter_write_def Let_def)
qed

theorem auto_approved_grants_within_rule_and_bounds_witness:
  "\<exists>res q' g' s' grant.
     auto_approve_grant_request ''grq_1'' ''ws'' ''op'' InMemoryGrantRequestRepository
       InMemoryAutoApprovalRuleRepository InMemoryGrantRepository example_bounds InMemoryAuditWriter 5 (\<lambda>_. ''t'')
       [(''rule_1'', example_rule)] ([(''grq_1'', example_request)], [], []) = (Inr res, q', g', s')
     \<and> gdr_status res = ''approved'' \<and> gdr_grant res = Some grant \<and> g_agent_id grant = ''agent''
     \<and> gdr_auto_approval_rule_id res = Some ''rule_1'' \<and> confined example_bounds 5 grant
     \<and> (\<Union>scope\<in>set (g_scopes grant). authorises scope) \<subseteq> authorises ''write:repo/feature/*''"
proof -
  obtain res q' g' s' where a: "auto_approve_grant_request ''grq_1'' ''ws'' ''op'' InMemoryGrantRequestRepository
      InMemoryAutoApprovalRuleRepository InMemoryGrantRepository example_bounds InMemoryAuditWriter 5 (\<lambda>_. ''t'')
      [(''rule_1'', example_rule)] ([(''grq_1'', example_request)], [], []) = (Inr res, q', g', s')"
      "gdr_status res = ''approved''"
    using example_approval by blast
  have inv: "im_requests_inv [(''grq_1'', example_request)]"
    by (simp add: im_requests_inv_def dict_wf_def example_request_def build_grant_request_def)
  have v: "\<forall>rule\<in>set (dict_values [(''rule_1'', example_rule)]). validate_rule rule = None"
    using scope_eval_feature by (simp add: validate_rule_def example_rule_def)
  from auto_approved_grants_within_rule_and_bounds [OF inv a v]
  obtain rule grant where g: "rule \<in> set (dict_values [(''rule_1'', example_rule)])"
      "gdr_auto_approval_rule_id res = Some (aar_rule_id rule)" "gdr_grant res = Some grant"
      "g_agent_id grant = aar_target_agent_id rule" "confined example_bounds 5 grant"
      "(\<Union>scope\<in>set (g_scopes grant). authorises scope) \<subseteq> (\<Union>scope\<in>set (aar_allowed_scopes rule). authorises scope)"
    by blast
  from g(1) have "aar_rule_id rule = ''rule_1''" "aar_target_agent_id rule = ''agent''"
      "aar_allowed_scopes rule = [''write:repo/feature/*'']"
    by (simp_all add: example_rule_def)
  then show ?thesis using a g by (intro exI [of _ res] exI [of _ q'] exI [of _ g'] exI [of _ s'] exI [of _ grant]) simp
qed

end
