(* ===== verification/Registry.thy ===== *)
theory Registry
  imports Enforce
begin

section \<open>Boundary registry\<close>

text \<open>
  \<^verbatim>\<open>src/vinctor_core/registry.py\<close>: the in-memory \<^verbatim>\<open>BoundaryRegistry\<close>, a dictionary from
  boundary ids to boundaries, and the operations on it. A raised \<^verbatim>\<open>ValueError\<close> is \<open>Inl\<close>. The
  registry has no \<^verbatim>\<open>add_audited\<close>, so \<^verbatim>\<open>_dispatch_add\<close> is the bare \<^verbatim>\<open>add\<close>. \<open>wall\<close> is what
  \<^verbatim>\<open>datetime.now(UTC)\<close> returns, \<open>rnd 0\<close> the token drawn for a new id.
\<close>

subsection \<open>The code\<close>

type_synonym BoundaryRegistry = "(string, Boundary) dict"

definition registry_add :: "BoundaryRegistry \<Rightarrow> Boundary \<Rightarrow> Boundary \<times> BoundaryRegistry" where
  "registry_add registry boundary = (boundary, dict_set (b_boundary_id boundary) boundary registry)"

definition registry_get :: "BoundaryRegistry \<Rightarrow> string \<Rightarrow> Boundary option" where
  "registry_get registry boundary_id = dict_get registry boundary_id"

definition list_for_workspace :: "BoundaryRegistry \<Rightarrow> string \<Rightarrow> Boundary list" where
  "list_for_workspace registry workspace_id =
     filter (\<lambda>boundary. b_workspace_id boundary = workspace_id) (dict_values registry)"

definition dispatch_add :: "BoundaryRegistry \<Rightarrow> Boundary \<Rightarrow> Boundary \<times> BoundaryRegistry" where
  "dispatch_add registry boundary = registry_add registry boundary"

definition new_boundary_id :: "entropy \<Rightarrow> string" where
  "new_boundary_id rnd = ''bnd_'' @ rnd 0"

definition has_boundary_name :: "BoundaryRegistry \<Rightarrow> string \<Rightarrow> string \<Rightarrow> bool" where
  "has_boundary_name registry workspace_id name \<longleftrightarrow>
     (\<exists>boundary\<in>set (list_for_workspace registry workspace_id). b_name boundary = name)"

definition register_boundary ::
  "BoundaryRegistry \<Rightarrow> BoundaryRegistrationInput \<Rightarrow> instant option \<Rightarrow> string option
     \<Rightarrow> instant \<Rightarrow> entropy \<Rightarrow> exn + (Boundary \<times> BoundaryRegistry)" where
  "register_boundary registry registration now boundary_id wall rnd =
     (if bri_mode registration \<noteq> ''fail_closed''
      then Inl (ValueError ''boundary mode must be fail_closed'')
      else if bri_status registration \<notin> {''active'', ''disabled''}
      then Inl (ValueError ''boundary status must be active or disabled'')
      else if has_boundary_name registry (bri_workspace_id registration) (bri_name registration)
      then Inl (ValueError ''boundary name must be unique within workspace'')
      else
        let timestamp = (case now of None \<Rightarrow> wall | Some t \<Rightarrow> t);
            boundary =
              \<lparr>b_boundary_id = py_or boundary_id (new_boundary_id rnd),
               b_workspace_id = bri_workspace_id registration,
               b_name = bri_name registration,
               b_runtime = bri_runtime registration,
               b_boundary_type = bri_boundary_type registration,
               b_mode = bri_mode registration,
               b_status = bri_status registration,
               b_created_at = timestamp,
               b_updated_at = timestamp\<rparr>
        in Inr (dispatch_add registry boundary))"

definition get_boundary_for_workspace :: "BoundaryRegistry \<Rightarrow> string \<Rightarrow> string \<Rightarrow> Boundary option" where
  "get_boundary_for_workspace registry boundary_id workspace_id =
     (case registry_get registry boundary_id of
        None \<Rightarrow> None
      | Some boundary \<Rightarrow> if b_workspace_id boundary \<noteq> workspace_id then None else Some boundary)"

definition disable_boundary ::
  "BoundaryRegistry \<Rightarrow> string \<Rightarrow> string \<Rightarrow> instant option \<Rightarrow> instant \<Rightarrow> Boundary option \<times> BoundaryRegistry" where
  "disable_boundary registry boundary_id workspace_id now wall =
     (case get_boundary_for_workspace registry boundary_id workspace_id of
        None \<Rightarrow> (None, registry)
      | Some boundary \<Rightarrow>
          let disabled = with_status boundary ''disabled'' (case now of None \<Rightarrow> wall | Some t \<Rightarrow> t)
          in (case dispatch_add registry disabled of (b, registry') \<Rightarrow> (Some b, registry')))"

definition enable_boundary ::
  "BoundaryRegistry \<Rightarrow> string \<Rightarrow> string \<Rightarrow> instant option \<Rightarrow> instant \<Rightarrow> Boundary option \<times> BoundaryRegistry" where
  "enable_boundary registry boundary_id workspace_id now wall =
     (case get_boundary_for_workspace registry boundary_id workspace_id of
        None \<Rightarrow> (None, registry)
      | Some boundary \<Rightarrow>
          if b_status boundary = ''active''
          then (case dispatch_add registry boundary of (b, registry') \<Rightarrow> (Some b, registry'))
          else
            let enabled = with_status boundary ''active'' (case now of None \<Rightarrow> wall | Some t \<Rightarrow> t)
            in (case dispatch_add registry enabled of (b, registry') \<Rightarrow> (Some b, registry')))"

subsection \<open>The registry invariant\<close>

text \<open>
  Every boundary is stored under its own id, is fail-closed and either active or disabled,
  and no two boundaries of a workspace share a name.
\<close>

definition boundary_ok :: "Boundary \<Rightarrow> bool" where
  "boundary_ok b \<longleftrightarrow> b_mode b = ''fail_closed'' \<and> b_status b \<in> {''active'', ''disabled''}"

definition registry_inv :: "BoundaryRegistry \<Rightarrow> bool" where
  "registry_inv registry \<longleftrightarrow>
     dict_wf registry
     \<and> (\<forall>k b. dict_get registry k = Some b \<longrightarrow> b_boundary_id b = k \<and> boundary_ok b)
     \<and> (\<forall>k k' b b'. dict_get registry k = Some b \<longrightarrow> dict_get registry k' = Some b' \<longrightarrow>
          b_workspace_id b = b_workspace_id b' \<longrightarrow> b_name b = b_name b' \<longrightarrow> k = k')"

named_theorems registry_simps \<open>unfolding of the registry operations\<close>

declare registry_add_def [registry_simps] registry_get_def [registry_simps]
  dispatch_add_def [registry_simps] get_boundary_for_workspace_def [registry_simps]

lemma registry_inv_Nil [simp]: "registry_inv []"
  by (simp add: registry_inv_def)

lemma registry_invD:
  assumes "registry_inv registry" "dict_get registry k = Some b"
  shows "b_boundary_id b = k" "boundary_ok b" "b_mode b = ''fail_closed''"
  using assms by (auto simp: registry_inv_def boundary_ok_def)

lemma registry_inv_wf: "registry_inv registry \<Longrightarrow> dict_wf registry"
  by (simp add: registry_inv_def)

lemma list_for_workspace_mem:
  "dict_wf registry \<Longrightarrow>
     b \<in> set (list_for_workspace registry w) \<longleftrightarrow>
     b_workspace_id b = w \<and> (\<exists>k. dict_get registry k = Some b)"
  by (force simp: list_for_workspace_def dict_get_iff_mem)

lemma has_boundary_name_iff:
  "dict_wf registry \<Longrightarrow>
     has_boundary_name registry w n \<longleftrightarrow>
     (\<exists>k b. dict_get registry k = Some b \<and> b_workspace_id b = w \<and> b_name b = n)"
  unfolding has_boundary_name_def Bex_def list_for_workspace_mem by blast

lemma registry_inv_set:
  assumes inv: "registry_inv registry" and ok: "boundary_ok b"
    and fresh: "\<And>k c. dict_get registry k = Some c \<Longrightarrow> k \<noteq> b_boundary_id b \<Longrightarrow>
        \<not> (b_workspace_id c = b_workspace_id b \<and> b_name c = b_name b)"
  shows "registry_inv (dict_set (b_boundary_id b) b registry)"
proof -
  let ?r = "dict_set (b_boundary_id b) b registry"
  have "b_boundary_id c = k \<and> boundary_ok c" if "dict_get ?r k = Some c" for k c
    using that inv ok unfolding registry_inv_def by (simp split: if_splits)
  moreover have "k = k'"
    if "dict_get ?r k = Some c" "dict_get ?r k' = Some c'"
      "b_workspace_id c = b_workspace_id c'" "b_name c = b_name c'" for k k' c c'
  proof (cases "k = b_boundary_id b \<or> k' = b_boundary_id b")
    case True
    with that fresh show ?thesis by (auto split: if_splits)
  next
    case False
    then have "dict_get registry k = Some c" "dict_get registry k' = Some c'"
      using that(1,2) by simp_all
    with that(3,4) inv show ?thesis unfolding registry_inv_def by blast
  qed
  ultimately show ?thesis using registry_inv_wf [OF inv] unfolding registry_inv_def by (intro conjI allI impI dict_wf_set) blast+
qed

lemma register_boundary_inv:
  assumes inv: "registry_inv registry"
    and reg: "register_boundary registry registration now bid wall rnd = Inr (b, registry')"
  shows "registry_inv registry'"
proof -
  have b: "registry' = dict_set (b_boundary_id b) b registry" "boundary_ok b"
    "b_workspace_id b = bri_workspace_id registration" "b_name b = bri_name registration"
    "\<not> has_boundary_name registry (bri_workspace_id registration) (bri_name registration)"
    using reg by (auto simp: register_boundary_def registry_simps boundary_ok_def Let_def split: if_splits)
  show ?thesis
    unfolding b(1)
    by (rule registry_inv_set [OF inv b(2)])
      (use b registry_inv_wf [OF inv] in \<open>auto simp: has_boundary_name_iff\<close>)
qed

lemma registry_inv_restatus:
  assumes inv: "registry_inv registry" and b: "dict_get registry k = Some b"
    and c: "b_boundary_id c = b_boundary_id b" "b_workspace_id c = b_workspace_id b"
      "b_name c = b_name b" "boundary_ok c"
  shows "registry_inv (dict_set (b_boundary_id c) c registry)"
proof (rule registry_inv_set [OF inv c(4)])
  fix k' d assume "dict_get registry k' = Some d" "k' \<noteq> b_boundary_id c"
  then show "\<not> (b_workspace_id d = b_workspace_id c \<and> b_name d = b_name c)"
    using inv b c registry_invD(1) [OF inv b] unfolding registry_inv_def by metis
qed

lemma get_boundary_SomeD:
  assumes "get_boundary_for_workspace registry bid w = Some b"
  shows "dict_get registry bid = Some b" "b_workspace_id b = w"
  using assms by (simp_all add: get_boundary_for_workspace_def registry_get_def split: option.splits if_splits)

lemma disable_boundary_cases:
  assumes "disable_boundary registry bid w now wall = (r, registry')"
  obtains (absent) "r = None" "registry' = registry" "get_boundary_for_workspace registry bid w = None"
  | (found) b t where "dict_get registry bid = Some b" "b_workspace_id b = w"
      "r = Some (with_status b ''disabled'' t)"
      "registry' = dict_set (b_boundary_id b) (with_status b ''disabled'' t) registry"
proof (cases "get_boundary_for_workspace registry bid w")
  case None
  with assms show ?thesis by (intro absent) (simp_all add: disable_boundary_def)
next
  case (Some b)
  have "dict_get registry bid = Some b" "b_workspace_id b = w"
    using get_boundary_SomeD [OF Some] .
  moreover obtain t where "(r, registry') = (Some (with_status b ''disabled'' t),
      dict_set (b_boundary_id b) (with_status b ''disabled'' t) registry)"
    using assms Some by (simp add: disable_boundary_def dispatch_add_def registry_add_def Let_def) metis
  ultimately show ?thesis using found by simp
qed

lemma enable_boundary_cases:
  assumes "enable_boundary registry bid w now wall = (r, registry')"
  obtains (absent) "r = None" "registry' = registry" "get_boundary_for_workspace registry bid w = None"
  | (active) b where "dict_get registry bid = Some b" "b_workspace_id b = w" "b_status b = ''active''"
      "r = Some b" "registry' = dict_set (b_boundary_id b) b registry"
  | (enabled) b t where "dict_get registry bid = Some b" "b_workspace_id b = w"
      "r = Some (with_status b ''active'' t)"
      "registry' = dict_set (b_boundary_id b) (with_status b ''active'' t) registry"
proof (cases "get_boundary_for_workspace registry bid w")
  case None
  with assms show ?thesis by (intro absent) (simp_all add: enable_boundary_def)
next
  case (Some b)
  have b: "dict_get registry bid = Some b" "b_workspace_id b = w"
    using get_boundary_SomeD [OF Some] .
  show ?thesis
  proof (cases "b_status b = ''active''")
    case True
    with assms Some b active show ?thesis
      by (simp add: enable_boundary_def dispatch_add_def registry_add_def)
  next
    case False
    obtain t where "(r, registry') = (Some (with_status b ''active'' t),
        dict_set (b_boundary_id b) (with_status b ''active'' t) registry)"
      using assms Some False
      by (simp add: enable_boundary_def dispatch_add_def registry_add_def Let_def) metis
    with b enabled show ?thesis by simp
  qed
qed

lemma disable_boundary_inv:
  assumes inv: "registry_inv registry" and d: "disable_boundary registry bid w now wall = (r, registry')"
  shows "registry_inv registry'"
  using d
proof (cases rule: disable_boundary_cases)
  case (found b t)
  then show ?thesis
    using registry_inv_restatus [OF inv found(1), of "with_status b ''disabled'' t"]
      registry_invD [OF inv found(1)] by (simp add: boundary_ok_def)
qed (use inv in simp)

lemma enable_boundary_inv:
  assumes inv: "registry_inv registry" and d: "enable_boundary registry bid w now wall = (r, registry')"
  shows "registry_inv registry'"
  using d
proof (cases rule: enable_boundary_cases)
  case (active b)
  then show ?thesis
    using registry_inv_restatus [OF inv active(1), of b] registry_invD [OF inv active(1)] by simp
next
  case (enabled b t)
  then show ?thesis
    using registry_inv_restatus [OF inv enabled(1), of "with_status b ''active'' t"]
      registry_invD [OF inv enabled(1)] by (simp add: boundary_ok_def)
qed (use inv in simp)

text \<open>
  Registering, disabling and enabling keep the registry well formed: boundaries
  stay under their own ids, fail-closed, active or disabled, and no workspace has two
  boundaries of one name.
\<close>

theorem registry_operations_keep_invariant:
  assumes "registry_inv registry"
  shows "(\<forall>b registry'. register_boundary registry registration now bid wall rnd = Inr (b, registry')
             \<longrightarrow> registry_inv registry')
       \<and> registry_inv (snd (disable_boundary registry boundary_id workspace_id now wall))
       \<and> registry_inv (snd (enable_boundary registry boundary_id workspace_id now wall))"
  using assms register_boundary_inv disable_boundary_inv enable_boundary_inv
  by (metis prod.collapse)

definition example_registration :: BoundaryRegistrationInput where
  "example_registration =
     \<lparr>bri_workspace_id = ''ws'', bri_name = ''ci'', bri_runtime = ''claude-code'',
      bri_boundary_type = ''tool'', bri_mode = ''fail_closed'', bri_status = ''active''\<rparr>"

theorem registry_operations_keep_invariant_witness:
  "registry_inv []
     \<and> registry_inv (snd (disable_boundary [] ''bnd_1'' ''ws'' None 5))
     \<and> registry_inv [(''bnd_1'', \<lparr>b_boundary_id = ''bnd_1'', b_workspace_id = ''ws'', b_name = ''ci'',
          b_runtime = ''claude-code'', b_boundary_type = ''tool'', b_mode = ''fail_closed'',
          b_status = ''active'', b_created_at = 5, b_updated_at = 5\<rparr>)]"
proof -
  have reg: "register_boundary [] example_registration None (Some ''bnd_1'') 5 (\<lambda>_. ''r'') =
     Inr (\<lparr>b_boundary_id = ''bnd_1'', b_workspace_id = ''ws'', b_name = ''ci'',
          b_runtime = ''claude-code'', b_boundary_type = ''tool'', b_mode = ''fail_closed'',
          b_status = ''active'', b_created_at = 5, b_updated_at = 5\<rparr>,
        [(''bnd_1'', \<lparr>b_boundary_id = ''bnd_1'', b_workspace_id = ''ws'', b_name = ''ci'',
          b_runtime = ''claude-code'', b_boundary_type = ''tool'', b_mode = ''fail_closed'',
          b_status = ''active'', b_created_at = 5, b_updated_at = 5\<rparr>)])"
    by (simp add: register_boundary_def example_registration_def has_boundary_name_def
        list_for_workspace_def registry_simps Let_def)
  note t = registry_operations_keep_invariant [OF registry_inv_Nil,
      of example_registration None "Some ''bnd_1''" 5 "\<lambda>_. ''r''" "''bnd_1''" "''ws''"]
  show ?thesis using t reg by auto
qed

subsection \<open>Disabling takes effect\<close>

text \<open>
  Once a boundary has been disabled, every action that names it is denied,
  whatever the grant, until the registry changes again; and disabling touches no other
  boundary.
\<close>

theorem disabled_boundary_blocks:
  assumes inv: "registry_inv registry"
    and d: "disable_boundary registry bid w now wall = (Some b, registry')"
    and i: "ei_boundary_id i = Some bid" "ei_boundary_registry i = Some (registry_get registry')"
  shows "dr_decision (evaluate_enforce i) = Deny
       \<and> dr_reason (evaluate_enforce i) \<in> {''boundary_wrong_workspace'', ''boundary_inactive''}
       \<and> (\<forall>k. k \<noteq> bid \<longrightarrow> registry_get registry' k = registry_get registry k)"
  using d
proof (cases rule: disable_boundary_cases)
  case (found c t)
  have k: "b_boundary_id c = bid" using registry_invD(1) [OF inv found(1)] .
  have get: "registry_get registry' bid = Some (with_status c ''disabled'' t)"
    using found(4) k by (simp add: registry_get_def)
  have "\<exists>x. resolve_boundary i = Inl x \<and> dr_decision x = Deny
      \<and> dr_reason x \<in> {''boundary_wrong_workspace'', ''boundary_inactive''}"
    using i get by (auto simp: resolve_boundary_def Let_def)
  then show ?thesis
    using found(4) k by (auto simp: evaluate_enforce_def Let_def registry_get_def)
qed simp

theorem disabled_boundary_blocks_witness:
  "dr_decision (evaluate_enforce
      \<lparr>ei_grant = \<lparr>g_grant_id = ''g'', g_grant_ref = ''grt'', g_workspace_id = ''ws'', g_agent_id = ''a'',
         g_scopes = [''read:repo/x''], g_status = ''active'', g_expires_at = None\<rparr>,
       ei_action = ''read'', ei_resource = ''repo/x'', ei_now = 9, ei_boundary_id = Some ''bnd_1'',
       ei_boundary_registry = Some (registry_get (snd (disable_boundary
          [(''bnd_1'', \<lparr>b_boundary_id = ''bnd_1'', b_workspace_id = ''ws'', b_name = ''ci'',
             b_runtime = ''r'', b_boundary_type = ''tool'', b_mode = ''fail_closed'',
             b_status = ''active'', b_created_at = 5, b_updated_at = 5\<rparr>)] ''bnd_1'' ''ws'' None 7))),
       ei_require_boundary = False\<rparr>) = Deny"
proof -
  let ?b = "\<lparr>b_boundary_id = ''bnd_1'', b_workspace_id = ''ws'', b_name = ''ci'', b_runtime = ''r'',
     b_boundary_type = ''tool'', b_mode = ''fail_closed'', b_status = ''active'',
     b_created_at = 5, b_updated_at = 5\<rparr>"
  have inv: "registry_inv [(''bnd_1'', ?b)]"
    by (simp add: registry_inv_def dict_wf_def boundary_ok_def)
  have d: "disable_boundary [(''bnd_1'', ?b)] ''bnd_1'' ''ws'' None 7 =
      (Some (with_status ?b ''disabled'' 7), snd (disable_boundary [(''bnd_1'', ?b)] ''bnd_1'' ''ws'' None 7))"
    by (simp add: disable_boundary_def registry_simps Let_def)
  show ?thesis by (rule conjunct1 [OF disabled_boundary_blocks [OF inv d]]) simp_all
qed

end
