(* ===== verification/Observations.thy ===== *)
theory Observations
  imports Scope ServiceAudit ServiceModels
begin

section \<open>Observations\<close>

text \<open>
  \<^verbatim>\<open>src/vinctor_service/observations.py\<close>: in observe mode an agent reports an action it took
  (or one its runtime blocked as unmapped), and the service records it in the audit store.
\<close>

definition observe_invalid :: "string \<Rightarrow> V1ObserveResponse" where
  "observe_invalid reason =
     \<lparr>ors_status_code = 400, ors_audit_event_id = None, ors_error = Some ''invalid_request'', ors_reason = Some reason\<rparr>"

text \<open>The event type, action, resource and scope to record, or the reason of a refusal.\<close>

definition classify_observation :: "V1ObserveRequest \<Rightarrow> string + (string \<times> string \<times> string \<times> string)" where
  "classify_observation request =
     (if oq_outcome request \<notin> {None, Some ''blocked_unmapped''} then Inl ''outcome must be blocked_unmapped''
      else if oq_outcome request = Some ''blocked_unmapped'' \<and> oq_classification request \<noteq> ''unmapped''
      then Inl ''blocked_unmapped outcome requires unmapped classification''
      else if oq_classification request = ''mapped'' then
        (case oq_action request of
           None \<Rightarrow> Inl ''action must be a valid Vinctor action''
         | Some action \<Rightarrow>
             if \<not> is_valid_requested_action action then Inl ''action must be a valid Vinctor action''
             else (case oq_resource request of
                     None \<Rightarrow> Inl ''resource must be a valid Vinctor resource''
                   | Some resource \<Rightarrow>
                       if \<not> is_valid_requested_resource resource
                       then Inl ''resource must be a valid Vinctor resource''
                       else Inr (''action_observed'', action, resource, attempted_scope action resource)))
      else if oq_classification request = ''unmapped'' then
        if oq_action request \<noteq> None \<or> oq_resource request \<noteq> None
        then Inl ''unmapped observations must not include action or resource''
        else Inr (if oq_outcome request = Some ''blocked_unmapped'' then ''action_blocked_unmapped''
                  else ''action_unmapped'', [], [], [])
      else Inl ''classification must be mapped or unmapped'')"

text \<open>The boundary whose runtime and type are copied: a boundary of the caller's workspace only.\<close>

definition observed_boundary :: "V1ObserveRequest \<Rightarrow> BoundaryLookup option \<Rightarrow> Boundary option" where
  "observed_boundary request boundary_registry =
     (case boundary_registry of
        None \<Rightarrow> None
      | Some get \<Rightarrow>
          (case oq_boundary_id request of
             None \<Rightarrow> None
           | Some boundary_id \<Rightarrow>
               (case get boundary_id of
                  None \<Rightarrow> None
                | Some boundary \<Rightarrow>
                    if b_workspace_id boundary \<noteq> oq_workspace_id request then None else Some boundary)))"

definition observation_event ::
  "V1ObserveRequest \<Rightarrow> Boundary option \<Rightarrow> string \<times> string \<times> string \<times> string \<Rightarrow> instant \<Rightarrow> entropy \<Rightarrow> AuditEvent" where
  "observation_event request boundary c now rnd =
     (case c of (event_type, action, resource, scope) \<Rightarrow>
        let blocked = (oq_outcome request = Some ''blocked_unmapped'')
        in \<lparr>ae_event_id = new_event_id rnd,
            ae_event_type = event_type,
            ae_decision = (if blocked then Deny else Permit),
            ae_reason = (if blocked then ''blocked_unmapped'' else ''observe_mode''),
            ae_workspace_id = oq_workspace_id request,
            ae_agent_id = oq_agent_id request,
            ae_grant_id = [],
            ae_grant_ref = [],
            ae_action = action,
            ae_resource = resource,
            ae_scope_attempted = scope,
            ae_scope_matched = None,
            ae_boundary_id = oq_boundary_id request,
            ae_runtime = map_option b_runtime boundary,
            ae_boundary_type = map_option b_boundary_type boundary,
            ae_created_at = now,
            ae_enforcing_principal = None,
            ae_reason_code = None,
            ae_occurrence_count = None,
            ae_first_seen_at = None,
            ae_last_seen_at = None,
            ae_subject_token_verified = False,
            ae_token_id = None,
            ae_event_class = ''decision''\<rparr>)"

definition record_observation ::
  "V1ObserveRequest \<Rightarrow> 's AuditWriter \<Rightarrow> instant \<Rightarrow> BoundaryLookup option \<Rightarrow> entropy \<Rightarrow> 's \<Rightarrow> V1ObserveResponse \<times> 's" where
  "record_observation request audit_writer now boundary_registry rnd s =
     (case classify_observation request of
        Inl reason \<Rightarrow> (observe_invalid reason, s)
      | Inr c \<Rightarrow>
          let event = observation_event request (observed_boundary request boundary_registry) c now rnd
          in (case aw_write audit_writer event s of
                (Some _, s') \<Rightarrow>
                  (\<lparr>ors_status_code = 503, ors_audit_event_id = None, ors_error = Some ''service_unavailable'',
                    ors_reason = Some ''audit write failed; observation was not recorded''\<rparr>, s')
              | (None, s') \<Rightarrow>
                  (\<lparr>ors_status_code = 200, ors_audit_event_id = Some (ae_event_id event), ors_error = None,
                    ors_reason = None\<rparr>, s')))"

subsection \<open>What is recorded\<close>

text \<open>The reports the interface documents.\<close>

definition well_formed_observation :: "V1ObserveRequest \<Rightarrow> bool" where
  "well_formed_observation q \<longleftrightarrow>
     (oq_classification q = ''mapped'' \<and> oq_outcome q = None
        \<and> (\<exists>a r. oq_action q = Some a \<and> oq_resource q = Some r
             \<and> is_valid_requested_action a \<and> is_valid_requested_resource r))
     \<or> (oq_classification q = ''unmapped'' \<and> oq_outcome q \<in> {None, Some ''blocked_unmapped''}
        \<and> oq_action q = None \<and> oq_resource q = None)"

lemma classify_observation_ok: "is_Inr (classify_observation q) \<longleftrightarrow> well_formed_observation q"
  by (auto simp: classify_observation_def well_formed_observation_def split: option.splits if_splits)

lemma classify_observation_result:
  assumes "classify_observation q = Inr (et, a, r, sc)"
  shows "(et = ''action_observed'' \<and> oq_action q = Some a \<and> oq_resource q = Some r \<and> sc = attempted_scope a r
            \<and> is_valid_requested_action a \<and> is_valid_requested_resource r \<and> oq_outcome q = None)
       \<or> (et \<in> {''action_unmapped'', ''action_blocked_unmapped''} \<and> a = [] \<and> r = [] \<and> sc = []
            \<and> (et = ''action_blocked_unmapped'' \<longleftrightarrow> oq_outcome q = Some ''blocked_unmapped''))"
  using assms by (auto simp: classify_observation_def split: option.splits if_splits)

text \<open>
  An observation is recorded exactly when it is well formed and the store takes it. With any
  audit store that keeps the writer's contract, status 200 means that one event was appended and is
  the one named in the answer, 400 means the report is malformed and 503 that the store
  refused, both with an unchanged log. The appended event never refers to a grant, is a permit
  unless the report says the action was blocked, carries an action only when that action and
  its resource are valid, and shows runtime and type of a boundary only if it belongs to the
  caller's workspace.
\<close>

theorem observations_record_well_formed_reports:
  assumes contract: "audit_log writer log"
    and e: "record_observation q writer now registry rnd s = (r, s')"
  shows "(ors_status_code r = 400 \<longleftrightarrow> \<not> well_formed_observation q) \<and> ors_status_code r \<in> {200, 400, 503}
     \<and> (ors_status_code r \<noteq> 200 \<longrightarrow> log s' = log s \<and> ors_audit_event_id r = None)
     \<and> (ors_status_code r = 200 \<longrightarrow>
          (\<exists>event. log s' = log s @ [event] \<and> ors_audit_event_id r = Some (ae_event_id event)
             \<and> ae_grant_id event = [] \<and> ae_grant_ref event = [] \<and> ae_scope_matched event = None
             \<and> ae_workspace_id event = oq_workspace_id q \<and> ae_agent_id event = oq_agent_id q
             \<and> (ae_decision event = Deny \<longleftrightarrow> ae_event_type event = ''action_blocked_unmapped'')
             \<and> (if ae_event_type event = ''action_observed''
                then is_valid_requested_action (ae_action event) \<and> is_valid_requested_resource (ae_resource event)
                else ae_action event = [] \<and> ae_resource event = [])
             \<and> (\<forall>rt. ae_runtime event = Some rt \<longrightarrow>
                  (\<exists>get b bid. registry = Some get \<and> oq_boundary_id q = Some bid \<and> get bid = Some b
                     \<and> b_workspace_id b = oq_workspace_id q \<and> b_runtime b = rt))))"
proof (cases "classify_observation q")
  case (Inl reason)
  then have "\<not> well_formed_observation q" using classify_observation_ok [of q] by simp
  then show ?thesis using e Inl by (auto simp: record_observation_def observe_invalid_def)
next
  case (Inr c)
  obtain et a rs sc where c: "c = (et, a, rs, sc)" by (cases c)
  have wf: "well_formed_observation q" using classify_observation_ok [of q] Inr by simp
  define ev where "ev = observation_event q (observed_boundary q registry) c now rnd"
  have ob: "\<exists>get b bid. registry = Some get \<and> oq_boundary_id q = Some bid \<and> get bid = Some b
        \<and> b_workspace_id b = oq_workspace_id q \<and> b_runtime b = rt"
    if "ae_runtime ev = Some rt" for rt
    using that by (auto simp: ev_def c observation_event_def observed_boundary_def Let_def split: option.splits if_splits)
  have ev: "ae_grant_id ev = []" "ae_grant_ref ev = []" "ae_scope_matched ev = None"
      "ae_workspace_id ev = oq_workspace_id q" "ae_agent_id ev = oq_agent_id q"
      "ae_event_type ev = et" "ae_action ev = a" "ae_resource ev = rs"
      "ae_decision ev = Deny \<longleftrightarrow> oq_outcome q = Some ''blocked_unmapped''"
    by (simp_all add: ev_def c observation_event_def Let_def)
  note cr = classify_observation_result [OF Inr [unfolded c]]
  obtain x t where w: "aw_write writer ev s = (x, t)" by (metis surj_pair)
  show ?thesis
  proof (cases x)
    case None
    have r: "r = \<lparr>ors_status_code = 200, ors_audit_event_id = Some (ae_event_id ev), ors_error = None, ors_reason = None\<rparr>"
        "s' = t"
      using e Inr w None by (auto simp: record_observation_def ev_def)
    have l: "log s' = log s @ [ev]" using audit_log.write_ok [OF contract] w None r by metis
    show ?thesis using r wf l ev ob cr by auto
  next
    case (Some y)
    then show ?thesis
      using e Inr w wf audit_log.write_raises [OF contract] by (auto simp: record_observation_def ev_def)
  qed
qed

definition example_observation :: V1ObserveRequest where
  "example_observation =
     \<lparr>oq_workspace_id = ''ws'', oq_agent_id = ''agent'', oq_classification = ''mapped'', oq_action = Some ''read'',
      oq_resource = Some ''repo/a'', oq_boundary_id = None, oq_outcome = None\<rparr>"

theorem observations_record_well_formed_reports_witness:
  "\<exists>(r :: V1ObserveResponse) s'. record_observation example_observation InMemoryAuditWriter 5 None (\<lambda>_. ''r'') [] = (r, s')
     \<and> ors_status_code r = 200 \<and> length s' = 1"
proof -
  obtain r s' where e: "record_observation example_observation InMemoryAuditWriter 5 None (\<lambda>_. ''r'') [] = (r, s')"
    by (metis surj_pair)
  have "is_valid_requested_action ''read''" "is_valid_requested_resource ''repo/a''" by code_simp+
  then have "ors_status_code r = 200"
    using e by (auto simp: record_observation_def classify_observation_def example_observation_def
        InMemoryAuditWriter_def InMemoryAuditWriter_write_def Let_def)
  then show ?thesis
    using observations_record_well_formed_reports [OF in_memory_log.audit_log_axioms e] e by auto
qed

end
