(* ===== verification/Sha256.thy ===== *)
theory Sha256
  imports PyStr "HOL-Library.Word"
begin

section \<open>Digests of the Python library\<close>

text \<open>
  What the code uses of \<^verbatim>\<open>hashlib\<close>, \<^verbatim>\<open>hmac\<close> and \<^verbatim>\<open>base64\<close>, and of \<^verbatim>\<open>str.encode\<close>: UTF-8, SHA-256,
  HMAC over SHA-256, hexadecimal and URL-safe base64 text. Bytes are 8-bit words, the rounds
  of SHA-256 work on 32-bit words with wrap-around addition. Nothing below assumes that the
  digest is free of collisions: a claim that needs it says which two inputs collide.
\<close>

unbundle bit_operations_syntax

type_synonym byte = "8 word"
type_synonym bytes = "byte list"
type_synonym w32 = "32 word"

subsection \<open>UTF-8\<close>

text \<open>Characters have code points below 256, so at most two bytes each.\<close>

definition utf8_char :: "char \<Rightarrow> bytes" where
  "utf8_char c =
     (let n = of_char c :: nat
      in if n < 128 then [of_nat n] else [of_nat (192 + n div 64), of_nat (128 + n mod 64)])"

definition utf8 :: "string \<Rightarrow> bytes" where
  "utf8 s = concat (map utf8_char s)"

subsection \<open>SHA-256\<close>

definition sha_K :: "w32 list" where
  "sha_K = [
      1116352408, 1899447441, 3049323471, 3921009573, 961987163, 1508970993, 2453635748, 2870763221,
      3624381080, 310598401, 607225278, 1426881987, 1925078388, 2162078206, 2614888103, 3248222580,
      3835390401, 4022224774, 264347078, 604807628, 770255983, 1249150122, 1555081692, 1996064986,
      2554220882, 2821834349, 2952996808, 3210313671, 3336571891, 3584528711, 113926993, 338241895,
      666307205, 773529912, 1294757372, 1396182291, 1695183700, 1986661051, 2177026350, 2456956037,
      2730485921, 2820302411, 3259730800, 3345764771, 3516065817, 3600352804, 4094571909, 275423344,
      430227734, 506948616, 659060556, 883997877, 958139571, 1322822218, 1537002063, 1747873779,
      1955562222, 2024104815, 2227730452, 2361852424, 2428436474, 2756734187, 3204031479, 3329325298]"

definition sha_H0 :: "w32 list" where
  "sha_H0 = [
      1779033703, 3144134277, 1013904242, 2773480762, 1359893119, 2600822924, 528734635, 1541459225]"

primrec be_bytes :: "nat \<Rightarrow> nat \<Rightarrow> bytes" where
  "be_bytes 0 n = []"
| "be_bytes (Suc k) n = be_bytes k (n div 256) @ [of_nat n]"

definition word_of_be :: "bytes \<Rightarrow> w32" where
  "word_of_be bs = foldl (\<lambda>w b. push_bit 8 w OR ucast b) 0 bs"

definition sha_pad :: "bytes \<Rightarrow> bytes" where
  "sha_pad m = m @ [0x80] @ replicate ((119 - length m mod 64) mod 64) 0 @ be_bytes 8 (8 * length m)"

fun chunks :: "nat \<Rightarrow> 'a list \<Rightarrow> 'a list list" where
  "chunks n xs = (if n = 0 \<or> xs = [] then [] else take n xs # chunks n (drop n xs))"

declare chunks.simps [simp del]

definition sha_sigma0 :: "w32 \<Rightarrow> w32" where
  "sha_sigma0 x = word_rotr 7 x XOR word_rotr 18 x XOR drop_bit 3 x"

definition sha_sigma1 :: "w32 \<Rightarrow> w32" where
  "sha_sigma1 x = word_rotr 17 x XOR word_rotr 19 x XOR drop_bit 10 x"

primrec sha_extend :: "nat \<Rightarrow> w32 list \<Rightarrow> w32 list" where
  "sha_extend 0 w = w"
| "sha_extend (Suc k) w =
     (let n = length w
      in sha_extend k (w @ [sha_sigma1 (w ! (n - 2)) + w ! (n - 7) + sha_sigma0 (w ! (n - 15)) + w ! (n - 16)]))"

definition sha_schedule :: "bytes \<Rightarrow> w32 list" where
  "sha_schedule block = sha_extend 48 (map word_of_be (chunks 4 block))"

type_synonym sha_state = "w32 \<times> w32 \<times> w32 \<times> w32 \<times> w32 \<times> w32 \<times> w32 \<times> w32"

definition sha_round :: "sha_state \<Rightarrow> w32 \<times> w32 \<Rightarrow> sha_state" where
  "sha_round st kw =
     (case st of (a, b, c, d, e, f, g, h) \<Rightarrow>
        let s1 = word_rotr 6 e XOR word_rotr 11 e XOR word_rotr 25 e;
            ch = (e AND f) XOR (NOT e AND g);
            t1 = h + s1 + ch + fst kw + snd kw;
            s0 = word_rotr 2 a XOR word_rotr 13 a XOR word_rotr 22 a;
            maj = (a AND b) XOR (a AND c) XOR (b AND c);
            t2 = s0 + maj
        in (t1 + t2, a, b, c, d + t1, e, f, g))"

definition sha_compress :: "w32 list \<Rightarrow> bytes \<Rightarrow> w32 list" where
  "sha_compress hs block =
     (case foldl sha_round (hs ! 0, hs ! 1, hs ! 2, hs ! 3, hs ! 4, hs ! 5, hs ! 6, hs ! 7)
             (zip sha_K (sha_schedule block)) of
        (a, b, c, d, e, f, g, h) \<Rightarrow> map2 (+) hs [a, b, c, d, e, f, g, h])"

definition sha256 :: "bytes \<Rightarrow> bytes" where
  "sha256 m = concat (map (\<lambda>w. be_bytes 4 (unat w)) (foldl sha_compress sha_H0 (chunks 64 (sha_pad m))))"

subsection \<open>HMAC and text forms\<close>

definition hmac_sha256 :: "bytes \<Rightarrow> bytes \<Rightarrow> bytes" where
  "hmac_sha256 key msg =
     (let k0 = (if length key > 64 then sha256 key else key);
          k = k0 @ replicate (64 - length k0) 0
      in sha256 (map (\<lambda>b. b XOR 0x5C) k @ sha256 (map (\<lambda>b. b XOR 0x36) k @ msg)))"

definition hexdigest :: "bytes \<Rightarrow> string" where
  "hexdigest bs = concat (map (\<lambda>b. [hex_digit (unat b div 16), hex_digit (unat b)]) bs)"

definition b64_alphabet :: string where
  "b64_alphabet = ''ABCDEFGHIJKLMNOPQRSTUVWXYZabcdefghijklmnopqrstuvwxyz0123456789-_''"

definition b64_char :: "nat \<Rightarrow> char" where
  "b64_char n = b64_alphabet ! (n mod 64)"

fun urlsafe_b64encode :: "bytes \<Rightarrow> string" where
  "urlsafe_b64encode [] = []"
| "urlsafe_b64encode [a] =
     (let n = unat a * 65536
      in [b64_char (n div 262144), b64_char (n div 4096), CHR ''='', CHR ''=''])"
| "urlsafe_b64encode [a, b] =
     (let n = unat a * 65536 + unat b * 256
      in [b64_char (n div 262144), b64_char (n div 4096), b64_char (n div 64), CHR ''=''])"
| "urlsafe_b64encode (a # b # c # rest) =
     (let n = unat a * 65536 + unat b * 256 + unat c
      in [b64_char (n div 262144), b64_char (n div 4096), b64_char (n div 64), b64_char n]
         @ urlsafe_b64encode rest)"

definition rstrip_char :: "char \<Rightarrow> string \<Rightarrow> string" where
  "rstrip_char c s = rev (dropWhile (\<lambda>x. x = c) (rev s))"

subsection \<open>Encodings are injective\<close>

lemma byte_of_nat_eq: "(of_nat m :: byte) = of_nat n \<longleftrightarrow> m mod 256 = n mod 256"
  by (simp add: word_of_nat_eq_iff take_bit_eq_mod)

lemma length_be_bytes [simp]: "length (be_bytes k n) = k"
  by (induction k arbitrary: n) auto

lemma be_bytes_inj: "m < 256 ^ k \<Longrightarrow> n < 256 ^ k \<Longrightarrow> be_bytes k m = be_bytes k n \<Longrightarrow> m = n"
proof (induction k arbitrary: m n)
  case (Suc k)
  have "m div 256 = n div 256"
    using Suc.IH [of "m div 256" "n div 256"] Suc.prems by (simp add: less_mult_imp_div_less mult.commute)
  moreover have "m mod 256 = n mod 256" using Suc.prems(3) by (simp add: byte_of_nat_eq)
  ultimately show ?case by (metis div_mult_mod_eq)
qed simp

lemma utf8_char_ne [simp]: "utf8_char c \<noteq> []"
  by (simp add: utf8_char_def Let_def)

lemma utf8_simps [simp]: "utf8 [] = []" "utf8 (c # s) = utf8_char c @ utf8 s"
  by (simp_all add: utf8_def)

lemma utf8_char_append_inj:
  assumes eq: "utf8_char c @ xs = utf8_char d @ ys"
  shows "c = d \<and> xs = ys"
proof -
  define m n where "m = (of_char c :: nat)" and "n = (of_char d :: nat)"
  have lt: "m < 256" "n < 256" unfolding m_def n_def by simp_all
  have enc: "(if m < 128 then [of_nat m] else [of_nat (192 + m div 64), of_nat (128 + m mod 64)]) @ xs
      = (if n < 128 then [of_nat n] else [of_nat (192 + n div 64), of_nat (128 + n mod 64)]) @ (ys :: bytes)"
    using eq unfolding utf8_char_def m_def n_def Let_def .
  have small: "192 + k div 64 < 256" "128 + k mod 64 < 256" if "k < 256" for k :: nat
    using that by (simp_all add: less_mult_imp_div_less) 
  have "m = n \<and> xs = ys"
  proof (cases "m < 128"; cases "n < 128")
    assume a: "\<not> m < 128" "\<not> n < 128"
    then have "(of_nat (192 + m div 64) :: byte) = of_nat (192 + n div 64)"
        "(of_nat (128 + m mod 64) :: byte) = of_nat (128 + n mod 64)" "xs = ys"
      using enc by simp_all
    then have "m div 64 = n div 64" "m mod 64 = n mod 64" "xs = ys"
      using small [OF lt(1)] small [OF lt(2)] unfolding byte_of_nat_eq by (simp_all add: mod_less)
    then show ?thesis by (metis div_mult_mod_eq)
  next
    assume a: "m < 128" "\<not> n < 128"
    then have "(of_nat m :: byte) = of_nat (192 + n div 64)" using enc by simp
    with a small(1) [OF lt(2)] show ?thesis unfolding byte_of_nat_eq by simp
  next
    assume a: "\<not> m < 128" "n < 128"
    then have "(of_nat n :: byte) = of_nat (192 + m div 64)" using enc by simp
    with a small(1) [OF lt(1)] show ?thesis unfolding byte_of_nat_eq by simp
  next
    assume a: "m < 128" "n < 128"
    with enc lt show ?thesis by (simp add: byte_of_nat_eq)
  qed
  then show ?thesis by (simp add: m_def n_def)
qed

lemma utf8_inj: "utf8 s = utf8 t \<Longrightarrow> s = t"
proof (induction s arbitrary: t)
  case Nil
  then show ?case by (cases t) auto
next
  case (Cons c s)
  then show ?case using utf8_char_append_inj by (cases t) fastforce+
qed

lemma length_sha_state: "length hs = 8 \<Longrightarrow> length (foldl sha_compress hs bs) = 8"
  by (induction bs arbitrary: hs) (auto simp: sha_compress_def split: prod.split)

lemma length_sha256 [simp]: "length (sha256 m) = 32"
proof -
  have "length (concat (map (\<lambda>w. be_bytes 4 (unat w)) ws)) = 4 * length ws" for ws :: "w32 list"
    by (induction ws) auto
  moreover have "length sha_H0 = 8" by (simp add: sha_H0_def)
  ultimately show ?thesis unfolding sha256_def using length_sha_state [of sha_H0] by simp
qed

lemma length_hexdigest [simp]: "length (hexdigest bs) = 2 * length bs"
  by (induction bs) (auto simp: hexdigest_def)

end
