(* ===== verification/Pop.thy ===== *)
theory Pop
  imports Sha256
begin

section \<open>Proof of possession\<close>

text \<open>
  \<^verbatim>\<open>src/vinctor_service/pop.py\<close> and \<^verbatim>\<open>SQLiteReplayStore\<close> of \<^verbatim>\<open>sqlite.py\<close>: the canonical bytes a
  proof signs, its MAC, and the replay caches that make a nonce good for one use. The caps
  come from the environment when they are not given; here they are an argument. The locale
  \<open>replay_store\<close> is what \<^verbatim>\<open>verify_pop\<close> relies on, \<open>live\<close> the nonces a store still remembers.
\<close>

subsection \<open>The code\<close>

definition pop_field :: "string \<Rightarrow> bytes" where
  "pop_field p = be_bytes 4 (length (utf8 p)) @ utf8 p"

text \<open>\<^verbatim>\<open>to_bytes(4, "big")\<close> raises \<^verbatim>\<open>OverflowError\<close> for a field of 2 to the 32 bytes or more.\<close>

definition pop_canonical :: "string \<Rightarrow> string \<Rightarrow> int \<Rightarrow> string \<Rightarrow> string \<Rightarrow> exn + bytes" where
  "pop_canonical action resource ts nonce token_id =
     (let parts = [action, resource, py_str_int ts, nonce, token_id]
      in if \<exists>p\<in>set parts. 256 ^ 4 \<le> length (utf8 p) then Inl (OtherException ''OverflowError'')
         else Inr (concat (map pop_field parts)))"

definition pop_mac :: "string \<Rightarrow> bytes \<Rightarrow> string" where
  "pop_mac pop_secret canonical =
     rstrip_char CHR ''='' (urlsafe_b64encode (hmac_sha256 (utf8 pop_secret) canonical))"

record replay_caps =
  rc_max_entries :: int
  rc_max_per_token :: int

type_synonym seen_nonces = "(string \<times> string, int) dict"

definition check_and_record ::
  "replay_caps \<Rightarrow> string \<Rightarrow> string \<Rightarrow> int \<Rightarrow> int \<Rightarrow> int \<Rightarrow> seen_nonces \<Rightarrow> bool \<times> seen_nonces" where
  "check_and_record caps token_id nonce ts now_unix skew seen =
     (let cutoff = now_unix - skew;
          seen1 = filter (\<lambda>(k, t). \<not> t < cutoff) seen;
          key = (token_id, nonce)
      in if dict_get seen1 key \<noteq> None then (False, seen1)
         else if int (length (filter (\<lambda>(k, _). fst k = token_id) seen1)) \<ge> rc_max_per_token caps
         then (False, seen1)
         else if int (length seen1) \<ge> rc_max_entries caps then (False, seen1)
         else (True, dict_set key ts seen1))"

text \<open>The SQLite store: rows \<^verbatim>\<open>(token_id, nonce, ts)\<close> with the primary key \<^verbatim>\<open>(token_id, nonce)\<close>.\<close>

type_synonym replay_rows = "(string \<times> string \<times> int) list"

definition sq_check_and_record ::
  "replay_caps \<Rightarrow> string \<Rightarrow> string \<Rightarrow> int \<Rightarrow> int \<Rightarrow> int \<Rightarrow> replay_rows \<Rightarrow> bool \<times> replay_rows" where
  "sq_check_and_record caps token_id nonce ts now_unix skew rows =
     (let cutoff = now_unix - skew;
          rows1 = filter (\<lambda>(_, _, t). \<not> t < cutoff) rows
      in if filter (\<lambda>(i, n, _). i = token_id \<and> n = nonce) rows1 \<noteq> [] then (False, rows1)
         else if int (length (filter (\<lambda>(i, _, _). i = token_id) rows1)) \<ge> rc_max_per_token caps
         then (False, rows1)
         else if int (length rows1) \<ge> rc_max_entries caps then (False, rows1)
         else if (token_id, nonce) \<in> (\<lambda>(i, n, _). (i, n)) ` set rows1 then (False, rows1)
         else (True, rows1 @ [(token_id, nonce, ts)]))"

definition timestamp_int :: "instant \<Rightarrow> int" where
  "timestamp_int now = (if 0 \<le> now then now div 1000000 else - ((- now) div 1000000))"

definition verify_pop ::
  "(string \<Rightarrow> string \<Rightarrow> int \<Rightarrow> int \<Rightarrow> int \<Rightarrow> 'c \<Rightarrow> bool \<times> 'c) \<Rightarrow> string option \<Rightarrow> string \<Rightarrow> string
     \<Rightarrow> string \<Rightarrow> string \<Rightarrow> instant \<Rightarrow> int \<Rightarrow> 'c \<Rightarrow> (exn + bool) \<times> 'c" where
  "verify_pop check pf pop_secret token_id action resource now skew cache =
     (case pf of
        None \<Rightarrow> (Inr False, cache)
      | Some p \<Rightarrow>
          if py_strip p = [] then (Inr False, cache)
          else (case split_on CHR ''.'' p of
             [ts_raw, nonce, mac] \<Rightarrow>
               (case py_int ts_raw of
                  None \<Rightarrow> (Inr False, cache)
                | Some ts \<Rightarrow>
                    if nonce = [] \<or> mac = [] then (Inr False, cache)
                    else if \<not> is_ascii mac then (Inr False, cache)
                    else
                      let now_unix = timestamp_int now
                      in if \<bar>now_unix - ts\<bar> > skew then (Inr False, cache)
                         else (case pop_canonical action resource ts nonce token_id of
                                 Inl e \<Rightarrow> (Inl e, cache)
                               | Inr canonical \<Rightarrow>
                                   if pop_mac pop_secret canonical \<noteq> mac then (Inr False, cache)
                                   else (case check token_id nonce ts now_unix skew cache of
                                           (ok, cache') \<Rightarrow> (Inr ok, cache'))))
           | _ \<Rightarrow> (Inr False, cache)))"

subsection \<open>The canonical form binds its fields\<close>

lemma pop_field_inj:
  assumes "length (utf8 p) < 256 ^ 4" "length (utf8 q) < 256 ^ 4" "pop_field p @ xs = pop_field q @ ys"
  shows "p = q \<and> xs = ys"
proof -
  have "be_bytes 4 (length (utf8 p)) = be_bytes 4 (length (utf8 q))"
    using assms(3) by (simp add: pop_field_def)
  then have len: "length (utf8 p) = length (utf8 q)" using be_bytes_inj [OF assms(1,2)] by blast
  then have "utf8 p = utf8 q \<and> xs = ys" using assms(3) by (simp add: pop_field_def)
  then show ?thesis using utf8_inj by blast
qed

lemma pop_fields_inj:
  "length ps = length qs \<Longrightarrow> \<forall>p\<in>set ps. length (utf8 p) < 256 ^ 4 \<Longrightarrow> \<forall>q\<in>set qs. length (utf8 q) < 256 ^ 4 \<Longrightarrow>
     concat (map pop_field ps) = concat (map pop_field qs) \<Longrightarrow> ps = qs"
proof (induction ps qs rule: list_induct2)
  case (Cons p ps q qs)
  then show ?case using pop_field_inj [of p q "concat (map pop_field ps)" "concat (map pop_field qs)"] by simp
qed simp

text \<open>
  The bytes a proof signs determine every field: two requests have the same canonical form
  only when action, resource, timestamp, nonce and token agree. No content of a field, line
  breaks and delimiters included, can shift the boundaries, so a proof made for one request
  never fits another one.
\<close>

theorem pop_canonical_injective:
  assumes "pop_canonical action resource ts nonce token_id = Inr canonical"
    and "pop_canonical action' resource' ts' nonce' token_id' = Inr canonical"
  shows "action = action' \<and> resource = resource' \<and> ts = ts' \<and> nonce = nonce' \<and> token_id = token_id'"
proof -
  have "concat (map pop_field [action, resource, py_str_int ts, nonce, token_id])
      = concat (map pop_field [action', resource', py_str_int ts', nonce', token_id'])"
    using assms by (simp add: pop_canonical_def Let_def split: if_splits)
  then have "[action, resource, py_str_int ts, nonce, token_id]
      = [action', resource', py_str_int ts', nonce', token_id']"
    by (rule pop_fields_inj [rotated 3])
      (use assms in \<open>auto simp: pop_canonical_def Let_def not_le split: if_splits\<close>)
  then show ?thesis using py_str_int_inj by simp
qed

theorem pop_canonical_injective_witness:
  "\<exists>c. pop_canonical ''read'' ''a/b'' 7 ''n'' ''t'' = Inr c \<and> pop_canonical ''read'' ''a/b'' 8 ''n'' ''t'' \<noteq> Inr c"
proof -
  have "length (utf8 s) \<le> 2 * length s" for s
    by (induction s) (auto simp: utf8_char_def Let_def)
  note len = this
  have nd: "py_str_int 7 = ''7''" by code_simp
  have "pop_canonical ''read'' ''a/b'' 7 ''n'' ''t'' =
      Inr (concat (map pop_field [''read'', ''a/b'', py_str_int 7, ''n'', ''t'']))"
    using len [of "''read''"] len [of "''a/b''"] len [of "''7''"] len [of "''n''"] len [of "''t''"]
    by (simp add: pop_canonical_def nd)
  then obtain c where c: "pop_canonical ''read'' ''a/b'' 7 ''n'' ''t'' = Inr c" by blast
  have "pop_canonical ''read'' ''a/b'' 8 ''n'' ''t'' \<noteq> Inr c"
    using pop_canonical_injective [OF c, of "''read''" "''a/b''" 8 "''n''" "''t''"] by auto
  with c show ?thesis by blast
qed

subsection \<open>Replay stores\<close>

locale replay_store =
  fixes check :: "string \<Rightarrow> string \<Rightarrow> int \<Rightarrow> int \<Rightarrow> int \<Rightarrow> 'c \<Rightarrow> bool \<times> 'c"
    and live :: "'c \<Rightarrow> string \<times> string \<Rightarrow> int option"
    and ok :: "'c \<Rightarrow> bool"
  assumes check_ok: "ok c \<Longrightarrow> ok (snd (check i n ts now skew c))"
    and check_live: "ok c \<Longrightarrow> check i n ts now skew c = (b, c') \<Longrightarrow>
          live c' k = (if b \<and> k = (i, n) then Some ts
                       else (case live c k of None \<Rightarrow> None | Some t \<Rightarrow> if t < now - skew then None else Some t))"
    and check_seen: "ok c \<Longrightarrow> live c (i, n) = Some t \<Longrightarrow> now - skew \<le> t \<Longrightarrow> \<not> fst (check i n ts now skew c)"
begin

text \<open>A remembered nonce stays remembered as long as its proof would be fresh.\<close>

lemma verify_pop_cases:
  assumes "verify_pop check pf secret i action resource now skew c = (r, c')"
  obtains (untouched) "c' = c" "r \<noteq> Inr True"
  | (checked) p ts_raw n mac ts b canonical where "pf = Some p" "split_on CHR ''.'' p = [ts_raw, n, mac]"
      "py_int ts_raw = Some ts" "\<bar>timestamp_int now - ts\<bar> \<le> skew"
      "pop_canonical action resource ts n i = Inr canonical" "pop_mac secret canonical = mac"
      "check i n ts (timestamp_int now) skew c = (b, c')" "r = Inr b"
proof (cases pf)
  case None
  with assms untouched show ?thesis by (auto simp: verify_pop_def)
next
  case (Some p)
  show ?thesis
  proof (cases "\<exists>ts_raw n mac ts. split_on CHR ''.'' p = [ts_raw, n, mac] \<and> py_int ts_raw = Some ts")
    case False
    with assms Some untouched show ?thesis
      by (auto simp: verify_pop_def split: list.splits option.splits if_splits)
  next
    case True
    then obtain ts_raw n mac ts where p: "split_on CHR ''.'' p = [ts_raw, n, mac]" "py_int ts_raw = Some ts"
      by blast
    obtain b c1 where b: "check i n ts (timestamp_int now) skew c = (b, c1)" by (metis surj_pair)
    show ?thesis
      using assms Some p b untouched checked [OF Some p]
      by (auto simp: verify_pop_def Let_def split: if_splits sum.splits)
  qed
qed

lemma verify_pop_ok: "ok c \<Longrightarrow> ok (snd (verify_pop check pf secret i action resource now skew c))"
proof -
  assume c: "ok c"
  obtain r c' where v: "verify_pop check pf secret i action resource now skew c = (r, c')" by (metis surj_pair)
  then show ?thesis
  proof (cases rule: verify_pop_cases)
    case (checked p ts_raw n mac ts b canonical)
    then show ?thesis using check_ok [OF c, of i n ts "timestamp_int now" skew] v by simp
  qed (use v c in simp)
qed

lemma verify_pop_keeps_live:
  assumes c: "ok c" and l: "live c k = Some t" and fresh: "timestamp_int now - skew \<le> t"
  shows "live (snd (verify_pop check pf secret i action resource now skew c)) k = Some t"
proof -
  obtain r c' where v: "verify_pop check pf secret i action resource now skew c = (r, c')" by (metis surj_pair)
  then show ?thesis
  proof (cases rule: verify_pop_cases)
    case (checked p ts_raw n mac ts b canonical)
    have "\<not> (b \<and> k = (i, n))"
      using check_seen [OF c, of i n t "timestamp_int now" skew ts] l fresh checked(7) by auto
    then show ?thesis using check_live [OF c checked(7), of k] l fresh v by auto
  qed (use v l in simp)
qed

end

lemma check_and_record_purge:
  assumes "dict_wf seen" "check_and_record caps i n ts now skew seen = (b, seen')"
  shows "dict_get seen' k = (if b \<and> k = (i, n) then Some ts
           else (case dict_get seen k of None \<Rightarrow> None | Some t \<Rightarrow> if t < now - skew then None else Some t))"
proof -
  let ?seen1 = "filter (\<lambda>(k, t). \<not> t < now - skew) seen"
  have "dict_get ?seen1 k = (case dict_get seen k of None \<Rightarrow> None | Some t \<Rightarrow> if t < now - skew then None else Some t)"
    using dict_get_filter [OF assms(1)] by (simp split: option.split)
  moreover have "seen' = (if b then dict_set (i, n) ts ?seen1 else ?seen1)"
    using assms(2) by (auto simp: check_and_record_def Let_def split: if_splits)
  ultimately show ?thesis by auto
qed

lemma check_and_record_seen:
  assumes "dict_wf seen" "dict_get seen (i, n) = Some t" "now - skew \<le> t"
  shows "\<not> fst (check_and_record caps i n ts now skew seen)"
proof -
  have "dict_get (filter (\<lambda>(k, t). \<not> t < now - skew) seen) (i, n) = Some t"
    using dict_get_filter [OF assms(1), of "\<lambda>(k, t). \<not> t < now - skew" "(i, n)"] assms(2,3) by simp
  then show ?thesis by (simp add: check_and_record_def Let_def)
qed

lemma check_and_record_wf:
  "dict_wf seen \<Longrightarrow> dict_wf (snd (check_and_record caps i n ts now skew seen))"
  by (simp add: check_and_record_def Let_def)

interpretation im_replay: replay_store "check_and_record caps" dict_get dict_wf
  by unfold_locales (use check_and_record_wf check_and_record_purge check_and_record_seen in auto)

text \<open>The SQLite store is the in-memory cache on its rows read as a dictionary.\<close>

abbreviation nonce_dict :: "replay_rows \<Rightarrow> seen_nonces" where
  "nonce_dict rows \<equiv> map (\<lambda>(i, n, t). ((i, n), t)) rows"

lemma nonce_dict_simps:
  "filter (\<lambda>(k, t). \<not> t < cutoff) (nonce_dict rows) = nonce_dict (filter (\<lambda>(_, _, t). \<not> t < cutoff) rows)"
  "filter (\<lambda>(k, _). fst k = i) (nonce_dict rows) = nonce_dict (filter (\<lambda>(j, _, _). j = i) rows)"
  by (induction rows) auto

lemma nonce_dict_get:
  "dict_get (nonce_dict rows) (i, n) = None \<longleftrightarrow> filter (\<lambda>(j, m, _). j = i \<and> m = n) rows = []"
  by (induction rows) auto

lemma nonce_dict_key:
  "(i, n) \<in> (\<lambda>(i, n, _). (i, n)) ` set rows \<longleftrightarrow> filter (\<lambda>(j, m, _). j = i \<and> m = n) rows \<noteq> []"
  by (induction rows) auto

lemma sq_check_refines:
  "check_and_record caps i n ts now skew (nonce_dict rows)
     = map_prod id nonce_dict (sq_check_and_record caps i n ts now skew rows)"
proof -
  let ?rows = "filter (\<lambda>(_, _, t). \<not> t < now - skew) rows"
  show ?thesis
  proof (cases "filter (\<lambda>(j, m, _). j = i \<and> m = n) ?rows = []")
    case True
    have "dict_set (i, n) ts (nonce_dict ?rows) = nonce_dict (?rows @ [(i, n, ts)])"
      using dict_set_fresh [of "nonce_dict ?rows" "(i, n)" ts] nonce_dict_get [of ?rows i n] True by simp
    with True nonce_dict_get [of ?rows i n] nonce_dict_key [of i n ?rows] show ?thesis
      unfolding check_and_record_def sq_check_and_record_def Let_def nonce_dict_simps by simp
  next
    case False
    with nonce_dict_get [of ?rows i n] show ?thesis
      unfolding check_and_record_def sq_check_and_record_def Let_def nonce_dict_simps by simp
  qed
qed

lemma sq_check_prod:
  assumes "sq_check_and_record caps i n ts now skew rows = (b, rows')"
  shows "check_and_record caps i n ts now skew (nonce_dict rows) = (b, nonce_dict rows')"
  using sq_check_refines [of caps i n ts now skew rows] assms by simp

interpretation sq_replay: replay_store "sq_check_and_record caps" "\<lambda>rows. dict_get (nonce_dict rows)"
  "\<lambda>rows. dict_wf (nonce_dict rows)"
proof unfold_locales
  fix rows i n ts now skew assume wf: "dict_wf (nonce_dict rows)"
  obtain b rows' where c: "sq_check_and_record caps i n ts now skew rows = (b, rows')" by (metis surj_pair)
  show "dict_wf (nonce_dict (snd (sq_check_and_record caps i n ts now skew rows)))"
    using check_and_record_wf [OF wf, of caps i n ts now skew] sq_check_prod [OF c] c by simp
next
  fix rows i n ts now skew b rows' k
  assume "dict_wf (nonce_dict rows)" "sq_check_and_record caps i n ts now skew rows = (b, rows')"
  then show "dict_get (nonce_dict rows') k = (if b \<and> k = (i, n) then Some ts
      else (case dict_get (nonce_dict rows) k of None \<Rightarrow> None | Some t \<Rightarrow> if t < now - skew then None else Some t))"
    using check_and_record_purge sq_check_prod by blast
next
  fix rows i n t now skew ts
  assume a: "dict_wf (nonce_dict rows)" "dict_get (nonce_dict rows) (i, n) = Some t" "now - skew \<le> t"
  obtain b rows' where c: "sq_check_and_record caps i n ts now skew rows = (b, rows')" by (metis surj_pair)
  show "\<not> fst (sq_check_and_record caps i n ts now skew rows)"
    using check_and_record_seen [OF a, of caps ts] sq_check_prod [OF c] c by simp
qed

subsection \<open>Honest proofs\<close>

text \<open>The MAC text is ASCII, not empty and free of dots, so a proof splits into its three parts.\<close>

lemma b64_char_mem: "b64_char n \<in> set b64_alphabet"
  unfolding b64_char_def by (rule nth_mem) (simp add: b64_alphabet_def)

lemma urlsafe_b64encode_chars: "set (urlsafe_b64encode bs) \<subseteq> insert CHR ''='' (set b64_alphabet)"
  by (induction bs rule: urlsafe_b64encode.induct) (auto simp: Let_def b64_char_mem)

lemma b64_alphabet_ascii: "c \<in> insert CHR ''='' (set b64_alphabet) \<Longrightarrow> (of_char c :: nat) < 128 \<and> c \<noteq> CHR ''.''"
  by (auto simp: b64_alphabet_def)

lemma b64_alphabet_pad: "c \<in> set b64_alphabet \<Longrightarrow> c \<noteq> CHR ''=''"
  by (auto simp: b64_alphabet_def)

lemma rstrip_char_set: "set (rstrip_char c s) \<subseteq> set s"
  using set_dropWhileD by (fastforce simp: rstrip_char_def)

lemma rstrip_char_ne: "s \<noteq> [] \<Longrightarrow> hd s \<noteq> c \<Longrightarrow> rstrip_char c s \<noteq> []"
  by (cases s) (auto simp: rstrip_char_def dropWhile_eq_Nil_conv)

lemma pop_mac_chars:
  shows "is_ascii (pop_mac secret m)" "CHR ''.'' \<notin> set (pop_mac secret m)" "pop_mac secret m \<noteq> []"
proof -
  let ?e = "urlsafe_b64encode (hmac_sha256 (utf8 secret) m)"
  have sub: "set (pop_mac secret m) \<subseteq> insert CHR ''='' (set b64_alphabet)"
    unfolding pop_mac_def using rstrip_char_set urlsafe_b64encode_chars by (rule subset_trans)
  then show "is_ascii (pop_mac secret m)" "CHR ''.'' \<notin> set (pop_mac secret m)"
    using b64_alphabet_ascii by (auto simp: is_ascii_def)
  have "length (hmac_sha256 (utf8 secret) m) = 32" by (simp add: hmac_sha256_def Let_def)
  then obtain a b c rest where h: "hmac_sha256 (utf8 secret) m = a # b # c # rest"
    by (cases "hmac_sha256 (utf8 secret) m" rule: urlsafe_b64encode.cases) auto
  have "hd ?e \<noteq> CHR ''=''" unfolding h using b64_alphabet_pad b64_char_mem by (simp add: Let_def)
  moreover have "?e \<noteq> []" unfolding h by (simp add: Let_def)
  ultimately show "pop_mac secret m \<noteq> []" unfolding pop_mac_def by (intro rstrip_char_ne)
qed

definition make_proof :: "string \<Rightarrow> bytes \<Rightarrow> int \<Rightarrow> string \<Rightarrow> string" where
  "make_proof secret canonical ts nonce = py_str_int ts @ ''.'' @ nonce @ ''.'' @ pop_mac secret canonical"

lemma py_str_int_no_dot: "CHR ''.'' \<notin> set (py_str_int n)"
proof -
  have "\<not> is_digit CHR ''.''" by (simp add: is_digit_def)
  then show ?thesis using nat_digits_are_digits by (auto simp: py_str_int_def)
qed

lemma py_strip_Nil: "py_strip s = [] \<Longrightarrow> \<forall>c\<in>set s. is_space c"
proof -
  assume "py_strip s = []"
  then have "\<forall>c\<in>set (dropWhile is_space s). is_space c"
    by (simp add: py_strip_def dropWhile_eq_Nil_conv)
  then have "dropWhile is_space s = []"
    by (metis hd_dropWhile list.set_sel(1))
  then show ?thesis by (simp add: dropWhile_eq_Nil_conv)
qed

lemma split_make_proof:
  assumes "CHR ''.'' \<notin> set nonce"
  shows "split_on CHR ''.'' (make_proof secret canonical ts nonce)
     = [py_str_int ts, nonce, pop_mac secret canonical]"
proof -
  have "split_on CHR ''.'' (py_str_int ts @ CHR ''.'' # nonce @ CHR ''.'' # pop_mac secret canonical)
      = [py_str_int ts] @ [nonce] @ [pop_mac secret canonical]"
    unfolding split_on_append_sep using py_str_int_no_dot assms pop_mac_chars(2) by simp
  then show ?thesis by (simp add: make_proof_def)
qed

lemma verify_make_proof:
  assumes can: "pop_canonical action resource ts nonce i = Inr canonical"
    and n: "nonce \<noteq> []" "CHR ''.'' \<notin> set nonce"
    and fresh: "\<bar>timestamp_int now - ts\<bar> \<le> skew"
    and int: "py_int (py_str_int ts) = Some ts"
  shows "verify_pop check (Some (make_proof secret canonical ts nonce)) secret i action resource now skew c
     = (case check i nonce ts (timestamp_int now) skew c of (b, c') \<Rightarrow> (Inr b, c'))"
proof -
  have "CHR ''.'' \<in> set (make_proof secret canonical ts nonce)" by (simp add: make_proof_def)
  then have "py_strip (make_proof secret canonical ts nonce) \<noteq> []"
    using py_strip_Nil by (force simp: is_space_def)
  then show ?thesis
    using can n fresh int pop_mac_chars by (simp add: verify_pop_def split_make_proof [OF n(2)] Let_def)
qed

subsection \<open>One use per proof\<close>

record pop_attempt =
  pa_proof :: "string option"
  pa_secret :: string
  pa_token_id :: string
  pa_action :: string
  pa_resource :: string
  pa_now :: instant

definition pop_try ::
  "(string \<Rightarrow> string \<Rightarrow> int \<Rightarrow> int \<Rightarrow> int \<Rightarrow> 'c \<Rightarrow> bool \<times> 'c) \<Rightarrow> int \<Rightarrow> pop_attempt \<Rightarrow> 'c \<Rightarrow> (exn + bool) \<times> 'c" where
  "pop_try check skew a c =
     verify_pop check (pa_proof a) (pa_secret a) (pa_token_id a) (pa_action a) (pa_resource a) (pa_now a) skew c"

fun pop_after ::
  "(string \<Rightarrow> string \<Rightarrow> int \<Rightarrow> int \<Rightarrow> int \<Rightarrow> 'c \<Rightarrow> bool \<times> 'c) \<Rightarrow> int \<Rightarrow> pop_attempt list \<Rightarrow> 'c \<Rightarrow> 'c" where
  "pop_after check skew [] c = c"
| "pop_after check skew (a # as) c = pop_after check skew as (snd (pop_try check skew a c))"

text \<open>The timestamp and the nonce of a proof.\<close>

definition pop_parts :: "string option \<Rightarrow> (int \<times> string) option" where
  "pop_parts pf =
     (case pf of None \<Rightarrow> None
      | Some p \<Rightarrow> (case split_on CHR ''.'' p of
                     [ts_raw, nonce, mac] \<Rightarrow> map_option (\<lambda>ts. (ts, nonce)) (py_int ts_raw)
                   | _ \<Rightarrow> None))"

context replay_store
begin

lemma pop_after_live:
  assumes "ok c" "live c k = Some t" "\<forall>a\<in>set as. timestamp_int (pa_now a) - skew \<le> t"
  shows "ok (pop_after check skew as c) \<and> live (pop_after check skew as c) k = Some t"
  using assms
proof (induction as arbitrary: c)
  case (Cons a as)
  show ?case
    unfolding pop_after.simps
    by (rule Cons.IH)
      (use Cons.prems verify_pop_ok verify_pop_keeps_live in \<open>auto simp: pop_try_def\<close>)
qed simp

lemma pop_accepted_parts:
  assumes "pop_try check skew a c = (Inr True, c')"
  obtains ts n where "pop_parts (pa_proof a) = Some (ts, n)" "\<bar>timestamp_int (pa_now a) - ts\<bar> \<le> skew"
    "check (pa_token_id a) n ts (timestamp_int (pa_now a)) skew c = (True, c')"
proof -
  show ?thesis
    using assms [unfolded pop_try_def]
  proof (cases rule: verify_pop_cases)
    case untouched
    then show ?thesis by simp
  next
    case (checked p ts_raw n mac ts b canonical)
    then show ?thesis by (intro that [of ts n]) (auto simp: pop_parts_def)
  qed
qed

lemma pop_single_use:
  assumes c: "ok c" and a: "pop_try check skew a c = (Inr True, c1)"
    and b: "fst (pop_try check skew b (pop_after check skew mid c1)) = Inr True"
    and clock: "\<forall>x\<in>set mid. timestamp_int (pa_now x) \<le> timestamp_int (pa_now b)"
    and tok: "pa_token_id a = pa_token_id b"
    and na: "pop_parts (pa_proof a) = Some (ts, n)" and nb: "pop_parts (pa_proof b) = Some (ts', n)"
  shows "ts < timestamp_int (pa_now b) - skew"
proof (rule ccontr)
  assume fresh: "\<not> ts < timestamp_int (pa_now b) - skew"
  have c1: "check (pa_token_id a) n ts (timestamp_int (pa_now a)) skew c = (True, c1)"
    by (rule pop_accepted_parts [OF a]) (use na in simp)
  have "ok c1" "live c1 (pa_token_id a, n) = Some ts"
    using check_ok [OF c, of "pa_token_id a" n ts "timestamp_int (pa_now a)" skew] check_live [OF c c1] c1 by auto
  then have l: "ok (pop_after check skew mid c1) \<and> live (pop_after check skew mid c1) (pa_token_id a, n) = Some ts"
    by (rule pop_after_live) (use clock fresh in force)
  obtain c2 where b2: "pop_try check skew b (pop_after check skew mid c1) = (Inr True, c2)"
    using b by (cases "pop_try check skew b (pop_after check skew mid c1)") auto
  have "check (pa_token_id b) n ts' (timestamp_int (pa_now b)) skew (pop_after check skew mid c1) = (True, c2)"
    by (rule pop_accepted_parts [OF b2]) (use nb in simp)
  moreover have "\<not> fst (check (pa_token_id b) n ts' (timestamp_int (pa_now b)) skew (pop_after check skew mid c1))"
    by (rule check_seen [of _ _ _ ts]) (use l fresh tok in simp_all)
  ultimately show False by simp
qed

lemma pop_no_replay:
  assumes c: "ok c" and a: "pop_try check skew a c = (Inr True, c1)"
    and b: "fst (pop_try check skew b (pop_after check skew mid c1)) = Inr True"
    and clock: "\<forall>x\<in>set mid. timestamp_int (pa_now x) \<le> timestamp_int (pa_now b)"
    and tok: "pa_token_id a = pa_token_id b"
  shows "pa_proof a \<noteq> pa_proof b"
proof
  assume eq: "pa_proof a = pa_proof b"
  obtain c2 where b2: "pop_try check skew b (pop_after check skew mid c1) = (Inr True, c2)"
    using b by (cases "pop_try check skew b (pop_after check skew mid c1)") auto
  obtain ts n where p: "pop_parts (pa_proof b) = Some (ts, n)" "\<bar>timestamp_int (pa_now b) - ts\<bar> \<le> skew"
    by (rule pop_accepted_parts [OF b2])
  have "ts < timestamp_int (pa_now b) - skew"
    using pop_single_use [OF c a b clock tok] p(1) eq by simp
  with p(2) show False by linarith
qed

end

text \<open>
  (C5) A proof of possession is accepted once. After it has been accepted for a token, and as
  long as the clock does not run back behind the attempts in between, the same proof is
  refused whatever the request; and its nonce is refused too, with any timestamp, until the
  accepted proof has left the freshness window. This holds of the in-memory cache and of the
  SQLite store, whatever the caps and whatever other attempts come in between.
\<close>

theorem pop_proof_accepted_once:
  assumes "dict_wf seen"
    and "pop_try (check_and_record caps) skew a seen = (Inr True, seen1)"
    and "fst (pop_try (check_and_record caps) skew b (pop_after (check_and_record caps) skew mid seen1)) = Inr True"
    and "\<forall>x\<in>set mid. timestamp_int (pa_now x) \<le> timestamp_int (pa_now b)"
    and "pa_token_id a = pa_token_id b"
  shows "pa_proof a \<noteq> pa_proof b
     \<and> (\<forall>ts ts' n. pop_parts (pa_proof a) = Some (ts, n) \<and> pop_parts (pa_proof b) = Some (ts', n)
           \<longrightarrow> ts < timestamp_int (pa_now b) - skew)"
  using im_replay.pop_no_replay [OF assms] im_replay.pop_single_use [OF assms] by blast

text \<open>
  (C39) A proof made with the token's secret for the request at hand is accepted when it is used
  in the freshness window, with a nonce the store does not remember, as long as neither the
  token's own cap nor the global cap is full; afterwards the nonce is remembered.
\<close>

theorem pop_honest_proof_accepted:
  assumes wf: "dict_wf seen"
    and can: "pop_canonical action resource ts nonce token_id = Inr canonical"
    and n: "nonce \<noteq> []" "CHR ''.'' \<notin> set nonce" and digits: "length (py_str_int ts) \<le> 4300"
    and fresh: "\<bar>timestamp_int now - ts\<bar> \<le> skew"
    and unused: "dict_get seen (token_id, nonce) = None"
    and room: "int (length (filter (\<lambda>(k, _). fst k = token_id) seen)) < rc_max_per_token caps"
      "int (length seen) < rc_max_entries caps"
  shows "\<exists>seen'. verify_pop (check_and_record caps) (Some (make_proof secret canonical ts nonce)) secret token_id
            action resource now skew seen = (Inr True, seen')
          \<and> dict_get seen' (token_id, nonce) = Some ts"
proof -
  let ?keep = "\<lambda>(k :: string \<times> string, t :: int). \<not> t < timestamp_int now - skew"
  have "dict_get (filter ?keep seen) (token_id, nonce) = None"
    using dict_get_filter [OF wf] unused by simp
  moreover have "int (length (filter (\<lambda>(k, _). fst k = token_id) (filter ?keep seen))) < rc_max_per_token caps"
    using room(1) length_filter_filter_le [of "\<lambda>(k, _). fst k = token_id" ?keep seen] by linarith
  moreover have "int (length (filter ?keep seen)) < rc_max_entries caps"
    using room(2) length_filter_le [of ?keep seen] by linarith
  ultimately have "check_and_record caps token_id nonce ts (timestamp_int now) skew seen
      = (True, dict_set (token_id, nonce) ts (filter ?keep seen))"
    by (simp add: check_and_record_def Let_def)
  then show ?thesis by (simp add: verify_make_proof [OF can n fresh py_int_py_str_int [OF digits]])
qed

lemma example_canonical:
  "\<exists>c. pop_canonical ''read'' ''a/b'' 7 [x] ''t'' = Inr c" "length (py_str_int 7) \<le> 4300"
proof -
  have len: "length (utf8 s) \<le> 2 * length s" for s
    by (induction s) (auto simp: utf8_char_def Let_def)
  have nd: "py_str_int 7 = ''7''" by code_simp
  then show "length (py_str_int 7) \<le> 4300" by simp
  show "\<exists>c. pop_canonical ''read'' ''a/b'' 7 [x] ''t'' = Inr c"
    using len [of "''read''"] len [of "''a/b''"] len [of "''7''"] len [of "[x]"] len [of "''t''"]
    by (simp add: pop_canonical_def nd)
qed

theorem pop_honest_proof_accepted_witness:
  "\<exists>c seen'. verify_pop (check_and_record \<lparr>rc_max_entries = 9, rc_max_per_token = 3\<rparr>)
      (Some (make_proof ''s'' c 7 ''n'')) ''s'' ''t'' ''read'' ''a/b'' 7000000 30 [] = (Inr True, seen')"
proof -
  obtain c where c: "pop_canonical ''read'' ''a/b'' 7 ''n'' ''t'' = Inr c" using example_canonical(1) by blast
  have "\<exists>seen'. verify_pop (check_and_record \<lparr>rc_max_entries = 9, rc_max_per_token = 3\<rparr>)
      (Some (make_proof ''s'' c 7 ''n'')) ''s'' ''t'' ''read'' ''a/b'' 7000000 30 [] = (Inr True, seen')
      \<and> dict_get seen' (''t'', ''n'') = Some 7"
    by (rule pop_honest_proof_accepted [OF _ c])
      (use example_canonical(2) in \<open>simp_all add: timestamp_int_def\<close>)
  then show ?thesis by blast
qed

definition example_attempt :: "string \<Rightarrow> string \<Rightarrow> pop_attempt" where
  "example_attempt p nonce =
     \<lparr>pa_proof = Some p, pa_secret = ''s'', pa_token_id = ''t'', pa_action = ''read'', pa_resource = ''a/b'',
      pa_now = 7000000\<rparr>"

theorem pop_proof_accepted_once_witness:
  "\<exists>p q. fst (pop_try (check_and_record \<lparr>rc_max_entries = 9, rc_max_per_token = 3\<rparr>) 30 (example_attempt p ''n'') [])
        = Inr True \<and> p \<noteq> q"
proof -
  let ?check = "check_and_record \<lparr>rc_max_entries = 9, rc_max_per_token = 3\<rparr>"
  obtain c where c: "pop_canonical ''read'' ''a/b'' 7 ''n'' ''t'' = Inr c" using example_canonical(1) by blast
  obtain d where d: "pop_canonical ''read'' ''a/b'' 7 ''m'' ''t'' = Inr d" using example_canonical(1) by blast
  let ?p = "make_proof ''s'' c 7 ''n''" and ?q = "make_proof ''s'' d 7 ''m''"
  have int: "py_int (py_str_int 7) = Some 7" using py_int_py_str_int [OF example_canonical(2)] .
  have t: "timestamp_int 7000000 = 7" by (simp add: timestamp_int_def)
  have a: "pop_try ?check 30 (example_attempt ?p ''n'') [] = (Inr True, [((''t'', ''n''), 7)])"
    using verify_make_proof [OF c _ _ _ int, of 7000000 30 ?check "''s''" "[]"]
    by (simp add: pop_try_def example_attempt_def t check_and_record_def)
  have b: "fst (pop_try ?check 30 (example_attempt ?q ''m'') (pop_after ?check 30 [] [((''t'', ''n''), 7)])) = Inr True"
    using verify_make_proof [OF d _ _ _ int, of 7000000 30 ?check "''s''" "[((''t'', ''n''), 7)]"]
    by (simp add: pop_try_def example_attempt_def t check_and_record_def)
  have "?p \<noteq> ?q"
    using pop_proof_accepted_once [OF dict_wf_Nil a b] by (simp add: example_attempt_def)
  with a show ?thesis by (metis fst_conv)
qed

text \<open>
  The SQLite replay store is a drop-in for the in-memory cache: on the dictionary its rows
  stand for, every check gives the same answer and leaves the same nonces. And both stay
  within their caps: a check never lets a token hold more nonces than its own cap, nor the
  store more than the global one.
\<close>

theorem sqlite_replay_store_equals_cache:
  assumes caps: "0 \<le> rc_max_per_token caps" "0 \<le> rc_max_entries caps"
    and within: "int (length rows) \<le> rc_max_entries caps"
      "int (length (filter (\<lambda>(i, _, _). i = token) rows)) \<le> rc_max_per_token caps"
    and c: "sq_check_and_record caps token_id nonce ts now_unix skew rows = (accepted, rows')"
  shows "check_and_record caps token_id nonce ts now_unix skew (nonce_dict rows) = (accepted, nonce_dict rows')
     \<and> int (length rows') \<le> rc_max_entries caps
     \<and> int (length (filter (\<lambda>(i, _, _). i = token) rows')) \<le> rc_max_per_token caps"
proof -
  let ?rows1 = "filter (\<lambda>(_, _, t). \<not> t < now_unix - skew) rows"
  have "length ?rows1 \<le> length rows"
    "length (filter (\<lambda>(i, _, _). i = token) ?rows1) \<le> length (filter (\<lambda>(i, _, _). i = token) rows)"
    by (rule length_filter_le, rule length_filter_filter_le)
  then have w1: "int (length ?rows1) \<le> rc_max_entries caps"
      "int (length (filter (\<lambda>(i, _, _). i = token) ?rows1)) \<le> rc_max_per_token caps"
    using within by linarith+
  have "rows' = ?rows1 \<or> (rows' = ?rows1 @ [(token_id, nonce, ts)] \<and> int (length ?rows1) < rc_max_entries caps
      \<and> int (length (filter (\<lambda>(i, _, _). i = token_id) ?rows1)) < rc_max_per_token caps)"
    using c by (auto simp: sq_check_and_record_def Let_def split: if_splits)
  with w1 have "int (length rows') \<le> rc_max_entries caps
      \<and> int (length (filter (\<lambda>(i, _, _). i = token) rows')) \<le> rc_max_per_token caps"
    by (elim disjE) auto
  with sq_check_prod [OF c] show ?thesis by simp
qed

theorem sqlite_replay_store_equals_cache_witness:
  "check_and_record \<lparr>rc_max_entries = 2, rc_max_per_token = 1\<rparr> ''t'' ''n'' 5 5 30 (nonce_dict [])
     = (True, nonce_dict [(''t'', ''n'', 5)])"
proof -
  have "sq_check_and_record \<lparr>rc_max_entries = 2, rc_max_per_token = 1\<rparr> ''t'' ''n'' 5 5 30 []
      = (True, [(''t'', ''n'', 5)])"
    by (simp add: sq_check_and_record_def)
  from sqlite_replay_store_equals_cache [OF _ _ _ _ this, of "''t''"] show ?thesis by simp
qed

end
