(* ===== verification/SubjectTokens.thy ===== *)
theory SubjectTokens
  imports Grants Pop
begin

section \<open>Subject tokens\<close>

text \<open>
  \<^verbatim>\<open>src/vinctor_service/subject_tokens.py\<close>, the in-memory token repository of \<^verbatim>\<open>repositories.py\<close>,
  and \<^verbatim>\<open>_hash_key\<close>, \<^verbatim>\<open>_new_key\<close> of \<^verbatim>\<open>keys.py\<close>. The \<^verbatim>\<open>atomic\<close> argument of the mint is a flag: with a
  transaction, an exception in the scope restores both stores. Tokens drawn: \<open>rnd 0\<close> the raw
  token, \<open>rnd 1\<close> its id, \<open>rnd 2\<close> the secret, \<open>rnd 3\<close> the event id.
\<close>

definition hash_key :: "string \<Rightarrow> string" where
  "hash_key raw_key = hexdigest (sha256 (utf8 raw_key))"

definition new_key :: "string \<Rightarrow> string \<Rightarrow> string" where
  "new_key kind tok = kind @ tok"

subsection \<open>The repository\<close>

record 't SubjectTokenRepository =
  tr_insert :: "SubjectToken \<Rightarrow> 't \<Rightarrow> exn option \<times> 't"
  tr_get_by_hash :: "'t \<Rightarrow> string \<Rightarrow> SubjectToken option"
  tr_get_by_id :: "'t \<Rightarrow> string \<Rightarrow> SubjectToken option"
  tr_revoke :: "string \<Rightarrow> instant \<Rightarrow> 't \<Rightarrow> bool \<times> 't"
  tr_list_subject_tokens :: "'t \<Rightarrow> string \<Rightarrow> SubjectToken list"

type_synonym tokens_by_hash = "(string, SubjectToken) dict"

definition im_insert_token :: "SubjectToken \<Rightarrow> tokens_by_hash \<Rightarrow> exn option \<times> tokens_by_hash" where
  "im_insert_token token store =
     (if dict_get store (st_token_hash token) \<noteq> None
      then (Some (ValueError (''duplicate subject token_hash: '' @ st_token_hash token)), store)
      else (None, dict_set (st_token_hash token) token store))"

definition im_get_by_hash :: "tokens_by_hash \<Rightarrow> string \<Rightarrow> SubjectToken option" where
  "im_get_by_hash store token_hash = dict_get store token_hash"

definition im_get_by_id :: "tokens_by_hash \<Rightarrow> string \<Rightarrow> SubjectToken option" where
  "im_get_by_id store token_id = find_first (\<lambda>token. st_token_id token = token_id) (dict_values store)"

definition im_revoke_token :: "string \<Rightarrow> instant \<Rightarrow> tokens_by_hash \<Rightarrow> bool \<times> tokens_by_hash" where
  "im_revoke_token token_id now store =
     (case find_first (\<lambda>(token_hash, token). st_token_id token = token_id) store of
        None \<Rightarrow> (False, store)
      | Some (token_hash, token) \<Rightarrow>
          (True, dict_set token_hash (token\<lparr>st_revoked_at := Some now\<rparr>) store))"

definition im_list_subject_tokens :: "tokens_by_hash \<Rightarrow> string \<Rightarrow> SubjectToken list" where
  "im_list_subject_tokens store workspace_id =
     sort_key st_issued_at (filter (\<lambda>token. st_workspace_id token = workspace_id) (dict_values store))"

definition InMemorySubjectTokenRepository :: "tokens_by_hash SubjectTokenRepository" where
  "InMemorySubjectTokenRepository =
     \<lparr>tr_insert = im_insert_token, tr_get_by_hash = im_get_by_hash, tr_get_by_id = im_get_by_id,
      tr_revoke = im_revoke_token, tr_list_subject_tokens = im_list_subject_tokens\<rparr>"

subsection \<open>Minting\<close>

record SubjectTokenMintResult =
  mr_status :: string
  mr_token :: "string option"
  mr_token_id :: "string option"
  mr_expires_at :: "instant option"
  mr_pop_secret :: "string option"

definition grant_is_valid :: "Grant \<Rightarrow> instant \<Rightarrow> bool" where
  "grant_is_valid grant now =
     (if g_status grant \<in> {''revoked'', ''expired''} \<or> g_status grant \<noteq> ''active'' then False
      else \<not> (case g_expires_at grant of None \<Rightarrow> False | Some e \<Rightarrow> e \<le> now))"

definition subject_token_minted_event :: "SubjectToken \<Rightarrow> instant \<Rightarrow> entropy \<Rightarrow> AuditEvent" where
  "subject_token_minted_event token now rnd =
     \<lparr>ae_event_id = ''evt_'' @ rnd 3,
      ae_event_type = EVENT_SUBJECT_TOKEN_MINTED,
      ae_decision = Permit,
      ae_reason = EVENT_SUBJECT_TOKEN_MINTED,
      ae_workspace_id = st_workspace_id token,
      ae_agent_id = st_agent_id token,
      ae_grant_id = [],
      ae_grant_ref = st_grant_ref token,
      ae_action = [], ae_resource = [], ae_scope_attempted = [], ae_scope_matched = None,
      ae_boundary_id = None, ae_runtime = None, ae_boundary_type = None,
      ae_created_at = now,
      ae_enforcing_principal = None, ae_reason_code = None, ae_occurrence_count = None,
      ae_first_seen_at = None, ae_last_seen_at = None, ae_subject_token_verified = False,
      ae_token_id = Some (st_token_id token), ae_event_class = ''decision''\<rparr>"

record mint_args =
  mi_workspace_id :: string
  mi_agent_id :: string
  mi_grant_ref :: string
  mi_audience :: string
  mi_ttl_seconds :: int
  mi_now :: instant
  mi_bound_action :: "string option"
  mi_bound_resource :: "string option"
  mi_pop :: bool

definition mint_rejection_event :: "mint_args \<Rightarrow> entropy \<Rightarrow> AuditEvent" where
  "mint_rejection_event a rnd =
     build_rejection_audit_event
       ((rejection REASON_AGENT_GRANT_MISMATCH (mi_workspace_id a) (mi_agent_id a) (mi_now a))
          \<lparr>ra_action := ''mint_subject_token'', ra_resource := ''audience/'' @ mi_audience a,
           ra_scope_attempted := Some (case (mi_bound_action a, mi_bound_resource a) of
              (Some act, Some res) \<Rightarrow> act @ '':'' @ res | _ \<Rightarrow> [])\<rparr>) (\<lambda>i. rnd 3)"

definition mint_expiry :: "mint_args \<Rightarrow> Grant \<Rightarrow> instant" where
  "mint_expiry a grant =
     (let expires_at = mi_now a + timedelta_seconds (mi_ttl_seconds a)
      in case g_expires_at grant of
           None \<Rightarrow> expires_at
         | Some e \<Rightarrow> if e < expires_at then e else expires_at)"

definition build_subject_token :: "mint_args \<Rightarrow> Grant \<Rightarrow> entropy \<Rightarrow> SubjectToken" where
  "build_subject_token a grant rnd =
     \<lparr>st_token_id = new_key ''vtk_'' (rnd 1),
      st_token_hash = hash_key (new_key ''vat_'' (rnd 0)),
      st_workspace_id = mi_workspace_id a,
      st_agent_id = mi_agent_id a,
      st_grant_ref = mi_grant_ref a,
      st_audience = mi_audience a,
      st_issued_at = mi_now a,
      st_expires_at = mint_expiry a grant,
      st_created_by = mi_agent_id a,
      st_revoked_at = None,
      st_bound_action = mi_bound_action a,
      st_bound_resource = mi_bound_resource a,
      st_pop_secret = (if mi_pop a then Some (rnd 2) else None)\<rparr>"

definition mint_subject_token ::
  "mint_args \<Rightarrow> (string \<Rightarrow> Grant option) \<Rightarrow> 't SubjectTokenRepository \<Rightarrow> 's AuditWriter \<Rightarrow> bool \<Rightarrow> entropy
     \<Rightarrow> 't \<times> 's \<Rightarrow> (exn + SubjectTokenMintResult) \<times> 't \<times> 's" where
  "mint_subject_token a get_by_ref token_repository audit_writer atomic rnd st =
     (case st of (t, s) \<Rightarrow>
        if (mi_bound_action a = None) \<noteq> (mi_bound_resource a = None)
        then (Inl (ValueError ''bound_action and bound_resource must be set together''), t, s)
        else
          case (case get_by_ref (mi_grant_ref a) of
                  None \<Rightarrow> None
                | Some grant \<Rightarrow>
                    if g_agent_id grant \<noteq> mi_agent_id a \<or> g_workspace_id grant \<noteq> mi_workspace_id a
                       \<or> \<not> grant_is_valid grant (mi_now a) then None else Some grant) of
            None \<Rightarrow>
              (Inr \<lparr>mr_status = ''forbidden'', mr_token = None, mr_token_id = None, mr_expires_at = None,
                    mr_pop_secret = None\<rparr>,
               t, snd (record_rejection audit_writer (mint_rejection_event a rnd) s))
          | Some grant \<Rightarrow>
              let token = build_subject_token a grant rnd
              in (case tr_insert token_repository token t of
                    (Some e, t') \<Rightarrow> (Inl e, if atomic then t else t', s)
                  | (None, t') \<Rightarrow>
                      (case aw_write audit_writer (subject_token_minted_event token (mi_now a) rnd) s of
                         (Some e, s') \<Rightarrow> (Inl e, if atomic then (t, s) else (t', s'))
                       | (None, s') \<Rightarrow>
                           (Inr \<lparr>mr_status = ''minted'', mr_token = Some (new_key ''vat_'' (rnd 0)),
                                 mr_token_id = Some (st_token_id token),
                                 mr_expires_at = Some (st_expires_at token),
                                 mr_pop_secret = st_pop_secret token\<rparr>, t', s'))))"

subsection \<open>What is minted\<close>

definition mintable :: "mint_args \<Rightarrow> (string \<Rightarrow> Grant option) \<Rightarrow> Grant \<Rightarrow> bool" where
  "mintable a get_by_ref grant \<longleftrightarrow>
     get_by_ref (mi_grant_ref a) = Some grant \<and> g_agent_id grant = mi_agent_id a
     \<and> g_workspace_id grant = mi_workspace_id a \<and> grant_is_valid grant (mi_now a)"

lemma mint_forbidden:
  assumes "\<nexists>grant. mintable a get_by_ref grant" "(mi_bound_action a = None) = (mi_bound_resource a = None)"
  shows "mint_subject_token a get_by_ref trepo writer atomic rnd (t, s) =
     (Inr \<lparr>mr_status = ''forbidden'', mr_token = None, mr_token_id = None, mr_expires_at = None, mr_pop_secret = None\<rparr>,
      t, snd (record_rejection writer (mint_rejection_event a rnd) s))"
  using assms by (auto simp: mint_subject_token_def mintable_def split: option.splits)

text \<open>
  (C33) Every minted subject token is bound to a grant of the caller that is live at that moment,
  carries the caller's workspace, agent and grant reference, and never outlives the grant;
  it is stored under the hash of the raw token, which is handed out once, and its minting is
  recorded. When minting is refused, the answer, the token store and the audit record are
  the same for an unknown, a foreign, a revoked and an expired grant.
\<close>

theorem minted_tokens_are_bound_to_live_grants:
  assumes m: "mint_subject_token a get_by_ref InMemorySubjectTokenRepository InMemoryAuditWriter atomic rnd (t, s)
                = (Inr r, t', s')"
  shows "if mr_status r = ''minted''
     then \<exists>grant token event.
            mintable a get_by_ref grant \<and> dict_get t (st_token_hash token) = None
          \<and> t' = dict_set (st_token_hash token) token t \<and> s' = s @ [event]
          \<and> (\<exists>raw. mr_token r = Some raw \<and> st_token_hash token = hash_key raw)
          \<and> st_workspace_id token = g_workspace_id grant \<and> st_agent_id token = g_agent_id grant
          \<and> st_grant_ref token = mi_grant_ref a \<and> st_audience token = mi_audience a
          \<and> (\<forall>e. g_expires_at grant = Some e \<longrightarrow> st_expires_at token \<le> e)
          \<and> st_expires_at token \<le> mi_now a + timedelta_seconds (mi_ttl_seconds a)
          \<and> ae_event_type event = EVENT_SUBJECT_TOKEN_MINTED \<and> ae_token_id event = Some (st_token_id token)
     else (\<forall>get_by_ref'. (\<nexists>grant. mintable a get_by_ref' grant) \<longrightarrow>
             mint_subject_token a get_by_ref' InMemorySubjectTokenRepository InMemoryAuditWriter atomic rnd (t, s)
               = (Inr r, t', s')) \<and> t' = t \<and> mr_token r = None"
proof -
  have b: "(mi_bound_action a = None) = (mi_bound_resource a = None)"
    using m by (auto simp: mint_subject_token_def split: if_splits)
  show ?thesis
  proof (cases "\<exists>grant. mintable a get_by_ref grant")
    case False
    with m mint_forbidden [OF False b, of InMemorySubjectTokenRepository InMemoryAuditWriter atomic rnd t s]
      mint_forbidden [OF _ b, of _ InMemorySubjectTokenRepository InMemoryAuditWriter atomic rnd t s]
    show ?thesis by auto
  next
    case True
    then obtain grant where g: "mintable a get_by_ref grant" by blast
    let ?token = "build_subject_token a grant rnd"
    let ?event = "subject_token_minted_event ?token (mi_now a) rnd"
    have ins: "dict_get t (st_token_hash ?token) = None" "t' = dict_set (st_token_hash ?token) ?token t"
        "s' = s @ [?event]" "mr_token r = Some (new_key ''vat_'' (rnd 0))" "mr_status r = ''minted''"
      using m b g
      by (auto simp: mint_subject_token_def mintable_def InMemorySubjectTokenRepository_def im_insert_token_def
          InMemoryAuditWriter_def InMemoryAuditWriter_write_def Let_def split: if_splits)
    have exp: "\<forall>e. g_expires_at grant = Some e \<longrightarrow> mint_expiry a grant \<le> e"
        "mint_expiry a grant \<le> mi_now a + timedelta_seconds (mi_ttl_seconds a)"
      by (auto simp: mint_expiry_def Let_def split: option.splits)
    have tok: "st_token_hash ?token = hash_key (new_key ''vat_'' (rnd 0))" "st_workspace_id ?token = g_workspace_id grant"
        "st_agent_id ?token = g_agent_id grant" "st_grant_ref ?token = mi_grant_ref a"
        "st_audience ?token = mi_audience a" "st_expires_at ?token = mint_expiry a grant"
      using g by (auto simp: build_subject_token_def mintable_def)
    have ev: "ae_event_type ?event = EVENT_SUBJECT_TOKEN_MINTED" "ae_token_id ?event = Some (st_token_id ?token)"
      by (simp_all add: subject_token_minted_event_def)
    show ?thesis
      unfolding ins(5) if_True simp_thms
      using g ins tok exp ev by (intro exI [of _ grant] exI [of _ ?token] exI [of _ ?event]) simp
  qed
qed

definition example_mint :: mint_args where
  "example_mint =
     \<lparr>mi_workspace_id = ''ws'', mi_agent_id = ''agent'', mi_grant_ref = ''grt_1'', mi_audience = ''pep'',
      mi_ttl_seconds = 60, mi_now = 5, mi_bound_action = None, mi_bound_resource = None, mi_pop = False\<rparr>"

theorem minted_tokens_are_bound_to_live_grants_witness:
  "\<exists>r t' s'. mint_subject_token example_mint (\<lambda>_. Some (build_issued_grant example_issue_request 0 (\<lambda>_. ''r'')))
       InMemorySubjectTokenRepository InMemoryAuditWriter False (\<lambda>_. ''r'') ([], []) = (Inr r, t', s')
     \<and> mr_status r = ''minted'' \<and> (\<exists>token. t' = [(st_token_hash token, token)] \<and> st_agent_id token = ''agent'')"
proof -
  let ?g = "build_issued_grant example_issue_request 0 (\<lambda>_. ''r'')"
  let ?m = "mint_subject_token example_mint (\<lambda>_. Some ?g) InMemorySubjectTokenRepository InMemoryAuditWriter False
      (\<lambda>_. ''r'') ([], [])"
  have g: "g_agent_id ?g = ''agent''" "g_workspace_id ?g = ''ws''" "grant_is_valid ?g 5"
    by (simp_all add: build_issued_grant_def example_issue_request_def grant_is_valid_def timedelta_seconds_def
        applied_ttl_def)
  obtain r t' s' where m: "?m = (Inr r, t', s')" "mr_status r = ''minted''"
    using g by (simp add: mint_subject_token_def example_mint_def InMemorySubjectTokenRepository_def
        im_insert_token_def InMemoryAuditWriter_def InMemoryAuditWriter_write_def Let_def)
  from minted_tokens_are_bound_to_live_grants [OF m(1)] m(2)
  obtain grant token where "mintable example_mint (\<lambda>_. Some ?g) grant" "t' = dict_set (st_token_hash token) token []"
      "st_agent_id token = g_agent_id grant" by auto
  with m g(1) show ?thesis by (auto simp: mintable_def example_mint_def)
qed

end
