(* ===== verification/Settings.thy ===== *)
theory Settings
  imports Prelude "HOL-Library.List_Lexorder" "HOL-Library.Char_ord" "HOL-Library.Product_Lexorder"
begin

section \<open>Enforcement settings\<close>

text \<open>
  \<^verbatim>\<open>InMemoryAgentEnforcementSettingsRepository\<close> of \<^verbatim>\<open>src/vinctor_service/repositories.py\<close>: three
  mandates (boundary, subject token, proof of possession), each with an override per agent
  and one per workspace, kept under the empty agent id.
\<close>

type_synonym mandate_dict = "(string \<times> string, bool) dict"

record enforcement_settings =
  es_require_boundary :: mandate_dict
  es_require_subject_token :: mandate_dict
  es_require_pop :: mandate_dict

definition settings_init :: enforcement_settings where
  "settings_init = \<lparr>es_require_boundary = [], es_require_subject_token = [], es_require_pop = []\<rparr>"

definition mandate_setting :: "mandate_dict \<Rightarrow> string \<Rightarrow> string \<Rightarrow> bool option" where
  "mandate_setting d workspace_id agent_id = dict_get d (workspace_id, agent_id)"

definition mandate_required :: "mandate_dict \<Rightarrow> string \<Rightarrow> string \<Rightarrow> bool" where
  "mandate_required d workspace_id agent_id =
     (case dict_get d (workspace_id, agent_id) of
        Some agent \<Rightarrow> agent
      | None \<Rightarrow> (case dict_get d (workspace_id, []) of Some v \<Rightarrow> v | None \<Rightarrow> False))"

definition get_require_boundary_setting :: "enforcement_settings \<Rightarrow> string \<Rightarrow> string \<Rightarrow> bool option" where
  "get_require_boundary_setting st = mandate_setting (es_require_boundary st)"

definition is_boundary_required :: "enforcement_settings \<Rightarrow> string \<Rightarrow> string \<Rightarrow> bool" where
  "is_boundary_required st = mandate_required (es_require_boundary st)"

definition get_require_boundary :: "enforcement_settings \<Rightarrow> string \<Rightarrow> string \<Rightarrow> bool" where
  "get_require_boundary st workspace_id agent_id = is_boundary_required st workspace_id agent_id"

definition list_require_boundary :: "enforcement_settings \<Rightarrow> string \<Rightarrow> (string \<times> bool) list" where
  "list_require_boundary st workspace_id =
     sort (map (\<lambda>((ws, agent_id), v). (agent_id, v))
             (filter (\<lambda>((ws, agent_id), v). ws = workspace_id) (es_require_boundary st)))"

definition set_require_boundary :: "string \<Rightarrow> string \<Rightarrow> bool \<Rightarrow> enforcement_settings \<Rightarrow> enforcement_settings" where
  "set_require_boundary workspace_id agent_id require_boundary st =
     st\<lparr>es_require_boundary := dict_set (workspace_id, agent_id) require_boundary (es_require_boundary st)\<rparr>"

definition get_require_subject_token_setting :: "enforcement_settings \<Rightarrow> string \<Rightarrow> string \<Rightarrow> bool option" where
  "get_require_subject_token_setting st = mandate_setting (es_require_subject_token st)"

definition is_subject_token_required :: "enforcement_settings \<Rightarrow> string \<Rightarrow> string \<Rightarrow> bool" where
  "is_subject_token_required st = mandate_required (es_require_subject_token st)"

definition set_require_subject_token ::
  "string \<Rightarrow> string \<Rightarrow> bool \<Rightarrow> enforcement_settings \<Rightarrow> enforcement_settings" where
  "set_require_subject_token workspace_id agent_id require_subject_token st =
     st\<lparr>es_require_subject_token :=
          dict_set (workspace_id, agent_id) require_subject_token (es_require_subject_token st)\<rparr>"

definition get_require_pop_setting :: "enforcement_settings \<Rightarrow> string \<Rightarrow> string \<Rightarrow> bool option" where
  "get_require_pop_setting st = mandate_setting (es_require_pop st)"

definition is_pop_required :: "enforcement_settings \<Rightarrow> string \<Rightarrow> string \<Rightarrow> bool" where
  "is_pop_required st = mandate_required (es_require_pop st)"

definition set_require_pop :: "string \<Rightarrow> string \<Rightarrow> bool \<Rightarrow> enforcement_settings \<Rightarrow> enforcement_settings" where
  "set_require_pop workspace_id agent_id require_pop st =
     st\<lparr>es_require_pop := dict_set (workspace_id, agent_id) require_pop (es_require_pop st)\<rparr>"

lemma mandate_required_set:
  "mandate_required (dict_set (w, a) v d) w' a' =
     (if w' = w \<and> (a' = a \<or> (a = [] \<and> mandate_setting d w' a' = None)) then v
      else mandate_required d w' a')"
  by (auto simp: mandate_required_def mandate_setting_def split: option.split)

text \<open>
  Setting a mandate for one agent makes it effective for that agent and for nobody else;
  setting it for a workspace makes it effective for exactly the agents of that workspace
  without an override of their own. The three mandates do not influence each other.
\<close>

theorem mandates_resolve_agent_over_workspace:
  "is_boundary_required (set_require_boundary w a v st) w' a' =
       (if w' = w \<and> (a' = a \<or> (a = [] \<and> get_require_boundary_setting st w' a' = None)) then v
        else is_boundary_required st w' a')
   \<and> is_subject_token_required (set_require_subject_token w a v st) w' a' =
       (if w' = w \<and> (a' = a \<or> (a = [] \<and> get_require_subject_token_setting st w' a' = None)) then v
        else is_subject_token_required st w' a')
   \<and> is_pop_required (set_require_pop w a v st) w' a' =
       (if w' = w \<and> (a' = a \<or> (a = [] \<and> get_require_pop_setting st w' a' = None)) then v
        else is_pop_required st w' a')
   \<and> is_pop_required (set_require_boundary w a v st) = is_pop_required st
   \<and> is_subject_token_required (set_require_boundary w a v st) = is_subject_token_required st
   \<and> is_boundary_required (set_require_subject_token w a v st) = is_boundary_required st
   \<and> is_pop_required (set_require_subject_token w a v st) = is_pop_required st
   \<and> is_boundary_required (set_require_pop w a v st) = is_boundary_required st
   \<and> is_subject_token_required (set_require_pop w a v st) = is_subject_token_required st"
  unfolding is_boundary_required_def is_subject_token_required_def is_pop_required_def
    set_require_boundary_def set_require_subject_token_def set_require_pop_def
    get_require_boundary_setting_def get_require_subject_token_setting_def get_require_pop_setting_def
  by (intro conjI) (simp_all add: mandate_required_set)

end
