(* ===== verification/V1Enforce.thy ===== *)
theory V1Enforce
  imports SubjectTokens Settings
begin

section \<open>The enforce contract\<close>

text \<open>
  \<^verbatim>\<open>src/vinctor_service/v1_enforce.py\<close>: the decision an agent, or a policy enforcement point on
  behalf of an agent, asks for. The lookups of grants and tokens may raise (\<open>Inl\<close>). The audit
  writer is any record of its methods. The optional collaborators are options: the boundary
  registry, the settings, the token repository, and the replay cache, given by its
  \<^verbatim>\<open>check_and_record\<close>.
\<close>

subsection \<open>The code\<close>

definition GRANT_FORBIDDEN_MESSAGE :: string where
  "GRANT_FORBIDDEN_MESSAGE = ''grant is not accessible for this request''"

definition pre_audit_error :: "int \<Rightarrow> string \<Rightarrow> string \<Rightarrow> V1EnforceResponse" where
  "pre_audit_error status_code error reason =
     \<lparr>ers_status_code = status_code, ers_decision = None, ers_error = Some error, ers_reason = Some reason,
      ers_audit_event_id = None\<rparr>"

definition record_rejection_v1 :: "'s AuditWriter \<Rightarrow> rejection_args \<Rightarrow> entropy \<Rightarrow> 's \<Rightarrow> 's" where
  "record_rejection_v1 audit_writer a rnd s = snd (aw_write audit_writer (build_rejection_audit_event a rnd) s)"

definition invalid_action_reason :: "string \<Rightarrow> string" where
  "invalid_action_reason action =
     (if action = ''push''
      then ''action '' @ quoted ''push'' @ '' is not a recognized v1 action verb; use '' @ quoted ''write''
           @ '' for git push operations''
      else ''action '' @ quoted action @ '' is not a recognized v1 action verb'')"

definition response_from_decision :: "DecisionResult \<Rightarrow> AuditEvent \<Rightarrow> V1EnforceResponse" where
  "response_from_decision decision audit_event =
     (if dr_decision decision = Permit
      then \<lparr>ers_status_code = 200, ers_decision = Some Permit, ers_error = None, ers_reason = None,
            ers_audit_event_id = Some (ae_event_id audit_event)\<rparr>
      else let agent_reason = agent_facing_reason (dr_reason decision)
           in \<lparr>ers_status_code = 403, ers_decision = Some Deny, ers_error = Some agent_reason,
               ers_reason = Some agent_reason, ers_audit_event_id = Some (ae_event_id audit_event)\<rparr>)"

definition v1_enforce_input ::
  "Grant \<Rightarrow> string \<Rightarrow> string \<Rightarrow> string option \<Rightarrow> instant \<Rightarrow> BoundaryLookup option \<Rightarrow> bool \<Rightarrow> EnforceInput" where
  "v1_enforce_input grant action resource boundary_id now boundary_registry require_boundary =
     \<lparr>ei_grant = grant, ei_action = action, ei_resource = resource, ei_now = now, ei_boundary_id = boundary_id,
      ei_boundary_registry = boundary_registry, ei_require_boundary = require_boundary\<rparr>"

definition evaluate_and_record ::
  "EnforceInput \<Rightarrow> 's AuditWriter \<Rightarrow> string option \<Rightarrow> bool \<Rightarrow> string option \<Rightarrow> entropy \<Rightarrow> 's
     \<Rightarrow> V1EnforceResponse \<times> 's" where
  "evaluate_and_record i audit_writer enforcing_principal subject_token_verified token_id rnd s =
     (if \<not> is_valid_requested_action (ei_action i)
      then (pre_audit_error 400 ''scope_invalid'' (invalid_action_reason (ei_action i)), s)
      else if \<not> is_valid_requested_resource (ei_resource i)
      then (pre_audit_error 400 ''scope_invalid''
              (''resource '' @ quoted (ei_resource i) @ '' is not a valid v1 resource path''), s)
      else
        let decision = evaluate_enforce i;
            audit_event = build_audit_event
              \<lparr>aei_decision = decision, aei_event_id = None, aei_created_at = Some (ei_now i),
               aei_enforcing_principal = enforcing_principal,
               aei_subject_token_verified = subject_token_verified, aei_token_id = token_id\<rparr> (ei_now i) rnd
        in (case aw_write audit_writer audit_event s of
              (Some _, s') \<Rightarrow>
                (pre_audit_error 503 ''service_unavailable'' ''audit write failed; no decision was recorded'', s')
            | (None, s') \<Rightarrow> (response_from_decision decision audit_event, s')))"

definition enforce_v1_contract ::
  "V1EnforceRequest \<Rightarrow> (string \<Rightarrow> exn + Grant option) \<Rightarrow> instant \<Rightarrow> 's AuditWriter \<Rightarrow> BoundaryLookup option
     \<Rightarrow> enforcement_settings option \<Rightarrow> entropy \<Rightarrow> 's \<Rightarrow> V1EnforceResponse \<times> 's" where
  "enforce_v1_contract request get_by_ref now audit_writer boundary_registry settings rnd s =
     (case get_by_ref (er_grant_ref request) of
        Inl _ \<Rightarrow> (pre_audit_error 503 ''service_unavailable'' ''grant lookup failed; no decision was recorded'', s)
      | Inr found \<Rightarrow>
          (case (case found of
                   None \<Rightarrow> None
                 | Some grant \<Rightarrow>
                     if g_workspace_id grant \<noteq> er_workspace_id request \<or> g_agent_id grant \<noteq> er_agent_id request
                     then None else Some grant) of
             None \<Rightarrow>
               (pre_audit_error 403 ''forbidden'' GRANT_FORBIDDEN_MESSAGE,
                record_rejection_v1 audit_writer
                  ((rejection REASON_AGENT_GRANT_MISMATCH (er_workspace_id request) (er_agent_id request) now)
                     \<lparr>ra_action := er_action request, ra_resource := er_resource request,
                      ra_boundary_id := er_boundary_id request\<rparr>) rnd s)
           | Some grant \<Rightarrow>
               let require_boundary = (case settings of
                      None \<Rightarrow> False
                    | Some st \<Rightarrow> is_boundary_required st (er_workspace_id request) (er_agent_id request))
               in evaluate_and_record
                    (v1_enforce_input grant (er_action request) (er_resource request) (er_boundary_id request)
                       now boundary_registry require_boundary)
                    audit_writer None False None rnd s))"

text \<open>A refusal of the delegated contract: the operator's record, and the answer to the caller.\<close>

definition delegated_refusal ::
  "V1DelegatedEnforceRequest \<Rightarrow> string \<Rightarrow> instant \<Rightarrow> 's AuditWriter \<Rightarrow> entropy \<Rightarrow> string \<Rightarrow> string \<Rightarrow> 's
     \<Rightarrow> V1EnforceResponse \<times> 's" where
  "delegated_refusal request trusted_ws now audit_writer rnd reason_code message s =
     (pre_audit_error 403 ''forbidden'' message,
      record_rejection_v1 audit_writer
        ((rejection reason_code trusted_ws (dq_agent_id request) now)
           \<lparr>ra_action := dq_action request, ra_resource := dq_resource request,
            ra_boundary_id := dq_boundary_id request, ra_enforcing_principal := Some (dq_pep_id request)\<rparr>) rnd s)"

text \<open>The mandates that apply when no usable subject token is presented.\<close>

definition token_absent :: "V1DelegatedEnforceRequest \<Rightarrow> bool" where
  "token_absent request =
     (case dq_subject_token request of None \<Rightarrow> True | Some t \<Rightarrow> py_strip t = [])"

definition missing_token_reason ::
  "V1DelegatedEnforceRequest \<Rightarrow> string \<Rightarrow> enforcement_settings option \<Rightarrow> string option" where
  "missing_token_reason request trusted_ws settings =
     (let require_subject_token = (case settings of None \<Rightarrow> False
            | Some st \<Rightarrow> is_subject_token_required st trusted_ws (dq_agent_id request));
          pop_required = (case settings of None \<Rightarrow> False
            | Some st \<Rightarrow> is_pop_required st trusted_ws (dq_agent_id request))
      in if (require_subject_token \<or> pop_required) \<and> token_absent request
         then Some (if require_subject_token then REASON_SUBJECT_TOKEN_REQUIRED else REASON_POP_REQUIRED)
         else None)"

text \<open>The checks of a resolved token against the request and the grant, in the order of the code.\<close>

definition token_mismatch :: "V1DelegatedEnforceRequest \<Rightarrow> string \<Rightarrow> Grant \<Rightarrow> SubjectToken \<Rightarrow> bool" where
  "token_mismatch request trusted_ws grant token \<longleftrightarrow>
     st_audience token \<noteq> dq_pep_id request
     \<or> st_workspace_id token \<noteq> trusted_ws
     \<or> st_agent_id token \<noteq> dq_agent_id request
     \<or> st_workspace_id token \<noteq> dq_workspace_id request
     \<or> st_grant_ref token \<noteq> dq_grant_ref request
     \<or> st_agent_id token \<noteq> g_agent_id grant
     \<or> st_workspace_id token \<noteq> g_workspace_id grant
     \<or> st_grant_ref token \<noteq> g_grant_ref grant
     \<or> (case st_bound_action token of None \<Rightarrow> False | Some x \<Rightarrow> x \<noteq> dq_action request)
     \<or> (case st_bound_resource token of None \<Rightarrow> False | Some x \<Rightarrow> x \<noteq> dq_resource request)"

definition token_refusal_reason ::
  "V1DelegatedEnforceRequest \<Rightarrow> string \<Rightarrow> Grant \<Rightarrow> instant \<Rightarrow> SubjectToken \<Rightarrow> string option" where
  "token_refusal_reason request trusted_ws grant now token =
     (if st_revoked_at token \<noteq> None then Some REASON_SUBJECT_TOKEN_REVOKED
      else if st_expires_at token \<le> now then Some REASON_SUBJECT_TOKEN_EXPIRED
      else if token_mismatch request trusted_ws grant token then Some REASON_SUBJECT_TOKEN_MISMATCH
      else None)"

text \<open>The whole token block: a refusal reason, or the verified token's id.\<close>

definition check_subject_token ::
  "V1DelegatedEnforceRequest \<Rightarrow> string \<Rightarrow> Grant \<Rightarrow> instant \<Rightarrow> (string \<Rightarrow> exn + SubjectToken option) option
     \<Rightarrow> bool \<Rightarrow> (string \<Rightarrow> string \<Rightarrow> int \<Rightarrow> int \<Rightarrow> int \<Rightarrow> 'c \<Rightarrow> bool \<times> 'c) option \<Rightarrow> int \<Rightarrow> string \<Rightarrow> 'c
     \<Rightarrow> (string + string) \<times> 'c" where
  "check_subject_token request trusted_ws grant now get_by_hash pop_mandated replay skew raw cache =
     (case (case get_by_hash of
              None \<Rightarrow> None
            | Some get \<Rightarrow> (case get (hash_key raw) of Inl _ \<Rightarrow> None | Inr found \<Rightarrow> found)) of
        None \<Rightarrow> (Inl REASON_SUBJECT_TOKEN_NOT_FOUND, cache)
      | Some token \<Rightarrow>
          (case token_refusal_reason request trusted_ws grant now token of
             Some reason_code \<Rightarrow> (Inl reason_code, cache)
           | None \<Rightarrow>
               (case st_pop_secret token of
                  Some pop_secret \<Rightarrow>
                    (case (case replay of
                             None \<Rightarrow> (Inr False, cache)
                           | Some check \<Rightarrow>
                               verify_pop check (dq_subject_token_proof request) pop_secret (st_token_id token)
                                 (dq_action request) (dq_resource request) now skew cache) of
                       (Inr True, cache') \<Rightarrow> (Inr (st_token_id token), cache')
                     | (_, cache') \<Rightarrow> (Inl REASON_POP_PROOF_INVALID, cache'))
                | None \<Rightarrow>
                    if pop_mandated then (Inl REASON_POP_REQUIRED, cache)
                    else (Inr (st_token_id token), cache))))"

definition owned_grant :: "V1DelegatedEnforceRequest \<Rightarrow> string \<Rightarrow> Grant option \<Rightarrow> Grant option" where
  "owned_grant request trusted_ws found =
     (case found of
        None \<Rightarrow> None
      | Some grant \<Rightarrow>
          if g_workspace_id grant \<noteq> trusted_ws \<or> g_agent_id grant \<noteq> dq_agent_id request then None
          else Some grant)"

definition delegated_with_grant ::
  "V1DelegatedEnforceRequest \<Rightarrow> string \<Rightarrow> Grant \<Rightarrow> instant \<Rightarrow> 's AuditWriter \<Rightarrow> BoundaryLookup option
     \<Rightarrow> (string \<Rightarrow> exn + SubjectToken option) option \<Rightarrow> enforcement_settings option
     \<Rightarrow> (string \<Rightarrow> string \<Rightarrow> int \<Rightarrow> int \<Rightarrow> int \<Rightarrow> 'c \<Rightarrow> bool \<times> 'c) option \<Rightarrow> int \<Rightarrow> entropy \<Rightarrow> 'c \<times> 's
     \<Rightarrow> V1EnforceResponse \<times> 'c \<times> 's" where
  "delegated_with_grant request trusted_ws grant now audit_writer boundary_registry get_by_hash settings replay
       skew rnd st =
     (case st of (cache, s) \<Rightarrow>
        let require_boundary = (case settings of None \<Rightarrow> False
              | Some es \<Rightarrow> is_boundary_required es trusted_ws (dq_agent_id request));
            pop_mandated = (case settings of None \<Rightarrow> False
              | Some es \<Rightarrow> is_pop_required es trusted_ws (dq_agent_id request));
            i = v1_enforce_input grant (dq_action request) (dq_resource request) (dq_boundary_id request) now
                  boundary_registry require_boundary
        in case missing_token_reason request trusted_ws settings of
             Some reason_code \<Rightarrow>
               (case delegated_refusal request trusted_ws now audit_writer rnd reason_code
                       ''a subject token is required'' s of (r, s') \<Rightarrow> (r, cache, s'))
           | None \<Rightarrow>
               (case dq_subject_token request of
                  None \<Rightarrow>
                    (case evaluate_and_record i audit_writer (Some (dq_pep_id request)) False None rnd s of
                       (r, s') \<Rightarrow> (r, cache, s'))
                | Some raw \<Rightarrow>
                    (case check_subject_token request trusted_ws grant now get_by_hash pop_mandated replay skew
                            raw cache of
                       (Inl reason_code, cache') \<Rightarrow>
                         (case delegated_refusal request trusted_ws now audit_writer rnd reason_code
                                 ''subject token is not valid'' s of (r, s') \<Rightarrow> (r, cache', s'))
                     | (Inr token_id, cache') \<Rightarrow>
                         (case evaluate_and_record i audit_writer (Some (dq_pep_id request)) True (Some token_id)
                                 rnd s of (r, s') \<Rightarrow> (r, cache', s')))))"

definition delegated_enforce_v1_contract ::
  "V1DelegatedEnforceRequest \<Rightarrow> (string \<Rightarrow> exn + Grant option) \<Rightarrow> instant \<Rightarrow> 's AuditWriter
     \<Rightarrow> BoundaryLookup option \<Rightarrow> string option \<Rightarrow> (string \<Rightarrow> exn + SubjectToken option) option
     \<Rightarrow> enforcement_settings option \<Rightarrow> (string \<Rightarrow> string \<Rightarrow> int \<Rightarrow> int \<Rightarrow> int \<Rightarrow> 'c \<Rightarrow> bool \<times> 'c) option \<Rightarrow> int
     \<Rightarrow> entropy \<Rightarrow> 'c \<times> 's \<Rightarrow> V1EnforceResponse \<times> 'c \<times> 's" where
  "delegated_enforce_v1_contract request get_by_ref now audit_writer boundary_registry pep_workspace_id get_by_hash
       settings replay skew rnd st =
     (case st of (cache, s) \<Rightarrow>
        case pep_workspace_id of
          None \<Rightarrow> (pre_audit_error 403 ''forbidden'' ''delegated enforce requires a trusted PEP workspace identity'',
                   cache, s)
        | Some trusted_ws \<Rightarrow>
            if trusted_ws = []
            then (pre_audit_error 403 ''forbidden'' ''delegated enforce requires a trusted PEP workspace identity'',
                  cache, s)
            else if dq_workspace_id request \<noteq> [] \<and> dq_workspace_id request \<noteq> trusted_ws
            then (case delegated_refusal request trusted_ws now audit_writer rnd REASON_AGENT_GRANT_MISMATCH
                         GRANT_FORBIDDEN_MESSAGE s of (r, s') \<Rightarrow> (r, cache, s'))
            else (case get_by_ref (dq_grant_ref request) of
               Inl _ \<Rightarrow> (pre_audit_error 503 ''service_unavailable'' ''grant lookup failed; no decision was recorded'',
                         cache, s)
             | Inr found \<Rightarrow>
                 (case owned_grant request trusted_ws found of
                    None \<Rightarrow>
                      (case delegated_refusal request trusted_ws now audit_writer rnd REASON_AGENT_GRANT_MISMATCH
                              GRANT_FORBIDDEN_MESSAGE s of (r, s') \<Rightarrow> (r, cache, s'))
                  | Some grant \<Rightarrow>
                      delegated_with_grant request trusted_ws grant now audit_writer boundary_registry get_by_hash
                        settings replay skew rnd (cache, s))))"

subsection \<open>Decisions are recorded\<close>

lemma pre_audit_error_sel [simp]:
  "ers_decision (pre_audit_error c e r) = None" "ers_audit_event_id (pre_audit_error c e r) = None"
  "ers_error (pre_audit_error c e r) = Some e" "ers_status_code (pre_audit_error c e r) = c"
  by (simp_all add: pre_audit_error_def)

lemma response_from_decision_sel [simp]:
  "ers_decision (response_from_decision d e) = Some (dr_decision d)"
  "ers_audit_event_id (response_from_decision d e) = Some (ae_event_id e)"
  by (cases "dr_decision d"; simp add: response_from_decision_def Let_def)+

definition refusal_event :: "string \<Rightarrow> string \<Rightarrow> AuditEvent \<Rightarrow> bool" where
  "refusal_event workspace_id agent_id e \<longleftrightarrow>
     ae_decision e = Deny \<and> ae_event_type e = EVENT_ACCESS_REJECTED \<and> ae_grant_id e = [] \<and> ae_grant_ref e = []
     \<and> ae_workspace_id e = workspace_id \<and> ae_agent_id e = agent_id \<and> ae_scope_matched e = None"

text \<open>
  What the audit log holds after a request was answered: the decision's own event when the
  answer carries a decision, otherwise at most a refusal that names no grant.
\<close>

definition recorded ::
  "string \<Rightarrow> string \<Rightarrow> V1EnforceResponse \<Rightarrow> AuditEvent list \<Rightarrow> AuditEvent list \<Rightarrow> bool" where
  "recorded workspace_id agent_id r before after =
     (case ers_decision r of
        Some d \<Rightarrow> (\<exists>e. after = before @ [e] \<and> ers_audit_event_id r = Some (ae_event_id e) \<and> ae_decision e = d
                    \<and> ae_workspace_id e = workspace_id \<and> ae_agent_id e = agent_id
                    \<and> (d = Permit \<longleftrightarrow> ae_scope_matched e \<noteq> None))
      | None \<Rightarrow> ers_audit_event_id r = None
                \<and> (\<exists>new. after = before @ new \<and> length new \<le> 1 \<and> (\<forall>e\<in>set new. refusal_event workspace_id agent_id e)))"

lemma recorded_nothing: "ers_decision r = None \<Longrightarrow> ers_audit_event_id r = None \<Longrightarrow> recorded w a r l l"
  by (simp add: recorded_def)

context audit_log
begin

lemma record_rejection_v1_log:
  assumes "ra_workspace_id a = w" "ra_agent_id a = ag" "ra_event_type a = EVENT_ACCESS_REJECTED"
    and "ers_decision r = None" "ers_audit_event_id r = None"
  shows "recorded w ag r (log s) (log (record_rejection_v1 writer a rnd s))"
proof -
  let ?e = "build_rejection_audit_event a rnd"
  obtain x s' where x: "aw_write writer ?e s = (x, s')" by (metis surj_pair)
  have "log s' = log s @ (case x of None \<Rightarrow> [?e] | Some _ \<Rightarrow> [])"
    using x write_ok write_raises by (cases x) auto
  moreover have "refusal_event w ag ?e" using assms by (simp add: refusal_event_def)
  ultimately show ?thesis
    using assms(4,5) x by (auto simp: recorded_def record_rejection_v1_def split: option.splits)
qed

lemma evaluate_and_record_log:
  assumes "evaluate_and_record i writer ep v tid rnd s = (r, s')"
  shows "recorded (g_workspace_id (ei_grant i)) (g_agent_id (ei_grant i)) r (log s) (log s')"
    and "ers_decision r = Some d \<Longrightarrow> d = dr_decision (evaluate_enforce i)"
proof -
  define e where "e = build_audit_event
      \<lparr>aei_decision = evaluate_enforce i, aei_event_id = None, aei_created_at = Some (ei_now i),
       aei_enforcing_principal = ep, aei_subject_token_verified = v, aei_token_id = tid\<rparr> (ei_now i) rnd"
  obtain x s1 where x: "aw_write writer e s = (x, s1)" by (metis surj_pair)
  have r: "(r, s') = (if \<not> is_valid_requested_action (ei_action i)
      then (pre_audit_error 400 ''scope_invalid'' (invalid_action_reason (ei_action i)), s)
      else if \<not> is_valid_requested_resource (ei_resource i)
      then (pre_audit_error 400 ''scope_invalid''
              (''resource '' @ quoted (ei_resource i) @ '' is not a valid v1 resource path''), s)
      else if x = None then (response_from_decision (evaluate_enforce i) e, s1)
      else (pre_audit_error 503 ''service_unavailable'' ''audit write failed; no decision was recorded'', s1))"
    using assms x unfolding evaluate_and_record_def Let_def e_def [symmetric]
    by (auto split: if_splits option.splits)
  then show "ers_decision r = Some d \<Longrightarrow> d = dr_decision (evaluate_enforce i)"
    by (auto split: if_splits)
  have "log s1 = log s @ (if x = None then [e] else [])"
    using x write_ok write_raises by (cases x) auto
  with r show "recorded (g_workspace_id (ei_grant i)) (g_agent_id (ei_grant i)) r (log s) (log s')"
    by (auto simp: recorded_nothing split: if_splits)
      (auto simp: recorded_def e_def evaluate_enforce_copies evaluate_enforce_consistent(2))
qed

end

text \<open>
  (C7) No decision without its record. Whatever audit store is behind the writer, as long as a
  write appends its event when it returns and leaves the log alone when it raises: an answer
  that carries a decision has appended exactly one event with that decision, for the caller's
  workspace and agent, and names that event; an answer without one has appended at most a
  refusal, which names no grant. A permit is only given for the caller's own grant, when the
  core permits the action.
\<close>

theorem enforce_never_decides_unrecorded:
  assumes contract: "audit_log writer log"
    and e: "enforce_v1_contract request get_by_ref now writer registry settings rnd s = (r, s')"
  shows "recorded (er_workspace_id request) (er_agent_id request) r (log s) (log s')
     \<and> (ers_decision r = Some Permit \<longrightarrow>
          (\<exists>grant. get_by_ref (er_grant_ref request) = Inr (Some grant)
             \<and> g_workspace_id grant = er_workspace_id request \<and> g_agent_id grant = er_agent_id request
             \<and> dr_decision (evaluate_enforce
                   (v1_enforce_input grant (er_action request) (er_resource request) (er_boundary_id request)
                      now registry (case settings of None \<Rightarrow> False
                         | Some st \<Rightarrow> is_boundary_required st (er_workspace_id request) (er_agent_id request)))) = Permit))"
proof (cases "\<exists>grant. get_by_ref (er_grant_ref request) = Inr (Some grant)
    \<and> g_workspace_id grant = er_workspace_id request \<and> g_agent_id grant = er_agent_id request")
  case True
  then obtain grant where g: "get_by_ref (er_grant_ref request) = Inr (Some grant)"
      "g_workspace_id grant = er_workspace_id request" "g_agent_id grant = er_agent_id request" by blast
  define i where "i = v1_enforce_input grant (er_action request) (er_resource request) (er_boundary_id request)
      now registry (case settings of None \<Rightarrow> False
                    | Some st \<Rightarrow> is_boundary_required st (er_workspace_id request) (er_agent_id request))"
  have ev: "evaluate_and_record i writer None False None rnd s = (r, s')"
    using e g by (simp add: enforce_v1_contract_def i_def)
  have i: "ei_grant i = grant" by (simp add: i_def v1_enforce_input_def)
  show ?thesis
    unfolding i_def [symmetric] using audit_log.evaluate_and_record_log [OF contract ev] g i
    by (metis i_def)
next
  case False
  then have "(\<exists>x. get_by_ref (er_grant_ref request) = Inl x \<and> s' = s \<and> ers_decision r = None \<and> ers_audit_event_id r = None)
      \<or> (ers_decision r = None \<and> ers_audit_event_id r = None
          \<and> s' = record_rejection_v1 writer
               ((rejection REASON_AGENT_GRANT_MISMATCH (er_workspace_id request) (er_agent_id request) now)
                  \<lparr>ra_action := er_action request, ra_resource := er_resource request,
                   ra_boundary_id := er_boundary_id request\<rparr>) rnd s)"
    using e by (auto simp: enforce_v1_contract_def split: sum.splits option.splits if_splits)
  then show ?thesis
    using audit_log.record_rejection_v1_log [OF contract] recorded_nothing by (elim disjE) auto
qed

lemma in_memory_contract: "audit_log InMemoryAuditWriter (\<lambda>s. s)"
  by unfold_locales

theorem enforce_never_decides_unrecorded_witness:
  "\<exists>r s'. enforce_v1_contract \<lparr>er_workspace_id = ''ws'', er_agent_id = ''agent'', er_grant_ref = ''grt_1'',
       er_action = ''read'', er_resource = ''a/b'', er_boundary_id = None\<rparr> (\<lambda>_. Inr None) 5 InMemoryAuditWriter
       None None (\<lambda>_. ''r'') [] = (r, s') \<and> recorded ''ws'' ''agent'' r [] s'"
proof -
  let ?q = "\<lparr>er_workspace_id = ''ws'', er_agent_id = ''agent'', er_grant_ref = ''grt_1'',
       er_action = ''read'', er_resource = ''a/b'', er_boundary_id = None\<rparr>"
  obtain r s' where e: "enforce_v1_contract ?q (\<lambda>_. Inr None) 5 InMemoryAuditWriter None None (\<lambda>_. ''r'') [] = (r, s')"
    by (metis surj_pair)
  from enforce_never_decides_unrecorded [OF in_memory_contract e] e show ?thesis by auto
qed

subsection \<open>What the answers hide\<close>

lemma unusable_boundaries_alike:
  assumes b: "er_boundary_id request = Some bid"
      "\<forall>x. reg1 bid = Some x \<longrightarrow> b_workspace_id x \<noteq> er_workspace_id request \<or> b_status x \<noteq> ''active''"
      "\<forall>x. reg2 bid = Some x \<longrightarrow> b_workspace_id x \<noteq> er_workspace_id request \<or> b_status x \<noteq> ''active''"
  shows "fst (enforce_v1_contract request get now InMemoryAuditWriter (Some reg1) settings rnd t)
      = fst (enforce_v1_contract request get now InMemoryAuditWriter (Some reg2) settings rnd t)"
proof -
  have res: "\<exists>d. resolve_boundary i = Inl d \<and> dr_reason d \<in> BOUNDARY_EXISTENCE_REASONS \<and> dr_decision d = Deny"
    if "ei_boundary_id i = Some bid" "ei_boundary_registry i = Some reg"
      "\<forall>x. reg bid = Some x \<longrightarrow> b_workspace_id x \<noteq> g_workspace_id (ei_grant i) \<or> b_status x \<noteq> ''active''" for i reg
    using that by (auto simp: resolve_boundary_def Let_def BOUNDARY_EXISTENCE_REASONS_def split: option.splits)
  have same: "fst (evaluate_and_record i1 InMemoryAuditWriter ep v tid rnd t)
      = fst (evaluate_and_record i2 InMemoryAuditWriter ep v tid rnd t)"
    if "resolve_boundary i1 = Inl d1" "dr_reason d1 \<in> BOUNDARY_EXISTENCE_REASONS" "dr_decision d1 = Deny"
      "resolve_boundary i2 = Inl d2" "dr_reason d2 \<in> BOUNDARY_EXISTENCE_REASONS" "dr_decision d2 = Deny"
      "ei_action i1 = ei_action i2" "ei_resource i1 = ei_resource i2" for i1 i2 d1 d2 ep v tid
    using that
    by (simp add: evaluate_and_record_def evaluate_enforce_def InMemoryAuditWriter_def InMemoryAuditWriter_write_def
        response_from_decision_def agent_facing_reason_collapses Let_def)
  show ?thesis
  proof (cases "\<exists>g. get (er_grant_ref request) = Inr (Some g) \<and> g_workspace_id g = er_workspace_id request
      \<and> g_agent_id g = er_agent_id request")
    case True
    then obtain g where g: "get (er_grant_ref request) = Inr (Some g)" "g_workspace_id g = er_workspace_id request"
        "g_agent_id g = er_agent_id request" by blast
    let ?i = "\<lambda>reg. v1_enforce_input g (er_action request) (er_resource request) (er_boundary_id request) now
        (Some reg) (case settings of None \<Rightarrow> False
                    | Some st \<Rightarrow> is_boundary_required st (er_workspace_id request) (er_agent_id request))"
    obtain d1 where d1: "resolve_boundary (?i reg1) = Inl d1" "dr_reason d1 \<in> BOUNDARY_EXISTENCE_REASONS"
        "dr_decision d1 = Deny"
      using res [of "?i reg1" reg1] b g by (auto simp: v1_enforce_input_def)
    obtain d2 where d2: "resolve_boundary (?i reg2) = Inl d2" "dr_reason d2 \<in> BOUNDARY_EXISTENCE_REASONS"
        "dr_decision d2 = Deny"
      using res [of "?i reg2" reg2] b g by (auto simp: v1_enforce_input_def)
    show ?thesis
      using same [OF d1 d2, of None False None] g by (simp add: enforce_v1_contract_def v1_enforce_input_def)
  next
    case False
    then show ?thesis
      by (auto simp: enforce_v1_contract_def split: sum.splits option.splits if_splits)
  qed
qed

text \<open>
  (C32) The answers are no oracle for grants or boundaries. A reference to no grant and one to
  somebody else's grant give the same answer and the same effect on the audit store, whatever
  the request says of a boundary. And an
  answer never tells why a boundary was not usable: for one request and grant, a boundary
  that does not exist, one of another workspace and a disabled one are answered alike.
\<close>

theorem enforce_hides_grant_existence:
  "(\<forall>get1 get2 f1 f2. get1 (er_grant_ref request) = Inr f1 \<and> get2 (er_grant_ref request) = Inr f2
      \<and> (\<forall>g. f1 = Some g \<or> f2 = Some g \<longrightarrow>
            g_workspace_id g \<noteq> er_workspace_id request \<or> g_agent_id g \<noteq> er_agent_id request) \<longrightarrow>
      enforce_v1_contract request get1 now writer registry settings rnd s
        = enforce_v1_contract request get2 now writer registry settings rnd s)
   \<and> (\<forall>bid reg1 reg2. er_boundary_id request = Some bid
      \<and> (\<forall>x. reg1 bid = Some x \<or> reg2 bid = Some x \<longrightarrow>
            b_workspace_id x \<noteq> er_workspace_id request \<or> b_status x \<noteq> ''active'') \<longrightarrow>
      fst (enforce_v1_contract request get now InMemoryAuditWriter (Some reg1) settings rnd t)
        = fst (enforce_v1_contract request get now InMemoryAuditWriter (Some reg2) settings rnd t))"
proof (intro conjI allI impI)
  fix get1 get2 :: "string \<Rightarrow> exn + Grant option" and f1 f2
  assume a: "get1 (er_grant_ref request) = Inr f1 \<and> get2 (er_grant_ref request) = Inr f2
      \<and> (\<forall>g. f1 = Some g \<or> f2 = Some g \<longrightarrow>
            g_workspace_id g \<noteq> er_workspace_id request \<or> g_agent_id g \<noteq> er_agent_id request)"
  then show "enforce_v1_contract request get1 now writer registry settings rnd s
      = enforce_v1_contract request get2 now writer registry settings rnd s"
    by (cases f1; cases f2) (auto simp: enforce_v1_contract_def)
qed (blast intro: unusable_boundaries_alike)

definition example_hidden_request :: "string option \<Rightarrow> V1EnforceRequest" where
  "example_hidden_request bid =
     \<lparr>er_workspace_id = ''ws'', er_agent_id = ''agent'', er_grant_ref = ''grt_1'', er_action = ''read'',
      er_resource = ''a/b'', er_boundary_id = bid\<rparr>"

definition example_foreign_boundary :: Boundary where
  "example_foreign_boundary =
     \<lparr>b_boundary_id = ''b'', b_workspace_id = ''other'', b_name = ''n'', b_runtime = ''r'', b_boundary_type = ''t'',
      b_mode = ''enforce'', b_status = ''active'', b_created_at = 0, b_updated_at = 0\<rparr>"

theorem enforce_hides_grant_existence_witness:
  "enforce_v1_contract (example_hidden_request None) (\<lambda>_. Inr None) 5 InMemoryAuditWriter None None (\<lambda>_. ''r'') []
     = enforce_v1_contract (example_hidden_request None)
         (\<lambda>_. Inr (Some (build_issued_grant example_issue_request 0 (\<lambda>_. ''r'')\<lparr>g_agent_id := ''other''\<rparr>))) 5
         InMemoryAuditWriter None None (\<lambda>_. ''r'') []
   \<and> fst (enforce_v1_contract (example_hidden_request (Some ''b'')) (\<lambda>_. Inr (Some (build_issued_grant example_issue_request 0 (\<lambda>_. ''r'')))) 5
         InMemoryAuditWriter (Some (\<lambda>_. None)) None (\<lambda>_. ''r'') [])
     = fst (enforce_v1_contract (example_hidden_request (Some ''b'')) (\<lambda>_. Inr (Some (build_issued_grant example_issue_request 0 (\<lambda>_. ''r'')))) 5
         InMemoryAuditWriter
         (Some (\<lambda>_. Some example_foreign_boundary)) None (\<lambda>_. ''r'') [])"
proof
  show "enforce_v1_contract (example_hidden_request None) (\<lambda>_. Inr None) 5 InMemoryAuditWriter None None (\<lambda>_. ''r'') []
     = enforce_v1_contract (example_hidden_request None)
         (\<lambda>_. Inr (Some (build_issued_grant example_issue_request 0 (\<lambda>_. ''r'')\<lparr>g_agent_id := ''other''\<rparr>))) 5
         InMemoryAuditWriter None None (\<lambda>_. ''r'') []"
    by (rule enforce_hides_grant_existence [THEN conjunct1, rule_format, where ?f1.0 = None
          and ?f2.0 = "Some (build_issued_grant example_issue_request 0 (\<lambda>_. ''r'')\<lparr>g_agent_id := ''other''\<rparr>)"])
      (simp add: example_hidden_request_def)
  show "fst (enforce_v1_contract (example_hidden_request (Some ''b'')) (\<lambda>_. Inr (Some (build_issued_grant example_issue_request 0 (\<lambda>_. ''r'')))) 5
         InMemoryAuditWriter (Some (\<lambda>_. None)) None (\<lambda>_. ''r'') [])
     = fst (enforce_v1_contract (example_hidden_request (Some ''b'')) (\<lambda>_. Inr (Some (build_issued_grant example_issue_request 0 (\<lambda>_. ''r'')))) 5
         InMemoryAuditWriter
         (Some (\<lambda>_. Some example_foreign_boundary)) None (\<lambda>_. ''r'') [])"
    by (rule enforce_hides_grant_existence [THEN conjunct2, rule_format, of _ "''b''"])
      (simp add: example_hidden_request_def example_foreign_boundary_def)
qed

subsection \<open>Delegated decisions\<close>

text \<open>
  The identity evidence behind a delegated decision: either no token was presented, no mandate
  asked for one and the record says the subject is only asserted; or the presented token
  passed every check, including its proof of possession, and the record names it.
\<close>

definition mandated ::
  "(enforcement_settings \<Rightarrow> string \<Rightarrow> string \<Rightarrow> bool) \<Rightarrow> enforcement_settings option \<Rightarrow> string \<Rightarrow> string \<Rightarrow> bool" where
  "mandated f settings ws agent = (case settings of None \<Rightarrow> False | Some st \<Rightarrow> f st ws agent)"

definition token_evidence ::
  "V1DelegatedEnforceRequest \<Rightarrow> string \<Rightarrow> Grant \<Rightarrow> instant \<Rightarrow> (string \<Rightarrow> exn + SubjectToken option) option
     \<Rightarrow> bool \<Rightarrow> (string \<Rightarrow> string \<Rightarrow> int \<Rightarrow> int \<Rightarrow> int \<Rightarrow> 'c \<Rightarrow> bool \<times> 'c) option \<Rightarrow> int \<Rightarrow> string \<Rightarrow> 'c
     \<Rightarrow> SubjectToken \<Rightarrow> 'c \<Rightarrow> bool" where
  "token_evidence request ws grant now get_by_hash pop_mandated replay skew raw cache token cache' \<longleftrightarrow>
     (\<exists>get. get_by_hash = Some get \<and> get (hash_key raw) = Inr (Some token))
     \<and> st_revoked_at token = None \<and> now < st_expires_at token
     \<and> st_audience token = dq_pep_id request \<and> st_workspace_id token = ws
     \<and> st_agent_id token = dq_agent_id request \<and> st_grant_ref token = g_grant_ref grant
     \<and> dq_workspace_id request = ws \<and> dq_grant_ref request = g_grant_ref grant
     \<and> st_bound_action token \<in> {None, Some (dq_action request)}
     \<and> st_bound_resource token \<in> {None, Some (dq_resource request)}
     \<and> (case st_pop_secret token of
          None \<Rightarrow> \<not> pop_mandated \<and> cache' = cache
        | Some secret \<Rightarrow> \<exists>check. replay = Some check
            \<and> verify_pop check (dq_subject_token_proof request) secret (st_token_id token) (dq_action request)
                (dq_resource request) now skew cache = (Inr True, cache'))"

lemma check_subject_token_evidence:
  assumes "check_subject_token request ws grant now get_by_hash pm replay skew raw cache = (Inr tid, cache')"
  shows "\<exists>token. st_token_id token = tid
    \<and> token_evidence request ws grant now get_by_hash pm replay skew raw cache token cache'"
proof -
  obtain get token where g: "get_by_hash = Some get" "get (hash_key raw) = Inr (Some token)"
    using assms by (auto simp: check_subject_token_def split: option.splits sum.splits)
  have ok: "token_refusal_reason request ws grant now token = None"
    using assms g by (auto simp: check_subject_token_def split: option.splits)
  have pop: "(case st_pop_secret token of
          None \<Rightarrow> \<not> pm \<and> cache' = cache
        | Some secret \<Rightarrow> \<exists>check. replay = Some check
            \<and> verify_pop check (dq_subject_token_proof request) secret (st_token_id token) (dq_action request)
                (dq_resource request) now skew cache = (Inr True, cache')) \<and> st_token_id token = tid"
    using assms g ok
    by (cases "st_pop_secret token"; cases replay)
      (auto simp: check_subject_token_def split: if_splits sum.splits bool.splits prod.splits)
  show ?thesis
    using g ok pop
    by (intro exI [of _ token])
      (auto simp: token_evidence_def token_refusal_reason_def token_mismatch_def split: if_splits option.splits)
qed

lemma evaluate_and_record_event:
  assumes "audit_log writer log"
    and "evaluate_and_record i writer ep v tid rnd s = (r, s')" "ers_decision r = Some d"
  shows "\<exists>e. log s' = log s @ [e] \<and> ers_audit_event_id r = Some (ae_event_id e) \<and> ae_decision e = d
     \<and> ae_enforcing_principal e = ep \<and> ae_subject_token_verified e = v \<and> ae_token_id e = tid
     \<and> ae_workspace_id e = g_workspace_id (ei_grant i) \<and> ae_agent_id e = g_agent_id (ei_grant i)
     \<and> d = dr_decision (evaluate_enforce i)"
proof -
  define e where "e = build_audit_event
      \<lparr>aei_decision = evaluate_enforce i, aei_event_id = None, aei_created_at = Some (ei_now i),
       aei_enforcing_principal = ep, aei_subject_token_verified = v, aei_token_id = tid\<rparr> (ei_now i) rnd"
  have "aw_write writer e s = (None, s')" "r = response_from_decision (evaluate_enforce i) e"
    using assms(2,3) by (auto simp: evaluate_and_record_def e_def Let_def split: if_splits prod.splits option.splits)
  then show ?thesis
    using audit_log.write_ok [OF assms(1)] assms(3)
    by (intro exI [of _ e]) (auto simp: e_def evaluate_enforce_copies)
qed

text \<open>
  (C2) A delegated decision rests on the authenticated workspace of the enforcement point and on
  nothing the caller asserts. When an answer carries a decision, the enforcement point has a
  trusted workspace, a claimed workspace does not contradict it, the grant is the asserted
  agent's in that workspace, the decision is the core's for exactly this request, and one event
  with this decision and the enforcement point's name was appended. Without a presented token
  no mandate asked for one; with a token, it exists, is live, is bound to this enforcement
  point, agent, grant, action and resource, and its proof of possession was accepted whenever
  it carries a secret, which it does when proof of possession is mandated.
\<close>

theorem delegated_decisions_rest_on_trusted_identity:
  assumes contract: "audit_log writer log"
    and e: "delegated_enforce_v1_contract request get_by_ref now writer registry pep_ws get_by_hash settings replay
              skew rnd (cache, s) = (r, cache', s')"
    and d: "ers_decision r = Some d"
  shows "\<exists>ws grant event. pep_ws = Some ws \<and> ws \<noteq> []
     \<and> (dq_workspace_id request = [] \<or> dq_workspace_id request = ws)
     \<and> get_by_ref (dq_grant_ref request) = Inr (Some grant)
     \<and> g_workspace_id grant = ws \<and> g_agent_id grant = dq_agent_id request
     \<and> d = dr_decision (evaluate_enforce
             (v1_enforce_input grant (dq_action request) (dq_resource request) (dq_boundary_id request) now registry
                (mandated is_boundary_required settings ws (dq_agent_id request))))
     \<and> log s' = log s @ [event] \<and> ers_audit_event_id r = Some (ae_event_id event)
     \<and> ae_decision event = d \<and> ae_enforcing_principal event = Some (dq_pep_id request)
     \<and> ae_workspace_id event = ws \<and> ae_agent_id event = dq_agent_id request
     \<and> (case dq_subject_token request of
          None \<Rightarrow> \<not> mandated is_subject_token_required settings ws (dq_agent_id request)
                  \<and> \<not> mandated is_pop_required settings ws (dq_agent_id request)
                  \<and> \<not> ae_subject_token_verified event \<and> cache' = cache
        | Some raw \<Rightarrow> \<exists>token. token_evidence request ws grant now get_by_hash
                      (mandated is_pop_required settings ws (dq_agent_id request)) replay skew raw cache token cache'
                  \<and> ae_subject_token_verified event \<and> ae_token_id event = Some (st_token_id token))"
proof -
  obtain ws where ws: "pep_ws = Some ws" "ws \<noteq> []" "dq_workspace_id request = [] \<or> dq_workspace_id request = ws"
    using e d by (auto simp: delegated_enforce_v1_contract_def delegated_refusal_def split: option.splits if_splits)
  obtain grant where g: "get_by_ref (dq_grant_ref request) = Inr (Some grant)" "g_workspace_id grant = ws"
      "g_agent_id grant = dq_agent_id request"
    using e d ws by (auto simp: delegated_enforce_v1_contract_def delegated_refusal_def owned_grant_def
        split: option.splits if_splits sum.splits)
  define i where "i = v1_enforce_input grant (dq_action request) (dq_resource request) (dq_boundary_id request) now
      registry (mandated is_boundary_required settings ws (dq_agent_id request))"
  define pm where "pm = mandated is_pop_required settings ws (dq_agent_id request)"
  have w: "delegated_with_grant request ws grant now writer registry get_by_hash settings replay skew rnd (cache, s)
      = (r, cache', s')"
    using e ws g by (auto simp: delegated_enforce_v1_contract_def owned_grant_def)
  have m: "missing_token_reason request ws settings = None"
    using w d by (auto simp: delegated_with_grant_def delegated_refusal_def Let_def split: option.splits)
  have ig: "ei_grant i = grant" by (simp add: i_def v1_enforce_input_def)
  show ?thesis
  proof (cases "dq_subject_token request")
    case None
    have ev: "evaluate_and_record i writer (Some (dq_pep_id request)) False None rnd s = (r, s')" "cache' = cache"
      using w m None unfolding delegated_with_grant_def i_def mandated_def Let_def
      by (auto split: prod.splits)
    show ?thesis
      using evaluate_and_record_event [OF contract ev(1) d] ws g ig m None ev(2)
      unfolding i_def [symmetric]
      by (auto simp: i_def missing_token_reason_def token_absent_def mandated_def Let_def split: if_splits)
  next
    case (Some raw)
    obtain tid where c: "check_subject_token request ws grant now get_by_hash pm replay skew raw cache
        = (Inr tid, cache')"
      and ev: "evaluate_and_record i writer (Some (dq_pep_id request)) True (Some tid) rnd s = (r, s')"
      using w m Some d unfolding delegated_with_grant_def i_def pm_def mandated_def Let_def
      by (auto simp: delegated_refusal_def split: prod.splits sum.splits)
    obtain token where t: "st_token_id token = tid"
        "token_evidence request ws grant now get_by_hash pm replay skew raw cache token cache'"
      using check_subject_token_evidence [OF c] by blast
    show ?thesis
      using evaluate_and_record_event [OF contract ev d] ws g ig t Some by (auto simp: i_def pm_def)
  qed
qed


definition example_delegated :: V1DelegatedEnforceRequest where
  "example_delegated =
     \<lparr>dq_pep_id = ''pep'', dq_workspace_id = ''ws'', dq_agent_id = ''agent'', dq_grant_ref = ''grt_r'',
      dq_action = ''read'', dq_resource = ''repo/a'', dq_boundary_id = None, dq_subject_token = Some ''tok'',
      dq_subject_token_proof = None\<rparr>"

definition example_token :: SubjectToken where
  "example_token =
     \<lparr>st_token_id = ''sbt_1'', st_token_hash = ''h'', st_workspace_id = ''ws'', st_agent_id = ''agent'',
      st_grant_ref = ''grt_r'', st_audience = ''pep'', st_issued_at = 0, st_expires_at = 9, st_created_by = ''op'',
      st_revoked_at = None, st_bound_action = None, st_bound_resource = None, st_pop_secret = None\<rparr>"

definition example_subject_grant :: Grant where
  "example_subject_grant =
     (build_issued_grant example_issue_request 0 (\<lambda>_. ''r''))
       \<lparr>g_grant_ref := ''grt_r'', g_workspace_id := ''ws'', g_agent_id := ''agent''\<rparr>"

lemma example_delegated_sel [simp]:
  "dq_pep_id example_delegated = ''pep''" "dq_workspace_id example_delegated = ''ws''"
  "dq_agent_id example_delegated = ''agent''" "dq_grant_ref example_delegated = ''grt_r''"
  "dq_action example_delegated = ''read''" "dq_resource example_delegated = ''repo/a''"
  "dq_subject_token example_delegated = Some ''tok''" "dq_boundary_id example_delegated = None"
  by (simp_all add: example_delegated_def)

lemma example_subject_grant_sel [simp]:
  "g_grant_ref example_subject_grant = ''grt_r''" "g_workspace_id example_subject_grant = ''ws''"
  "g_agent_id example_subject_grant = ''agent''"
  by (simp_all add: example_subject_grant_def)

lemma example_token_checks:
  "check_subject_token example_delegated ''ws'' example_subject_grant 5 (Some (\<lambda>_. Inr (Some example_token))) False
     replay skew raw cache = (Inr ''sbt_1'', cache)"
  by (simp add: check_subject_token_def token_refusal_reason_def token_mismatch_def example_token_def)

lemma evaluate_and_record_in_memory_decides:
  "is_valid_requested_action (ei_action i) \<Longrightarrow> is_valid_requested_resource (ei_resource i)
     \<Longrightarrow> ers_decision (fst (evaluate_and_record i InMemoryAuditWriter ep v tid rnd s))
        = Some (dr_decision (evaluate_enforce i))"
  by (simp add: evaluate_and_record_def InMemoryAuditWriter_def InMemoryAuditWriter_write_def Let_def)

theorem delegated_decisions_rest_on_trusted_identity_witness:
  "\<exists>r cache' s' (event :: AuditEvent). delegated_enforce_v1_contract example_delegated (\<lambda>_. Inr (Some example_subject_grant)) 5
       InMemoryAuditWriter None (Some ''ws'') (Some (\<lambda>_. Inr (Some example_token))) None
       (None :: (string \<Rightarrow> string \<Rightarrow> int \<Rightarrow> int \<Rightarrow> int \<Rightarrow> unit \<Rightarrow> bool \<times> unit) option) 30 (\<lambda>_. ''r'') ((), []) = (r, cache', s')
     \<and> ers_decision r \<noteq> None \<and> s' = [event] \<and> ae_subject_token_verified event
     \<and> ae_enforcing_principal event = Some ''pep''"
proof -
  let ?replay = "None :: (string \<Rightarrow> string \<Rightarrow> int \<Rightarrow> int \<Rightarrow> int \<Rightarrow> unit \<Rightarrow> bool \<times> unit) option"
  let ?e = "delegated_enforce_v1_contract example_delegated (\<lambda>_. Inr (Some example_subject_grant)) 5
       InMemoryAuditWriter None (Some ''ws'') (Some (\<lambda>_. Inr (Some example_token))) None ?replay 30 (\<lambda>_. ''r'') ((), [])"
  obtain r c s' where e: "?e = (r, c, s')" by (metis prod_cases3)
  have "is_valid_requested_action ''read''" "is_valid_requested_resource ''repo/a''" by code_simp+
  then have "ers_decision (fst ?e) \<noteq> None"
    using evaluate_and_record_in_memory_decides
      [of "v1_enforce_input example_subject_grant ''read'' ''repo/a'' None 5 None False"]
    by (simp add: delegated_enforce_v1_contract_def owned_grant_def delegated_with_grant_def
        missing_token_reason_def example_token_checks v1_enforce_input_def case_prod_unfold)
  then obtain d where d: "ers_decision r = Some d" using e by auto
  show ?thesis
    using delegated_decisions_rest_on_trusted_identity [OF in_memory_contract e d] e d by auto
qed

lemma check_subject_token_complete:
  assumes t: "token_evidence request ws grant now get_by_hash pm replay skew raw cache token cache'"
    and g: "g_workspace_id grant = ws" "g_agent_id grant = dq_agent_id request"
  shows "check_subject_token request ws grant now get_by_hash pm replay skew raw cache
      = (Inr (st_token_id token), cache')"
proof -
  have "token_refusal_reason request ws grant now token = None"
    using t g by (auto simp: token_evidence_def token_refusal_reason_def token_mismatch_def split: option.splits)
  then show ?thesis
    using t by (auto simp: token_evidence_def check_subject_token_def split: option.splits)
qed

text \<open>
  (C31) A presented subject token is accepted exactly when the identity evidence is there, and
  every refusal is answered alike. For a grant the asserted agent owns in the trusted
  workspace: if the token passes every check, the decision is evaluated and recorded under the
  token's id; otherwise the caller gets one fixed answer, whichever check failed, whether the
  token was unknown, revoked, expired, bound elsewhere or not proven, and only the audit store
  learns the reason.
\<close>

theorem delegated_token_refusals_are_alike:
  fixes now get_by_hash settings replay skew cache writer registry rnd s
  assumes "pep_ws = Some ws" "ws \<noteq> []" "dq_workspace_id request = ws"
    and "get_by_ref (dq_grant_ref request) = Inr (Some grant)"
    and "g_workspace_id grant = ws" "g_agent_id grant = dq_agent_id request"
    and "dq_subject_token request = Some raw" "py_strip raw \<noteq> []"
  defines "evidence \<equiv> token_evidence request ws grant now get_by_hash
             (mandated is_pop_required settings ws (dq_agent_id request)) replay skew raw cache"
    and "answer \<equiv> delegated_enforce_v1_contract request get_by_ref now writer registry pep_ws get_by_hash settings
             replay skew rnd (cache, s)"
  shows "(\<forall>token cache'. evidence token cache' \<longrightarrow>
            answer = (case evaluate_and_record
                 (v1_enforce_input grant (dq_action request) (dq_resource request) (dq_boundary_id request) now registry
                    (mandated is_boundary_required settings ws (dq_agent_id request)))
                 writer (Some (dq_pep_id request)) True (Some (st_token_id token)) rnd s of (r, s') \<Rightarrow> (r, cache', s')))
     \<and> ((\<nexists>token cache'. evidence token cache') \<longrightarrow>
            fst answer = pre_audit_error 403 ''forbidden'' ''subject token is not valid'')"
proof -
  let ?pm = "mandated is_pop_required settings ws (dq_agent_id request)"
  have a: "answer = (case check_subject_token request ws grant now get_by_hash ?pm replay skew raw cache of
       (Inl reason_code, cache') \<Rightarrow>
         (case delegated_refusal request ws now writer rnd reason_code
                 ''subject token is not valid'' s of (r, s') \<Rightarrow> (r, cache', s'))
     | (Inr token_id, cache') \<Rightarrow>
         (case evaluate_and_record (v1_enforce_input grant (dq_action request) (dq_resource request)
                    (dq_boundary_id request) now registry
                    (mandated is_boundary_required settings ws (dq_agent_id request)))
                 writer (Some (dq_pep_id request)) True (Some token_id) rnd s of (r, s') \<Rightarrow> (r, cache', s')))"
    using assms(1-8) unfolding mandated_def
    by (simp add: answer_def delegated_enforce_v1_contract_def owned_grant_def delegated_with_grant_def
        missing_token_reason_def token_absent_def Let_def)
  obtain x c where c: "check_subject_token request ws grant now get_by_hash ?pm replay skew raw cache = (x, c)"
    by (metis surj_pair)
  show ?thesis
  proof (cases x)
    case (Inl reason)
    have "\<nexists>token cache'. evidence token cache'"
      using check_subject_token_complete [OF _ assms(5,6)] c Inl unfolding evidence_def by (metis Pair_inject sum.distinct(1))
    moreover have "fst answer = pre_audit_error 403 ''forbidden'' ''subject token is not valid''"
      using a c Inl by (simp add: delegated_refusal_def)
    ultimately show ?thesis by blast
  next
    case (Inr tid)
    show ?thesis
    proof (intro conjI allI impI)
      fix token cache'
      assume "evidence token cache'"
      then have "check_subject_token request ws grant now get_by_hash ?pm replay skew raw cache
          = (Inr (st_token_id token), cache')"
        unfolding evidence_def using assms(5,6) by (rule check_subject_token_complete)
      with a show "answer = (case evaluate_and_record
                 (v1_enforce_input grant (dq_action request) (dq_resource request) (dq_boundary_id request) now registry
                    (mandated is_boundary_required settings ws (dq_agent_id request)))
                 writer (Some (dq_pep_id request)) True (Some (st_token_id token)) rnd s of (r, s') \<Rightarrow> (r, cache', s'))"
        by simp
    next
      assume "\<nexists>token cache'. evidence token cache'"
      then show "fst answer = pre_audit_error 403 ''forbidden'' ''subject token is not valid''"
        using check_subject_token_evidence c Inr unfolding evidence_def by metis
    qed
  qed
qed

theorem delegated_token_refusals_are_alike_witness:
  "fst (delegated_enforce_v1_contract example_delegated (\<lambda>_. Inr (Some example_subject_grant)) 5
       InMemoryAuditWriter None (Some ''ws'') (Some (\<lambda>_. Inr (Some (example_token\<lparr>st_revoked_at := Some 3\<rparr>)))) None
       (None :: (string \<Rightarrow> string \<Rightarrow> int \<Rightarrow> int \<Rightarrow> int \<Rightarrow> unit \<Rightarrow> bool \<times> unit) option) 30 (\<lambda>_. ''r'') ((), []))
     = pre_audit_error 403 ''forbidden'' ''subject token is not valid''"
proof -
  have "py_strip ''tok'' \<noteq> []" by code_simp
  moreover have "\<nexists>token cache'. token_evidence example_delegated ''ws'' example_subject_grant 5
      (Some (\<lambda>_. Inr (Some (example_token\<lparr>st_revoked_at := Some 3\<rparr>))))
      (mandated is_pop_required None ''ws'' (dq_agent_id example_delegated))
      (None :: (string \<Rightarrow> string \<Rightarrow> int \<Rightarrow> int \<Rightarrow> int \<Rightarrow> unit \<Rightarrow> bool \<times> unit) option) 30 ''tok'' () token cache'"
    by (auto simp: token_evidence_def)
  ultimately show ?thesis
    using delegated_token_refusals_are_alike [where pep_ws = "Some ''ws''" and ws = "''ws''"
        and request = example_delegated and get_by_ref = "\<lambda>_. Inr (Some example_subject_grant)"
        and grant = example_subject_grant and raw = "''tok''" and now = 5
        and get_by_hash = "Some (\<lambda>_. Inr (Some (example_token\<lparr>st_revoked_at := Some 3\<rparr>)))" and settings = None
        and replay = None and skew = 30 and cache = "()" and writer = InMemoryAuditWriter and registry = None
        and rnd = "\<lambda>_. ''r''" and s = "[]"]
    by simp
qed

end
