(* ===== verification/Simulations.thy ===== *)
theory Simulations
  imports V1Enforce
begin

section \<open>Simulation\<close>

text \<open>
  \<^verbatim>\<open>src/vinctor_service/simulations.py\<close>: the answer enforcement would give, recorded as a
  would-be decision, without acting as a gate.
\<close>

definition simulate_error :: "int \<Rightarrow> string \<Rightarrow> string \<Rightarrow> V1SimulateResponse" where
  "simulate_error status_code error reason =
     \<lparr>srs_status_code = status_code, srs_would_decision = None, srs_error = Some error, srs_reason = Some reason,
      srs_audit_event_id = None\<rparr>"

definition simulate_write :: "'s AuditWriter \<Rightarrow> AuditEvent \<Rightarrow> 's \<Rightarrow> bool \<times> 's" where
  "simulate_write audit_writer event s =
     (case aw_write audit_writer event s of (Some _, s') \<Rightarrow> (False, s') | (None, s') \<Rightarrow> (True, s'))"

definition simulate_refused ::
  "V1SimulateRequest \<Rightarrow> instant \<Rightarrow> 's AuditWriter \<Rightarrow> entropy \<Rightarrow> 's \<Rightarrow> V1SimulateResponse \<times> 's" where
  "simulate_refused request now audit_writer rnd s =
     (let event = build_rejection_audit_event
            ((rejection REASON_AGENT_GRANT_MISMATCH (sq_workspace_id request) (sq_agent_id request) now)
               \<lparr>ra_action := sq_action request, ra_resource := sq_resource request,
                ra_boundary_id := sq_boundary_id request, ra_event_type := ''action_would_deny''\<rparr>) rnd
      in case simulate_write audit_writer event s of
           (False, s') \<Rightarrow>
             (simulate_error 503 ''service_unavailable'' ''audit write failed; no simulation was recorded'', s')
         | (True, s') \<Rightarrow>
             (\<lparr>srs_status_code = 200, srs_would_decision = Some Deny, srs_error = Some ''forbidden'',
               srs_reason = Some GRANT_FORBIDDEN_MESSAGE, srs_audit_event_id = Some (ae_event_id event)\<rparr>, s'))"

definition simulate_with_grant ::
  "V1SimulateRequest \<Rightarrow> Grant \<Rightarrow> instant \<Rightarrow> 's AuditWriter \<Rightarrow> BoundaryLookup option \<Rightarrow> enforcement_settings option
     \<Rightarrow> entropy \<Rightarrow> 's \<Rightarrow> V1SimulateResponse \<times> 's" where
  "simulate_with_grant request grant now audit_writer boundary_registry settings rnd s =
     (if \<not> is_valid_requested_action (sq_action request)
      then (simulate_error 400 ''scope_invalid'' (''action '' @ quoted (sq_action request) @ '' is not valid''), s)
      else if \<not> is_valid_requested_resource (sq_resource request)
      then (simulate_error 400 ''scope_invalid'' (''resource '' @ quoted (sq_resource request) @ '' is not valid''), s)
      else
        let require_boundary = (case settings of
               None \<Rightarrow> False
             | Some st \<Rightarrow> is_boundary_required st (sq_workspace_id request) (sq_agent_id request));
            decision = evaluate_enforce
              \<lparr>ei_grant = grant, ei_action = sq_action request, ei_resource = sq_resource request, ei_now = now,
               ei_boundary_id = sq_boundary_id request, ei_boundary_registry = boundary_registry,
               ei_require_boundary = require_boundary\<rparr>;
            event = (build_audit_event
              \<lparr>aei_decision = decision, aei_event_id = None, aei_created_at = Some now,
               aei_enforcing_principal = None, aei_subject_token_verified = False, aei_token_id = None\<rparr> now rnd)
                \<lparr>ae_event_type := (if dr_decision decision = Permit then ''action_would_permit''
                                  else ''action_would_deny'')\<rparr>
        in case simulate_write audit_writer event s of
             (False, s') \<Rightarrow>
               (simulate_error 503 ''service_unavailable'' ''audit write failed; no simulation was recorded'', s')
           | (True, s') \<Rightarrow>
               let agent_reason = (if dr_decision decision = Permit then None
                                   else Some (agent_facing_reason (dr_reason decision)))
               in (\<lparr>srs_status_code = 200, srs_would_decision = Some (dr_decision decision),
                    srs_error = agent_reason, srs_reason = agent_reason,
                    srs_audit_event_id = Some (ae_event_id event)\<rparr>, s'))"

definition simulate_v1_contract ::
  "V1SimulateRequest \<Rightarrow> (string \<Rightarrow> exn + Grant option) \<Rightarrow> instant \<Rightarrow> 's AuditWriter \<Rightarrow> BoundaryLookup option
     \<Rightarrow> enforcement_settings option \<Rightarrow> entropy \<Rightarrow> 's \<Rightarrow> V1SimulateResponse \<times> 's" where
  "simulate_v1_contract request get_by_ref now audit_writer boundary_registry settings rnd s =
     (case get_by_ref (sq_grant_ref request) of
        Inl _ \<Rightarrow> (simulate_error 503 ''service_unavailable'' ''grant lookup failed; no simulation was recorded'', s)
      | Inr found \<Rightarrow>
          (case found of
             None \<Rightarrow> simulate_refused request now audit_writer rnd s
           | Some grant \<Rightarrow>
               if g_workspace_id grant \<noteq> sq_workspace_id request \<or> g_agent_id grant \<noteq> sq_agent_id request
               then simulate_refused request now audit_writer rnd s
               else simulate_with_grant request grant now audit_writer boundary_registry settings rnd s))"

subsection \<open>Simulation and enforcement\<close>

definition as_enforce_request :: "V1SimulateRequest \<Rightarrow> V1EnforceRequest" where
  "as_enforce_request q =
     \<lparr>er_workspace_id = sq_workspace_id q, er_agent_id = sq_agent_id q, er_grant_ref = sq_grant_ref q,
      er_action = sq_action q, er_resource = sq_resource q, er_boundary_id = sq_boundary_id q\<rparr>"

lemma as_enforce_request_sel [simp]:
  "er_workspace_id (as_enforce_request q) = sq_workspace_id q" "er_agent_id (as_enforce_request q) = sq_agent_id q"
  "er_grant_ref (as_enforce_request q) = sq_grant_ref q" "er_action (as_enforce_request q) = sq_action q"
  "er_resource (as_enforce_request q) = sq_resource q" "er_boundary_id (as_enforce_request q) = sq_boundary_id q"
  by (simp_all add: as_enforce_request_def)

lemma simulate_error_sel [simp]:
  "srs_would_decision (simulate_error c e r) = None" "srs_audit_event_id (simulate_error c e r) = None"
  "srs_status_code (simulate_error c e r) = c"
  by (simp_all add: simulate_error_def)

definition simulated ::
  "V1SimulateRequest \<Rightarrow> V1SimulateResponse \<Rightarrow> AuditEvent list \<Rightarrow> AuditEvent list \<Rightarrow> bool" where
  "simulated q r before after =
     (case srs_would_decision r of
        None \<Rightarrow> after = before \<and> srs_audit_event_id r = None \<and> srs_status_code r \<in> {400, 503}
      | Some d \<Rightarrow> srs_status_code r = 200
          \<and> (\<exists>e. after = before @ [e] \<and> srs_audit_event_id r = Some (ae_event_id e) \<and> ae_decision e = d
               \<and> ae_event_type e = (if d = Permit then ''action_would_permit'' else ''action_would_deny'')
               \<and> ae_workspace_id e = sq_workspace_id q \<and> ae_agent_id e = sq_agent_id q))"

context audit_log
begin

lemma simulate_write_log:
  "simulate_write writer e s = (b, s') \<Longrightarrow> log s' = log s @ (if b then [e] else [])"
  using write_ok write_raises by (auto simp: simulate_write_def split: prod.splits option.splits)

lemma simulate_refused_log:
  "simulate_refused q now writer rnd s = (r, s') \<Longrightarrow> simulated q r (log s) (log s')"
  by (auto simp: simulate_refused_def simulated_def Let_def dest!: simulate_write_log split: prod.splits bool.splits)

lemma simulate_with_grant_log:
  assumes "simulate_with_grant q grant now writer registry settings rnd s = (r, s')"
    and "g_workspace_id grant = sq_workspace_id q" "g_agent_id grant = sq_agent_id q"
  shows "simulated q r (log s) (log s')"
  using assms
  by (auto simp: simulate_with_grant_def simulated_def evaluate_enforce_copies Let_def
      dest!: simulate_write_log split: prod.splits bool.splits if_splits)

lemma simulate_log:
  assumes "simulate_v1_contract q get now writer registry settings rnd s = (r, s')"
  shows "simulated q r (log s) (log s')"
  using assms simulate_refused_log simulate_with_grant_log
  by (auto simp: simulate_v1_contract_def simulated_def [of q "simulate_error c e m" for c e m]
      split: sum.splits option.splits if_splits)

end

text \<open>What enforcement answers when simulation answers so.\<close>

definition enforce_agrees :: "V1SimulateResponse \<Rightarrow> V1EnforceResponse \<Rightarrow> bool" where
  "enforce_agrees r e =
     (case srs_would_decision r of
        Some d \<Rightarrow> ers_error e = srs_error r \<and> ers_reason e = srs_reason r
          \<and> (ers_decision e = Some d \<or> (d = Deny \<and> ers_decision e = None \<and> ers_status_code e = 403))
      | None \<Rightarrow> srs_status_code r = 503 \<or> (srs_status_code r = 400 \<and> ers_status_code e = 400 \<and> ers_decision e = None))"

lemma simulate_write_in_memory [simp]: "aw_write InMemoryAuditWriter e t = (None, t @ [e])"
  by (simp add: InMemoryAuditWriter_def InMemoryAuditWriter_write_def)

lemma not_Permit: "d \<noteq> Permit \<longleftrightarrow> d = Deny"
  by (cases d) simp_all

lemma simulate_with_grant_agrees:
  "enforce_agrees (fst (simulate_with_grant q grant now writer registry settings rnd s))
     (fst (evaluate_and_record (v1_enforce_input grant (sq_action q) (sq_resource q) (sq_boundary_id q) now registry
        (case settings of None \<Rightarrow> False
         | Some st \<Rightarrow> is_boundary_required st (sq_workspace_id q) (sq_agent_id q))) InMemoryAuditWriter None False None rnd' t))"
  unfolding simulate_with_grant_def evaluate_and_record_def v1_enforce_input_def Let_def
  by (auto simp: enforce_agrees_def response_from_decision_def Let_def not_Permit split: prod.splits bool.splits)

text \<open>
  (C36) Simulation tells what enforcement would do. For the same request, grants, boundaries and
  settings, a simulated permit is a permit of enforcement, a simulated deny is a refusal
  with the same error and reason, and a request simulation calls malformed enforcement calls
  malformed too. The would-be decision is in the audit log under its own event type, never as
  a decision, and a simulation that could not be recorded is not answered.
\<close>

theorem simulation_predicts_enforcement:
  assumes contract: "audit_log writer log"
    and e: "simulate_v1_contract q get now writer registry settings rnd s = (r, s')"
  shows "simulated q r (log s) (log s')
     \<and> enforce_agrees r
         (fst (enforce_v1_contract (as_enforce_request q) get now InMemoryAuditWriter registry settings rnd' t))"
proof
  show "simulated q r (log s) (log s')" by (rule audit_log.simulate_log [OF contract e])
  have refused: "enforce_agrees (fst (simulate_refused q now writer rnd s)) (pre_audit_error 403 ''forbidden'' GRANT_FORBIDDEN_MESSAGE)"
    by (simp add: simulate_refused_def enforce_agrees_def pre_audit_error_def Let_def split: prod.splits bool.splits)
  have "enforce_agrees (fst (simulate_v1_contract q get now writer registry settings rnd s))
      (fst (enforce_v1_contract (as_enforce_request q) get now InMemoryAuditWriter registry settings rnd' t))"
  proof (cases "get (sq_grant_ref q)")
    case (Inl x)
    then show ?thesis by (simp add: simulate_v1_contract_def enforce_agrees_def)
  next
    case (Inr f)
    then show ?thesis
      using refused simulate_with_grant_agrees [of q "the f" now writer registry settings rnd s rnd' t]
      by (cases f; cases settings) (simp_all add: simulate_v1_contract_def enforce_v1_contract_def Let_def)
  qed
  then show "enforce_agrees r
      (fst (enforce_v1_contract (as_enforce_request q) get now InMemoryAuditWriter registry settings rnd' t))"
    using e by simp
qed

definition example_simulation :: V1SimulateRequest where
  "example_simulation =
     \<lparr>sq_workspace_id = ''ws'', sq_agent_id = ''agent'', sq_grant_ref = ''grt_r'', sq_action = ''read'',
      sq_resource = ''repo/a'', sq_boundary_id = None\<rparr>"

theorem simulation_predicts_enforcement_witness:
  "\<exists>(r :: V1SimulateResponse) s'. simulate_v1_contract example_simulation (\<lambda>_. Inr (Some example_subject_grant)) 5
       InMemoryAuditWriter None None (\<lambda>_. ''r'') [] = (r, s')
     \<and> srs_status_code r = 200 \<and> length s' = 1
     \<and> enforce_agrees r (fst (enforce_v1_contract (as_enforce_request example_simulation)
          (\<lambda>_. Inr (Some example_subject_grant)) 5 InMemoryAuditWriter None None (\<lambda>_. ''q'') []))"
proof -
  obtain r s' where e: "simulate_v1_contract example_simulation (\<lambda>_. Inr (Some example_subject_grant)) 5
       InMemoryAuditWriter None None (\<lambda>_. ''r'') [] = (r, s')" by (metis surj_pair)
  have "is_valid_requested_action ''read''" "is_valid_requested_resource ''repo/a''" by code_simp+
  then have "srs_status_code (fst (simulate_v1_contract example_simulation (\<lambda>_. Inr (Some example_subject_grant)) 5
       InMemoryAuditWriter None None (\<lambda>_. ''r'') [])) = 200"
    by (simp add: simulate_v1_contract_def simulate_with_grant_def simulate_write_def example_simulation_def Let_def)
  then have r: "srs_status_code r = 200" using e by simp
  show ?thesis
    using simulation_predicts_enforcement [OF in_memory_contract e, of "\<lambda>_. ''q''" "[]"] e r
    by (auto simp: simulated_def split: option.splits)
qed

end
