(* ===== verification/PyJsonLoads.thy ===== *)
theory PyJsonLoads
  imports PyJson
begin

section \<open>Reading JSON text\<close>

text \<open>
  \<^verbatim>\<open>json.loads\<close> of the Python library, on the values of the type \<open>json\<close>: a text Python would
  read as a number with a fraction or an exponent, or that has an escaped code point over 255,
  has no such value, and the reader answers \<open>None\<close> for it as for a text that is no JSON
  (\<^verbatim>\<open>JSONDecodeError\<close>). The limit of 4,300 digits that Python sets on reading an integer is not modelled. A repeated key keeps its last value. Every call consumes a character,
  so the length of the text is enough fuel.
\<close>

subsection \<open>The reader\<close>

definition json_space :: "char \<Rightarrow> bool" where
  "json_space c \<longleftrightarrow> c \<in> {CHR '' '', CHR 0x09, CHR 0x0A, CHR 0x0D}"

definition skip_ws :: "string \<Rightarrow> string" where
  "skip_ws s = dropWhile json_space s"

definition hex_value :: "char \<Rightarrow> nat option" where
  "hex_value c =
     (let n = of_char c :: nat
      in if 48 \<le> n \<and> n \<le> 57 then Some (n - 48)
         else if 97 \<le> n \<and> n \<le> 102 then Some (n - 87)
         else if 65 \<le> n \<and> n \<le> 70 then Some (n - 55)
         else None)"

definition json_unescape :: "string \<Rightarrow> (char \<times> string) option" where
  "json_unescape s =
     (case s of
        [] \<Rightarrow> None
      | e # r \<Rightarrow>
          if e = CHR 0x22 \<or> e = CHR 0x5C \<or> e = CHR ''/'' then Some (e, r)
          else if e = CHR ''b'' then Some (CHR 0x08, r)
          else if e = CHR ''f'' then Some (CHR 0x0C, r)
          else if e = CHR ''n'' then Some (CHR 0x0A, r)
          else if e = CHR ''r'' then Some (CHR 0x0D, r)
          else if e = CHR ''t'' then Some (CHR 0x09, r)
          else if e = CHR ''u'' then
            (case map hex_value (take 4 r) of
               [Some h3, Some h2, Some h1, Some h0] \<Rightarrow>
                 if h3 = 0 \<and> h2 = 0 then Some (char_of (16 * h1 + h0), drop 4 r) else None
             | _ \<Rightarrow> None)
          else None)"

lemma json_unescape_shorter: "json_unescape s = Some (c, r) \<Longrightarrow> length r < length s"
  by (auto simp: json_unescape_def split: list.splits if_splits option.splits)

definition push_char :: "char \<Rightarrow> (string \<times> string) option \<Rightarrow> (string \<times> string) option" where
  "push_char c r = map_option (\<lambda>(s, rest). (c # s, rest)) r"

text \<open>The rest of a string literal after its opening quote.\<close>

function json_scan :: "string \<Rightarrow> (string \<times> string) option" where
  "json_scan [] = None"
| "json_scan (c # cs) =
     (if c = CHR 0x22 then Some ([], cs)
      else if c = CHR 0x5C then
        (case json_unescape cs of
           None \<Rightarrow> None
         | Some (d, rest) \<Rightarrow> push_char d (json_scan rest))
      else if (of_char c :: nat) < 32 then None
      else push_char c (json_scan cs))"
  by pat_completeness auto

termination json_scan
  by (relation "measure length") (auto dest: json_unescape_shorter)

definition json_number :: "string \<Rightarrow> (json \<times> string) option" where
  "json_number s =
     (let neg = startswith s ''-'';
          r = (if neg then tl s else s);
          ds = takeWhile is_digit r
      in case ds of
           [] \<Rightarrow> None
         | d # _ \<Rightarrow>
             if d = CHR ''0'' then Some (JInt 0, tl r)
             else Some (JInt (if neg then - int (digits_value ds) else int (digits_value ds)), dropWhile is_digit r))"

fun json_parse :: "nat \<Rightarrow> string \<Rightarrow> (json \<times> string) option"
and json_members :: "nat \<Rightarrow> (string, json) dict \<Rightarrow> string \<Rightarrow> (json \<times> string) option"
and json_elements :: "nat \<Rightarrow> json list \<Rightarrow> string \<Rightarrow> (json \<times> string) option" where
  "json_parse 0 s = None"
| "json_parse (Suc n) s =
     (case s of
        [] \<Rightarrow> None
      | c # r \<Rightarrow>
          if c = CHR 0x22 then map_option (\<lambda>(t, rest). (JStr t, rest)) (json_scan r)
          else if c = CHR 0x7B then
            (if startswith (skip_ws r) [CHR 0x7D] then Some (JObj [], tl (skip_ws r))
             else json_members n [] (skip_ws r))
          else if c = CHR 0x5B then
            (if startswith (skip_ws r) [CHR 0x5D] then Some (JList [], tl (skip_ws r))
             else json_elements n [] (skip_ws r))
          else if startswith s ''null'' then Some (JNull, drop 4 s)
          else if startswith s ''true'' then Some (JBool True, drop 4 s)
          else if startswith s ''false'' then Some (JBool False, drop 5 s)
          else json_number s)"
| "json_members 0 acc s = None"
| "json_members (Suc n) acc s =
     (case s of
        [] \<Rightarrow> None
      | c # r \<Rightarrow>
          if c \<noteq> CHR 0x22 then None
          else (case json_scan r of
             None \<Rightarrow> None
           | Some (k, r1) \<Rightarrow>
               if \<not> startswith (skip_ws r1) '':'' then None
               else (case json_parse n (skip_ws (tl (skip_ws r1))) of
                  None \<Rightarrow> None
                | Some (v, r2) \<Rightarrow>
                    if startswith (skip_ws r2) [CHR 0x7D] then Some (JObj (dict_set k v acc), tl (skip_ws r2))
                    else if startswith (skip_ws r2) '',''
                    then json_members n (dict_set k v acc) (skip_ws (tl (skip_ws r2)))
                    else None)))"
| "json_elements 0 acc s = None"
| "json_elements (Suc n) acc s =
     (case json_parse n s of
        None \<Rightarrow> None
      | Some (v, r) \<Rightarrow>
          if startswith (skip_ws r) [CHR 0x5D] then Some (JList (acc @ [v]), tl (skip_ws r))
          else if startswith (skip_ws r) '','' then json_elements n (acc @ [v]) (skip_ws (tl (skip_ws r)))
          else None)"

definition json_loads :: "string \<Rightarrow> json option" where
  "json_loads s =
     (case json_parse (Suc (length s)) (skip_ws s) of
        Some (v, rest) \<Rightarrow> if skip_ws rest = [] then Some v else None
      | None \<Rightarrow> None)"

subsection \<open>Reading what was written\<close>

lemma hex_value_hex_digit [simp]: "hex_value (hex_digit n) = Some (n mod 16)"
proof -
  have "\<forall>k\<in>{0..<16}. hex_value (''0123456789abcdef'' ! k) = Some k" by code_simp
  then show ?thesis by (simp add: hex_digit_def)
qed

lemma json_unescape_hex:
  "json_unescape (CHR ''u'' # CHR ''0'' # CHR ''0'' # hex_digit a # hex_digit b # r)
     = Some (char_of (16 * (a mod 16) + b mod 16), r)"
proof -
  have "hex_value CHR ''0'' = Some 0" by code_simp
  then show ?thesis by (simp add: json_unescape_def)
qed

lemma json_scan_escape: "json_scan (json_escape_char c @ r) = push_char c (json_scan r)"
proof (cases "c \<in> {CHR 0x22, CHR 0x5C, CHR 0x0A, CHR 0x0D, CHR 0x09, CHR 0x08, CHR 0x0C}")
  case True
  then show ?thesis by (auto simp: json_escape_char_def json_unescape_def)
next
  case False
  let ?n = "of_char c :: nat"
  have n: "?n < 256" using nat_of_char_less_256 by simp
  show ?thesis
  proof (cases "32 \<le> ?n \<and> ?n \<le> 126")
    case True
    with False show ?thesis by (simp add: json_escape_char_def)
  next
    case other: False
    have "char_of (16 * (?n div 16 mod 16) + ?n mod 16) = c"
    proof -
      have "?n div 16 < 16" using n by (simp add: div_less_iff_less_mult)
      then have "?n div 16 mod 16 = ?n div 16" by (rule mod_less)
      then show ?thesis by (simp add: mult.commute [of 16] div_mult_mod_eq)
    qed
    with False other show ?thesis
      by (simp add: json_escape_char_def Let_def json_unescape_hex)
  qed
qed

lemma json_scan_string [simp]: "json_scan (concat (map json_escape_char s) @ CHR 0x22 # r) = Some (s, r)"
  by (induction s) (simp_all add: json_scan_escape push_char_def)

lemma json_string_append: "json_string s @ r = CHR 0x22 # concat (map json_escape_char s) @ CHR 0x22 # r"
  by (simp add: json_string_def)

definition scalar :: "json \<Rightarrow> bool" where
  "scalar v = (case v of JList _ \<Rightarrow> False | JObj _ \<Rightarrow> False | _ \<Rightarrow> True)"

lemma digit_char_zero: "n < 10 \<Longrightarrow> digit_char n = CHR ''0'' \<longleftrightarrow> n = 0"
proof -
  have "digit_value CHR ''0'' = 0" "digit_char 0 = CHR ''0''" by code_simp+
  then show "n < 10 \<Longrightarrow> digit_char n = CHR ''0'' \<longleftrightarrow> n = 0" by (metis digit_value_digit_char)
qed

lemma nat_digits_zero: "hd (nat_digits n) = CHR ''0'' \<longleftrightarrow> n = 0"
proof (induction n rule: nat_digits.induct)
  case (1 n)
  show ?case
  proof (cases "n < 10")
    case True
    then show ?thesis by (subst nat_digits.simps) (simp add: digit_char_zero)
  next
    case False
    then show ?thesis using 1 by (subst nat_digits.simps) simp
  qed
qed

lemma json_number_digits:
  assumes "r = [] \<or> \<not> is_digit (hd r)"
  shows "json_number (py_str_int n @ r) = Some (JInt n, r)"
proof -
  let ?m = "nat (if n < 0 then - n else n)"
  obtain d ds where d: "nat_digits ?m = d # ds" by (cases "nat_digits ?m") auto
  have dig: "\<forall>c\<in>set (nat_digits ?m). is_digit c" by (rule nat_digits_are_digits)
  have tw: "takeWhile is_digit (nat_digits ?m @ r) = nat_digits ?m" "dropWhile is_digit (nat_digits ?m @ r) = r"
    using dig assms by (cases r; simp)+
  have z: "d = CHR ''0'' \<longleftrightarrow> ?m = 0" using nat_digits_zero [of ?m] d by simp
  have nz: "nat_digits 0 = ''0''" by (subst nat_digits.simps) (simp add: digit_char_zero)
  have sign: "d \<noteq> CHR ''-''" using dig d is_digit_not_sign by simp
  show ?thesis
  proof (cases "n = 0")
    case True
    have "is_digit CHR ''0''" by (simp add: is_digit_def)
    with True show ?thesis by (simp add: json_number_def py_str_int_def nz startswith_def Let_def)
  next
    case False
    have "digits_value (nat_digits ?m) = ?m" by (rule digits_value_nat_digits)
    with False z d have "digits_value (d # ds) = ?m" "d \<noteq> CHR ''0''" by auto
    then show ?thesis
      using False tw d sign
      by (cases "n < 0") (simp_all add: json_number_def py_str_int_def startswith_def Let_def del: nat_minus_as_int)
  qed
qed

lemma py_str_int_head: "\<exists>c cs. py_str_int n = c # cs \<and> (is_digit c \<or> c = CHR ''-'')"
proof (cases "n < 0")
  case True
  then show ?thesis by (simp add: py_str_int_def)
next
  case False
  obtain d ds where "nat_digits (nat n) = d # ds" by (cases "nat_digits (nat n)") auto
  with False show ?thesis using nat_digits_are_digits [of "nat n"] by (simp add: py_str_int_def)
qed

lemma json_parse_scalar:
  assumes "scalar v" "r = [] \<or> \<not> is_digit (hd r)"
  shows "json_parse (Suc n) (json_dumps v @ r) = Some (v, r)"
proof (cases v)
  case (JInt i)
  obtain c cs where c: "py_str_int i = c # cs" "is_digit c \<or> c = CHR ''-''" using py_str_int_head by blast
  then have "c \<notin> {CHR 0x22, CHR 0x7B, CHR 0x5B, CHR ''n'', CHR ''t'', CHR ''f''}" by (auto simp: is_digit_def)
  with c JInt json_number_digits [OF assms(2), of i] show ?thesis by (auto simp: startswith_def)
next
  case (JStr s)
  then show ?thesis by (simp add: json_string_append)
qed (use assms in \<open>auto simp: scalar_def startswith_def\<close>)

lemma skip_ws_simps [simp]:
  "skip_ws [] = []"
  "skip_ws (c # s) = (if json_space c then skip_ws s else c # s)"
  by (simp_all add: skip_ws_def)

lemma json_space_simps [simp]:
  "json_space CHR '' ''" "\<not> json_space CHR '',''" "\<not> json_space CHR '':''" "\<not> json_space CHR 0x22"
  "\<not> json_space CHR 0x7B" "\<not> json_space CHR 0x7D" "\<not> json_space CHR 0x5B"
  by (simp_all add: json_space_def)

lemma scalar_not_space: "scalar v \<Longrightarrow> skip_ws (json_dumps v @ r) = json_dumps v @ r"
proof (cases v)
  case (JInt i)
  obtain c cs where c: "py_str_int i = c # cs" "is_digit c \<or> c = CHR ''-''" using py_str_int_head by blast
  then have "\<not> json_space c" by (auto simp: is_digit_def json_space_def)
  with c JInt show ?thesis by simp
qed (auto simp: scalar_def json_string_def json_space_def)

definition member_text :: "string \<times> json \<Rightarrow> string" where
  "member_text kv = json_string (fst kv) @ '': '' @ json_dumps (snd kv)"

lemma json_members_read:
  assumes "kvs \<noteq> []" "\<forall>kv\<in>set kvs. scalar (snd kv)" "dict_wf (acc @ kvs)" "length kvs < n"
  shows "json_members n acc (join_with '', '' (map member_text kvs) @ CHR 0x7D # r) = Some (JObj (acc @ kvs), r)"
  using assms
proof (induction kvs arbitrary: acc n)
  case (Cons kv kvs)
  obtain k v where kv: "kv = (k, v)" by (cases kv)
  obtain m where n: "n = Suc (Suc m)" using Cons.prems(4) by (cases n; cases "n - 1") auto
  have v: "scalar v" using Cons.prems(2) kv by simp
  have fresh: "dict_set k v acc = acc @ [(k, v)]"
    using Cons.prems(3) kv by (auto intro!: dict_set_fresh simp: dict_wf_def map_of_eq_None_iff)
  show ?case
  proof (cases "kvs = []")
    case True
    have "json_parse (Suc m) (json_dumps v @ CHR 0x7D # r) = Some (v, CHR 0x7D # r)"
      using v by (intro json_parse_scalar) (simp_all add: is_digit_def)
    with True kv n v fresh show ?thesis
      by (simp add: member_text_def json_string_append scalar_not_space startswith_def)
  next
    case False
    let ?t = "join_with '', '' (map member_text kvs) @ CHR 0x7D # r"
    have j: "join_with '', '' (map member_text (kv # kvs)) @ CHR 0x7D # r = member_text kv @ '', '' @ ?t"
      using False by (simp add: join_with_Cons)
    have p: "json_parse (Suc m) (json_dumps v @ '', '' @ ?t) = Some (v, '', '' @ ?t)"
      using v by (intro json_parse_scalar) (simp_all add: is_digit_def)
    obtain kv2 rest where k2: "kvs = kv2 # rest" using False by (cases kvs) auto
    have q: "skip_ws ?t = ?t"
      by (cases rest) (simp_all add: k2 member_text_def json_string_append)
    have ih: "json_members (Suc m) (acc @ [(k, v)]) ?t = Some (JObj ((acc @ [(k, v)]) @ kvs), r)"
      using Cons.IH [of "acc @ [(k, v)]" "Suc m"] Cons.prems False kv n by simp
    show ?thesis
      unfolding j using p q ih fresh v
      by (simp add: kv n member_text_def json_string_append scalar_not_space startswith_def)
  qed
qed simp

lemma insort_key_map: "(\<And>x. fst (f x) = fst x) \<Longrightarrow> insort_key fst (f x) (map f xs) = map f (insort_key fst x xs)"
  by (induction xs) simp_all

lemma sort_key_map: "(\<And>x. fst (f x) = fst x) \<Longrightarrow> sort_key fst (map f xs) = map f (sort_key fst xs)"
  by (induction xs) (simp_all add: insort_key_map)

lemma json_dumps_obj:
  "json_dumps (JObj kvs) = CHR 0x7B # join_with '', '' (map member_text (sort_key fst kvs)) @ [CHR 0x7D]"
proof -
  have "sort_key fst (map (\<lambda>(k, v). (k, json_dumps v)) kvs) = map (\<lambda>(k, v). (k, json_dumps v)) (sort_key fst kvs)"
    by (rule sort_key_map) auto
  then show ?thesis by (simp add: member_text_def [abs_def] case_prod_unfold comp_def)
qed

text \<open>A dictionary of scalar values is read back as it was written, its keys now sorted.\<close>

theorem json_loads_dumps:
  assumes "dict_wf kvs" "\<forall>kv\<in>set kvs. scalar (snd kv)"
  shows "json_loads (json_dumps (JObj kvs)) = Some (JObj (sort_key fst kvs))"
proof (cases "kvs = []")
  case True
  then show ?thesis by (simp add: json_loads_def startswith_def)
next
  case False
  let ?s = "sort_key fst kvs" and ?t = "join_with '', '' (map member_text (sort_key fst kvs))"
  have s: "?s \<noteq> []" "\<forall>kv\<in>set ?s. scalar (snd kv)" "dict_wf ([] @ ?s)"
  proof -
    have "distinct (map fst ?s)" using assms(1) by (simp add: dict_wf_def distinct_map)
    then show "\<forall>kv\<in>set ?s. scalar (snd kv)" "dict_wf ([] @ ?s)"
      using assms(2) by (simp_all add: dict_wf_def)
    show "?s \<noteq> []" using False by (metis length_0_conv length_sort)
  qed
  have len: "length xs \<le> length (join_with '', '' (map member_text xs))" for xs
    by (induction xs rule: induct_list012) (auto simp: join_with_Cons member_text_def json_string_def)
  obtain kv2 rest where k2: "?s = kv2 # rest" using s(1) by (cases ?s) auto
  have q: "skip_ws (?t @ [CHR 0x7D]) = ?t @ [CHR 0x7D]" "\<not> startswith (?t @ [CHR 0x7D]) [CHR 0x7D]"
    by (cases rest; simp add: k2 member_text_def json_string_append startswith_def)+
  have "json_members (length (json_dumps (JObj kvs))) [] (?t @ CHR 0x7D # []) = Some (JObj ([] @ ?s), [])"
    using s len [of ?s] by (intro json_members_read) (simp_all add: json_dumps_obj del: json_dumps.simps)
  then show ?thesis using q by (simp add: json_loads_def json_dumps_obj del: json_dumps.simps)
qed

end
