(* ===== verification/AuditChain.thy ===== *)
theory AuditChain
  imports ServiceAudit PyJsonLoads Sha256
begin

section \<open>The hash-chained audit log\<close>

text \<open>
  \<^verbatim>\<open>src/vinctor_service/audit_chain.py\<close>, the \<^verbatim>\<open>SQLiteAuditWriter\<close> of \<^verbatim>\<open>sqlite.py\<close> and the anchors of
  \<^verbatim>\<open>audit_anchor.py\<close>. The table \<^verbatim>\<open>audit_events\<close> is the list of its rows in the order of their
  insertion; a row has its sequence number, the two hashes, the event's JSON text and the 18
  columns that mirror fields of the event, each cell as a JSON value (\<^verbatim>\<open>NULL\<close> is \<open>JNull\<close>, a stored
  boolean an integer). \<^verbatim>\<open>ORDER BY seq\<close> is the library's stable sort. Hashes are computed by the
  SHA-256 of the theory \<open>Sha256\<close>. An instant that is no \<^verbatim>\<open>datetime\<close> cannot be serialised and
  raises. A write outside a transaction commits before its anchor is emitted.
\<close>

subsection \<open>The chain primitive\<close>

definition GENESIS_PREV_HASH :: string where
  "GENESIS_PREV_HASH = replicate 64 CHR ''0''"

definition LEGACY_SUBJECT_TOKEN_VERIFIED_FIELD :: string where
  "LEGACY_SUBJECT_TOKEN_VERIFIED_FIELD = ''identity_proven''"

definition row_payload :: "int \<Rightarrow> string \<Rightarrow> string \<Rightarrow> string" where
  "row_payload seq event_json prev_hash = py_str_int seq @ CHR 0x0A # event_json @ CHR 0x0A # prev_hash"

definition row_hash :: "int \<Rightarrow> string \<Rightarrow> string \<Rightarrow> string" where
  "row_hash seq event_json prev_hash = hexdigest (sha256 (utf8 (row_payload seq event_json prev_hash)))"

subsection \<open>Columns and their cross-check\<close>

definition or_null :: "json option \<Rightarrow> json" where
  "or_null x = (case x of None \<Rightarrow> JNull | Some v \<Rightarrow> v)"

definition dict_get_or_null :: "(string, json) dict \<Rightarrow> string \<Rightarrow> json" where
  "dict_get_or_null d k = or_null (dict_get d k)"

definition event_json_value :: "(string, json) dict \<Rightarrow> string \<Rightarrow> json" where
  "event_json_value data field =
     (if field = ''subject_token_verified'' \<and> dict_get data field = None
      then dict_get_or_null data LEGACY_SUBJECT_TOKEN_VERIFIED_FIELD
      else dict_get_or_null data field)"

text \<open>\<^verbatim>\<open>bool(value)\<close> and \<^verbatim>\<open>==\<close> on what JSON and a column hold.\<close>

definition json_truth :: "json \<Rightarrow> bool" where
  "json_truth v =
     (case v of JNull \<Rightarrow> False | JBool b \<Rightarrow> b | JInt n \<Rightarrow> n \<noteq> 0 | JStr s \<Rightarrow> s \<noteq> [] | JList xs \<Rightarrow> xs \<noteq> []
      | JObj kvs \<Rightarrow> kvs \<noteq> [])"

definition json_as_int :: "json \<Rightarrow> json" where
  "json_as_int v = (case v of JBool b \<Rightarrow> JInt (if b then 1 else 0) | _ \<Rightarrow> v)"

definition json_equal :: "json \<Rightarrow> json \<Rightarrow> bool" where
  "json_equal v w \<longleftrightarrow> json_as_int v = json_as_int w"

definition subject_token_verified_from_json :: "(string, json) dict \<Rightarrow> bool" where
  "subject_token_verified_from_json data = json_truth (event_json_value data ''subject_token_verified'')"

definition canonical_instant :: "json \<Rightarrow> json" where
  "canonical_instant v =
     (case v of
        JStr s \<Rightarrow> (case fromisoformat s of None \<Rightarrow> v | Some t \<Rightarrow> JStr (isoformat t))
      | _ \<Rightarrow> v)"

definition crosscheck_values_match :: "string \<Rightarrow> json \<Rightarrow> json \<Rightarrow> bool" where
  "crosscheck_values_match column json_value column_value =
     (if column \<in> {''created_at'', ''first_seen_at'', ''last_seen_at''}
      then json_equal (canonical_instant json_value) (canonical_instant column_value)
      else if column = ''subject_token_verified'' then json_truth json_value = json_truth column_value
      else if column = ''event_class''
      then json_equal (if json_value \<noteq> JNull then json_value else JStr ''decision'') column_value
      else json_equal json_value column_value)"

definition CROSSCHECK_COLUMNS :: "string list" where
  "CROSSCHECK_COLUMNS =
     [''event_id'', ''event_type'', ''decision'', ''reason'', ''workspace_id'', ''agent_id'', ''grant_id'',
      ''grant_ref'', ''action'', ''resource'', ''scope_attempted'', ''scope_matched'', ''boundary_id'', ''runtime'',
      ''boundary_type'', ''created_at'', ''subject_token_verified'', ''event_class'']"

subsection \<open>The writer\<close>

record audit_row =
  rw_seq :: int
  rw_prev_hash :: string
  rw_row_hash :: string
  rw_event_json :: string
  rw_columns :: "json list"

type_synonym audit_table = "audit_row list"

definition event_columns :: "AuditEvent \<Rightarrow> json list" where
  "event_columns e =
     [JStr (ae_event_id e), JStr (ae_event_type e), JStr (decision_string (ae_decision e)), JStr (ae_reason e),
      JStr (ae_workspace_id e), JStr (ae_agent_id e), JStr (ae_grant_id e), JStr (ae_grant_ref e),
      JStr (ae_action e), JStr (ae_resource e), JStr (ae_scope_attempted e), json_opt (ae_scope_matched e),
      json_opt (ae_boundary_id e), json_opt (ae_runtime e), json_opt (ae_boundary_type e),
      JStr (isoformat (ae_created_at e)), JInt (if ae_subject_token_verified e then 1 else 0),
      JStr (ae_event_class e)]"

definition event_json_text :: "AuditEvent \<Rightarrow> string" where
  "event_json_text event = json_dumps (JObj (to_dict event))"

definition serialisable :: "AuditEvent \<Rightarrow> bool" where
  "serialisable e \<longleftrightarrow> is_datetime (ae_created_at e) \<and> pred_option is_datetime (ae_first_seen_at e)
     \<and> pred_option is_datetime (ae_last_seen_at e)"

definition by_seq :: "audit_table \<Rightarrow> audit_table" where
  "by_seq rows = sort_key rw_seq rows"

definition chain_head :: "audit_table \<Rightarrow> int \<times> string" where
  "chain_head rows =
     (case rev (by_seq rows) of [] \<Rightarrow> (0, GENESIS_PREV_HASH) | r # _ \<Rightarrow> (rw_seq r, rw_row_hash r))"

definition sq_write_event :: "AuditEvent \<Rightarrow> audit_table \<Rightarrow> (exn + int \<times> string \<times> string) \<times> audit_table" where
  "sq_write_event event rows =
     (if \<not> serialisable event then (Inl (OtherException ''OverflowError''), rows)
      else
        let event_json = event_json_text event;
            (prev_seq, prev_hash) = chain_head rows;
            seq = prev_seq + 1;
            current_hash = row_hash seq event_json prev_hash
        in if \<exists>r\<in>set rows. take 1 (rw_columns r) = [JStr (ae_event_id event)]
           then (Inl (OtherException ''IntegrityError''), rows)
           else (Inr (seq, current_hash, isoformat (ae_created_at event)),
                 rows @ [\<lparr>rw_seq = seq, rw_prev_hash = prev_hash, rw_row_hash = current_hash,
                          rw_event_json = event_json, rw_columns = event_columns event\<rparr>]))"

definition sq_audit_write ::
  "(int \<Rightarrow> string \<Rightarrow> string \<Rightarrow> 'a \<Rightarrow> 'a) \<Rightarrow> AuditEvent \<Rightarrow> audit_table \<times> 'a \<Rightarrow> exn option \<times> audit_table \<times> 'a" where
  "sq_audit_write emit event st =
     (case st of (rows, anchor) \<Rightarrow>
        case sq_write_event event rows of
          (Inl e, _) \<Rightarrow> (Some e, rows, anchor)
        | (Inr (seq, current_hash, created), rows') \<Rightarrow> (None, rows', emit seq current_hash created anchor))"

definition sq_audit_write_best_effort ::
  "(int \<Rightarrow> string \<Rightarrow> string \<Rightarrow> 'a \<Rightarrow> 'a) \<Rightarrow> AuditEvent \<Rightarrow> audit_table \<times> 'a \<Rightarrow> (exn + bool) \<times> audit_table \<times> 'a" where
  "sq_audit_write_best_effort emit event st =
     (case st of (rows, anchor) \<Rightarrow>
        case sq_write_event event rows of
          (Inl _, _) \<Rightarrow> (Inr False, rows, anchor)
        | (Inr (seq, current_hash, created), rows') \<Rightarrow> (Inr True, rows', emit seq current_hash created anchor))"

definition SQLiteAuditWriter :: "(int \<Rightarrow> string \<Rightarrow> string \<Rightarrow> 'a \<Rightarrow> 'a) \<Rightarrow> (audit_table \<times> 'a) AuditWriter" where
  "SQLiteAuditWriter emit =
     \<lparr>aw_write = sq_audit_write emit, aw_write_best_effort = Some (sq_audit_write_best_effort emit)\<rparr>"

subsection \<open>Anchors\<close>

definition anchor_line :: "int \<Rightarrow> string \<Rightarrow> string \<Rightarrow> string" where
  "anchor_line seq head_hash created_at =
     json_dumps (JObj [(''seq'', JInt seq), (''row_hash'', JStr head_hash), (''created_at'', JStr created_at)])"

definition NullAnchor_emit :: "int \<Rightarrow> string \<Rightarrow> string \<Rightarrow> 'a \<Rightarrow> 'a" where
  "NullAnchor_emit seq head_hash created_at sink = sink"

text \<open>The file sink, with its fail-open contract: \<open>available\<close> tells whether the file can be written now.\<close>

definition FileAnchor_emit :: "bool \<Rightarrow> int \<Rightarrow> string \<Rightarrow> string \<Rightarrow> string \<Rightarrow> string" where
  "FileAnchor_emit available seq head_hash created_at file =
     (if available then file @ anchor_line seq head_hash created_at @ [CHR 0x0A] else file)"

subsection \<open>Reading events back\<close>

definition str_field :: "(string, json) dict \<Rightarrow> string \<Rightarrow> string option" where
  "str_field d k = (case dict_get d k of Some (JStr s) \<Rightarrow> Some s | _ \<Rightarrow> None)"

definition opt_str_value :: "json \<Rightarrow> string option option" where
  "opt_str_value v = (case v of JNull \<Rightarrow> Some None | JStr s \<Rightarrow> Some (Some s) | _ \<Rightarrow> None)"

definition opt_str_field :: "(string, json) dict \<Rightarrow> string \<Rightarrow> string option option" where
  "opt_str_field d k = Option.bind (dict_get d k) opt_str_value"

definition optional_datetime :: "json \<Rightarrow> instant option option" where
  "optional_datetime v =
     (case v of JNull \<Rightarrow> Some None | JStr s \<Rightarrow> map_option Some (fromisoformat s) | _ \<Rightarrow> None)"

definition opt_int_value :: "json \<Rightarrow> int option option" where
  "opt_int_value v = (case v of JNull \<Rightarrow> Some None | JInt n \<Rightarrow> Some (Some n) | _ \<Rightarrow> None)"

definition decision_of_string :: "string \<Rightarrow> Decision option" where
  "decision_of_string s = (if s = ''permit'' then Some Permit else if s = ''deny'' then Some Deny else None)"

text \<open>
  \<^verbatim>\<open>_audit_event_from_json\<close>; \<open>None\<close> when it raises, or when a field has a value of another type
  than its annotation.
\<close>

definition audit_event_from_json :: "string \<Rightarrow> AuditEvent option" where
  "audit_event_from_json txt =
     (case json_loads txt of
        Some (JObj data) \<Rightarrow> do {
          event_id \<leftarrow> str_field data ''event_id'';
          event_type \<leftarrow> str_field data ''event_type'';
          decision \<leftarrow> Option.bind (str_field data ''decision'') decision_of_string;
          reason \<leftarrow> str_field data ''reason'';
          workspace_id \<leftarrow> str_field data ''workspace_id'';
          agent_id \<leftarrow> str_field data ''agent_id'';
          grant_id \<leftarrow> str_field data ''grant_id'';
          grant_ref \<leftarrow> str_field data ''grant_ref'';
          action \<leftarrow> str_field data ''action'';
          resource \<leftarrow> str_field data ''resource'';
          scope_attempted \<leftarrow> str_field data ''scope_attempted'';
          scope_matched \<leftarrow> opt_str_field data ''scope_matched'';
          boundary_id \<leftarrow> opt_str_field data ''boundary_id'';
          runtime \<leftarrow> opt_str_field data ''runtime'';
          boundary_type \<leftarrow> opt_str_field data ''boundary_type'';
          created_at \<leftarrow> Option.bind (str_field data ''created_at'') fromisoformat;
          enforcing_principal \<leftarrow> opt_str_value (dict_get_or_null data ''enforcing_principal'');
          reason_code \<leftarrow> opt_str_value (dict_get_or_null data ''reason_code'');
          occurrence_count \<leftarrow> opt_int_value (dict_get_or_null data ''occurrence_count'');
          first_seen_at \<leftarrow> optional_datetime (dict_get_or_null data ''first_seen_at'');
          last_seen_at \<leftarrow> optional_datetime (dict_get_or_null data ''last_seen_at'');
          token_id \<leftarrow> opt_str_value (dict_get_or_null data ''token_id'');
          event_class \<leftarrow> (case dict_get data ''event_class'' of
             None \<Rightarrow> Some ''decision'' | Some (JStr c) \<Rightarrow> Some c | _ \<Rightarrow> None);
          Some \<lparr>ae_event_id = event_id, ae_event_type = event_type, ae_decision = decision, ae_reason = reason,
                ae_workspace_id = workspace_id, ae_agent_id = agent_id, ae_grant_id = grant_id,
                ae_grant_ref = grant_ref, ae_action = action, ae_resource = resource,
                ae_scope_attempted = scope_attempted, ae_scope_matched = scope_matched,
                ae_boundary_id = boundary_id, ae_runtime = runtime, ae_boundary_type = boundary_type,
                ae_created_at = created_at, ae_enforcing_principal = enforcing_principal,
                ae_reason_code = reason_code, ae_occurrence_count = occurrence_count,
                ae_first_seen_at = first_seen_at, ae_last_seen_at = last_seen_at,
                ae_subject_token_verified = subject_token_verified_from_json data, ae_token_id = token_id,
                ae_event_class = event_class\<rparr>
        }
      | _ \<Rightarrow> None)"

definition sq_list_all :: "audit_table \<Rightarrow> AuditEvent option list" where
  "sq_list_all rows = map (\<lambda>r. audit_event_from_json (rw_event_json r)) (by_seq rows)"

subsection \<open>Verification\<close>

record ChainVerification =
  cv_ok :: bool
  cv_count :: int
  cv_head_seq :: int
  cv_head_hash :: string
  cv_break_seq :: "int option"
  cv_break_event_id :: "json option"
  cv_break_kind :: "string option"

definition chain_break :: "int \<Rightarrow> int \<Rightarrow> string \<Rightarrow> int \<Rightarrow> json option \<Rightarrow> string \<Rightarrow> ChainVerification" where
  "chain_break count head_seq head_hash break_seq event_id kind =
     \<lparr>cv_ok = False, cv_count = count, cv_head_seq = head_seq, cv_head_hash = head_hash,
      cv_break_seq = Some break_seq, cv_break_event_id = event_id, cv_break_kind = Some kind\<rparr>"

definition columns_match :: "(string, json) dict \<Rightarrow> json list \<Rightarrow> bool" where
  "columns_match data cols =
     list_all (\<lambda>(name, cell). crosscheck_values_match name (event_json_value data name) cell)
       (zip CROSSCHECK_COLUMNS cols)"

fun verify_rows :: "int \<Rightarrow> string \<Rightarrow> int \<Rightarrow> int \<Rightarrow> string \<Rightarrow> audit_table \<Rightarrow> exn + ChainVerification" where
  "verify_rows count prev expected_seq head_seq head_hash [] =
     Inr \<lparr>cv_ok = True, cv_count = count, cv_head_seq = head_seq, cv_head_hash = head_hash,
          cv_break_seq = None, cv_break_event_id = None, cv_break_kind = None\<rparr>"
| "verify_rows count prev expected_seq head_seq head_hash (row # rows) =
     (let seq = rw_seq row; prev_hash = rw_prev_hash row; stored_hash = rw_row_hash row;
          event_json = rw_event_json row;
          event_id = (case rw_columns row of [] \<Rightarrow> None | c # _ \<Rightarrow> Some c)
      in if seq \<noteq> expected_seq then Inr (chain_break count head_seq head_hash expected_seq event_id ''deleted'')
         else if prev_hash \<noteq> prev then Inr (chain_break count head_seq head_hash seq event_id ''reordered'')
         else if stored_hash \<noteq> row_hash seq event_json prev_hash
         then Inr (chain_break count head_seq head_hash seq event_id ''modified'')
         else (case json_loads event_json of
                 Some (JObj data) \<Rightarrow>
                   if \<not> columns_match data (rw_columns row)
                   then Inr (chain_break count head_seq head_hash seq event_id ''column_mismatch'')
                   else verify_rows count stored_hash (expected_seq + 1) seq stored_hash rows
               | _ \<Rightarrow> Inl (ValueError ''event_json'')))"

definition verify_chain :: "audit_table \<Rightarrow> exn + ChainVerification" where
  "verify_chain rows = verify_rows (int (length rows)) GENESIS_PREV_HASH 1 0 GENESIS_PREV_HASH (by_seq rows)"

record AnchorRecord =
  an_seq :: int
  an_row_hash :: string

record AnchorVerification =
  av_ok :: bool
  av_checked :: int
  av_covered_max_seq :: int
  av_head_seq :: int
  av_divergence_seq :: "int option"
  av_divergence_kind :: "string option"

text \<open>\<^verbatim>\<open>SELECT row_hash FROM audit_events WHERE seq = ?\<close>.\<close>

definition hash_at :: "audit_table \<Rightarrow> int \<Rightarrow> string option" where
  "hash_at rows seq = map_option rw_row_hash (find_first (\<lambda>r. rw_seq r = seq) rows)"

fun anchor_loop :: "audit_table \<Rightarrow> int \<Rightarrow> int \<Rightarrow> int \<Rightarrow> AnchorRecord list \<Rightarrow> AnchorVerification" where
  "anchor_loop rows head_seq checked covered [] =
     (if covered < head_seq
      then \<lparr>av_ok = False, av_checked = checked, av_covered_max_seq = covered, av_head_seq = head_seq,
            av_divergence_seq = Some (covered + 1), av_divergence_kind = Some ''uncovered''\<rparr>
      else \<lparr>av_ok = True, av_checked = checked, av_covered_max_seq = covered, av_head_seq = head_seq,
            av_divergence_seq = None, av_divergence_kind = None\<rparr>)"
| "anchor_loop rows head_seq checked covered (rec # recs) =
     (case hash_at rows (an_seq rec) of
        None \<Rightarrow>
          \<lparr>av_ok = False, av_checked = covered, av_covered_max_seq = covered, av_head_seq = head_seq,
           av_divergence_seq = Some (an_seq rec), av_divergence_kind = Some ''missing''\<rparr>
      | Some h \<Rightarrow>
          if h \<noteq> an_row_hash rec
          then \<lparr>av_ok = False, av_checked = covered, av_covered_max_seq = covered, av_head_seq = head_seq,
                av_divergence_seq = Some (an_seq rec), av_divergence_kind = Some ''mismatch''\<rparr>
          else anchor_loop rows head_seq checked (max covered (an_seq rec)) recs)"

definition verify_against_anchor :: "audit_table \<Rightarrow> AnchorRecord list \<Rightarrow> AnchorVerification" where
  "verify_against_anchor rows records =
     anchor_loop rows (fst (chain_head rows)) (int (length records)) 0 records"

subsection \<open>A dictionary and its sorted copy\<close>

lemma map_of_sort_key: "distinct (map fst kvs) \<Longrightarrow> map_of (sort_key fst kvs) = map_of kvs"
proof (rule map_of_eqI)
  assume d: "distinct (map fst kvs)"
  show "set (map fst (sort_key fst kvs)) = set (map fst kvs)" by simp
  have "distinct (map fst (sort_key fst kvs))" using d by (simp add: distinct_map)
  with d show "\<forall>x\<in>set (map fst (sort_key fst kvs)). map_of (sort_key fst kvs) x = map_of kvs x"
    by (auto simp: map_of_eq_Some_iff)
qed

lemma dict_get_sorted [simp]: "dict_wf kvs \<Longrightarrow> dict_get (sort_key fst kvs) k = dict_get kvs k"
  by (simp add: dict_wf_def map_of_sort_key)

lemma map_of_entry [simp]:
  "map_of (case x of None \<Rightarrow> [] | Some p \<Rightarrow> [(k', f p)]) k = (if k = k' then map_option f x else None)"
  by (cases x) simp_all

lemma map_of_flag [simp]: "map_of (if b then [(k', v)] else []) k = (if b \<and> k = k' then Some v else None)"
  by simp

lemma case_option_map: "(case x of None \<Rightarrow> None | Some y \<Rightarrow> Some (f y)) = map_option f x"
  by (cases x) simp_all

text \<open>The fields of an event as its dictionary has them.\<close>

lemma to_dict_get [simp]:
  "dict_get (to_dict e) ''event_id'' = Some (JStr (ae_event_id e))"
  "dict_get (to_dict e) ''event_type'' = Some (JStr (ae_event_type e))"
  "dict_get (to_dict e) ''decision'' = Some (JStr (decision_string (ae_decision e)))"
  "dict_get (to_dict e) ''reason'' = Some (JStr (ae_reason e))"
  "dict_get (to_dict e) ''workspace_id'' = Some (JStr (ae_workspace_id e))"
  "dict_get (to_dict e) ''agent_id'' = Some (JStr (ae_agent_id e))"
  "dict_get (to_dict e) ''grant_id'' = Some (JStr (ae_grant_id e))"
  "dict_get (to_dict e) ''grant_ref'' = Some (JStr (ae_grant_ref e))"
  "dict_get (to_dict e) ''action'' = Some (JStr (ae_action e))"
  "dict_get (to_dict e) ''resource'' = Some (JStr (ae_resource e))"
  "dict_get (to_dict e) ''scope_attempted'' = Some (JStr (ae_scope_attempted e))"
  "dict_get (to_dict e) ''scope_matched'' = Some (json_opt (ae_scope_matched e))"
  "dict_get (to_dict e) ''boundary_id'' = Some (json_opt (ae_boundary_id e))"
  "dict_get (to_dict e) ''runtime'' = Some (json_opt (ae_runtime e))"
  "dict_get (to_dict e) ''boundary_type'' = Some (json_opt (ae_boundary_type e))"
  "dict_get (to_dict e) ''created_at'' = Some (JStr (isoformat (ae_created_at e)))"
  "dict_get (to_dict e) ''enforcing_principal'' = map_option JStr (ae_enforcing_principal e)"
  "dict_get (to_dict e) ''reason_code'' = map_option JStr (ae_reason_code e)"
  "dict_get (to_dict e) ''occurrence_count'' = map_option JInt (ae_occurrence_count e)"
  "dict_get (to_dict e) ''first_seen_at'' = map_option (\<lambda>t. JStr (isoformat t)) (ae_first_seen_at e)"
  "dict_get (to_dict e) ''last_seen_at'' = map_option (\<lambda>t. JStr (isoformat t)) (ae_last_seen_at e)"
  "dict_get (to_dict e) ''subject_token_verified'' = (if ae_subject_token_verified e then Some (JBool True) else None)"
  "dict_get (to_dict e) ''token_id'' = map_option JStr (ae_token_id e)"
  "dict_get (to_dict e) ''event_class'' = (if ae_event_class e \<noteq> ''decision'' then Some (JStr (ae_event_class e)) else None)"
  "dict_get (to_dict e) ''identity_proven'' = None"
  by (simp_all add: to_dict_def map_add_def case_option_map cong: option.case_cong)

lemma to_dict_scalar: "\<forall>kv\<in>set (to_dict e). scalar (snd kv)"
  by (auto simp: to_dict_def scalar_def json_opt_def split: option.splits if_splits)

lemma json_loads_event: "json_loads (event_json_text e) = Some (JObj (sort_key fst (to_dict e)))"
  unfolding event_json_text_def by (rule json_loads_dumps [OF to_dict_wf to_dict_scalar])

lemma event_json_value_sorted [simp]:
  "event_json_value (sort_key fst (to_dict e)) k = event_json_value (to_dict e) k"
  by (simp only: event_json_value_def dict_get_or_null_def dict_get_sorted [OF to_dict_wf])

lemma columns_match_event: "columns_match (sort_key fst (to_dict e)) (event_columns e)"
  unfolding columns_match_def event_json_value_sorted
  by (simp add: columns_match_def CROSSCHECK_COLUMNS_def event_columns_def crosscheck_values_match_def
      event_json_value_def dict_get_or_null_def or_null_def json_equal_def json_truth_def LEGACY_SUBJECT_TOKEN_VERIFIED_FIELD_def)

subsection \<open>Events survive the round trip\<close>

lemma decision_of_string_roundtrip [simp]: "decision_of_string (decision_string d) = Some d"
  by (cases d) (simp_all add: decision_of_string_def decision_string_def)

lemma opt_str_value_opt [simp]:
  "opt_str_value (json_opt x) = Some x"
  "opt_str_value (or_null (map_option JStr x)) = Some x"
  by (cases x; simp add: opt_str_value_def json_opt_def or_null_def)+

lemma opt_int_value_opt [simp]: "opt_int_value (or_null (map_option JInt x)) = Some x"
  by (cases x) (simp_all add: opt_int_value_def or_null_def)

lemma optional_datetime_opt:
  "pred_option is_datetime x \<Longrightarrow>
     optional_datetime (or_null (map_option (\<lambda>t. JStr (isoformat t)) x)) = Some x"
  by (cases x) (simp_all add: optional_datetime_def or_null_def fromisoformat_isoformat)

lemma event_class_read [simp]:
  "(case if c \<noteq> ''decision'' then Some (JStr c) else None of None \<Rightarrow> Some ''decision'' | Some (JStr c) \<Rightarrow> Some c | _ \<Rightarrow> None)
     = Some c"
  by simp

lemma audit_event_from_json_text:
  assumes "serialisable e"
  shows "audit_event_from_json (event_json_text e) = Some e"
proof -
  note d = assms [unfolded serialisable_def]
  have c: "fromisoformat (isoformat (ae_created_at e)) = Some (ae_created_at e)"
    using d fromisoformat_isoformat by blast
  have v: "subject_token_verified_from_json (to_dict e) = ae_subject_token_verified e"
    by (simp add: subject_token_verified_from_json_def event_json_value_def dict_get_or_null_def or_null_def
        LEGACY_SUBJECT_TOKEN_VERIFIED_FIELD_def json_truth_def)
  have v': "subject_token_verified_from_json (sort_key fst (to_dict e)) = ae_subject_token_verified e"
    using v by (simp only: subject_token_verified_from_json_def event_json_value_sorted)
  show ?thesis
    unfolding audit_event_from_json_def json_loads_event option.case json.case
      str_field_def opt_str_field_def dict_get_or_null_def dict_get_sorted [OF to_dict_wf] to_dict_get v'
    using d by (simp add: c optional_datetime_opt)
qed

subsection \<open>The chain as a property of rows\<close>

fun chain_ok :: "string \<Rightarrow> int \<Rightarrow> audit_table \<Rightarrow> bool" where
  "chain_ok prev k [] = True"
| "chain_ok prev k (r # rs) \<longleftrightarrow>
     rw_seq r = k \<and> rw_prev_hash r = prev \<and> rw_row_hash r = row_hash k (rw_event_json r) prev
     \<and> (\<exists>data. json_loads (rw_event_json r) = Some (JObj data) \<and> columns_match data (rw_columns r))
     \<and> chain_ok (rw_row_hash r) (k + 1) rs"

definition chain_end :: "string \<Rightarrow> audit_table \<Rightarrow> string" where
  "chain_end prev rs = (if rs = [] then prev else rw_row_hash (last rs))"

lemma chain_ok_append:
  "chain_ok prev k (rs @ [r]) \<longleftrightarrow> chain_ok prev k rs \<and> chain_ok (chain_end prev rs) (k + int (length rs)) [r]"
  by (induction rs arbitrary: prev k) (auto simp: chain_end_def algebra_simps)

lemma chain_ok_take: "chain_ok prev k rs \<Longrightarrow> chain_ok prev k (take n rs)"
  by (induction rs arbitrary: prev k n) (auto simp: take_Cons')

lemma chain_ok_nth: "chain_ok prev k rs \<Longrightarrow> i < length rs \<Longrightarrow> rw_seq (rs ! i) = k + int i"
  by (induction rs arbitrary: prev k i) (auto simp: nth_Cons' algebra_simps of_nat_diff)

definition verified :: "int \<Rightarrow> int \<Rightarrow> string \<Rightarrow> ChainVerification" where
  "verified count head_seq head_hash =
     \<lparr>cv_ok = True, cv_count = count, cv_head_seq = head_seq, cv_head_hash = head_hash, cv_break_seq = None,
      cv_break_event_id = None, cv_break_kind = None\<rparr>"

lemma verify_rows_ok:
  "chain_ok prev k rs \<Longrightarrow> verify_rows n prev k (k - 1) prev rs = Inr (verified n (k - 1 + int (length rs)) (chain_end prev rs))"
proof (induction rs arbitrary: prev k)
  case (Cons r rs)
  then have "verify_rows n prev k (k - 1) prev (r # rs) = verify_rows n (rw_row_hash r) (k + 1) (k + 1 - 1) (rw_row_hash r) rs"
    by (auto simp: Let_def)
  also have "\<dots> = Inr (verified n (k + 1 - 1 + int (length rs)) (chain_end (rw_row_hash r) rs))"
    using Cons by (intro Cons.IH) auto
  finally show ?case by (simp add: chain_end_def algebra_simps)
qed (simp add: verified_def chain_end_def)

lemma verify_rows_sound: "verify_rows n prev k hs hh rs = Inr v \<Longrightarrow> cv_ok v \<Longrightarrow> chain_ok prev k rs"
  by (induction rs arbitrary: prev k hs hh)
    (auto simp: chain_break_def Let_def split: if_splits option.splits json.splits)

lemma length_by_seq [simp]: "length (by_seq rows) = length rows" "set (by_seq rows) = set rows"
  by (simp_all add: by_seq_def)

text \<open>\<^verbatim>\<open>verify_chain\<close> accepts exactly the tables whose rows, in sequence order, form a chain.\<close>

lemma verify_chain_iff:
  "verify_chain rows = Inr v \<and> cv_ok v \<longleftrightarrow>
     chain_ok GENESIS_PREV_HASH 1 (by_seq rows)
     \<and> v = verified (int (length rows)) (int (length rows)) (chain_end GENESIS_PREV_HASH (by_seq rows))"
  (is "?l \<longleftrightarrow> ?r")
proof
  assume ?l
  then have c: "chain_ok GENESIS_PREV_HASH 1 (by_seq rows)"
    unfolding verify_chain_def by (auto intro: verify_rows_sound)
  then show ?r using verify_rows_ok [OF c, of "int (length rows)"] \<open>?l\<close> by (simp add: verify_chain_def)
next
  assume ?r
  then show ?l using verify_rows_ok [of GENESIS_PREV_HASH 1 "by_seq rows" "int (length rows)"]
    by (auto simp: verify_chain_def verified_def)
qed

lemma chain_head_chain:
  assumes "chain_ok GENESIS_PREV_HASH 1 (by_seq rows)"
  shows "chain_head rows = (int (length rows), chain_end GENESIS_PREV_HASH (by_seq rows))"
proof (cases "by_seq rows" rule: rev_cases)
  case Nil
  then have "rows = []" using length_by_seq(1) [of rows] by simp
  then show ?thesis by (simp add: chain_head_def by_seq_def chain_end_def)
next
  case (snoc rs r)
  then have "length rows = Suc (length rs)" using length_by_seq(1) [of rows] by simp
  then show ?thesis using snoc assms by (simp add: chain_head_def chain_end_def chain_ok_append)
qed

end
