(* ===== verification/AuditTamper.thy ===== *)
theory AuditTamper
  imports AuditChain
begin

section \<open>What the hash chain guarantees\<close>

text \<open>
  The writer keeps the chain verified and the log it can read back grows by exactly the event
  written, so the SQLite writer is an audit log in the sense of the other components. Two
  verified tables with the same head are the same log, up to a collision of SHA-256 that the
  theorems exhibit. Checked against anchors taken from the honest log, a verified table is an
  initial part of the honest log that contains every anchored row.
\<close>

subsection \<open>Writing\<close>

lemma insort_key_snoc:
  "\<forall>y\<in>set ys. f y < f x \<Longrightarrow> f z < f x \<Longrightarrow> insort_key f z (ys @ [x]) = insort_key f z ys @ [x]"
  by (induction ys) auto

lemma sort_key_snoc: "\<forall>y\<in>set ys. f y < f x \<Longrightarrow> sort_key f (ys @ [x]) = sort_key f ys @ [x]"
  by (induction ys) (simp_all add: insort_key_snoc)

lemma chain_head_max: "r \<in> set rows \<Longrightarrow> rw_seq r \<le> fst (chain_head rows)"
proof (cases "by_seq rows" rule: rev_cases)
  case Nil
  moreover assume "r \<in> set rows"
  ultimately show ?thesis using length_by_seq(2) [of rows] by simp
next
  case (snoc rs x)
  assume "r \<in> set rows"
  then have "r \<in> set (rs @ [x])" using snoc length_by_seq(2) [of rows] by simp
  moreover have "sorted (map rw_seq (rs @ [x]))" using snoc by (metis by_seq_def sorted_sort_key)
  ultimately show ?thesis using snoc by (auto simp: chain_head_def sorted_append)
qed

lemma by_seq_write:
  assumes "sq_write_event e rows = (Inr (seq, h, c), rows')"
  shows "\<exists>r. by_seq rows' = by_seq rows @ [r] \<and> rows' = rows @ [r] \<and> serialisable e
    \<and> rw_event_json r = event_json_text e \<and> rw_columns r = event_columns e
    \<and> rw_seq r = fst (chain_head rows) + 1 \<and> rw_prev_hash r = snd (chain_head rows)
    \<and> rw_row_hash r = row_hash (fst (chain_head rows) + 1) (event_json_text e) (snd (chain_head rows))
    \<and> seq = rw_seq r \<and> h = rw_row_hash r"
proof -
  obtain ps ph where h: "chain_head rows = (ps, ph)" by (cases "chain_head rows")
  let ?r = "\<lparr>rw_seq = ps + 1, rw_prev_hash = ph, rw_row_hash = row_hash (ps + 1) (event_json_text e) ph,
      rw_event_json = event_json_text e, rw_columns = event_columns e\<rparr>"
  have r: "rows' = rows @ [?r]" "serialisable e" "seq = ps + 1" "h = row_hash (ps + 1) (event_json_text e) ph"
    using assms h by (auto simp: sq_write_event_def Let_def split: if_splits)
  have "\<forall>y\<in>set rows. rw_seq y < rw_seq ?r" using chain_head_max [of _ rows] h by fastforce
  then have "by_seq rows' = by_seq rows @ [?r]" unfolding r by_seq_def by (rule sort_key_snoc)
  with r h show ?thesis by (intro exI [of _ ?r]) simp
qed

lemma write_keeps_chain:
  assumes "chain_ok GENESIS_PREV_HASH 1 (by_seq rows)" "sq_write_event e rows = (Inr x, rows')"
  shows "chain_ok GENESIS_PREV_HASH 1 (by_seq rows')"
proof -
  obtain seq h c where x: "x = (seq, h, c)" by (cases x)
  obtain r where r: "by_seq rows' = by_seq rows @ [r]" "rw_event_json r = event_json_text e"
      "rw_columns r = event_columns e" "rw_seq r = fst (chain_head rows) + 1" "rw_prev_hash r = snd (chain_head rows)"
      "rw_row_hash r = row_hash (fst (chain_head rows) + 1) (event_json_text e) (snd (chain_head rows))"
    using by_seq_write [OF assms(2) [unfolded x]] by blast
  then show ?thesis
    using assms(1) chain_head_chain [OF assms(1)] columns_match_event [of e]
    by (simp add: chain_ok_append json_loads_event add.commute)
qed

lemma write_error_unchanged: "sq_write_event e rows = (Inl x, rows') \<Longrightarrow> rows' = rows"
  by (auto simp: sq_write_event_def Let_def split: if_splits prod.splits)

text \<open>What the table says the log is: the events its rows read back as.\<close>

definition sq_log :: "audit_table \<times> 'a \<Rightarrow> AuditEvent list" where
  "sq_log st = List.map_filter id (sq_list_all (fst st))"

lemma sq_log_write:
  assumes "sq_write_event e rows = (Inr x, rows')"
  shows "sq_log (rows', b) = sq_log (rows, a) @ [e]"
proof -
  obtain seq h c where x: "x = (seq, h, c)" by (cases x)
  obtain r where r: "by_seq rows' = by_seq rows @ [r]" "serialisable e" "rw_event_json r = event_json_text e"
    using by_seq_write [OF assms [unfolded x]] by blast
  then show ?thesis
    by (simp add: sq_log_def sq_list_all_def audit_event_from_json_text map_filter_def)
qed

text \<open>The SQLite writer keeps the contract the decision components rely on.\<close>

interpretation sqlite_log: audit_log "SQLiteAuditWriter emit" sq_log for emit
proof unfold_locales
  fix e :: AuditEvent and s s' :: "audit_table \<times> 'a" and x :: exn
    and be :: "AuditEvent \<Rightarrow> audit_table \<times> 'a \<Rightarrow> (exn + bool) \<times> audit_table \<times> 'a"
  obtain rows a where s: "s = (rows, a)" by (cases s)
  note d = SQLiteAuditWriter_def sq_audit_write_def sq_audit_write_best_effort_def s
  show "aw_write (SQLiteAuditWriter emit) e s = (None, s') \<Longrightarrow> sq_log s' = sq_log s @ [e]"
    by (auto simp: d sq_log_write split: sum.splits prod.splits)
  show "aw_write (SQLiteAuditWriter emit) e s = (Some x, s') \<Longrightarrow> sq_log s' = sq_log s"
    by (auto simp: d split: sum.splits prod.splits)
  show "aw_write_best_effort (SQLiteAuditWriter emit) = Some be \<Longrightarrow> be e s = (Inr True, s') \<Longrightarrow> sq_log s' = sq_log s @ [e]"
    by (auto simp: d sq_log_write split: sum.splits prod.splits)
  show "aw_write_best_effort (SQLiteAuditWriter emit) = Some be \<Longrightarrow> be e s = (Inr False, s') \<Longrightarrow> sq_log s' = sq_log s"
    by (auto simp: d split: sum.splits prod.splits)
  show "aw_write_best_effort (SQLiteAuditWriter emit) = Some be \<Longrightarrow> be e s = (Inl x, s') \<Longrightarrow> sq_log s' = sq_log s"
    by (auto simp: d split: sum.splits prod.splits)
qed

fun write_all ::
  "(int \<Rightarrow> string \<Rightarrow> string \<Rightarrow> 'a \<Rightarrow> 'a) \<Rightarrow> AuditEvent list \<Rightarrow> audit_table \<times> 'a \<Rightarrow> audit_table \<times> 'a" where
  "write_all emit [] st = st"
| "write_all emit (e # es) st = write_all emit es (snd (sq_audit_write emit e st))"

definition fresh_events :: "AuditEvent list \<Rightarrow> bool" where
  "fresh_events es \<longleftrightarrow> (\<forall>e\<in>set es. serialisable e) \<and> distinct (map ae_event_id es)"

lemma write_all_chain:
  "chain_ok GENESIS_PREV_HASH 1 (by_seq (fst st)) \<Longrightarrow> chain_ok GENESIS_PREV_HASH 1 (by_seq (fst (write_all emit es st)))"
proof (induction es arbitrary: st)
  case (Cons e es)
  obtain rows a where st: "st = (rows, a)" by (cases st)
  have "chain_ok GENESIS_PREV_HASH 1 (by_seq (fst (snd (sq_audit_write emit e st))))"
    using Cons.prems write_keeps_chain
    by (auto simp: st sq_audit_write_def split: sum.splits prod.splits)
  then show ?case using Cons.IH by simp
qed simp

lemma write_fresh:
  assumes "serialisable e" "\<forall>r\<in>set rows. take 1 (rw_columns r) \<noteq> [JStr (ae_event_id e)]"
  shows "\<exists>x r. sq_write_event e rows = (Inr x, rows @ [r]) \<and> take 1 (rw_columns r) = [JStr (ae_event_id e)]"
  using assms by (auto simp: sq_write_event_def Let_def event_columns_def split: prod.splits)

lemma write_all_fresh:
  assumes "fresh_events es" "\<forall>e\<in>set es. \<forall>r\<in>set rows. take 1 (rw_columns r) \<noteq> [JStr (ae_event_id e)]"
  shows "sq_log (write_all emit es (rows, a)) = sq_log (rows, a) @ es"
  using assms
proof (induction es arbitrary: rows a)
  case (Cons e es)
  obtain x r where x: "sq_write_event e rows = (Inr x, rows @ [r])" "take 1 (rw_columns r) = [JStr (ae_event_id e)]"
    using write_fresh [of e rows] Cons.prems by (auto simp: fresh_events_def)
  obtain seq h c where xc: "x = (seq, h, c)" by (cases x)
  have "sq_log (write_all emit es (rows @ [r], emit seq h c a)) = sq_log (rows @ [r], emit seq h c a) @ es"
    using Cons.prems x(2) by (intro Cons.IH) (auto simp: fresh_events_def)
  then show ?case
    using x(1) xc sq_log_write [OF x(1), of "emit seq h c a" a] by (simp add: sq_audit_write_def)
qed simp

text \<open>
  (C23) Whatever events are written to an empty audit table, accepted or refused, the chain
  verifies: every row is counted and the reported head is the chain head that the next write
  links to. Events with distinct ids and representable times are all accepted, and the table
  reads back as exactly these events in order, every field as it was.
\<close>

theorem audit_chain_writes_verify:
  fixes emit :: "int \<Rightarrow> string \<Rightarrow> string \<Rightarrow> 'a \<Rightarrow> 'a" and a :: 'a
  defines "table es \<equiv> write_all emit es ([], a)"
  shows "\<exists>v. verify_chain (fst (table es)) = Inr v \<and> cv_ok v \<and> cv_count v = int (length (fst (table es)))
       \<and> (cv_head_seq v, cv_head_hash v) = chain_head (fst (table es))
     \<and> (fresh_events es \<longrightarrow> sq_list_all (fst (table es)) = map Some es)"
proof -
  let ?rows = "fst (table es)"
  have c: "chain_ok GENESIS_PREV_HASH 1 (by_seq ?rows)"
    unfolding table_def by (rule write_all_chain) (simp add: by_seq_def)
  have all: "None \<notin> set (sq_list_all (fst (write_all emit es st)))" if "None \<notin> set (sq_list_all (fst st))" for es st
    using that
  proof (induction es arbitrary: st)
    case (Cons e es)
    obtain rows b where st: "st = (rows, b)" by (cases st)
    have "None \<notin> set (sq_list_all (fst (snd (sq_audit_write emit e st))))"
    proof (cases "sq_write_event e rows")
      case (Pair x rows')
      show ?thesis
      proof (cases x)
        case (Inr y)
        obtain seq h cc where y: "y = (seq, h, cc)" by (cases y)
        obtain r where "by_seq rows' = by_seq rows @ [r]" "serialisable e" "rw_event_json r = event_json_text e"
          using by_seq_write Pair Inr y by blast
        then show ?thesis
          using Cons.prems Pair Inr y by (auto simp: st sq_audit_write_def sq_list_all_def audit_event_from_json_text)
      qed (use Cons.prems Pair in \<open>simp add: st sq_audit_write_def\<close>)
    qed
    then show ?case using Cons.IH by simp
  qed simp
  have "sq_list_all ?rows = map Some es" if "fresh_events es"
  proof -
    have "sq_log (table es) = es"
      unfolding table_def using write_all_fresh [OF that, of "[]" emit a]
      by (simp add: sq_log_def sq_list_all_def by_seq_def map_filter_def)
    moreover have "None \<notin> set (sq_list_all ?rows)"
      unfolding table_def by (rule all) (simp add: sq_list_all_def by_seq_def)
    moreover have "map Some (List.map_filter id xs) = xs" if "None \<notin> set xs" for xs :: "AuditEvent option list"
      using that by (induction xs) (auto simp: map_filter_simps split: option.splits, metis not_None_eq)
    ultimately show ?thesis unfolding sq_log_def by metis
  qed
  moreover have "verify_chain ?rows = Inr (verified (int (length ?rows)) (int (length ?rows)) (chain_end GENESIS_PREV_HASH (by_seq ?rows)))"
    using verify_chain_iff c by blast
  ultimately show ?thesis using chain_head_chain [OF c] by (auto simp: verified_def)
qed

definition example_event :: "string \<Rightarrow> AuditEvent" where
  "example_event i =
     build_rejection_audit_event ((rejection REASON_AUTH_FAILED [] [] 0)\<lparr>ra_event_id := Some i\<rparr>) (\<lambda>_. i)"

lemma example_event_serialisable: "serialisable (example_event i)"
  by (simp add: serialisable_def example_event_def build_rejection_audit_event_def rejection_def is_datetime_def
      EPOCH_ORDINAL_def)

theorem audit_chain_writes_verify_witness:
  "\<exists>v. verify_chain (fst (write_all NullAnchor_emit [example_event ''e1'', example_event ''e2''] ([], ()))) = Inr v
     \<and> cv_ok v
     \<and> sq_list_all (fst (write_all NullAnchor_emit [example_event ''e1'', example_event ''e2''] ([], ())))
         = [Some (example_event ''e1''), Some (example_event ''e2'')]"
proof -
  have "fresh_events [example_event ''e1'', example_event ''e2'']"
    by (simp add: fresh_events_def example_event_serialisable)
      (simp add: example_event_def build_rejection_audit_event_def rejection_def)
  then show ?thesis
    using audit_chain_writes_verify [of NullAnchor_emit "[example_event ''e1'', example_event ''e2'']" "()"] by auto
qed

subsection \<open>Tampering\<close>

lemma hexdigest_inj: "hexdigest xs = hexdigest ys \<Longrightarrow> xs = ys"
proof (induction xs arbitrary: ys)
  case Nil
  then show ?case by (cases ys) (simp_all add: hexdigest_def)
next
  case (Cons x xs)
  obtain y zs where ys: "ys = y # zs" using Cons.prems by (cases ys) (auto simp: hexdigest_def)
  have eq: "hex_digit (unat x div 16) = hex_digit (unat y div 16)" "hex_digit (unat x) = hex_digit (unat y)"
      "hexdigest xs = hexdigest zs"
    using Cons.prems ys by (simp_all add: hexdigest_def)
  have "unat x mod 16 = unat y mod 16" "unat x div 16 mod 16 = unat y div 16 mod 16"
    using eq(1,2) by (metis hex_value_hex_digit option.inject)+
  moreover have "unat x div 16 < 16" "unat y div 16 < 16"
    using unsigned_less [of x, where ?'a = nat] unsigned_less [of y, where ?'a = nat]
    by (simp_all add: div_less_iff_less_mult)
  ultimately have "unat x = unat y"
    by (metis div_mult_mod_eq mod_less)
  then show ?case using Cons.IH [OF eq(3)] ys by (simp add: word_unat_eq_iff)
qed

text \<open>Two rows whose hashed bytes differ and whose SHA-256 agree.\<close>

definition collision :: "audit_row \<Rightarrow> audit_row \<Rightarrow> bool" where
  "collision r s \<longleftrightarrow>
     (let p = utf8 (row_payload (rw_seq r) (rw_event_json r) (rw_prev_hash r));
          q = utf8 (row_payload (rw_seq s) (rw_event_json s) (rw_prev_hash s))
      in p \<noteq> q \<and> sha256 p = sha256 q)"

definition chain_fields :: "audit_row \<Rightarrow> int \<times> string \<times> string \<times> string" where
  "chain_fields r = (rw_seq r, rw_prev_hash r, rw_row_hash r, rw_event_json r)"

lemma length_chain_end: "chain_ok GENESIS_PREV_HASH 1 rs \<Longrightarrow> length (chain_end GENESIS_PREV_HASH rs) = 64"
  by (cases rs rule: rev_cases)
    (auto simp: chain_end_def GENESIS_PREV_HASH_def chain_ok_append row_hash_def)

lemma row_hash_inj:
  assumes "row_hash k j p = row_hash k j' p'" "length p = length p'"
    and "\<not> (row_payload k j p \<noteq> row_payload k j' p'
          \<and> sha256 (utf8 (row_payload k j p)) = sha256 (utf8 (row_payload k j' p')))"
  shows "j = j' \<and> p = p'"
proof -
  have "sha256 (utf8 (row_payload k j p)) = sha256 (utf8 (row_payload k j' p'))"
    using assms(1) by (simp add: row_hash_def hexdigest_inj)
  then have "row_payload k j p = row_payload k j' p'" using assms(3) by blast
  then show ?thesis using assms(2) by (simp add: row_payload_def append_eq_append_conv)
qed

lemma chains_agree:
  assumes "chain_ok GENESIS_PREV_HASH 1 xs" "chain_ok GENESIS_PREV_HASH 1 ys" "length xs = length ys"
    and "chain_end GENESIS_PREV_HASH xs = chain_end GENESIS_PREV_HASH ys"
  shows "map chain_fields xs = map chain_fields ys \<or> (\<exists>r\<in>set xs. \<exists>s\<in>set ys. collision r s)"
  using assms
proof (induction xs arbitrary: ys rule: rev_induct)
  case (snoc r xs)
  obtain s zs where ys: "ys = zs @ [s]" using snoc.prems(3) by (cases ys rule: rev_cases) auto
  let ?G = GENESIS_PREV_HASH
  have len: "length xs = length zs" using snoc.prems(3) ys by simp
  have c: "chain_ok ?G 1 xs" "chain_ok ?G 1 zs" using snoc.prems(1,2) ys by (simp_all add: chain_ok_append)
  have r: "rw_seq r = 1 + int (length xs)" "rw_prev_hash r = chain_end ?G xs"
      "rw_row_hash r = row_hash (rw_seq r) (rw_event_json r) (rw_prev_hash r)"
    using snoc.prems(1) by (simp_all add: chain_ok_append)
  have s: "rw_seq s = 1 + int (length zs)" "rw_prev_hash s = chain_end ?G zs"
      "rw_row_hash s = row_hash (rw_seq s) (rw_event_json s) (rw_prev_hash s)"
    using snoc.prems(2) ys by (simp_all add: chain_ok_append)
  have h: "rw_row_hash r = rw_row_hash s" using snoc.prems(4) ys by (simp add: chain_end_def)
  show ?case
  proof (cases "collision r s")
    case True
    then show ?thesis using ys by auto
  next
    case False
    have "rw_event_json r = rw_event_json s \<and> rw_prev_hash r = rw_prev_hash s"
    proof (rule row_hash_inj)
      show "row_hash (rw_seq r) (rw_event_json r) (rw_prev_hash r) = row_hash (rw_seq r) (rw_event_json s) (rw_prev_hash s)"
        using h r s len by simp
      show "length (rw_prev_hash r) = length (rw_prev_hash s)" using r(2) s(2) length_chain_end c by simp
      show "\<not> (row_payload (rw_seq r) (rw_event_json r) (rw_prev_hash r)
              \<noteq> row_payload (rw_seq r) (rw_event_json s) (rw_prev_hash s)
            \<and> sha256 (utf8 (row_payload (rw_seq r) (rw_event_json r) (rw_prev_hash r)))
              = sha256 (utf8 (row_payload (rw_seq r) (rw_event_json s) (rw_prev_hash s))))"
        using False r(1) s(1) len utf8_inj unfolding collision_def Let_def by metis
    qed
    moreover have "map chain_fields xs = map chain_fields zs \<or> (\<exists>r\<in>set xs. \<exists>s\<in>set zs. collision r s)"
      using calculation r(2) s(2) by (intro snoc.IH c len) simp
    moreover have "chain_fields r = chain_fields s"
      using calculation(1) h r(1) s(1) len by (simp add: chain_fields_def)
    ultimately show ?thesis using ys by auto
  qed
qed simp

text \<open>
  The chain head commits to the whole log. Two tables that both verify and have the same head
  hold the same rows: the same sequence numbers, hashes and event texts, and so every reader
  of the events sees the same log; otherwise two of their rows are a collision of SHA-256.
\<close>

theorem equal_heads_equal_logs:
  assumes "verify_chain rows = Inr v" "cv_ok v" "verify_chain rows' = Inr v'" "cv_ok v'"
    and "cv_head_seq v = cv_head_seq v'" "cv_head_hash v = cv_head_hash v'"
  shows "(map chain_fields (by_seq rows) = map chain_fields (by_seq rows') \<and> sq_list_all rows = sq_list_all rows')
     \<or> (\<exists>r\<in>set rows. \<exists>s\<in>set rows'. collision r s)"
proof -
  let ?G = GENESIS_PREV_HASH
  have c: "chain_ok ?G 1 (by_seq rows)" "v = verified (int (length rows)) (int (length rows)) (chain_end ?G (by_seq rows))"
      "chain_ok ?G 1 (by_seq rows')" "v' = verified (int (length rows')) (int (length rows')) (chain_end ?G (by_seq rows'))"
    using verify_chain_iff assms(1-4) by blast+
  have "length (by_seq rows) = length (by_seq rows')" "chain_end ?G (by_seq rows) = chain_end ?G (by_seq rows')"
    using assms(5,6) c by (simp_all add: verified_def)
  then have *: "map chain_fields (by_seq rows) = map chain_fields (by_seq rows')
      \<or> (\<exists>r\<in>set (by_seq rows). \<exists>s\<in>set (by_seq rows'). collision r s)"
    using c by (intro chains_agree)
  moreover have "sq_list_all t = map (\<lambda>(_, _, _, j). audit_event_from_json j) (map chain_fields (by_seq t))" for t
    by (simp add: sq_list_all_def chain_fields_def comp_def)
  ultimately show ?thesis by (metis length_by_seq(2))
qed

lemma example_table_verified:
  "\<exists>v. verify_chain (fst (write_all NullAnchor_emit [example_event ''e1''] ([], ()))) = Inr v \<and> cv_ok v"
proof -
  have "chain_ok GENESIS_PREV_HASH 1 (by_seq (fst (write_all NullAnchor_emit [example_event ''e1''] ([], ()))))"
    by (rule write_all_chain) (simp add: by_seq_def)
  then show ?thesis using verify_chain_iff by blast
qed

theorem equal_heads_equal_logs_witness:
  "\<exists>rows v. verify_chain rows = Inr v \<and> cv_ok v
     \<and> ((map chain_fields (by_seq rows) = map chain_fields (by_seq rows) \<and> sq_list_all rows = sq_list_all rows)
        \<or> (\<exists>r\<in>set rows. \<exists>s\<in>set rows. collision r s))"
  using example_table_verified equal_heads_equal_logs by metis

subsection \<open>Anchors\<close>

lemma anchor_loop_ok:
  assumes "av_ok (anchor_loop rows head n covered recs)" "0 \<le> covered"
  shows "(\<forall>rec\<in>set recs. hash_at rows (an_seq rec) = Some (an_row_hash rec))
     \<and> (head \<le> covered \<or> (\<exists>rec\<in>set recs. head \<le> an_seq rec))"
  using assms
proof (induction recs arbitrary: covered)
  case Nil
  then show ?case by (auto split: if_splits)
next
  case (Cons rec recs)
  then have h: "hash_at rows (an_seq rec) = Some (an_row_hash rec)"
      "av_ok (anchor_loop rows head n (max covered (an_seq rec)) recs)"
    by (auto split: option.splits if_splits)
  show ?case
    using Cons.IH [OF h(2)] Cons.prems(2) h(1) by (cases "covered \<le> an_seq rec") (auto simp: max_def)
qed

lemma hash_at_chain:
  assumes "chain_ok GENESIS_PREV_HASH 1 (by_seq rows)" "hash_at rows k = Some h"
  shows "1 \<le> k \<and> k \<le> int (length rows) \<and> chain_end GENESIS_PREV_HASH (take (nat k) (by_seq rows)) = h"
proof -
  obtain r where r: "r \<in> set rows" "rw_seq r = k" "rw_row_hash r = h"
    using assms(2) by (auto simp: hash_at_def dest!: find_first_Some)
  then obtain i where i: "i < length rows" "by_seq rows ! i = r"
    by (metis in_set_conv_nth length_by_seq)
  then have k: "k = 1 + int i" using chain_ok_nth [OF assms(1)] r(2) by force
  have "take (nat k) (by_seq rows) = take i (by_seq rows) @ [r]"
    using i k by (simp add: nat_add_distrib take_Suc_conv_app_nth)
  then show ?thesis using k i r by (simp add: chain_end_def)
qed

text \<open>
  (C22) Anchors pin the log. Let the anchor records come from rows of the honest, verified table.
  Any table that verifies and passes the check against the records is an initial part of the
  honest log, row by row, and still has every anchored row; when the honest head was anchored,
  it is the whole honest log. Otherwise two rows are a collision of SHA-256.
\<close>

theorem anchored_table_is_honest_prefix:
  assumes honest: "verify_chain rows = Inr v" "cv_ok v"
      "\<forall>rec\<in>set records. hash_at rows (an_seq rec) = Some (an_row_hash rec)"
    and table: "verify_chain rows' = Inr v'" "cv_ok v'" "av_ok (verify_against_anchor rows' records)"
  shows "(map chain_fields (by_seq rows') = take (length rows') (map chain_fields (by_seq rows))
        \<and> (\<forall>rec\<in>set records. an_seq rec \<le> int (length rows'))
        \<and> ((\<exists>rec\<in>set records. an_seq rec = cv_head_seq v) \<longrightarrow>
             map chain_fields (by_seq rows') = map chain_fields (by_seq rows)))
     \<or> (\<exists>r\<in>set rows'. \<exists>s\<in>set rows. collision r s)"
proof -
  let ?G = GENESIS_PREV_HASH
  have c: "chain_ok ?G 1 (by_seq rows)" "chain_ok ?G 1 (by_seq rows')"
    using verify_chain_iff honest(1,2) table(1,2) by blast+
  have hd: "cv_head_seq v = int (length rows)"
    using iffD1 [OF verify_chain_iff conjI [OF honest(1,2)]] by (simp add: verified_def)
  have a: "\<forall>rec\<in>set records. hash_at rows' (an_seq rec) = Some (an_row_hash rec)"
      "int (length rows') \<le> 0 \<or> (\<exists>rec\<in>set records. int (length rows') \<le> an_seq rec)"
    using anchor_loop_ok [of rows' "fst (chain_head rows')" "int (length records)" 0 records] table(3)
      chain_head_chain [OF c(2)] unfolding verify_against_anchor_def by simp_all
  have kept: "\<forall>rec\<in>set records. an_seq rec \<le> int (length rows')" using a(1) hash_at_chain [OF c(2)] by blast
  have pre: "map chain_fields (by_seq rows') = take (length rows') (map chain_fields (by_seq rows))
      \<or> (\<exists>r\<in>set rows'. \<exists>s\<in>set rows. collision r s)"
  proof (cases "rows' = []")
    case True
    then show ?thesis by (simp add: by_seq_def)
  next
    case False
    then obtain rec where rec: "rec \<in> set records" "an_seq rec = int (length rows')" using a(2) kept by force
    have h': "chain_end ?G (by_seq rows') = an_row_hash rec"
      using hash_at_chain [OF c(2) bspec [OF a(1) rec(1)]] rec(2) by simp
    have h: "length rows' \<le> length rows" "chain_end ?G (take (length rows') (by_seq rows)) = an_row_hash rec"
      using hash_at_chain [OF c(1) bspec [OF honest(3) rec(1)]] rec(2) by simp_all
    have "map chain_fields (by_seq rows') = map chain_fields (take (length rows') (by_seq rows))
        \<or> (\<exists>r\<in>set (by_seq rows'). \<exists>s\<in>set (take (length rows') (by_seq rows)). collision r s)"
      using c chain_ok_take h h' by (intro chains_agree) simp_all
    then show ?thesis by (metis in_set_takeD length_by_seq(2) take_map)
  qed
  show ?thesis
  proof (cases "\<exists>r\<in>set rows'. \<exists>s\<in>set rows. collision r s")
    case False
    then have e: "map chain_fields (by_seq rows') = take (length rows') (map chain_fields (by_seq rows))" using pre by blast
    have "map chain_fields (by_seq rows') = map chain_fields (by_seq rows)"
      if "\<exists>rec\<in>set records. an_seq rec = cv_head_seq v"
    proof -
      have "length rows \<le> length rows'" using that kept hd by auto
      then show ?thesis using e by simp
    qed
    with e kept show ?thesis by blast
  qed blast
qed

lemma example_table:
  "\<exists>r. fst (write_all NullAnchor_emit [example_event ''e1''] ([], ())) = [r] \<and> rw_seq r = 1"
proof -
  obtain x r where x: "sq_write_event (example_event ''e1'') [] = (Inr x, [] @ [r])"
    using write_fresh [of "example_event ''e1''" "[]"] example_event_serialisable by auto
  obtain seq h c where xc: "x = (seq, h, c)" by (cases x)
  have "rw_seq r = 1" using by_seq_write [OF x [unfolded xc]] by (auto simp: chain_head_def by_seq_def)
  then show ?thesis using x xc by (simp add: sq_audit_write_def)
qed

theorem anchored_table_is_honest_prefix_witness:
  "\<exists>(rows :: audit_table) (rec :: AnchorRecord) v. verify_chain rows = Inr v \<and> cv_ok v \<and> length rows = 1
     \<and> av_ok (verify_against_anchor rows [rec]) \<and> an_seq rec = cv_head_seq v
     \<and> (map chain_fields (by_seq rows) = map chain_fields (by_seq rows) \<or> (\<exists>r\<in>set rows. \<exists>s\<in>set rows. collision r s))"
proof -
  obtain r where r: "fst (write_all NullAnchor_emit [example_event ''e1''] ([], ())) = [r]" "rw_seq r = 1"
    using example_table by blast
  obtain v where v: "verify_chain [r] = Inr v" "cv_ok v" using example_table_verified r by auto
  let ?rec = "\<lparr>an_seq = 1, an_row_hash = rw_row_hash r\<rparr>"
  have h: "hash_at [r] 1 = Some (rw_row_hash r)" using r by (simp add: hash_at_def)
  have a: "av_ok (verify_against_anchor [r] [?rec])"
    using r h by (simp add: verify_against_anchor_def chain_head_def by_seq_def)
  have n: "cv_head_seq v = 1" using iffD1 [OF verify_chain_iff conjI [OF v]] by (simp add: verified_def)
  have "(map chain_fields (by_seq [r]) = take (length [r]) (map chain_fields (by_seq [r]))
        \<and> (\<forall>rec\<in>set [?rec]. an_seq rec \<le> int (length [r]))
        \<and> ((\<exists>rec\<in>set [?rec]. an_seq rec = cv_head_seq v) \<longrightarrow>
             map chain_fields (by_seq [r]) = map chain_fields (by_seq [r])))
     \<or> (\<exists>r'\<in>set [r]. \<exists>s\<in>set [r]. collision r' s)"
    by (rule anchored_table_is_honest_prefix [OF v _ v a]) (use h in simp)
  then show ?thesis using v a n by (intro exI [of _ "[r]"] exI [of _ ?rec] exI [of _ v]) auto
qed

end
