(* ===== verification/AuditQuery.thy ===== *)
theory AuditQuery
  imports AuditTamper
begin

section \<open>Reading the audit log\<close>

text \<open>
  The filtered reads of the audit log: \<^verbatim>\<open>list_filtered\<close> and its companions of the in-memory
  service (\<^verbatim>\<open>in_memory.py\<close>) and of \<^verbatim>\<open>SQLiteAuditWriter\<close> (\<^verbatim>\<open>sqlite.py\<close>), and the pages that
  \<^verbatim>\<open>audit_http.py\<close> makes of them. The optional filters are a record; a raised
  \<^verbatim>\<open>InvalidAuditCursorError\<close> or \<^verbatim>\<open>ValueError\<close> is \<open>Inl\<close>. A \<^verbatim>\<open>WHERE\<close> clause is a test on the cells of a row; \<^verbatim>\<open>LIMIT n\<close>
  keeps \<open>n\<close> rows, and all of them for a negative \<open>n\<close>.
\<close>

subsection \<open>Filters\<close>

record audit_filter =
  af_event_class :: "string option"
  af_event_type :: "string option"
  af_grant_ref :: "string option"
  af_boundary_id :: "string option"
  af_agent_id :: "string option"
  af_request_id :: "string option"
  af_reason_code :: "string option"
  af_enforcing_principal :: "string option"
  af_subject_token_verified :: "bool option"

definition InvalidAuditCursorError :: exn where
  "InvalidAuditCursorError = ValueError ''invalid cursor''"

definition passes :: "'a option \<Rightarrow> ('a \<Rightarrow> bool) \<Rightarrow> bool" where
  "passes x p = (case x of None \<Rightarrow> True | Some v \<Rightarrow> p v)"

definition audit_event_matches :: "AuditEvent \<Rightarrow> audit_filter \<Rightarrow> bool" where
  "audit_event_matches event f \<longleftrightarrow>
     passes (af_event_class f) (\<lambda>v. ae_event_class event = v)
     \<and> passes (af_agent_id f) (\<lambda>v. ae_agent_id event = v)
     \<and> passes (af_event_type f) (\<lambda>v. ae_event_type event = v)
     \<and> passes (af_grant_ref f) (\<lambda>v. ae_grant_ref event = v)
     \<and> passes (af_boundary_id f) (\<lambda>v. ae_boundary_id event = Some v)
     \<and> passes (af_reason_code f) (\<lambda>v. ae_reason_code event = Some v)
     \<and> passes (af_enforcing_principal f) (\<lambda>v. ae_enforcing_principal event = Some v)
     \<and> passes (af_subject_token_verified f) (\<lambda>v. ae_subject_token_verified event = v)
     \<and> passes (af_request_id f) (\<lambda>v. ae_resource event = ''grant_request/'' @ v \<or> ae_grant_ref event = v)"

subsection \<open>In memory\<close>

definition im_position :: "AuditEvent list \<Rightarrow> string \<Rightarrow> string \<Rightarrow> int option" where
  "im_position events workspace_id event_id =
     map_option (int \<circ> fst)
       (find_first (\<lambda>(_, e). ae_event_id e = event_id \<and> ae_workspace_id e = workspace_id) (enumerate 1 events))"

text \<open>The positions the two cursors stand for; \<open>None\<close> for a cursor that was not given.\<close>

definition resolve_cursors ::
  "(string \<Rightarrow> int option) \<Rightarrow> string option \<Rightarrow> string option \<Rightarrow> exn + int option \<times> int option" where
  "resolve_cursors position snapshot_event_id before_event_id =
     (if before_event_id \<noteq> None \<and> snapshot_event_id = None then Inl InvalidAuditCursorError
      else case (case snapshot_event_id of None \<Rightarrow> Some None | Some i \<Rightarrow> map_option Some (position i)) of
        None \<Rightarrow> Inl InvalidAuditCursorError
      | Some snapshot_position \<Rightarrow>
          (case (case before_event_id of None \<Rightarrow> Some None | Some i \<Rightarrow> map_option Some (position i)) of
             None \<Rightarrow> Inl InvalidAuditCursorError
           | Some before_position \<Rightarrow>
               (case (snapshot_position, before_position) of
                  (Some s, Some b) \<Rightarrow>
                    if b > s then Inl InvalidAuditCursorError else Inr (snapshot_position, before_position)
                | _ \<Rightarrow> Inr (snapshot_position, before_position))))"

definition im_matched ::
  "AuditEvent list \<Rightarrow> string \<Rightarrow> audit_filter \<Rightarrow> int option \<Rightarrow> int option \<Rightarrow> AuditEvent list" where
  "im_matched events workspace_id f snapshot_position before_position =
     (let snapshot_bound = (case snapshot_position of Some s \<Rightarrow> s | None \<Rightarrow> int (length events));
          before_bound = (case before_position of Some b \<Rightarrow> b | None \<Rightarrow> int (length events) + 1)
      in map snd (filter (\<lambda>(position, event).
            int position \<le> snapshot_bound \<and> int position < before_bound \<and> ae_workspace_id event = workspace_id
            \<and> audit_event_matches event f) (enumerate 1 events)))"

definition im_list_filtered ::
  "AuditEvent list \<Rightarrow> string \<Rightarrow> audit_filter \<Rightarrow> string option \<Rightarrow> string option \<Rightarrow> int option
     \<Rightarrow> exn + AuditEvent list" where
  "im_list_filtered events workspace_id f snapshot_event_id before_event_id limit =
     (case validate_audit_event_class (af_event_class f) of
        Some e \<Rightarrow> Inl e
      | None \<Rightarrow>
          (case resolve_cursors (im_position events workspace_id) snapshot_event_id before_event_id of
             Inl e \<Rightarrow> Inl e
           | Inr (s, b) \<Rightarrow>
               let matched = im_matched events workspace_id f s b
               in Inr (case limit of None \<Rightarrow> matched | Some n \<Rightarrow> slice_last n matched)))"

definition get_audit_event :: "AuditEvent list \<Rightarrow> string \<Rightarrow> AuditEvent option" where
  "get_audit_event events event_id = find_first (\<lambda>e. ae_event_id e = event_id) events"

definition audit_event_sequences :: "AuditEvent list \<Rightarrow> string \<Rightarrow> string list \<Rightarrow> (string, int) dict" where
  "audit_event_sequences events workspace_id event_ids =
     fold (\<lambda>(sequence, e) d. dict_set (ae_event_id e) (int sequence) d)
       (filter (\<lambda>(_, e). ae_workspace_id e = workspace_id \<and> ae_event_id e \<in> set event_ids) (enumerate 1 events)) []"

subsection \<open>In SQLite\<close>

text \<open>A cell by its column name; \<^verbatim>\<open>column = ?\<close> holds for no \<^verbatim>\<open>NULL\<close>.\<close>

definition cell :: "audit_row \<Rightarrow> string \<Rightarrow> json" where
  "cell r name = or_null (map_of (zip CROSSCHECK_COLUMNS (rw_columns r)) name)"

definition json_extract :: "audit_row \<Rightarrow> string \<Rightarrow> json" where
  "json_extract r key =
     (case json_loads (rw_event_json r) of Some (JObj d) \<Rightarrow> or_null (dict_get d key) | _ \<Rightarrow> JNull)"

definition row_matches :: "audit_row \<Rightarrow> audit_filter \<Rightarrow> bool" where
  "row_matches r f \<longleftrightarrow>
     passes (af_event_class f) (\<lambda>v. cell r ''event_class'' = JStr v)
     \<and> passes (af_event_type f) (\<lambda>v. cell r ''event_type'' = JStr v)
     \<and> passes (af_grant_ref f) (\<lambda>v. cell r ''grant_ref'' = JStr v)
     \<and> passes (af_boundary_id f) (\<lambda>v. cell r ''boundary_id'' = JStr v)
     \<and> passes (af_agent_id f) (\<lambda>v. cell r ''agent_id'' = JStr v)
     \<and> passes (af_request_id f)
         (\<lambda>v. cell r ''resource'' = JStr (''grant_request/'' @ v) \<or> cell r ''grant_ref'' = JStr v)
     \<and> passes (af_reason_code f) (\<lambda>v. json_extract r ''reason_code'' = JStr v)
     \<and> passes (af_enforcing_principal f) (\<lambda>v. json_extract r ''enforcing_principal'' = JStr v)
     \<and> passes (af_subject_token_verified f) (\<lambda>v. cell r ''subject_token_verified'' = JInt (if v then 1 else 0))"

definition sq_position :: "audit_table \<Rightarrow> string \<Rightarrow> string \<Rightarrow> int option" where
  "sq_position rows workspace_id event_id =
     map_option rw_seq
       (find_first (\<lambda>r. cell r ''event_id'' = JStr event_id \<and> cell r ''workspace_id'' = JStr workspace_id) rows)"

definition sql_limit :: "int option \<Rightarrow> 'a list \<Rightarrow> 'a list" where
  "sql_limit limit rows =
     (case limit of None \<Rightarrow> rows | Some n \<Rightarrow> if n < 0 then rows else take (nat n) rows)"

definition sq_list_filtered ::
  "audit_table \<Rightarrow> string \<Rightarrow> audit_filter \<Rightarrow> string option \<Rightarrow> string option \<Rightarrow> int option
     \<Rightarrow> exn + AuditEvent option list" where
  "sq_list_filtered rows workspace_id f snapshot_event_id before_event_id limit =
     (case validate_audit_event_class (af_event_class f) of
        Some e \<Rightarrow> Inl e
      | None \<Rightarrow>
          (case resolve_cursors (sq_position rows workspace_id) snapshot_event_id before_event_id of
             Inl e \<Rightarrow> Inl e
           | Inr (snapshot_seq, before_seq) \<Rightarrow>
               Inr (map (\<lambda>r. audit_event_from_json (rw_event_json r))
                 (rev (sql_limit limit (rev (filter (\<lambda>r.
                    cell r ''workspace_id'' = JStr workspace_id
                    \<and> passes snapshot_seq (\<lambda>s. rw_seq r \<le> s) \<and> passes before_seq (\<lambda>b. rw_seq r < b)
                    \<and> row_matches r f) (by_seq rows))))))))"

definition sq_get :: "audit_table \<Rightarrow> string \<Rightarrow> AuditEvent option" where
  "sq_get rows event_id =
     Option.bind (find_first (\<lambda>r. cell r ''event_id'' = JStr event_id) rows)
       (\<lambda>r. audit_event_from_json (rw_event_json r))"

definition sq_list_auth_failures :: "audit_table \<Rightarrow> int \<Rightarrow> AuditEvent option list" where
  "sq_list_auth_failures rows limit =
     map (\<lambda>r. audit_event_from_json (rw_event_json r))
       (rev (sql_limit (Some limit) (rev (filter (\<lambda>r.
          cell r ''workspace_id'' = JStr [] \<and> cell r ''event_type'' = JStr ''auth_failed'') (by_seq rows)))))"

subsection \<open>Pages\<close>

text \<open>The paginated answer: its events, the snapshot cursor and the cursor of the next page.\<close>

definition audit_page ::
  "(string option \<Rightarrow> string option \<Rightarrow> int option \<Rightarrow> exn + AuditEvent list) \<Rightarrow> string option \<Rightarrow> string option \<Rightarrow> int
     \<Rightarrow> exn + AuditEvent list \<times> string option \<times> string option" where
  "audit_page list_events snapshot_event_id before_event_id limit =
     (case list_events snapshot_event_id before_event_id (Some (limit + 1)) of
        Inl e \<Rightarrow> Inl e
      | Inr events \<Rightarrow>
          let has_more = int (length events) > limit;
              page_events = (if has_more then slice_last limit events else events)
          in Inr (page_events,
                  if snapshot_event_id = None \<and> page_events \<noteq> [] then Some (ae_event_id (last page_events))
                  else snapshot_event_id,
                  if has_more then Some (ae_event_id (hd page_events)) else None))"

subsection \<open>The table of a sequence of events\<close>

definition row_of :: "nat \<times> AuditEvent \<Rightarrow> audit_row \<Rightarrow> bool" where
  "row_of p r \<longleftrightarrow> rw_seq r = int (fst p) \<and> rw_columns r = event_columns (snd p)
     \<and> rw_event_json r = event_json_text (snd p) \<and> serialisable (snd p)"

lemma list_all2_filter:
  "list_all2 R xs ys \<Longrightarrow> (\<And>x y. R x y \<Longrightarrow> P x \<longleftrightarrow> Q y) \<Longrightarrow> list_all2 R (filter P xs) (filter Q ys)"
  by (induction rule: list_all2_induct) auto

lemma list_all2_find_first:
  "list_all2 R xs ys \<Longrightarrow> (\<And>x y. R x y \<Longrightarrow> P x \<longleftrightarrow> Q y) \<Longrightarrow> rel_option R (find_first P xs) (find_first Q ys)"
  by (induction rule: list_all2_induct) auto

lemma list_all2_map_eq: "list_all2 R xs ys \<Longrightarrow> (\<And>x y. R x y \<Longrightarrow> f x = g y) \<Longrightarrow> map f xs = map g ys"
  by (induction rule: list_all2_induct) auto

lemma write_all_rows:
  assumes "fresh_events es" "\<forall>e\<in>set es. \<forall>r\<in>set rows. take 1 (rw_columns r) \<noteq> [JStr (ae_event_id e)]"
    and "chain_ok GENESIS_PREV_HASH 1 (by_seq rows)" "by_seq rows = rows"
  shows "\<exists>new. fst (write_all emit es (rows, a)) = rows @ new \<and> by_seq (rows @ new) = rows @ new
    \<and> list_all2 row_of (enumerate (Suc (length rows)) es) new"
  using assms
proof (induction es arbitrary: rows a)
  case (Cons e es)
  obtain x r where x: "sq_write_event e rows = (Inr x, rows @ [r])" "take 1 (rw_columns r) = [JStr (ae_event_id e)]"
    using write_fresh [of e rows] Cons.prems by (auto simp: fresh_events_def)
  obtain seq h c where xc: "x = (seq, h, c)" by (cases x)
  have r: "by_seq (rows @ [r]) = rows @ [r]" "row_of (Suc (length rows), e) r"
    using by_seq_write [OF x(1) [unfolded xc]] Cons.prems(4) chain_head_chain [OF Cons.prems(3)]
    by (auto simp: row_of_def)
  obtain new where "fst (write_all emit es (rows @ [r], emit seq h c a)) = (rows @ [r]) @ new"
      "by_seq ((rows @ [r]) @ new) = (rows @ [r]) @ new" "list_all2 row_of (enumerate (Suc (length (rows @ [r]))) es) new"
  proof -
    have "\<forall>x\<in>set es. ae_event_id e \<noteq> ae_event_id x" using Cons.prems(1) by (auto simp: fresh_events_def)
    then have "\<forall>x\<in>set es. \<forall>s\<in>set (rows @ [r]). take 1 (rw_columns s) \<noteq> [JStr (ae_event_id x)]"
      using Cons.prems(2) x(2) by auto
    then show ?thesis
      using Cons.IH [of "rows @ [r]" "emit seq h c a"] Cons.prems(1) write_keeps_chain [OF Cons.prems(3) x(1)] r(1) that
      by (auto simp: fresh_events_def)
  qed
  then show ?case
    using x(1) xc r(2) by (intro exI [of _ "r # new"]) (simp add: sq_audit_write_def enumerate_simps)
qed simp

lemma table_rows:
  assumes "fresh_events es"
  shows "by_seq (fst (write_all emit es ([], a))) = fst (write_all emit es ([], a))"
    and "list_all2 row_of (enumerate 1 es) (fst (write_all emit es ([], a)))"
  using write_all_rows [OF assms, of "[]" emit a] by (auto simp: by_seq_def)

lemma cell_event_columns:
  assumes "rw_columns r = event_columns e"
  shows "cell r ''event_id'' = JStr (ae_event_id e)" "cell r ''event_type'' = JStr (ae_event_type e)"
    "cell r ''workspace_id'' = JStr (ae_workspace_id e)" "cell r ''agent_id'' = JStr (ae_agent_id e)"
    "cell r ''grant_ref'' = JStr (ae_grant_ref e)" "cell r ''resource'' = JStr (ae_resource e)"
    "cell r ''boundary_id'' = json_opt (ae_boundary_id e)" "cell r ''event_class'' = JStr (ae_event_class e)"
    "cell r ''subject_token_verified'' = JInt (if ae_subject_token_verified e then 1 else 0)"
  by (simp_all add: cell_def assms event_columns_def CROSSCHECK_COLUMNS_def or_null_def)

lemma json_extract_event:
  assumes "rw_event_json r = event_json_text e"
  shows "json_extract r ''reason_code'' = json_opt (ae_reason_code e)"
    "json_extract r ''enforcing_principal'' = json_opt (ae_enforcing_principal e)"
  using assms
  by (cases "ae_reason_code e"; cases "ae_enforcing_principal e";
      simp add: json_extract_def json_loads_event to_dict_wf or_null_def json_opt_def)+

lemma json_opt_eq [simp]: "json_opt x = JStr v \<longleftrightarrow> x = Some v"
  by (cases x) (simp_all add: json_opt_def)

lemma row_matches_event: "row_of p r \<Longrightarrow> row_matches r f \<longleftrightarrow> audit_event_matches (snd p) f"
  by (auto simp: row_of_def row_matches_def audit_event_matches_def cell_event_columns json_extract_event passes_def
      split: option.splits)

lemma row_of_sel:
  assumes "row_of p r"
  shows "rw_seq r = int (fst p)" "cell r ''workspace_id'' = JStr (ae_workspace_id (snd p))"
    "cell r ''event_id'' = JStr (ae_event_id (snd p))" "audit_event_from_json (rw_event_json r) = Some (snd p)"
  using assms by (auto simp: row_of_def cell_event_columns audit_event_from_json_text)

lemma position_event:
  assumes "list_all2 row_of (enumerate 1 es) rows"
  shows "sq_position rows ws i = im_position es ws i"
proof -
  have "rel_option row_of (find_first (\<lambda>(_, e). ae_event_id e = i \<and> ae_workspace_id e = ws) (enumerate 1 es))
      (find_first (\<lambda>r. cell r ''event_id'' = JStr i \<and> cell r ''workspace_id'' = JStr ws) rows)"
    using assms by (rule list_all2_find_first) (auto simp: row_of_def cell_event_columns)
  then show ?thesis by (auto simp: sq_position_def im_position_def row_of_def rel_option_iff split: option.splits)
qed

lemma enumerate_bounds: "(p, e) \<in> set (enumerate n es) \<Longrightarrow> n \<le> p \<and> p < n + length es"
  by (auto simp: in_set_enumerate_eq)

lemma sql_limit_slice:
  "(\<forall>n. limit = Some n \<longrightarrow> 1 \<le> n) \<Longrightarrow>
     rev (sql_limit limit (rev xs)) = (case limit of None \<Rightarrow> xs | Some n \<Rightarrow> slice_last n xs)"
  by (auto simp: sql_limit_def slice_last_pos take_rev split: option.splits)

lemma matched_rows:
  assumes "list_all2 row_of (enumerate 1 es) rows"
  shows "map (\<lambda>r. audit_event_from_json (rw_event_json r)) (filter (\<lambda>r.
           cell r ''workspace_id'' = JStr ws \<and> passes s (\<lambda>s. rw_seq r \<le> s) \<and> passes b (\<lambda>b. rw_seq r < b)
           \<and> row_matches r f) rows)
       = map Some (im_matched es ws f s b)"
proof -
  let ?P = "\<lambda>r. cell r ''workspace_id'' = JStr ws \<and> passes s (\<lambda>s. rw_seq r \<le> s) \<and> passes b (\<lambda>b. rw_seq r < b)
      \<and> row_matches r f"
  let ?Q = "\<lambda>(position, event). int position \<le> (case s of Some s \<Rightarrow> s | None \<Rightarrow> int (length es))
      \<and> int position < (case b of Some b \<Rightarrow> b | None \<Rightarrow> int (length es) + 1) \<and> ae_workspace_id event = ws
      \<and> audit_event_matches event f"
  have "list_all2 (\<lambda>p r. row_of p r \<and> p \<in> set (enumerate 1 es)) (enumerate 1 es) rows"
    using assms by (simp add: list_all2_conv_all_nth)
  then have "list_all2 (\<lambda>p r. row_of p r \<and> p \<in> set (enumerate 1 es)) (filter ?Q (enumerate 1 es)) (filter ?P rows)"
    by (rule list_all2_filter)
      (auto simp: row_of_sel row_matches_event passes_def dest: enumerate_bounds split: option.splits)
  then have "map (\<lambda>p. Some (snd p)) (filter ?Q (enumerate 1 es))
      = map (\<lambda>r. audit_event_from_json (rw_event_json r)) (filter ?P rows)"
    by (rule list_all2_map_eq) (auto simp: row_of_def audit_event_from_json_text)
  then show ?thesis by (simp add: im_matched_def Let_def comp_def)
qed

lemma map_rev_sql_limit: "map f (rev (sql_limit n (rev xs))) = rev (sql_limit n (rev (map f xs)))"
  by (auto simp: sql_limit_def rev_map take_map split: option.splits)

lemma slice_last_map: "slice_last n (map f xs) = map f (slice_last n xs)"
  by (simp add: slice_last_def drop_map Let_def)

lemma limited_rows:
  assumes "list_all2 row_of (enumerate 1 es) rows" "\<forall>n. limit = Some n \<longrightarrow> 1 \<le> n"
  shows "map (\<lambda>r. audit_event_from_json (rw_event_json r)) (rev (sql_limit limit (rev (filter (\<lambda>r.
           cell r ''workspace_id'' = JStr ws \<and> passes s (\<lambda>s. rw_seq r \<le> s) \<and> passes b (\<lambda>b. rw_seq r < b)
           \<and> row_matches r f) rows))))
       = map Some (case limit of None \<Rightarrow> im_matched es ws f s b | Some n \<Rightarrow> slice_last n (im_matched es ws f s b))"
  by (subst map_rev_sql_limit, subst matched_rows [OF assms(1)], subst sql_limit_slice [OF assms(2)])
    (simp add: slice_last_map split: option.split)

text \<open>
  (C24) The filtered read of SQLite answers as the in-memory one. For a table that the events
  were written to, and for every combination of filters and cursors, the two backends raise
  the same errors and list the same events in the same order, as long as the limit is absent
  or positive; a single event is found under the same id. With a limit of zero they differ:
  the in-memory service returns every match and SQLite none.
\<close>

theorem audit_queries_agree_on_both_backends:
  fixes emit :: "int \<Rightarrow> string \<Rightarrow> string \<Rightarrow> 'a \<Rightarrow> 'a" and a :: 'a
  assumes fresh: "fresh_events es"
  defines "rows \<equiv> fst (write_all emit es ([], a))"
  shows "((\<forall>n. limit = Some n \<longrightarrow> 1 \<le> n) \<longrightarrow>
            sq_list_filtered rows ws f snap before limit
              = map_sum id (map Some) (im_list_filtered es ws f snap before limit))
     \<and> sq_get rows i = get_audit_event es i
     \<and> im_list_filtered es ws f snap before (Some 0) = im_list_filtered es ws f snap before None
     \<and> (\<forall>x. sq_list_filtered rows ws f snap before (Some 0) = Inr x \<longrightarrow> x = [])"
proof (intro conjI impI allI)
  note rows = table_rows [OF fresh, of emit a, folded rows_def]
  have pos: "sq_position rows = im_position es" using position_event [OF rows(2)] by blast
  show "sq_list_filtered rows ws f snap before limit
      = map_sum id (map Some) (im_list_filtered es ws f snap before limit)" if "\<forall>n. limit = Some n \<longrightarrow> 1 \<le> n"
    unfolding sq_list_filtered_def im_list_filtered_def pos rows(1) limited_rows [OF rows(2) that] Let_def
    by (simp split: option.split sum.split prod.split)
  have rel: "rel_option row_of (find_first (\<lambda>(_, e). ae_event_id e = i) (enumerate 1 es))
      (find_first (\<lambda>r. cell r ''event_id'' = JStr i) rows)"
    using rows(2) by (rule list_all2_find_first) (auto simp: row_of_sel)
  have "map_option snd (find_first (\<lambda>(_, e). ae_event_id e = i) (enumerate n es)) = find_first (\<lambda>e. ae_event_id e = i) es" for n
    by (induction es arbitrary: n) (simp_all add: enumerate_simps)
  then have g: "get_audit_event es i = map_option snd (find_first (\<lambda>(_, e). ae_event_id e = i) (enumerate 1 es))"
    by (simp add: get_audit_event_def)
  show "sq_get rows i = get_audit_event es i"
    unfolding sq_get_def g using rel by (cases rule: option.rel_cases) (simp_all add: row_of_sel)
  show "im_list_filtered es ws f snap before (Some 0) = im_list_filtered es ws f snap before None"
    by (simp add: im_list_filtered_def slice_last_zero Let_def split: option.splits sum.splits)
  show "x = []" if "sq_list_filtered rows ws f snap before (Some 0) = Inr x" for x
    using that by (auto simp: sq_list_filtered_def sql_limit_def split: option.splits sum.splits)
qed

definition no_filter :: audit_filter where
  "no_filter =
     \<lparr>af_event_class = None, af_event_type = None, af_grant_ref = None, af_boundary_id = None, af_agent_id = None,
      af_request_id = None, af_reason_code = None, af_enforcing_principal = None, af_subject_token_verified = None\<rparr>"

theorem audit_queries_agree_on_both_backends_witness:
  "sq_list_filtered (fst (write_all NullAnchor_emit [example_event ''e1'', example_event ''e2''] ([], ()))) [] no_filter
       None None (Some 1)
     = map_sum id (map Some) (im_list_filtered [example_event ''e1'', example_event ''e2''] [] no_filter None None (Some 1))"
proof -
  have f: "fresh_events [example_event ''e1'', example_event ''e2'']"
    by (simp add: fresh_events_def example_event_serialisable)
      (simp add: example_event_def build_rejection_audit_event_def rejection_def)
  show ?thesis by (rule mp [OF conjunct1 [OF audit_queries_agree_on_both_backends [OF f]]]) simp
qed

subsection \<open>Paging through a growing log\<close>

text \<open>
  A client that reads all pages with at most a given number of requests: the request number \<open>k\<close> is
  answered from the log as it is then. The pages arrive newest first and are kept oldest first. The result is
  \<open>None\<close> when a request fails or the requests do not suffice.
\<close>

fun read_pages ::
  "nat \<Rightarrow> (nat \<Rightarrow> string option \<Rightarrow> string option \<Rightarrow> int option \<Rightarrow> exn + AuditEvent list) \<Rightarrow> int \<Rightarrow> nat
     \<Rightarrow> string option \<Rightarrow> string option \<Rightarrow> AuditEvent list list option" where
  "read_pages 0 list_at limit k snapshot before = None"
| "read_pages (Suc requests) list_at limit k snapshot before =
     (case audit_page (list_at k) snapshot before limit of
        Inl _ \<Rightarrow> None
      | Inr (page, snapshot', next_before) \<Rightarrow>
          (if next_before = None then Some [page]
           else map_option (\<lambda>rest. rest @ [page]) (read_pages requests list_at limit (Suc k) snapshot' next_before)))"

text \<open>The number of pages of \<open>n\<close> matches; no match is one empty page.\<close>

definition page_count :: "int \<Rightarrow> nat \<Rightarrow> nat" where
  "page_count limit n = max 1 ((n + nat limit - 1) div nat limit)"

lemma page_count_simps:
  assumes "1 \<le> limit"
  shows "int n \<le> limit \<Longrightarrow> page_count limit n = 1" "int n > limit \<Longrightarrow> page_count limit n = Suc (page_count limit (n - nat limit))"
proof -
  obtain l where l: "nat limit = Suc l" using assms by (cases "nat limit") auto
  show "page_count limit n = 1" if "int n \<le> limit"
  proof -
    have "n \<le> Suc l" using that l by linarith
    then have "(n + Suc l - 1) div Suc l \<le> 1" by (simp add: less_Suc_eq_le [symmetric] div_less_iff_less_mult)
    then show ?thesis by (simp add: page_count_def l)
  qed
  show "page_count limit n = Suc (page_count limit (n - nat limit))" if "int n > limit"
  proof -
    have "Suc l < n" using that l by linarith
    then have m: "n = (n - Suc l) + Suc l" "0 < n - Suc l" by simp_all
    define m where "m = n - Suc l"
    note m = m [folded m_def]
    have "0 < (m + l) div Suc l" using m(2) by (simp add: div_greater_zero_iff)
    moreover have "(n + Suc l - 1) div Suc l = Suc ((m + l) div Suc l)"
      using div_add_self2 [of "Suc l" "m + l"] m(1) by (simp add: ac_simps)
    ultimately show ?thesis unfolding page_count_def l m_def [symmetric] by simp
  qed
qed

definition matched_at :: "AuditEvent list \<Rightarrow> string \<Rightarrow> audit_filter \<Rightarrow> (nat \<times> AuditEvent) list" where
  "matched_at events ws f = filter (\<lambda>(_, e). ae_workspace_id e = ws \<and> audit_event_matches e f) (enumerate 1 events)"

lemma matched_at_all: "im_matched events ws f None None = map snd (matched_at events ws f)"
  unfolding im_matched_def matched_at_def Let_def
  by (rule arg_cong [where f = "map snd"], rule filter_cong) (auto dest: enumerate_bounds)

lemma sorted_matched_at: "sorted_wrt (<) (map fst (matched_at events ws f))"
proof -
  have "sorted_wrt (<) (map fst (filter P (enumerate n xs)))" for P n and xs :: "AuditEvent list"
    by (induction xs arbitrary: n) (auto simp: enumerate_simps dest: enumerate_bounds)
  then show ?thesis by (simp add: matched_at_def)
qed

lemma filter_before:
  "sorted_wrt (<) (map fst F) \<Longrightarrow> i < length F \<Longrightarrow> filter (\<lambda>x. fst x < (fst (F ! i) :: nat)) F = take i F"
proof (induction F arbitrary: i)
  case (Cons x F)
  show ?case
  proof (cases i)
    case 0
    then show ?thesis using Cons.prems by (auto simp: filter_empty_conv)
  next
    case (Suc j)
    then have "fst x < fst (F ! j)" using Cons.prems nth_mem [of j F] by auto
    then show ?thesis using Cons Suc by simp
  qed
qed simp

lemma enumerate_mem: "(p, e) \<in> set (enumerate n xs) \<Longrightarrow> e \<in> set xs"
  by (induction xs arbitrary: n) (auto simp: enumerate_simps)

lemma im_position_unique:
  assumes "distinct (map ae_event_id events)" "(p, e) \<in> set (enumerate 1 events)" "ae_workspace_id e = ws"
  shows "im_position events ws (ae_event_id e) = Some (int p)"
proof -
  have "find_first (\<lambda>(_, x). ae_event_id x = ae_event_id e \<and> ae_workspace_id x = ws) (enumerate n xs) = Some (p, e)"
    if "distinct (map ae_event_id xs)" "(p, e) \<in> set (enumerate n xs)" for n xs
    using that
  proof (induction xs arbitrary: n)
    case (Cons x xs)
    show ?case
    proof (cases "x = e \<and> n = p")
      case True
      then show ?thesis using assms(3) by (simp add: enumerate_simps)
    next
      case False
      then have "(p, e) \<in> set (enumerate (Suc n) xs)" using Cons.prems by (auto simp: enumerate_simps)
      moreover from this have "e \<in> set xs" by (rule enumerate_mem)
      ultimately show ?thesis using Cons by (auto simp: enumerate_simps)
    qed
  qed simp
  then show ?thesis using assms by (simp add: im_position_def)
qed

lemma enumerate_append: "enumerate n (xs @ ys) = enumerate n xs @ enumerate (n + length xs) ys"
  by (induction xs arbitrary: n) (simp_all add: enumerate_simps)

lemma matched_prefix:
  assumes "L' = L @ tail" "matched_at L ws f = F" "F \<noteq> []"
  shows "im_matched L' ws f (Some (int (fst (last F)))) None = map snd F"
    and "i < length F \<Longrightarrow> im_matched L' ws f (Some (int (fst (last F)))) (Some (int (fst (F ! i)))) = map snd (take i F)"
proof -
  have F: "F = filter (\<lambda>(_, e). ae_workspace_id e = ws \<and> audit_event_matches e f) (enumerate 1 L)"
    using assms(2) by (simp add: matched_at_def)
  have "last F \<in> set F" using assms(3) by simp
  moreover have "set F \<subseteq> set (enumerate 1 L)" using F by auto
  ultimately have "last F \<in> set (enumerate 1 L)" by blast
  then have le: "fst (last F) \<le> length L" using enumerate_bounds [of "fst (last F)" "snd (last F)" 1 L] by simp
  have top: "x \<in> set F \<Longrightarrow> fst x \<le> fst (last F)" for x
  proof -
    have "sorted (map fst F)" using sorted_matched_at [of L ws f] assms(2) strict_sorted_imp_sorted by blast
    then show "x \<in> set F \<Longrightarrow> fst x \<le> fst (last F)"
      using assms(3) by (cases F rule: rev_cases) (auto simp: sorted_append)
  qed
  have cut: "filter (\<lambda>(p, e). int p \<le> int (fst (last F)) \<and> int p < b \<and> ae_workspace_id e = ws \<and> audit_event_matches e f)
        (enumerate 1 L') = filter (\<lambda>x. int (fst x) < b) F" for b
  proof -
    have "filter (\<lambda>(p, e). int p \<le> int (fst (last F)) \<and> int p < b \<and> ae_workspace_id e = ws \<and> audit_event_matches e f)
        (enumerate (1 + length L) tail) = []"
      using le by (auto simp: filter_empty_conv dest!: enumerate_bounds)
    moreover have "filter (\<lambda>(p, e). int p \<le> int (fst (last F)) \<and> int p < b \<and> ae_workspace_id e = ws \<and> audit_event_matches e f)
        (enumerate 1 L) = filter (\<lambda>x. int (fst x) < b) F"
      using top unfolding F filter_filter by (intro filter_cong) auto
    ultimately show ?thesis unfolding assms(1) enumerate_append by simp
  qed
  have all: "filter (\<lambda>x. int (fst x) < int (length L') + 1) F = F"
    using top le assms(1) by (intro filter_True) fastforce
  show "im_matched L' ws f (Some (int (fst (last F)))) None = map snd F"
    using cut [of "int (length L') + 1"] all by (simp add: im_matched_def)
  show "im_matched L' ws f (Some (int (fst (last F)))) (Some (int (fst (F ! i)))) = map snd (take i F)" if "i < length F"
    using cut [of "int (fst (F ! i))"] filter_before [of F i] sorted_matched_at [of L ws f] assms(2) that
    by (simp add: im_matched_def)
qed

text \<open>One page of the first \<open>i\<close> matches, and where the next page starts.\<close>

definition page_of :: "int \<Rightarrow> nat \<Rightarrow> AuditEvent list \<Rightarrow> AuditEvent list" where
  "page_of limit i M = drop (i - nat limit) (take i M)"

definition next_of :: "int \<Rightarrow> nat \<Rightarrow> AuditEvent list \<Rightarrow> string option" where
  "next_of limit i M = (if int i > limit then Some (ae_event_id (M ! (i - nat limit))) else None)"

lemma audit_page_slice:
  assumes "list_events snap before (Some (limit + 1)) = Inr (slice_last (limit + 1) (take i M))" "i \<le> length M" "1 \<le> limit"
  shows "audit_page list_events snap before limit
    = Inr (page_of limit i M, if snap = None \<and> 0 < i then Some (ae_event_id (M ! (i - 1))) else snap, next_of limit i M)"
proof -
  have sl: "slice_last (limit + 1) (take i M) = drop (i - nat (limit + 1)) (take i M)"
    using assms(2,3) by (simp add: slice_last_pos min_absorb2)
  have len: "int (length (drop (i - nat (limit + 1)) (take i M))) > limit \<longleftrightarrow> int i > limit"
    using assms(2,3) by auto
  have pg: "(if int i > limit then slice_last limit (drop (i - nat (limit + 1)) (take i M))
      else drop (i - nat (limit + 1)) (take i M)) = page_of limit i M"
  proof (cases "int i > limit")
    case True
    have "nat (limit + 1) = Suc (nat limit)" "Suc (nat limit) \<le> i" using True assms(3) by auto
    moreover from this have "Suc (i - Suc (nat limit)) = i - nat limit" by simp
    ultimately show ?thesis using True assms(2,3) by (simp add: slice_last_pos page_of_def)
  qed (use assms(2,3) in \<open>simp add: page_of_def\<close>)
  have hd: "hd (page_of limit i M) = M ! (i - nat limit)" if "int i > limit"
    using that assms(2,3) by (simp add: page_of_def hd_drop_conv_nth)
  have ne: "page_of limit i M \<noteq> [] \<longleftrightarrow> 0 < i" using assms(2,3) by (auto simp: page_of_def)
  have la: "last (page_of limit i M) = M ! (i - 1)" if "0 < i"
    using that assms(2,3) by (simp add: page_of_def last_drop last_conv_nth)
  show ?thesis
    unfolding audit_page_def assms(1) sl sum.case Let_def len pg next_of_def using hd ne la by auto
qed

lemma page_of_all: "i \<le> length M \<Longrightarrow> take (i - nat limit) M @ page_of limit i M = take i M"
  by (metis append_take_drop_id page_of_def take_take min.absorb1 diff_le_self)

lemma length_page_of: "i \<le> length M \<Longrightarrow> length (page_of limit i M) \<le> nat limit"
  by (simp add: page_of_def)

definition pages_ok :: "int \<Rightarrow> nat \<Rightarrow> AuditEvent list \<Rightarrow> AuditEvent list list \<Rightarrow> bool" where
  "pages_ok limit i M pages \<longleftrightarrow>
     concat pages = take i M \<and> length pages = page_count limit i \<and> (\<forall>page\<in>set pages. int (length page) \<le> limit)"

lemma pages_ok_last: "1 \<le> limit \<Longrightarrow> int i \<le> limit \<Longrightarrow> i \<le> length M \<Longrightarrow> pages_ok limit i M [page_of limit i M]"
  using length_page_of [of i M limit] by (simp add: pages_ok_def page_of_def page_count_simps)

lemma pages_ok_snoc:
  assumes "pages_ok limit (i - nat limit) M pages" "1 \<le> limit" "int i > limit" "i \<le> length M"
  shows "pages_ok limit i M (pages @ [page_of limit i M])"
  using assms page_of_all [OF assms(4), of limit] length_page_of [OF assms(4), of limit]
  by (auto simp: pages_ok_def page_count_simps)

lemma read_pages_snapshot:
  assumes logs: "\<forall>k. (\<exists>tail. logs k = L @ tail) \<and> distinct (map ae_event_id (logs k))"
    and F: "matched_at L ws f = F" "validate_audit_event_class (af_event_class f) = None" "1 \<le> limit"
  shows "0 < i \<Longrightarrow> i < length F \<Longrightarrow> page_count limit i = requests \<Longrightarrow>
    \<exists>pages. read_pages requests (\<lambda>k. im_list_filtered (logs k) ws f) limit k
      (Some (ae_event_id (snd (last F)))) (Some (ae_event_id (snd (F ! i)))) = Some pages \<and> pages_ok limit i (map snd F) pages"
proof (induction requests arbitrary: i k)
  case (Suc n)
  obtain tail where L': "logs k = L @ tail" and d: "distinct (map ae_event_id (logs k))" using logs by blast
  have ne: "F \<noteq> []" using Suc.prems by auto
  have pos: "im_position (logs k) ws (ae_event_id (snd x)) = Some (int (fst x))" if "x \<in> set F" for x
  proof (rule im_position_unique [OF d])
    have "x \<in> set (enumerate 1 L)" "ae_workspace_id (snd x) = ws" using that F(1) by (auto simp: matched_at_def)
    then show "(fst x, snd x) \<in> set (enumerate 1 (logs k))" "ae_workspace_id (snd x) = ws"
      by (auto simp: L' enumerate_append)
  qed
  have "fst (F ! i) \<le> fst (last F)"
  proof -
    have "sorted (map fst F)" using sorted_matched_at [of L ws f] F(1) strict_sorted_imp_sorted by blast
    then show ?thesis using Suc.prems ne
      by (simp add: last_conv_nth sorted_iff_nth_mono)
  qed
  then have "im_list_filtered (logs k) ws f (Some (ae_event_id (snd (last F)))) (Some (ae_event_id (snd (F ! i)))) (Some (limit + 1))
      = Inr (slice_last (limit + 1) (take i (map snd F)))"
    using pos [of "last F"] pos [of "F ! i"] ne Suc.prems matched_prefix(2) [OF L' F(1) ne, of i] F(2)
    by (simp add: im_list_filtered_def resolve_cursors_def take_map)
  then have pg: "audit_page (im_list_filtered (logs k) ws f) (Some (ae_event_id (snd (last F)))) (Some (ae_event_id (snd (F ! i)))) limit
      = Inr (page_of limit i (map snd F), Some (ae_event_id (snd (last F))), next_of limit i (map snd F))"
    using audit_page_slice [of "im_list_filtered (logs k) ws f" _ _ limit i "map snd F"] Suc.prems F(3) by simp
  show ?case
  proof (cases "int i > limit")
    case False
    then have "next_of limit i (map snd F) = None" by (simp add: next_of_def)
    then show ?thesis using pg pages_ok_last [OF F(3), of i "map snd F"] False Suc.prems by simp
  next
    case True
    let ?j = "i - nat limit"
    have j: "0 < ?j" "?j < length F" "page_count limit ?j = n"
      using True Suc.prems F(3) page_count_simps(2) [OF F(3) True] by auto
    have nx: "next_of limit i (map snd F) = Some (ae_event_id (snd (F ! ?j)))" using True j by (simp add: next_of_def)
    obtain pages where "read_pages n (\<lambda>k. im_list_filtered (logs k) ws f) limit (Suc k) (Some (ae_event_id (snd (last F))))
        (Some (ae_event_id (snd (F ! ?j)))) = Some pages" "pages_ok limit ?j (map snd F) pages"
      using Suc.IH [OF j] by blast
    then show ?thesis
      using pg nx pages_ok_snoc [OF _ F(3) True, of "map snd F" pages] Suc.prems by simp
  qed
qed (simp add: page_count_def)

text \<open>
  (C28) Paging through the log reads every match exactly once. A client asks for the first page
  without cursors and follows the cursors of each answer, while the log may grow between its
  requests. The pages together are the events that matched when it began, in order, each
  once and none that was written later. It stops after exactly as many requests as there are pages of the
  limit, the number of matches divided by the limit and rounded up (one when there were none), so no request is
  made for an empty page, and no page exceeds the limit.
\<close>

theorem paging_reads_every_match_once:
  assumes "\<forall>k. (\<exists>tail. logs k = logs 0 @ tail) \<and> distinct (map ae_event_id (logs k))"
    and "validate_audit_event_class (af_event_class f) = None" "1 \<le> limit"
    and "matches = im_matched (logs 0) ws f None None"
    and "requests = max 1 ((length matches + nat limit - 1) div nat limit)"
  shows "\<exists>pages. read_pages requests (\<lambda>k. im_list_filtered (logs k) ws f) limit 0 None None = Some pages
    \<and> length pages = requests \<and> concat pages = matches \<and> (\<forall>page\<in>set pages. int (length page) \<le> limit)"
proof -
  define F where "F = matched_at (logs 0) ws f"
  have M: "matches = map snd F" unfolding F_def assms(4) by (rule matched_at_all)
  let ?i = "length F"
  have rq: "requests = page_count limit ?i" by (simp add: assms(5) page_count_def M)
  have "im_list_filtered (logs 0) ws f None None (Some (limit + 1)) = Inr (slice_last (limit + 1) (take ?i (map snd F)))"
    using assms(2) by (simp add: im_list_filtered_def resolve_cursors_def matched_at_all F_def)
  then have pg: "audit_page (im_list_filtered (logs 0) ws f) None None limit
      = Inr (page_of limit ?i (map snd F), if 0 < ?i then Some (ae_event_id (map snd F ! (?i - 1))) else None,
             next_of limit ?i (map snd F))"
    using audit_page_slice [of "im_list_filtered (logs 0) ws f" None None limit ?i "map snd F"] assms(3) by simp
  have "\<exists>pages. read_pages requests (\<lambda>k. im_list_filtered (logs k) ws f) limit 0 None None = Some pages
      \<and> pages_ok limit ?i (map snd F) pages"
  proof (cases "int ?i > limit")
    case False
    then have "next_of limit ?i (map snd F) = None" "requests = Suc 0"
      by (simp_all add: next_of_def rq page_count_simps [OF assms(3)])
    then show ?thesis using pg pages_ok_last [OF assms(3), of ?i "map snd F"] False by simp
  next
    case True
    let ?j = "?i - nat limit"
    have j: "0 < ?j" "?j < ?i" using True assms(3) by auto
    have nx: "next_of limit ?i (map snd F) = Some (ae_event_id (snd (F ! ?j)))" using True j by (simp add: next_of_def)
    have la: "map snd F ! (?i - 1) = snd (last F)" using j by (cases F rule: rev_cases) (auto simp: nth_append)
    obtain pages where "read_pages (page_count limit ?j) (\<lambda>k. im_list_filtered (logs k) ws f) limit (Suc 0)
        (Some (ae_event_id (snd (last F)))) (Some (ae_event_id (snd (F ! ?j)))) = Some pages"
        "pages_ok limit ?j (map snd F) pages"
      using read_pages_snapshot [OF assms(1) F_def [symmetric] assms(2,3) j refl] by blast
    then show ?thesis
      using pg nx la j pages_ok_snoc [OF _ assms(3) True, of "map snd F" pages]
      by (auto simp: rq page_count_simps(2) [OF assms(3) True])
  qed
  then show ?thesis by (auto simp: pages_ok_def M rq)
qed

theorem paging_reads_every_match_once_witness:
  "\<exists>pages. read_pages 2 (\<lambda>k. im_list_filtered ([example_event ''e1'', example_event ''e2''] @ (if k = 0 then [] else [example_event ''e3'']))
       [] no_filter) 1 0 None None = Some pages \<and> concat pages = [example_event ''e1'', example_event ''e2''] \<and> length pages = 2"
proof -
  let ?logs = "\<lambda>k. [example_event ''e1'', example_event ''e2''] @ (if k = (0 :: nat) then [] else [example_event ''e3''])"
  have ids: "ae_event_id (example_event x) = x" "ae_workspace_id (example_event x) = []" if "x \<noteq> []" for x
    using that by (simp_all add: example_event_def build_rejection_audit_event_def rejection_def py_or_def)
  have M: "[example_event ''e1'', example_event ''e2''] = im_matched (?logs 0) [] no_filter None None"
    by (simp add: matched_at_all matched_at_def enumerate_simps ids audit_event_matches_def no_filter_def passes_def)
  have "\<exists>pages. read_pages 2 (\<lambda>k. im_list_filtered (?logs k) [] no_filter) 1 0 None None = Some pages
      \<and> length pages = 2 \<and> concat pages = [example_event ''e1'', example_event ''e2''] \<and> (\<forall>page\<in>set pages. int (length page) \<le> 1)"
    by (rule paging_reads_every_match_once [where logs = ?logs and ws = "[]" and f = no_filter, OF _ _ _ M]) (auto simp: ids no_filter_def validate_audit_event_class_def)
  then show ?thesis by blast
qed

end
