(* ===== verification/InMemoryService.thy ===== *)
theory InMemoryService
  imports AutoApproval Registry Observations Simulations AuditQuery
begin

section \<open>The in-memory service\<close>

text \<open>
  \<^verbatim>\<open>src/vinctor_service/in_memory.py\<close>: \<^verbatim>\<open>InMemoryV1Service\<close>, which holds one repository of each kind
  and hands it to the operations of the other components. A method is a function from its
  arguments and the state to its result and the new state; \<open>rnd\<close> is the randomness of a call,
  \<open>wall\<close> what \<^verbatim>\<open>datetime.now(UTC)\<close> returns. The caps of the replay cache come from the
  environment and are part of the state.

  A \<open>service_call\<close> names a call that may change the state: the methods, and the setters of the
  two repositories that the service exposes for the command line (enforcement settings and
  subject tokens). \<open>perform\<close> runs a call; a history of the service is a list of calls.
\<close>

subsection \<open>State\<close>

record InMemoryV1Service =
  sv_boundary_registry :: BoundaryRegistry
  sv_audit_writer :: "AuditEvent list"
  sv_grant_repository :: grants_by_ref
  sv_grant_request_repository :: requests_by_id
  sv_auto_approval_rule_repository :: rules_by_id
  sv_subject_token_repository :: tokens_by_hash
  sv_agent_enforcement_settings_repository :: enforcement_settings
  sv_scope_bounds_repository :: bounds_dict
  sv_auth_failures :: throttle_windows
  sv_pop_replay :: seen_nonces
  sv_pop_caps :: replay_caps

definition sv_post_init ::
  "Grant list \<Rightarrow> BoundaryRegistry \<Rightarrow> AuditEvent list \<Rightarrow> (string \<times> string, string list) dict \<Rightarrow> replay_caps
     \<Rightarrow> exn + InMemoryV1Service" where
  "sv_post_init grants boundary_registry audit_writer initial_issuable_scope_bounds caps =
     (case im_init_grants grants of
        Inl e \<Rightarrow> Inl e
      | Inr grant_repository \<Rightarrow>
          Inr \<lparr>sv_boundary_registry = boundary_registry, sv_audit_writer = audit_writer,
               sv_grant_repository = grant_repository, sv_grant_request_repository = [],
               sv_auto_approval_rule_repository = [], sv_subject_token_repository = [],
               sv_agent_enforcement_settings_repository = settings_init,
               sv_scope_bounds_repository = bounds_init initial_issuable_scope_bounds,
               sv_auth_failures = [], sv_pop_replay = [], sv_pop_caps = caps\<rparr>)"

subsection \<open>Methods\<close>

definition sv_record_auth_failure :: "string \<Rightarrow> instant \<Rightarrow> entropy \<Rightarrow> InMemoryV1Service \<Rightarrow> InMemoryV1Service" where
  "sv_record_auth_failure surface now rnd s =
     (case throttle_record AUTH_FAILURE_WINDOW_SECONDS InMemoryAuditWriter surface now rnd
             (sv_auth_failures s, sv_audit_writer s) of
        (windows, log) \<Rightarrow> s\<lparr>sv_auth_failures := windows, sv_audit_writer := log\<rparr>)"

definition sv_register_boundary ::
  "BoundaryRegistrationInput \<Rightarrow> instant option \<Rightarrow> string option \<Rightarrow> instant \<Rightarrow> entropy \<Rightarrow> InMemoryV1Service
     \<Rightarrow> (exn + Boundary) \<times> InMemoryV1Service" where
  "sv_register_boundary registration now boundary_id wall rnd s =
     (case register_boundary (sv_boundary_registry s) registration now boundary_id wall rnd of
        Inl e \<Rightarrow> (Inl e, s)
      | Inr (b, registry) \<Rightarrow> (Inr b, s\<lparr>sv_boundary_registry := registry\<rparr>))"

definition sv_get_boundary :: "string \<Rightarrow> string \<Rightarrow> InMemoryV1Service \<Rightarrow> Boundary option" where
  "sv_get_boundary boundary_id workspace_id s =
     get_boundary_for_workspace (sv_boundary_registry s) boundary_id workspace_id"

definition sv_list_boundaries :: "string \<Rightarrow> InMemoryV1Service \<Rightarrow> Boundary list" where
  "sv_list_boundaries workspace_id s = list_for_workspace (sv_boundary_registry s) workspace_id"

definition sv_disable_boundary ::
  "string \<Rightarrow> string \<Rightarrow> instant option \<Rightarrow> instant \<Rightarrow> InMemoryV1Service \<Rightarrow> Boundary option \<times> InMemoryV1Service" where
  "sv_disable_boundary boundary_id workspace_id now wall s =
     (case disable_boundary (sv_boundary_registry s) boundary_id workspace_id now wall of
        (b, registry) \<Rightarrow> (b, s\<lparr>sv_boundary_registry := registry\<rparr>))"

definition sv_enable_boundary ::
  "string \<Rightarrow> string \<Rightarrow> instant option \<Rightarrow> instant \<Rightarrow> InMemoryV1Service \<Rightarrow> Boundary option \<times> InMemoryV1Service" where
  "sv_enable_boundary boundary_id workspace_id now wall s =
     (case enable_boundary (sv_boundary_registry s) boundary_id workspace_id now wall of
        (b, registry) \<Rightarrow> (b, s\<lparr>sv_boundary_registry := registry\<rparr>))"

definition sv_set_agent_issuable_scope_bounds ::
  "string \<Rightarrow> string \<Rightarrow> string list \<Rightarrow> int option \<Rightarrow> bool \<Rightarrow> InMemoryV1Service \<Rightarrow> exn option \<times> InMemoryV1Service" where
  "sv_set_agent_issuable_scope_bounds workspace_id agent_id scopes max_ttl_seconds clear_max_ttl s =
     (case set_bounds workspace_id agent_id scopes max_ttl_seconds clear_max_ttl (sv_scope_bounds_repository s) of
        (e, bounds) \<Rightarrow> (e, s\<lparr>sv_scope_bounds_repository := bounds\<rparr>))"

abbreviation sv_bounds :: "InMemoryV1Service \<Rightarrow> string \<Rightarrow> string \<Rightarrow> AgentIssuableBounds option" where
  "sv_bounds s \<equiv> get_bounds_with_max_ttl (sv_scope_bounds_repository s)"

definition sv_issue_grant ::
  "GrantIssueRequest \<Rightarrow> instant \<Rightarrow> entropy \<Rightarrow> InMemoryV1Service \<Rightarrow> (exn + GrantIssueResult) \<times> InMemoryV1Service" where
  "sv_issue_grant request now rnd s =
     (case issue_grant request InMemoryGrantRepository (sv_bounds s) InMemoryAuditWriter now rnd
             (sv_grant_repository s, sv_audit_writer s) of
        (r, grants, log) \<Rightarrow> (r, s\<lparr>sv_grant_repository := grants, sv_audit_writer := log\<rparr>))"

definition sv_lookup_grant :: "string \<Rightarrow> string \<Rightarrow> InMemoryV1Service \<Rightarrow> Grant option" where
  "sv_lookup_grant grant_ref workspace_id s =
     lookup_grant grant_ref workspace_id InMemoryGrantRepository (sv_grant_repository s)"

definition sv_list_grants :: "string \<Rightarrow> string option \<Rightarrow> string option \<Rightarrow> InMemoryV1Service \<Rightarrow> Grant list" where
  "sv_list_grants workspace_id agent_id status s =
     list_grants workspace_id agent_id status InMemoryGrantRepository (sv_grant_repository s)"

definition sv_revoke_grant ::
  "string \<Rightarrow> string \<Rightarrow> instant \<Rightarrow> entropy \<Rightarrow> InMemoryV1Service \<Rightarrow> (exn + (Grant \<times> string) option) \<times> InMemoryV1Service" where
  "sv_revoke_grant grant_ref workspace_id now rnd s =
     (case revoke_grant grant_ref workspace_id InMemoryGrantRepository InMemoryAuditWriter now rnd
             (sv_grant_repository s, sv_audit_writer s) of
        (r, grants, log) \<Rightarrow> (r, s\<lparr>sv_grant_repository := grants, sv_audit_writer := log\<rparr>))"

definition sv_create_grant_request ::
  "GrantRequestCreateRequest \<Rightarrow> instant \<Rightarrow> entropy \<Rightarrow> InMemoryV1Service
     \<Rightarrow> (exn + GrantRequestCreateResult) \<times> InMemoryV1Service" where
  "sv_create_grant_request request now rnd s =
     (case create_grant_request request InMemoryGrantRequestRepository InMemoryAuditWriter now rnd
             (sv_grant_request_repository s, sv_audit_writer s) of
        (r, requests, log) \<Rightarrow> (r, s\<lparr>sv_grant_request_repository := requests, sv_audit_writer := log\<rparr>))"

definition sv_mint_subject_token ::
  "mint_args \<Rightarrow> entropy \<Rightarrow> InMemoryV1Service \<Rightarrow> (exn + SubjectTokenMintResult) \<times> InMemoryV1Service" where
  "sv_mint_subject_token a rnd s =
     (case mint_subject_token a (im_get_by_ref (sv_grant_repository s)) InMemorySubjectTokenRepository
             InMemoryAuditWriter False rnd (sv_subject_token_repository s, sv_audit_writer s) of
        (r, tokens, log) \<Rightarrow> (r, s\<lparr>sv_subject_token_repository := tokens, sv_audit_writer := log\<rparr>))"

definition sv_lookup_grant_request :: "string \<Rightarrow> string \<Rightarrow> InMemoryV1Service \<Rightarrow> GrantRequest option" where
  "sv_lookup_grant_request request_id workspace_id s =
     lookup_grant_request request_id workspace_id InMemoryGrantRequestRepository (sv_grant_request_repository s)"

definition sv_list_grant_requests :: "string \<Rightarrow> InMemoryV1Service \<Rightarrow> GrantRequest list" where
  "sv_list_grant_requests workspace_id s =
     list_grant_requests workspace_id InMemoryGrantRequestRepository (sv_grant_request_repository s)"

definition sv_approve_grant_request ::
  "string \<Rightarrow> string \<Rightarrow> string \<Rightarrow> string option \<Rightarrow> instant \<Rightarrow> entropy \<Rightarrow> InMemoryV1Service
     \<Rightarrow> (exn + GrantRequestDecisionResult) \<times> InMemoryV1Service" where
  "sv_approve_grant_request request_id workspace_id decided_by decision_reason now rnd s =
     (case approve_grant_request (approval_args request_id workspace_id decided_by decision_reason now)
             InMemoryGrantRequestRepository InMemoryGrantRepository (sv_bounds s) InMemoryAuditWriter rnd
             (sv_grant_request_repository s, sv_grant_repository s, sv_audit_writer s) of
        (r, requests, grants, log) \<Rightarrow>
          (r, s\<lparr>sv_grant_request_repository := requests, sv_grant_repository := grants, sv_audit_writer := log\<rparr>))"

definition sv_reject_grant_request ::
  "string \<Rightarrow> string \<Rightarrow> string \<Rightarrow> string option \<Rightarrow> instant \<Rightarrow> entropy \<Rightarrow> InMemoryV1Service
     \<Rightarrow> (exn + GrantRequestDecisionResult) \<times> InMemoryV1Service" where
  "sv_reject_grant_request request_id workspace_id decided_by decision_reason now rnd s =
     (case reject_grant_request (approval_args request_id workspace_id decided_by decision_reason now)
             InMemoryGrantRequestRepository InMemoryAuditWriter rnd
             (sv_grant_request_repository s, sv_audit_writer s) of
        (r, requests, log) \<Rightarrow> (r, s\<lparr>sv_grant_request_repository := requests, sv_audit_writer := log\<rparr>))"

definition sv_create_auto_approval_rule ::
  "AutoApprovalRule \<Rightarrow> InMemoryV1Service \<Rightarrow> (exn + AutoApprovalRule) \<times> InMemoryV1Service" where
  "sv_create_auto_approval_rule rule s =
     (case create_auto_approval_rule InMemoryAutoApprovalRuleRepository rule (sv_auto_approval_rule_repository s) of
        (r, rules) \<Rightarrow> (r, s\<lparr>sv_auto_approval_rule_repository := rules\<rparr>))"

definition sv_list_auto_approval_rules :: "string \<Rightarrow> InMemoryV1Service \<Rightarrow> AutoApprovalRule list" where
  "sv_list_auto_approval_rules workspace_id s =
     list_auto_approval_rules InMemoryAutoApprovalRuleRepository workspace_id (sv_auto_approval_rule_repository s)"

definition sv_disable_auto_approval_rule ::
  "string \<Rightarrow> string \<Rightarrow> string \<Rightarrow> instant \<Rightarrow> InMemoryV1Service \<Rightarrow> (exn + AutoApprovalRule option) \<times> InMemoryV1Service" where
  "sv_disable_auto_approval_rule rule_id workspace_id disabled_by now s =
     (case disable_auto_approval_rule InMemoryAutoApprovalRuleRepository rule_id workspace_id disabled_by now
             (sv_auto_approval_rule_repository s) of
        (r, rules) \<Rightarrow> (r, s\<lparr>sv_auto_approval_rule_repository := rules\<rparr>))"

definition sv_evaluate_auto_approval :: "GrantRequest \<Rightarrow> InMemoryV1Service \<Rightarrow> AutoApprovalEvaluationResult" where
  "sv_evaluate_auto_approval request s =
     evaluate_auto_approval request InMemoryAutoApprovalRuleRepository (sv_auto_approval_rule_repository s)"

definition sv_auto_approve_grant_request ::
  "string \<Rightarrow> string \<Rightarrow> string \<Rightarrow> instant \<Rightarrow> entropy \<Rightarrow> InMemoryV1Service
     \<Rightarrow> (exn + GrantRequestDecisionResult) \<times> InMemoryV1Service" where
  "sv_auto_approve_grant_request request_id workspace_id decided_by now rnd s =
     (case auto_approve_grant_request request_id workspace_id decided_by InMemoryGrantRequestRepository
             InMemoryAutoApprovalRuleRepository InMemoryGrantRepository (sv_bounds s) InMemoryAuditWriter now rnd
             (sv_auto_approval_rule_repository s)
             (sv_grant_request_repository s, sv_grant_repository s, sv_audit_writer s) of
        (r, requests, grants, log) \<Rightarrow>
          (r, s\<lparr>sv_grant_request_repository := requests, sv_grant_repository := grants, sv_audit_writer := log\<rparr>))"

abbreviation sv_get_by_ref :: "InMemoryV1Service \<Rightarrow> string \<Rightarrow> exn + Grant option" where
  "sv_get_by_ref s grant_ref \<equiv> Inr (im_get_by_ref (sv_grant_repository s) grant_ref)"

abbreviation sv_boundaries :: "InMemoryV1Service \<Rightarrow> BoundaryLookup option" where
  "sv_boundaries s \<equiv> Some (registry_get (sv_boundary_registry s))"

definition sv_enforce ::
  "V1EnforceRequest \<Rightarrow> instant \<Rightarrow> entropy \<Rightarrow> InMemoryV1Service \<Rightarrow> V1EnforceResponse \<times> InMemoryV1Service" where
  "sv_enforce request now rnd s =
     (case enforce_v1_contract request (sv_get_by_ref s) now InMemoryAuditWriter (sv_boundaries s)
             (Some (sv_agent_enforcement_settings_repository s)) rnd (sv_audit_writer s) of
        (r, log) \<Rightarrow> (r, s\<lparr>sv_audit_writer := log\<rparr>))"

definition sv_observe ::
  "V1ObserveRequest \<Rightarrow> instant \<Rightarrow> entropy \<Rightarrow> InMemoryV1Service \<Rightarrow> V1ObserveResponse \<times> InMemoryV1Service" where
  "sv_observe request now rnd s =
     (case record_observation request InMemoryAuditWriter now (sv_boundaries s) rnd (sv_audit_writer s) of
        (r, log) \<Rightarrow> (r, s\<lparr>sv_audit_writer := log\<rparr>))"

definition sv_simulate ::
  "V1SimulateRequest \<Rightarrow> instant \<Rightarrow> entropy \<Rightarrow> InMemoryV1Service \<Rightarrow> V1SimulateResponse \<times> InMemoryV1Service" where
  "sv_simulate request now rnd s =
     (case simulate_v1_contract request (sv_get_by_ref s) now InMemoryAuditWriter (sv_boundaries s)
             (Some (sv_agent_enforcement_settings_repository s)) rnd (sv_audit_writer s) of
        (r, log) \<Rightarrow> (r, s\<lparr>sv_audit_writer := log\<rparr>))"

definition sv_delegated_enforce ::
  "V1DelegatedEnforceRequest \<Rightarrow> instant \<Rightarrow> string option \<Rightarrow> int \<Rightarrow> entropy \<Rightarrow> InMemoryV1Service
     \<Rightarrow> V1EnforceResponse \<times> InMemoryV1Service" where
  "sv_delegated_enforce request now pep_workspace_id pop_skew_seconds rnd s =
     (case delegated_enforce_v1_contract request (sv_get_by_ref s) now InMemoryAuditWriter (sv_boundaries s)
             pep_workspace_id (Some (\<lambda>h. Inr (im_get_by_hash (sv_subject_token_repository s) h)))
             (Some (sv_agent_enforcement_settings_repository s)) (Some (check_and_record (sv_pop_caps s)))
             pop_skew_seconds rnd (sv_pop_replay s, sv_audit_writer s) of
        (r, cache, log) \<Rightarrow> (r, s\<lparr>sv_pop_replay := cache, sv_audit_writer := log\<rparr>))"

subsection \<open>Calls\<close>

datatype service_call =
    RecordAuthFailure string instant entropy
  | RegisterBoundary BoundaryRegistrationInput "instant option" "string option" instant entropy
  | DisableBoundary string string "instant option" instant
  | EnableBoundary string string "instant option" instant
  | SetBounds string string "string list" "int option" bool
  | IssueGrant GrantIssueRequest instant entropy
  | RevokeGrant string string instant entropy
  | CreateGrantRequest GrantRequestCreateRequest instant entropy
  | MintSubjectToken mint_args entropy
  | RevokeSubjectToken string instant
  | ApproveGrantRequest string string string "string option" instant entropy
  | RejectGrantRequest string string string "string option" instant entropy
  | CreateAutoApprovalRule AutoApprovalRule
  | DisableAutoApprovalRule string string string instant
  | AutoApproveGrantRequest string string string instant entropy
  | SetRequireBoundary string string bool
  | SetRequireSubjectToken string string bool
  | SetRequirePop string string bool
  | CallEnforce V1EnforceRequest instant entropy
  | CallObserve V1ObserveRequest instant entropy
  | CallSimulate V1SimulateRequest instant entropy
  | CallDelegatedEnforce V1DelegatedEnforceRequest instant "string option" int entropy

fun perform :: "service_call \<Rightarrow> InMemoryV1Service \<Rightarrow> InMemoryV1Service" where
  "perform (RecordAuthFailure surface now rnd) s = sv_record_auth_failure surface now rnd s"
| "perform (RegisterBoundary registration now boundary_id wall rnd) s =
     snd (sv_register_boundary registration now boundary_id wall rnd s)"
| "perform (DisableBoundary b w now wall) s = snd (sv_disable_boundary b w now wall s)"
| "perform (EnableBoundary b w now wall) s = snd (sv_enable_boundary b w now wall s)"
| "perform (SetBounds w a scopes max_ttl clear) s = snd (sv_set_agent_issuable_scope_bounds w a scopes max_ttl clear s)"
| "perform (IssueGrant request now rnd) s = snd (sv_issue_grant request now rnd s)"
| "perform (RevokeGrant r w now rnd) s = snd (sv_revoke_grant r w now rnd s)"
| "perform (CreateGrantRequest request now rnd) s = snd (sv_create_grant_request request now rnd s)"
| "perform (MintSubjectToken a rnd) s = snd (sv_mint_subject_token a rnd s)"
| "perform (RevokeSubjectToken token_id now) s =
     s\<lparr>sv_subject_token_repository := snd (im_revoke_token token_id now (sv_subject_token_repository s))\<rparr>"
| "perform (ApproveGrantRequest i w dby reason now rnd) s = snd (sv_approve_grant_request i w dby reason now rnd s)"
| "perform (RejectGrantRequest i w dby reason now rnd) s = snd (sv_reject_grant_request i w dby reason now rnd s)"
| "perform (CreateAutoApprovalRule rule) s = snd (sv_create_auto_approval_rule rule s)"
| "perform (DisableAutoApprovalRule i w dby now) s = snd (sv_disable_auto_approval_rule i w dby now s)"
| "perform (AutoApproveGrantRequest i w dby now rnd) s = snd (sv_auto_approve_grant_request i w dby now rnd s)"
| "perform (SetRequireBoundary w a v) s =
     s\<lparr>sv_agent_enforcement_settings_repository :=
         set_require_boundary w a v (sv_agent_enforcement_settings_repository s)\<rparr>"
| "perform (SetRequireSubjectToken w a v) s =
     s\<lparr>sv_agent_enforcement_settings_repository :=
         set_require_subject_token w a v (sv_agent_enforcement_settings_repository s)\<rparr>"
| "perform (SetRequirePop w a v) s =
     s\<lparr>sv_agent_enforcement_settings_repository :=
         set_require_pop w a v (sv_agent_enforcement_settings_repository s)\<rparr>"
| "perform (CallEnforce request now rnd) s = snd (sv_enforce request now rnd s)"
| "perform (CallObserve request now rnd) s = snd (sv_observe request now rnd s)"
| "perform (CallSimulate request now rnd) s = snd (sv_simulate request now rnd s)"
| "perform (CallDelegatedEnforce request now pep_ws skew rnd) s =
     snd (sv_delegated_enforce request now pep_ws skew rnd s)"

definition history :: "service_call list \<Rightarrow> InMemoryV1Service \<Rightarrow> InMemoryV1Service" where
  "history calls s = fold perform calls s"

end
