(* ===== verification/Http.thy ===== *)
theory Http
  imports InMemoryService PyJson PyTime
begin

section \<open>HTTP requests and responses\<close>

text \<open>
  What the handlers of \<^verbatim>\<open>src/vinctor_service/*_http.py\<close> share: the decoded body of a request,
  responses and their error form, case-insensitive headers, the identities a key resolves to, and
  the checks of a JSON object's fields.

  A decoded request body is a \<open>pyobj\<close>, what \<^verbatim>\<open>json.loads\<close> returns; a float is kept as its text,
  since no handler looks into one. A handler takes the resolvers as optional functions and the
  fixed identity tables as optional dictionaries, as its Python counterpart does, and returns
  the response together with the new state of the service, or the exception the call raised.
\<close>

subsection \<open>Bodies\<close>

datatype pyobj =
    PNone
  | PBool bool
  | PInt int
  | PFloat string
  | PStr string
  | PList "pyobj list"
  | PDict "(string \<times> pyobj) list"

type_synonym json_object = "(string, json) dict"

record V1HttpResponse =
  hr_status_code :: int
  hr_body :: json_object

definition error_response :: "int \<Rightarrow> string \<Rightarrow> string \<Rightarrow> string option \<Rightarrow> V1HttpResponse" where
  "error_response status_code error reason detail =
     \<lparr>hr_status_code = status_code,
      hr_body = [(''error'', JStr error), (''reason'', JStr reason)] @
                (case detail of None \<Rightarrow> [] | Some d \<Rightarrow> [(''detail'', JStr d)])\<rparr>"

definition http_error :: "int \<Rightarrow> string \<Rightarrow> string \<Rightarrow> V1HttpResponse" where
  "http_error status_code error reason =
     \<lparr>hr_status_code = status_code, hr_body = [(''error'', JStr error), (''reason'', JStr reason)]\<rparr>"

abbreviation bad_request :: "string \<Rightarrow> V1HttpResponse" where
  "bad_request reason \<equiv> http_error 400 ''invalid_request'' reason"

text \<open>\<^verbatim>\<open>{**first, **second}\<close>: the later dictionary's values win, its new keys come last.\<close>

definition dict_merge :: "('k, 'v) dict \<Rightarrow> ('k, 'v) dict \<Rightarrow> ('k, 'v) dict" where
  "dict_merge first second = fold (\<lambda>(k, v) d. dict_set k v d) second first"

definition json_strings :: "string list \<Rightarrow> json" where
  "json_strings xs = JList (map JStr xs)"

definition json_time :: "instant option \<Rightarrow> json" where
  "json_time t = (case t of None \<Rightarrow> JNull | Some t \<Rightarrow> JStr (isoformat t))"

subsection \<open>Headers\<close>

text \<open>\<^verbatim>\<open>str.lower()\<close> on the code points of the model: the letters of ASCII and of Latin-1.\<close>

definition lower_char :: "char \<Rightarrow> char" where
  "lower_char c =
     (let n = of_char c :: nat
      in if 65 \<le> n \<and> n \<le> 90 \<or> 192 \<le> n \<and> n \<le> 222 \<and> n \<noteq> 215 then char_of (n + 32) else c)"

definition py_lower :: "string \<Rightarrow> string" where
  "py_lower s = map lower_char s"

text \<open>\<^verbatim>\<open>{key.lower(): value for key, value in headers.items()}\<close>\<close>

definition normalized_headers :: "(string, string) dict \<Rightarrow> (string, string) dict" where
  "normalized_headers headers = fold (\<lambda>(k, v) d. dict_set (py_lower k) v d) headers []"

subsection \<open>Identities\<close>

record AgentIdentity =
  ai_workspace_id :: string
  ai_agent_id :: string

record PepIdentity =
  pe_workspace_id :: string
  pe_pep_id :: string

record WorkspaceIdentity =
  wi_workspace_id :: string

type_synonym 'i identities = "(string, 'i) dict option"
type_synonym 'i resolver = "(string \<Rightarrow> instant \<Rightarrow> 'i option) option"

definition resolve_identity :: "'i identities \<Rightarrow> 'i resolver \<Rightarrow> string \<Rightarrow> instant \<Rightarrow> 'i option" where
  "resolve_identity identities resolver key now =
     (case resolver of
        Some r \<Rightarrow> r key now
      | None \<Rightarrow> (case identities of None \<Rightarrow> None | Some d \<Rightarrow> dict_get d key))"

text \<open>The identity of the key in a header, \<^verbatim>\<open>_agent_identity\<close> and \<^verbatim>\<open>_workspace_identity\<close>.\<close>

definition header_identity ::
  "string \<Rightarrow> (string, string) dict \<Rightarrow> 'i identities \<Rightarrow> 'i resolver \<Rightarrow> instant \<Rightarrow> 'i option" where
  "header_identity header headers identities resolver now =
     (case dict_get (normalized_headers headers) header of
        None \<Rightarrow> None
      | Some key \<Rightarrow> resolve_identity identities resolver key now)"

definition agent_identity ::
  "(string, string) dict \<Rightarrow> AgentIdentity identities \<Rightarrow> AgentIdentity resolver \<Rightarrow> instant \<Rightarrow> AgentIdentity option" where
  "agent_identity = header_identity ''x-agent-key''"

definition workspace_identity ::
  "(string, string) dict \<Rightarrow> WorkspaceIdentity identities \<Rightarrow> WorkspaceIdentity resolver \<Rightarrow> instant
     \<Rightarrow> WorkspaceIdentity option" where
  "workspace_identity = header_identity ''x-workspace-key''"

subsection \<open>Fields of a JSON object\<close>

definition missing_fields :: "string list \<Rightarrow> (string \<times> pyobj) list \<Rightarrow> string list" where
  "missing_fields required body = sort (filter (\<lambda>f. f \<notin> set (map fst body)) required)"

definition extra_fields :: "string list \<Rightarrow> (string \<times> pyobj) list \<Rightarrow> string list" where
  "extra_fields allowed body = sort (filter (\<lambda>f. f \<notin> set allowed) (map fst body))"

text \<open>The first complaint about the set of fields: one is missing, or one is not expected.\<close>

definition check_fields :: "string list \<Rightarrow> string list \<Rightarrow> (string \<times> pyobj) list \<Rightarrow> V1HttpResponse option" where
  "check_fields required optional body =
     (case missing_fields required body of
        f # _ \<Rightarrow> Some (bad_request (''missing required field: '' @ f))
      | [] \<Rightarrow>
          (case extra_fields (required @ optional) body of
             f # _ \<Rightarrow> Some (bad_request (''unexpected field: '' @ f))
           | [] \<Rightarrow> None))"

text \<open>\<^verbatim>\<open>isinstance(value, str) and value != ""\<close>, and the value.\<close>

definition nonempty_str :: "pyobj option \<Rightarrow> string option" where
  "nonempty_str v = (case v of Some (PStr s) \<Rightarrow> if s = [] then None else Some s | _ \<Rightarrow> None)"

text \<open>\<^verbatim>\<open>isinstance(value, int) and not isinstance(value, bool) and value > 0\<close>, and the value.\<close>

definition positive_int :: "pyobj option \<Rightarrow> int option" where
  "positive_int v = (case v of Some (PInt n) \<Rightarrow> if 0 < n then Some n else None | _ \<Rightarrow> None)"

fun nonempty_strs :: "pyobj list \<Rightarrow> string list option" where
  "nonempty_strs [] = Some []"
| "nonempty_strs (v # vs) =
     (case (nonempty_str (Some v), nonempty_strs vs) of (Some s, Some ss) \<Rightarrow> Some (s # ss) | _ \<Rightarrow> None)"

text \<open>A non-empty array of non-empty strings, with the two messages of the parsers.\<close>

definition scope_array :: "string \<Rightarrow> pyobj option \<Rightarrow> V1HttpResponse + string list" where
  "scope_array field v =
     (case v of
        Some (PList (x # xs)) \<Rightarrow>
          (case nonempty_strs (x # xs) of
             None \<Rightarrow> Inl (bad_request (field @ '' must contain only non-empty strings''))
           | Some ss \<Rightarrow> Inr ss)
      | _ \<Rightarrow> Inl (bad_request (field @ '' must be a non-empty array'')))"

fun parse_fields :: "string list \<Rightarrow> (string \<times> pyobj) list \<Rightarrow> V1HttpResponse + (string, string) dict" where
  "parse_fields [] body = Inr []"
| "parse_fields (f # fs) body =
     (case nonempty_str (dict_get body f) of
        None \<Rightarrow> Inl (bad_request (f @ '' must be a non-empty string''))
      | Some s \<Rightarrow>
          (case parse_fields fs body of Inl r \<Rightarrow> Inl r | Inr parsed \<Rightarrow> Inr ((f, s) # parsed)))"

definition parse_string_body ::
  "pyobj \<Rightarrow> string list \<Rightarrow> string list \<Rightarrow> V1HttpResponse + (string, string) dict" where
  "parse_string_body body required optional =
     (case body of
        PDict members \<Rightarrow>
          (case check_fields required optional members of
             Some r \<Rightarrow> Inl r
           | None \<Rightarrow>
               parse_fields (sort (required @ filter (\<lambda>f. f \<in> set (map fst members)) optional)) members)
      | _ \<Rightarrow> Inl (bad_request ''request body must be a JSON object''))"

abbreviation field :: "(string, string) dict \<Rightarrow> string \<Rightarrow> string" where
  "field parsed name \<equiv> the (dict_get parsed name)"

subsection \<open>Paths\<close>

definition removeprefix :: "string \<Rightarrow> string \<Rightarrow> string" where
  "removeprefix s p = (if startswith s p then drop (length p) s else s)"

subsection \<open>What the checks accept\<close>

text \<open>
  A body passes exactly when its fields are the required ones, possibly some of the optional
  ones, and every value is a non-empty string; the result then holds those values.
\<close>

lemma sort_eq_Nil [simp]: "sort xs = [] \<longleftrightarrow> xs = []"
  by (metis set_empty set_sort)

lemma missing_fields_Nil: "missing_fields required body = [] \<longleftrightarrow> set required \<subseteq> set (map fst body)"
  by (auto simp: missing_fields_def filter_empty_conv)

lemma extra_fields_Nil: "extra_fields allowed body = [] \<longleftrightarrow> set (map fst body) \<subseteq> set allowed"
  by (auto simp: extra_fields_def filter_empty_conv)

lemma check_fields_None:
  "check_fields required optional body = None \<longleftrightarrow>
     set required \<subseteq> set (map fst body) \<and> set (map fst body) \<subseteq> set required \<union> set optional"
proof -
  have "check_fields required optional body = None \<longleftrightarrow>
      missing_fields required body = [] \<and> extra_fields (required @ optional) body = []"
    by (auto simp: check_fields_def split: list.splits)
  then show ?thesis by (simp add: missing_fields_Nil extra_fields_Nil)
qed

lemma http_error_sel [simp]:
  "hr_status_code (http_error c e r) = c"
  "hr_body (http_error c e r) = [(''error'', JStr e), (''reason'', JStr r)]"
  by (simp_all add: http_error_def)

lemma error_response_sel [simp]:
  "hr_status_code (error_response c e r d) = c"
  by (simp add: error_response_def)

lemma check_fields_status: "check_fields required optional body = Some r \<Longrightarrow> hr_status_code r = 400"
  by (auto simp: check_fields_def split: list.splits)

lemma parse_fields_status: "parse_fields fs body = Inl r \<Longrightarrow> hr_status_code r = 400"
  by (induction fs) (auto split: option.splits sum.splits)

lemma parse_fields_get:
  "parse_fields fs body = Inr parsed \<Longrightarrow>
     dict_get parsed f = (if f \<in> set fs then nonempty_str (dict_get body f) else None)"
  by (induction fs arbitrary: parsed) (auto split: option.splits sum.splits)

lemma parse_string_body_status: "parse_string_body body required optional = Inl r \<Longrightarrow> hr_status_code r = 400"
  by (auto simp: parse_string_body_def check_fields_status dest: parse_fields_status
        split: pyobj.splits option.splits)

lemma parse_string_body_get:
  "parse_string_body (PDict members) required optional = Inr parsed \<Longrightarrow> f \<in> set required \<Longrightarrow>
     dict_get parsed f = nonempty_str (dict_get members f)"
  by (auto simp: parse_string_body_def parse_fields_get split: option.splits)

subsection \<open>Header lookup ignores case\<close>

lemma lower_char_idem [simp]: "lower_char (lower_char c) = lower_char c"
proof -
  have "of_char c < (256::nat)" by simp
  then show ?thesis by (auto simp: lower_char_def Let_def)
qed

lemma py_lower_idem [simp]: "py_lower (py_lower s) = py_lower s"
  by (induction s) (simp_all add: py_lower_def)

lemma normalized_headers_snoc:
  "normalized_headers (headers @ [(k, v)]) = dict_set (py_lower k) v (normalized_headers headers)"
  by (simp add: normalized_headers_def)

text \<open>A header is found under any spelling of its name, and the last one given wins.\<close>

lemma dict_get_normalized:
  "dict_get (normalized_headers headers) key = map_of (map (\<lambda>(k, v). (py_lower k, v)) (rev headers)) key"
proof (induction headers rule: rev_induct)
  case Nil
  show ?case by (simp add: normalized_headers_def)
next
  case (snoc kv headers)
  obtain k v where "kv = (k, v)" by force
  with snoc show ?case by (simp add: normalized_headers_snoc)
qed

end
