(* ===== verification/V1Http.thy ===== *)
theory V1Http
  imports Http
begin

section \<open>Handlers of the agent and enforcement-point routes\<close>

text \<open>
  \<^verbatim>\<open>src/vinctor_service/v1_http.py\<close>: enforce, observe, simulate, delegated enforce and token
  minting. Every handler resolves the caller's key first; a request without a valid key is
  recorded as an authentication failure of its surface and answered 401. The workspace and agent
  of the call come from the identity, never from the body, except for delegated enforce, where
  the body names the subject and the caller's own workspace travels as a separate argument.
\<close>

type_synonym http_result = "(exn + V1HttpResponse) \<times> InMemoryV1Service"

abbreviation respond :: "V1HttpResponse \<Rightarrow> InMemoryV1Service \<Rightarrow> http_result" where
  "respond r s \<equiv> (Inr r, s)"

definition DEFAULT_SUBJECT_TOKEN_TTL_SECONDS :: int where
  "DEFAULT_SUBJECT_TOKEN_TTL_SECONDS = 300"

definition DEFAULT_SUBJECT_TOKEN_MAX_TTL_SECONDS :: int where
  "DEFAULT_SUBJECT_TOKEN_MAX_TTL_SECONDS = 3600"

subsection \<open>Bodies of the responses\<close>

definition http_response_from_enforce :: "V1EnforceResponse \<Rightarrow> V1HttpResponse" where
  "http_response_from_enforce response =
     (case ers_decision response of
        Some Permit \<Rightarrow>
          \<lparr>hr_status_code = ers_status_code response,
           hr_body = [(''decision'', JStr ''permit''), (''audit_event_id'', json_opt (ers_audit_event_id response))]\<rparr>
      | Some Deny \<Rightarrow>
          \<lparr>hr_status_code = ers_status_code response,
           hr_body = [(''decision'', JStr ''deny''), (''error'', json_opt (ers_error response)),
                      (''reason'', json_opt (ers_reason response)),
                      (''audit_event_id'', json_opt (ers_audit_event_id response))]\<rparr>
      | None \<Rightarrow>
          http_error (ers_status_code response) (py_or (ers_error response) ''service_unavailable'')
            (py_or (ers_reason response) ''no decision was recorded''))"

definition http_response_from_observe :: "V1ObserveResponse \<Rightarrow> V1HttpResponse" where
  "http_response_from_observe response =
     (if ors_status_code response = 200
      then \<lparr>hr_status_code = 200,
            hr_body = [(''status'', JStr ''recorded''), (''audit_event_id'', json_opt (ors_audit_event_id response))]\<rparr>
      else http_error (ors_status_code response) (py_or (ors_error response) ''service_unavailable'')
             (py_or (ors_reason response) ''observation was not recorded''))"

definition decision_text :: "Decision \<Rightarrow> string" where
  "decision_text d = (case d of Permit \<Rightarrow> ''permit'' | Deny \<Rightarrow> ''deny'')"

definition http_response_from_simulate :: "V1SimulateResponse \<Rightarrow> V1HttpResponse" where
  "http_response_from_simulate response =
     (case srs_would_decision response of
        Some d \<Rightarrow>
          \<lparr>hr_status_code = srs_status_code response,
           hr_body = [(''status'', JStr ''simulated''), (''would_decision'', JStr (decision_text d)),
                      (''error'', json_opt (srs_error response)), (''reason'', json_opt (srs_reason response)),
                      (''audit_event_id'', json_opt (srs_audit_event_id response))]\<rparr>
      | None \<Rightarrow>
          http_error (srs_status_code response) (py_or (srs_error response) ''service_unavailable'')
            (py_or (srs_reason response) ''simulation was not recorded''))"

subsection \<open>Bodies of the requests\<close>

definition parse_enforce_body :: "pyobj \<Rightarrow> V1HttpResponse + (string, string) dict" where
  "parse_enforce_body body = parse_string_body body [''grant_ref'', ''action'', ''resource''] []"

definition parse_observe_body :: "pyobj \<Rightarrow> V1HttpResponse + (string, string) dict" where
  "parse_observe_body body =
     (case body of
        PDict members \<Rightarrow>
          (let classification = dict_get members ''classification''
           in if classification = Some (PStr ''mapped'')
              then parse_string_body body [''classification'', ''action'', ''resource''] [''outcome'']
              else if classification = Some (PStr ''unmapped'')
              then parse_string_body body [''classification''] [''outcome'']
              else Inl (bad_request ''classification must be mapped or unmapped''))
      | _ \<Rightarrow> Inl (bad_request ''request body must be a JSON object''))"

definition parse_delegated_enforce_body :: "pyobj \<Rightarrow> V1HttpResponse + (string, string) dict" where
  "parse_delegated_enforce_body body =
     parse_string_body body [''workspace_id'', ''agent_id'', ''grant_ref'', ''action'', ''resource''] []"

record ParsedTokenMintBody =
  tm_grant_ref :: string
  tm_audience :: string
  tm_ttl_seconds :: int
  tm_bound_action :: "string option"
  tm_bound_resource :: "string option"
  tm_pop :: bool

text \<open>\<^verbatim>\<open>value is not None and (not isinstance(value, str) or value == "")\<close>, on an optional member.\<close>

definition bad_optional_str :: "pyobj option \<Rightarrow> bool" where
  "bad_optional_str v \<longleftrightarrow> v \<noteq> None \<and> v \<noteq> Some PNone \<and> nonempty_str v = None"

definition parse_v1_token_mint_body :: "pyobj \<Rightarrow> int \<Rightarrow> V1HttpResponse + ParsedTokenMintBody" where
  "parse_v1_token_mint_body body max_ttl =
     (case body of
        PDict members \<Rightarrow>
          (case extra_fields [''grant_ref'', ''audience'', ''ttl_seconds'', ''action'', ''resource'', ''pop''] members of
             f # _ \<Rightarrow> Inl (bad_request (''unexpected field: '' @ f))
           | [] \<Rightarrow>
          (case nonempty_str (dict_get members ''grant_ref'') of
             None \<Rightarrow> Inl (bad_request ''grant_ref must be a non-empty string'')
           | Some grant_ref \<Rightarrow>
          (case nonempty_str (dict_get members ''audience'') of
             None \<Rightarrow> Inl (bad_request ''audience must be a non-empty string'')
           | Some audience \<Rightarrow>
          (let ttl = (case dict_get members ''ttl_seconds'' of
                        None \<Rightarrow> Some (PInt DEFAULT_SUBJECT_TOKEN_TTL_SECONDS) | Some v \<Rightarrow> Some v);
               bound_action = dict_get members ''action'';
               bound_resource = dict_get members ''resource'';
               pop = (case dict_get members ''pop'' of None \<Rightarrow> PBool False | Some v \<Rightarrow> v)
           in case positive_int ttl of
                None \<Rightarrow> Inl (bad_request ''ttl_seconds must be a positive integer'')
              | Some ttl_seconds \<Rightarrow>
                  if ttl_seconds > max_ttl
                  then Inl (bad_request (''ttl_seconds exceeds maximum '' @ py_str_int max_ttl))
                  else if bad_optional_str bound_action
                  then Inl (bad_request ''action must be a non-empty string'')
                  else if bad_optional_str bound_resource
                  then Inl (bad_request ''resource must be a non-empty string'')
                  else if (nonempty_str bound_action = None) \<noteq> (nonempty_str bound_resource = None)
                  then Inl (bad_request ''action and resource must be set together'')
                  else (case pop of
                          PBool b \<Rightarrow>
                            Inr \<lparr>tm_grant_ref = grant_ref, tm_audience = audience, tm_ttl_seconds = ttl_seconds,
                                 tm_bound_action = nonempty_str bound_action,
                                 tm_bound_resource = nonempty_str bound_resource, tm_pop = b\<rparr>
                        | _ \<Rightarrow> Inl (bad_request ''pop must be a boolean''))))))
      | _ \<Rightarrow> Inl (bad_request ''request body must be a JSON object''))"

subsection \<open>Handlers\<close>

definition handle_v1_enforce_http ::
  "(string, string) dict \<Rightarrow> pyobj \<Rightarrow> AgentIdentity identities \<Rightarrow> AgentIdentity resolver \<Rightarrow> instant \<Rightarrow> entropy
     \<Rightarrow> InMemoryV1Service \<Rightarrow> http_result" where
  "handle_v1_enforce_http headers body agent_identities agent_identity_resolver now rnd s =
     (case agent_identity headers agent_identities agent_identity_resolver now of
        None \<Rightarrow>
          respond (http_error 401 ''authentication_required'' ''valid X-Agent-Key header is required'')
            (sv_record_auth_failure ''enforce'' now rnd s)
      | Some identity \<Rightarrow>
          (case parse_enforce_body body of
             Inl r \<Rightarrow> respond r s
           | Inr parsed \<Rightarrow>
               (case sv_enforce
                       \<lparr>er_workspace_id = ai_workspace_id identity, er_agent_id = ai_agent_id identity,
                        er_grant_ref = field parsed ''grant_ref'', er_action = field parsed ''action'',
                        er_resource = field parsed ''resource'',
                        er_boundary_id = dict_get (normalized_headers headers) ''x-vinctor-boundary-id''\<rparr>
                       now rnd s of
                  (response, s') \<Rightarrow> respond (http_response_from_enforce response) s')))"

definition handle_v1_observe_http ::
  "(string, string) dict \<Rightarrow> pyobj \<Rightarrow> AgentIdentity identities \<Rightarrow> AgentIdentity resolver \<Rightarrow> instant \<Rightarrow> entropy
     \<Rightarrow> InMemoryV1Service \<Rightarrow> http_result" where
  "handle_v1_observe_http headers body agent_identities agent_identity_resolver now rnd s =
     (case agent_identity headers agent_identities agent_identity_resolver now of
        None \<Rightarrow>
          respond (http_error 401 ''authentication_required'' ''valid X-Agent-Key header is required'')
            (sv_record_auth_failure ''observe'' now rnd s)
      | Some identity \<Rightarrow>
          (case parse_observe_body body of
             Inl r \<Rightarrow> respond r s
           | Inr parsed \<Rightarrow>
               (case sv_observe
                       \<lparr>oq_workspace_id = ai_workspace_id identity, oq_agent_id = ai_agent_id identity,
                        oq_classification = field parsed ''classification'',
                        oq_action = dict_get parsed ''action'', oq_resource = dict_get parsed ''resource'',
                        oq_boundary_id = dict_get (normalized_headers headers) ''x-vinctor-boundary-id'',
                        oq_outcome = dict_get parsed ''outcome''\<rparr>
                       now rnd s of
                  (response, s') \<Rightarrow> respond (http_response_from_observe response) s')))"

definition handle_v1_simulate_http ::
  "(string, string) dict \<Rightarrow> pyobj \<Rightarrow> AgentIdentity identities \<Rightarrow> AgentIdentity resolver \<Rightarrow> instant \<Rightarrow> entropy
     \<Rightarrow> InMemoryV1Service \<Rightarrow> http_result" where
  "handle_v1_simulate_http headers body agent_identities agent_identity_resolver now rnd s =
     (case agent_identity headers agent_identities agent_identity_resolver now of
        None \<Rightarrow>
          respond (http_error 401 ''authentication_required'' ''valid X-Agent-Key header is required'')
            (sv_record_auth_failure ''simulate'' now rnd s)
      | Some identity \<Rightarrow>
          (case parse_enforce_body body of
             Inl r \<Rightarrow> respond r s
           | Inr parsed \<Rightarrow>
               (case sv_simulate
                       \<lparr>sq_workspace_id = ai_workspace_id identity, sq_agent_id = ai_agent_id identity,
                        sq_grant_ref = field parsed ''grant_ref'', sq_action = field parsed ''action'',
                        sq_resource = field parsed ''resource'',
                        sq_boundary_id = dict_get (normalized_headers headers) ''x-vinctor-boundary-id''\<rparr>
                       now rnd s of
                  (response, s') \<Rightarrow> respond (http_response_from_simulate response) s')))"

definition handle_v1_delegated_enforce_http ::
  "(string, string) dict \<Rightarrow> pyobj \<Rightarrow> PepIdentity identities \<Rightarrow> PepIdentity resolver \<Rightarrow> instant \<Rightarrow> int \<Rightarrow> entropy
     \<Rightarrow> InMemoryV1Service \<Rightarrow> http_result" where
  "handle_v1_delegated_enforce_http headers body pep_identities pep_identity_resolver now pop_skew_seconds rnd s =
     (case header_identity ''x-pep-key'' headers pep_identities pep_identity_resolver now of
        None \<Rightarrow>
          respond (http_error 401 ''authentication_required'' ''valid X-PEP-Key header is required'')
            (sv_record_auth_failure ''delegated'' now rnd s)
      | Some identity \<Rightarrow>
          (case parse_delegated_enforce_body body of
             Inl r \<Rightarrow> respond r s
           | Inr parsed \<Rightarrow>
               (case sv_delegated_enforce
                       \<lparr>dq_pep_id = pe_pep_id identity, dq_workspace_id = field parsed ''workspace_id'',
                        dq_agent_id = field parsed ''agent_id'', dq_grant_ref = field parsed ''grant_ref'',
                        dq_action = field parsed ''action'', dq_resource = field parsed ''resource'',
                        dq_boundary_id = dict_get (normalized_headers headers) ''x-vinctor-boundary-id'',
                        dq_subject_token = dict_get (normalized_headers headers) ''x-subject-token'',
                        dq_subject_token_proof = dict_get (normalized_headers headers) ''x-subject-token-proof''\<rparr>
                       now (Some (pe_workspace_id identity)) pop_skew_seconds rnd s of
                  (response, s') \<Rightarrow> respond (http_response_from_enforce response) s')))"

text \<open>\<open>mint_v1_token_http_result\<close> returns the response and the authoritative result it rests on.\<close>

definition mint_v1_token_http_result ::
  "ParsedTokenMintBody \<Rightarrow> AgentIdentity \<Rightarrow> instant \<Rightarrow> entropy \<Rightarrow> InMemoryV1Service
     \<Rightarrow> (exn + V1HttpResponse \<times> SubjectTokenMintResult) \<times> InMemoryV1Service" where
  "mint_v1_token_http_result parsed identity now rnd s =
     (case sv_mint_subject_token
             \<lparr>mi_workspace_id = ai_workspace_id identity, mi_agent_id = ai_agent_id identity,
              mi_grant_ref = tm_grant_ref parsed, mi_audience = tm_audience parsed,
              mi_ttl_seconds = tm_ttl_seconds parsed, mi_now = now,
              mi_bound_action = tm_bound_action parsed, mi_bound_resource = tm_bound_resource parsed,
              mi_pop = tm_pop parsed\<rparr> rnd s of
        (Inl e, s') \<Rightarrow> (Inl e, s')
      | (Inr result, s') \<Rightarrow>
          if mr_status result \<noteq> ''minted''
          then (Inr (http_error 403 ''forbidden'' ''subject token could not be issued'', result), s')
          else (case (mr_token result, mr_token_id result, mr_expires_at result) of
                  (Some token, Some token_id, Some expires_at) \<Rightarrow>
                    (Inr (\<lparr>hr_status_code = 201,
                           hr_body = [(''token'', JStr token), (''token_id'', JStr token_id),
                                      (''expires_at'', JStr (isoformat expires_at))] @
                                     (case mr_pop_secret result of
                                        None \<Rightarrow> [] | Some secret \<Rightarrow> [(''pop_secret'', JStr secret)])\<rparr>, result), s')
                | _ \<Rightarrow> (Inl (OtherException ''AssertionError''), s')))"

definition handle_v1_tokens_http ::
  "(string, string) dict \<Rightarrow> pyobj \<Rightarrow> AgentIdentity identities \<Rightarrow> AgentIdentity resolver \<Rightarrow> instant \<Rightarrow> int \<Rightarrow> entropy
     \<Rightarrow> InMemoryV1Service \<Rightarrow> http_result" where
  "handle_v1_tokens_http headers body agent_identities agent_identity_resolver now max_ttl rnd s =
     (case agent_identity headers agent_identities agent_identity_resolver now of
        None \<Rightarrow>
          respond (http_error 401 ''authentication_required'' ''valid X-Agent-Key header is required'')
            (sv_record_auth_failure ''tokens'' now rnd s)
      | Some identity \<Rightarrow>
          (case parse_v1_token_mint_body body max_ttl of
             Inl r \<Rightarrow> respond r s
           | Inr parsed \<Rightarrow>
               (case mint_v1_token_http_result parsed identity now rnd s of
                  (r, s') \<Rightarrow> (map_sum id fst r, s'))))"

end
