(* ===== verification/AdminHttp.thy ===== *)
theory AdminHttp
  imports V1Http
begin

section \<open>Handlers of the workspace routes\<close>

text \<open>
  \<^verbatim>\<open>src/vinctor_service/boundary_http.py\<close>, \<^verbatim>\<open>grant_http.py\<close>, \<^verbatim>\<open>grant_http_responses.py\<close>,
  \<^verbatim>\<open>grant_issue_http.py\<close> and \<^verbatim>\<open>auto_approval_http.py\<close>: boundaries, grants and auto-approval rules,
  administered with a workspace key. Every call is made for the workspace of that key.

  The parsed query of a listing is \<open>params\<close>, what \<^verbatim>\<open>parse_qs(query_string, keep_blank_values=True)\<close>
  returns; \<open>order\<close> is the order in which Python iterates over the set of allowed names, which is
  not fixed, so the handlers take it as a parameter.
\<close>

type_synonym query_params = "(string, string list) dict"

definition workspace_required :: V1HttpResponse where
  "workspace_required = http_error 401 ''authentication_required'' ''valid X-Workspace-Key header is required''"

definition route_not_found :: V1HttpResponse where
  "route_not_found = http_error 404 ''not_found'' ''route not found''"

subsection \<open>Query parameters\<close>

definition extra_params :: "string list \<Rightarrow> query_params \<Rightarrow> string list" where
  "extra_params allowed params = sort (filter (\<lambda>f. f \<notin> set allowed) (map fst params))"

fun single_values :: "string list \<Rightarrow> query_params \<Rightarrow> V1HttpResponse + (string, string option) dict" where
  "single_values [] params = Inr []"
| "single_values (key # keys) params =
     (case dict_get params key of
        None \<Rightarrow>
          (case single_values keys params of Inl r \<Rightarrow> Inl r | Inr vals \<Rightarrow> Inr ((key, None) # vals))
      | Some parsed \<Rightarrow>
          if length parsed \<noteq> 1 \<or> hd parsed = []
          then Inl (bad_request (key @ '' must be a single non-empty value''))
          else (case single_values keys params of
                  Inl r \<Rightarrow> Inl r | Inr vals \<Rightarrow> Inr ((key, Some (hd parsed)) # vals)))"

abbreviation param :: "(string, string option) dict \<Rightarrow> string \<Rightarrow> string option" where
  "param vals key \<equiv> the (dict_get vals key)"

lemma single_values_get:
  "single_values keys params = Inr vals \<Longrightarrow> key \<in> set keys \<Longrightarrow>
     dict_get vals key = Some (map_option hd (dict_get params key))"
  by (induction keys arbitrary: vals) (auto split: option.splits sum.splits if_splits)

subsection \<open>Boundaries\<close>

record ParsedBoundaryCreateBody =
  pb_name :: string
  pb_runtime :: string
  pb_boundary_type :: string
  pb_mode :: string

definition parse_v1_boundary_create_body :: "pyobj \<Rightarrow> V1HttpResponse + ParsedBoundaryCreateBody" where
  "parse_v1_boundary_create_body body =
     (case parse_string_body body [''name'', ''runtime'', ''boundary_type'', ''mode''] [] of
        Inl r \<Rightarrow> Inl r
      | Inr parsed \<Rightarrow>
          if field parsed ''mode'' \<noteq> ''fail_closed''
          then Inl (bad_request ''boundary mode must be fail_closed'')
          else Inr \<lparr>pb_name = field parsed ''name'', pb_runtime = field parsed ''runtime'',
                    pb_boundary_type = field parsed ''boundary_type'', pb_mode = ''fail_closed''\<rparr>)"

definition boundary_body :: "Boundary \<Rightarrow> json_object" where
  "boundary_body b =
     [(''boundary_id'', JStr (b_boundary_id b)), (''name'', JStr (b_name b)), (''runtime'', JStr (b_runtime b)),
      (''boundary_type'', JStr (b_boundary_type b)), (''mode'', JStr (b_mode b)), (''status'', JStr (b_status b))]"

definition create_v1_boundary_response ::
  "ParsedBoundaryCreateBody \<Rightarrow> WorkspaceIdentity \<Rightarrow> instant \<Rightarrow> instant \<Rightarrow> entropy \<Rightarrow> InMemoryV1Service
     \<Rightarrow> http_result" where
  "create_v1_boundary_response parsed identity now wall rnd s =
     (case sv_register_boundary
             \<lparr>bri_workspace_id = wi_workspace_id identity, bri_name = pb_name parsed,
              bri_runtime = pb_runtime parsed, bri_boundary_type = pb_boundary_type parsed,
              bri_mode = pb_mode parsed, bri_status = ''active''\<rparr> (Some now) None wall rnd s of
        (Inl (ValueError message), s') \<Rightarrow> respond (bad_request message) s'
      | (Inl e, s') \<Rightarrow> (Inl e, s')
      | (Inr boundary, s') \<Rightarrow> respond \<lparr>hr_status_code = 201, hr_body = boundary_body boundary\<rparr> s')"

definition set_boundary_status ::
  "string \<Rightarrow> string \<Rightarrow> string \<Rightarrow> instant \<Rightarrow> instant \<Rightarrow> InMemoryV1Service \<Rightarrow> http_result" where
  "set_boundary_status boundary_id workspace_id action now wall s =
     (case (if action = ''disable''
            then sv_disable_boundary boundary_id workspace_id (Some now) wall s
            else sv_enable_boundary boundary_id workspace_id (Some now) wall s) of
        (None, s') \<Rightarrow> respond (http_error 404 ''boundary_not_found'' ''boundary was not found'') s'
      | (Some boundary, s') \<Rightarrow> respond \<lparr>hr_status_code = 200, hr_body = boundary_body boundary\<rparr> s')"

definition handle_v1_boundaries_http ::
  "string \<Rightarrow> string \<Rightarrow> (string, string) dict \<Rightarrow> pyobj \<Rightarrow> WorkspaceIdentity identities \<Rightarrow> WorkspaceIdentity resolver
     \<Rightarrow> instant \<Rightarrow> instant \<Rightarrow> entropy \<Rightarrow> InMemoryV1Service \<Rightarrow> http_result" where
  "handle_v1_boundaries_http verb path headers body workspace_identities workspace_identity_resolver now wall rnd s =
     (case workspace_identity headers workspace_identities workspace_identity_resolver now of
        None \<Rightarrow> respond workspace_required s
      | Some identity \<Rightarrow>
          if path = ''/v1/boundaries''
          then if verb = ''POST''
               then (case parse_v1_boundary_create_body body of
                       Inl r \<Rightarrow> respond r s
                     | Inr parsed \<Rightarrow> create_v1_boundary_response parsed identity now wall rnd s)
               else if verb = ''GET''
               then respond \<lparr>hr_status_code = 200,
                      hr_body = [(''boundaries'', JList (map (\<lambda>b. JObj (boundary_body b))
                                   (sv_list_boundaries (wi_workspace_id identity) s)))]\<rparr> s
               else respond (http_error 405 ''method_not_allowed'' ''GET or POST is required for /v1/boundaries'') s
          else if startswith path ''/v1/boundaries/''
          then (case split_on (CHR ''/'') (removeprefix path ''/v1/boundaries/'') of
                  [boundary_id] \<Rightarrow>
                    if boundary_id = [] then respond route_not_found s
                    else if verb \<noteq> ''GET''
                    then respond (http_error 405 ''method_not_allowed'' ''GET is required for /v1/boundaries/{id}'') s
                    else (case sv_get_boundary boundary_id (wi_workspace_id identity) s of
                            None \<Rightarrow> respond (http_error 404 ''boundary_not_found'' ''boundary was not found'') s
                          | Some boundary \<Rightarrow>
                              respond \<lparr>hr_status_code = 200, hr_body = boundary_body boundary\<rparr> s)
                | [boundary_id, action] \<Rightarrow>
                    if boundary_id \<noteq> [] \<and> action \<in> {''disable'', ''enable''}
                    then if verb \<noteq> ''POST''
                         then respond (http_error 405 ''method_not_allowed''
                                (''POST is required for /v1/boundaries/{id}/'' @ action)) s
                         else set_boundary_status boundary_id (wi_workspace_id identity) action now wall s
                    else respond route_not_found s
                | _ \<Rightarrow> respond route_not_found s)
          else respond route_not_found s)"

subsection \<open>Grants\<close>

definition grant_body :: "Grant \<Rightarrow> json_object" where
  "grant_body g =
     [(''grant_id'', JStr (g_grant_id g)), (''grant_ref'', JStr (g_grant_ref g)),
      (''workspace_id'', JStr (g_workspace_id g)), (''agent_id'', JStr (g_agent_id g)),
      (''scopes'', json_strings (g_scopes g)), (''status'', JStr (g_status g)),
      (''expires_at'', json_time (g_expires_at g))]"

definition BAD_GRANT_REQUEST_REASONS :: "string list" where
  "BAD_GRANT_REQUEST_REASONS =
     [''invalid_workspace_id'', ''invalid_agent_id'', ''invalid_ttl'', ''ttl_exceeds_max'',
      ''missing_requested_scopes'', ''invalid_requested_scope'', ''invalid_issuable_scope_bound'',
      ''duplicate_grant_ref'']"

record ParsedGrantIssueBody =
  pg_agent_id :: string
  pg_scopes :: "string list"
  pg_ttl_seconds :: int

definition parse_v1_grant_issue_body :: "pyobj \<Rightarrow> V1HttpResponse + ParsedGrantIssueBody" where
  "parse_v1_grant_issue_body body =
     (case body of
        PDict members \<Rightarrow>
          (case check_fields [''agent_id'', ''scopes'', ''ttl_seconds''] [] members of
             Some r \<Rightarrow> Inl r
           | None \<Rightarrow>
          (case nonempty_str (dict_get members ''agent_id'') of
             None \<Rightarrow> Inl (bad_request ''agent_id must be a non-empty string'')
           | Some agent_id \<Rightarrow>
          (case scope_array ''scopes'' (dict_get members ''scopes'') of
             Inl r \<Rightarrow> Inl r
           | Inr scopes \<Rightarrow>
          (case positive_int (dict_get members ''ttl_seconds'') of
             None \<Rightarrow> Inl (bad_request ''ttl_seconds must be a positive integer'')
           | Some ttl_seconds \<Rightarrow>
               Inr \<lparr>pg_agent_id = agent_id, pg_scopes = scopes, pg_ttl_seconds = ttl_seconds\<rparr>))))
      | _ \<Rightarrow> Inl (bad_request ''request body must be a JSON object''))"

definition issue_v1_grant_response ::
  "ParsedGrantIssueBody \<Rightarrow> WorkspaceIdentity \<Rightarrow> instant \<Rightarrow> entropy \<Rightarrow> InMemoryV1Service \<Rightarrow> http_result" where
  "issue_v1_grant_response parsed identity now rnd s =
     (case sv_issue_grant
             \<lparr>giq_workspace_id = wi_workspace_id identity, giq_target_agent_id = pg_agent_id parsed,
              giq_requested_scopes = pg_scopes parsed, giq_ttl_seconds = pg_ttl_seconds parsed,
              giq_grant_id = None, giq_grant_ref = None\<rparr> now rnd s of
        (Inl e, s') \<Rightarrow> (Inl e, s')
      | (Inr result, s') \<Rightarrow>
          if gir_status result = ''rejected''
          then respond (error_response
                 (if gir_reason result \<in> set BAD_GRANT_REQUEST_REASONS then 400 else 403)
                 (gir_reason result) (gir_reason result) (gir_detail result)) s'
          else (case gir_grant result of
                  None \<Rightarrow> respond (error_response 503 ''service_unavailable'' ''grant issuance failed'' None) s'
                | Some grant \<Rightarrow>
                    respond \<lparr>hr_status_code = 201,
                             hr_body = dict_merge (grant_body grant)
                                         [(''audit_event_id'', json_opt (gir_audit_event_id result))]\<rparr> s'))"

record ParsedGrantListFilters =
  lf_agent_id :: "string option"
  lf_status :: "string option"

definition parse_list_filters :: "string list \<Rightarrow> query_params \<Rightarrow> V1HttpResponse + ParsedGrantListFilters" where
  "parse_list_filters order params =
     (case extra_params [''agent_id'', ''status''] params of
        f # _ \<Rightarrow> Inl (bad_request (''unexpected query parameter: '' @ f))
      | [] \<Rightarrow>
          (case single_values order params of
             Inl r \<Rightarrow> Inl r
           | Inr vals \<Rightarrow> Inr \<lparr>lf_agent_id = param vals ''agent_id'', lf_status = param vals ''status''\<rparr>))"

definition handle_v1_grants_http ::
  "string list \<Rightarrow> string \<Rightarrow> string \<Rightarrow> (string, string) dict \<Rightarrow> pyobj \<Rightarrow> query_params \<Rightarrow> WorkspaceIdentity identities
     \<Rightarrow> WorkspaceIdentity resolver \<Rightarrow> instant \<Rightarrow> entropy \<Rightarrow> InMemoryV1Service \<Rightarrow> http_result" where
  "handle_v1_grants_http order verb path headers body params workspace_identities workspace_identity_resolver now rnd s =
     (case workspace_identity headers workspace_identities workspace_identity_resolver now of
        None \<Rightarrow> respond workspace_required s
      | Some identity \<Rightarrow>
          if path = ''/v1/grants''
          then if verb = ''GET''
               then (case parse_list_filters order params of
                       Inl r \<Rightarrow> respond r s
                     | Inr filters \<Rightarrow>
                         respond \<lparr>hr_status_code = 200,
                           hr_body = [(''grants'', JList (map (\<lambda>g. JObj (grant_body g))
                             (sv_list_grants (wi_workspace_id identity) (lf_agent_id filters) (lf_status filters) s)))]\<rparr> s)
               else if verb \<noteq> ''POST''
               then respond (http_error 405 ''method_not_allowed'' ''GET or POST is required for /v1/grants'') s
               else (case parse_v1_grant_issue_body body of
                       Inl r \<Rightarrow> respond r s
                     | Inr parsed \<Rightarrow> issue_v1_grant_response parsed identity now rnd s)
          else if startswith path ''/v1/grants/''
          then (case split_on (CHR ''/'') (removeprefix path ''/v1/grants/'') of
                  [grant_ref] \<Rightarrow>
                    if grant_ref = [] then respond route_not_found s
                    else if verb \<noteq> ''GET''
                    then respond (http_error 405 ''method_not_allowed'' ''GET is required for /v1/grants/{grant_ref}'') s
                    else (case sv_lookup_grant grant_ref (wi_workspace_id identity) s of
                            None \<Rightarrow> respond (http_error 404 ''grant_not_found'' ''grant was not found'') s
                          | Some grant \<Rightarrow> respond \<lparr>hr_status_code = 200, hr_body = grant_body grant\<rparr> s)
                | [grant_ref, action] \<Rightarrow>
                    if grant_ref \<noteq> [] \<and> action = ''revoke''
                    then if verb \<noteq> ''POST''
                         then respond (http_error 405 ''method_not_allowed''
                                ''POST is required for /v1/grants/{grant_ref}/revoke'') s
                         else (case sv_revoke_grant grant_ref (wi_workspace_id identity) now rnd s of
                                 (Inl e, s') \<Rightarrow> (Inl e, s')
                               | (Inr None, s') \<Rightarrow>
                                   respond (http_error 404 ''grant_not_found'' ''grant was not found'') s'
                               | (Inr (Some (grant, audit_event_id)), s') \<Rightarrow>
                                   respond \<lparr>hr_status_code = 200,
                                     hr_body = dict_merge (grant_body grant)
                                                 [(''audit_event_id'', JStr audit_event_id)]\<rparr> s')
                    else respond route_not_found s
                | _ \<Rightarrow> respond route_not_found s)
          else respond route_not_found s)"

subsection \<open>Auto-approval rules\<close>

record ParsedCreateRuleBody =
  pcr_name :: string
  pcr_target_agent_id :: string
  pcr_allowed_scopes :: "string list"
  pcr_max_ttl_seconds :: int

definition parse_v1_auto_approval_rule_create_body :: "pyobj \<Rightarrow> V1HttpResponse + ParsedCreateRuleBody" where
  "parse_v1_auto_approval_rule_create_body body =
     (case body of
        PDict members \<Rightarrow>
          (case check_fields [''name'', ''target_agent_id'', ''allowed_scopes'', ''max_ttl_seconds''] [] members of
             Some r \<Rightarrow> Inl r
           | None \<Rightarrow>
          (case nonempty_str (dict_get members ''name'') of
             None \<Rightarrow> Inl (bad_request ''name must be a non-empty string'')
           | Some name \<Rightarrow>
          (case nonempty_str (dict_get members ''target_agent_id'') of
             None \<Rightarrow> Inl (bad_request ''target_agent_id must be a non-empty string'')
           | Some target_agent_id \<Rightarrow>
          (case scope_array ''allowed_scopes'' (dict_get members ''allowed_scopes'') of
             Inl r \<Rightarrow> Inl r
           | Inr allowed_scopes \<Rightarrow>
          (case positive_int (dict_get members ''max_ttl_seconds'') of
             None \<Rightarrow> Inl (bad_request ''max_ttl_seconds must be a positive integer'')
           | Some max_ttl_seconds \<Rightarrow>
               Inr \<lparr>pcr_name = name, pcr_target_agent_id = target_agent_id, pcr_allowed_scopes = allowed_scopes,
                    pcr_max_ttl_seconds = max_ttl_seconds\<rparr>)))))
      | _ \<Rightarrow> Inl (bad_request ''request body must be a JSON object''))"

definition rule_body :: "AutoApprovalRule \<Rightarrow> json_object" where
  "rule_body rule =
     [(''rule_id'', JStr (aar_rule_id rule)), (''workspace_id'', JStr (aar_workspace_id rule)),
      (''name'', JStr (aar_name rule)), (''target_agent_id'', JStr (aar_target_agent_id rule)),
      (''allowed_scopes'', json_strings (aar_allowed_scopes rule)),
      (''max_ttl_seconds'', JInt (aar_max_ttl_seconds rule)), (''status'', JStr (aar_status rule)),
      (''created_by'', JStr (aar_created_by rule)), (''created_at'', JStr (isoformat (aar_created_at rule))),
      (''updated_by'', json_opt (aar_updated_by rule)), (''updated_at'', json_time (aar_updated_at rule))]"

abbreviation workspace_principal :: "WorkspaceIdentity \<Rightarrow> string" where
  "workspace_principal identity \<equiv> ''workspace:'' @ wi_workspace_id identity"

definition create_v1_auto_approval_rule_response ::
  "ParsedCreateRuleBody \<Rightarrow> WorkspaceIdentity \<Rightarrow> instant \<Rightarrow> entropy \<Rightarrow> InMemoryV1Service \<Rightarrow> http_result" where
  "create_v1_auto_approval_rule_response parsed identity now rnd s =
     (case sv_create_auto_approval_rule
             \<lparr>aar_rule_id = ''apr_'' @ rnd 0, aar_workspace_id = wi_workspace_id identity,
              aar_name = pcr_name parsed, aar_target_agent_id = pcr_target_agent_id parsed,
              aar_allowed_scopes = pcr_allowed_scopes parsed, aar_max_ttl_seconds = pcr_max_ttl_seconds parsed,
              aar_status = ''active'', aar_created_by = workspace_principal identity, aar_created_at = now,
              aar_updated_by = None, aar_updated_at = None\<rparr> s of
        (Inl (ValueError message), s') \<Rightarrow> respond (bad_request message) s'
      | (Inl e, s') \<Rightarrow> (Inl e, s')
      | (Inr rule, s') \<Rightarrow> respond \<lparr>hr_status_code = 201, hr_body = rule_body rule\<rparr> s')"

definition handle_v1_auto_approval_rules_http ::
  "string \<Rightarrow> string \<Rightarrow> (string, string) dict \<Rightarrow> pyobj \<Rightarrow> WorkspaceIdentity identities \<Rightarrow> WorkspaceIdentity resolver
     \<Rightarrow> instant \<Rightarrow> entropy \<Rightarrow> InMemoryV1Service \<Rightarrow> http_result" where
  "handle_v1_auto_approval_rules_http verb path headers body workspace_identities workspace_identity_resolver now rnd s =
     (case workspace_identity headers workspace_identities workspace_identity_resolver now of
        None \<Rightarrow> respond workspace_required s
      | Some identity \<Rightarrow>
          if path = ''/v1/auto-approval-rules''
          then if verb = ''POST''
               then (case parse_v1_auto_approval_rule_create_body body of
                       Inl r \<Rightarrow> respond r s
                     | Inr parsed \<Rightarrow> create_v1_auto_approval_rule_response parsed identity now rnd s)
               else if verb = ''GET''
               then respond \<lparr>hr_status_code = 200,
                      hr_body = [(''auto_approval_rules'', JList (map (\<lambda>rule. JObj (rule_body rule))
                                   (sv_list_auto_approval_rules (wi_workspace_id identity) s)))]\<rparr> s
               else respond (http_error 405 ''method_not_allowed''
                      ''GET or POST is required for /v1/auto-approval-rules'') s
          else if startswith path ''/v1/auto-approval-rules/''
          then (case split_on (CHR ''/'') (removeprefix path ''/v1/auto-approval-rules/'') of
                  [rule_id, action] \<Rightarrow>
                    if rule_id \<noteq> [] \<and> action = ''disable''
                    then if verb \<noteq> ''POST''
                         then respond (http_error 405 ''method_not_allowed''
                                ''POST is required for /v1/auto-approval-rules/{rule_id}/disable'') s
                         else (case sv_disable_auto_approval_rule rule_id (wi_workspace_id identity)
                                      (workspace_principal identity) now s of
                                 (Inl e, s') \<Rightarrow> (Inl e, s')
                               | (Inr None, s') \<Rightarrow>
                                   respond (http_error 404 ''auto_approval_rule_not_found''
                                     ''auto-approval rule was not found'') s'
                               | (Inr (Some rule), s') \<Rightarrow>
                                   respond \<lparr>hr_status_code = 200, hr_body = rule_body rule\<rparr> s')
                    else respond route_not_found s
                | _ \<Rightarrow> respond route_not_found s)
          else respond route_not_found s)"

end
