(* ===== verification/RequestHttp.thy ===== *)
theory RequestHttp
  imports AdminHttp
begin

section \<open>Handlers of the grant-request routes\<close>

text \<open>
  \<^verbatim>\<open>src/vinctor_service/grant_request_http.py\<close>: an agent asks for a grant with its agent key; the
  workspace lists, approves, rejects and auto-approves requests with its workspace key; an agent
  may look at a request it made or that is for it. \<open>order\<close> is the order in which Python iterates
  over the set of optional fields.
\<close>

subsection \<open>Bodies of the requests\<close>

record ParsedCreateRequestBody =
  pq_scopes :: "string list"
  pq_ttl_seconds :: int
  pq_reason :: string
  pq_task_id :: "string option"
  pq_session_id :: "string option"
  pq_boundary_id :: "string option"
  pq_requester_runtime :: "string option"
  pq_repo :: "string option"
  pq_worktree :: "string option"

definition optional_body_string :: "(string \<times> pyobj) list \<Rightarrow> string \<Rightarrow> V1HttpResponse + string option" where
  "optional_body_string body field_name =
     (if bad_optional_str (dict_get body field_name)
      then Inl (bad_request (field_name @ '' must be a non-empty string when provided''))
      else Inr (nonempty_str (dict_get body field_name)))"

fun optional_strings ::
  "string list \<Rightarrow> (string \<times> pyobj) list \<Rightarrow> V1HttpResponse + (string, string option) dict" where
  "optional_strings [] body = Inr []"
| "optional_strings (f # fs) body =
     (case optional_body_string body f of
        Inl r \<Rightarrow> Inl r
      | Inr v \<Rightarrow> (case optional_strings fs body of Inl r \<Rightarrow> Inl r | Inr metadata \<Rightarrow> Inr ((f, v) # metadata)))"

definition REQUEST_OPTIONAL_FIELDS :: "string list" where
  "REQUEST_OPTIONAL_FIELDS =
     [''task_id'', ''session_id'', ''boundary_id'', ''requester_runtime'', ''repo'', ''worktree'']"

definition parse_create_body :: "string list \<Rightarrow> pyobj \<Rightarrow> V1HttpResponse + ParsedCreateRequestBody" where
  "parse_create_body order body =
     (case body of
        PDict members \<Rightarrow>
          (case check_fields [''scopes'', ''ttl_seconds'', ''reason''] REQUEST_OPTIONAL_FIELDS members of
             Some r \<Rightarrow> Inl r
           | None \<Rightarrow>
          (case scope_array ''scopes'' (dict_get members ''scopes'') of
             Inl r \<Rightarrow> Inl r
           | Inr scopes \<Rightarrow>
          (case positive_int (dict_get members ''ttl_seconds'') of
             None \<Rightarrow> Inl (bad_request ''ttl_seconds must be a positive integer'')
           | Some ttl_seconds \<Rightarrow>
          (case nonempty_str (dict_get members ''reason'') of
             None \<Rightarrow> Inl (bad_request ''reason must be a non-empty string'')
           | Some reason \<Rightarrow>
          (case optional_strings order members of
             Inl r \<Rightarrow> Inl r
           | Inr metadata \<Rightarrow>
               Inr \<lparr>pq_scopes = scopes, pq_ttl_seconds = ttl_seconds, pq_reason = reason,
                    pq_task_id = param metadata ''task_id'', pq_session_id = param metadata ''session_id'',
                    pq_boundary_id = param metadata ''boundary_id'',
                    pq_requester_runtime = param metadata ''requester_runtime'',
                    pq_repo = param metadata ''repo'', pq_worktree = param metadata ''worktree''\<rparr>)))))
      | _ \<Rightarrow> Inl (bad_request ''request body must be a JSON object''))"

definition parse_v1_grant_request_decision_body :: "pyobj \<Rightarrow> V1HttpResponse + string option" where
  "parse_v1_grant_request_decision_body body =
     (case body of
        PNone \<Rightarrow> Inr None
      | PDict members \<Rightarrow>
          (case extra_fields [''decision_reason''] members of
             f # _ \<Rightarrow> Inl (bad_request (''unexpected field: '' @ f))
           | [] \<Rightarrow> optional_body_string members ''decision_reason'')
      | _ \<Rightarrow> Inl (bad_request ''request body must be a JSON object''))"

definition parse_v1_grant_request_auto_approve_body :: "pyobj \<Rightarrow> V1HttpResponse + unit" where
  "parse_v1_grant_request_auto_approve_body body =
     (if body \<noteq> PNone then Inl (bad_request ''auto-approve request body must be empty'') else Inr ())"

subsection \<open>Bodies of the responses\<close>

definition grant_request_body :: "GrantRequest \<Rightarrow> json_object" where
  "grant_request_body q =
     [(''request_id'', JStr (gr_request_id q)), (''workspace_id'', JStr (gr_workspace_id q)),
      (''requester_agent_id'', JStr (gr_requester_agent_id q)), (''target_agent_id'', JStr (gr_target_agent_id q)),
      (''requested_scopes'', json_strings (gr_requested_scopes q)),
      (''requested_ttl_seconds'', JInt (gr_requested_ttl_seconds q)), (''reason'', JStr (gr_reason q)),
      (''status'', JStr (gr_status q)), (''created_at'', JStr (isoformat (gr_created_at q))),
      (''decided_at'', json_time (gr_decided_at q)), (''decided_by'', json_opt (gr_decided_by q)),
      (''decision_reason'', json_opt (gr_decision_reason q)), (''issued_grant_ref'', json_opt (gr_issued_grant_ref q)),
      (''task_id'', json_opt (gr_task_id q)), (''session_id'', json_opt (gr_session_id q)),
      (''boundary_id'', json_opt (gr_boundary_id q)), (''requester_runtime'', json_opt (gr_requester_runtime q)),
      (''repo'', json_opt (gr_repo q)), (''worktree'', json_opt (gr_worktree q))]"

text \<open>What an agent sees of a request: everything but who decided it.\<close>

definition agent_grant_request_body :: "GrantRequest \<Rightarrow> json_object" where
  "agent_grant_request_body q =
     [(''request_id'', JStr (gr_request_id q)), (''workspace_id'', JStr (gr_workspace_id q)),
      (''requester_agent_id'', JStr (gr_requester_agent_id q)), (''target_agent_id'', JStr (gr_target_agent_id q)),
      (''requested_scopes'', json_strings (gr_requested_scopes q)),
      (''requested_ttl_seconds'', JInt (gr_requested_ttl_seconds q)), (''reason'', JStr (gr_reason q)),
      (''status'', JStr (gr_status q)), (''created_at'', JStr (isoformat (gr_created_at q))),
      (''decided_at'', json_time (gr_decided_at q)),
      (''decision_reason'', json_opt (gr_decision_reason q)), (''issued_grant_ref'', json_opt (gr_issued_grant_ref q)),
      (''task_id'', json_opt (gr_task_id q)), (''session_id'', json_opt (gr_session_id q)),
      (''boundary_id'', json_opt (gr_boundary_id q)), (''requester_runtime'', json_opt (gr_requester_runtime q)),
      (''repo'', json_opt (gr_repo q)), (''worktree'', json_opt (gr_worktree q))]"

definition agent_can_view_request :: "AgentIdentity \<Rightarrow> GrantRequest \<Rightarrow> bool" where
  "agent_can_view_request identity request \<longleftrightarrow>
     gr_workspace_id request = ai_workspace_id identity \<and>
     ai_agent_id identity \<in> {gr_requester_agent_id request, gr_target_agent_id request}"

definition routing_hint :: "InMemoryV1Service \<Rightarrow> GrantRequest \<Rightarrow> string \<times> string" where
  "routing_hint s request =
     (if gr_status request \<noteq> ''pending'' then (''pending_review'', ''grant_request_not_pending'')
      else let evaluation = sv_evaluate_auto_approval request s
           in if aer_decision evaluation = ''would_approve''
              then (''auto_approval_available'', aer_reason evaluation)
              else (''manual_review_required'', aer_reason evaluation))"

definition routing_hint_body :: "InMemoryV1Service \<Rightarrow> GrantRequest \<Rightarrow> json_object" where
  "routing_hint_body s request =
     (case routing_hint s request of
        (hint, reason) \<Rightarrow> [(''routing_hint'', JStr hint), (''routing_reason'', JStr reason)])"

definition queue_reason :: "InMemoryV1Service \<Rightarrow> GrantRequest \<Rightarrow> string option" where
  "queue_reason s request =
     (if gr_status request = ''pending'' then Some (snd (routing_hint s request)) else gr_decision_reason request)"

definition workspace_grant_request_body :: "InMemoryV1Service \<Rightarrow> GrantRequest \<Rightarrow> json_object" where
  "workspace_grant_request_body s request =
     dict_merge (dict_merge (grant_request_body request) (routing_hint_body s request))
       [(''queue_reason'', json_opt (queue_reason s request))]"

definition ISSUABLE_BOUNDS_REASONS :: "string list" where
  "ISSUABLE_BOUNDS_REASONS =
     [''scope_outside_issuable_bounds'', ''ttl_exceeds_issuable_max'', ''issuable_bounds_not_found'']"

definition decision_failure_status :: "string \<Rightarrow> int" where
  "decision_failure_status reason =
     (if reason = ''grant_request_not_found'' then 404
      else if reason = ''grant_request_not_pending'' then 409
      else if reason \<in> set ISSUABLE_BOUNDS_REASONS then 403
      else if reason \<in> set BAD_GRANT_REQUEST_REASONS then 400
      else 403)"

subsection \<open>Operations\<close>

definition http_create_grant_request ::
  "string list \<Rightarrow> pyobj \<Rightarrow> AgentIdentity \<Rightarrow> instant \<Rightarrow> entropy \<Rightarrow> InMemoryV1Service \<Rightarrow> http_result" where
  "http_create_grant_request order body identity now rnd s =
     (case parse_create_body order body of
        Inl r \<Rightarrow> respond r s
      | Inr parsed \<Rightarrow>
          (case sv_create_grant_request
                  \<lparr>gcq_workspace_id = ai_workspace_id identity, gcq_requester_agent_id = ai_agent_id identity,
                   gcq_requested_scopes = pq_scopes parsed, gcq_requested_ttl_seconds = pq_ttl_seconds parsed,
                   gcq_reason = pq_reason parsed, gcq_target_agent_id = None, gcq_request_id = None,
                   gcq_task_id = pq_task_id parsed, gcq_session_id = pq_session_id parsed,
                   gcq_boundary_id = pq_boundary_id parsed, gcq_requester_runtime = pq_requester_runtime parsed,
                   gcq_repo = pq_repo parsed, gcq_worktree = pq_worktree parsed\<rparr> now rnd s of
             (Inl e, s') \<Rightarrow> (Inl e, s')
           | (Inr result, s') \<Rightarrow>
               if gcr_status result = ''rejected''
               then respond (http_error 400 (gcr_reason result) (gcr_reason result)) s'
               else (case gcr_request result of
                       None \<Rightarrow> respond (http_error 503 ''service_unavailable'' ''grant request creation failed'') s'
                     | Some request \<Rightarrow>
                         respond \<lparr>hr_status_code = 201,
                           hr_body = dict_merge (dict_merge (grant_request_body request) (routing_hint_body s' request))
                                       [(''audit_event_id'', json_opt (gcr_audit_event_id result))]\<rparr> s')))"

definition auto_approve_v1_grant_request_response ::
  "string \<Rightarrow> WorkspaceIdentity \<Rightarrow> instant \<Rightarrow> entropy \<Rightarrow> InMemoryV1Service \<Rightarrow> http_result" where
  "auto_approve_v1_grant_request_response request_id identity now rnd s =
     (case sv_auto_approve_grant_request request_id (wi_workspace_id identity) (workspace_principal identity) now rnd s of
        (Inl e, s') \<Rightarrow> (Inl e, s')
      | (Inr result, s') \<Rightarrow>
          if gdr_status result = ''failed''
          then if gdr_reason result \<in> {''no_matching_rule'', ''scope_outside_rule'', ''ttl_exceeds_rule''}
               then (case gdr_request result of
                       None \<Rightarrow> respond (http_error 503 ''service_unavailable'' ''auto-approval failed'') s'
                     | Some request \<Rightarrow>
                         respond \<lparr>hr_status_code = 200,
                           hr_body = dict_merge (dict_merge (grant_request_body request) (routing_hint_body s' request))
                                       [(''auto_approval'', JObj [(''decision'', JStr ''would_not_approve''),
                                                                 (''reason'', JStr (gdr_reason result))])]\<rparr> s')
               else respond (http_error (decision_failure_status (gdr_reason result))
                      (gdr_reason result) (gdr_reason result)) s'
          else (case gdr_request result of
                  None \<Rightarrow> respond (http_error 503 ''service_unavailable'' ''auto-approval failed'') s'
                | Some request \<Rightarrow>
                    respond \<lparr>hr_status_code = 200,
                      hr_body = dict_merge (grant_request_body request)
                        ([(''audit_event_id'', json_opt (gdr_audit_event_id result)),
                          (''auto_approval'', JObj [(''decision'', JStr ''approved''),
                                                    (''reason'', JStr (gdr_reason result)),
                                                    (''rule_id'', json_opt (gdr_auto_approval_rule_id result))])] @
                         (case gdr_grant result of
                            None \<Rightarrow> [] | Some grant \<Rightarrow> [(''grant'', JObj (grant_body grant))]))\<rparr> s'))"

definition decide_v1_grant_request_response ::
  "string \<Rightarrow> string \<Rightarrow> WorkspaceIdentity \<Rightarrow> string option \<Rightarrow> instant \<Rightarrow> entropy \<Rightarrow> InMemoryV1Service
     \<Rightarrow> http_result" where
  "decide_v1_grant_request_response request_id action identity decision_reason now rnd s =
     (case (if action = ''approve''
            then sv_approve_grant_request request_id (wi_workspace_id identity) (workspace_principal identity)
                   decision_reason now rnd s
            else sv_reject_grant_request request_id (wi_workspace_id identity) (workspace_principal identity)
                   decision_reason now rnd s) of
        (Inl e, s') \<Rightarrow> (Inl e, s')
      | (Inr result, s') \<Rightarrow>
          if gdr_status result = ''failed''
          then respond (http_error (decision_failure_status (gdr_reason result))
                 (gdr_reason result) (gdr_reason result)) s'
          else (case gdr_request result of
                  None \<Rightarrow> respond (http_error 503 ''service_unavailable'' ''grant request decision failed'') s'
                | Some request \<Rightarrow>
                    respond \<lparr>hr_status_code = 200,
                      hr_body = dict_merge (grant_request_body request)
                        ([(''audit_event_id'', json_opt (gdr_audit_event_id result))] @
                         (case gdr_grant result of
                            None \<Rightarrow> [] | Some grant \<Rightarrow> [(''grant'', JObj (grant_body grant))]))\<rparr> s'))"

subsection \<open>The handler\<close>

definition view_grant_request ::
  "string \<Rightarrow> WorkspaceIdentity option \<Rightarrow> AgentIdentity option \<Rightarrow> InMemoryV1Service \<Rightarrow> V1HttpResponse" where
  "view_grant_request request_id workspace agent s =
     (let not_found = http_error 404 ''grant_request_not_found'' ''grant request was not found'';
          workspace_id = (case workspace of
                            Some w \<Rightarrow> wi_workspace_id w
                          | None \<Rightarrow> (case agent of None \<Rightarrow> [] | Some a \<Rightarrow> ai_workspace_id a))
      in case sv_lookup_grant_request request_id workspace_id s of
           None \<Rightarrow> not_found
         | Some request \<Rightarrow>
             if workspace \<noteq> None
             then \<lparr>hr_status_code = 200, hr_body = workspace_grant_request_body s request\<rparr>
             else if (case agent of None \<Rightarrow> False | Some a \<Rightarrow> \<not> agent_can_view_request a request)
             then not_found
             else \<lparr>hr_status_code = 200, hr_body = agent_grant_request_body request\<rparr>)"

definition decide_grant_request ::
  "string \<Rightarrow> string \<Rightarrow> WorkspaceIdentity \<Rightarrow> pyobj \<Rightarrow> instant \<Rightarrow> entropy \<Rightarrow> InMemoryV1Service \<Rightarrow> http_result" where
  "decide_grant_request request_id action identity body now rnd s =
     (if action = ''auto-approve''
      then (case parse_v1_grant_request_auto_approve_body body of
              Inl r \<Rightarrow> respond r s
            | Inr _ \<Rightarrow> auto_approve_v1_grant_request_response request_id identity now rnd s)
      else (case parse_v1_grant_request_decision_body body of
              Inl r \<Rightarrow> respond r s
            | Inr decision_reason \<Rightarrow>
                decide_v1_grant_request_response request_id action identity decision_reason now rnd s))"

definition handle_v1_grant_requests_http ::
  "string list \<Rightarrow> string \<Rightarrow> string \<Rightarrow> (string, string) dict \<Rightarrow> pyobj \<Rightarrow> AgentIdentity identities
     \<Rightarrow> WorkspaceIdentity identities \<Rightarrow> AgentIdentity resolver \<Rightarrow> WorkspaceIdentity resolver \<Rightarrow> instant \<Rightarrow> entropy
     \<Rightarrow> InMemoryV1Service \<Rightarrow> http_result" where
  "handle_v1_grant_requests_http order verb path headers body agent_identities workspace_identities
       agent_identity_resolver workspace_identity_resolver now rnd s =
     (if path = ''/v1/grant-requests''
      then if verb = ''POST''
           then (case agent_identity headers agent_identities agent_identity_resolver now of
                   None \<Rightarrow>
                     respond (http_error 401 ''authentication_required'' ''valid X-Agent-Key header is required'') s
                 | Some identity \<Rightarrow> http_create_grant_request order body identity now rnd s)
           else (case workspace_identity headers workspace_identities workspace_identity_resolver now of
                   None \<Rightarrow> respond workspace_required s
                 | Some identity \<Rightarrow>
                     if verb = ''GET''
                     then respond \<lparr>hr_status_code = 200,
                            hr_body = [(''grant_requests'', JList (map (\<lambda>q. JObj (workspace_grant_request_body s q))
                                         (sv_list_grant_requests (wi_workspace_id identity) s)))]\<rparr> s
                     else respond (http_error 405 ''method_not_allowed''
                            ''GET or POST is required for /v1/grant-requests'') s)
      else if startswith path ''/v1/grant-requests/''
      then (let workspace = workspace_identity headers workspace_identities workspace_identity_resolver now;
                agent = (if workspace = None
                         then agent_identity headers agent_identities agent_identity_resolver now else None)
            in if workspace = None \<and> agent = None
               then respond (http_error 401 ''authentication_required''
                      ''valid X-Workspace-Key or X-Agent-Key header is required'') s
               else (case split_on (CHR ''/'') (removeprefix path ''/v1/grant-requests/'') of
                  [request_id] \<Rightarrow>
                    if request_id = [] then respond route_not_found s
                    else if verb \<noteq> ''GET''
                    then respond (http_error 405 ''method_not_allowed''
                           ''GET is required for /v1/grant-requests/{request_id}'') s
                    else respond (view_grant_request request_id workspace agent s) s
                | [request_id, action] \<Rightarrow>
                    if request_id \<noteq> [] \<and> action \<in> {''approve'', ''reject'', ''auto-approve''}
                    then (case workspace of
                            None \<Rightarrow> respond workspace_required s
                          | Some identity \<Rightarrow>
                              if verb \<noteq> ''POST''
                              then respond (http_error 405 ''method_not_allowed''
                                     (''POST is required for /v1/grant-requests/{request_id}/'' @ action)) s
                              else decide_grant_request request_id action identity body now rnd s)
                    else respond route_not_found s
                | _ \<Rightarrow> respond route_not_found s))
      else respond route_not_found s)"

end
