(* ===== verification/AuditHttp.thy ===== *)
theory AuditHttp
  imports RequestHttp
begin

section \<open>Handlers of the audit routes\<close>

text \<open>
  \<^verbatim>\<open>src/vinctor_service/audit_http.py\<close>: reading the audit log of a workspace with a workspace or
  an auditor key, and the service-wide authentication failures with an operator key. These
  handlers only read; they return no new state. The in-memory service has no
  \<^verbatim>\<open>list_auth_failures\<close>, so the second handler takes it as an argument.
\<close>

definition audit_event_body :: "AuditEvent \<Rightarrow> json_object" where
  "audit_event_body e =
     [(''event_id'', JStr (ae_event_id e)), (''event_type'', JStr (ae_event_type e)),
      (''decision'', JStr (decision_text (ae_decision e))), (''reason'', JStr (ae_reason e)),
      (''workspace_id'', JStr (ae_workspace_id e)), (''agent_id'', JStr (ae_agent_id e)),
      (''grant_id'', JStr (ae_grant_id e)), (''grant_ref'', JStr (ae_grant_ref e)),
      (''action'', JStr (ae_action e)), (''resource'', JStr (ae_resource e)),
      (''scope_attempted'', JStr (ae_scope_attempted e)), (''scope_matched'', json_opt (ae_scope_matched e)),
      (''boundary_id'', json_opt (ae_boundary_id e)), (''runtime'', json_opt (ae_runtime e)),
      (''boundary_type'', json_opt (ae_boundary_type e)), (''created_at'', JStr (isoformat (ae_created_at e))),
      (''enforcing_principal'', json_opt (ae_enforcing_principal e)), (''reason_code'', json_opt (ae_reason_code e)),
      (''occurrence_count'', case ae_occurrence_count e of None \<Rightarrow> JNull | Some n \<Rightarrow> JInt n),
      (''first_seen_at'', json_time (ae_first_seen_at e)), (''last_seen_at'', json_time (ae_last_seen_at e)),
      (''subject_token_verified'', JBool (ae_subject_token_verified e)), (''token_id'', json_opt (ae_token_id e)),
      (''event_class'', JStr (ae_event_class e))]"

subsection \<open>Filters\<close>

record AuditEventFilters =
  ef_filter :: audit_filter
  ef_paginate :: bool
  ef_snapshot_event_id :: "string option"
  ef_before_event_id :: "string option"
  ef_limit :: int

definition AUDIT_QUERY_FIELDS :: "string list" where
  "AUDIT_QUERY_FIELDS =
     [''agent_id'', ''event_class'', ''event_type'', ''grant_ref'', ''boundary_id'', ''request_id'', ''reason_code'',
      ''enforcing_principal'', ''subject_token_verified'', ''page'', ''snapshot_event_id'', ''before_event_id'',
      ''limit'']"

definition parse_limit :: "string option \<Rightarrow> V1HttpResponse + int" where
  "parse_limit raw =
     (case raw of
        None \<Rightarrow> Inr 20
      | Some raw \<Rightarrow>
          (case py_int raw of
             None \<Rightarrow> Inl (bad_request ''limit must be a positive integer'')
           | Some limit \<Rightarrow>
               if limit \<le> 0 \<or> limit > 100 then Inl (bad_request ''limit must be between 1 and 100'')
               else Inr limit))"

definition parse_cursors ::
  "string option \<Rightarrow> string option \<Rightarrow> string option \<Rightarrow> V1HttpResponse + bool" where
  "parse_cursors page snapshot_event_id before_event_id =
     (let paginate = (page = Some ''true'')
      in if page \<noteq> None \<and> \<not> paginate then Inl (bad_request ''page must be true'')
         else if \<not> paginate \<and> (snapshot_event_id \<noteq> None \<or> before_event_id \<noteq> None)
         then Inl (bad_request ''snapshot_event_id and before_event_id require page=true'')
         else if before_event_id \<noteq> None \<and> snapshot_event_id = None
         then Inl (bad_request ''invalid cursor'')
         else Inr paginate)"

definition parse_verified :: "string option \<Rightarrow> V1HttpResponse + bool option" where
  "parse_verified raw =
     (case raw of
        None \<Rightarrow> Inr None
      | Some raw \<Rightarrow>
          (let normalized = py_lower (py_strip raw)
           in if normalized = ''true'' then Inr (Some True)
              else if normalized = ''false'' then Inr (Some False)
              else Inl (bad_request ''subject_token_verified must be true or false'')))"

definition parse_filters :: "string list \<Rightarrow> query_params \<Rightarrow> V1HttpResponse + AuditEventFilters" where
  "parse_filters order params =
     (case extra_params AUDIT_QUERY_FIELDS params of
        f # _ \<Rightarrow> Inl (bad_request (''unexpected query parameter: '' @ f))
      | [] \<Rightarrow>
     (case single_values order params of
        Inl r \<Rightarrow> Inl r
      | Inr vals \<Rightarrow>
     (case parse_limit (param vals ''limit'') of
        Inl r \<Rightarrow> Inl r
      | Inr limit \<Rightarrow>
     (case parse_cursors (param vals ''page'') (param vals ''snapshot_event_id'') (param vals ''before_event_id'') of
        Inl r \<Rightarrow> Inl r
      | Inr paginate \<Rightarrow>
     (case parse_verified (param vals ''subject_token_verified'') of
        Inl r \<Rightarrow> Inl r
      | Inr subject_token_verified \<Rightarrow>
     (case validate_audit_event_class (param vals ''event_class'') of
        Some (ValueError message) \<Rightarrow> Inl (bad_request message)
      | _ \<Rightarrow>
          Inr \<lparr>ef_filter =
                 \<lparr>af_event_class = param vals ''event_class'', af_event_type = param vals ''event_type'',
                  af_grant_ref = param vals ''grant_ref'', af_boundary_id = param vals ''boundary_id'',
                  af_agent_id = param vals ''agent_id'', af_request_id = param vals ''request_id'',
                  af_reason_code = param vals ''reason_code'',
                  af_enforcing_principal = param vals ''enforcing_principal'',
                  af_subject_token_verified = subject_token_verified\<rparr>,
               ef_paginate = paginate, ef_snapshot_event_id = param vals ''snapshot_event_id'',
               ef_before_event_id = param vals ''before_event_id'', ef_limit = limit\<rparr>))))))"

subsection \<open>Identity\<close>

text \<open>A workspace key that is given decides; the auditor key is looked at only without one.\<close>

definition audit_identity ::
  "(string, string) dict \<Rightarrow> WorkspaceIdentity identities \<Rightarrow> WorkspaceIdentity resolver
     \<Rightarrow> WorkspaceIdentity identities \<Rightarrow> WorkspaceIdentity resolver \<Rightarrow> instant \<Rightarrow> WorkspaceIdentity option" where
  "audit_identity headers workspace_identities workspace_identity_resolver auditor_identities
       auditor_identity_resolver now =
     (case dict_get (normalized_headers headers) ''x-workspace-key'' of
        Some workspace_key \<Rightarrow> resolve_identity workspace_identities workspace_identity_resolver workspace_key now
      | None \<Rightarrow>
          (case dict_get (normalized_headers headers) ''x-auditor-key'' of
             None \<Rightarrow> None
           | Some auditor_key \<Rightarrow> resolve_identity auditor_identities auditor_identity_resolver auditor_key now))"

subsection \<open>Handlers\<close>

text \<open>\<^verbatim>\<open>sequences[event.event_id]\<close> of every event of a page; \<^verbatim>\<open>KeyError\<close> when one is missing.\<close>

fun page_bodies :: "(string, int) dict \<Rightarrow> AuditEvent list \<Rightarrow> exn + json list" where
  "page_bodies sequences [] = Inr []"
| "page_bodies sequences (e # es) =
     (case dict_get sequences (ae_event_id e) of
        None \<Rightarrow> Inl (OtherException ''KeyError'')
      | Some n \<Rightarrow>
          (case page_bodies sequences es of
             Inl x \<Rightarrow> Inl x
           | Inr bodies \<Rightarrow> Inr (JObj (dict_merge (audit_event_body e) [(''sequence'', JInt n)]) # bodies)))"

definition list_audit_events ::
  "string list \<Rightarrow> query_params \<Rightarrow> WorkspaceIdentity \<Rightarrow> AuditEvent list \<Rightarrow> exn + V1HttpResponse" where
  "list_audit_events order params identity events =
     (let w = wi_workspace_id identity; invalid_cursor = Inr (bad_request ''invalid cursor'')
      in case parse_filters order params of
           Inl r \<Rightarrow> Inr r
         | Inr filters \<Rightarrow>
             if ef_paginate filters
             then (case audit_page (im_list_filtered events w (ef_filter filters)) (ef_snapshot_event_id filters)
                          (ef_before_event_id filters) (ef_limit filters) of
                     Inl e \<Rightarrow> if e = InvalidAuditCursorError then invalid_cursor else Inl e
                   | Inr (page_events, snapshot_event_id, next_before_event_id) \<Rightarrow>
                       (case page_bodies (audit_event_sequences events w (map ae_event_id page_events)) page_events of
                          Inl e \<Rightarrow> Inl e
                        | Inr bodies \<Rightarrow>
                            Inr \<lparr>hr_status_code = 200,
                                 hr_body = [(''audit_events'', JList bodies),
                                            (''page'', JObj [(''snapshot_event_id'', json_opt snapshot_event_id),
                                                             (''next_before_event_id'',
                                                              json_opt next_before_event_id)])]\<rparr>))
             else (case im_list_filtered events w (ef_filter filters) None None (Some (ef_limit filters)) of
                     Inl e \<Rightarrow> if e = InvalidAuditCursorError then invalid_cursor else Inl e
                   | Inr found \<Rightarrow>
                       Inr \<lparr>hr_status_code = 200,
                            hr_body = [(''audit_events'', JList (map (\<lambda>e. JObj (audit_event_body e)) found))]\<rparr>))"

definition handle_v1_audit_events_http ::
  "string list \<Rightarrow> string \<Rightarrow> string \<Rightarrow> query_params \<Rightarrow> (string, string) dict \<Rightarrow> WorkspaceIdentity identities
     \<Rightarrow> WorkspaceIdentity resolver \<Rightarrow> WorkspaceIdentity identities \<Rightarrow> WorkspaceIdentity resolver \<Rightarrow> instant
     \<Rightarrow> InMemoryV1Service \<Rightarrow> exn + V1HttpResponse" where
  "handle_v1_audit_events_http order verb path params headers workspace_identities workspace_identity_resolver
       auditor_identities auditor_identity_resolver now s =
     (case audit_identity headers workspace_identities workspace_identity_resolver auditor_identities
             auditor_identity_resolver now of
        None \<Rightarrow>
          Inr (http_error 401 ''authentication_required'' ''valid X-Workspace-Key or X-Auditor-Key header is required'')
      | Some identity \<Rightarrow>
          if path = ''/v1/audit-events''
          then if verb \<noteq> ''GET''
               then Inr (http_error 405 ''method_not_allowed'' ''GET is required for /v1/audit-events'')
               else list_audit_events order params identity (sv_audit_writer s)
          else if startswith path ''/v1/audit-events/''
          then (let event_id = removeprefix path ''/v1/audit-events/''
                in if event_id = [] \<or> CHR ''/'' \<in> set event_id then Inr route_not_found
                   else if verb \<noteq> ''GET''
                   then Inr (http_error 405 ''method_not_allowed'' ''GET is required for /v1/audit-events/{event_id}'')
                   else (case get_audit_event (sv_audit_writer s) event_id of
                           None \<Rightarrow> Inr (http_error 404 ''audit_event_not_found'' ''audit event was not found'')
                         | Some e \<Rightarrow>
                             if ae_workspace_id e \<noteq> wi_workspace_id identity
                             then Inr (http_error 404 ''audit_event_not_found'' ''audit event was not found'')
                             else Inr \<lparr>hr_status_code = 200, hr_body = audit_event_body e\<rparr>))
          else Inr route_not_found)"

definition handle_v1_service_auth_failures_http ::
  "string \<Rightarrow> string \<Rightarrow> query_params \<Rightarrow> (string, string) dict \<Rightarrow> string list option
     \<Rightarrow> (string \<Rightarrow> instant \<Rightarrow> bool) option \<Rightarrow> (int \<Rightarrow> AuditEvent list) \<Rightarrow> instant \<Rightarrow> V1HttpResponse" where
  "handle_v1_service_auth_failures_http verb path params headers service_operator_keys service_operator_resolver
       list_auth_failures now =
     (let authenticated =
            (case dict_get (normalized_headers headers) ''x-service-operator-key'' of
               None \<Rightarrow> False
             | Some raw_key \<Rightarrow>
                 (case service_operator_resolver of
                    Some r \<Rightarrow> r raw_key now
                  | None \<Rightarrow> raw_key \<in> set (case service_operator_keys of None \<Rightarrow> [] | Some ks \<Rightarrow> ks)))
      in if \<not> authenticated
         then http_error 401 ''authentication_required'' ''valid X-Service-Operator-Key header is required''
         else if path \<noteq> ''/v1/service/audit/auth-failures'' then route_not_found
         else if verb \<noteq> ''GET'' then http_error 405 ''method_not_allowed'' ''GET is required''
         else if extra_params [''limit''] params \<noteq> [] then bad_request ''only limit is supported''
         else (case py_int (case dict_get params ''limit'' of None \<Rightarrow> ''20'' | Some vs \<Rightarrow> hd vs) of
                 None \<Rightarrow> bad_request ''limit must be an integer''
               | Some limit \<Rightarrow>
                   if limit \<le> 0 \<or> limit > 200 then bad_request ''limit must be between 1 and 200''
                   else \<lparr>hr_status_code = 200,
                         hr_body = [(''auth_failures'',
                           JList (map (\<lambda>e. JObj (audit_event_body e)) (list_auth_failures limit)))]\<rparr>))"

end
