(* ===== verification/Idempotency.thy ===== *)
theory Idempotency
  imports Http PyJsonLoads Sha256
begin

section \<open>Idempotency keys and fingerprints\<close>

text \<open>
  \<^verbatim>\<open>src/vinctor_service/idempotency_models.py\<close>, the encodings of \<^verbatim>\<open>idempotency_crypto.py\<close> and
  \<^verbatim>\<open>idempotency_http.py\<close>: what identifies a request that is to run once, the unambiguous bytes that
  are hashed into its fingerprint or authenticated with its stored response, and the wrapper that
  every idempotent route runs through.

  A request body of \<open>RequestFingerprintInput\<close> is the text that the code encodes as UTF-8 before it
  passes it on. \<^verbatim>\<open>to_bytes\<close> raises \<^verbatim>\<open>OverflowError\<close> for a value that does not fit.
\<close>

subsection \<open>Data\<close>

datatype idem_error =
    IdempotencyFingerprintError
  | IdempotencyCipherUnavailableError
  | IdempotencyConflict
  | IdempotencyResultUnavailable
  | IdempotencyWriteUnavailable
  | AmbiguousCommitError
  | InvalidIdempotencyKey
  | IdempotencyOverflow
  | SqliteIntegrityError
  | MutationRaised exn

record RequestFingerprintInput =
  rf_method :: string
  rf_path :: string
  rf_authenticated_workspace_id :: string
  rf_authenticated_principal :: string
  rf_operation :: string
  rf_request_body :: string

record ResponseAadInput =
  ra_format_version :: int
  ra_workspace_id :: string
  ra_principal :: string
  ra_operation :: string
  ra_key_hash :: bytes
  ra_request_fingerprint :: bytes
  ra_status_code :: int
  ra_content_type :: string
  ra_cipher_key_version :: string
  ra_created_at_epoch :: int
  ra_expires_at_epoch :: int

record EncryptedResponseEnvelope =
  en_format_version :: int
  en_version :: string
  en_nonce :: bytes
  en_ciphertext :: bytes

record IdempotencyInvocation =
  iv_workspace_id :: string
  iv_principal :: string
  iv_operation :: string
  iv_key_hash :: bytes
  iv_request_fingerprint :: bytes
  iv_max_terminal_ttl_seconds :: int

type_synonym identity4 = "string \<times> string \<times> string \<times> bytes"

definition result_identity :: "IdempotencyInvocation \<Rightarrow> identity4" where
  "result_identity i = (iv_workspace_id i, iv_principal i, iv_operation i, iv_key_hash i)"

definition reservation_owner_identity :: "IdempotencyInvocation \<Rightarrow> identity4 \<times> bytes" where
  "reservation_owner_identity i = (result_identity i, iv_request_fingerprint i)"

record PreSerializedHttpResponse =
  ps_status_code :: int
  ps_content_type :: string
  ps_body :: bytes
  ps_error_code :: "string option"
  ps_decision :: "string option"

record CacheableTerminalOutcome =
  co_response :: PreSerializedHttpResponse
  co_replay_not_after_epoch :: "int option"

subsection \<open>Encodings\<close>

definition FINGERPRINT_DOMAIN :: bytes where
  "FINGERPRINT_DOMAIN = utf8 ''vinctor:idempotency-fingerprint:v1''"

definition RESPONSE_AAD_DOMAIN :: bytes where
  "RESPONSE_AAD_DOMAIN = utf8 ''vinctor:idempotency-response-aad:v1''"

definition length_prefix :: "bytes \<Rightarrow> idem_error + bytes" where
  "length_prefix v =
     (if length v < 256 ^ 4 then Inr (be_bytes 4 (length v) @ v) else Inl IdempotencyOverflow)"

definition int64 :: "int \<Rightarrow> idem_error + bytes" where
  "int64 v = (if - (2 ^ 63) \<le> v \<and> v < 2 ^ 63 then Inr (be_bytes 8 (nat (v mod 2 ^ 64))) else Inl IdempotencyOverflow)"

text \<open>\<^verbatim>\<open>b"".join\<close> of parts each of which may raise, the first error first.\<close>

fun join_parts :: "(idem_error + bytes) list \<Rightarrow> idem_error + bytes" where
  "join_parts [] = Inr []"
| "join_parts (p # ps) =
     (case p of
        Inl e \<Rightarrow> Inl e
      | Inr b \<Rightarrow> (case join_parts ps of Inl e \<Rightarrow> Inl e | Inr bs \<Rightarrow> Inr (b @ bs)))"

definition encode_length_prefixed :: "bytes \<Rightarrow> bytes list \<Rightarrow> idem_error + bytes" where
  "encode_length_prefixed domain parts =
     (case join_parts (map length_prefix parts) of Inl e \<Rightarrow> Inl e | Inr b \<Rightarrow> Inr (domain @ b))"

definition encode_fingerprint_fields :: "bytes list \<Rightarrow> idem_error + bytes" where
  "encode_fingerprint_fields = encode_length_prefixed FINGERPRINT_DOMAIN"

text \<open>\<^verbatim>\<open>json.dumps(value, sort_keys=True, separators=(",", ":"))\<close>\<close>

fun json_compact :: "json \<Rightarrow> string" where
  "json_compact JNull = ''null''"
| "json_compact (JBool b) = (if b then ''true'' else ''false'')"
| "json_compact (JInt n) = py_str_int n"
| "json_compact (JStr s) = json_string s"
| "json_compact (JList xs) = ''['' @ join_with '','' (map json_compact xs) @ '']''"
| "json_compact (JObj kvs) =
     ''{'' @ join_with '',''
       (map (\<lambda>kt. json_string (fst kt) @ '':'' @ snd kt)
          (sort_key fst (map (\<lambda>(k, v). (k, json_compact v)) kvs))) @ ''}''"

text \<open>
  The bodies the reader has no value for (numbers with a fraction or an exponent, escaped code points over 255) are
  refused here like a text that is no JSON, where the code fingerprints them; what is proved of a fingerprint is about
  bodies of the values of the type \<open>json\<close>.
\<close>

definition canonicalize_request_body :: "string \<Rightarrow> idem_error + bytes" where
  "canonicalize_request_body raw_body =
     (if raw_body = [] then Inr []
      else case json_loads raw_body of
        None \<Rightarrow> Inl IdempotencyFingerprintError
      | Some parsed \<Rightarrow> Inr (utf8 (json_compact parsed)))"

definition build_request_fingerprint :: "RequestFingerprintInput \<Rightarrow> idem_error + bytes" where
  "build_request_fingerprint request =
     (case canonicalize_request_body (rf_request_body request) of
        Inl e \<Rightarrow> Inl e
      | Inr canonical_body \<Rightarrow>
          (case encode_fingerprint_fields
                  [utf8 (rf_method request), utf8 (rf_path request), utf8 (rf_authenticated_workspace_id request),
                   utf8 (rf_authenticated_principal request), utf8 (rf_operation request), canonical_body] of
             Inl e \<Rightarrow> Inl e
           | Inr encoded \<Rightarrow> Inr (sha256 encoded)))"

definition build_response_aad :: "ResponseAadInput \<Rightarrow> idem_error + bytes" where
  "build_response_aad m =
     (if length (ra_key_hash m) \<noteq> 32 \<or> length (ra_request_fingerprint m) \<noteq> 32
      then Inl IdempotencyCipherUnavailableError
      else case join_parts
             [Inr RESPONSE_AAD_DOMAIN, int64 (ra_format_version m), length_prefix (utf8 (ra_workspace_id m)),
              length_prefix (utf8 (ra_principal m)), length_prefix (utf8 (ra_operation m)),
              length_prefix (ra_key_hash m), length_prefix (ra_request_fingerprint m),
              int64 (ra_status_code m), length_prefix (utf8 (ra_content_type m)),
              length_prefix (utf8 (ra_cipher_key_version m)), int64 (ra_created_at_epoch m),
              int64 (ra_expires_at_epoch m)] of
        Inl _ \<Rightarrow> Inl IdempotencyCipherUnavailableError
      | Inr b \<Rightarrow> Inr b)"

subsection \<open>The HTTP wrapper\<close>

definition key_char :: "char \<Rightarrow> bool" where
  "key_char c \<longleftrightarrow>
     (let n = of_char c :: nat
      in 65 \<le> n \<and> n \<le> 90 \<or> 97 \<le> n \<and> n \<le> 122 \<or> 48 \<le> n \<and> n \<le> 57 \<or> c \<in> {CHR ''.'', CHR ''_'', CHR ''~'', CHR ''-''})"

text \<open>The hash of the key: \<open>Inr None\<close> without a header; \<^verbatim>\<open>[A-Za-z0-9._~-]{1,128}\<close> must match.\<close>

definition parse_idempotency_key :: "string list option \<Rightarrow> idem_error + bytes option" where
  "parse_idempotency_key raw_values =
     (case raw_values of
        None \<Rightarrow> Inr None
      | Some [raw_key] \<Rightarrow>
          if \<not> is_ascii raw_key \<or> \<not> (list_all key_char raw_key \<and> 1 \<le> length raw_key \<and> length raw_key \<le> 128)
          then Inl InvalidIdempotencyKey
          else Inr (Some (sha256 (utf8 raw_key)))
      | _ \<Rightarrow> Inl InvalidIdempotencyKey)"

definition json_str_of :: "json option \<Rightarrow> string option" where
  "json_str_of v = (case v of Some (JStr s) \<Rightarrow> Some s | _ \<Rightarrow> None)"

definition encode_json_response :: "V1HttpResponse \<Rightarrow> PreSerializedHttpResponse" where
  "encode_json_response response =
     \<lparr>ps_status_code = hr_status_code response, ps_content_type = ''application/json'',
      ps_body = utf8 (json_dumps (JObj (hr_body response))),
      ps_error_code = json_str_of (dict_get (hr_body response) ''error''),
      ps_decision = json_str_of (dict_get (hr_body response) ''decision'')\<rparr>"

definition cacheable_json_outcome :: "V1HttpResponse \<Rightarrow> int option \<Rightarrow> CacheableTerminalOutcome" where
  "cacheable_json_outcome response replay_not_after_epoch =
     \<lparr>co_response = encode_json_response response, co_replay_not_after_epoch = replay_not_after_epoch\<rparr>"

definition coarse_error :: "string \<Rightarrow> int \<Rightarrow> PreSerializedHttpResponse" where
  "coarse_error code status_code = encode_json_response (http_error status_code code code)"

definition invalid_key_response :: PreSerializedHttpResponse where
  "invalid_key_response = coarse_error ''invalid_idempotency_key'' 400"

definition unavailable_response :: PreSerializedHttpResponse where
  "unavailable_response = coarse_error ''idempotency_unavailable'' 503"

definition MAX_TERMINAL_TTL_SECONDS :: int where
  "MAX_TERMINAL_TTL_SECONDS = 86400"

text \<open>
  The service, when it has \<^verbatim>\<open>execute_idempotent\<close>, takes the invocation and the mutation and works
  on the state \<open>'t\<close>. An error that the wrapper does not catch is \<open>Inl\<close>.
\<close>

definition execute_idempotent_http ::
  "(IdempotencyInvocation \<Rightarrow> 'm \<Rightarrow> 't \<Rightarrow> (idem_error + PreSerializedHttpResponse) \<times> 't) option
     \<Rightarrow> RequestFingerprintInput \<Rightarrow> string list \<Rightarrow> 'm \<Rightarrow> 't \<Rightarrow> (idem_error + PreSerializedHttpResponse) \<times> 't" where
  "execute_idempotent_http service fingerprint_input raw_key_headers mutation s =
     (case build_request_fingerprint fingerprint_input of
        Inl e \<Rightarrow> if e = IdempotencyFingerprintError then (Inr unavailable_response, s) else (Inl e, s)
      | Inr request_fingerprint \<Rightarrow>
          (case parse_idempotency_key (Some raw_key_headers) of
             Inl _ \<Rightarrow> (Inr invalid_key_response, s)
           | Inr None \<Rightarrow> (Inl (MutationRaised (OtherException ''AssertionError'')), s)
           | Inr (Some key_hash) \<Rightarrow>
               (case service of
                  None \<Rightarrow> (Inr unavailable_response, s)
                | Some execute_idempotent \<Rightarrow>
                    (case execute_idempotent
                            \<lparr>iv_workspace_id = rf_authenticated_workspace_id fingerprint_input,
                             iv_principal = rf_authenticated_principal fingerprint_input,
                             iv_operation = rf_operation fingerprint_input,
                             iv_key_hash = key_hash, iv_request_fingerprint = request_fingerprint,
                             iv_max_terminal_ttl_seconds = MAX_TERMINAL_TTL_SECONDS\<rparr> mutation s of
                       (Inr response, s') \<Rightarrow> (Inr response, s')
                     | (Inl e, s') \<Rightarrow>
                         if e = IdempotencyConflict then (Inr (coarse_error ''idempotency_key_conflict'' 409), s')
                         else if e \<in> {AmbiguousCommitError, IdempotencyCipherUnavailableError,
                                      IdempotencyResultUnavailable, IdempotencyWriteUnavailable}
                         then (Inr unavailable_response, s')
                         else (Inl e, s')))))"

subsection \<open>The encodings are unambiguous\<close>

lemma length_prefix_cancel:
  assumes "length_prefix v = Inr a" "length_prefix w = Inr b" "a @ x = b @ y"
  shows "v = w \<and> x = y"
proof -
  have lens: "length v < 256 ^ 4" "length w < 256 ^ 4"
    and ab: "a = be_bytes 4 (length v) @ v" "b = be_bytes 4 (length w) @ w"
    using assms(1,2) by (auto simp: length_prefix_def split: if_splits)
  have "be_bytes 4 (length v) = be_bytes 4 (length w)" and rest: "v @ x = w @ y"
    using assms(3) by (simp_all add: ab append_eq_append_conv)
  then have "length v = length w" using be_bytes_inj [OF lens] by blast
  with rest show ?thesis by simp
qed

lemma int64_cancel:
  assumes "int64 m = Inr a" "int64 n = Inr b" "a @ x = b @ y"
  shows "m = n \<and> x = y"
proof -
  have ranges: "- (2 ^ 63) \<le> m" "m < 2 ^ 63" "- (2 ^ 63) \<le> n" "n < 2 ^ 63"
    and ab: "a = be_bytes 8 (nat (m mod 2 ^ 64))" "b = be_bytes 8 (nat (n mod 2 ^ 64))"
    using assms(1,2) by (auto simp: int64_def split: if_splits)
  have "be_bytes 8 (nat (m mod 2 ^ 64)) = be_bytes 8 (nat (n mod 2 ^ 64))" and rest: "x = y"
    using assms(3) by (simp_all add: ab append_eq_append_conv)
  then have "nat (m mod 2 ^ 64) = nat (n mod 2 ^ 64)"
    by (intro be_bytes_inj [of _ 8]) (simp_all add: nat_less_iff)
  then have "m mod 2 ^ 64 = n mod 2 ^ 64" by (simp add: nat_eq_iff)
  then have "2 ^ 64 dvd m - n" by (simp add: mod_eq_dvd_iff)
  then have "m = n" using ranges dvd_imp_le_int [of "m - n" "2 ^ 64"] by fastforce
  with rest show ?thesis by simp
qed

lemma join_parts_map [simp]: "join_parts (map Inr bs) = Inr (concat bs)"
  by (induction bs) auto

lemma join_parts_Inr: "join_parts ps = Inr b \<longleftrightarrow> (\<exists>bs. ps = map Inr bs \<and> b = concat bs)"
proof
  show "\<exists>bs. ps = map Inr bs \<and> b = concat bs" if "join_parts ps = Inr b"
    using that
  proof (induction ps arbitrary: b)
    case (Cons p ps)
    then obtain a c where "p = Inr a" "join_parts ps = Inr c" "b = a @ c" by (auto split: sum.splits)
    with Cons.IH obtain bs where "p # ps = map Inr (a # bs) \<and> b = concat (a # bs)" by auto
    then show ?case by (rule exI)
  qed simp
qed auto

lemma length_prefixed_inj:
  assumes "length vs = length ws" "map length_prefix vs = map Inr as" "map length_prefix ws = map Inr bs"
    "concat as @ x = concat bs @ y"
  shows "vs = ws"
  using assms
proof (induction vs ws arbitrary: as bs rule: list_induct2)
  case (Cons v vs w ws)
  obtain a as' b bs' where as: "as = a # as'" and bs: "bs = b # bs'"
    using Cons.prems(1,2) by (auto simp: Cons_eq_map_conv)
  have "v = w \<and> concat as' @ x = concat bs' @ y"
    using Cons.prems as bs by (intro length_prefix_cancel [of v a w b]) auto
  with Cons.IH [of as' bs'] Cons.prems as bs show ?case by auto
qed simp

lemma encode_length_prefixed_inj:
  assumes "encode_length_prefixed d vs = Inr b" "encode_length_prefixed d ws = Inr b" "length vs = length ws"
  shows "vs = ws"
proof -
  obtain as bs where "map length_prefix vs = map Inr as" "map length_prefix ws = map Inr bs" "concat as = concat bs"
    using assms(1,2) by (auto simp: encode_length_prefixed_def join_parts_Inr split: sum.splits)
  with length_prefixed_inj [OF assms(3), of as bs "[]" "[]"] show ?thesis by simp
qed

text \<open>The fields the fingerprint is made of.\<close>

definition fingerprint_fields :: "RequestFingerprintInput \<Rightarrow> idem_error + bytes list" where
  "fingerprint_fields r =
     (case canonicalize_request_body (rf_request_body r) of
        Inl e \<Rightarrow> Inl e
      | Inr canonical \<Rightarrow>
          Inr [utf8 (rf_method r), utf8 (rf_path r), utf8 (rf_authenticated_workspace_id r),
               utf8 (rf_authenticated_principal r), utf8 (rf_operation r), canonical])"

lemma build_request_fingerprint_eq:
  "build_request_fingerprint r = Inr fp \<longleftrightarrow>
     (\<exists>parts encoded. fingerprint_fields r = Inr parts \<and> encode_fingerprint_fields parts = Inr encoded \<and> fp = sha256 encoded)"
  by (auto simp: build_request_fingerprint_def fingerprint_fields_def split: sum.splits)

text \<open>
  (C25) Two requests with the same fingerprint are the same request
  (method, path, workspace, principal, operation and canonical body), or SHA-256 collides on the
  two encodings. No field can be shifted into another.
\<close>

theorem fingerprint_identifies_the_request:
  assumes "build_request_fingerprint r = Inr fp" and "build_request_fingerprint q = Inr fp"
  shows "(rf_method r = rf_method q \<and> rf_path r = rf_path q
           \<and> rf_authenticated_workspace_id r = rf_authenticated_workspace_id q
           \<and> rf_authenticated_principal r = rf_authenticated_principal q \<and> rf_operation r = rf_operation q
           \<and> canonicalize_request_body (rf_request_body r) = canonicalize_request_body (rf_request_body q))
         \<or> (\<exists>vs a ws b. fingerprint_fields r = Inr vs \<and> encode_fingerprint_fields vs = Inr a
              \<and> fingerprint_fields q = Inr ws \<and> encode_fingerprint_fields ws = Inr b
              \<and> a \<noteq> b \<and> sha256 a = sha256 b)"
proof -
  obtain vs a ws b where v: "fingerprint_fields r = Inr vs" "encode_fingerprint_fields vs = Inr a" "fp = sha256 a"
    and w: "fingerprint_fields q = Inr ws" "encode_fingerprint_fields ws = Inr b" "fp = sha256 b"
    using assms by (auto simp: build_request_fingerprint_eq)
  have len: "length vs = length ws" using v(1) w(1) by (auto simp: fingerprint_fields_def split: sum.splits)
  show ?thesis
  proof (cases "a = b")
    case True
    then have "vs = ws"
      using encode_length_prefixed_inj [OF _ _ len] v(2) w(2) by (auto simp: encode_fingerprint_fields_def)
    with v(1) w(1) show ?thesis by (auto simp: fingerprint_fields_def dest: utf8_inj split: sum.splits)
  next
    case False
    with v w show ?thesis by auto
  qed
qed

definition example_fingerprint_input :: "string \<Rightarrow> RequestFingerprintInput" where
  "example_fingerprint_input body =
     \<lparr>rf_method = ''POST'', rf_path = ''/v1/grants'', rf_authenticated_workspace_id = ''ws'',
      rf_authenticated_principal = ''workspace:ws'', rf_operation = ''grant.issue.v1'', rf_request_body = body\<rparr>"

text \<open>Two bodies that differ as texts and not as values.\<close>

definition example_spaced_body :: string where
  "example_spaced_body = [CHR 0x7B, CHR '' '', CHR 0x22, CHR ''a'', CHR 0x22, CHR '' '', CHR '':'', CHR '' '', CHR ''1'', CHR 0x7D]"

definition example_tight_body :: string where
  "example_tight_body = [CHR 0x7B, CHR 0x22, CHR ''a'', CHR 0x22, CHR '':'', CHR ''1'', CHR 0x7D]"

lemma example_bodies_parse:
  "json_loads example_spaced_body = Some (JObj [(''a'', JInt 1)])"
  "json_loads example_tight_body = Some (JObj [(''a'', JInt 1)])"
  by code_simp+

theorem fingerprint_identifies_the_request_witness:
  "example_spaced_body \<noteq> example_tight_body
   \<and> (\<exists>fp. build_request_fingerprint (example_fingerprint_input example_spaced_body) = Inr fp
        \<and> build_request_fingerprint (example_fingerprint_input example_tight_body) = Inr fp)
   \<and> canonicalize_request_body example_spaced_body = canonicalize_request_body example_tight_body"
proof -
  let ?r = "example_fingerprint_input example_spaced_body" and ?q = "example_fingerprint_input example_tight_body"
  let ?canonical = "utf8 (json_compact (JObj [(''a'', JInt 1)]))"
  have ne: "example_spaced_body \<noteq> [] \<and> example_tight_body \<noteq> [] \<and> example_spaced_body \<noteq> example_tight_body"
    by (simp add: example_spaced_body_def example_tight_body_def)
  have fields: "fingerprint_fields ?r = fingerprint_fields ?q"
    "fingerprint_fields ?r = Inr [utf8 ''POST'', utf8 ''/v1/grants'', utf8 ''ws'', utf8 ''workspace:ws'',
       utf8 ''grant.issue.v1'', ?canonical]"
    using ne example_bodies_parse
    by (simp_all add: fingerprint_fields_def canonicalize_request_body_def example_fingerprint_input_def)
  have "json_compact (JObj [(''a'', JInt 1)]) = example_tight_body" by code_simp
  then have len: "length ?canonical < 256 ^ 4" by (simp add: example_tight_body_def utf8_char_def)
  obtain encoded where e: "encode_fingerprint_fields [utf8 ''POST'', utf8 ''/v1/grants'', utf8 ''ws'', utf8 ''workspace:ws'',
       utf8 ''grant.issue.v1'', ?canonical] = Inr encoded"
    using len by (simp add: encode_fingerprint_fields_def encode_length_prefixed_def length_prefix_def utf8_char_def)
  have fp: "build_request_fingerprint ?r = Inr (sha256 encoded)" "build_request_fingerprint ?q = Inr (sha256 encoded)"
    unfolding build_request_fingerprint_eq fields(1) [symmetric] fields(2) using e by blast+
  have "canonicalize_request_body (rf_request_body ?r) = canonicalize_request_body (rf_request_body ?q)"
    using fingerprint_identifies_the_request [OF fp] unfolding fields(1) by (metis Inr_inject)
  then have "canonicalize_request_body example_spaced_body = canonicalize_request_body example_tight_body"
    by (simp only: example_fingerprint_input_def RequestFingerprintInput.simps)
  with ne fp show ?thesis by blast
qed

end
