(* ===== verification/RateLimit.thy ===== *)
theory RateLimit
  imports Complex_Main PyStr
begin

section \<open>The rate limiter\<close>

text \<open>
  \<^verbatim>\<open>src/vinctor_service/ratelimit.py\<close>: the per-source fixed-window limiter and the choice of the
  source a request is counted under. A clock reading is a \<open>rat\<close>: the float that \<^verbatim>\<open>time.time()\<close>
  returns is a rational number, and the difference of two floats within a factor of two of each
  other, the only operation the code applies to them, is exact.

  Addresses and networks belong to the \<^verbatim>\<open>ipaddress\<close> module: \<open>ip_address\<close> parses an address
  (\<^verbatim>\<open>ValueError\<close> is \<open>None\<close>), \<open>in_network\<close> is membership and \<open>show_address\<close> is \<^verbatim>\<open>str\<close>; the
  definitions take them as arguments and the theorems hold for all of them.
\<close>

subsection \<open>The window counter\<close>

record FixedWindowRateLimiter =
  rl_max_requests :: int
  rl_window_seconds :: rat
  rl_max_sources :: int
  rl_windows :: "(string, rat \<times> int) dict"

definition limiter_init :: "int \<Rightarrow> rat \<Rightarrow> int \<Rightarrow> exn + FixedWindowRateLimiter" where
  "limiter_init max_requests window_seconds max_sources =
     (if max_requests \<le> 0 then Inl (ValueError ''max_requests must be positive'')
      else Inr \<lparr>rl_max_requests = max_requests, rl_window_seconds = window_seconds,
                rl_max_sources = max_sources, rl_windows = []\<rparr>)"

definition prune :: "rat \<Rightarrow> FixedWindowRateLimiter \<Rightarrow> (string, rat \<times> int) dict" where
  "prune now l = filter (\<lambda>(_, start, _). \<not> now - start \<ge> rl_window_seconds l) (rl_windows l)"

definition rl_allow :: "string \<Rightarrow> rat \<Rightarrow> FixedWindowRateLimiter \<Rightarrow> bool \<times> FixedWindowRateLimiter" where
  "rl_allow source now l =
     (let windows = prune now l
      in case dict_get windows source of
           None \<Rightarrow>
             if int (length windows) \<ge> rl_max_sources l then (True, l\<lparr>rl_windows := windows\<rparr>)
             else (True, l\<lparr>rl_windows := dict_set source (now, 1) windows\<rparr>)
         | Some (start, count) \<Rightarrow>
             if count < rl_max_requests l
             then (True, l\<lparr>rl_windows := dict_set source (start, count + 1) windows\<rparr>)
             else (False, l\<lparr>rl_windows := windows\<rparr>))"

text \<open>The answers to a sequence of calls, each with its source and time, oldest first.\<close>

fun rl_run :: "(string \<times> rat) list \<Rightarrow> FixedWindowRateLimiter \<Rightarrow> (string \<times> rat \<times> bool) list \<times> FixedWindowRateLimiter"
  where
  "rl_run [] l = ([], l)"
| "rl_run ((source, now) # calls) l =
     (case rl_allow source now l of
        (ok, l') \<Rightarrow> (case rl_run calls l' of (answers, l'') \<Rightarrow> ((source, now, ok) # answers, l'')))"

subsection \<open>The source of a request\<close>

definition MAX_X_FORWARDED_FOR_LENGTH :: nat where
  "MAX_X_FORWARDED_FOR_LENGTH = 4096"

definition is_trusted :: "('a \<Rightarrow> 'n \<Rightarrow> bool) \<Rightarrow> 'n list \<Rightarrow> 'a \<Rightarrow> bool" where
  "is_trusted in_network networks address \<longleftrightarrow> list_ex (in_network address) networks"

fun first_untrusted ::
  "(string \<Rightarrow> 'a option) \<Rightarrow> ('a \<Rightarrow> bool) \<Rightarrow> ('a \<Rightarrow> string) \<Rightarrow> string \<Rightarrow> string list \<Rightarrow> string" where
  "first_untrusted ip_address trusted show_address peer [] = peer"
| "first_untrusted ip_address trusted show_address peer (entry # entries) =
     (case ip_address (py_strip entry) of
        None \<Rightarrow> peer
      | Some candidate \<Rightarrow>
          if \<not> trusted candidate then show_address candidate
          else first_untrusted ip_address trusted show_address peer entries)"

definition resolve_rate_limit_source ::
  "(string \<Rightarrow> 'a option) \<Rightarrow> ('a \<Rightarrow> 'n \<Rightarrow> bool) \<Rightarrow> ('a \<Rightarrow> string) \<Rightarrow> string \<Rightarrow> string option \<Rightarrow> 'n list
     \<Rightarrow> exn + string" where
  "resolve_rate_limit_source ip_address in_network show_address peer forwarded_for trusted_proxies =
     (if trusted_proxies = [] then Inr peer
      else case ip_address peer of
        None \<Rightarrow> Inl (ValueError peer)
      | Some peer_address \<Rightarrow>
          if \<not> is_trusted in_network trusted_proxies peer_address then Inr peer
          else (case forwarded_for of
                  None \<Rightarrow> Inr peer
                | Some chain \<Rightarrow>
                    if length chain > MAX_X_FORWARDED_FOR_LENGTH then Inr peer
                    else Inr (first_untrusted ip_address (is_trusted in_network trusted_proxies) show_address peer
                                (rev (split_on (CHR '','') chain)))))"

definition parse_trusted_proxy_cidrs :: "(string \<Rightarrow> exn + 'n) \<Rightarrow> string option \<Rightarrow> exn + 'n list" where
  "parse_trusted_proxy_cidrs ip_network raw =
     (case raw of
        None \<Rightarrow> Inr []
      | Some raw \<Rightarrow>
          if py_strip raw = [] then Inr []
          else (let entries = map py_strip (split_on (CHR '','') raw)
                in if list_ex (\<lambda>entry. entry = []) entries
                   then Inl (ValueError ''trusted proxy CIDRs must not contain empty entries'')
                   else foldr (\<lambda>entry rest.
                          case ip_network entry of
                            Inl e \<Rightarrow> Inl e
                          | Inr n \<Rightarrow> (case rest of Inl e \<Rightarrow> Inl e | Inr ns \<Rightarrow> Inr (n # ns))) entries (Inr [])))"

subsection \<open>One call\<close>

text \<open>The entry of a source once the expired windows are gone.\<close>

definition live_entry :: "FixedWindowRateLimiter \<Rightarrow> rat \<Rightarrow> string \<Rightarrow> (rat \<times> int) option" where
  "live_entry l now source =
     (case dict_get (rl_windows l) source of
        None \<Rightarrow> None
      | Some (start, count) \<Rightarrow> if now - start \<ge> rl_window_seconds l then None else Some (start, count))"

lemma prune_get: "dict_wf (rl_windows l) \<Longrightarrow> dict_get (prune now l) k = live_entry l now k"
  by (auto simp: prune_def live_entry_def dict_get_filter split: option.split)

lemma prune_wf [simp]: "dict_wf (rl_windows l) \<Longrightarrow> dict_wf (prune now l)"
  by (simp add: prune_def)

lemma prune_keys: "fst ` set (prune now l) \<subseteq> fst ` set (rl_windows l)"
  by (auto simp: prune_def)

lemma prune_length: "length (prune now l) \<le> length (rl_windows l)"
  by (simp add: prune_def)

lemma rl_allow_config:
  assumes "rl_allow source now l = (ok, l')"
  shows "rl_max_requests l' = rl_max_requests l" "rl_window_seconds l' = rl_window_seconds l"
    "rl_max_sources l' = rl_max_sources l"
  using assms by (auto simp: rl_allow_def Let_def split: option.splits if_splits)

lemma rl_allow_wf: "rl_allow source now l = (ok, l') \<Longrightarrow> dict_wf (rl_windows l) \<Longrightarrow> dict_wf (rl_windows l')"
  by (auto simp: rl_allow_def Let_def split: option.splits if_splits)

lemma rl_allow_keys:
  "rl_allow source now l = (ok, l') \<Longrightarrow>
     fst ` set (rl_windows l') \<subseteq> insert source (fst ` set (rl_windows l))"
proof -
  assume "rl_allow source now l = (ok, l')"
  then have "rl_windows l' = prune now l \<or> (\<exists>a b. rl_windows l' = dict_set source (a, b) (prune now l))"
    by (simp add: rl_allow_def Let_def split: option.splits if_splits prod.splits) (metis | auto)+
  then have "fst ` set (rl_windows l') \<subseteq> insert source (fst ` set (prune now l))"
    by (elim disjE exE) (simp_all add: subset_insertI)
  with prune_keys [of now l] show ?thesis by blast
qed

lemma rl_allow_other:
  assumes "rl_allow source now l = (ok, l')" "dict_wf (rl_windows l)" "k \<noteq> source"
  shows "dict_get (rl_windows l') k = live_entry l now k"
  using assms by (auto simp: rl_allow_def Let_def prune_get split: option.splits if_splits)

text \<open>
  What a call does to its own source: a full table lets it pass uncounted; otherwise it opens a
  window, is counted in the live one, or is denied there.
\<close>

lemma rl_allow_own:
  assumes "rl_allow source now l = (ok, l')" "dict_wf (rl_windows l)"
  shows "(case live_entry l now source of
            None \<Rightarrow> ok \<and> dict_get (rl_windows l') source =
                      (if int (length (prune now l)) \<ge> rl_max_sources l then None else Some (now, 1))
          | Some (start, count) \<Rightarrow>
              (if count < rl_max_requests l then ok \<and> dict_get (rl_windows l') source = Some (start, count + 1)
               else \<not> ok \<and> dict_get (rl_windows l') source = Some (start, count)))"
  using assms by (auto simp: rl_allow_def Let_def prune_get split: option.splits if_splits)

text \<open>With room for every source, a call that finds no live window opens one.\<close>

lemma prune_room:
  assumes wf: "dict_wf (rl_windows l)" and keys: "fst ` set (rl_windows l) \<subseteq> S" and S: "finite S"
    and card: "int (card S) \<le> rl_max_sources l" and "source \<in> S" and dead: "live_entry l now source = None"
  shows "int (length (prune now l)) < rl_max_sources l"
proof -
  have "source \<notin> fst ` set (prune now l)"
    using dead prune_get [OF wf, of now source] by (metis map_of_eq_None_iff)
  then have sub: "fst ` set (prune now l) \<subset> S" using prune_keys [of now l] keys \<open>source \<in> S\<close> by blast
  have "length (prune now l) = card (fst ` set (prune now l))"
    using prune_wf [OF wf, of now] by (metis dict_wf_def distinct_card length_map set_map)
  also have "\<dots> < card S" by (rule psubset_card_mono [OF S sub])
  finally show ?thesis using card by linarith
qed

subsection \<open>How many requests of a source pass in a span of time\<close>

definition passed_in :: "rat \<Rightarrow> rat \<Rightarrow> string \<Rightarrow> (string \<times> rat \<times> bool) list \<Rightarrow> nat" where
  "passed_in t u source answers = length (filter (\<lambda>(s, v, ok). s = source \<and> ok \<and> t \<le> v \<and> v < u) answers)"

text \<open>
  The invariant of a span that starts at \<open>t\<close>, with \<open>n\<close> requests of \<open>k\<close> passed in it up to \<open>now\<close>:
  a window opened before the span accounts for all of them, one opened in the span for all but a
  window's worth, and once a window opened in the span has expired the span is over.
\<close>

definition span_inv :: "rat \<Rightarrow> rat \<Rightarrow> int \<Rightarrow> rat \<Rightarrow> int \<Rightarrow> (rat \<times> int) option \<Rightarrow> bool" where
  "span_inv t w m now n entry \<longleftrightarrow>
     (now < t \<longrightarrow> n = 0) \<and>
     (case entry of
        None \<Rightarrow> n \<le> m \<or> n \<le> 2 * m \<and> t + w \<le> now
      | Some (start, c) \<Rightarrow>
          start \<le> now \<and> c \<le> m \<and> n \<le> (if start < t then c else if start < t + w then m + c else 2 * m))"

lemma span_inv_bound: "span_inv t w m now n entry \<Longrightarrow> 0 < m \<Longrightarrow> n \<le> 2 * m"
  by (auto simp: span_inv_def split: option.splits if_splits)

lemma span_inv_kept:
  "span_inv t w m now n entry \<Longrightarrow> now \<le> now' \<Longrightarrow> span_inv t w m now' n entry"
  by (auto simp: span_inv_def split: option.splits)

lemma span_inv_expired:
  assumes "span_inv t w m now n (Some (start, c))" "now \<le> now'" "now' - start \<ge> w" "0 < m"
  shows "span_inv t w m now' n None"
proof -
  have "start + w \<le> now'" using assms(3) by linarith
  with assms show ?thesis by (auto simp: span_inv_def split: if_splits)
qed

lemma span_inv_opened:
  "span_inv t w m now n None \<Longrightarrow> now \<le> now' \<Longrightarrow> 0 < m \<Longrightarrow>
     span_inv t w m now' (n + (if t \<le> now' \<and> now' < t + w then 1 else 0)) (Some (now', 1))"
  by (auto simp: span_inv_def)

lemma span_inv_counted:
  "span_inv t w m now n (Some (start, c)) \<Longrightarrow> now \<le> now' \<Longrightarrow> c < m \<Longrightarrow>
     span_inv t w m now' (n + (if t \<le> now' \<and> now' < t + w then 1 else 0)) (Some (start, c + 1))"
  by (auto simp: span_inv_def)

lemma span_inv_live:
  assumes "span_inv t (rl_window_seconds l) m now n (dict_get (rl_windows l) k)" "now \<le> now'" "0 < m"
  shows "span_inv t (rl_window_seconds l) m now' n (live_entry l now' k)"
  using assms by (auto simp: live_entry_def split: option.splits intro: span_inv_expired span_inv_kept)

abbreviation span_of :: "rat \<Rightarrow> string \<Rightarrow> rat \<Rightarrow> int \<Rightarrow> FixedWindowRateLimiter \<Rightarrow> bool" where
  "span_of t k now n l \<equiv> span_inv t (rl_window_seconds l) (rl_max_requests l) now n (dict_get (rl_windows l) k)"

lemma span_inv_step:
  assumes inv: "span_of t k now n l" and "now \<le> now'" and wf: "dict_wf (rl_windows l)"
    and M: "0 < rl_max_requests l" and call: "rl_allow source now' l = (ok, l')"
    and room: "live_entry l now' source = None \<Longrightarrow> int (length (prune now' l)) < rl_max_sources l"
  shows "span_of t k now' (n + (if source = k \<and> ok \<and> t \<le> now' \<and> now' < t + rl_window_seconds l then 1 else 0)) l'"
proof -
  note config = rl_allow_config [OF call]
  note live = span_inv_live [OF inv \<open>now \<le> now'\<close> M]
  show ?thesis
  proof (cases "k = source")
    case False
    with rl_allow_other [OF call wf False] live show ?thesis by (simp add: config)
  next
    case True
    show ?thesis
    proof (cases "live_entry l now' source")
      case None
      with rl_allow_own [OF call wf] room have "ok" "dict_get (rl_windows l') source = Some (now', 1)" by auto
      with span_inv_opened [OF live [unfolded True None] order_refl M] True show ?thesis by (simp add: config)
    next
      case (Some e)
      obtain start c where e: "e = (start, c)" by force
      note own = rl_allow_own [OF call wf, unfolded Some e]
      show ?thesis
      proof (cases "c < rl_max_requests l")
        case True
        with span_inv_counted [OF live [unfolded \<open>k = source\<close> Some e] order_refl] own \<open>k = source\<close>
        show ?thesis by (simp add: config)
      next
        case False
        with live own Some e \<open>k = source\<close> show ?thesis by (simp add: config)
      qed
    qed
  qed
qed

lemma passed_in_Cons:
  "passed_in t u k ((s, v, ok) # answers) = (if s = k \<and> ok \<and> t \<le> v \<and> v < u then 1 else 0) + passed_in t u k answers"
  by (simp add: passed_in_def)

lemma rl_run_span:
  assumes "rl_run calls l = (answers, l')" "span_of t k now n l" "dict_wf (rl_windows l)" "0 < rl_max_requests l"
    "sorted (map snd calls)" "\<forall>v \<in> snd ` set calls. now \<le> v"
    "finite S" "int (card S) \<le> rl_max_sources l" "fst ` set calls \<subseteq> S" "fst ` set (rl_windows l) \<subseteq> S"
  shows "n + int (passed_in t (t + rl_window_seconds l) k answers) \<le> 2 * rl_max_requests l"
  using assms
proof (induction calls arbitrary: l n now answers)
  case Nil
  then show ?case by (auto simp: passed_in_def dest: span_inv_bound)
next
  case (Cons call calls)
  obtain source v where call: "call = (source, v)" by force
  obtain ok l1 where allow: "rl_allow source v l = (ok, l1)" by force
  obtain answers1 where run: "rl_run calls l1 = (answers1, l')" and answers: "answers = (source, v, ok) # answers1"
    using Cons.prems(1) by (auto simp: call allow split: prod.splits)
  note config = rl_allow_config [OF allow]
  have room: "int (length (prune v l)) < rl_max_sources l" if "live_entry l v source = None"
    by (rule prune_room [OF Cons.prems(3) Cons.prems(10) Cons.prems(7,8) _ that]) (use Cons.prems(9) in \<open>simp add: call\<close>)
  have keys: "fst ` set (rl_windows l1) \<subseteq> S"
    using rl_allow_keys [OF allow] Cons.prems(9,10) by (auto simp: call)
  have "span_of t k v (n + (if source = k \<and> ok \<and> t \<le> v \<and> v < t + rl_window_seconds l then 1 else 0)) l1"
    by (rule span_inv_step [OF Cons.prems(2) _ Cons.prems(3,4) allow room]) (use Cons.prems(6) in \<open>auto simp: call\<close>)
  from Cons.IH [OF run this rl_allow_wf [OF allow Cons.prems(3)]] Cons.prems(4-9) keys
  have "n + (if source = k \<and> ok \<and> t \<le> v \<and> v < t + rl_window_seconds l then 1 else 0) +
      int (passed_in t (t + rl_window_seconds l1) k answers1) \<le> 2 * rl_max_requests l1"
    by (simp add: config call)
  moreover have "int (passed_in t (t + rl_window_seconds l) k answers) =
      (if source = k \<and> ok \<and> t \<le> v \<and> v < t + rl_window_seconds l then 1 else 0) +
      int (passed_in t (t + rl_window_seconds l) k answers1)"
    by (simp add: answers passed_in_Cons)
  ultimately show ?case unfolding config by linarith
qed

subsection \<open>Who is denied\<close>

text \<open>
  Against the answers given so far: the keys are distinct, the table is within its cap, and a
  window's count is at most the number of its source's requests that passed since it opened.
\<close>

definition limiter_inv :: "(string \<times> rat \<times> bool) list \<Rightarrow> FixedWindowRateLimiter \<Rightarrow> bool" where
  "limiter_inv answers l \<longleftrightarrow>
     dict_wf (rl_windows l) \<and> int (length (rl_windows l)) \<le> max 0 (rl_max_sources l) \<and>
     (\<forall>source start count. dict_get (rl_windows l) source = Some (start, count) \<longrightarrow>
        start \<in> (fst \<circ> snd) ` set answers \<and>
        count \<le> int (length (filter (\<lambda>(s, v, ok). s = source \<and> ok \<and> start \<le> v) answers)))"

lemma limiter_inv_init: "limiter_init m w c = Inr l \<Longrightarrow> limiter_inv [] l"
  by (auto simp: limiter_init_def limiter_inv_def split: if_splits)

lemma length_dict_set_le: "length (dict_set k v d) \<le> Suc (length d)"
  by (simp add: dict_length_set)

lemma rl_allow_length:
  assumes "rl_allow source now l = (ok, l')" "dict_wf (rl_windows l)"
    and "int (length (rl_windows l)) \<le> max 0 (rl_max_sources l)"
  shows "int (length (rl_windows l')) \<le> max 0 (rl_max_sources l')"
  using assms prune_length [of now l]
  by (auto simp: rl_allow_def Let_def dict_length_set split: option.splits if_splits)

lemma limiter_inv_step:
  assumes inv: "limiter_inv answers l" and past: "\<forall>(_, v, _) \<in> set answers. v \<le> now"
    and call: "rl_allow source now l = (ok, l')"
  shows "limiter_inv (answers @ [(source, now, ok)]) l'"
  unfolding limiter_inv_def
proof (intro conjI allI impI)
  have wf: "dict_wf (rl_windows l)" using inv by (simp add: limiter_inv_def)
  show "dict_wf (rl_windows l')" by (rule rl_allow_wf [OF call wf])
  show "int (length (rl_windows l')) \<le> max 0 (rl_max_sources l')"
    using inv by (intro rl_allow_length [OF call wf]) (simp add: limiter_inv_def)
  fix k start count assume entry: "dict_get (rl_windows l') k = Some (start, count)"
  have old: "start \<in> (fst \<circ> snd) ` set answers \<and> start \<le> now \<and>
      c \<le> int (length (filter (\<lambda>(s, v, ok). s = k \<and> ok \<and> start \<le> v) answers))"
    if "live_entry l now k = Some (start, c)" for c
    using that inv past by (fastforce simp: live_entry_def limiter_inv_def split: option.splits if_splits)
  show "start \<in> (fst \<circ> snd) ` set (answers @ [(source, now, ok)])"
    using entry old rl_allow_other [OF call wf, of k] rl_allow_own [OF call wf]
    by (cases "k = source") (fastforce split: option.splits if_splits)+
  show "count \<le> int (length (filter (\<lambda>(s, v, ok). s = k \<and> ok \<and> start \<le> v) (answers @ [(source, now, ok)])))"
    using entry old rl_allow_other [OF call wf, of k] rl_allow_own [OF call wf]
    by (cases "k = source") (fastforce split: option.splits if_splits)+
qed

lemma length_filter_imp: "(\<And>x. P x \<Longrightarrow> Q x) \<Longrightarrow> length (filter P xs) \<le> length (filter Q xs)"
  by (induction xs) auto

lemma rl_run_append:
  "rl_run (calls @ calls') l =
     (case rl_run calls l of (answers, l1) \<Rightarrow> (case rl_run calls' l1 of (answers', l2) \<Rightarrow> (answers @ answers', l2)))"
  by (induction calls l rule: rl_run.induct) (auto split: prod.splits)

lemma rl_run_times: "rl_run calls l = (answers, l') \<Longrightarrow> map (\<lambda>(s, v, _). (s, v)) answers = calls"
  by (induction calls l arbitrary: answers l' rule: rl_run.induct) (auto split: prod.splits)

lemma rl_run_config:
  "rl_run calls l = (answers, l') \<Longrightarrow>
     rl_max_requests l' = rl_max_requests l \<and> rl_window_seconds l' = rl_window_seconds l \<and>
     rl_max_sources l' = rl_max_sources l"
proof (induction calls l arbitrary: answers l' rule: rl_run.induct)
  case (2 source now calls l)
  obtain ok l1 where allow: "rl_allow source now l = (ok, l1)" by force
  obtain rest l2 where run: "rl_run calls l1 = (rest, l2)" by force
  with 2 allow have "l' = l2" by simp
  with 2(1) [OF allow [symmetric] run] rl_allow_config [OF allow] show ?case by simp
qed simp

lemma limiter_inv_run:
  "rl_run calls l = (answers, l') \<Longrightarrow> limiter_inv [] l \<Longrightarrow> sorted (map snd calls) \<Longrightarrow> limiter_inv answers l'"
proof (induction calls arbitrary: answers l' rule: rev_induct)
  case Nil
  then show ?case by simp
next
  case (snoc call calls)
  obtain source v where call: "call = (source, v)" by force
  obtain answers1 l1 where run: "rl_run calls l = (answers1, l1)" by force
  obtain ok l2 where allow: "rl_allow source v l1 = (ok, l2)" by force
  have "answers = answers1 @ [(source, v, ok)]" "l' = l2"
    using snoc.prems(1) by (simp_all add: call rl_run_append run allow)
  moreover have "limiter_inv answers1 l1" using snoc run by (simp add: sorted_append)
  moreover have "\<forall>(_, u, _) \<in> set answers1. u \<le> v"
  proof clarify
    fix s u ok' assume "(s, u, ok') \<in> set answers1"
    then have "(s, u) \<in> set (map (\<lambda>(s, v, _). (s, v)) answers1)" by force
    with rl_run_times [OF run] snoc.prems(3) show "u \<le> v" by (fastforce simp: sorted_append call)
  qed
  ultimately show ?case using limiter_inv_step [OF _ _ allow] by simp
qed

subsection \<open>Properties\<close>

text \<open>
  (C26) As long as the sources seen fit the table, no source gets
  more than twice its budget through in any span of one window's length, wherever the span
  starts and however the requests of all sources interleave.
\<close>

theorem rate_limit_bounds_every_source:
  assumes "limiter_init max_requests window_seconds max_sources = Inr l"
    and "rl_run calls l = (answers, l')" and "sorted (map snd calls)"
    and "int (card (fst ` set calls)) \<le> max_sources"
  shows "int (passed_in t (t + window_seconds) source answers) \<le> 2 * max_requests"
proof -
  have l: "l = \<lparr>rl_max_requests = max_requests, rl_window_seconds = window_seconds,
      rl_max_sources = max_sources, rl_windows = []\<rparr>" "0 < max_requests"
    using assms(1) by (auto simp: limiter_init_def split: if_splits)
  show ?thesis
  proof (cases calls)
    case Nil
    with assms(2) l show ?thesis by (simp add: passed_in_def)
  next
    case (Cons c cs)
    have "span_of t source (snd c) 0 l" using l(2) by (simp add: l(1) span_inv_def)
    from rl_run_span [OF assms(2) this, of "fst ` set calls"] assms(3,4) Cons l show ?thesis by simp
  qed
qed

theorem rate_limit_bounds_every_source_witness:
  "int (passed_in 30 90 ''a'' (fst (rl_run [(''a'', 0), (''a'', 1), (''b'', 2), (''a'', 61)]
     \<lparr>rl_max_requests = 1, rl_window_seconds = 60, rl_max_sources = 2, rl_windows = []\<rparr>))) \<le> 2"
proof -
  have "int (card (fst ` set [(''a'', 0 :: rat), (''a'', 1), (''b'', 2), (''a'', 61)])) \<le> 2"
    by (simp add: card_insert_if)
  then show ?thesis
    using rate_limit_bounds_every_source [of 1 60 2 _ "[(''a'', 0), (''a'', 1), (''b'', 2), (''a'', 61)]" _ _ 30 "''a''",
        OF _ surjective_pairing]
    by (simp add: limiter_init_def)
qed

text \<open>
  (C27) A request is denied only when its own source already
  had its whole budget let through within the last window: no amount of traffic from other
  sources, and no full table, makes the limiter refuse. The table never grows past its cap.
\<close>

theorem rate_limit_denies_only_heavy_sources:
  assumes "limiter_init max_requests window_seconds max_sources = Inr l"
    and "rl_run calls l = (answers, l')" and "sorted (map snd calls @ [now])"
  shows "(\<not> fst (rl_allow source now l') \<longrightarrow>
            max_requests \<le> int (length (filter (\<lambda>(s, v, ok). s = source \<and> ok \<and> now - window_seconds < v) answers)))
         \<and> int (length (rl_windows l')) \<le> max 0 max_sources"
proof (intro conjI impI)
  have inv: "limiter_inv answers l'"
    using assms by (intro limiter_inv_run [OF assms(2) limiter_inv_init [OF assms(1)]]) (simp add: sorted_append)
  have config: "rl_max_requests l' = max_requests" "rl_window_seconds l' = window_seconds"
    "rl_max_sources l' = max_sources"
    using rl_run_config [OF assms(2)] assms(1) by (auto simp: limiter_init_def split: if_splits)
  show "int (length (rl_windows l')) \<le> max 0 max_sources" using inv by (simp add: limiter_inv_def config)
  assume denied: "\<not> fst (rl_allow source now l')"
  have wf: "dict_wf (rl_windows l')" using inv by (simp add: limiter_inv_def)
  from rl_allow_own [OF surjective_pairing wf, of source now] denied config
  obtain start count where live: "live_entry l' now source = Some (start, count)" and full: "max_requests \<le> count"
    by (auto split: option.splits if_splits)
  from live have entry: "dict_get (rl_windows l') source = Some (start, count)" and young: "now - window_seconds < start"
    by (auto simp: live_entry_def config split: option.splits if_splits)
  have "count \<le> int (length (filter (\<lambda>(s, v, ok). s = source \<and> ok \<and> start \<le> v) answers))"
    using inv entry by (simp add: limiter_inv_def)
  also have "\<dots> \<le> int (length (filter (\<lambda>(s, v, ok). s = source \<and> ok \<and> now - window_seconds < v) answers))"
    using young by (intro of_nat_mono length_filter_imp) auto
  finally show "max_requests \<le> int (length (filter (\<lambda>(s, v, ok). s = source \<and> ok \<and> now - window_seconds < v) answers))"
    using full by simp
qed

theorem rate_limit_denies_only_heavy_sources_witness:
  "\<not> fst (rl_allow ''a'' 5 (snd (rl_run [(''a'', 0), (''b'', 2)]
       \<lparr>rl_max_requests = 1, rl_window_seconds = 60, rl_max_sources = 2, rl_windows = []\<rparr>))) \<and>
   1 \<le> int (length (filter (\<lambda>(s, v, ok). s = ''a'' \<and> ok \<and> 5 - 60 < v) (fst (rl_run [(''a'', 0), (''b'', 2)]
       \<lparr>rl_max_requests = 1, rl_window_seconds = 60, rl_max_sources = 2, rl_windows = []\<rparr>))))"
proof -
  have denied: "\<not> fst (rl_allow ''a'' 5 (snd (rl_run [(''a'', 0), (''b'', 2)]
       \<lparr>rl_max_requests = 1, rl_window_seconds = 60, rl_max_sources = 2, rl_windows = []\<rparr>)))"
    by (simp add: rl_allow_def prune_def)
  have init: "limiter_init 1 60 2 = Inr \<lparr>rl_max_requests = 1, rl_window_seconds = 60, rl_max_sources = 2, rl_windows = []\<rparr>"
    by (simp add: limiter_init_def)
  from rate_limit_denies_only_heavy_sources [OF init surjective_pairing, of "[(''a'', 0), (''b'', 2)]" 5 "''a''"] denied
  show ?thesis by simp
qed

text \<open>
  What stands to the left of the hop that decides, which is all
  that a client can put into \<^verbatim>\<open>X-Forwarded-For\<close>, does not choose the source: with any prefix the
  request is counted under that hop, or under the peer when the header grows too long. Without
  trusted proxies, or from a peer that is not one, the header has no influence at all.
\<close>

theorem forwarded_chain_prefix_is_inert:
  assumes "ip_address peer = Some peer_address"
  shows "(if is_trusted in_network trusted_proxies peer_address
          then resolve_rate_limit_source ip_address in_network show_address peer (Some chain) trusted_proxies = Inr hop
                 \<and> hop \<noteq> peer \<longrightarrow>
               resolve_rate_limit_source ip_address in_network show_address peer
                 (Some (prefix @ '','' @ chain)) trusted_proxies \<in> {Inr hop, Inr peer}
          else resolve_rate_limit_source ip_address in_network show_address peer forwarded trusted_proxies = Inr peer)"
proof -
  have walk: "first_untrusted ip_address trusted show_address peer (xs @ ys) =
      first_untrusted ip_address trusted show_address peer xs"
    if "first_untrusted ip_address trusted show_address peer xs \<noteq> peer" for trusted xs ys
    using that by (induction xs) (auto split: option.splits)
  show ?thesis
    using assms by (auto simp: resolve_rate_limit_source_def split_on_append_sep walk split: if_splits)
qed

end
