(* ===== verification/LocalHttp.thy ===== *)
theory LocalHttp
  imports AuditHttp Idempotency RateLimit
begin

section \<open>The HTTP server\<close>

text \<open>
  \<^verbatim>\<open>src/vinctor_service/local_http.py\<close> over the in-memory service: the rate gate, reading a body,
  resolving keys (with OIDC tokens as a second source of identities), the routes, and the answers.
  A request is what \<^verbatim>\<open>http.server\<close> and \<^verbatim>\<open>urlsplit\<close> make of it: method, path, parsed query, headers in
  the order received, and the bytes that follow. \<open>server\<close> holds what \<^verbatim>\<open>create_v1_http_handler\<close>
  captures. The functions of other libraries are among its fields: \<open>cf_loads\<close> is
  \<^verbatim>\<open>json.loads(raw.decode("utf-8"))\<close>, \<open>cf_oidc\<close> the verifier of OIDC tokens, \<open>cf_source\<close> is
  \<^verbatim>\<open>resolve_rate_limit_source\<close> at the configured proxies.

  An answer is the response sent, or the exception that leaves the handler; then the connection is
  closed without a response.
\<close>

subsection \<open>Configuration and requests\<close>

record OidcPrincipal =
  op_subject :: string
  op_workspace_id :: "string option"
  op_roles :: "string list"

datatype decoded = Decoded pyobj | NotJson | DecodeRaises exn

record server =
  cf_agent_keys :: "(string, AgentIdentity) dict"
  cf_workspace_keys :: "(string, WorkspaceIdentity) dict"
  cf_auditor_keys :: "(string, WorkspaceIdentity) dict"
  cf_service_keys :: "string list"
  cf_pep_keys :: "(string, PepIdentity) dict"
  cf_agent_identity_resolver :: "AgentIdentity resolver"
  cf_workspace_identity_resolver :: "WorkspaceIdentity resolver"
  cf_auditor_identity_resolver :: "WorkspaceIdentity resolver"
  cf_service_operator_resolver :: "(string \<Rightarrow> instant \<Rightarrow> bool) option"
  cf_pep_identity_resolver :: "PepIdentity resolver"
  cf_oidc :: "(string \<Rightarrow> OidcPrincipal option) option"
  cf_service_mode :: string
  cf_metrics :: "string option"
  cf_ready :: "exn + bool"
  cf_pop_skew_env :: "string option"
  cf_max_ttl_env :: "string option"
  cf_source :: "string \<Rightarrow> string option \<Rightarrow> exn + string"
  cf_loads :: "bytes \<Rightarrow> decoded"
  cf_list_auth_failures :: "int \<Rightarrow> AuditEvent list"
  cf_grant_filter_order :: "string list"
  cf_audit_filter_order :: "string list"
  cf_request_field_order :: "string list"

record http_request =
  rq_method :: string
  rq_path :: string
  rq_params :: query_params
  rq_headers :: "(string \<times> string) list"
  rq_payload :: bytes
  rq_peer :: string

datatype reply = JsonReply PreSerializedHttpResponse | TextReply int string | RateLimited

definition DEFAULT_SUBJECT_TOKEN_POP_SKEW_SECONDS :: int where
  "DEFAULT_SUBJECT_TOKEN_POP_SKEW_SECONDS = 30"

definition MAX_BODY_BYTES :: int where
  "MAX_BODY_BYTES = 64 * 1024"

definition resolve_pop_skew_seconds :: "server \<Rightarrow> int" where
  "resolve_pop_skew_seconds cf =
     (case cf_pop_skew_env cf of
        None \<Rightarrow> DEFAULT_SUBJECT_TOKEN_POP_SKEW_SECONDS
      | Some raw \<Rightarrow> (case py_int raw of None \<Rightarrow> DEFAULT_SUBJECT_TOKEN_POP_SKEW_SECONDS | Some n \<Rightarrow> n))"

definition resolve_rate_limit :: "string option \<Rightarrow> int option" where
  "resolve_rate_limit raw =
     (case raw of
        None \<Rightarrow> None
      | Some raw \<Rightarrow> (case py_int raw of None \<Rightarrow> None | Some v \<Rightarrow> if v > 0 then Some v else None))"

subsection \<open>Headers\<close>

text \<open>\<^verbatim>\<open>dict(handler.headers.items())\<close>, \<^verbatim>\<open>handler.headers.get\<close> and \<^verbatim>\<open>handler.headers.get_all\<close>.\<close>

definition header_dict :: "http_request \<Rightarrow> (string, string) dict" where
  "header_dict rq = fold (\<lambda>(k, v) d. dict_set k v d) (rq_headers rq) []"

definition header_get :: "http_request \<Rightarrow> string \<Rightarrow> string option" where
  "header_get rq name = map_option snd (find_first (\<lambda>(k, _). py_lower k = py_lower name) (rq_headers rq))"

definition header_get_all :: "http_request \<Rightarrow> string \<Rightarrow> string list option" where
  "header_get_all rq name =
     (case map snd (filter (\<lambda>(k, _). py_lower k = py_lower name) (rq_headers rq)) of [] \<Rightarrow> None | vs \<Rightarrow> Some vs)"

definition LOCAL_HEADERS :: "string list" where
  "LOCAL_HEADERS = [''x-workspace-key'', ''x-auditor-key'', ''x-service-operator-key'', ''x-agent-key'']"

text \<open>A bearer token stands in for the key of the route when the request carries no key of its own.\<close>

definition authorization_headers :: "http_request \<Rightarrow> string \<Rightarrow> (string, string) dict" where
  "authorization_headers rq target_header =
     (let headers = header_dict rq; normalized = normalized_headers headers
      in if \<exists>h\<in>set LOCAL_HEADERS. dict_get normalized h \<noteq> None then headers
         else (case partition_on (CHR '' '') (case dict_get normalized ''authorization'' of None \<Rightarrow> [] | Some v \<Rightarrow> v) of
                 (scheme, separator, token) \<Rightarrow>
                   if py_lower scheme = ''bearer'' \<and> separator \<noteq> [] \<and> token \<noteq> [] \<and> CHR '' '' \<notin> set token
                   then dict_set target_header token headers
                   else headers))"

subsection \<open>Bodies\<close>

datatype body_result = BodyRaises exn | BodyError V1HttpResponse | Body pyobj

definition read_json_body :: "server \<Rightarrow> http_request \<Rightarrow> body_result" where
  "read_json_body cf rq =
     (case py_int (py_or (header_get rq ''Content-Length'') ''0'') of
        None \<Rightarrow> BodyError (bad_request ''Content-Length must be an integer'')
      | Some len \<Rightarrow>
          if len < 0 then BodyError (bad_request ''Content-Length must not be negative'')
          else if len > MAX_BODY_BYTES
          then BodyError (http_error 413 ''payload_too_large''
                 (''request body must not exceed '' @ py_str_int MAX_BODY_BYTES @ '' bytes''))
          else (case cf_loads cf (take (nat (min len MAX_BODY_BYTES)) (rq_payload rq)) of
                  Decoded v \<Rightarrow> Body v
                | NotJson \<Rightarrow> BodyError (http_error 400 ''invalid_json'' ''request body must be valid JSON'')
                | DecodeRaises e \<Rightarrow> BodyRaises e))"

definition read_optional_json_body :: "server \<Rightarrow> http_request \<Rightarrow> body_result" where
  "read_optional_json_body cf rq =
     (if header_get rq ''Content-Length'' \<in> {None, Some ''0''} then Body PNone else read_json_body cf rq)"

subsection \<open>Identities\<close>

definition oidc_workspace :: "server \<Rightarrow> string list \<Rightarrow> string \<Rightarrow> WorkspaceIdentity option" where
  "oidc_workspace cf accepted raw_key =
     (case cf_oidc cf of
        None \<Rightarrow> None
      | Some verify \<Rightarrow>
          (case verify raw_key of
             None \<Rightarrow> None
           | Some who \<Rightarrow>
               (case op_workspace_id who of
                  None \<Rightarrow> None
                | Some w \<Rightarrow>
                    if set (op_roles who) \<inter> set accepted = {} then None else Some \<lparr>wi_workspace_id = w\<rparr>)))"

definition resolve_workspace_identity :: "server \<Rightarrow> string \<Rightarrow> instant \<Rightarrow> WorkspaceIdentity option" where
  "resolve_workspace_identity cf raw_key used_at =
     (case (case cf_workspace_identity_resolver cf of
              Some r \<Rightarrow> r raw_key used_at | None \<Rightarrow> dict_get (cf_workspace_keys cf) raw_key) of
        Some identity \<Rightarrow> Some identity
      | None \<Rightarrow> oidc_workspace cf [''operator''] raw_key)"

definition resolve_auditor_identity :: "server \<Rightarrow> string \<Rightarrow> instant \<Rightarrow> WorkspaceIdentity option" where
  "resolve_auditor_identity cf raw_key used_at =
     (case (case cf_auditor_identity_resolver cf of
              Some r \<Rightarrow> r raw_key used_at | None \<Rightarrow> dict_get (cf_auditor_keys cf) raw_key) of
        Some identity \<Rightarrow> Some identity
      | None \<Rightarrow> oidc_workspace cf [''operator'', ''auditor''] raw_key)"

definition resolve_service_operator :: "server \<Rightarrow> string \<Rightarrow> instant \<Rightarrow> bool" where
  "resolve_service_operator cf raw_key used_at =
     ((case cf_service_operator_resolver cf of
         Some r \<Rightarrow> r raw_key used_at | None \<Rightarrow> raw_key \<in> set (cf_service_keys cf)) \<or>
      (case cf_oidc cf of
         None \<Rightarrow> False
       | Some verify \<Rightarrow>
           (case verify raw_key of None \<Rightarrow> False | Some who \<Rightarrow> ''service_operator'' \<in> set (op_roles who))))"

abbreviation server_agent :: "server \<Rightarrow> (string, string) dict \<Rightarrow> instant \<Rightarrow> AgentIdentity option" where
  "server_agent cf headers now \<equiv>
     agent_identity headers (Some (cf_agent_keys cf)) (cf_agent_identity_resolver cf) now"

abbreviation server_workspace :: "server \<Rightarrow> (string, string) dict \<Rightarrow> instant \<Rightarrow> WorkspaceIdentity option" where
  "server_workspace cf headers now \<equiv>
     workspace_identity headers (Some (cf_workspace_keys cf)) (Some (resolve_workspace_identity cf)) now"

subsection \<open>Answers\<close>

type_synonym answer = "(exn + reply) \<times> InMemoryV1Service"

definition send_json :: "http_result \<Rightarrow> answer" where
  "send_json r = (map_sum id (\<lambda>response. JsonReply (encode_json_response response)) (fst r), snd r)"

abbreviation send_response :: "V1HttpResponse \<Rightarrow> InMemoryV1Service \<Rightarrow> answer" where
  "send_response r s \<equiv> send_json (respond r s)"

definition method_required :: "string \<Rightarrow> string \<Rightarrow> V1HttpResponse" where
  "method_required verb path = http_error 405 ''method_not_allowed'' (verb @ '' is required for '' @ path)"

definition with_body :: "body_result \<Rightarrow> (pyobj \<Rightarrow> answer) \<Rightarrow> InMemoryV1Service \<Rightarrow> answer" where
  "with_body body k s =
     (case body of BodyRaises e \<Rightarrow> (Inl e, s) | BodyError r \<Rightarrow> send_response r s | Body v \<Rightarrow> k v)"

text \<open>
  \<^verbatim>\<open>_send_idempotent_mutation\<close>: the in-memory service has no \<^verbatim>\<open>execute_idempotent\<close>, so the mutation
  is never run.
\<close>

definition send_idempotent_mutation ::
  "string \<Rightarrow> string \<Rightarrow> string \<Rightarrow> string \<Rightarrow> string \<Rightarrow> string list \<Rightarrow> InMemoryV1Service \<Rightarrow> answer" where
  "send_idempotent_mutation path workspace_id actor operation request_body idempotency_headers s =
     (case execute_idempotent_http None
             \<lparr>rf_method = ''POST'', rf_path = path, rf_authenticated_workspace_id = workspace_id,
              rf_authenticated_principal = actor, rf_operation = operation, rf_request_body = request_body\<rparr>
             idempotency_headers () s of
        (Inr r, s') \<Rightarrow> (Inr (JsonReply r), s')
      | (Inl e, s') \<Rightarrow> (Inl (case e of MutationRaised x \<Rightarrow> x | _ \<Rightarrow> OtherException ''OverflowError''), s'))"

subsection \<open>Routes\<close>

definition health_response :: "string \<Rightarrow> string \<Rightarrow> V1HttpResponse" where
  "health_response verb service_mode =
     (if verb \<noteq> ''GET'' then method_required ''GET'' ''/healthz''
      else \<lparr>hr_status_code = 200,
            hr_body = [(''status'', JStr ''ok''), (''service'', JStr ''vinctor-service''), (''mode'', JStr service_mode)]\<rparr>)"

definition readiness_response :: "string \<Rightarrow> exn + bool \<Rightarrow> V1HttpResponse" where
  "readiness_response verb check =
     (if verb \<noteq> ''GET'' then method_required ''GET'' ''/readyz''
      else let ready = (case check of Inl _ \<Rightarrow> False | Inr b \<Rightarrow> b)
           in \<lparr>hr_status_code = if ready then 200 else 503,
               hr_body = [(''status'', JStr (if ready then ''ready'' else ''unavailable'')),
                          (''service'', JStr ''vinctor-service'')]\<rparr>)"

definition handle_metrics_request :: "server \<Rightarrow> string \<Rightarrow> InMemoryV1Service \<Rightarrow> answer" where
  "handle_metrics_request cf verb s =
     (case cf_metrics cf of
        None \<Rightarrow> send_response route_not_found s
      | Some rendered \<Rightarrow>
          if verb \<noteq> ''GET'' then send_response (method_required ''GET'' ''/metrics'') s
          else (Inr (TextReply 200 rendered), s))"

definition handle_enforce_request :: "server \<Rightarrow> http_request \<Rightarrow> instant \<Rightarrow> entropy \<Rightarrow> InMemoryV1Service \<Rightarrow> answer" where
  "handle_enforce_request cf rq now rnd s =
     (if rq_method rq \<noteq> ''POST'' then send_response (method_required ''POST'' ''/v1/enforce'') s
      else with_body (read_json_body cf rq) (\<lambda>body. send_json
             (handle_v1_enforce_http (header_dict rq) body (Some (cf_agent_keys cf)) (cf_agent_identity_resolver cf)
                now rnd s)) s)"

definition handle_observe_request :: "server \<Rightarrow> http_request \<Rightarrow> instant \<Rightarrow> entropy \<Rightarrow> InMemoryV1Service \<Rightarrow> answer" where
  "handle_observe_request cf rq now rnd s =
     (if rq_method rq \<noteq> ''POST'' then send_response (method_required ''POST'' ''/v1/observe'') s
      else with_body (read_json_body cf rq) (\<lambda>body. send_json
             (handle_v1_observe_http (header_dict rq) body (Some (cf_agent_keys cf)) (cf_agent_identity_resolver cf)
                now rnd s)) s)"

definition handle_simulate_request :: "server \<Rightarrow> http_request \<Rightarrow> instant \<Rightarrow> entropy \<Rightarrow> InMemoryV1Service \<Rightarrow> answer" where
  "handle_simulate_request cf rq now rnd s =
     (if rq_method rq \<noteq> ''POST'' then send_response (method_required ''POST'' ''/v1/simulate'') s
      else with_body (read_json_body cf rq) (\<lambda>body. send_json
             (handle_v1_simulate_http (header_dict rq) body (Some (cf_agent_keys cf)) (cf_agent_identity_resolver cf)
                now rnd s)) s)"

definition handle_delegated_enforce_request ::
  "server \<Rightarrow> http_request \<Rightarrow> instant \<Rightarrow> entropy \<Rightarrow> InMemoryV1Service \<Rightarrow> answer" where
  "handle_delegated_enforce_request cf rq now rnd s =
     (if rq_method rq \<noteq> ''POST'' then send_response (method_required ''POST'' ''/v1/enforce/delegated'') s
      else with_body (read_json_body cf rq) (\<lambda>body. send_json
             (handle_v1_delegated_enforce_http (header_dict rq) body (Some (cf_pep_keys cf))
                (cf_pep_identity_resolver cf) now (resolve_pop_skew_seconds cf) rnd s)) s)"

definition handle_tokens_request ::
  "server \<Rightarrow> http_request \<Rightarrow> string list option \<Rightarrow> instant \<Rightarrow> entropy \<Rightarrow> InMemoryV1Service \<Rightarrow> answer" where
  "handle_tokens_request cf rq idempotency_headers now rnd s =
     (if rq_method rq \<noteq> ''POST'' then send_response (method_required ''POST'' ''/v1/tokens'') s
      else with_body (read_json_body cf rq) (\<lambda>body.
        (case (case cf_max_ttl_env cf of None \<Rightarrow> Some DEFAULT_SUBJECT_TOKEN_MAX_TTL_SECONDS | Some raw \<Rightarrow> py_int raw) of
           None \<Rightarrow> (Inl (ValueError ''invalid literal for int()''), s)
         | Some max_ttl \<Rightarrow>
             (let headers = header_dict rq;
                  mutate = send_json (handle_v1_tokens_http headers body (Some (cf_agent_keys cf))
                             (cf_agent_identity_resolver cf) now max_ttl rnd s)
              in case (idempotency_headers, server_agent cf headers now) of
                   (Some keys, Some scope) \<Rightarrow>
                     (case parse_v1_token_mint_body body max_ttl of
                        Inl r \<Rightarrow> send_response r s
                      | Inr parsed \<Rightarrow>
                          send_idempotent_mutation ''/v1/tokens'' (ai_workspace_id scope)
                            (''agent:'' @ ai_agent_id scope) ''subject_token.mint.v1''
                            (json_compact (JObj
                               [(''grant_ref'', JStr (tm_grant_ref parsed)), (''audience'', JStr (tm_audience parsed)),
                                (''ttl_seconds'', JInt (tm_ttl_seconds parsed)),
                                (''action'', json_opt (tm_bound_action parsed)),
                                (''resource'', json_opt (tm_bound_resource parsed)), (''pop'', JBool (tm_pop parsed))]))
                            keys s)
                 | _ \<Rightarrow> mutate))) s)"

definition handle_boundary_request ::
  "server \<Rightarrow> http_request \<Rightarrow> string list option \<Rightarrow> instant \<Rightarrow> instant \<Rightarrow> entropy \<Rightarrow> InMemoryV1Service \<Rightarrow> answer" where
  "handle_boundary_request cf rq idempotency_headers now wall rnd s =
     (let create = (rq_method rq = ''POST'' \<and> rq_path rq = ''/v1/boundaries'')
      in with_body (if create then read_json_body cf rq else Body PNone) (\<lambda>body.
        (let headers = authorization_headers rq ''X-Workspace-Key'';
             mutate = send_json (handle_v1_boundaries_http (rq_method rq) (rq_path rq) headers body
                        (Some (cf_workspace_keys cf)) (Some (resolve_workspace_identity cf)) now wall rnd s)
         in if \<not> create then mutate
            else case (idempotency_headers, server_workspace cf headers now) of
                   (Some keys, Some scope) \<Rightarrow>
                     (case parse_v1_boundary_create_body body of
                        Inl r \<Rightarrow> send_response r s
                      | Inr parsed \<Rightarrow>
                          send_idempotent_mutation (rq_path rq) (wi_workspace_id scope) (workspace_principal scope)
                            ''boundary.create.v1''
                            (json_compact (JObj
                               [(''name'', JStr (pb_name parsed)), (''runtime'', JStr (pb_runtime parsed)),
                                (''boundary_type'', JStr (pb_boundary_type parsed)), (''mode'', JStr (pb_mode parsed))]))
                            keys s)
                 | _ \<Rightarrow> mutate)) s)"

definition handle_auto_approval_rule_request ::
  "server \<Rightarrow> http_request \<Rightarrow> string list option \<Rightarrow> instant \<Rightarrow> entropy \<Rightarrow> InMemoryV1Service \<Rightarrow> answer" where
  "handle_auto_approval_rule_request cf rq idempotency_headers now rnd s =
     (let create = (rq_method rq = ''POST'' \<and> rq_path rq = ''/v1/auto-approval-rules'')
      in with_body (if create then read_json_body cf rq else Body PNone) (\<lambda>body.
        (let headers = authorization_headers rq ''X-Workspace-Key'';
             mutate = send_json (handle_v1_auto_approval_rules_http (rq_method rq) (rq_path rq) headers body
                        (Some (cf_workspace_keys cf)) (Some (resolve_workspace_identity cf)) now rnd s)
         in if \<not> create then mutate
            else case (idempotency_headers, server_workspace cf headers now) of
                   (Some keys, Some scope) \<Rightarrow>
                     (case parse_v1_auto_approval_rule_create_body body of
                        Inl r \<Rightarrow> send_response r s
                      | Inr parsed \<Rightarrow>
                          send_idempotent_mutation (rq_path rq) (wi_workspace_id scope) (workspace_principal scope)
                            ''auto_approval_rule.create.v1''
                            (json_compact (JObj
                               [(''name'', JStr (pcr_name parsed)), (''target_agent_id'', JStr (pcr_target_agent_id parsed)),
                                (''allowed_scopes'', json_strings (pcr_allowed_scopes parsed)),
                                (''max_ttl_seconds'', JInt (pcr_max_ttl_seconds parsed))]))
                            keys s)
                 | _ \<Rightarrow> mutate)) s)"

definition grant_request_idempotency_operation :: "string \<Rightarrow> string \<Rightarrow> string option" where
  "grant_request_idempotency_operation verb path =
     (if verb \<noteq> ''POST'' \<or> \<not> startswith path ''/v1/grant-requests/'' then None
      else case split_on (CHR ''/'') (removeprefix path ''/v1/grant-requests/'') of
             [request_id, action] \<Rightarrow>
               if request_id = [] then None
               else dict_get [(''approve'', ''grant_request.approve.v1''), (''reject'', ''grant_request.reject.v1''),
                              (''auto-approve'', ''grant_request.auto_approve.v1'')] action
           | _ \<Rightarrow> None)"

definition handle_grant_request_request ::
  "server \<Rightarrow> http_request \<Rightarrow> string list option \<Rightarrow> instant \<Rightarrow> entropy \<Rightarrow> InMemoryV1Service \<Rightarrow> answer" where
  "handle_grant_request_request cf rq idempotency_headers now rnd s =
     with_body (if rq_method rq = ''POST'' then read_optional_json_body cf rq else Body PNone) (\<lambda>body.
       (let headers = authorization_headers rq ''X-Workspace-Key'';
            mutate = send_json (handle_v1_grant_requests_http (cf_request_field_order cf) (rq_method rq) (rq_path rq)
                       headers body (Some (cf_agent_keys cf)) (Some (cf_workspace_keys cf))
                       (cf_agent_identity_resolver cf) (Some (resolve_workspace_identity cf)) now rnd s)
        in case (idempotency_headers, grant_request_idempotency_operation (rq_method rq) (rq_path rq),
                 server_workspace cf headers now) of
             (Some keys, Some operation, Some scope) \<Rightarrow>
               (if split_on (CHR ''/'') (removeprefix (rq_path rq) ''/v1/grant-requests/'') ! 1 = ''auto-approve''
                then (case parse_v1_grant_request_auto_approve_body body of
                        Inl r \<Rightarrow> send_response r s
                      | Inr _ \<Rightarrow>
                          send_idempotent_mutation (rq_path rq) (wi_workspace_id scope) (workspace_principal scope)
                            operation [] keys s)
                else (case parse_v1_grant_request_decision_body body of
                        Inl r \<Rightarrow> send_response r s
                      | Inr decision_reason \<Rightarrow>
                          send_idempotent_mutation (rq_path rq) (wi_workspace_id scope) (workspace_principal scope)
                            operation (json_compact (JObj [(''decision_reason'', json_opt decision_reason)])) keys s))
           | _ \<Rightarrow> mutate)) s"

definition handle_grant_request ::
  "server \<Rightarrow> http_request \<Rightarrow> string list option \<Rightarrow> instant \<Rightarrow> entropy \<Rightarrow> InMemoryV1Service \<Rightarrow> answer" where
  "handle_grant_request cf rq idempotency_headers now rnd s =
     (let create = (rq_method rq = ''POST'' \<and> rq_path rq = ''/v1/grants'')
      in with_body (if create then read_json_body cf rq else Body PNone) (\<lambda>body.
        (let headers = authorization_headers rq ''X-Workspace-Key'';
             mutate = send_json (handle_v1_grants_http (cf_grant_filter_order cf) (rq_method rq) (rq_path rq) headers
                        body (rq_params rq) (Some (cf_workspace_keys cf)) (Some (resolve_workspace_identity cf)) now rnd s)
         in if \<not> create then mutate
            else case (idempotency_headers, server_workspace cf headers now) of
                   (Some keys, Some scope) \<Rightarrow>
                     (case parse_v1_grant_issue_body body of
                        Inl r \<Rightarrow> send_response r s
                      | Inr parsed \<Rightarrow>
                          send_idempotent_mutation (rq_path rq) (wi_workspace_id scope) (workspace_principal scope)
                            ''grant.issue.v1''
                            (json_compact (JObj
                               [(''agent_id'', JStr (pg_agent_id parsed)), (''scopes'', json_strings (pg_scopes parsed)),
                                (''ttl_seconds'', JInt (pg_ttl_seconds parsed))]))
                            keys s)
                 | _ \<Rightarrow> mutate)) s)"

definition handle_audit_request :: "server \<Rightarrow> http_request \<Rightarrow> instant \<Rightarrow> InMemoryV1Service \<Rightarrow> answer" where
  "handle_audit_request cf rq now s =
     send_json (handle_v1_audit_events_http (cf_audit_filter_order cf) (rq_method rq) (rq_path rq) (rq_params rq)
        (authorization_headers rq ''X-Auditor-Key'') (Some (cf_workspace_keys cf)) (Some (resolve_workspace_identity cf))
        (Some (cf_auditor_keys cf)) (Some (resolve_auditor_identity cf)) now s, s)"

definition handle_service_auth_failures_request ::
  "server \<Rightarrow> http_request \<Rightarrow> instant \<Rightarrow> InMemoryV1Service \<Rightarrow> answer" where
  "handle_service_auth_failures_request cf rq now s =
     send_response (handle_v1_service_auth_failures_http (rq_method rq) (rq_path rq) (rq_params rq)
        (authorization_headers rq ''X-Service-Operator-Key'') (Some (cf_service_keys cf))
        (Some (resolve_service_operator cf)) (cf_list_auth_failures cf) now) s"

definition under :: "string \<Rightarrow> string \<Rightarrow> bool" where
  "under path collection \<longleftrightarrow> path = collection \<or> startswith path (collection @ ''/'')"

definition handle_request ::
  "server \<Rightarrow> http_request \<Rightarrow> string list option \<Rightarrow> instant \<Rightarrow> instant \<Rightarrow> entropy \<Rightarrow> InMemoryV1Service \<Rightarrow> answer" where
  "handle_request cf rq idempotency_headers now wall rnd s =
     (let path = rq_path rq
      in if path = ''/healthz'' then send_response (health_response (rq_method rq) (cf_service_mode cf)) s
         else if path = ''/readyz'' then send_response (readiness_response (rq_method rq) (cf_ready cf)) s
         else if path = ''/metrics'' then handle_metrics_request cf (rq_method rq) s
         else if path = ''/v1/enforce/delegated'' then handle_delegated_enforce_request cf rq now rnd s
         else if path = ''/v1/enforce'' then handle_enforce_request cf rq now rnd s
         else if path = ''/v1/observe'' then handle_observe_request cf rq now rnd s
         else if path = ''/v1/simulate'' then handle_simulate_request cf rq now rnd s
         else if path = ''/v1/tokens'' then handle_tokens_request cf rq idempotency_headers now rnd s
         else if under path ''/v1/boundaries'' then handle_boundary_request cf rq idempotency_headers now wall rnd s
         else if under path ''/v1/auto-approval-rules''
         then handle_auto_approval_rule_request cf rq idempotency_headers now rnd s
         else if under path ''/v1/grant-requests''
         then handle_grant_request_request cf rq idempotency_headers now rnd s
         else if under path ''/v1/grants'' then handle_grant_request cf rq idempotency_headers now rnd s
         else if under path ''/v1/audit-events'' then handle_audit_request cf rq now s
         else if path = ''/v1/service/audit/auth-failures'' then handle_service_auth_failures_request cf rq now s
         else send_response route_not_found s)"

subsection \<open>The rate gate and dispatch\<close>

definition RATE_LIMIT_EXEMPT_PATHS :: "string list" where
  "RATE_LIMIT_EXEMPT_PATHS = [''/healthz'']"

definition check_rate_limit ::
  "server \<Rightarrow> http_request \<Rightarrow> rat \<Rightarrow> FixedWindowRateLimiter option \<Rightarrow> bool \<times> FixedWindowRateLimiter option" where
  "check_rate_limit cf rq time limiter =
     (case limiter of
        None \<Rightarrow> (True, None)
      | Some l \<Rightarrow>
          if rq_method rq = ''GET'' \<and> rq_path rq \<in> set RATE_LIMIT_EXEMPT_PATHS then (True, limiter)
          else (let forwarded_for = map_option (join_with '','') (header_get_all rq ''X-Forwarded-For'')
                in case cf_source cf (rq_peer rq) forwarded_for of
                     Inl _ \<Rightarrow> (True, limiter)
                   | Inr source \<Rightarrow> (case rl_allow source time l of (ok, l') \<Rightarrow> (ok, Some l'))))"

definition dispatch ::
  "server \<Rightarrow> http_request \<Rightarrow> instant \<Rightarrow> instant \<Rightarrow> rat \<Rightarrow> entropy \<Rightarrow> FixedWindowRateLimiter option \<times> InMemoryV1Service
     \<Rightarrow> (exn + reply) \<times> FixedWindowRateLimiter option \<times> InMemoryV1Service" where
  "dispatch cf rq now wall time rnd st =
     (case st of (limiter, s) \<Rightarrow>
        (case check_rate_limit cf rq time limiter of
           (ok, limiter') \<Rightarrow>
             if \<not> ok then (Inr RateLimited, limiter', s)
             else (case handle_request cf rq (header_get_all rq ''Idempotency-Key'') now wall rnd s of
                     (r, s') \<Rightarrow> (r, limiter', s'))))"

subsection \<open>Metric labels\<close>

definition EXACT_ROUTES :: "string list" where
  "EXACT_ROUTES =
     [''/healthz'', ''/readyz'', ''/metrics'', ''/v1/enforce/delegated'', ''/v1/enforce'', ''/v1/observe'',
      ''/v1/tokens'', ''/v1/service/audit/auth-failures'']"

definition COLLECTION_ROUTES :: "string list" where
  "COLLECTION_ROUTES =
     [''/v1/boundaries'', ''/v1/auto-approval-rules'', ''/v1/grant-requests'', ''/v1/grants'', ''/v1/audit-events'']"

fun collection_label :: "string list \<Rightarrow> string \<Rightarrow> string" where
  "collection_label [] path = ''other''"
| "collection_label (c # cs) path =
     (if path = c then c else if startswith path (c @ ''/'') then c @ ''/:id'' else collection_label cs path)"

definition route_label :: "string \<Rightarrow> string" where
  "route_label path = (if path \<in> set EXACT_ROUTES then path else collection_label COLLECTION_ROUTES path)"

end
