(* ===== verification/ServiceHistory.thy ===== *)
theory ServiceHistory
  imports InMemoryService
begin

section \<open>Histories of the service\<close>

text \<open>
  What a call may do to the state of the service, stated as an abstract machine: every call is
  one of a dozen labelled effects, each with its guard, its change of the state and the events it appends. The
  calls of \<open>InMemoryService\<close> refine this machine (\<open>perform_effect\<close>), and the properties of whole
  histories are proved on it: the audit log accounts for the state, grants only ever become
  weaker, and a workspace is not affected by the calls of another one.
\<close>

subsection \<open>Effects\<close>

definition issue_event :: "Grant \<Rightarrow> AuditEvent \<Rightarrow> bool" where
  "issue_event x e \<longleftrightarrow>
     ae_event_type e = ''grant_issued'' \<and> ae_grant_id e = g_grant_id x \<and> ae_grant_ref e = g_grant_ref x
     \<and> ae_workspace_id e = g_workspace_id x \<and> ae_agent_id e = g_agent_id x
     \<and> ae_scope_attempted e = join_with '','' (g_scopes x)
     \<and> (\<exists>t. g_expires_at x = Some t \<and> ae_created_at e < t
            \<and> t \<le> ae_created_at e + timedelta_seconds MAX_TTL_SECONDS_CEILING)"

definition revoke_event :: "Grant \<Rightarrow> AuditEvent \<Rightarrow> bool" where
  "revoke_event x e \<longleftrightarrow>
     ae_event_type e = ''grant_revoked'' \<and> ae_grant_ref e = g_grant_ref x \<and> ae_workspace_id e = g_workspace_id x"

definition request_event :: "string set \<Rightarrow> GrantRequest \<Rightarrow> AuditEvent \<Rightarrow> bool" where
  "request_event types q e \<longleftrightarrow>
     ae_event_type e \<in> types \<and> ae_grant_ref e = gr_request_id q \<and> ae_workspace_id e = gr_workspace_id q
     \<and> ae_agent_id e = gr_requester_agent_id q"

definition approval_event :: "GrantRequest \<Rightarrow> AuditEvent \<Rightarrow> bool" where
  "approval_event q e \<longleftrightarrow>
     ae_event_type e \<in> {''grant_request_approved'', ''grant_request_auto_approved''}
     \<and> ae_resource e = ''grant_request/'' @ gr_request_id q \<and> gr_issued_grant_ref q = Some (ae_grant_ref e)
     \<and> ae_workspace_id e = gr_workspace_id q \<and> ae_agent_id e = gr_target_agent_id q"

definition mint_event :: "SubjectToken \<Rightarrow> AuditEvent \<Rightarrow> bool" where
  "mint_event t e \<longleftrightarrow>
     ae_event_type e = EVENT_SUBJECT_TOKEN_MINTED \<and> ae_token_id e = Some (st_token_id t)
     \<and> ae_grant_ref e = st_grant_ref t \<and> ae_workspace_id e = st_workspace_id t \<and> ae_agent_id e = st_agent_id t"

inductive effect :: "string \<Rightarrow> InMemoryV1Service \<Rightarrow> InMemoryV1Service \<Rightarrow> bool" for w where
  noted: "\<forall>e\<in>set new. ae_workspace_id e = w \<Longrightarrow>
    effect w s (s\<lparr>sv_audit_writer := sv_audit_writer s @ new, sv_auth_failures := windows, sv_pop_replay := cache\<rparr>)"
| issued: "dict_get (sv_grant_repository s) (g_grant_ref x) = None \<Longrightarrow> g_workspace_id x = w \<Longrightarrow> g_status x = ''active'' \<Longrightarrow>
    confined (sv_bounds s) (ae_created_at e) x \<Longrightarrow> issue_event x e \<Longrightarrow>
    effect w s (s\<lparr>sv_grant_repository := dict_set (g_grant_ref x) x (sv_grant_repository s),
                  sv_audit_writer := sv_audit_writer s @ [e]\<rparr>)"
| revoked: "dict_get (sv_grant_repository s) (g_grant_ref x) = Some x \<Longrightarrow> g_workspace_id x = w \<Longrightarrow> revoke_event x e \<Longrightarrow>
    effect w s (s\<lparr>sv_grant_repository := dict_set (g_grant_ref x) (x\<lparr>g_status := ''revoked''\<rparr>) (sv_grant_repository s),
                  sv_audit_writer := sv_audit_writer s @ [e]\<rparr>)"
| requested: "dict_get (sv_grant_request_repository s) (gr_request_id q) = None \<Longrightarrow> gr_workspace_id q = w \<Longrightarrow>
    gr_status q = ''pending'' \<Longrightarrow> request_event {''grant_requested''} q e \<Longrightarrow>
    effect w s (s\<lparr>sv_grant_request_repository := dict_set (gr_request_id q) q (sv_grant_request_repository s),
                  sv_audit_writer := sv_audit_writer s @ [e]\<rparr>)"
| approved: "dict_get (sv_grant_request_repository s) (gr_request_id q) = Some q \<Longrightarrow> gr_workspace_id q = w \<Longrightarrow>
    gr_status q = ''pending'' \<Longrightarrow> with_decision q u = u \<Longrightarrow> gr_status u = ''approved'' \<Longrightarrow>
    gr_issued_grant_ref u = Some (g_grant_ref x) \<Longrightarrow>
    dict_get (sv_grant_repository s) (g_grant_ref x) = None \<Longrightarrow> g_workspace_id x = w \<Longrightarrow> g_status x = ''active'' \<Longrightarrow>
    g_agent_id x = gr_target_agent_id q \<Longrightarrow> g_scopes x = gr_requested_scopes q \<Longrightarrow>
    confined (sv_bounds s) (ae_created_at e) x \<Longrightarrow> issue_event x e \<Longrightarrow> approval_event u e' \<Longrightarrow>
    effect w s (s\<lparr>sv_grant_request_repository := dict_set (gr_request_id q) u (sv_grant_request_repository s),
                  sv_grant_repository := dict_set (g_grant_ref x) x (sv_grant_repository s),
                  sv_audit_writer := sv_audit_writer s @ [e, e']\<rparr>)"
| rejected: "dict_get (sv_grant_request_repository s) (gr_request_id q) = Some q \<Longrightarrow> gr_workspace_id q = w \<Longrightarrow>
    gr_status q = ''pending'' \<Longrightarrow> with_decision q u = u \<Longrightarrow> gr_status u = ''rejected'' \<Longrightarrow>
    request_event {''grant_request_rejected''} u e \<Longrightarrow>
    effect w s (s\<lparr>sv_grant_request_repository := dict_set (gr_request_id q) u (sv_grant_request_repository s),
                  sv_audit_writer := sv_audit_writer s @ [e]\<rparr>)"
| minted: "dict_get (sv_subject_token_repository s) (st_token_hash t) = None \<Longrightarrow> st_workspace_id t = w \<Longrightarrow>
    dict_get (sv_grant_repository s) (st_grant_ref t) = Some x \<Longrightarrow> g_workspace_id x = w \<Longrightarrow>
    g_agent_id x = st_agent_id t \<Longrightarrow> (\<forall>m. g_expires_at x = Some m \<longrightarrow> st_expires_at t \<le> m) \<Longrightarrow> mint_event t e \<Longrightarrow>
    effect w s (s\<lparr>sv_subject_token_repository := dict_set (st_token_hash t) t (sv_subject_token_repository s),
                  sv_audit_writer := sv_audit_writer s @ [e]\<rparr>)"
| token_revoked: "dict_get (sv_subject_token_repository s) (st_token_hash t) = Some t \<Longrightarrow> st_workspace_id t = w \<Longrightarrow>
    effect w s (s\<lparr>sv_subject_token_repository :=
                    dict_set (st_token_hash t) (t\<lparr>st_revoked_at := Some now\<rparr>) (sv_subject_token_repository s)\<rparr>)"
| boundary: "b_workspace_id b = w \<Longrightarrow>
    registry_inv (dict_set (b_boundary_id b) b (sv_boundary_registry s)) \<Longrightarrow>
    effect w s (s\<lparr>sv_boundary_registry := dict_set (b_boundary_id b) b (sv_boundary_registry s)\<rparr>)"
| rule: "aar_workspace_id r = w \<Longrightarrow> validate_rule r = None \<Longrightarrow>
    (\<forall>r'. dict_get (sv_auto_approval_rule_repository s) (aar_rule_id r) = Some r' \<longrightarrow> aar_workspace_id r' = w) \<Longrightarrow>
    effect w s (s\<lparr>sv_auto_approval_rule_repository :=
                    dict_set (aar_rule_id r) r (sv_auto_approval_rule_repository s)\<rparr>)"
| bounds: "effect w s (s\<lparr>sv_scope_bounds_repository := dict_set (w, a) b (sv_scope_bounds_repository s)\<rparr>)"
| setting: "f \<in> {set_require_boundary, set_require_subject_token, set_require_pop} \<Longrightarrow>
    effect w s (s\<lparr>sv_agent_enforcement_settings_repository :=
                    f w a v (sv_agent_enforcement_settings_repository s)\<rparr>)"

subsection \<open>The state invariant\<close>

definition service_inv :: "InMemoryV1Service \<Rightarrow> bool" where
  "service_inv s \<longleftrightarrow>
     im_grants_inv (sv_grant_repository s) \<and> im_requests_inv (sv_grant_request_repository s)
     \<and> registry_inv (sv_boundary_registry s)
     \<and> dict_wf (sv_subject_token_repository s)
     \<and> (\<forall>h t. dict_get (sv_subject_token_repository s) h = Some t \<longrightarrow> st_token_hash t = h)
     \<and> dict_wf (sv_auto_approval_rule_repository s)
     \<and> (\<forall>i r. dict_get (sv_auto_approval_rule_repository s) i = Some r \<longrightarrow> aar_rule_id r = i \<and> validate_rule r = None)"

lemma with_decision_sel:
  "gr_request_id (with_decision q u) = gr_request_id q" "gr_workspace_id (with_decision q u) = gr_workspace_id q"
  "gr_requester_agent_id (with_decision q u) = gr_requester_agent_id q"
  "gr_target_agent_id (with_decision q u) = gr_target_agent_id q"
  "gr_requested_scopes (with_decision q u) = gr_requested_scopes q"
  by (simp_all add: with_decision_def)

lemma decided_request_same:
  assumes "with_decision q u = u"
  shows "gr_request_id u = gr_request_id q" "gr_workspace_id u = gr_workspace_id q"
    "gr_requester_agent_id u = gr_requester_agent_id q" "gr_target_agent_id u = gr_target_agent_id q"
    "gr_requested_scopes u = gr_requested_scopes q"
  using with_decision_sel [of q u] unfolding assms by simp_all

lemma service_inv_unaffected [simp]:
  "service_inv (s\<lparr>sv_audit_writer := log\<rparr>) = service_inv s"
  "service_inv (s\<lparr>sv_auth_failures := windows\<rparr>) = service_inv s"
  "service_inv (s\<lparr>sv_pop_replay := cache\<rparr>) = service_inv s"
  "service_inv (s\<lparr>sv_scope_bounds_repository := b\<rparr>) = service_inv s"
  "service_inv (s\<lparr>sv_agent_enforcement_settings_repository := st\<rparr>) = service_inv s"
  by (simp_all add: service_inv_def)

lemma service_inv_set:
  assumes "service_inv s"
  shows "g_grant_ref x = r \<Longrightarrow> service_inv (s\<lparr>sv_grant_repository := dict_set r x (sv_grant_repository s)\<rparr>)"
    and "gr_request_id q = i \<Longrightarrow>
      service_inv (s\<lparr>sv_grant_request_repository := dict_set i q (sv_grant_request_repository s)\<rparr>)"
    and "st_token_hash t = h \<Longrightarrow>
      service_inv (s\<lparr>sv_subject_token_repository := dict_set h t (sv_subject_token_repository s)\<rparr>)"
    and "aar_rule_id u = j \<Longrightarrow> validate_rule u = None \<Longrightarrow>
      service_inv (s\<lparr>sv_auto_approval_rule_repository := dict_set j u (sv_auto_approval_rule_repository s)\<rparr>)"
    and "registry_inv b \<Longrightarrow> service_inv (s\<lparr>sv_boundary_registry := b\<rparr>)"
  using assms by (simp_all add: service_inv_def im_grants_inv_def im_requests_inv_def)

lemma effect_inv: "effect w s s' \<Longrightarrow> service_inv s \<Longrightarrow> service_inv s'"
proof (induction rule: effect.induct)
  case (approved s q u x e e')
  show ?case
    using service_inv_set(1) [OF service_inv_set(2) [OF approved.prems decided_request_same(1) [OF approved.hyps(4)]] refl]
    by simp
next
  case (rejected s q u e)
  show ?case
    using service_inv_set(2) [OF rejected.prems decided_request_same(1) [OF rejected.hyps(4)]] by simp
qed (simp_all add: service_inv_set)

subsection \<open>Calls that only write to the audit log\<close>

definition grows :: "string \<Rightarrow> AuditEvent list \<Rightarrow> AuditEvent list \<Rightarrow> bool" where
  "grows w l l' \<longleftrightarrow> (\<exists>new. l' = l @ new \<and> (\<forall>e\<in>set new. ae_workspace_id e = w))"

lemma grows_refl [simp]: "grows w l l"
  by (simp add: grows_def)

lemma grows_append [simp]: "ae_workspace_id e = w \<Longrightarrow> grows w l (l @ [e])"
  by (simp add: grows_def)

lemma grows_trans: "grows w l l' \<Longrightarrow> grows w l' l'' \<Longrightarrow> grows w l l''"
  unfolding grows_def by fastforce

lemma recorded_grows: "recorded w a r l l' \<Longrightarrow> grows w l l'"
  by (auto simp: recorded_def grows_def refusal_event_def split: option.splits)

lemma evaluate_and_record_grows:
  assumes "evaluate_and_record i InMemoryAuditWriter ep v tid rnd l = (r, l')"
  shows "grows (g_workspace_id (ei_grant i)) l l'"
  by (rule recorded_grows, rule in_memory_log.evaluate_and_record_log(1), rule assms)

lemma record_rejection_v1_grows: "grows (ra_workspace_id a) l (record_rejection_v1 InMemoryAuditWriter a rnd l)"
  by (simp add: record_rejection_v1_def InMemoryAuditWriter_def InMemoryAuditWriter_write_def)

lemma v1_enforce_input_grant [simp]: "ei_grant (v1_enforce_input g a r b now reg req) = g"
  by (simp add: v1_enforce_input_def)

lemma enforce_grows:
  assumes "enforce_v1_contract request (\<lambda>r. Inr (get r)) now InMemoryAuditWriter registry settings rnd l = (r, l')"
  shows "grows (er_workspace_id request) l l'"
proof (cases "\<exists>x. get (er_grant_ref request) = Some x \<and> g_workspace_id x = er_workspace_id request
    \<and> g_agent_id x = er_agent_id request")
  case True
  then obtain x where "get (er_grant_ref request) = Some x" "g_workspace_id x = er_workspace_id request"
      "g_agent_id x = er_agent_id request"
    by blast
  with assms show ?thesis
    by (auto simp: enforce_v1_contract_def Let_def dest!: evaluate_and_record_grows)
next
  case False
  let ?a = "(rejection REASON_AGENT_GRANT_MISMATCH (er_workspace_id request) (er_agent_id request) now)
     \<lparr>ra_action := er_action request, ra_resource := er_resource request, ra_boundary_id := er_boundary_id request\<rparr>"
  have "l' = record_rejection_v1 InMemoryAuditWriter ?a rnd l"
    using False assms by (auto simp: enforce_v1_contract_def split: option.splits if_splits)
  then show ?thesis using record_rejection_v1_grows [of ?a l rnd] by simp
qed

lemma delegated_refusal_grows:
  "delegated_refusal request ws now InMemoryAuditWriter rnd code m l = (r, l') \<Longrightarrow> grows ws l l'"
  using record_rejection_v1_grows [of "(rejection code ws (dq_agent_id request) now)
    \<lparr>ra_action := dq_action request, ra_resource := dq_resource request,
     ra_boundary_id := dq_boundary_id request, ra_enforcing_principal := Some (dq_pep_id request)\<rparr>"]
  by (auto simp: delegated_refusal_def)

lemma delegated_with_grant_grows:
  assumes "delegated_with_grant request ws x now InMemoryAuditWriter registry get_by_hash settings replay skew rnd
      (cache, l) = (r, cache', l')" "g_workspace_id x = ws"
  shows "grows ws l l'"
  using assms
  by (auto simp: delegated_with_grant_def Let_def split: option.splits prod.splits sum.splits
      dest: delegated_refusal_grows evaluate_and_record_grows)

lemma delegated_grows:
  assumes "delegated_enforce_v1_contract request (\<lambda>r. Inr (get r)) now InMemoryAuditWriter registry pep_ws get_by_hash
      settings replay skew rnd (cache, l) = (r, cache', l')"
  shows "grows (case pep_ws of None \<Rightarrow> [] | Some w \<Rightarrow> w) l l'"
  using assms
  by (auto simp: delegated_enforce_v1_contract_def owned_grant_def split: option.splits if_splits prod.splits
      dest: delegated_refusal_grows delegated_with_grant_grows)

lemma simulate_grows:
  "simulate_v1_contract q get now InMemoryAuditWriter registry settings rnd l = (r, l') \<Longrightarrow>
     grows (sq_workspace_id q) l l'"
  by (drule in_memory_log.simulate_log) (auto simp: simulated_def grows_def split: option.splits)

lemma observe_grows:
  "record_observation q InMemoryAuditWriter now registry rnd l = (r, l') \<Longrightarrow> grows (oq_workspace_id q) l l'"
  by (auto simp: record_observation_def InMemoryAuditWriter_def InMemoryAuditWriter_write_def observation_event_def
      Let_def split: sum.splits)

lemma throttle_grows:
  "throttle_record W InMemoryAuditWriter u now rnd (ws, l) = (ws', l') \<Longrightarrow> grows [] l l'"
  by (auto simp: throttle_record_def throttle_emit_def throttle_event_def grows_def Let_def
      split: prod.splits throttle_outcome.splits option.splits)

subsection \<open>The calls refine the effects\<close>

fun call_workspace :: "InMemoryV1Service \<Rightarrow> service_call \<Rightarrow> string" where
  "call_workspace s (RecordAuthFailure surface now rnd) = []"
| "call_workspace s (RegisterBoundary registration now boundary_id wall rnd) = bri_workspace_id registration"
| "call_workspace s (DisableBoundary b w now wall) = w"
| "call_workspace s (EnableBoundary b w now wall) = w"
| "call_workspace s (SetBounds w a scopes max_ttl clear) = w"
| "call_workspace s (IssueGrant request now rnd) = giq_workspace_id request"
| "call_workspace s (RevokeGrant r w now rnd) = w"
| "call_workspace s (CreateGrantRequest request now rnd) = gcq_workspace_id request"
| "call_workspace s (MintSubjectToken a rnd) = mi_workspace_id a"
| "call_workspace s (RevokeSubjectToken token_id now) =
     (case im_get_by_id (sv_subject_token_repository s) token_id of None \<Rightarrow> [] | Some t \<Rightarrow> st_workspace_id t)"
| "call_workspace s (ApproveGrantRequest i w dby reason now rnd) = w"
| "call_workspace s (RejectGrantRequest i w dby reason now rnd) = w"
| "call_workspace s (CreateAutoApprovalRule rule) = aar_workspace_id rule"
| "call_workspace s (DisableAutoApprovalRule i w dby now) = w"
| "call_workspace s (AutoApproveGrantRequest i w dby now rnd) = w"
| "call_workspace s (SetRequireBoundary w a v) = w"
| "call_workspace s (SetRequireSubjectToken w a v) = w"
| "call_workspace s (SetRequirePop w a v) = w"
| "call_workspace s (CallEnforce request now rnd) = er_workspace_id request"
| "call_workspace s (CallObserve request now rnd) = oq_workspace_id request"
| "call_workspace s (CallSimulate request now rnd) = sq_workspace_id request"
| "call_workspace s (CallDelegatedEnforce request now pep_ws skew rnd) = (case pep_ws of None \<Rightarrow> [] | Some w \<Rightarrow> w)"

lemma effect_noted:
  assumes "grows w (sv_audit_writer s) l"
    and "s' = s\<lparr>sv_audit_writer := l, sv_auth_failures := windows, sv_pop_replay := cache\<rparr>"
  shows "effect w s s'"
  using assms effect.noted [where w = w and s = s and windows = windows and cache = cache] by (auto simp: grows_def)

lemma effect_silent: "effect w s s"
  by (rule effect_noted [where windows = "sv_auth_failures s" and cache = "sv_pop_replay s" and l = "sv_audit_writer s"]) simp_all

lemma effect_log: "grows w (sv_audit_writer s) l \<Longrightarrow> effect w s (s\<lparr>sv_audit_writer := l\<rparr>)"
  by (rule effect_noted [where windows = "sv_auth_failures s" and cache = "sv_pop_replay s" and l = l]) simp_all

lemma log_calls_effect:
  "effect [] s (sv_record_auth_failure surface now rnd s)"
  "effect (er_workspace_id eq) s (snd (sv_enforce eq now rnd s))"
  "effect (oq_workspace_id oq) s (snd (sv_observe oq now rnd s))"
  "effect (sq_workspace_id sq) s (snd (sv_simulate sq now rnd s))"
  "effect (case pep_ws of None \<Rightarrow> [] | Some w \<Rightarrow> w) s (snd (sv_delegated_enforce dq now pep_ws skew rnd s))"
proof -
  obtain ws l where t: "throttle_record AUTH_FAILURE_WINDOW_SECONDS InMemoryAuditWriter surface now rnd
      (sv_auth_failures s, sv_audit_writer s) = (ws, l)" by (metis surj_pair)
  show "effect [] s (sv_record_auth_failure surface now rnd s)"
    by (rule effect_noted [OF throttle_grows [OF t], where windows = ws and cache = "sv_pop_replay s"])
      (use t in \<open>cases s, simp add: sv_record_auth_failure_def\<close>)
  show "effect (er_workspace_id eq) s (snd (sv_enforce eq now rnd s))"
    by (auto simp: sv_enforce_def split: prod.split intro: effect_log enforce_grows)
  show "effect (oq_workspace_id oq) s (snd (sv_observe oq now rnd s))"
    by (auto simp: sv_observe_def split: prod.split intro: effect_log observe_grows)
  show "effect (sq_workspace_id sq) s (snd (sv_simulate sq now rnd s))"
    by (auto simp: sv_simulate_def split: prod.split intro: effect_log simulate_grows)
  obtain r c l' where d: "delegated_enforce_v1_contract dq (sv_get_by_ref s) now InMemoryAuditWriter (sv_boundaries s)
      pep_ws (Some (\<lambda>h. Inr (im_get_by_hash (sv_subject_token_repository s) h)))
      (Some (sv_agent_enforcement_settings_repository s)) (Some (check_and_record (sv_pop_caps s))) skew rnd
      (sv_pop_replay s, sv_audit_writer s) = (r, c, l')" by (metis surj_pair)
  show "effect (case pep_ws of None \<Rightarrow> [] | Some w \<Rightarrow> w) s (snd (sv_delegated_enforce dq now pep_ws skew rnd s))"
    by (rule effect_noted [OF delegated_grows [OF d], where windows = "sv_auth_failures s" and cache = c])
      (use d in \<open>cases s, simp add: sv_delegated_enforce_def\<close>)
qed

text \<open>Issuance over the in-memory stores: either nothing but the log changes, or the built grant is stored.\<close>

lemma im_issue_grant_cases:
  assumes "issue_grant request InMemoryGrantRepository bounds_of InMemoryAuditWriter now rnd (g, l) = (res, g', l')"
  obtains (refused) i where "g' = g" "grows (giq_workspace_id request) l l'" "res = Inr i" "gir_status i = ''rejected''"
  | (issued) x e i where "x = build_issued_grant request now rnd" "dict_get g (g_grant_ref x) = None"
      "g' = dict_set (g_grant_ref x) x g" "l' = l @ [e]" "issue_event x e" "ae_created_at e = now"
      "confined bounds_of now x" "res = Inr i" "gir_status i = ''issued''" "gir_grant i = Some x"
proof (cases "issuable_within bounds_of request")
  case False
  from issue_grant_outside [OF False, of InMemoryGrantRepository InMemoryAuditWriter now rnd g l] assms
  show ?thesis
    by (auto simp: record_issue_rejection_def issue_rejected_def intro!: refused)
next
  case True
  let ?x = "build_issued_grant request now rnd"
  define e where "e = grant_lifecycle_event ''grant_issued'' Permit ''grant_issued'' ?x ''issue_grant''
    (''agent/'' @ g_agent_id ?x) (join_with '','' (g_scopes ?x)) now rnd"
  have ins: "insert_issued_grant request InMemoryGrantRepository InMemoryAuditWriter now rnd (g, l) = (res, g', l')"
    using assms issue_grant_within [OF True] by metis
  have c: "confined bounds_of now ?x" by (rule issued_grant_confined [OF True])
  then have e: "issue_event ?x e" "ae_created_at e = now"
    by (auto simp: e_def issue_event_def grant_lifecycle_event_def confined_def)
  show ?thesis
  proof (cases "dict_get g (g_grant_ref ?x)")
    case None
    then show ?thesis
      using ins issued [OF refl None _ _ e c]
      by (auto simp: insert_issued_grant_def grant_repo_defs InMemoryAuditWriter_def InMemoryAuditWriter_write_def
          e_def Let_def)
  next
    case (Some y)
    then show ?thesis
      using ins refused
      by (auto simp: insert_issued_grant_def grant_repo_defs issue_rejected_def Let_def)
  qed
qed

lemma issue_effect: "effect (giq_workspace_id request) s (snd (sv_issue_grant request now rnd s))"
proof -
  obtain res g' l' where i: "issue_grant request InMemoryGrantRepository (sv_bounds s) InMemoryAuditWriter now rnd
      (sv_grant_repository s, sv_audit_writer s) = (res, g', l')" by (metis surj_pair)
  then show ?thesis
  proof (cases rule: im_issue_grant_cases)
    case refused
    then show ?thesis using effect_log by (simp add: sv_issue_grant_def i)
  next
    case (issued x e)
    then show ?thesis
      using effect.issued [of s x "giq_workspace_id request" e]
      by (simp add: sv_issue_grant_def i build_issued_grant_def)
  qed
qed

lemma revoke_effect:
  assumes "service_inv s"
  shows "effect w s (snd (sv_revoke_grant r w now rnd s))"
proof (cases "\<exists>x. dict_get (sv_grant_repository s) r = Some x \<and> g_workspace_id x = w")
  case True
  then obtain x where x: "dict_get (sv_grant_repository s) r = Some x" "g_workspace_id x = w" by blast
  have "g_grant_ref x = r" using assms x(1) by (simp add: service_inv_def im_grants_inv_def)
  then show ?thesis
    using x effect.revoked [of s x w]
    by (simp add: sv_revoke_grant_def revoke_grant_def grant_repo_defs InMemoryAuditWriter_def
        InMemoryAuditWriter_write_def grant_lifecycle_event_def revoke_event_def Let_def)
next
  case False
  then have "gl_revoke InMemoryGrantRepository r w (sv_grant_repository s) = (Inr None, sv_grant_repository s)"
    by (auto simp: grant_repo_defs split: option.splits)
  then show ?thesis using effect_silent [of w s] by (simp add: sv_revoke_grant_def revoke_grant_def)
qed

lemma create_request_effect: "effect (gcq_workspace_id request) s (snd (sv_create_grant_request request now rnd s))"
proof -
  let ?q = "build_grant_request request now rnd"
  define e where "e = request_lifecycle_event ''grant_requested'' Permit ''grant_requested'' ?q ''request_grant''
    (''agent/'' @ gr_target_agent_id ?q) now rnd"
  have q: "gr_workspace_id ?q = gcq_workspace_id request" "gr_status ?q = ''pending''"
      "request_event {''grant_requested''} ?q e"
    by (simp_all add: build_grant_request_def e_def request_event_def request_lifecycle_event_def)
  show ?thesis
  proof (cases "validate_create_request request = None \<and> dict_get (sv_grant_request_repository s) (gr_request_id ?q) = None")
    case True
    then show ?thesis
      using effect.requested [OF _ q]
      by (simp add: sv_create_grant_request_def create_grant_request_def request_repo_defs InMemoryAuditWriter_def
          InMemoryAuditWriter_write_def e_def Let_def)
  next
    case False
    then have "snd (sv_create_grant_request request now rnd s) = s"
      by (auto simp: sv_create_grant_request_def create_grant_request_def request_repo_defs Let_def
          split: option.splits)
    then show ?thesis using effect_silent by simp
  qed
qed

lemma dict_set_same: "dict_get d k = Some v \<Longrightarrow> dict_set k v d = d"
  by (induction d) (auto split: if_splits)

lemma dict_set_twice [simp]: "dict_set k v (dict_set k u d) = dict_set k v d"
  by (induction d) auto

lemma approve_effect:
  assumes inv: "service_inv s"
    and t: "da_audit_event_type a \<in> {''grant_request_approved'', ''grant_request_auto_approved''}"
    and ap: "approve_grant_request a InMemoryGrantRequestRepository InMemoryGrantRepository (sv_bounds s)
        InMemoryAuditWriter rnd (sv_grant_request_repository s, sv_grant_repository s, sv_audit_writer s)
        = (res, q', g', l')"
  shows "effect (da_workspace_id a) s (s\<lparr>sv_grant_request_repository := q', sv_grant_repository := g', sv_audit_writer := l'\<rparr>)"
proof (cases "\<exists>r. dict_get (sv_grant_request_repository s) (da_request_id a) = Some r
    \<and> gr_workspace_id r = da_workspace_id a \<and> gr_status r = ''pending''")
  case False
  then have "q' = sv_grant_request_repository s" "g' = sv_grant_repository s" "l' = sv_audit_writer s"
    using ap by (auto simp: approve_grant_request_def get_pending_workspace_request_def lookup_grant_request_def
        request_repo_defs split: option.splits if_splits)
  then show ?thesis using effect_silent by simp
next
  case True
  then obtain r where r: "dict_get (sv_grant_request_repository s) (da_request_id a) = Some r"
      "gr_workspace_id r = da_workspace_id a" "gr_status r = ''pending''" by blast
  define u where "u = claimed_request a rnd r"
  define req where "req = approval_issue_request r u"
  have rid: "gr_request_id r = da_request_id a" using inv r(1) by (simp add: service_inv_def im_requests_inv_def)
  have rr: "with_decision r r = r" by (cases r) (simp add: with_decision_def)
  have u: "gr_request_id u = gr_request_id r" "with_decision r u = u" "gr_status u = ''approved''"
      "gr_issued_grant_ref u = Some (new_id ''grt'' (rnd 0))"
    using claimed_request_decision(1) [OF rr, of a rnd] by (simp_all add: u_def claimed_request_def)
  obtain ir g1 l1 where i: "issue_grant req InMemoryGrantRepository (sv_bounds s) InMemoryAuditWriter (da_now a)
      (\<lambda>i. rnd (i + 1)) (sv_grant_repository s, sv_audit_writer s) = (ir, g1, l1)" by (metis surj_pair)
  note ap' = ap [unfolded approve_grant_request_def get_pending_workspace_request_def lookup_grant_request_def
      request_repo_defs]
  from i show ?thesis
  proof (cases rule: im_issue_grant_cases)
    case (refused j)
    have "q' = sv_grant_request_repository s" "g' = sv_grant_repository s" "l' = l1"
      using ap' r rid i refused u(1)
      by (simp_all add: u_def [symmetric] req_def [symmetric] dict_set_same del: One_nat_def add_Suc_right)
    then show ?thesis
      using refused(2) effect_log [of "da_workspace_id a" s l1] r(2) by (simp add: req_def approval_issue_request_def)
  next
    case (issued x e j)
    define e' where "e' = request_decision_event (da_audit_event_type a) (da_audit_reason a) u x (da_audit_action a)
        (da_now a) rnd"
    have st: "q' = dict_set (gr_request_id r) u (sv_grant_request_repository s)" "g' = dict_set (g_grant_ref x) x (sv_grant_repository s)"
        "l' = sv_audit_writer s @ [e, e']"
      using ap' r rid i issued u(1)
      by (simp_all add: u_def [symmetric] req_def [symmetric] InMemoryAuditWriter_def InMemoryAuditWriter_write_def e'_def
          Let_def del: One_nat_def add_Suc_right)
    have x: "g_grant_ref x = new_id ''grt'' (rnd 0)" "g_workspace_id x = da_workspace_id a" "g_status x = ''active''"
        "g_agent_id x = gr_target_agent_id r" "g_scopes x = gr_requested_scopes r"
      using approval_grant_ref [OF u(4), of r "da_now a" "\<lambda>i. rnd (i + 1)"] r(2) issued(1)
      by (simp_all add: req_def, simp_all add: build_issued_grant_def approval_issue_request_def)
    have ev: "approval_event u e'"
      using t u(4) x(1) by (simp add: approval_event_def e'_def request_decision_event_def)
    show ?thesis
      unfolding st
      by (rule effect.approved [OF _ r(2,3) u(2,3)])
        (use r(1) rid u(4) x issued ev in simp_all)
  qed
qed

lemma auto_approve_cases:
  assumes "auto_approve_grant_request i w dby rrepo rules_repo grepo bounds_of writer now rnd rules st = (res, st')"
  obtains "st' = st"
  | r a res' where "lookup_grant_request i w rrepo (fst st) = Some r" "da_workspace_id a = gr_workspace_id r"
      "da_audit_event_type a = ''grant_request_auto_approved''"
      "approve_grant_request a rrepo grepo bounds_of writer rnd st = (res', st')"
proof -
  obtain q g l where st: "st = (q, g, l)" by (cases st)
  show ?thesis
  proof (cases "lookup_grant_request i w rrepo q")
    case None
    with assms st that(1) show ?thesis by (simp add: auto_approve_grant_request_def)
  next
    case (Some r)
    let ?ev = "evaluate_auto_approval r rules_repo rules"
    show ?thesis
    proof (cases "if aer_decision ?ev \<noteq> ''would_approve'' then None else aer_rule ?ev")
      case None
      with assms st Some that(1) show ?thesis by (simp add: auto_approve_grant_request_def Let_def)
    next
      case (Some rule)
      define a where "a = \<lparr>da_request_id = gr_request_id r, da_workspace_id = gr_workspace_id r, da_decided_by = dby,
        da_decision_reason = Some (''auto_approval_rule:'' @ aar_rule_id rule), da_now = now,
        da_audit_event_type = ''grant_request_auto_approved'', da_audit_reason = ''grant_request_auto_approved'',
        da_audit_action = ''auto_approve_grant_request''\<rparr>"
      obtain res' where "approve_grant_request a rrepo grepo bounds_of writer rnd st = (res', st')"
        using assms st Some \<open>lookup_grant_request i w rrepo q = Some r\<close>
        unfolding auto_approve_grant_request_def a_def [symmetric] Let_def
        by (auto simp: a_def split: prod.splits sum.splits)
      moreover have "da_workspace_id a = gr_workspace_id r" "da_audit_event_type a = ''grant_request_auto_approved''"
        by (simp_all add: a_def)
      ultimately show ?thesis
        using that(2) [of r a] st \<open>lookup_grant_request i w rrepo q = Some r\<close> by simp
    qed
  qed
qed

lemma approve_calls_effect:
  assumes "service_inv s"
  shows "effect w s (snd (sv_approve_grant_request i w dby reason now rnd s))"
    and "effect w s (snd (sv_auto_approve_grant_request i w dby now rnd s))"
proof -
  show "effect w s (snd (sv_approve_grant_request i w dby reason now rnd s))"
    using approve_effect [OF assms, of "approval_args i w dby reason now" rnd]
    by (auto simp: sv_approve_grant_request_def approval_args_def split: prod.split)
  obtain res q' g' l' where a: "auto_approve_grant_request i w dby InMemoryGrantRequestRepository
      InMemoryAutoApprovalRuleRepository InMemoryGrantRepository (sv_bounds s) InMemoryAuditWriter now rnd
      (sv_auto_approval_rule_repository s) (sv_grant_request_repository s, sv_grant_repository s, sv_audit_writer s)
      = (res, q', g', l')" by (metis surj_pair)
  from a show "effect w s (snd (sv_auto_approve_grant_request i w dby now rnd s))"
  proof (cases rule: auto_approve_cases)
    case 1
    with a effect_silent show ?thesis by (simp add: sv_auto_approve_grant_request_def)
  next
    case (2 r a' res')
    then have "gr_workspace_id r = w" by (auto simp: lookup_grant_request_def split: option.splits if_splits)
    with a approve_effect [OF assms _ 2(4)] 2(2,3) show ?thesis by (simp add: sv_auto_approve_grant_request_def)
  qed
qed

lemma approval_args_sel [simp]:
  "da_request_id (approval_args i w dby reason now) = i" "da_workspace_id (approval_args i w dby reason now) = w"
  "da_now (approval_args i w dby reason now) = now"
  by (simp_all add: approval_args_def)

lemma reject_effect:
  assumes inv: "service_inv s"
  shows "effect w s (snd (sv_reject_grant_request i w dby reason now rnd s))"
proof (cases "\<exists>r. dict_get (sv_grant_request_repository s) i = Some r \<and> gr_workspace_id r = w \<and> gr_status r = ''pending''")
  case True
  then obtain r where r: "dict_get (sv_grant_request_repository s) i = Some r" "gr_workspace_id r = w"
      "gr_status r = ''pending''" by blast
  let ?a = "approval_args i w dby reason now"
  define u where "u = rejected_request ?a r"
  define e where "e = request_lifecycle_event ''grant_request_rejected'' Deny ''grant_request_rejected'' u
    ''reject_grant_request'' (''grant_request/'' @ gr_request_id u) now rnd"
  have rid: "gr_request_id r = i" using inv r(1) by (simp add: service_inv_def im_requests_inv_def)
  have rr: "with_decision r r = r" by (cases r) (simp add: with_decision_def)
  have u: "gr_request_id u = i" "with_decision r u = u" "gr_status u = ''rejected''"
    using claimed_request_decision(2) [OF rr, of ?a] rid by (simp_all add: u_def rejected_request_def)
  have e: "request_event {''grant_request_rejected''} u e"
    by (simp add: request_event_def e_def request_lifecycle_event_def)
  have "snd (sv_reject_grant_request i w dby reason now rnd s) =
      s\<lparr>sv_grant_request_repository := dict_set (gr_request_id r) u (sv_grant_request_repository s),
        sv_audit_writer := sv_audit_writer s @ [e]\<rparr>"
    using r rid u(1)
    by (simp add: sv_reject_grant_request_def reject_grant_request_def get_pending_workspace_request_def
        lookup_grant_request_def request_repo_defs InMemoryAuditWriter_def InMemoryAuditWriter_write_def
        u_def [symmetric] e_def Let_def)
  then show ?thesis
    using effect.rejected [OF _ r(2,3) u(2,3) e] r(1) rid by simp
next
  case False
  then have "snd (sv_reject_grant_request i w dby reason now rnd s) = s"
    by (auto simp: sv_reject_grant_request_def reject_grant_request_def get_pending_workspace_request_def
        lookup_grant_request_def request_repo_defs approval_args_def split: option.splits)
  then show ?thesis using effect_silent by simp
qed

lemma mint_effect: "effect (mi_workspace_id a) s (snd (sv_mint_subject_token a rnd s))"
proof (cases "(mi_bound_action a = None) = (mi_bound_resource a = None)")
  case False
  then show ?thesis using effect_silent by (simp add: sv_mint_subject_token_def mint_subject_token_def)
next
  case b: True
  show ?thesis
  proof (cases "\<exists>x. mintable a (im_get_by_ref (sv_grant_repository s)) x")
    case False
    have "ae_workspace_id (mint_rejection_event a rnd) = mi_workspace_id a"
      by (simp add: mint_rejection_event_def)
    then show ?thesis
      using effect_log [OF grows_append, of "mint_rejection_event a rnd" "mi_workspace_id a" s]
      by (simp add: sv_mint_subject_token_def mint_forbidden [OF False b])
  next
    case True
    then obtain x where x: "mintable a (im_get_by_ref (sv_grant_repository s)) x" by blast
    let ?t = "build_subject_token a x rnd"
    let ?e = "subject_token_minted_event ?t (mi_now a) rnd"
    show ?thesis
    proof (cases "dict_get (sv_subject_token_repository s) (st_token_hash ?t)")
      case None
      have "effect (mi_workspace_id a) s (s\<lparr>sv_subject_token_repository :=
          dict_set (st_token_hash ?t) ?t (sv_subject_token_repository s), sv_audit_writer := sv_audit_writer s @ [?e]\<rparr>)"
        by (rule effect.minted [OF None, where x = x])
          (use x in \<open>auto simp: build_subject_token_def mintable_def im_get_by_ref_def mint_event_def
            subject_token_minted_event_def mint_expiry_def Let_def split: option.splits\<close>)
      then show ?thesis
        using None b x
        by (simp add: sv_mint_subject_token_def mint_subject_token_def mintable_def InMemorySubjectTokenRepository_def
            im_insert_token_def InMemoryAuditWriter_def InMemoryAuditWriter_write_def Let_def)
    next
      case (Some t)
      then show ?thesis
        using b x effect_silent
        by (simp add: sv_mint_subject_token_def mint_subject_token_def mintable_def InMemorySubjectTokenRepository_def
            im_insert_token_def Let_def)
    qed
  qed
qed

lemma find_first_pair:
  "map_option snd (find_first (\<lambda>(k, v). P v) d) = find_first P (map snd d)"
  by (induction d) auto

lemma token_revoked_effect:
  assumes "service_inv s"
  shows "effect (call_workspace s (RevokeSubjectToken i now)) s (perform (RevokeSubjectToken i now) s)"
proof (cases "find_first (\<lambda>(_, t). st_token_id t = i) (sv_subject_token_repository s)")
  case None
  then show ?thesis using effect_silent by (simp add: im_revoke_token_def)
next
  case (Some p)
  obtain h t where p: "p = (h, t)" by (cases p)
  have "dict_get (sv_subject_token_repository s) h = Some t"
    using find_first_Some [OF Some] assms p by (auto simp: service_inv_def dict_simps)
  moreover from this have "st_token_hash t = h" using assms by (simp add: service_inv_def)
  moreover have "im_get_by_id (sv_subject_token_repository s) i = Some t"
    using find_first_pair [of "\<lambda>t. st_token_id t = i" "sv_subject_token_repository s"] Some p
    by (simp add: im_get_by_id_def)
  ultimately show ?thesis
    using effect.token_revoked [of s t "st_workspace_id t" now] Some p by (simp add: im_revoke_token_def)
qed

lemma boundary_effect:
  assumes "service_inv s"
  shows "effect (bri_workspace_id registration) s (snd (sv_register_boundary registration now bid wall rnd s))"
    and "effect w s (snd (sv_disable_boundary i w t wall s))"
    and "effect w s (snd (sv_enable_boundary i w t wall s))"
proof -
  have inv: "registry_inv (sv_boundary_registry s)" using assms by (simp add: service_inv_def)
  show "effect (bri_workspace_id registration) s (snd (sv_register_boundary registration now bid wall rnd s))"
  proof (cases "register_boundary (sv_boundary_registry s) registration now bid wall rnd")
    case (Inl e)
    then show ?thesis using effect_silent by (simp add: sv_register_boundary_def)
  next
    case (Inr y)
    obtain b reg where y: "y = (b, reg)" by (cases y)
    have reg: "reg = dict_set (b_boundary_id b) b (sv_boundary_registry s)"
        "b_workspace_id b = bri_workspace_id registration"
      using Inr y by (auto simp: register_boundary_def dispatch_add_def registry_add_def Let_def split: if_splits)
    moreover have "registry_inv reg" using register_boundary_inv [OF inv] Inr y by blast
    ultimately show ?thesis
      using effect.boundary [of b "bri_workspace_id registration" s] Inr y by (simp add: sv_register_boundary_def)
  qed
  obtain r reg where d: "disable_boundary (sv_boundary_registry s) i w t wall = (r, reg)" by (metis surj_pair)
  then show "effect w s (snd (sv_disable_boundary i w t wall s))"
  proof (cases rule: disable_boundary_cases)
    case absent
    then show ?thesis using d effect_silent by (simp add: sv_disable_boundary_def)
  next
    case (found b now)
    then show ?thesis
      using d effect.boundary [of "with_status b ''disabled'' now" w s] disable_boundary_inv [OF inv d]
      by (simp add: sv_disable_boundary_def)
  qed
  obtain r' reg' where e: "enable_boundary (sv_boundary_registry s) i w t wall = (r', reg')" by (metis surj_pair)
  then show "effect w s (snd (sv_enable_boundary i w t wall s))"
  proof (cases rule: enable_boundary_cases)
    case absent
    then show ?thesis using e effect_silent by (simp add: sv_enable_boundary_def)
  next
    case (active b)
    then show ?thesis
      using e effect.boundary [of b w s] enable_boundary_inv [OF inv e] by (simp add: sv_enable_boundary_def)
  next
    case (enabled b now)
    then show ?thesis
      using e effect.boundary [of "with_status b ''active'' now" w s] enable_boundary_inv [OF inv e]
      by (simp add: sv_enable_boundary_def)
  qed
qed

lemma rule_effect:
  assumes "service_inv s"
  shows "effect (aar_workspace_id rule) s (snd (sv_create_auto_approval_rule rule s))"
    and "effect w s (snd (sv_disable_auto_approval_rule i w dby now s))"
proof -
  show "effect (aar_workspace_id rule) s (snd (sv_create_auto_approval_rule rule s))"
  proof (cases "validate_rule rule = None \<and> dict_get (sv_auto_approval_rule_repository s) (aar_rule_id rule) = None")
    case True
    then show ?thesis
      using effect.rule [of rule "aar_workspace_id rule" s]
      by (simp add: sv_create_auto_approval_rule_def create_auto_approval_rule_def InMemoryAutoApprovalRuleRepository_def
          im_add_rule_def)
  next
    case False
    then have "snd (sv_create_auto_approval_rule rule s) = s"
      by (auto simp: sv_create_auto_approval_rule_def create_auto_approval_rule_def InMemoryAutoApprovalRuleRepository_def
          im_add_rule_def split: option.splits)
    then show ?thesis using effect_silent by simp
  qed
  show "effect w s (snd (sv_disable_auto_approval_rule i w dby now s))"
  proof (cases "\<exists>r. dict_get (sv_auto_approval_rule_repository s) i = Some r \<and> aar_workspace_id r = w")
    case True
    then obtain r where r: "dict_get (sv_auto_approval_rule_repository s) i = Some r" "aar_workspace_id r = w" by blast
    have "aar_rule_id r = i" "validate_rule r = None" using assms r(1) by (simp_all add: service_inv_def)
    moreover define d where "d = r\<lparr>aar_status := ''disabled'', aar_updated_by := Some dby, aar_updated_at := Some now\<rparr>"
    ultimately have "aar_rule_id d = i" "aar_workspace_id d = w" "validate_rule d = None"
      using r(2) by (auto simp: validate_rule_def Let_def split: if_splits)
    moreover from this have "snd (sv_disable_auto_approval_rule i w dby now s)
        = s\<lparr>sv_auto_approval_rule_repository := dict_set (aar_rule_id d) d (sv_auto_approval_rule_repository s)\<rparr>"
      using r by (simp add: sv_disable_auto_approval_rule_def disable_auto_approval_rule_def
          InMemoryAutoApprovalRuleRepository_def im_get_rule_def im_update_rule_def d_def Let_def)
    ultimately show ?thesis using effect.rule [of d w s] r by simp
  next
    case False
    then have "snd (sv_disable_auto_approval_rule i w dby now s) = s"
      by (auto simp: sv_disable_auto_approval_rule_def disable_auto_approval_rule_def
          InMemoryAutoApprovalRuleRepository_def im_get_rule_def split: option.splits)
    then show ?thesis using effect_silent by simp
  qed
qed

lemma bounds_effect: "effect w s (snd (sv_set_agent_issuable_scope_bounds w a scopes max_ttl clear s))"
  using effect.bounds [of w s a] effect_silent [of w s]
  by (auto simp: sv_set_agent_issuable_scope_bounds_def set_bounds_def Let_def split: option.splits)

lemma perform_effect: "service_inv s \<Longrightarrow> effect (call_workspace s c) s (perform c s)"
  by (cases c)
    (simp_all add: log_calls_effect issue_effect revoke_effect create_request_effect approve_calls_effect reject_effect
      mint_effect token_revoked_effect [simplified] boundary_effect rule_effect bounds_effect effect.setting)

lemma history_simps [simp]:
  "history [] s = s" "history (c # calls) s = history calls (perform c s)"
  "history (calls @ [c]) s = perform c (history calls s)"
  by (simp_all add: history_def)

lemma history_inv: "service_inv s \<Longrightarrow> service_inv (history calls s)"
  by (induction calls rule: rev_induct) (auto intro: effect_inv perform_effect)

text \<open>A relation that every effect extends holds between the start and the end of a history.\<close>

lemma history_relates:
  assumes "service_inv s" and "R s s"
    and "\<And>w t t'. service_inv t \<Longrightarrow> R s t \<Longrightarrow> effect w t t' \<Longrightarrow> R s t'"
  shows "R s (history calls s)"
proof (induction calls rule: rev_induct)
  case (snoc c calls)
  show ?case using assms(3) [OF history_inv [OF assms(1)] snoc perform_effect [OF history_inv [OF assms(1)]]] by simp
qed (use assms(2) in simp)

lemma init_inv:
  assumes "sv_post_init gs registry log bounds caps = Inr s" "registry_inv registry"
  shows "service_inv s"
proof -
  have *: "im_grants_inv g'" if "im_init_grants_from xs g = Inr g'" "im_grants_inv g" for xs g g'
    using that
  proof (induction xs arbitrary: g)
    case (Cons x xs)
    have "im_init_grants_from xs (dict_set (g_grant_ref x) x g) = Inr g'"
      using Cons.prems(1) by (auto simp: im_insert_grant_def split: if_splits)
    moreover have "im_grants_inv (dict_set (g_grant_ref x) x g)"
      using Cons.prems(2) by (simp add: im_grants_inv_def)
    ultimately show ?case by (rule Cons.IH)
  qed simp
  obtain g where g: "im_init_grants_from gs [] = Inr g" "sv_grant_repository s = g" "sv_grant_request_repository s = []"
      "sv_boundary_registry s = registry" "sv_subject_token_repository s = []" "sv_auto_approval_rule_repository s = []"
    using assms(1) by (cases "im_init_grants_from gs []") (auto simp: sv_post_init_def im_init_grants_def)
  have "im_grants_inv g" by (rule * [OF g(1)]) (simp add: im_grants_inv_def)
  then show ?thesis using g assms(2) by (simp add: service_inv_def im_requests_inv_def)
qed

subsection \<open>Grants only become weaker\<close>

definition weakened :: "InMemoryV1Service \<Rightarrow> InMemoryV1Service \<Rightarrow> bool" where
  "weakened s s' \<longleftrightarrow>
     (\<forall>r x. dict_get (sv_grant_repository s) r = Some x \<longrightarrow>
        dict_get (sv_grant_repository s') r \<in> {Some x, Some (x\<lparr>g_status := ''revoked''\<rparr>)})"

lemma effect_weakened:
  assumes "effect w t t'" "weakened s t"
  shows "weakened s t'"
proof -
  have step: "dict_get (sv_grant_repository t') r \<in> {Some x, Some (x\<lparr>g_status := ''revoked''\<rparr>)}"
    if "dict_get (sv_grant_repository t) r = Some x" for r x
    using assms(1) that by cases auto
  show ?thesis
    unfolding weakened_def
  proof (intro allI impI)
    fix r x assume "dict_get (sv_grant_repository s) r = Some x"
    then have "dict_get (sv_grant_repository t) r \<in> {Some x, Some (x\<lparr>g_status := ''revoked''\<rparr>)}"
      using assms(2) unfolding weakened_def by blast
    then show "dict_get (sv_grant_repository t') r \<in> {Some x, Some (x\<lparr>g_status := ''revoked''\<rparr>)}"
      using step [of r x] step [of r "x\<lparr>g_status := ''revoked''\<rparr>"] by auto
  qed
qed

lemma history_weakened: "service_inv s \<Longrightarrow> weakened s (history calls s)"
  by (rule history_relates [where R = weakened]) (auto simp: weakened_def [of s s] intro: effect_weakened)

lemma evaluate_and_record_permit:
  assumes "evaluate_and_record i InMemoryAuditWriter ep v tid rnd l = (r, l')" "ers_decision r = Some Permit"
  shows "g_status (ei_grant i) = ''active''"
  using in_memory_log.evaluate_and_record_log(2) [OF assms] evaluate_enforce_permit_iff [of i]
  by (simp add: grant_usable_def)

lemma sv_enforce_permit:
  assumes "ers_decision (fst (sv_enforce request now rnd s)) = Some Permit"
  shows "\<exists>x. dict_get (sv_grant_repository s) (er_grant_ref request) = Some x \<and> g_status x = ''active''
     \<and> g_workspace_id x = er_workspace_id request \<and> g_agent_id x = er_agent_id request"
  using assms
  by (auto simp: sv_enforce_def enforce_v1_contract_def im_get_by_ref_def Let_def dest: evaluate_and_record_permit
      split: prod.splits option.splits if_splits)

lemma sv_delegated_enforce_permit:
  assumes "ers_decision (fst (sv_delegated_enforce request now pep_ws skew rnd s)) = Some Permit"
  shows "\<exists>x. dict_get (sv_grant_repository s) (dq_grant_ref request) = Some x \<and> g_status x = ''active''
     \<and> Some (g_workspace_id x) = pep_ws \<and> g_agent_id x = dq_agent_id request"
  using assms
  by (auto simp: sv_delegated_enforce_def delegated_enforce_v1_contract_def delegated_refusal_def owned_grant_def
      delegated_with_grant_def im_get_by_ref_def Let_def dest: evaluate_and_record_permit
      split: prod.splits option.splits if_splits sum.splits)

lemma sv_mint_minted:
  assumes "fst (sv_mint_subject_token a rnd s) = Inr r" "mr_status r = ''minted''"
  shows "\<exists>x. dict_get (sv_grant_repository s) (mi_grant_ref a) = Some x \<and> g_status x = ''active''"
proof (cases "\<exists>x. mintable a (im_get_by_ref (sv_grant_repository s)) x")
  case True
  then show ?thesis by (auto simp: mintable_def im_get_by_ref_def grant_is_valid_def split: if_splits)
next
  case False
  have "(mi_bound_action a = None) = (mi_bound_resource a = None)"
    using assms(1) by (auto simp: sv_mint_subject_token_def mint_subject_token_def split: if_splits)
  with assms show ?thesis by (auto simp: sv_mint_subject_token_def mint_forbidden [OF False])
qed

lemma sv_simulate_permit:
  assumes "srs_would_decision (fst (sv_simulate request now rnd s)) = Some Permit"
  shows "\<exists>x. dict_get (sv_grant_repository s) (sq_grant_ref request) = Some x \<and> g_status x = ''active''"
proof -
  have "g_status x = ''active''"
    if "simulate_with_grant request x now InMemoryAuditWriter registry settings rnd l = (r, l')"
      "srs_would_decision r = Some Permit" for x registry settings l r l'
    using that by (auto simp: simulate_with_grant_def Let_def evaluate_enforce_permit_iff grant_usable_def
        split: if_splits prod.splits bool.splits)
  then show ?thesis
    using assms
    by (auto simp: sv_simulate_def simulate_v1_contract_def im_get_by_ref_def simulate_refused_def Let_def
        split: prod.splits option.splits if_splits bool.splits)
qed

text \<open>
  (C19) Whatever calls the service serves after some moment, a grant that exists at that moment stays
  under its reference with the same owner, scopes and expiry; the only change it can see is
  its revocation. Once it is not active it never becomes so again: neither direct nor
  delegated enforcement permits under its reference, simulation does not predict a permit,
  and no subject token is minted for it.
\<close>

theorem revoked_grants_stay_dead:
  assumes inv: "service_inv s" and x: "dict_get (sv_grant_repository s) grant_ref = Some x"
    and s': "s' = history calls s"
  shows "dict_get (sv_grant_repository s') grant_ref \<in> {Some x, Some (x\<lparr>g_status := ''revoked''\<rparr>)}
     \<and> (g_status x \<noteq> ''active'' \<longrightarrow>
          (\<forall>request now rnd. er_grant_ref request = grant_ref \<longrightarrow>
             ers_decision (fst (sv_enforce request now rnd s')) \<noteq> Some Permit)
        \<and> (\<forall>request now pep_ws skew rnd. dq_grant_ref request = grant_ref \<longrightarrow>
             ers_decision (fst (sv_delegated_enforce request now pep_ws skew rnd s')) \<noteq> Some Permit)
        \<and> (\<forall>request now rnd. sq_grant_ref request = grant_ref \<longrightarrow>
             srs_would_decision (fst (sv_simulate request now rnd s')) \<noteq> Some Permit)
        \<and> (\<forall>a rnd r. mi_grant_ref a = grant_ref \<longrightarrow> fst (sv_mint_subject_token a rnd s') = Inr r \<longrightarrow>
             mr_status r \<noteq> ''minted''))"
proof -
  have g: "dict_get (sv_grant_repository s') grant_ref \<in> {Some x, Some (x\<lparr>g_status := ''revoked''\<rparr>)}"
    using history_weakened [OF inv] x unfolding s' weakened_def by blast
  have dead: "\<nexists>y. dict_get (sv_grant_repository s') grant_ref = Some y \<and> g_status y = ''active''" if "g_status x \<noteq> ''active''"
    using g that by auto
  show ?thesis
    using g dead sv_enforce_permit [of _ _ _ s'] sv_delegated_enforce_permit [of _ _ _ _ _ s']
      sv_simulate_permit [of _ _ _ s'] sv_mint_minted [of _ _ s']
    by (intro conjI impI allI notI) blast+
qed

subsection \<open>An example service\<close>

definition example_caps :: replay_caps where
  "example_caps = \<lparr>rc_max_entries = 8, rc_max_per_token = 4\<rparr>"

definition example_service :: InMemoryV1Service where
  "example_service = projr (sv_post_init [example_subject_grant] [] [] [((''ws'', ''agent''), [''read:repo/*''])] example_caps)"

lemma example_service_init:
  "sv_post_init [example_subject_grant] [] [] [((''ws'', ''agent''), [''read:repo/*''])] example_caps = Inr example_service"
  by (simp add: example_service_def sv_post_init_def im_init_grants_def im_insert_grant_def)

lemma example_service_inv: "service_inv example_service"
  by (rule init_inv [OF example_service_init]) simp

lemma example_service_grant: "dict_get (sv_grant_repository example_service) ''grt_r'' = Some example_subject_grant"
  by (simp add: example_service_def sv_post_init_def im_init_grants_def im_insert_grant_def)

theorem revoked_grants_stay_dead_witness:
  "ers_decision (fst (sv_enforce
      \<lparr>er_workspace_id = ''ws'', er_agent_id = ''agent'', er_grant_ref = ''grt_r'', er_action = ''read'',
       er_resource = ''repo/a'', er_boundary_id = None\<rparr> 9 (\<lambda>_. ''r'')
      (history [SetRequireBoundary ''ws'' ''agent'' False]
        (perform (RevokeGrant ''grt_r'' ''ws'' 7 (\<lambda>_. ''r'')) example_service)))) \<noteq> Some Permit"
proof -
  let ?s = "perform (RevokeGrant ''grt_r'' ''ws'' 7 (\<lambda>_. ''r'')) example_service"
  have "service_inv ?s" using effect_inv perform_effect example_service_inv by blast
  moreover have "dict_get (sv_grant_repository ?s) ''grt_r'' = Some (example_subject_grant\<lparr>g_status := ''revoked''\<rparr>)"
    using example_service_grant
    by (simp add: sv_revoke_grant_def revoke_grant_def grant_repo_defs InMemoryAuditWriter_def
        InMemoryAuditWriter_write_def Let_def)
  ultimately show ?thesis
    using revoked_grants_stay_dead [OF _ _ refl, of ?s "''grt_r''" _ "[SetRequireBoundary ''ws'' ''agent'' False]"]
    by (simp del: perform.simps history_simps)
qed

subsection \<open>The log accounts for the state\<close>

text \<open>
  What an auditor can rely on between two states: the events written in between (\<open>new\<close>) explain
  every grant, revocation, request, decision and token that the first state does not hold.
\<close>

definition grants_accounted :: "grants_by_ref \<Rightarrow> grants_by_ref \<Rightarrow> AuditEvent list \<Rightarrow> bool" where
  "grants_accounted g0 g new \<longleftrightarrow>
     (\<forall>r x. dict_get g r = Some x \<longrightarrow>
        (dict_get g0 r \<noteq> None \<or> (\<exists>e\<in>set new. issue_event x e))
        \<and> (g_status x \<noteq> ''active'' \<longrightarrow> dict_get g0 r = Some x \<or> (\<exists>e\<in>set new. revoke_event x e)))"

definition request_accounted :: "grants_by_ref \<Rightarrow> AuditEvent list \<Rightarrow> GrantRequest \<Rightarrow> bool" where
  "request_accounted g new q \<longleftrightarrow>
     gr_status q = ''pending'' \<and> (\<exists>e\<in>set new. request_event {''grant_requested''} q e)
     \<or> gr_status q = ''rejected'' \<and> (\<exists>e\<in>set new. request_event {''grant_request_rejected''} q e)
     \<or> gr_status q = ''approved'' \<and> (\<exists>e\<in>set new. approval_event q e)
        \<and> (\<exists>r x. gr_issued_grant_ref q = Some r \<and> dict_get g r = Some x \<and> g_workspace_id x = gr_workspace_id q
             \<and> g_agent_id x = gr_target_agent_id q \<and> g_scopes x = gr_requested_scopes q)"

definition creation_recorded :: "AuditEvent list \<Rightarrow> GrantRequest \<Rightarrow> bool" where
  "creation_recorded new q \<longleftrightarrow> (\<exists>e\<in>set new. request_event {''grant_requested''} q e)"

definition token_accounted :: "grants_by_ref \<Rightarrow> AuditEvent list \<Rightarrow> SubjectToken \<Rightarrow> bool" where
  "token_accounted g new t \<longleftrightarrow>
     (\<exists>e\<in>set new. mint_event t e)
     \<and> (\<exists>x. dict_get g (st_grant_ref t) = Some x \<and> g_workspace_id x = st_workspace_id t \<and> g_agent_id x = st_agent_id t
          \<and> (\<forall>m. g_expires_at x = Some m \<longrightarrow> st_expires_at t \<le> m))"

definition accounted :: "InMemoryV1Service \<Rightarrow> InMemoryV1Service \<Rightarrow> AuditEvent list \<Rightarrow> bool" where
  "accounted s0 s new \<longleftrightarrow>
     sv_audit_writer s = sv_audit_writer s0 @ new
     \<and> grants_accounted (sv_grant_repository s0) (sv_grant_repository s) new
     \<and> (\<forall>i q. dict_get (sv_grant_request_repository s) i = Some q \<longrightarrow>
          (dict_get (sv_grant_request_repository s0) i = Some q \<or> request_accounted (sv_grant_repository s) new q)
          \<and> (dict_get (sv_grant_request_repository s0) i \<noteq> None \<or> creation_recorded new q))
     \<and> (\<forall>h t. dict_get (sv_subject_token_repository s) h = Some t \<longrightarrow>
          dict_get (sv_subject_token_repository s0) h \<noteq> None \<or> token_accounted (sv_grant_repository s) new t)"

lemma event_simps [simp]:
  "issue_event (x\<lparr>g_status := st\<rparr>) e = issue_event x e" "revoke_event (x\<lparr>g_status := st\<rparr>) e = revoke_event x e"
  "mint_event (t\<lparr>st_revoked_at := ra\<rparr>) e = mint_event t e"
  by (simp_all add: issue_event_def revoke_event_def mint_event_def)

lemma accounted_refl: "accounted s s []"
  by (auto simp: accounted_def grants_accounted_def)

text \<open>More events and weaker grants keep everything accounted.\<close>

definition grants_kept :: "grants_by_ref \<Rightarrow> grants_by_ref \<Rightarrow> bool" where
  "grants_kept g g' \<longleftrightarrow>
     (\<forall>r x. dict_get g r = Some x \<longrightarrow>
        (\<exists>y. dict_get g' r = Some y \<and> g_workspace_id y = g_workspace_id x \<and> g_agent_id y = g_agent_id x
             \<and> g_scopes y = g_scopes x \<and> g_expires_at y = g_expires_at x))"

lemma effect_grants_kept: "effect w s s' \<Longrightarrow> grants_kept (sv_grant_repository s) (sv_grant_repository s')"
  by (cases rule: effect.cases) (auto simp: grants_kept_def)

lemma grants_accounted_mono: "grants_accounted g0 g new \<Longrightarrow> grants_accounted g0 g (new @ more_events)"
  by (fastforce simp: grants_accounted_def)

lemma request_accounted_mono:
  assumes "request_accounted g new q" "grants_kept g g'"
  shows "request_accounted g' (new @ more_events) q"
  using assms unfolding request_accounted_def grants_kept_def by (elim disjE conjE exE) fastforce+

lemma token_accounted_mono:
  assumes "token_accounted g new t" "grants_kept g g'"
  shows "token_accounted g' (new @ more_events) t"
  using assms unfolding token_accounted_def grants_kept_def by (elim conjE exE) fastforce

lemma grants_accounted_issue:
  "grants_accounted g0 g new \<Longrightarrow> issue_event x e \<Longrightarrow> g_status x = ''active'' \<Longrightarrow> e \<in> set new \<Longrightarrow>
     grants_accounted g0 (dict_set r x g) new"
  by (auto simp: grants_accounted_def)

lemma grants_accounted_revoke:
  "grants_accounted g0 g new \<Longrightarrow> dict_get g r = Some x \<Longrightarrow> revoke_event x e \<Longrightarrow> e \<in> set new \<Longrightarrow>
     grants_accounted g0 (dict_set r (x\<lparr>g_status := ''revoked''\<rparr>) g) new"
  by (fastforce simp: grants_accounted_def)

text \<open>What is left to check of an effect: its own grants, requests and tokens.\<close>

lemma accounted_step:
  assumes "accounted s0 s new" "grants_kept (sv_grant_repository s) (sv_grant_repository s')"
    and "sv_audit_writer s' = sv_audit_writer s @ more_events"
    and "grants_accounted (sv_grant_repository s0) (sv_grant_repository s) (new @ more_events) \<Longrightarrow>
      grants_accounted (sv_grant_repository s0) (sv_grant_repository s') (new @ more_events)"
    and "\<And>i q. dict_get (sv_grant_request_repository s') i = Some q \<Longrightarrow>
      dict_get (sv_grant_request_repository s) i = Some q
      \<or> request_accounted (sv_grant_repository s') (new @ more_events) q
        \<and> ((\<exists>q0. dict_get (sv_grant_request_repository s) i = Some q0 \<and> (\<forall>n. creation_recorded n q = creation_recorded n q0))
           \<or> creation_recorded more_events q)"
    and "\<And>h t. dict_get (sv_subject_token_repository s') h = Some t \<Longrightarrow>
      (\<exists>t0. dict_get (sv_subject_token_repository s) h = Some t0 \<and> t \<in> {t0, t0\<lparr>st_revoked_at := st_revoked_at t\<rparr>})
      \<or> token_accounted (sv_grant_repository s') (new @ more_events) t"
  shows "accounted s0 s' (new @ more_events)"
proof -
  have tok: "token_accounted g n (t\<lparr>st_revoked_at := ra\<rparr>) = token_accounted g n t" for g n t ra
    by (simp add: token_accounted_def)
  note a = assms(1) [unfolded accounted_def]
  have "dict_get (sv_subject_token_repository s0) h \<noteq> None
      \<or> token_accounted (sv_grant_repository s') (new @ more_events) t"
    if "dict_get (sv_subject_token_repository s') h = Some t" for h t
  proof -
    from assms(6) [OF that] show ?thesis
    proof
      assume "\<exists>t0. dict_get (sv_subject_token_repository s) h = Some t0 \<and> t \<in> {t0, t0\<lparr>st_revoked_at := st_revoked_at t\<rparr>}"
      then obtain t0 where t0: "dict_get (sv_subject_token_repository s) h = Some t0"
          "t = t0 \<or> t = t0\<lparr>st_revoked_at := st_revoked_at t\<rparr>" by blast
      then have "token_accounted (sv_grant_repository s') (new @ more_events) t
          = token_accounted (sv_grant_repository s') (new @ more_events) t0"
        using tok by metis
      then show ?thesis using a t0(1) token_accounted_mono [OF _ assms(2)] by blast
    qed simp
  qed
  moreover have "(dict_get (sv_grant_request_repository s0) i = Some q
        \<or> request_accounted (sv_grant_repository s') (new @ more_events) q)
      \<and> (dict_get (sv_grant_request_repository s0) i \<noteq> None \<or> creation_recorded (new @ more_events) q)"
    if "dict_get (sv_grant_request_repository s') i = Some q" for i q
  proof -
    have "creation_recorded n q \<Longrightarrow> creation_recorded (n @ m) q" "creation_recorded m q \<Longrightarrow> creation_recorded (n @ m) q" for n m
      by (auto simp: creation_recorded_def)
    with assms(5) [OF that] a request_accounted_mono [OF _ assms(2)] show ?thesis by metis
  qed
  moreover have "grants_accounted (sv_grant_repository s0) (sv_grant_repository s') (new @ more_events)"
    using assms(4) a grants_accounted_mono by blast
  ultimately show ?thesis
    using a assms(3) unfolding accounted_def by simp
qed

lemma effect_accounted:
  assumes eff: "effect w s s'" and a: "accounted s0 s new"
  shows "\<exists>more_events. accounted s0 s' (new @ more_events)"
  using eff
proof cases
  case (approved q u x e e')
  have "request_accounted (sv_grant_repository s') (new @ [e, e']) u" "\<forall>n. creation_recorded n u = creation_recorded n q"
    using approved decided_request_same [OF approved(5)]
    by (simp_all add: request_accounted_def creation_recorded_def request_event_def)
  then have "accounted s0 s' (new @ [e, e'])"
    by (intro accounted_step [OF a effect_grants_kept [OF eff]])
      (use approved(1,2,10,14) in \<open>auto intro: grants_accounted_issue split: if_splits\<close>)
  then show ?thesis by blast
next
  case (rejected q u e)
  have "request_accounted (sv_grant_repository s') (new @ [e]) u" "\<forall>n. creation_recorded n u = creation_recorded n q"
    using rejected(6,7) decided_request_same [OF rejected(5)]
    by (auto simp: request_accounted_def creation_recorded_def request_event_def)
  then have "accounted s0 s' (new @ [e])"
    by (intro accounted_step [OF a effect_grants_kept [OF eff]]) (use rejected(1,2) in \<open>auto split: if_splits\<close>)
  then show ?thesis by blast
next
  case (requested q e)
  have "request_accounted (sv_grant_repository s') (new @ [e]) q" "creation_recorded [e] q"
    using requested by (auto simp: request_accounted_def creation_recorded_def)
  then have "accounted s0 s' (new @ [e])"
    by (intro accounted_step [OF a effect_grants_kept [OF eff]]) (use requested(1) in \<open>auto split: if_splits\<close>)
  then show ?thesis by blast
next
  case (minted t x e)
  have "token_accounted (sv_grant_repository s') (new @ [e]) t"
    using minted by (auto simp: token_accounted_def)
  then have "accounted s0 s' (new @ [e])"
    by (intro accounted_step [OF a effect_grants_kept [OF eff]]) (use minted(1) in \<open>auto split: if_splits\<close>)
  then show ?thesis by blast
next
  case (issued x e)
  have "accounted s0 s' (new @ [e])"
    by (intro accounted_step [OF a effect_grants_kept [OF eff]])
      (use issued in \<open>auto intro: grants_accounted_issue\<close>)
  then show ?thesis by blast
next
  case (revoked x e)
  have "accounted s0 s' (new @ [e])"
    by (intro accounted_step [OF a effect_grants_kept [OF eff]])
      (use revoked in \<open>auto intro: grants_accounted_revoke\<close>)
  then show ?thesis by blast
next
  case (noted n windows cache)
  have "accounted s0 s' (new @ n)"
    by (intro accounted_step [OF a effect_grants_kept [OF eff]]) (use noted in auto)
  then show ?thesis by blast
next
  case (token_revoked t now)
  have "accounted s0 s' (new @ [])"
    by (intro accounted_step [OF a effect_grants_kept [OF eff]]) (use token_revoked in \<open>auto split: if_splits\<close>)
  then show ?thesis by blast
qed (use a in \<open>auto simp: accounted_def intro!: exI [of _ "[]"]\<close>)

lemma history_accounted: "service_inv s0 \<Longrightarrow> \<exists>new. accounted s0 (history calls s0) new"
  by (rule history_relates [where R = "\<lambda>s0 s. \<exists>new. accounted s0 s new"])
    (use accounted_refl effect_accounted in blast)+

text \<open>
  (C20) The audit log accounts for the state. Whatever calls a service has served since it was
  constructed, the log it started with is still there, and the events written since explain
  its state: every grant it was not given at the start has an issuance event with its id,
  reference, owner and scopes, dated less than thirty days before its expiry; every revocation has
  its event; every grant request has an event of its creation, and once decided an event of
  its rejection or approval, an approved one pointing at a stored grant of the requested agent
  with the requested scopes; and every subject token has a minting event and a stored grant of
  the same owner that it does not outlive. The repositories keep their invariants.
\<close>

theorem audit_log_accounts_for_the_state:
  assumes "sv_post_init grants registry log bounds caps = Inr s0" "registry_inv registry"
  shows "service_inv (history calls s0) \<and> (\<exists>new. accounted s0 (history calls s0) new)"
  using init_inv [OF assms] history_inv history_accounted by blast

theorem audit_log_accounts_for_the_state_witness:
  "\<exists>e. sv_audit_writer (history [RevokeGrant ''grt_r'' ''ws'' 7 (\<lambda>_. ''r'')] example_service) = [e] \<and> revoke_event example_subject_grant e"
proof -
  let ?s = "history [RevokeGrant ''grt_r'' ''ws'' 7 (\<lambda>_. ''r'')] example_service"
  obtain new where a: "accounted example_service ?s new"
    using audit_log_accounts_for_the_state [OF example_service_init, of "[RevokeGrant ''grt_r'' ''ws'' 7 (\<lambda>_. ''r'')]"] by auto
  have s: "dict_get (sv_grant_repository ?s) ''grt_r'' = Some (example_subject_grant\<lparr>g_status := ''revoked''\<rparr>)"
      "\<exists>e. sv_audit_writer ?s = [e]" "sv_audit_writer example_service = []"
    using example_service_grant
    by (simp_all add: sv_revoke_grant_def revoke_grant_def grant_repo_defs InMemoryAuditWriter_def
        InMemoryAuditWriter_write_def Let_def,
        simp_all add: example_service_def sv_post_init_def im_init_grants_def im_insert_grant_def)
  have "g_status example_subject_grant = ''active''"
    by (simp add: example_subject_grant_def build_issued_grant_def)
  then have "g_status example_subject_grant \<noteq> g_status (example_subject_grant\<lparr>g_status := ''revoked''\<rparr>)"
    by simp
  then have "example_subject_grant \<noteq> example_subject_grant\<lparr>g_status := ''revoked''\<rparr>" by metis
  moreover have "g_status (example_subject_grant\<lparr>g_status := ''revoked''\<rparr>) \<noteq> ''active''" by simp
  then have "dict_get (sv_grant_repository example_service) ''grt_r'' = Some (example_subject_grant\<lparr>g_status := ''revoked''\<rparr>)
      \<or> (\<exists>e\<in>set new. revoke_event (example_subject_grant\<lparr>g_status := ''revoked''\<rparr>) e)"
    using a s(1) unfolding accounted_def grants_accounted_def by blast
  ultimately have "\<exists>e\<in>set new. revoke_event (example_subject_grant\<lparr>g_status := ''revoked''\<rparr>) e"
    using example_service_grant by simp
  moreover have "sv_audit_writer ?s = new" using a s(3) by (simp add: accounted_def)
  ultimately show ?thesis using s(2) by auto
qed

subsection \<open>Workspaces do not interfere\<close>

text \<open>Everything the service tells an operator of a workspace about it.\<close>

definition workspace_view ::
  "string \<Rightarrow> InMemoryV1Service \<Rightarrow>
     Boundary list \<times> (string option \<Rightarrow> string option \<Rightarrow> Grant list) \<times> GrantRequest list \<times> AutoApprovalRule list
     \<times> SubjectToken list \<times> (string \<Rightarrow> AgentIssuableBounds option)
     \<times> (string \<Rightarrow> bool option \<times> bool option \<times> bool option) \<times> AuditEvent list" where
  "workspace_view w s =
     (sv_list_boundaries w s, \<lambda>agent_id status. sv_list_grants w agent_id status s, sv_list_grant_requests w s,
      sv_list_auto_approval_rules w s, im_list_subject_tokens (sv_subject_token_repository s) w, sv_bounds s w,
      \<lambda>a. (get_require_boundary_setting (sv_agent_enforcement_settings_repository s) w a,
           get_require_subject_token_setting (sv_agent_enforcement_settings_repository s) w a,
           get_require_pop_setting (sv_agent_enforcement_settings_repository s) w a),
      filter (\<lambda>e. ae_workspace_id e = w) (sv_audit_writer s))"

text \<open>A registration whose boundary id is taken by a boundary of the workspace.\<close>

definition takes_over :: "service_call \<Rightarrow> string \<Rightarrow> InMemoryV1Service \<Rightarrow> bool" where
  "takes_over c w s =
     (case c of
        RegisterBoundary registration now boundary_id wall rnd \<Rightarrow>
          get_boundary_for_workspace (sv_boundary_registry s) (py_or boundary_id (new_boundary_id rnd)) w \<noteq> None
      | _ \<Rightarrow> False)"

lemma filter_values_set:
  assumes "\<not> P v" "\<nexists>u. dict_get d k = Some u \<and> P u"
  shows "filter P (dict_values (dict_set k v d)) = filter P (dict_values d)"
  using assms by (induction d) (auto split: if_splits)

lemma view_listings:
  "sv_list_grants w a st s = filter (grant_listed w a st) (sort_key g_grant_id (dict_values (sv_grant_repository s)))"
  "sv_list_grant_requests w s = filter (\<lambda>q. gr_workspace_id q = w) (dict_values (sv_grant_request_repository s))"
  "sv_list_auto_approval_rules w s =
     filter (\<lambda>r. aar_workspace_id r = w) (dict_values (sv_auto_approval_rule_repository s))"
  by (simp_all add: sv_list_grants_def list_grants_def InMemoryGrantRepository_def im_list_grants_def
      sv_list_grant_requests_def list_grant_requests_def InMemoryGrantRequestRepository_def im_list_requests_def
      sv_list_auto_approval_rules_def list_auto_approval_rules_def InMemoryAutoApprovalRuleRepository_def im_list_rules_def)

lemma filter_grants_set:
  assumes "g_workspace_id x \<noteq> w" "\<nexists>y. dict_get g r = Some y \<and> g_workspace_id y = w"
  shows "filter (grant_listed w a st) (sort_key g_grant_id (dict_values (dict_set r x g)))
    = filter (grant_listed w a st) (sort_key g_grant_id (dict_values g))"
proof -
  have "filter (grant_listed w a st) (dict_values (dict_set r x g)) = filter (grant_listed w a st) (dict_values g)"
    by (rule filter_values_set) (use assms in \<open>auto simp: grant_listed_def\<close>)
  then show ?thesis by (simp add: filter_sort)
qed

lemma settings_other_workspace:
  assumes "f \<in> {set_require_boundary, set_require_subject_token, set_require_pop}" "w \<noteq> w'"
  shows "get_require_boundary_setting (f w' a v st) w b = get_require_boundary_setting st w b"
    "get_require_subject_token_setting (f w' a v st) w b = get_require_subject_token_setting st w b"
    "get_require_pop_setting (f w' a v st) w b = get_require_pop_setting st w b"
  using assms
  by (auto simp: set_require_boundary_def set_require_subject_token_def set_require_pop_def
      get_require_boundary_setting_def get_require_subject_token_setting_def get_require_pop_setting_def mandate_setting_def)

lemma events_name_workspace:
  "issue_event x e \<Longrightarrow> ae_workspace_id e = g_workspace_id x" "revoke_event x e \<Longrightarrow> ae_workspace_id e = g_workspace_id x"
  "request_event T q e \<Longrightarrow> ae_workspace_id e = gr_workspace_id q" "approval_event q e \<Longrightarrow> ae_workspace_id e = gr_workspace_id q"
  "mint_event t e \<Longrightarrow> ae_workspace_id e = st_workspace_id t"
  by (simp_all add: issue_event_def revoke_event_def request_event_def approval_event_def mint_event_def)

lemma effect_view:
  assumes eff: "effect w' s s'" and w: "w \<noteq> w'" and b: "sv_list_boundaries w s' = sv_list_boundaries w s"
  shows "workspace_view w s' = workspace_view w s"
  using eff
proof cases
  case (approved q u x e e')
  have "gr_workspace_id u \<noteq> w" "ae_workspace_id e \<noteq> w" "ae_workspace_id e' \<noteq> w" "g_workspace_id x \<noteq> w"
    using w approved(3,9) decided_request_same(2) [OF approved(5)] events_name_workspace(1) [OF approved(14)]
      events_name_workspace(4) [OF approved(15)] by auto
  moreover have "\<nexists>y. dict_get (sv_grant_request_repository s) (gr_request_id q) = Some y \<and> gr_workspace_id y = w"
    "\<nexists>y. dict_get (sv_grant_repository s) (g_grant_ref x) = Some y \<and> g_workspace_id y = w"
    using w approved(2,3,8) by auto
  ultimately show ?thesis
    using b approved(1) by (simp add: workspace_view_def view_listings filter_values_set filter_grants_set)
next
  case (rejected q u e)
  have "gr_workspace_id u \<noteq> w" "ae_workspace_id e \<noteq> w"
    using w rejected(3) decided_request_same(2) [OF rejected(5)] events_name_workspace(3) [OF rejected(7)] by auto
  then show ?thesis
    using w b rejected(1,2,3) by (simp add: workspace_view_def view_listings filter_values_set)
next
  case (setting f a v)
  then show ?thesis
    using b settings_other_workspace [OF setting(2) w] by (simp add: workspace_view_def view_listings)
next
  case (noted n windows cache)
  then have "filter (\<lambda>e. ae_workspace_id e = w) n = []" using w by (auto simp: filter_empty_conv)
  then show ?thesis using noted b by (simp add: workspace_view_def view_listings)
qed (use w b in \<open>simp_all add: workspace_view_def view_listings filter_values_set filter_grants_set
    events_name_workspace im_list_subject_tokens_def get_bounds_with_max_ttl_def fun_eq_iff\<close>)

lemma registry_other_workspace:
  assumes inv: "service_inv s" and w: "call_workspace s c \<noteq> w" and t: "\<not> takes_over c w s"
  shows "sv_list_boundaries w (perform c s) = sv_list_boundaries w s"
proof -
  have rinv: "registry_inv (sv_boundary_registry s)" using inv by (simp add: service_inv_def)
  have set_other: "list_for_workspace (dict_set k b (sv_boundary_registry s)) w = list_for_workspace (sv_boundary_registry s) w"
    if "b_workspace_id b \<noteq> w" "get_boundary_for_workspace (sv_boundary_registry s) k w = None" for k b
    using that unfolding list_for_workspace_def
    by (intro filter_values_set) (auto simp: get_boundary_for_workspace_def registry_get_def split: if_splits)
  have own: "get_boundary_for_workspace (sv_boundary_registry s) (b_boundary_id b) w = None"
    if "dict_get (sv_boundary_registry s) k = Some b" "b_workspace_id b \<noteq> w" for k b
    using that registry_invD(1) [OF rinv that(1)] by (simp add: get_boundary_for_workspace_def registry_get_def)
  show ?thesis
  proof (cases c)
    case (RegisterBoundary registration now boundary_id wall rnd)
    then show ?thesis
      using w t set_other
      by (auto simp: takes_over_def sv_list_boundaries_def sv_register_boundary_def register_boundary_def
          dispatch_add_def registry_add_def Let_def)
  next
    case (DisableBoundary i v now wall)
    obtain r reg where d: "disable_boundary (sv_boundary_registry s) i v now wall = (r, reg)" by (metis surj_pair)
    then have "list_for_workspace reg w = list_for_workspace (sv_boundary_registry s) w"
      by (cases rule: disable_boundary_cases) (use DisableBoundary w set_other own in auto)
    with d DisableBoundary show ?thesis by (simp add: sv_list_boundaries_def sv_disable_boundary_def)
  next
    case (EnableBoundary i v now wall)
    obtain r reg where d: "enable_boundary (sv_boundary_registry s) i v now wall = (r, reg)" by (metis surj_pair)
    then have "list_for_workspace reg w = list_for_workspace (sv_boundary_registry s) w"
      by (cases rule: enable_boundary_cases) (use EnableBoundary w set_other own in auto)
    with d EnableBoundary show ?thesis by (simp add: sv_list_boundaries_def sv_enable_boundary_def)
  qed (simp_all add: sv_list_boundaries_def sv_record_auth_failure_def sv_set_agent_issuable_scope_bounds_def
      sv_issue_grant_def sv_revoke_grant_def sv_create_grant_request_def sv_mint_subject_token_def
      sv_approve_grant_request_def sv_reject_grant_request_def sv_create_auto_approval_rule_def
      sv_disable_auto_approval_rule_def sv_auto_approve_grant_request_def sv_enforce_def sv_observe_def sv_simulate_def
      sv_delegated_enforce_def split: prod.split)
qed

text \<open>
  (C21) A call made for one workspace changes nothing that the service shows of another: its
  boundaries, grants under every filter, grant requests, auto-approval rules, subject tokens,
  issuable bounds, enforcement mandates and audit events are the same before and after. The
  one exception is a registration under the id of a boundary of that other workspace, which
  the in-memory registry does not refuse.
\<close>

theorem workspaces_do_not_interfere:
  assumes "service_inv s" "call_workspace s c \<noteq> w" "\<not> takes_over c w s"
  shows "workspace_view w (perform c s) = workspace_view w s"
  using effect_view [OF perform_effect [OF assms(1)]] registry_other_workspace [OF assms] assms(2) by metis

theorem workspaces_do_not_interfere_witness:
  "workspace_view ''ws'' (perform (SetBounds ''other'' ''agent'' [''write:repo/*''] None False) example_service)
    = workspace_view ''ws'' example_service"
  by (rule workspaces_do_not_interfere [OF example_service_inv]) (simp_all add: takes_over_def)

end
