(* ===== verification/HttpIsolation.thy ===== *)
theory HttpIsolation
  imports LocalHttp ServiceHistory
begin

section \<open>What a request can reach\<close>

text \<open>
  The server as a client of the service: every request performs at most one call of the service,
  and that call is made for the workspace of the identity the request authenticates as. With the
  separation of workspaces in the service this confines every sequence of requests.
\<close>

named_theorems acts \<open>the calls the handlers make\<close>

subsection \<open>Calls on behalf of a workspace\<close>

text \<open>
  \<open>acts_for who rnd s s'\<close>: nothing happened; or a failed authentication was recorded, when there is
  no identity; or one call was made for the workspace of the identity. A boundary is registered
  under an id drawn for it.
\<close>

definition acts_for :: "string option \<Rightarrow> entropy \<Rightarrow> InMemoryV1Service \<Rightarrow> InMemoryV1Service \<Rightarrow> bool" where
  "acts_for who rnd s s' \<longleftrightarrow>
     s' = s \<or>
     (case who of
        None \<Rightarrow> \<exists>surface now. s' = sv_record_auth_failure surface now rnd s
      | Some w \<Rightarrow>
          \<exists>c. s' = perform c s \<and> call_workspace s c = w \<and>
              (\<forall>registration now boundary_id wall rnd'. c = RegisterBoundary registration now boundary_id wall rnd' \<longrightarrow>
                 boundary_id = None \<and> rnd' = rnd))"

lemma acts_nothing [simp, acts]: "acts_for who rnd s s"
  by (simp add: acts_for_def)

lemma acts_failure [simp, acts]: "acts_for None rnd s (sv_record_auth_failure surface now rnd s)"
  by (auto simp: acts_for_def)

lemma acts_call:
  assumes "s' = perform c s" "call_workspace s c = w"
    and "\<And>registration now boundary_id wall rnd'. c = RegisterBoundary registration now boundary_id wall rnd' \<Longrightarrow>
           boundary_id = None \<and> rnd' = rnd"
  shows "acts_for (Some w) rnd s s'"
  using assms by (auto simp: acts_for_def)

lemma acts_logged [acts]:
  "w = er_workspace_id eq \<Longrightarrow> acts_for (Some w) rnd s (snd (sv_enforce eq now rnd s))"
  "w = oq_workspace_id oq \<Longrightarrow> acts_for (Some w) rnd s (snd (sv_observe oq now rnd s))"
  "w = sq_workspace_id sq \<Longrightarrow> acts_for (Some w) rnd s (snd (sv_simulate sq now rnd s))"
  "acts_for (Some w) rnd s (snd (sv_delegated_enforce dq now (Some w) skew rnd s))"
  subgoal by (rule acts_call [of _ "CallEnforce eq now rnd"]) simp_all
  subgoal by (rule acts_call [of _ "CallObserve oq now rnd"]) simp_all
  subgoal by (rule acts_call [of _ "CallSimulate sq now rnd"]) simp_all
  subgoal by (rule acts_call [of _ "CallDelegatedEnforce dq now (Some w) skew rnd"]) simp_all
  done

lemma acts_admin [acts]:
  "w = bri_workspace_id reg \<Longrightarrow> acts_for (Some w) rnd s (snd (sv_register_boundary reg now None wall rnd s))"
  "acts_for (Some w) rnd s (snd (sv_disable_boundary b w now wall s))"
  "acts_for (Some w) rnd s (snd (sv_enable_boundary b w now wall s))"
  "w = giq_workspace_id giq \<Longrightarrow> acts_for (Some w) rnd s (snd (sv_issue_grant giq t rnd s))"
  "acts_for (Some w) rnd s (snd (sv_revoke_grant ref w t rnd s))"
  "w = aar_workspace_id rule \<Longrightarrow> acts_for (Some w) rnd s (snd (sv_create_auto_approval_rule rule s))"
  "acts_for (Some w) rnd s (snd (sv_disable_auto_approval_rule i w dby t s))"
  subgoal by (rule acts_call [of _ "RegisterBoundary reg now None wall rnd"]) simp_all
  subgoal by (rule acts_call [of _ "DisableBoundary b w now wall"]) simp_all
  subgoal by (rule acts_call [of _ "EnableBoundary b w now wall"]) simp_all
  subgoal by (rule acts_call [of _ "IssueGrant giq t rnd"]) simp_all
  subgoal by (rule acts_call [of _ "RevokeGrant ref w t rnd"]) simp_all
  subgoal by (rule acts_call [of _ "CreateAutoApprovalRule rule"]) simp_all
  subgoal by (rule acts_call [of _ "DisableAutoApprovalRule i w dby t"]) simp_all
  done

lemma acts_requests [acts]:
  "w = mi_workspace_id a \<Longrightarrow> acts_for (Some w) rnd s (snd (sv_mint_subject_token a rnd s))"
  "w = gcq_workspace_id gcq \<Longrightarrow> acts_for (Some w) rnd s (snd (sv_create_grant_request gcq t rnd s))"
  "acts_for (Some w) rnd s (snd (sv_approve_grant_request i w dby reason t rnd s))"
  "acts_for (Some w) rnd s (snd (sv_reject_grant_request i w dby reason t rnd s))"
  "acts_for (Some w) rnd s (snd (sv_auto_approve_grant_request i w dby t rnd s))"
  subgoal by (rule acts_call [of _ "MintSubjectToken a rnd"]) simp_all
  subgoal by (rule acts_call [of _ "CreateGrantRequest gcq t rnd"]) simp_all
  subgoal by (rule acts_call [of _ "ApproveGrantRequest i w dby reason t rnd"]) simp_all
  subgoal by (rule acts_call [of _ "RejectGrantRequest i w dby reason t rnd"]) simp_all
  subgoal by (rule acts_call [of _ "AutoApproveGrantRequest i w dby t rnd"]) simp_all
  done

subsection \<open>The handlers\<close>

text \<open>A response depends on the result of a call; the state after it is the state after the call.\<close>

lemma responses_act [acts]:
  "acts_for (Some (ai_workspace_id agent)) rnd s (snd (mint_v1_token_http_result mint agent now rnd s))"
  "acts_for (Some (wi_workspace_id who)) rnd s (snd (create_v1_boundary_response boundary who now wall rnd s))"
  "acts_for (Some w) rnd s (snd (set_boundary_status i w action now wall s))"
  "acts_for (Some (wi_workspace_id who)) rnd s (snd (issue_v1_grant_response issue who now rnd s))"
  "acts_for (Some (wi_workspace_id who)) rnd s (snd (create_v1_auto_approval_rule_response rule who now rnd s))"
  "acts_for (Some (ai_workspace_id agent)) rnd s (snd (http_create_grant_request order body agent now rnd s))"
  "acts_for (Some (wi_workspace_id who)) rnd s (snd (auto_approve_v1_grant_request_response i who now rnd s))"
  "acts_for (Some (wi_workspace_id who)) rnd s (snd (decide_v1_grant_request_response i action who reason now rnd s))"
  subgoal by (simp add: mint_v1_token_http_result_def case_prod_beta acts split: sum.split exn.split option.split)
  subgoal by (simp add: create_v1_boundary_response_def case_prod_beta acts split: sum.split exn.split option.split)
  subgoal by (simp add: set_boundary_status_def case_prod_beta acts split: sum.split exn.split option.split)
  subgoal by (simp add: issue_v1_grant_response_def case_prod_beta acts split: sum.split exn.split option.split)
  subgoal by (simp add: create_v1_auto_approval_rule_response_def case_prod_beta acts split: sum.split exn.split option.split)
  subgoal by (simp add: http_create_grant_request_def case_prod_beta acts split: sum.split option.split)
  subgoal by (simp add: auto_approve_v1_grant_request_response_def case_prod_beta acts split: sum.split exn.split option.split)
  subgoal by (simp add: decide_v1_grant_request_response_def case_prod_beta acts split: sum.split exn.split option.split)
  done

abbreviation agent_workspace :: "AgentIdentity option \<Rightarrow> string option" where
  "agent_workspace identity \<equiv> map_option ai_workspace_id identity"

abbreviation key_workspace :: "WorkspaceIdentity option \<Rightarrow> string option" where
  "key_workspace identity \<equiv> map_option wi_workspace_id identity"

lemma agent_handlers_act:
  "acts_for (agent_workspace (agent_identity headers ids res now)) rnd s
     (snd (handle_v1_enforce_http headers body ids res now rnd s))"
  "acts_for (agent_workspace (agent_identity headers ids res now)) rnd s
     (snd (handle_v1_observe_http headers body ids res now rnd s))"
  "acts_for (agent_workspace (agent_identity headers ids res now)) rnd s
     (snd (handle_v1_simulate_http headers body ids res now rnd s))"
  "acts_for (agent_workspace (agent_identity headers ids res now)) rnd s
     (snd (handle_v1_tokens_http headers body ids res now max_ttl rnd s))"
  subgoal by (simp add: handle_v1_enforce_http_def case_prod_beta acts split: option.split sum.split)
  subgoal by (simp add: handle_v1_observe_http_def case_prod_beta acts split: option.split sum.split)
  subgoal by (simp add: handle_v1_simulate_http_def case_prod_beta acts split: option.split sum.split)
  subgoal by (simp add: handle_v1_tokens_http_def case_prod_beta acts split: option.split sum.split)
  done

lemma delegated_handler_acts:
  "acts_for (map_option pe_workspace_id (header_identity ''x-pep-key'' headers ids res now)) rnd s
     (snd (handle_v1_delegated_enforce_http headers body ids res now skew rnd s))"
  by (simp add: handle_v1_delegated_enforce_http_def case_prod_beta acts split: option.split sum.split)

text \<open>The routing of a handler is taken apart branch by branch.\<close>

lemma acts_branch:
  "(b \<Longrightarrow> acts_for who rnd s (snd x)) \<Longrightarrow> (\<not> b \<Longrightarrow> acts_for who rnd s (snd y)) \<Longrightarrow>
     acts_for who rnd s (snd (if b then x else y))"
  "acts_for who rnd s (snd n) \<Longrightarrow> (\<And>v. acts_for who rnd s (snd (f v))) \<Longrightarrow>
     acts_for who rnd s (snd (case opt of None \<Rightarrow> n | Some v \<Rightarrow> f v))"
  "(\<And>e. acts_for who rnd s (snd (g e))) \<Longrightarrow> (\<And>v. acts_for who rnd s (snd (h v))) \<Longrightarrow>
     acts_for who rnd s (snd (case res of Inl e \<Rightarrow> g e | Inr v \<Rightarrow> h v))"
  "acts_for who rnd s (snd k) \<Longrightarrow> (\<And>a l. acts_for who rnd s (snd (m a l))) \<Longrightarrow>
     acts_for who rnd s (snd (case xs of [] \<Rightarrow> k | a # l \<Rightarrow> m a l))"
  by (simp_all split: option.split sum.split list.split)

lemma same_branch:
  "(b \<Longrightarrow> snd x = s) \<Longrightarrow> (\<not> b \<Longrightarrow> snd y = s) \<Longrightarrow> snd (if b then x else y) = s"
  "snd n = s \<Longrightarrow> (\<And>v. opt = Some v \<Longrightarrow> snd (f v) = s) \<Longrightarrow> snd (case opt of None \<Rightarrow> n | Some v \<Rightarrow> f v) = s"
  "snd k = s \<Longrightarrow> (\<And>a l. snd (m a l) = s) \<Longrightarrow> snd (case xs of [] \<Rightarrow> k | a # l \<Rightarrow> m a l) = s"
  by (simp_all split: option.split list.split)

lemma acts_identified:
  "acts_for None rnd s (snd n) \<Longrightarrow> (\<And>i. acts_for (Some (key i)) rnd s (snd (f i))) \<Longrightarrow>
     acts_for (map_option key opt) rnd s (snd (case opt of None \<Rightarrow> n | Some i \<Rightarrow> f i))"
  by (simp split: option.split)

lemma revoke_state [simp]:
  "snd (case p of (Inl e, s') \<Rightarrow> (f e, s') | (Inr None, s') \<Rightarrow> (g, s') | (Inr (Some (a, b)), s') \<Rightarrow> (h a b, s')) = snd p"
  "snd (case q of (Inl e, s') \<Rightarrow> (f e, s') | (Inr None, s') \<Rightarrow> (g, s') | (Inr (Some c), s') \<Rightarrow> (k c, s')) = snd q"
  by (simp_all split: prod.split sum.split option.split)

lemma workspace_handlers_act:
  "acts_for (key_workspace (workspace_identity headers ids res now)) rnd s
     (snd (handle_v1_boundaries_http verb path headers body ids res now wall rnd s))"
  "acts_for (key_workspace (workspace_identity headers ids res now)) rnd s
     (snd (handle_v1_grants_http order verb path headers body params ids res now rnd s))"
  "acts_for (key_workspace (workspace_identity headers ids res now)) rnd s
     (snd (handle_v1_auto_approval_rules_http verb path headers body ids res now rnd s))"
  subgoal unfolding handle_v1_boundaries_http_def
    by (rule acts_identified) (intro acts_branch | simp add: acts)+
  subgoal unfolding handle_v1_grants_http_def
    by (rule acts_identified) (intro acts_branch | simp add: acts)+
  subgoal unfolding handle_v1_auto_approval_rules_http_def
    by (rule acts_identified) (intro acts_branch | simp add: acts)+
  done

text \<open>Creating a request takes an agent key; every other route of grant requests a workspace key first.\<close>

definition grant_requests_workspace ::
  "string \<Rightarrow> string \<Rightarrow> AgentIdentity option \<Rightarrow> WorkspaceIdentity option \<Rightarrow> string option" where
  "grant_requests_workspace verb path agent workspace =
     (if path = ''/v1/grant-requests''
      then if verb = ''POST'' then agent_workspace agent else key_workspace workspace
      else case workspace of None \<Rightarrow> agent_workspace agent | Some i \<Rightarrow> Some (wi_workspace_id i))"

lemma decide_acts: "acts_for (Some (wi_workspace_id who)) rnd s (snd (decide_grant_request i action who body now rnd s))"
  unfolding decide_grant_request_def by (intro acts_branch | simp add: acts)+

lemma grant_requests_handler_acts:
  "acts_for (grant_requests_workspace verb path (agent_identity headers aids ares now) (workspace_identity headers wids wres now))
     rnd s (snd (handle_v1_grant_requests_http order verb path headers body aids wids ares wres now rnd s))"
proof (cases "path = ''/v1/grant-requests''")
  case True
  then show ?thesis
    by (simp add: handle_v1_grant_requests_http_def grant_requests_workspace_def acts split: option.split)
next
  case False
  show ?thesis
  proof (cases "workspace_identity headers wids wres now")
    case None
    have "snd (handle_v1_grant_requests_http order verb path headers body aids wids ares wres now rnd s) = s"
      unfolding handle_v1_grant_requests_http_def if_not_P [OF False] None Let_def option.case
      by (intro same_branch) simp_all
    then show ?thesis by simp
  next
    case (Some who)
    have "acts_for (Some (wi_workspace_id who)) rnd s
        (snd (handle_v1_grant_requests_http order verb path headers body aids wids ares wres now rnd s))"
      unfolding handle_v1_grant_requests_http_def if_not_P [OF False] Some Let_def option.case
      by (intro acts_branch | simp add: acts decide_acts)+
    with False Some show ?thesis by (simp add: grant_requests_workspace_def)
  qed
qed

subsection \<open>The server\<close>

text \<open>
  Whether a request presents a valid service operator key, and the workspace a request authenticates for on its route;
  \<open>Some []\<close> stands for a service operator, whose route is not bound to a workspace, and for the routes that ask for
  no key.
\<close>

definition operator_authenticated :: "server \<Rightarrow> http_request \<Rightarrow> instant \<Rightarrow> bool" where
  "operator_authenticated cf rq now =
     (case dict_get (normalized_headers (authorization_headers rq ''X-Service-Operator-Key'')) ''x-service-operator-key'' of
        None \<Rightarrow> False
      | Some raw_key \<Rightarrow> resolve_service_operator cf raw_key now)"

definition request_workspace :: "server \<Rightarrow> http_request \<Rightarrow> instant \<Rightarrow> string option" where
  "request_workspace cf rq now =
     (let path = rq_path rq; agent = server_agent cf (header_dict rq) now;
          workspace = server_workspace cf (authorization_headers rq ''X-Workspace-Key'') now
      in if path = ''/v1/enforce/delegated''
         then map_option pe_workspace_id (header_identity ''x-pep-key'' (header_dict rq) (Some (cf_pep_keys cf))
                (cf_pep_identity_resolver cf) now)
         else if path \<in> {''/v1/enforce'', ''/v1/observe'', ''/v1/simulate'', ''/v1/tokens''} then agent_workspace agent
         else if under path ''/v1/grant-requests''
         then grant_requests_workspace (rq_method rq) path
                (server_agent cf (authorization_headers rq ''X-Workspace-Key'') now) workspace
         else if under path ''/v1/boundaries'' \<or> under path ''/v1/auto-approval-rules'' \<or> under path ''/v1/grants''
         then key_workspace workspace
         else if under path ''/v1/audit-events''
         then key_workspace (audit_identity (authorization_headers rq ''X-Auditor-Key'') (Some (cf_workspace_keys cf))
                (Some (resolve_workspace_identity cf)) (Some (cf_auditor_keys cf)) (Some (resolve_auditor_identity cf)) now)
         else if path = ''/v1/service/audit/auth-failures''
         then (if operator_authenticated cf rq now then Some [] else None)
         else Some [])"

lemma send_json_state [simp]: "snd (send_json r) = snd r"
  by (simp add: send_json_def)

lemma with_body_acts:
  "(\<And>v. acts_for who rnd s (snd (k v))) \<Longrightarrow> acts_for who rnd s (snd (with_body body k s))"
  by (simp add: with_body_def split: body_result.split)

lemma idempotent_state [simp]: "snd (send_idempotent_mutation path w actor operation body keys s) = s"
  by (simp add: send_idempotent_mutation_def execute_idempotent_http_def split: sum.split option.split)

lemma acts_idempotent:
  "acts_for who rnd s (snd m) \<Longrightarrow> (\<And>k i. acts_for who rnd s (snd (f k i))) \<Longrightarrow>
     acts_for who rnd s (snd (case (a, b) of (Some k, Some i) \<Rightarrow> f k i | _ \<Rightarrow> m))"
  "acts_for who rnd s (snd m) \<Longrightarrow> (\<And>k j i. acts_for who rnd s (snd (g k j i))) \<Longrightarrow>
     acts_for who rnd s (snd (case (a, c, b) of (Some k, Some j, Some i) \<Rightarrow> g k j i | _ \<Rightarrow> m))"
  by (simp_all split: option.split)

lemma agent_requests_act:
  "acts_for (agent_workspace (server_agent cf (header_dict rq) now)) rnd s (snd (handle_enforce_request cf rq now rnd s))"
  "acts_for (agent_workspace (server_agent cf (header_dict rq) now)) rnd s (snd (handle_observe_request cf rq now rnd s))"
  "acts_for (agent_workspace (server_agent cf (header_dict rq) now)) rnd s (snd (handle_simulate_request cf rq now rnd s))"
  "acts_for (agent_workspace (server_agent cf (header_dict rq) now)) rnd s (snd (handle_tokens_request cf rq keys now rnd s))"
  subgoal unfolding handle_enforce_request_def by (intro acts_branch with_body_acts) (simp_all add: agent_handlers_act)
  subgoal unfolding handle_observe_request_def by (intro acts_branch with_body_acts) (simp_all add: agent_handlers_act)
  subgoal unfolding handle_simulate_request_def by (intro acts_branch with_body_acts) (simp_all add: agent_handlers_act)
  subgoal unfolding handle_tokens_request_def Let_def
    by (intro acts_branch with_body_acts acts_idempotent) (simp_all add: agent_handlers_act)
  done

lemma delegated_request_acts:
  "acts_for (map_option pe_workspace_id (header_identity ''x-pep-key'' (header_dict rq) (Some (cf_pep_keys cf))
       (cf_pep_identity_resolver cf) now)) rnd s (snd (handle_delegated_enforce_request cf rq now rnd s))"
  unfolding handle_delegated_enforce_request_def
  by (intro acts_branch with_body_acts) (simp_all add: delegated_handler_acts)

lemma workspace_requests_act:
  "acts_for (key_workspace (server_workspace cf (authorization_headers rq ''X-Workspace-Key'') now)) rnd s
     (snd (handle_boundary_request cf rq keys now wall rnd s))"
  "acts_for (key_workspace (server_workspace cf (authorization_headers rq ''X-Workspace-Key'') now)) rnd s
     (snd (handle_auto_approval_rule_request cf rq keys now rnd s))"
  "acts_for (key_workspace (server_workspace cf (authorization_headers rq ''X-Workspace-Key'') now)) rnd s
     (snd (handle_grant_request cf rq keys now rnd s))"
  "acts_for (grant_requests_workspace (rq_method rq) (rq_path rq)
       (server_agent cf (authorization_headers rq ''X-Workspace-Key'') now)
       (server_workspace cf (authorization_headers rq ''X-Workspace-Key'') now)) rnd s
     (snd (handle_grant_request_request cf rq keys now rnd s))"
  subgoal unfolding handle_boundary_request_def Let_def
    by (intro with_body_acts acts_idempotent acts_branch) (simp_all add: workspace_handlers_act)
  subgoal unfolding handle_auto_approval_rule_request_def Let_def
    by (intro with_body_acts acts_idempotent acts_branch) (simp_all add: workspace_handlers_act)
  subgoal unfolding handle_grant_request_def Let_def
    by (intro with_body_acts acts_idempotent acts_branch) (simp_all add: workspace_handlers_act)
  subgoal unfolding handle_grant_request_request_def Let_def
    by (intro with_body_acts acts_idempotent acts_branch) (simp_all add: grant_requests_handler_acts)
  done

lemma read_requests_state [simp]:
  "snd (handle_audit_request cf rq now s) = s"
  "snd (handle_service_auth_failures_request cf rq now s) = s"
  "snd (handle_metrics_request cf verb s) = s"
  by (simp_all add: handle_audit_request_def handle_service_auth_failures_request_def handle_metrics_request_def
      split: option.split)

lemma handle_request_acts:
  "acts_for (request_workspace cf rq now) rnd s (snd (handle_request cf rq keys now wall rnd s))"
proof -
  consider (delegated) "rq_path rq = ''/v1/enforce/delegated''"
    | (agent) "rq_path rq \<in> {''/v1/enforce'', ''/v1/observe'', ''/v1/simulate'', ''/v1/tokens''}"
    | (requests) "under (rq_path rq) ''/v1/grant-requests''"
    | (admin) "under (rq_path rq) ''/v1/boundaries'' \<or> under (rq_path rq) ''/v1/auto-approval-rules''
        \<or> under (rq_path rq) ''/v1/grants''"
    | (other) "rq_path rq \<notin> {''/v1/enforce/delegated'', ''/v1/enforce'', ''/v1/observe'', ''/v1/simulate'', ''/v1/tokens''}"
        "\<not> under (rq_path rq) ''/v1/grant-requests''" "\<not> under (rq_path rq) ''/v1/boundaries''"
        "\<not> under (rq_path rq) ''/v1/auto-approval-rules''" "\<not> under (rq_path rq) ''/v1/grants''"
    by blast
  then show ?thesis
  proof cases
    case delegated
    then show ?thesis by (simp add: handle_request_def request_workspace_def delegated_request_acts)
  next
    case agent
    then show ?thesis
      by (elim insertE emptyE) (simp_all add: handle_request_def request_workspace_def agent_requests_act)
  next
    case requests
    then show ?thesis
      using workspace_requests_act(4) [where cf = cf and rq = rq and now = now and rnd = rnd and s = s and keys = keys]
      by (auto simp: under_def startswith_iff handle_request_def request_workspace_def)
  next
    case admin
    then show ?thesis
      using workspace_requests_act(1-3) [where cf = cf and rq = rq and now = now and rnd = rnd and s = s and keys = keys]
      by (auto simp: under_def startswith_iff handle_request_def request_workspace_def)
  next
    case other
    then have "snd (handle_request cf rq keys now wall rnd s) = s"
      unfolding handle_request_def Let_def by (intro same_branch) simp_all
    then show ?thesis by simp
  qed
qed

lemma dispatch_acts:
  "dispatch cf rq now wall time rnd (limiter, s) = (r, limiter', s') \<Longrightarrow> acts_for (request_workspace cf rq now) rnd s s'"
  using handle_request_acts [of cf rq now rnd s "header_get_all rq ''Idempotency-Key''" wall]
  by (auto simp: dispatch_def split: prod.splits if_splits)

subsection \<open>Sequences of requests\<close>

type_synonym arrival = "http_request \<times> instant \<times> instant \<times> rat \<times> entropy"

fun serve ::
  "server \<Rightarrow> arrival list \<Rightarrow> FixedWindowRateLimiter option \<times> InMemoryV1Service
     \<Rightarrow> (exn + reply) list \<times> FixedWindowRateLimiter option \<times> InMemoryV1Service" where
  "serve cf [] st = ([], st)"
| "serve cf ((rq, now, wall, time, rnd) # arrivals) st =
     (case dispatch cf rq now wall time rnd st of
        (r, st') \<Rightarrow> (case serve cf arrivals st' of (rs, st'') \<Rightarrow> (r # rs, st'')))"

lemma fresh_boundary_id:
  assumes "service_inv s" "\<forall>b\<in>set (sv_list_boundaries w s). b_boundary_id b \<noteq> k"
  shows "get_boundary_for_workspace (sv_boundary_registry s) k w = None"
proof (rule ccontr)
  have inv: "registry_inv (sv_boundary_registry s)" using assms(1) by (simp add: service_inv_def)
  assume "get_boundary_for_workspace (sv_boundary_registry s) k w \<noteq> None"
  then obtain b where b: "dict_get (sv_boundary_registry s) k = Some b" "b_workspace_id b = w"
    by (auto simp: get_boundary_for_workspace_def registry_get_def split: option.splits if_splits)
  then have "b \<in> set (sv_list_boundaries w s)"
    by (force simp: sv_list_boundaries_def list_for_workspace_def dest: map_of_SomeD)
  with assms(2) registry_invD(1) [OF inv b(1)] show False by blast
qed

lemma acts_view:
  assumes act: "acts_for who rnd s s'" and inv: "service_inv s" and who: "who \<noteq> Some w" and w: "w \<noteq> []"
    and fresh: "\<forall>b\<in>set (sv_list_boundaries w s). b_boundary_id b \<noteq> new_boundary_id rnd"
  shows "workspace_view w s' = workspace_view w s \<and> service_inv s'"
proof -
  have "workspace_view w (perform c s) = workspace_view w s \<and> service_inv (perform c s)"
    if c: "call_workspace s c \<noteq> w" "\<not> takes_over c w s" for c
    using effect_view [OF perform_effect [OF inv, of c] c(1) [symmetric] registry_other_workspace [OF inv c]]
      effect_inv [OF perform_effect [OF inv, of c] inv] by simp
  note call = this
  show ?thesis
  proof (cases who)
    case None
    then obtain surface now where "s' = s \<or> s' = perform (RecordAuthFailure surface now rnd) s"
      using act by (auto simp: acts_for_def)
    then show ?thesis
    proof
      assume "s' = perform (RecordAuthFailure surface now rnd) s"
      with call [of "RecordAuthFailure surface now rnd"] w show ?thesis by (simp add: takes_over_def)
    qed (use inv in simp)
  next
    case (Some w')
    with act consider "s' = s" | c where "s' = perform c s" "call_workspace s c = w'"
      "\<forall>registration now boundary_id wall rnd'. c = RegisterBoundary registration now boundary_id wall rnd' \<longrightarrow>
         boundary_id = None \<and> rnd' = rnd"
      by (auto simp: acts_for_def)
    then show ?thesis
    proof cases
      case 1
      with inv show ?thesis by simp
    next
      case c: 2
      have "\<not> takes_over c w s"
        using c(3) fresh_boundary_id [OF inv fresh] by (cases c) (auto simp: takes_over_def)
      with call [of c] c(1,2) who Some show ?thesis by simp
    qed
  qed
qed

text \<open>
  (C12) However many requests arrive, in whatever order, with whatever
  headers and bodies: as long as none of them authenticates for a workspace, nothing the service
  tells of that workspace changes. The ids drawn for new boundaries must not be ids of its own.
\<close>

theorem requests_stay_in_their_workspace:
  assumes "service_inv s" and "w \<noteq> []" and "serve cf arrivals (limiter, s) = (replies, limiter', s')"
    and "\<forall>(rq, now, wall, time, rnd) \<in> set arrivals. request_workspace cf rq now \<noteq> Some w
           \<and> (\<forall>b\<in>set (sv_list_boundaries w s). b_boundary_id b \<noteq> new_boundary_id rnd)"
  shows "workspace_view w s' = workspace_view w s"
  using assms
proof (induction arrivals arbitrary: s limiter replies)
  case (Cons a arrivals)
  obtain rq now wall time rnd where a: "a = (rq, now, wall, time, rnd)" by (metis prod_cases5)
  obtain r limiter1 s1 where d: "dispatch cf rq now wall time rnd (limiter, s) = (r, limiter1, s1)" by (metis prod_cases3)
  then obtain rs where run: "serve cf arrivals (limiter1, s1) = (rs, limiter', s')"
    using Cons.prems(3) a by (auto split: prod.splits)
  have step: "workspace_view w s1 = workspace_view w s" "service_inv s1"
    using acts_view [OF dispatch_acts [OF d] Cons.prems(1) _ Cons.prems(2)] Cons.prems(4) by (auto simp: a)
  then have "sv_list_boundaries w s1 = sv_list_boundaries w s" by (simp add: workspace_view_def)
  with Cons.IH [OF step(2) Cons.prems(2) run] Cons.prems(4) step(1) show ?case by fastforce
qed simp

subsection \<open>Requests without a valid key\<close>

definition refused :: "exn + reply \<Rightarrow> bool" where
  "refused r =
     (case r of
        Inl _ \<Rightarrow> True
      | Inr (JsonReply p) \<Rightarrow> 400 \<le> ps_status_code p \<and> ps_status_code p < 500
      | Inr (TextReply _ _) \<Rightarrow> False
      | Inr RateLimited \<Rightarrow> True)"

lemma refused_raise [simp]: "refused (Inl e)"
  by (simp add: refused_def)

lemma refused_send [simp]:
  "refused (fst (send_response r s)) \<longleftrightarrow> 400 \<le> hr_status_code r \<and> hr_status_code r < 500"
  by (simp add: refused_def send_json_def encode_json_response_def)

lemma refused_branch:
  "(b \<Longrightarrow> refused (fst x)) \<Longrightarrow> (\<not> b \<Longrightarrow> refused (fst y)) \<Longrightarrow> refused (fst (if b then x else y))"
  "(opt = None \<Longrightarrow> refused (fst n)) \<Longrightarrow> (\<And>v. opt = Some v \<Longrightarrow> refused (fst (f v))) \<Longrightarrow>
     refused (fst (case opt of None \<Rightarrow> n | Some v \<Rightarrow> f v))"
  by (simp_all split: option.split)

lemma refused_body:
  assumes "\<And>r. body = BodyError r \<Longrightarrow> 400 \<le> hr_status_code r \<and> hr_status_code r < 500" "\<And>v. refused (fst (k v))"
  shows "refused (fst (with_body body k s))"
  using assms by (cases body) (simp_all add: with_body_def)

lemma read_json_body_status:
  "read_json_body cf rq = BodyError r \<Longrightarrow> 400 \<le> hr_status_code r \<and> hr_status_code r < 500"
  by (auto simp: read_json_body_def split: option.splits if_splits decoded.splits)

lemma method_required_status [simp]: "hr_status_code (method_required verb path) = 405"
  by (simp add: method_required_def)

lemma static_status [simp]: "hr_status_code workspace_required = 401" "hr_status_code route_not_found = 404"
  by (simp_all add: workspace_required_def route_not_found_def)

lemma refused_json [simp]:
  "refused (fst (send_json (Inr r, s))) \<longleftrightarrow> 400 \<le> hr_status_code r \<and> hr_status_code r < 500"
  by (simp add: refused_def send_json_def encode_json_response_def)

text \<open>Without an identity every handler answers 401, whatever the rest of the request is.\<close>

lemma agent_unauthenticated:
  assumes "server_agent cf (header_dict rq) now = None"
  shows "refused (fst (handle_enforce_request cf rq now rnd s))" "refused (fst (handle_observe_request cf rq now rnd s))"
    "refused (fst (handle_simulate_request cf rq now rnd s))" "refused (fst (handle_tokens_request cf rq keys now rnd s))"
  unfolding handle_enforce_request_def handle_observe_request_def handle_simulate_request_def handle_tokens_request_def
    Let_def assms
  by (intro refused_branch refused_body read_json_body_status;
      simp add: assms handle_v1_enforce_http_def handle_v1_observe_http_def handle_v1_simulate_http_def
        handle_v1_tokens_http_def split: option.split)+

lemma delegated_unauthenticated:
  "header_identity ''x-pep-key'' (header_dict rq) (Some (cf_pep_keys cf)) (cf_pep_identity_resolver cf) now = None \<Longrightarrow>
     refused (fst (handle_delegated_enforce_request cf rq now rnd s))"
  unfolding handle_delegated_enforce_request_def
  by (intro refused_branch refused_body read_json_body_status; simp add: handle_v1_delegated_enforce_http_def)

lemma workspace_unauthenticated:
  assumes "server_workspace cf (authorization_headers rq ''X-Workspace-Key'') now = None"
  shows "refused (fst (handle_boundary_request cf rq keys now wall rnd s))"
    "refused (fst (handle_auto_approval_rule_request cf rq keys now rnd s))"
    "refused (fst (handle_grant_request cf rq keys now rnd s))"
  unfolding handle_boundary_request_def handle_auto_approval_rule_request_def handle_grant_request_def Let_def assms
  by (intro refused_branch refused_body;
      auto simp: assms handle_v1_boundaries_http_def handle_v1_auto_approval_rules_http_def handle_v1_grants_http_def
        dest: read_json_body_status split: option.split if_splits)+

lemma grant_requests_unauthenticated:
  assumes "grant_requests_workspace (rq_method rq) (rq_path rq)
       (server_agent cf (authorization_headers rq ''X-Workspace-Key'') now)
       (server_workspace cf (authorization_headers rq ''X-Workspace-Key'') now) = None"
    and "under (rq_path rq) ''/v1/grant-requests''"
  shows "refused (fst (handle_grant_request_request cf rq keys now rnd s))"
proof -
  let ?h = "authorization_headers rq ''X-Workspace-Key''"
  let ?handler = "\<lambda>body. handle_v1_grant_requests_http (cf_request_field_order cf) (rq_method rq) (rq_path rq) ?h body
      (Some (cf_agent_keys cf)) (Some (cf_workspace_keys cf)) (cf_agent_identity_resolver cf)
      (Some (resolve_workspace_identity cf)) now rnd s"
  have unauthenticated: "\<exists>r. ?handler body = respond r s \<and> hr_status_code r = 401" for body
    using assms
    by (auto simp: grant_requests_workspace_def handle_v1_grant_requests_http_def under_def split: option.splits if_splits)
  have plain: "(case (keys, grant_request_idempotency_operation (rq_method rq) (rq_path rq), server_workspace cf ?h now) of
      (Some k, Some op, Some i) \<Rightarrow> f k op i | _ \<Rightarrow> m) = m" for f m
  proof (cases "rq_path rq = ''/v1/grant-requests''")
    case True
    then have "grant_request_idempotency_operation (rq_method rq) (rq_path rq) = None"
      by (simp add: grant_request_idempotency_operation_def startswith_def)
    then show ?thesis by (simp split: option.split)
  next
    case False
    with assms(1) have "server_workspace cf ?h now = None"
      by (auto simp: grant_requests_workspace_def split: option.splits)
    then show ?thesis by (simp split: option.split)
  qed
  show ?thesis
    unfolding handle_grant_request_request_def Let_def plain
  proof (rule refused_body)
    show "400 \<le> hr_status_code r \<and> hr_status_code r < 500"
      if "(if rq_method rq = ''POST'' then read_optional_json_body cf rq else Body PNone) = BodyError r" for r
      using that by (auto simp: read_optional_json_body_def dest: read_json_body_status split: if_splits)
    show "refused (fst (send_json (?handler body)))" for body
      using unauthenticated [of body] by auto
  qed
qed

lemma audit_unauthenticated:
  "audit_identity (authorization_headers rq ''X-Auditor-Key'') (Some (cf_workspace_keys cf))
       (Some (resolve_workspace_identity cf)) (Some (cf_auditor_keys cf)) (Some (resolve_auditor_identity cf)) now = None \<Longrightarrow>
     refused (fst (handle_audit_request cf rq now s))"
  by (simp add: handle_audit_request_def handle_v1_audit_events_http_def)

lemma operator_unauthenticated:
  "\<not> operator_authenticated cf rq now \<Longrightarrow> refused (fst (handle_service_auth_failures_request cf rq now s))"
  by (simp add: handle_service_auth_failures_request_def handle_v1_service_auth_failures_http_def operator_authenticated_def
      split: option.splits)

lemma handle_request_refused:
  assumes "request_workspace cf rq now = None"
  shows "refused (fst (handle_request cf rq keys now wall rnd s))"
proof -
  consider (delegated) "rq_path rq = ''/v1/enforce/delegated''"
    | (agent) "rq_path rq \<in> {''/v1/enforce'', ''/v1/observe'', ''/v1/simulate'', ''/v1/tokens''}"
    | (requests) "under (rq_path rq) ''/v1/grant-requests''"
    | (admin) "under (rq_path rq) ''/v1/boundaries'' \<or> under (rq_path rq) ''/v1/auto-approval-rules''
        \<or> under (rq_path rq) ''/v1/grants''"
    | (audit) "under (rq_path rq) ''/v1/audit-events''"
    | (operator) "rq_path rq = ''/v1/service/audit/auth-failures''"
    using assms by (auto simp: request_workspace_def Let_def split: if_splits)
  then show ?thesis
  proof cases
    case delegated
    with assms show ?thesis
      by (simp add: handle_request_def request_workspace_def delegated_unauthenticated)
  next
    case agent
    with assms show ?thesis
      by (elim insertE emptyE) (simp_all add: handle_request_def request_workspace_def agent_unauthenticated)
  next
    case requests
    with assms grant_requests_unauthenticated [OF _ requests, where cf = cf and now = now and keys = keys and rnd = rnd and s = s] show ?thesis
      by (auto simp: under_def startswith_iff handle_request_def request_workspace_def)
  next
    case admin
    with assms workspace_unauthenticated [where cf = cf and rq = rq and now = now] show ?thesis
      by (auto simp: under_def startswith_iff handle_request_def request_workspace_def)
  next
    case audit
    with assms audit_unauthenticated [where cf = cf and rq = rq and now = now and s = s] show ?thesis
      by (auto simp: under_def startswith_iff handle_request_def request_workspace_def)
  next
    case operator
    with assms operator_unauthenticated [of cf rq now s] show ?thesis
      by (auto simp: under_def startswith_def handle_request_def request_workspace_def split: if_splits)
  qed
qed

text \<open>
  (C18) A request that presents no valid key for its route is
  never answered with success, and leaves the service as it was, but for the record that an
  authentication failed. This holds for every route that asks for a key (the agent, delegated, workspace,
  auditor and service operator routes), whatever the method, path suffix, query and body, idempotency key included.
\<close>

theorem unauthenticated_requests_are_refused:
  assumes "request_workspace cf rq now = None"
    and "dispatch cf rq now wall time rnd (limiter, s) = (r, limiter', s')"
  shows "refused r \<and> (s' = s \<or> (\<exists>surface t. s' = sv_record_auth_failure surface t rnd s))"
proof -
  have "refused r"
    using assms(2) handle_request_refused [OF assms(1), of "header_get_all rq ''Idempotency-Key''" wall rnd s]
    by (auto simp: dispatch_def refused_def split: prod.splits if_splits)
  with dispatch_acts [OF assms(2)] assms(1) show ?thesis by (auto simp: acts_for_def)
qed

subsection \<open>An example server\<close>

definition example_server :: server where
  "example_server =
     \<lparr>cf_agent_keys = [(''ak'', \<lparr>ai_workspace_id = ''other'', ai_agent_id = ''agent''\<rparr>)],
      cf_workspace_keys = [(''wk'', \<lparr>wi_workspace_id = ''other''\<rparr>)], cf_auditor_keys = [], cf_service_keys = [],
      cf_pep_keys = [], cf_agent_identity_resolver = None, cf_workspace_identity_resolver = None,
      cf_auditor_identity_resolver = None, cf_service_operator_resolver = None, cf_pep_identity_resolver = None,
      cf_oidc = None, cf_service_mode = ''local'', cf_metrics = None, cf_ready = Inr True, cf_pop_skew_env = None,
      cf_max_ttl_env = None, cf_source = (\<lambda>peer _. Inr peer), cf_loads = (\<lambda>_. NotJson),
      cf_list_auth_failures = (\<lambda>_. []), cf_grant_filter_order = [''agent_id'', ''status''],
      cf_audit_filter_order = AUDIT_QUERY_FIELDS, cf_request_field_order = REQUEST_OPTIONAL_FIELDS\<rparr>"

definition example_http_request :: "(string \<times> string) list \<Rightarrow> http_request" where
  "example_http_request headers =
     \<lparr>rq_method = ''POST'', rq_path = ''/v1/grants/grt_r/revoke'', rq_params = [], rq_headers = headers,
      rq_payload = [], rq_peer = ''10.0.0.1''\<rparr>"

lemma example_http_workspace:
  "request_workspace example_server (example_http_request [(''x-workspace-key'', ''wk'')]) 7 = Some ''other''"
  "request_workspace example_server (example_http_request [(''x-workspace-key'', ''wrong'')]) 7 = None"
  by (simp_all add: request_workspace_def example_server_def example_http_request_def under_def startswith_def
      authorization_headers_def header_dict_def normalized_headers_def py_lower_def lower_char_def LOCAL_HEADERS_def
      workspace_identity_def header_identity_def resolve_identity_def resolve_workspace_identity_def oidc_workspace_def)

theorem requests_stay_in_their_workspace_witness:
  "workspace_view ''ws'' (snd (snd (serve example_server
       [(example_http_request [(''x-workspace-key'', ''wk'')], 7, 7, 7, \<lambda>_. ''r''),
        (example_http_request [(''x-workspace-key'', ''wrong'')], 7, 7, 8, \<lambda>_. ''r'')] (None, example_service))))
    = workspace_view ''ws'' example_service"
proof -
  have none: "sv_list_boundaries ''ws'' example_service = []"
    by (simp add: sv_list_boundaries_def list_for_workspace_def example_service_def sv_post_init_def im_init_grants_def
        im_insert_grant_def)
  let ?arrivals = "[(example_http_request [(''x-workspace-key'', ''wk'')], 7 :: int, 7 :: int, 7 :: rat, \<lambda>_. ''r''),
        (example_http_request [(''x-workspace-key'', ''wrong'')], 7, 7, 8, \<lambda>_. ''r'')]"
  have run: "serve example_server ?arrivals (None, example_service) =
      (fst (serve example_server ?arrivals (None, example_service)),
       fst (snd (serve example_server ?arrivals (None, example_service))),
       snd (snd (serve example_server ?arrivals (None, example_service))))"
    by simp
  show ?thesis
    by (rule requests_stay_in_their_workspace [OF example_service_inv _ run]) (simp_all add: example_http_workspace none)
qed

definition example_operator_request :: http_request where
  "example_operator_request =
     \<lparr>rq_method = ''GET'', rq_path = ''/v1/service/audit/auth-failures'', rq_params = [],
      rq_headers = [(''x-service-operator-key'', ''wrong'')], rq_payload = [], rq_peer = ''10.0.0.1''\<rparr>"

lemma example_operator_workspace: "request_workspace example_server example_operator_request 7 = None"
  by (simp add: request_workspace_def example_server_def example_operator_request_def under_def startswith_def
      operator_authenticated_def authorization_headers_def header_dict_def normalized_headers_def py_lower_def lower_char_def
      LOCAL_HEADERS_def resolve_service_operator_def)

theorem unauthenticated_requests_are_refused_witness:
  "refused (fst (dispatch example_server example_operator_request 7 7 7 (\<lambda>_. ''r'') (None, example_service)))
   \<and> refused (fst (dispatch example_server (example_http_request [(''x-workspace-key'', ''wrong'')]) 7 7 7 (\<lambda>_. ''r'')
     (None, example_service)))"
  using unauthenticated_requests_are_refused [OF example_http_workspace(2), of 7 7 "\<lambda>_. ''r''" None example_service]
    unauthenticated_requests_are_refused [OF example_operator_workspace, of 7 7 "\<lambda>_. ''r''" None example_service]
  by (metis prod.collapse)

end
