(* ===== verification/IdempotencyStore.thy ===== *)
theory IdempotencyStore
  imports Idempotency
begin

section \<open>The idempotency store\<close>

text \<open>
  \<^verbatim>\<open>src/vinctor_service/idempotency_storage.py\<close>, \<^verbatim>\<open>idempotency_sqlite.py\<close>,
  \<^verbatim>\<open>idempotency_sqlite_completion.py\<close>, \<^verbatim>\<open>idempotency_sqlite_result_storage.py\<close>,
  \<^verbatim>\<open>idempotency_sqlite_executor.py\<close> and the cipher of \<^verbatim>\<open>idempotency_crypto.py\<close>: the store that makes a
  mutation run once per key, over its three tables.

  \<open>id_user\<close> is the rest of the database, what a mutation works on. A transaction is one step: it
  commits, or an error leaves the database as it was. Every operation takes its reading of the
  database clock as an argument. AES-GCM is a third-party package: \<open>seal\<close> and \<open>unseal\<close> stand for
  \<^verbatim>\<open>AESGCM(key).encrypt\<close> and \<^verbatim>\<open>decrypt\<close> (\<open>None\<close> when they raise). Nonces come from \<open>nonce\<close>, the
  result of \<^verbatim>\<open>nonce_factory\<close> (\<open>None\<close> for \<^verbatim>\<open>OSError\<close>). The constraints of the tables are those of the
  schema in \<^verbatim>\<open>sqlite.py\<close>; a statement that violates one raises \<^verbatim>\<open>sqlite3.IntegrityError\<close>.
\<close>

subsection \<open>Keys and the cipher\<close>

record IdempotencyKeyVersion =
  kv_version :: string
  kv_material :: bytes
  kv_commitment :: bytes

record IdempotencyKeyring =
  kr_active_key :: IdempotencyKeyVersion
  kr_decryption_keys :: "IdempotencyKeyVersion list"

definition KEY_COMMITMENT_DOMAIN :: bytes where
  "KEY_COMMITMENT_DOMAIN = utf8 ''vinctor.idempotency.key-commitment.v1'' @ [0]"

definition key_commitment :: "bytes \<Rightarrow> bytes" where
  "key_commitment material = sha256 (KEY_COMMITMENT_DOMAIN @ material)"

definition decryption_key :: "IdempotencyKeyring \<Rightarrow> string \<Rightarrow> IdempotencyKeyVersion option" where
  "decryption_key ring version = find_first (\<lambda>k. kv_version k = version) (kr_decryption_keys ring)"

record CryptoReservation =
  rs_version :: string
  rs_slot :: int
  rs_nonce :: bytes
  rs_reserved_at_epoch :: int

record aead =
  seal :: "bytes \<Rightarrow> bytes \<Rightarrow> bytes \<Rightarrow> bytes \<Rightarrow> bytes option"
  unseal :: "bytes \<Rightarrow> bytes \<Rightarrow> bytes \<Rightarrow> bytes \<Rightarrow> bytes option"

definition ENVELOPE_AAD_DOMAIN :: bytes where
  "ENVELOPE_AAD_DOMAIN = utf8 ''vinctor:idempotency-envelope:v1''"

definition ENVELOPE_FORMAT_VERSION :: int where
  "ENVELOPE_FORMAT_VERSION = 1"

definition envelope_aad :: "int \<Rightarrow> string \<Rightarrow> bytes \<Rightarrow> idem_error + bytes" where
  "envelope_aad format_version version aad =
     join_parts [Inr ENVELOPE_AAD_DOMAIN, int64 format_version, length_prefix (utf8 version), length_prefix aad]"

definition encrypt_with_nonce ::
  "aead \<Rightarrow> bytes \<Rightarrow> string \<Rightarrow> bytes \<Rightarrow> bytes \<Rightarrow> bytes \<Rightarrow> idem_error + EncryptedResponseEnvelope" where
  "encrypt_with_nonce cipher key version nonce plaintext aad =
     (if length key \<noteq> 32 \<or> version = [] \<or> length nonce \<noteq> 12 then Inl IdempotencyCipherUnavailableError
      else case envelope_aad ENVELOPE_FORMAT_VERSION version aad of
        Inl _ \<Rightarrow> Inl IdempotencyCipherUnavailableError
      | Inr data \<Rightarrow>
          (case seal cipher key nonce plaintext data of
             None \<Rightarrow> Inl IdempotencyCipherUnavailableError
           | Some ciphertext \<Rightarrow>
               Inr \<lparr>en_format_version = ENVELOPE_FORMAT_VERSION, en_version = version, en_nonce = nonce,
                    en_ciphertext = ciphertext\<rparr>))"

definition encrypt_reserved_response ::
  "aead \<Rightarrow> IdempotencyKeyVersion \<Rightarrow> CryptoReservation \<Rightarrow> bytes \<Rightarrow> bytes \<Rightarrow> idem_error + EncryptedResponseEnvelope" where
  "encrypt_reserved_response cipher key reservation plaintext aad =
     (if kv_version key \<noteq> rs_version reservation then Inl IdempotencyCipherUnavailableError
      else encrypt_with_nonce cipher (kv_material key) (kv_version key) (rs_nonce reservation) plaintext aad)"

definition decrypt_response ::
  "aead \<Rightarrow> (string, bytes) dict \<Rightarrow> EncryptedResponseEnvelope \<Rightarrow> bytes \<Rightarrow> idem_error + bytes" where
  "decrypt_response cipher keys envelope aad =
     (if en_format_version envelope \<noteq> ENVELOPE_FORMAT_VERSION \<or> en_version envelope = []
         \<or> length (en_nonce envelope) \<noteq> 12 \<or> length (en_ciphertext envelope) < 16
      then Inl IdempotencyCipherUnavailableError
      else case dict_get keys (en_version envelope) of
        None \<Rightarrow> Inl IdempotencyCipherUnavailableError
      | Some key \<Rightarrow>
          if length key \<noteq> 32 then Inl IdempotencyCipherUnavailableError
          else (case envelope_aad (en_format_version envelope) (en_version envelope) aad of
                  Inl _ \<Rightarrow> Inl IdempotencyCipherUnavailableError
                | Inr data \<Rightarrow>
                    (case unseal cipher key (en_nonce envelope) (en_ciphertext envelope) data of
                       None \<Rightarrow> Inl IdempotencyCipherUnavailableError
                     | Some plaintext \<Rightarrow> Inr plaintext)))"

subsection \<open>Plaintext of a stored response\<close>

definition RESPONSE_PLAINTEXT_DOMAIN :: bytes where
  "RESPONSE_PLAINTEXT_DOMAIN = utf8 ''vinctor:idempotency-response-plaintext:v1''"

definition encode_optional_text :: "string option \<Rightarrow> idem_error + bytes" where
  "encode_optional_text v =
     (case v of
        None \<Rightarrow> Inr [0]
      | Some s \<Rightarrow> (case length_prefix (utf8 s) of Inl e \<Rightarrow> Inl e | Inr b \<Rightarrow> Inr (1 # b)))"

definition encode_response_plaintext :: "PreSerializedHttpResponse \<Rightarrow> idem_error + bytes" where
  "encode_response_plaintext response =
     join_parts [Inr RESPONSE_PLAINTEXT_DOMAIN, length_prefix (ps_body response),
                 encode_optional_text (ps_error_code response), encode_optional_text (ps_decision response)]"

text \<open>\<^verbatim>\<open>int.from_bytes(b, "big")\<close>\<close>

definition from_be :: "bytes \<Rightarrow> nat" where
  "from_be b = foldl (\<lambda>n x. 256 * n + unat x) 0 b"

text \<open>\<^verbatim>\<open>bytes.decode()\<close> for the code points of the model; \<open>None\<close> for \<^verbatim>\<open>UnicodeDecodeError\<close>.\<close>

fun utf8_decode :: "bytes \<Rightarrow> string option" where
  "utf8_decode [] = Some []"
| "utf8_decode (b # bs) =
     (if unat b < 128 then map_option (\<lambda>s. char_of (unat b) # s) (utf8_decode bs)
      else (case bs of
              [] \<Rightarrow> None
            | c # cs \<Rightarrow>
                if unat b \<in> {194, 195} \<and> 128 \<le> unat c \<and> unat c < 192
                then map_option (\<lambda>s. char_of ((unat b - 192) * 64 + (unat c - 128)) # s) (utf8_decode cs)
                else None))"

text \<open>The readers take what is left of the payload and return the value and the rest.\<close>

definition read_length_prefixed :: "bytes \<Rightarrow> (bytes \<times> bytes) option" where
  "read_length_prefixed payload =
     (if length payload < 4 then None
      else let n = from_be (take 4 payload); rest = drop 4 payload
           in if length rest < n then None else Some (take n rest, drop n rest))"

definition read_optional_text :: "bytes \<Rightarrow> (string option \<times> bytes) option" where
  "read_optional_text payload =
     (case payload of
        [] \<Rightarrow> None
      | tag # rest \<Rightarrow>
          if tag = 0 then Some (None, rest)
          else if tag = 1
          then (case read_length_prefixed rest of
                  None \<Rightarrow> None
                | Some (encoded, rest') \<Rightarrow>
                    (case utf8_decode encoded of None \<Rightarrow> None | Some s \<Rightarrow> Some (Some s, rest')))
          else None)"

definition decode_response_plaintext :: "int \<Rightarrow> bytes \<Rightarrow> idem_error + PreSerializedHttpResponse" where
  "decode_response_plaintext status_code plaintext =
     (let n = length RESPONSE_PLAINTEXT_DOMAIN
      in if take n plaintext \<noteq> RESPONSE_PLAINTEXT_DOMAIN then Inl IdempotencyResultUnavailable
         else case read_length_prefixed (drop n plaintext) of
           None \<Rightarrow> Inl IdempotencyResultUnavailable
         | Some (body, rest) \<Rightarrow>
             (case read_optional_text rest of
                None \<Rightarrow> Inl IdempotencyResultUnavailable
              | Some (error_code, rest') \<Rightarrow>
                  (case read_optional_text rest' of
                     Some (decision, []) \<Rightarrow>
                       Inr \<lparr>ps_status_code = status_code, ps_content_type = ''application/json'', ps_body = body,
                            ps_error_code = error_code, ps_decision = decision\<rparr>
                   | _ \<Rightarrow> Inl IdempotencyResultUnavailable)))"

subsection \<open>Tables\<close>

record CompletedResultRecord =
  cr_request_fingerprint :: bytes
  cr_format_version :: int
  cr_status_code :: int
  cr_cipher_key_version :: string
  cr_response_nonce :: bytes
  cr_response_ciphertext :: bytes
  cr_created_at_epoch :: int
  cr_expires_at_epoch :: int

record key_version_row =
  ky_commitment :: bytes
  ky_reserved_encryption_slots :: int
  ky_first_seen_epoch :: int
  ky_soft_limit_reported_epoch :: "int option"
  ky_write_disabled_epoch :: "int option"
  ky_write_disabled_reason :: "string option"
  ky_drain_completed_epoch :: "int option"
  ky_retired_epoch :: "int option"

record nonce_row =
  nr_cipher_key_version :: string
  nr_slot :: int
  nr_nonce :: bytes
  nr_reserved_at_epoch :: int
  nr_owner :: "identity4 \<times> bytes"
  nr_claimed_at_epoch :: "int option"

record 'u idem_db =
  id_versions :: "(string, key_version_row) dict"
  id_nonces :: "nonce_row list"
  id_results :: "(identity4, CompletedResultRecord) dict"
  id_user :: 'u

definition HARD_SLOT_LIMIT :: int where
  "HARD_SLOT_LIMIT = 2 ^ 24"

definition SOFT_SLOT_LIMIT :: int where
  "SOFT_SLOT_LIMIT = 2 ^ 23"

definition identity_ok :: "identity4 \<Rightarrow> bool" where
  "identity_ok i = (case i of (w, p, o', k) \<Rightarrow> w \<noteq> [] \<and> p \<noteq> [] \<and> o' \<noteq> [] \<and> length k = 32)"

definition result_row_ok :: "identity4 \<Rightarrow> CompletedResultRecord \<Rightarrow> bool" where
  "result_row_ok i r \<longleftrightarrow>
     identity_ok i \<and> length (cr_request_fingerprint r) = 32 \<and> cr_format_version r = 1
     \<and> 200 \<le> cr_status_code r \<and> cr_status_code r \<le> 499 \<and> length (cr_response_nonce r) = 12
     \<and> 16 \<le> length (cr_response_ciphertext r) \<and> 0 \<le> cr_created_at_epoch r
     \<and> cr_created_at_epoch r < cr_expires_at_epoch r"

definition nonce_row_ok :: "nonce_row \<Rightarrow> bool" where
  "nonce_row_ok r \<longleftrightarrow>
     1 \<le> nr_slot r \<and> nr_slot r \<le> HARD_SLOT_LIMIT \<and> length (nr_nonce r) = 12 \<and> 0 \<le> nr_reserved_at_epoch r
     \<and> identity_ok (fst (nr_owner r)) \<and> length (snd (nr_owner r)) = 32"

subsection \<open>Classification of a stored result\<close>

datatype IdempotencyLookupResult =
    IdempotencyReplayCandidate PreSerializedHttpResponse
  | IdempotencyProceedToReservation

definition require_invocation :: "IdempotencyInvocation \<Rightarrow> idem_error option" where
  "require_invocation i =
     (if iv_workspace_id i = [] \<or> iv_principal i = [] \<or> iv_operation i = [] \<or> length (iv_key_hash i) \<noteq> 32
         \<or> length (iv_request_fingerprint i) \<noteq> 32
      then Some IdempotencyWriteUnavailable else None)"

definition result_aad :: "identity4 \<Rightarrow> CompletedResultRecord \<Rightarrow> idem_error + bytes" where
  "result_aad i r =
     (case i of (w, p, o', k) \<Rightarrow>
        build_response_aad
          \<lparr>ra_format_version = cr_format_version r, ra_workspace_id = w, ra_principal = p, ra_operation = o',
           ra_key_hash = k, ra_request_fingerprint = cr_request_fingerprint r, ra_status_code = cr_status_code r,
           ra_content_type = ''application/json'', ra_cipher_key_version = cr_cipher_key_version r,
           ra_created_at_epoch = cr_created_at_epoch r, ra_expires_at_epoch = cr_expires_at_epoch r\<rparr>)"

definition authenticate_completed_result ::
  "aead \<Rightarrow> IdempotencyInvocation \<Rightarrow> CompletedResultRecord \<Rightarrow> IdempotencyKeyring option \<Rightarrow> idem_error + bytes" where
  "authenticate_completed_result cipher invocation record keyring =
     (case require_invocation invocation of
        Some e \<Rightarrow> Inl e
      | None \<Rightarrow>
          (case keyring of
             None \<Rightarrow> Inl IdempotencyResultUnavailable
           | Some ring \<Rightarrow>
               (case decryption_key ring (cr_cipher_key_version record) of
                  None \<Rightarrow> Inl IdempotencyResultUnavailable
                | Some key \<Rightarrow>
                    (case result_aad (result_identity invocation) record of
                       Inl _ \<Rightarrow> Inl IdempotencyResultUnavailable
                     | Inr aad \<Rightarrow>
                         (case decrypt_response cipher [(cr_cipher_key_version record, kv_material key)]
                                 \<lparr>en_format_version = cr_format_version record, en_version = cr_cipher_key_version record,
                                  en_nonce = cr_response_nonce record, en_ciphertext = cr_response_ciphertext record\<rparr> aad of
                            Inl _ \<Rightarrow> Inl IdempotencyResultUnavailable
                          | Inr plaintext \<Rightarrow> Inr plaintext)))))"

definition classify_completed_result ::
  "aead \<Rightarrow> IdempotencyInvocation \<Rightarrow> CompletedResultRecord option \<Rightarrow> IdempotencyKeyring option \<Rightarrow> int
     \<Rightarrow> idem_error + IdempotencyLookupResult" where
  "classify_completed_result cipher invocation record keyring now_epoch =
     (case require_invocation invocation of
        Some e \<Rightarrow> Inl e
      | None \<Rightarrow>
          (case record of
             None \<Rightarrow> Inr IdempotencyProceedToReservation
           | Some r \<Rightarrow>
               (case authenticate_completed_result cipher invocation r keyring of
                  Inl e \<Rightarrow> Inl e
                | Inr plaintext \<Rightarrow>
                    if cr_expires_at_epoch r \<le> now_epoch then Inr IdempotencyProceedToReservation
                    else if cr_request_fingerprint r \<noteq> iv_request_fingerprint invocation then Inl IdempotencyConflict
                    else map_sum id IdempotencyReplayCandidate
                           (decode_response_plaintext (cr_status_code r) plaintext))))"

definition terminal_expiry_epoch :: "IdempotencyInvocation \<Rightarrow> int \<Rightarrow> int option \<Rightarrow> int" where
  "terminal_expiry_epoch invocation now_epoch replay_not_after_epoch =
     (let ttl_seconds = (if iv_max_terminal_ttl_seconds invocation \<le> 0 then 86400
                         else iv_max_terminal_ttl_seconds invocation);
          expires_at_epoch = now_epoch + min ttl_seconds 86400
      in case replay_not_after_epoch of None \<Rightarrow> expires_at_epoch | Some t \<Rightarrow> min expires_at_epoch t)"

subsection \<open>Statements\<close>

definition load_sqlite_result :: "'u idem_db \<Rightarrow> IdempotencyInvocation \<Rightarrow> CompletedResultRecord option" where
  "load_sqlite_result d invocation = dict_get (id_results d) (result_identity invocation)"

definition delete_sqlite_result :: "IdempotencyInvocation \<Rightarrow> 'u idem_db \<Rightarrow> 'u idem_db" where
  "delete_sqlite_result invocation d =
     d\<lparr>id_results := filter (\<lambda>(k, _). k \<noteq> result_identity invocation) (id_results d)\<rparr>"

definition insert_sqlite_result ::
  "IdempotencyInvocation \<Rightarrow> CacheableTerminalOutcome \<Rightarrow> EncryptedResponseEnvelope \<Rightarrow> int \<Rightarrow> int \<Rightarrow> 'u idem_db
     \<Rightarrow> idem_error + 'u idem_db" where
  "insert_sqlite_result invocation outcome envelope now_epoch expires_at_epoch d =
     (let record = \<lparr>cr_request_fingerprint = iv_request_fingerprint invocation,
                    cr_format_version = en_format_version envelope,
                    cr_status_code = ps_status_code (co_response outcome), cr_cipher_key_version = en_version envelope,
                    cr_response_nonce = en_nonce envelope, cr_response_ciphertext = en_ciphertext envelope,
                    cr_created_at_epoch = now_epoch, cr_expires_at_epoch = expires_at_epoch\<rparr>
      in if \<not> result_row_ok (result_identity invocation) record
            \<or> dict_get (id_results d) (result_identity invocation) \<noteq> None
            \<or> (\<exists>(_, r)\<in>set (id_results d). cr_cipher_key_version r = cr_cipher_key_version record
                 \<and> cr_response_nonce r = cr_response_nonce record)
            \<or> dict_get (id_versions d) (cr_cipher_key_version record) = None
         then Inl SqliteIntegrityError
         else Inr (d\<lparr>id_results := dict_set (result_identity invocation) record (id_results d)\<rparr>))"

text \<open>The row of the ledger that a reservation and its owner name.\<close>

definition reservation_row :: "CryptoReservation \<Rightarrow> IdempotencyInvocation \<Rightarrow> nonce_row \<Rightarrow> bool" where
  "reservation_row reservation invocation r \<longleftrightarrow>
     nr_cipher_key_version r = rs_version reservation \<and> nr_slot r = rs_slot reservation
     \<and> nr_nonce r = rs_nonce reservation \<and> nr_reserved_at_epoch r = rs_reserved_at_epoch reservation
     \<and> nr_owner r = reservation_owner_identity invocation"

definition require_sqlite_reservation_authentic ::
  "'u idem_db \<Rightarrow> IdempotencyInvocation \<Rightarrow> CryptoReservation \<Rightarrow> idem_error + int option" where
  "require_sqlite_reservation_authentic d invocation reservation =
     (case find_first (reservation_row reservation invocation) (id_nonces d) of
        None \<Rightarrow> Inl IdempotencyWriteUnavailable
      | Some r \<Rightarrow>
          (case dict_get (id_versions d) (nr_cipher_key_version r) of
             None \<Rightarrow> Inl IdempotencyWriteUnavailable
           | Some v \<Rightarrow>
               if ky_write_disabled_epoch v \<noteq> None \<or> ky_retired_epoch v \<noteq> None
               then Inl IdempotencyWriteUnavailable
               else Inr (nr_claimed_at_epoch r)))"

definition sqlite_result_uses_reservation_nonce :: "'u idem_db \<Rightarrow> CryptoReservation \<Rightarrow> bool" where
  "sqlite_result_uses_reservation_nonce d reservation \<longleftrightarrow>
     list_ex (\<lambda>(_, r). cr_cipher_key_version r = rs_version reservation \<and> cr_response_nonce r = rs_nonce reservation)
       (id_results d)"

definition claim_sqlite_reservation ::
  "IdempotencyInvocation \<Rightarrow> CryptoReservation \<Rightarrow> int \<Rightarrow> 'u idem_db \<Rightarrow> idem_error + 'u idem_db" where
  "claim_sqlite_reservation invocation reservation now_epoch d =
     (let claimable = (\<lambda>r. reservation_row reservation invocation r \<and> nr_claimed_at_epoch r = None
                          \<and> \<not> sqlite_result_uses_reservation_nonce d reservation)
      in if length (filter claimable (id_nonces d)) \<noteq> 1 then Inl IdempotencyWriteUnavailable
         else if list_ex (\<lambda>r. claimable r \<and> now_epoch < nr_reserved_at_epoch r) (id_nonces d)
         then Inl SqliteIntegrityError
         else Inr (d\<lparr>id_nonces := map (\<lambda>r. if claimable r then r\<lparr>nr_claimed_at_epoch := Some now_epoch\<rparr> else r)
                                   (id_nonces d)\<rparr>))"

subsection \<open>The store\<close>

definition idem_lookup ::
  "aead \<Rightarrow> IdempotencyKeyring option \<Rightarrow> IdempotencyInvocation \<Rightarrow> int \<Rightarrow> 'u idem_db
     \<Rightarrow> idem_error + IdempotencyLookupResult" where
  "idem_lookup cipher keyring invocation now_epoch d =
     classify_completed_result cipher invocation (load_sqlite_result d invocation) keyring now_epoch"

definition write_disable_row :: "string \<Rightarrow> int \<Rightarrow> key_version_row \<Rightarrow> key_version_row" where
  "write_disable_row reason now_epoch v =
     v\<lparr>ky_write_disabled_epoch := (case ky_write_disabled_epoch v of None \<Rightarrow> Some now_epoch | Some t \<Rightarrow> Some t),
       ky_write_disabled_reason := (case ky_write_disabled_reason v of None \<Rightarrow> Some reason | Some x \<Rightarrow> Some x)\<rparr>"

definition write_disable :: "string \<Rightarrow> string \<Rightarrow> int \<Rightarrow> 'u idem_db \<Rightarrow> idem_error + 'u idem_db" where
  "write_disable version reason now_epoch d =
     (case dict_get (id_versions d) version of
        None \<Rightarrow> Inr d
      | Some v \<Rightarrow>
          if ky_retired_epoch v \<noteq> None then Inr d
          else if (ky_write_disabled_reason v = None \<and> reason \<notin> {''rotation'', ''hard_limit'', ''nonce_collision''})
                  \<or> (ky_write_disabled_epoch v = None \<and> now_epoch < ky_first_seen_epoch v)
          then Inl SqliteIntegrityError
          else Inr (d\<lparr>id_versions := dict_set version (write_disable_row reason now_epoch v) (id_versions d)\<rparr>))"

text \<open>\<^verbatim>\<open>_register_keyring\<close>: every configured version gets its row, and a row that names another key refuses.\<close>

definition label_char :: "char \<Rightarrow> bool" where
  "label_char c \<longleftrightarrow>
     (let n = of_char c :: nat in 65 \<le> n \<and> n \<le> 90 \<or> 97 \<le> n \<and> n \<le> 122 \<or> 48 \<le> n \<and> n \<le> 57)"

definition is_version_label :: "string \<Rightarrow> bool" where
  "is_version_label s \<longleftrightarrow>
     (case s of [] \<Rightarrow> False
      | c # cs \<Rightarrow> label_char c \<and> length cs \<le> 63
                  \<and> list_all (\<lambda>x. label_char x \<or> x \<in> {CHR ''.'', CHR ''_'', CHR ''-''}) cs)"

definition fresh_key_version :: "bytes \<Rightarrow> int \<Rightarrow> key_version_row" where
  "fresh_key_version commitment now_epoch =
     \<lparr>ky_commitment = commitment, ky_reserved_encryption_slots = 0, ky_first_seen_epoch = now_epoch,
      ky_soft_limit_reported_epoch = None, ky_write_disabled_epoch = None, ky_write_disabled_reason = None,
      ky_drain_completed_epoch = None, ky_retired_epoch = None\<rparr>"

definition insert_key_version ::
  "string \<Rightarrow> bytes \<Rightarrow> int \<Rightarrow> (string, key_version_row) dict \<Rightarrow> (string, key_version_row) dict" where
  "insert_key_version version commitment now_epoch versions =
     (if dict_get versions version \<noteq> None \<or> commitment \<in> ky_commitment ` set (dict_values versions)
         \<or> \<not> is_version_label version \<or> length commitment \<noteq> 32 \<or> now_epoch < 0
      then versions else dict_set version (fresh_key_version commitment now_epoch) versions)"

fun register_versions ::
  "IdempotencyKeyVersion list \<Rightarrow> int \<Rightarrow> (string, key_version_row) dict \<Rightarrow> idem_error + (string, key_version_row) dict" where
  "register_versions [] now_epoch versions = Inr versions"
| "register_versions (k # ks) now_epoch versions =
     (let versions' = insert_key_version (kv_version k) (kv_commitment k) now_epoch versions
      in case dict_get versions' (kv_version k) of
           None \<Rightarrow> Inl IdempotencyWriteUnavailable
         | Some row \<Rightarrow> if ky_commitment row \<noteq> kv_commitment k then Inl IdempotencyWriteUnavailable
                       else register_versions ks now_epoch versions')"

definition register_keyring :: "IdempotencyKeyring option \<Rightarrow> int \<Rightarrow> 'u idem_db \<Rightarrow> idem_error + 'u idem_db" where
  "register_keyring keyring now_epoch d =
     (case keyring of
        None \<Rightarrow> Inr d
      | Some ring \<Rightarrow>
          (case register_versions (kr_decryption_keys ring) now_epoch (id_versions d) of
             Inl e \<Rightarrow> Inl e
           | Inr versions \<Rightarrow> Inr (d\<lparr>id_versions := versions\<rparr>)))"

text \<open>The outcome of a failed reservation that also disables the key version.\<close>

definition disable_and_fail ::
  "string \<Rightarrow> string \<Rightarrow> int \<Rightarrow> 'u idem_db \<Rightarrow> (idem_error + CryptoReservation) \<times> 'u idem_db" where
  "disable_and_fail version reason now_epoch d =
     (case write_disable version reason now_epoch d of
        Inl e \<Rightarrow> (Inl e, d)
      | Inr d' \<Rightarrow> (Inl IdempotencyWriteUnavailable, d'))"

definition reserve_nonce ::
  "IdempotencyKeyring option \<Rightarrow> bytes option \<Rightarrow> IdempotencyInvocation \<Rightarrow> int \<Rightarrow> 'u idem_db
     \<Rightarrow> (idem_error + CryptoReservation) \<times> 'u idem_db" where
  "reserve_nonce keyring nonce invocation now_epoch d =
     (case keyring of
        None \<Rightarrow> (Inl IdempotencyWriteUnavailable, d)
      | Some ring \<Rightarrow>
          (let version = kv_version (kr_active_key ring)
           in case dict_get (id_versions d) version of
                None \<Rightarrow> (Inl IdempotencyWriteUnavailable, d)
              | Some v \<Rightarrow>
                  if ky_write_disabled_epoch v \<noteq> None \<or> ky_retired_epoch v \<noteq> None
                  then (Inl IdempotencyWriteUnavailable, d)
                  else if ky_reserved_encryption_slots v \<ge> HARD_SLOT_LIMIT
                  then disable_and_fail version ''hard_limit'' now_epoch d
                  else
                    (let slots = ky_reserved_encryption_slots v + 1;
                         soft = (if slots \<ge> SOFT_SLOT_LIMIT \<and> ky_soft_limit_reported_epoch v = None
                                 then Some now_epoch else ky_soft_limit_reported_epoch v)
                     in if slots \<ge> SOFT_SLOT_LIMIT \<and> ky_soft_limit_reported_epoch v = None
                           \<and> now_epoch < ky_first_seen_epoch v
                        then (Inl IdempotencyWriteUnavailable, d)
                        else (case nonce of
                                None \<Rightarrow> (Inl IdempotencyWriteUnavailable, d)
                              | Some n \<Rightarrow>
                                  if length n \<noteq> 12 then (Inl IdempotencyWriteUnavailable, d)
                                  else
                                    (let row = \<lparr>nr_cipher_key_version = version, nr_slot = slots, nr_nonce = n,
                                                nr_reserved_at_epoch = now_epoch,
                                                nr_owner = reservation_owner_identity invocation,
                                                nr_claimed_at_epoch = None\<rparr>
                                     in if \<not> nonce_row_ok row
                                           \<or> list_ex (\<lambda>r. nr_cipher_key_version r = version
                                                \<and> (nr_nonce r = n \<or> nr_slot r = slots)) (id_nonces d)
                                        then disable_and_fail version ''nonce_collision'' now_epoch d
                                        else (Inr \<lparr>rs_version = version, rs_slot = slots, rs_nonce = n,
                                                   rs_reserved_at_epoch = now_epoch\<rparr>,
                                              d\<lparr>id_versions := dict_set version
                                                   (v\<lparr>ky_reserved_encryption_slots := slots,
                                                      ky_soft_limit_reported_epoch := soft\<rparr>) (id_versions d),
                                                id_nonces := id_nonces d @ [row]\<rparr>))))))"

definition encrypt_outcome ::
  "aead \<Rightarrow> IdempotencyKeyring option \<Rightarrow> IdempotencyInvocation \<Rightarrow> CryptoReservation \<Rightarrow> CacheableTerminalOutcome
     \<Rightarrow> int \<Rightarrow> int \<Rightarrow> idem_error + EncryptedResponseEnvelope" where
  "encrypt_outcome cipher keyring invocation reservation outcome now_epoch expires_at_epoch =
     (case keyring of
        None \<Rightarrow> Inl IdempotencyWriteUnavailable
      | Some ring \<Rightarrow>
          (case decryption_key ring (rs_version reservation) of
             None \<Rightarrow> Inl IdempotencyWriteUnavailable
           | Some key \<Rightarrow>
               (case build_response_aad
                       \<lparr>ra_format_version = ENVELOPE_FORMAT_VERSION, ra_workspace_id = iv_workspace_id invocation,
                        ra_principal = iv_principal invocation, ra_operation = iv_operation invocation,
                        ra_key_hash = iv_key_hash invocation,
                        ra_request_fingerprint = iv_request_fingerprint invocation,
                        ra_status_code = ps_status_code (co_response outcome),
                        ra_content_type = ''application/json'', ra_cipher_key_version = rs_version reservation,
                        ra_created_at_epoch = now_epoch, ra_expires_at_epoch = expires_at_epoch\<rparr> of
                  Inl e \<Rightarrow> Inl e
                | Inr aad \<Rightarrow>
                    (case encode_response_plaintext (co_response outcome) of
                       Inl e \<Rightarrow> Inl e
                     | Inr plaintext \<Rightarrow> encrypt_reserved_response cipher key reservation plaintext aad))))"

text \<open>
  A mutation works on the rest of the database and may raise. The body of the transaction returns
  the new database, or the error that rolls it back.
\<close>

type_synonym 'u mutation = "'u \<Rightarrow> exn + CacheableTerminalOutcome \<times> 'u"

definition complete_in_transaction ::
  "aead \<Rightarrow> IdempotencyKeyring option \<Rightarrow> IdempotencyInvocation \<Rightarrow> CryptoReservation \<Rightarrow> 'u mutation \<Rightarrow> int \<Rightarrow> 'u idem_db
     \<Rightarrow> idem_error + PreSerializedHttpResponse \<times> 'u idem_db" where
  "complete_in_transaction cipher keyring invocation reservation mutation now_epoch d =
     (case require_sqlite_reservation_authentic d invocation reservation of
        Inl e \<Rightarrow> Inl e
      | Inr None \<Rightarrow> Inl IdempotencyWriteUnavailable
      | Inr (Some _) \<Rightarrow>
          if sqlite_result_uses_reservation_nonce d reservation then Inl IdempotencyWriteUnavailable
          else (case classify_completed_result cipher invocation (load_sqlite_result d invocation) keyring now_epoch of
                  Inl e \<Rightarrow> Inl e
                | Inr (IdempotencyReplayCandidate response) \<Rightarrow> Inr (response, d)
                | Inr IdempotencyProceedToReservation \<Rightarrow>
                    (let d1 = (if load_sqlite_result d invocation \<noteq> None then delete_sqlite_result invocation d else d)
                     in case mutation (id_user d1) of
                          Inl e \<Rightarrow> Inl (MutationRaised e)
                        | Inr (outcome, u) \<Rightarrow>
                            (let d2 = d1\<lparr>id_user := u\<rparr>;
                                 expires_at_epoch = terminal_expiry_epoch invocation now_epoch
                                   (co_replay_not_after_epoch outcome)
                             in if expires_at_epoch \<le> now_epoch then Inr (co_response outcome, d2)
                                else case encrypt_outcome cipher keyring invocation reservation outcome now_epoch
                                            expires_at_epoch of
                                       Inl e \<Rightarrow> Inl e
                                     | Inr envelope \<Rightarrow>
                                         if en_nonce envelope \<noteq> rs_nonce reservation
                                            \<or> en_version envelope \<noteq> rs_version reservation
                                         then Inl IdempotencyCipherUnavailableError
                                         else (case insert_sqlite_result invocation outcome envelope now_epoch
                                                       expires_at_epoch d2 of
                                                 Inl e \<Rightarrow> Inl e
                                               | Inr d3 \<Rightarrow> Inr (co_response outcome, d3))))))"

text \<open>
  \<open>commit\<close> is how the commit goes: \<open>None\<close> when it succeeds, \<open>Some True\<close> when the commit fails after the
  changes took effect, \<open>Some False\<close> when it fails and they did not.
\<close>

definition complete_sqlite_result ::
  "aead \<Rightarrow> IdempotencyKeyring option \<Rightarrow> IdempotencyInvocation \<Rightarrow> CryptoReservation \<Rightarrow> 'u mutation \<Rightarrow> int
     \<Rightarrow> bool option \<Rightarrow> 'u idem_db \<Rightarrow> (idem_error + PreSerializedHttpResponse) \<times> 'u idem_db" where
  "complete_sqlite_result cipher keyring invocation reservation mutation now_epoch commit d =
     (case complete_in_transaction cipher keyring invocation reservation mutation now_epoch d of
        Inl e \<Rightarrow> (Inl (if e = SqliteIntegrityError then IdempotencyWriteUnavailable else e), d)
      | Inr (response, d') \<Rightarrow>
          (case commit of
             None \<Rightarrow> (Inr response, d')
           | Some took_effect \<Rightarrow> (Inl AmbiguousCommitError, if took_effect then d' else d)))"

definition claim_step ::
  "IdempotencyInvocation \<Rightarrow> CryptoReservation \<Rightarrow> int \<Rightarrow> 'u idem_db \<Rightarrow> idem_error + 'u idem_db" where
  "claim_step invocation reservation now_epoch d =
     (case claim_sqlite_reservation invocation reservation now_epoch d of
        Inl e \<Rightarrow> Inl IdempotencyWriteUnavailable
      | Inr d' \<Rightarrow> Inr d')"

fun gc_rows ::
  "aead \<Rightarrow> IdempotencyKeyring option \<Rightarrow> int \<Rightarrow> (identity4 \<times> CompletedResultRecord) list \<Rightarrow> 'u idem_db
     \<Rightarrow> idem_error + 'u idem_db" where
  "gc_rows cipher keyring now_epoch [] d = Inr d"
| "gc_rows cipher keyring now_epoch (((w, p, o', k), r) # rows) d =
     (let invocation = \<lparr>iv_workspace_id = w, iv_principal = p, iv_operation = o', iv_key_hash = k,
                        iv_request_fingerprint = cr_request_fingerprint r, iv_max_terminal_ttl_seconds = 86400\<rparr>
      in case classify_completed_result cipher invocation (Some r) keyring now_epoch of
           Inl e \<Rightarrow> Inl e
         | Inr IdempotencyProceedToReservation \<Rightarrow>
             gc_rows cipher keyring now_epoch rows (delete_sqlite_result invocation d)
         | Inr (IdempotencyReplayCandidate _) \<Rightarrow> gc_rows cipher keyring now_epoch rows d)"

definition gc_sqlite_results ::
  "aead \<Rightarrow> IdempotencyKeyring option \<Rightarrow> int \<Rightarrow> int \<Rightarrow> 'u idem_db \<Rightarrow> (idem_error + int) \<times> 'u idem_db" where
  "gc_sqlite_results cipher keyring limit now_epoch d =
     (let bounded_limit = max 0 (min limit 100)
      in if bounded_limit = 0 then (Inr 0, d)
         else (let rows = take (nat bounded_limit) (filter (\<lambda>(_, r). cr_expires_at_epoch r \<le> now_epoch) (id_results d))
               in case gc_rows cipher keyring now_epoch rows d of
                    Inl e \<Rightarrow> (Inl e, d)
                  | Inr d' \<Rightarrow> (Inr (int (length rows)), d')))"

subsection \<open>The executor\<close>

text \<open>
  One execution from start to end, with the clock readings \<open>t\<close> of its four looks at the clock and
  nobody in between; concurrent executions interleave its steps.
\<close>

definition complete_claimed ::
  "aead \<Rightarrow> IdempotencyKeyring option \<Rightarrow> IdempotencyInvocation \<Rightarrow> CryptoReservation \<Rightarrow> 'u mutation \<Rightarrow> (nat \<Rightarrow> int)
     \<Rightarrow> bool option \<Rightarrow> 'u idem_db \<Rightarrow> (idem_error + PreSerializedHttpResponse) \<times> 'u idem_db" where
  "complete_claimed cipher keyring invocation reservation mutation t commit d =
     (case idem_lookup cipher keyring invocation (t 1) d of
        Inl e \<Rightarrow> (Inl (if e = IdempotencyResultUnavailable then IdempotencyWriteUnavailable else e), d)
      | Inr (IdempotencyReplayCandidate response) \<Rightarrow> (Inr response, d)
      | Inr IdempotencyProceedToReservation \<Rightarrow>
          (case claim_step invocation reservation (t 2) d of
             Inl e \<Rightarrow> (Inl e, d)
           | Inr d' \<Rightarrow> complete_sqlite_result cipher keyring invocation reservation mutation (t 3) commit d'))"

definition execute ::
  "aead \<Rightarrow> IdempotencyKeyring option \<Rightarrow> bytes option \<Rightarrow> (nat \<Rightarrow> int) \<Rightarrow> bool option \<Rightarrow> IdempotencyInvocation
     \<Rightarrow> 'u mutation \<Rightarrow> 'u idem_db \<Rightarrow> (idem_error + PreSerializedHttpResponse) \<times> 'u idem_db" where
  "execute cipher keyring nonce t commit invocation mutation d =
     (case idem_lookup cipher keyring invocation (t 0) d of
        Inl e \<Rightarrow> (Inl e, d)
      | Inr (IdempotencyReplayCandidate response) \<Rightarrow> (Inr response, d)
      | Inr IdempotencyProceedToReservation \<Rightarrow>
          (case reserve_nonce keyring nonce invocation (t 0) d of
             (Inl e, d') \<Rightarrow> (Inl e, d')
           | (Inr reservation, d') \<Rightarrow>
               (case complete_claimed cipher keyring invocation reservation mutation t commit d' of
                  (Inl AmbiguousCommitError, d'') \<Rightarrow> (Inl IdempotencyWriteUnavailable, d'')
                | r \<Rightarrow> r)))"

end
