(* ===== verification/IdempotencyLifecycle.thy ===== *)
theory IdempotencyLifecycle
  imports IdempotencyStore
begin

section \<open>Rotation and retirement of idempotency keys\<close>

text \<open>
  \<^verbatim>\<open>src/vinctor_service/idempotency_lifecycle.py\<close> with its SQLite backend
  (\<^verbatim>\<open>idempotency_lifecycle_sqlite.py\<close>, \<^verbatim>\<open>idempotency_lifecycle_sqlite_maintenance.py\<close>) and the file locks by
  which writers attest themselves (\<^verbatim>\<open>idempotency_lifecycle_lock.py\<close>). An operator shuts a key version for
  writing, completes its drain once no writer holds its lock, and retires it after the removal
  window.

  An operation is one step; the readings of the database clock are its arguments. The lock files of
  the database are a record: what the carriers say and who holds them. A call of the operating
  system that fails is \<open>lf_broken\<close>. Copies of database files (snapshots, schema migration) are not
  modelled.
\<close>

subsection \<open>Data\<close>

definition ROTATION_REASON :: string where
  "ROTATION_REASON = ''rotation''"

definition IDEMPOTENCY_REMOVAL_WINDOW_SECONDS :: int where
  "IDEMPOTENCY_REMOVAL_WINDOW_SECONDS = 86400 + 300"

definition PROBE_INVOCATION :: IdempotencyInvocation where
  "PROBE_INVOCATION =
     \<lparr>iv_workspace_id = ''lifecycle'', iv_principal = ''operator'',
      iv_operation = ''idempotency.lifecycle.probe.v1'', iv_key_hash = replicate 32 0,
      iv_request_fingerprint = replicate 32 1, iv_max_terminal_ttl_seconds = 86400\<rparr>"

datatype lifecycle_error =
    IdempotencyLifecycleUnavailable
  | IdempotencyLifecycleRejected string
  | IdempotencyLifecycleActiveWriters
  | LifecycleRuntimeError string
  | StoreRaised idem_error

record IdempotencyLifecycleStatus =
  ls_version :: string
  ls_commitment_identifier :: string
  ls_reserved_encryption_slots :: int
  ls_write_disabled_reason :: "string option"
  ls_write_disabled_epoch :: "int option"
  ls_drain_completed_epoch :: "int option"
  ls_retired_epoch :: "int option"
  ls_local_active_version :: string
  ls_required_historical_versions :: "string list"

record IdempotencyRetirementRequest =
  rq_version :: string
  rq_confirm_removal_window :: bool

definition active_version :: "IdempotencyKeyring \<Rightarrow> string" where
  "active_version ring = kv_version (kr_active_key ring)"

subsection \<open>Locks of the writers\<close>

definition LOCK_IDENTITY_DOMAIN :: bytes where
  "LOCK_IDENTITY_DOMAIN = utf8 ''vinctor.idempotency.writer-lock.identity.v1'' @ [0]"

definition LOCK_CARRIER_DOMAIN :: bytes where
  "LOCK_CARRIER_DOMAIN = utf8 ''vinctor.idempotency.writer-lock.carrier.v1'' @ [0]"

text \<open>The code points of the model are in normal form C.\<close>

definition version_lock_identity :: "string \<Rightarrow> bytes" where
  "version_lock_identity version =
     (let encoded = utf8 version
      in sha256 (LOCK_IDENTITY_DOMAIN @ be_bytes 4 (length encoded) @ encoded))"

definition version_lock_carrier :: "string \<Rightarrow> string" where
  "version_lock_carrier version = hexdigest (sha256 (LOCK_CARRIER_DOMAIN @ version_lock_identity version))"

text \<open>
  \<open>lf_carriers\<close>: the contents of the lock files, by the carrier part of their names; \<open>lf_shared\<close>: how many
  descriptors hold a shared lock; \<open>lf_exclusive\<close>: the files another process holds exclusively.
\<close>

record lock_files =
  lf_carriers :: "(string, string) dict"
  lf_shared :: "string \<Rightarrow> nat"
  lf_exclusive :: "string \<Rightarrow> bool"
  lf_broken :: bool

definition open_verified_carrier :: "string \<Rightarrow> lock_files \<Rightarrow> (lifecycle_error + unit) \<times> lock_files" where
  "open_verified_carrier version f =
     (let path = version_lock_carrier version;
          identity = hexdigest (version_lock_identity version)
      in if lf_broken f then (Inl IdempotencyLifecycleUnavailable, f)
         else (case dict_get (lf_carriers f) path of
                 None \<Rightarrow> (Inr (), f\<lparr>lf_carriers := dict_set path identity (lf_carriers f)\<rparr>)
               | Some existing \<Rightarrow>
                   if existing = [] then (Inr (), f\<lparr>lf_carriers := dict_set path identity (lf_carriers f)\<rparr>)
                   else if existing \<noteq> identity then (Inl IdempotencyLifecycleUnavailable, f)
                   else (Inr (), f)))"

text \<open>\<open>registered\<close>: whether this attestation already has its file open.\<close>

definition writer_register :: "string \<Rightarrow> bool \<Rightarrow> lock_files \<Rightarrow> (lifecycle_error + bool) \<times> lock_files" where
  "writer_register version registered f =
     (if registered then (Inr True, f)
      else (case open_verified_carrier version f of
              (Inl e, f') \<Rightarrow> (Inl e, f')
            | (Inr _, f') \<Rightarrow>
                (let path = version_lock_carrier version
                 in if lf_exclusive f' path then (Inl IdempotencyLifecycleActiveWriters, f')
                    else (Inr True, f'\<lparr>lf_shared := (lf_shared f')(path := Suc (lf_shared f' path))\<rparr>))))"

definition writer_close :: "string \<Rightarrow> bool \<Rightarrow> lock_files \<Rightarrow> (lifecycle_error + bool) \<times> lock_files" where
  "writer_close version registered f =
     (if \<not> registered then (Inr False, f)
      else (let path = version_lock_carrier version;
                f' = f\<lparr>lf_shared := (lf_shared f)(path := lf_shared f path - 1)\<rparr>
            in if lf_broken f then (Inl IdempotencyLifecycleUnavailable, f') else (Inr False, f')))"

definition acquire_exclusive :: "string \<Rightarrow> bool \<Rightarrow> lock_files \<Rightarrow> (lifecycle_error + unit) \<times> lock_files" where
  "acquire_exclusive version registered f =
     (if registered then (Inl IdempotencyLifecycleActiveWriters, f)
      else (case open_verified_carrier version f of
              (Inl e, f') \<Rightarrow> (Inl e, f')
            | (Inr _, f') \<Rightarrow>
                (let path = version_lock_carrier version
                 in if lf_exclusive f' path \<or> lf_shared f' path > 0
                    then (Inl IdempotencyLifecycleActiveWriters, f')
                    else (Inr (), f'\<lparr>lf_exclusive := (lf_exclusive f')(path := True)\<rparr>))))"

definition release_exclusive :: "string \<Rightarrow> lock_files \<Rightarrow> (lifecycle_error + unit) \<times> lock_files" where
  "release_exclusive version f =
     (if lf_broken f then Inl IdempotencyLifecycleUnavailable else Inr (),
      f\<lparr>lf_exclusive := (lf_exclusive f)(version_lock_carrier version := False)\<rparr>)"

text \<open>\<^verbatim>\<open>with SQLiteWriterAttestation(database, version).exclusive_guard()\<close>\<close>

definition exclusive_guard ::
  "string \<Rightarrow> ('u idem_db \<Rightarrow> (lifecycle_error + unit) \<times> 'u idem_db) \<Rightarrow> lock_files \<Rightarrow> 'u idem_db
     \<Rightarrow> (lifecycle_error + unit) \<times> lock_files \<times> 'u idem_db" where
  "exclusive_guard version body f d =
     (case acquire_exclusive version False f of
        (Inl e, f') \<Rightarrow> (Inl e, f', d)
      | (Inr _, f') \<Rightarrow> (case body d of
             (r, d') \<Rightarrow>
               (case release_exclusive version f' of
                  (Inl e, f'') \<Rightarrow> (Inl e, f'', d')
                | (Inr _, f'') \<Rightarrow> (r, f'', d'))))"

subsection \<open>The SQLite backend\<close>

definition open_lifecycle_store :: "IdempotencyKeyring \<Rightarrow> int \<Rightarrow> 'u idem_db \<Rightarrow> lifecycle_error + 'u idem_db" where
  "open_lifecycle_store ring now_epoch d =
     (case register_keyring (Some ring) now_epoch d of
        Inl _ \<Rightarrow> Inl IdempotencyLifecycleUnavailable
      | Inr d' \<Rightarrow> Inr d')"

definition COMMITMENT_ID_DOMAIN :: bytes where
  "COMMITMENT_ID_DOMAIN = utf8 ''vinctor.idempotency.commitment-id.v1'' @ [0]"

definition lifecycle_status ::
  "IdempotencyKeyring \<Rightarrow> string \<Rightarrow> 'u idem_db \<Rightarrow> lifecycle_error + IdempotencyLifecycleStatus" where
  "lifecycle_status ring version d =
     (case dict_get (id_versions d) version of
        None \<Rightarrow> Inl (IdempotencyLifecycleRejected ''unknown_version'')
      | Some row \<Rightarrow>
          Inr \<lparr>ls_version = version,
               ls_commitment_identifier = hexdigest (sha256 (COMMITMENT_ID_DOMAIN @ ky_commitment row)),
               ls_reserved_encryption_slots = ky_reserved_encryption_slots row,
               ls_write_disabled_reason = ky_write_disabled_reason row,
               ls_write_disabled_epoch = ky_write_disabled_epoch row,
               ls_drain_completed_epoch = ky_drain_completed_epoch row,
               ls_retired_epoch = ky_retired_epoch row,
               ls_local_active_version = active_version ring,
               ls_required_historical_versions =
                 sort (remdups (filter (\<lambda>v. v \<noteq> active_version ring)
                   (map cr_cipher_key_version (dict_values (id_results d)))))\<rparr>)"

definition lifecycle_statuses :: "IdempotencyKeyring \<Rightarrow> 'u idem_db \<Rightarrow> (lifecycle_error + IdempotencyLifecycleStatus) list" where
  "lifecycle_statuses ring d = map (\<lambda>v. lifecycle_status ring v d) (sort (map fst (id_versions d)))"

text \<open>An \<^verbatim>\<open>UPDATE\<close> of one row of the registry.\<close>

definition set_version :: "string \<Rightarrow> key_version_row \<Rightarrow> 'u idem_db \<Rightarrow> 'u idem_db" where
  "set_version version row d = d\<lparr>id_versions := dict_set version row (id_versions d)\<rparr>"

definition update_write_disabled :: "string \<Rightarrow> string \<Rightarrow> int \<Rightarrow> 'u idem_db \<Rightarrow> (lifecycle_error + unit) \<times> 'u idem_db" where
  "update_write_disabled version reason now_epoch d =
     (case dict_get (id_versions d) version of
        None \<Rightarrow> (Inr (), d)
      | Some row \<Rightarrow>
          if ky_write_disabled_epoch row \<noteq> None \<or> ky_retired_epoch row \<noteq> None then (Inr (), d)
          else if reason \<notin> {''rotation'', ''hard_limit'', ''nonce_collision''} \<or> now_epoch < ky_first_seen_epoch row
          then (Inl IdempotencyLifecycleUnavailable, d)
          else (Inr (), set_version version
                  (row\<lparr>ky_write_disabled_epoch := Some now_epoch, ky_write_disabled_reason := Some reason\<rparr>) d))"

definition backend_write_disable ::
  "IdempotencyKeyring \<Rightarrow> string \<Rightarrow> string \<Rightarrow> int \<Rightarrow> 'u idem_db \<Rightarrow> (lifecycle_error + unit) \<times> 'u idem_db" where
  "backend_write_disable ring version reason now_epoch d =
     (case lifecycle_status ring version d of
        Inl e \<Rightarrow> (Inl e, d)
      | Inr state \<Rightarrow>
          if ls_retired_epoch state \<noteq> None then (Inl (IdempotencyLifecycleRejected ''version_retired''), d)
          else if ls_write_disabled_epoch state \<noteq> None
          then (if ls_write_disabled_reason state \<noteq> Some reason
                then (Inl (IdempotencyLifecycleRejected ''write_disable_reason_conflict''), d)
                else (Inr (), d))
          else update_write_disabled version reason now_epoch d)"

definition coalesce :: "'a option \<Rightarrow> 'a \<Rightarrow> 'a option" where
  "coalesce x y = (case x of None \<Rightarrow> Some y | Some z \<Rightarrow> Some z)"

definition update_drain_completed :: "string \<Rightarrow> int \<Rightarrow> 'u idem_db \<Rightarrow> (lifecycle_error + unit) \<times> 'u idem_db" where
  "update_drain_completed version now_epoch d =
     (case dict_get (id_versions d) version of
        None \<Rightarrow> (Inr (), d)
      | Some row \<Rightarrow>
          (case ky_write_disabled_epoch row of
             None \<Rightarrow> (Inr (), d)
           | Some disabled \<Rightarrow>
               if ky_retired_epoch row \<noteq> None then (Inr (), d)
               else if ky_drain_completed_epoch row = None \<and> now_epoch < disabled
               then (Inl IdempotencyLifecycleUnavailable, d)
               else (Inr (), set_version version
                       (row\<lparr>ky_drain_completed_epoch := coalesce (ky_drain_completed_epoch row) now_epoch\<rparr>) d)))"

definition drain_body ::
  "IdempotencyKeyring \<Rightarrow> string \<Rightarrow> int \<Rightarrow> 'u idem_db \<Rightarrow> (lifecycle_error + unit) \<times> 'u idem_db" where
  "drain_body ring version now_epoch d =
     (case lifecycle_status ring version d of
        Inl e \<Rightarrow> (Inl e, d)
      | Inr state \<Rightarrow>
          if ls_write_disabled_epoch state = None
          then (Inl (IdempotencyLifecycleRejected ''write_disable_required''), d)
          else if ls_retired_epoch state \<noteq> None then (Inl (IdempotencyLifecycleRejected ''version_retired''), d)
          else if ls_drain_completed_epoch state \<noteq> None then (Inr (), d)
          else update_drain_completed version now_epoch d)"

definition backend_complete_drain ::
  "IdempotencyKeyring \<Rightarrow> string \<Rightarrow> int \<Rightarrow> lock_files \<Rightarrow> 'u idem_db \<Rightarrow> (lifecycle_error + unit) \<times> lock_files \<times> 'u idem_db" where
  "backend_complete_drain ring version now_epoch = exclusive_guard version (drain_body ring version now_epoch)"

definition parse_completed_result_row :: "identity4 \<Rightarrow> CompletedResultRecord \<Rightarrow> IdempotencyInvocation" where
  "parse_completed_result_row ident r =
     (case ident of (w, p, o', k) \<Rightarrow>
        \<lparr>iv_workspace_id = w, iv_principal = p, iv_operation = o', iv_key_hash = k,
         iv_request_fingerprint = cr_request_fingerprint r, iv_max_terminal_ttl_seconds = 86400\<rparr>)"

text \<open>The loop that authenticates each row before it deletes it.\<close>

fun retire_rows ::
  "aead \<Rightarrow> IdempotencyKeyring \<Rightarrow> (identity4 \<times> CompletedResultRecord) list \<Rightarrow> 'u idem_db \<Rightarrow> idem_error + 'u idem_db" where
  "retire_rows cipher ring [] d = Inr d"
| "retire_rows cipher ring ((ident, r) # rows) d =
     (let invocation = parse_completed_result_row ident r
      in case authenticate_completed_result cipher invocation r (Some ring) of
           Inl e \<Rightarrow> Inl e
         | Inr _ \<Rightarrow> retire_rows cipher ring rows (delete_sqlite_result invocation d))"

definition rows_of_version :: "string \<Rightarrow> 'u idem_db \<Rightarrow> (identity4 \<times> CompletedResultRecord) list" where
  "rows_of_version version d = filter (\<lambda>(_, r). cr_cipher_key_version r = version) (id_results d)"

definition update_retired :: "string \<Rightarrow> string \<Rightarrow> int \<Rightarrow> 'u idem_db \<Rightarrow> 'u idem_db option" where
  "update_retired version active now_epoch d =
     (case (dict_get (id_versions d) version, dict_get (id_versions d) active) of
        (Some row, Some replacement) \<Rightarrow>
          (case ky_drain_completed_epoch row of
             None \<Rightarrow> None
           | Some drained \<Rightarrow>
               if ky_write_disabled_epoch row \<noteq> None
                  \<and> drained + IDEMPOTENCY_REMOVAL_WINDOW_SECONDS \<le> now_epoch \<and> rows_of_version version d = []
                  \<and> ky_write_disabled_epoch replacement = None \<and> ky_retired_epoch replacement = None
               then Some (set_version version (row\<lparr>ky_retired_epoch := coalesce (ky_retired_epoch row) now_epoch\<rparr>) d)
               else None)
      | _ \<Rightarrow> None)"

text \<open>\<open>t\<close> reads the clock for the comparison with the expiries, \<open>t'\<close> in the update.\<close>

definition retire_lifecycle_version ::
  "aead \<Rightarrow> IdempotencyKeyring \<Rightarrow> string \<Rightarrow> string \<Rightarrow> int \<Rightarrow> int \<Rightarrow> 'u idem_db \<Rightarrow> (lifecycle_error + unit) \<times> 'u idem_db" where
  "retire_lifecycle_version cipher ring version active t t' d =
     (let rows = rows_of_version version d
      in if list_ex (\<lambda>(_, r). cr_expires_at_epoch r > t) rows
         then (Inl (IdempotencyLifecycleRejected ''unexpired_results_remain''), d)
         else (case retire_rows cipher ring rows d of
                 Inl IdempotencyResultUnavailable \<Rightarrow> (Inl IdempotencyLifecycleUnavailable, d)
               | Inl e \<Rightarrow> (Inl (StoreRaised e), d)
               | Inr d1 \<Rightarrow>
                   (case update_retired version active t' d1 of
                      None \<Rightarrow> (Inl IdempotencyLifecycleUnavailable, d)
                    | Some d2 \<Rightarrow> (Inr (), d2))))"

definition retire_body ::
  "aead \<Rightarrow> IdempotencyKeyring \<Rightarrow> string \<Rightarrow> (nat \<Rightarrow> int) \<Rightarrow> 'u idem_db \<Rightarrow> (lifecycle_error + unit) \<times> 'u idem_db" where
  "retire_body cipher ring version clock d =
     (case lifecycle_status ring version d of
        Inl e \<Rightarrow> (Inl e, d)
      | Inr state \<Rightarrow>
          if ls_retired_epoch state \<noteq> None then (Inr (), d)
          else (case (ls_write_disabled_epoch state, ls_drain_completed_epoch state) of
                  (Some _, Some drained) \<Rightarrow>
                    if clock 0 < drained + IDEMPOTENCY_REMOVAL_WINDOW_SECONDS
                    then (Inl (IdempotencyLifecycleRejected ''removal_window_not_elapsed''), d)
                    else (case lifecycle_status ring (active_version ring) d of
                            Inl e \<Rightarrow> (Inl e, d)
                          | Inr active \<Rightarrow>
                              if ls_write_disabled_epoch active \<noteq> None \<or> ls_retired_epoch active \<noteq> None
                              then (Inl (IdempotencyLifecycleRejected ''active_replacement_unavailable''), d)
                              else retire_lifecycle_version cipher ring version (active_version ring)
                                     (clock 1) (clock 2) d)
                | _ \<Rightarrow> (Inl (IdempotencyLifecycleRejected ''drain_completion_required''), d)))"

definition backend_retire ::
  "aead \<Rightarrow> IdempotencyKeyring \<Rightarrow> IdempotencyRetirementRequest \<Rightarrow> (nat \<Rightarrow> int) \<Rightarrow> lock_files \<Rightarrow> 'u idem_db
     \<Rightarrow> (lifecycle_error + unit) \<times> lock_files \<times> 'u idem_db" where
  "backend_retire cipher ring request clock =
     exclusive_guard (rq_version request) (retire_body cipher ring (rq_version request) clock)"

definition backend_reserve_nonce ::
  "IdempotencyKeyring \<Rightarrow> bytes option \<Rightarrow> string \<Rightarrow> int \<Rightarrow> 'u idem_db \<Rightarrow> (lifecycle_error + unit) \<times> 'u idem_db" where
  "backend_reserve_nonce ring nonce version now_epoch d =
     (if version \<noteq> active_version ring
      then (case lifecycle_status ring version d of
              Inl e \<Rightarrow> (Inl e, d)
            | Inr state \<Rightarrow>
                if ls_write_disabled_epoch state \<noteq> None \<or> ls_retired_epoch state \<noteq> None
                then (Inl (LifecycleRuntimeError ''idempotency write disabled''), d)
                else (Inl (IdempotencyLifecycleRejected ''version_not_active''), d))
      else (case reserve_nonce (Some ring) nonce PROBE_INVOCATION now_epoch d of
              (Inl e, d') \<Rightarrow> (Inl (StoreRaised e), d')
            | (Inr _, d') \<Rightarrow> (Inr (), d')))"

definition backend_register_active_writer ::
  "IdempotencyKeyring \<Rightarrow> string \<Rightarrow> bool \<Rightarrow> lock_files \<Rightarrow> (lifecycle_error + bool) \<times> lock_files" where
  "backend_register_active_writer ring writer_id registered f =
     (if writer_id = [] then (Inl (IdempotencyLifecycleRejected ''writer_id_required''), f)
      else writer_register (active_version ring) registered f)"

subsection \<open>The controller\<close>

definition require_old_version :: "IdempotencyKeyring \<Rightarrow> string \<Rightarrow> lifecycle_error option" where
  "require_old_version ring version =
     (if version = [] then Some (IdempotencyLifecycleRejected ''version_required'')
      else if version = active_version ring then Some (IdempotencyLifecycleRejected ''active_version_rejected'')
      else None)"

definition controller_write_disable ::
  "IdempotencyKeyring \<Rightarrow> string \<Rightarrow> string \<Rightarrow> int \<Rightarrow> lock_files \<Rightarrow> 'u idem_db
     \<Rightarrow> (lifecycle_error + unit) \<times> lock_files \<times> 'u idem_db" where
  "controller_write_disable ring version reason now_epoch f d =
     (case require_old_version ring version of
        Some e \<Rightarrow> (Inl e, f, d)
      | None \<Rightarrow>
          if reason \<noteq> ROTATION_REASON then (Inl (IdempotencyLifecycleRejected ''rotation_reason_required''), f, d)
          else (case backend_write_disable ring version reason now_epoch d of (r, d') \<Rightarrow> (r, f, d')))"

definition controller_complete_drain ::
  "IdempotencyKeyring \<Rightarrow> string \<Rightarrow> bool \<Rightarrow> int \<Rightarrow> lock_files \<Rightarrow> 'u idem_db
     \<Rightarrow> (lifecycle_error + unit) \<times> lock_files \<times> 'u idem_db" where
  "controller_complete_drain ring version confirm_no_active_writers now_epoch f d =
     (case require_old_version ring version of
        Some e \<Rightarrow> (Inl e, f, d)
      | None \<Rightarrow>
          if \<not> confirm_no_active_writers
          then (Inl (IdempotencyLifecycleRejected ''active_writer_confirmation_required''), f, d)
          else backend_complete_drain ring version now_epoch f d)"

definition controller_retire ::
  "aead \<Rightarrow> IdempotencyKeyring \<Rightarrow> IdempotencyRetirementRequest \<Rightarrow> (nat \<Rightarrow> int) \<Rightarrow> lock_files \<Rightarrow> 'u idem_db
     \<Rightarrow> (lifecycle_error + unit) \<times> lock_files \<times> 'u idem_db" where
  "controller_retire cipher ring request clock f d =
     (case require_old_version ring (rq_version request) of
        Some e \<Rightarrow> (Inl e, f, d)
      | None \<Rightarrow>
          if \<not> rq_confirm_removal_window request
          then (Inl (IdempotencyLifecycleRejected ''removal_window_confirmation_required''), f, d)
          else backend_retire cipher ring request clock f d)"

definition controller_reserve_nonce ::
  "IdempotencyKeyring \<Rightarrow> bytes option \<Rightarrow> string \<Rightarrow> int \<Rightarrow> lock_files \<Rightarrow> 'u idem_db
     \<Rightarrow> (lifecycle_error + unit) \<times> lock_files \<times> 'u idem_db" where
  "controller_reserve_nonce ring nonce version now_epoch f d =
     (case backend_reserve_nonce ring nonce version now_epoch d of (r, d') \<Rightarrow> (r, f, d'))"

text \<open>The state-changing calls of one controller; each reading of the clock is an argument.\<close>

datatype lifecycle_call =
    WriteDisable string string int
  | CompleteDrain string bool int
  | Retire IdempotencyRetirementRequest "nat \<Rightarrow> int"
  | ReserveProbe "bytes option" string int

fun lifecycle_run_call ::
  "aead \<Rightarrow> IdempotencyKeyring \<Rightarrow> lifecycle_call \<Rightarrow> lock_files \<Rightarrow> 'u idem_db
     \<Rightarrow> (lifecycle_error + unit) \<times> lock_files \<times> 'u idem_db" where
  "lifecycle_run_call cipher ring (WriteDisable version reason t) f d = controller_write_disable ring version reason t f d"
| "lifecycle_run_call cipher ring (CompleteDrain version ok t) f d = controller_complete_drain ring version ok t f d"
| "lifecycle_run_call cipher ring (Retire request clock) f d = controller_retire cipher ring request clock f d"
| "lifecycle_run_call cipher ring (ReserveProbe nonce version t) f d = controller_reserve_nonce ring nonce version t f d"

text \<open>All readings of a call are taken by the time \<open>t\<close>; a reading that is stored is \<open>t\<close> itself.\<close>

fun call_reads :: "int \<Rightarrow> lifecycle_call \<Rightarrow> bool" where
  "call_reads t (WriteDisable version reason t') \<longleftrightarrow> t' = t"
| "call_reads t (CompleteDrain version ok t') \<longleftrightarrow> t' = t"
| "call_reads t (Retire request clock) \<longleftrightarrow> clock 0 \<le> t \<and> clock 1 \<le> t \<and> clock 2 \<le> t"
| "call_reads t (ReserveProbe nonce version t') \<longleftrightarrow> t' = t"

subsection \<open>Readiness\<close>

text \<open>\<^verbatim>\<open>idempotency_keyring.py\<close> and \<^verbatim>\<open>idempotency_readiness.py\<close>: whether a keyring fits a database.\<close>

record KeyVersionReadinessState =
  rd_version :: string
  rd_write_disabled :: bool
  rd_retired :: bool
  rd_reserved_encryption_slots :: int
  rd_nonce_count :: int

definition idempotency_readiness ::
  "string set \<Rightarrow> string set \<Rightarrow> string option \<Rightarrow> KeyVersionReadinessState list \<Rightarrow> bool \<Rightarrow> bool" where
  "idempotency_readiness configured_versions unexpired_versions active key_versions allow_active_write_disabled =
     (let states = map (\<lambda>s. (rd_version s, s)) key_versions;
          state_of = (\<lambda>v. dict_get (rev states) v)
      in if \<not> unexpired_versions \<subseteq> configured_versions then False
         else if list_ex (\<lambda>s. rd_reserved_encryption_slots s \<noteq> rd_nonce_count s
                   \<or> \<not> (0 \<le> rd_reserved_encryption_slots s \<and> rd_reserved_encryption_slots s \<le> 2 ^ 24)) key_versions
         then False
         else if configured_versions = {} then unexpired_versions = {} \<and> active = None
         else (case active of
                 None \<Rightarrow> False
               | Some a \<Rightarrow>
                   if a \<notin> configured_versions then False
                   else if key_versions \<noteq> [] \<and> state_of a = None then False
                   else if \<exists>v\<in>unexpired_versions. (case state_of v of None \<Rightarrow> False | Some s \<Rightarrow> rd_retired s) then False
                   else (case state_of a of
                           None \<Rightarrow> True
                         | Some s \<Rightarrow> \<not> rd_retired s \<and> (allow_active_write_disabled \<or> \<not> rd_write_disabled s))))"

datatype keyring_error = IdempotencyKeyringConfigError

definition registration_fits :: "string \<times> bytes \<Rightarrow> IdempotencyKeyVersion \<Rightarrow> bool" where
  "registration_fits registration key \<longleftrightarrow>
     (fst registration = kv_version key) = (snd registration = kv_commitment key)"

definition validate_startup_compatibility ::
  "IdempotencyKeyring option \<Rightarrow> (string \<times> bytes) list \<Rightarrow> string list \<Rightarrow> keyring_error + bool" where
  "validate_startup_compatibility keyring registry unexpired_result_versions =
     (case keyring of
        None \<Rightarrow> if unexpired_result_versions \<noteq> [] then Inl IdempotencyKeyringConfigError else Inr True
      | Some ring \<Rightarrow>
          if list_ex (\<lambda>v. v \<notin> kv_version ` set (kr_decryption_keys ring)) unexpired_result_versions
          then Inl IdempotencyKeyringConfigError
          else if list_ex (\<lambda>r. list_ex (\<lambda>k. \<not> registration_fits r k) (kr_decryption_keys ring)) registry
          then Inl IdempotencyKeyringConfigError
          else Inr True)"

definition nonce_count :: "string \<Rightarrow> 'u idem_db \<Rightarrow> int" where
  "nonce_count version d = int (length (filter (\<lambda>r. nr_cipher_key_version r = version) (id_nonces d)))"

definition readiness_state :: "bool \<Rightarrow> 'u idem_db \<Rightarrow> string \<times> key_version_row \<Rightarrow> KeyVersionReadinessState" where
  "readiness_state exact_nonce_counts d v =
     \<lparr>rd_version = fst v, rd_write_disabled = ky_write_disabled_epoch (snd v) \<noteq> None,
      rd_retired = ky_retired_epoch (snd v) \<noteq> None,
      rd_reserved_encryption_slots = ky_reserved_encryption_slots (snd v),
      rd_nonce_count = (if exact_nonce_counts then nonce_count (fst v) d else ky_reserved_encryption_slots (snd v))\<rparr>"

definition evaluate_readiness ::
  "(string \<times> key_version_row) list \<Rightarrow> string list \<Rightarrow> bool \<Rightarrow> 'u idem_db \<Rightarrow> IdempotencyKeyring option
     \<Rightarrow> keyring_error + bool" where
  "evaluate_readiness registry required exact_nonce_counts d keyring =
     (case validate_startup_compatibility keyring (map (\<lambda>(v, row). (v, ky_commitment row)) registry) required of
        Inl e \<Rightarrow> Inl e
      | Inr _ \<Rightarrow>
          Inr (idempotency_readiness
                 (case keyring of None \<Rightarrow> {} | Some ring \<Rightarrow> kv_version ` set (kr_decryption_keys ring))
                 (set required)
                 (case keyring of None \<Rightarrow> None | Some ring \<Rightarrow> Some (active_version ring))
                 (map (readiness_state exact_nonce_counts d) registry) False))"

definition sqlite_idempotency_ready :: "IdempotencyKeyring option \<Rightarrow> bool \<Rightarrow> 'u idem_db \<Rightarrow> keyring_error + bool" where
  "sqlite_idempotency_ready keyring exact_nonce_counts d =
     (let registry = sort_key fst (id_versions d);
          required = sort (remdups (map cr_cipher_key_version (dict_values (id_results d))))
      in evaluate_readiness registry required exact_nonce_counts d keyring)"

subsection \<open>What a call does to the database\<close>

lemma result_identity_parse [simp]: "result_identity (parse_completed_result_row ident r) = ident"
  by (cases ident) (simp add: parse_completed_result_row_def result_identity_def)

lemma retire_rows_Inr:
  "retire_rows cipher ring rows d = Inr d' \<Longrightarrow>
     d' = d\<lparr>id_results := filter (\<lambda>(k, _). k \<notin> fst ` set rows) (id_results d)\<rparr>"
proof (induction cipher ring rows d rule: retire_rows.induct)
  case (2 cipher ring ident r rows d)
  from 2 show ?case by (auto simp: Let_def delete_sqlite_result_def case_prod_unfold split: sum.splits)
qed simp

text \<open>The results but for those of a key version.\<close>

definition without_version :: "string \<Rightarrow> (identity4, CompletedResultRecord) dict \<Rightarrow> (identity4, CompletedResultRecord) dict" where
  "without_version version results = filter (\<lambda>(_, r). cr_cipher_key_version r \<noteq> version) results"

lemma keys_of_version:
  assumes "dict_wf (id_results d)"
  shows "filter (\<lambda>(k, _). k \<notin> fst ` set (rows_of_version version d)) (id_results d) = without_version version (id_results d)"
  unfolding without_version_def
proof (rule filter_cong [OF refl])
  fix x assume x: "x \<in> set (id_results d)"
  have one: "y = x" if "y \<in> set (id_results d)" "fst y = fst x" for y
    using that x assms by (metis dict_wf_def eq_key_imp_eq_value prod.collapse)
  have "fst x \<in> fst ` set (rows_of_version version d) \<longleftrightarrow> cr_cipher_key_version (snd x) = version"
  proof
    assume "fst x \<in> fst ` set (rows_of_version version d)"
    then obtain y where "y \<in> set (id_results d)" "fst y = fst x" "cr_cipher_key_version (snd y) = version"
      by (auto simp: rows_of_version_def)
    with one show "cr_cipher_key_version (snd x) = version" by blast
  qed (use x in \<open>auto simp: rows_of_version_def case_prod_unfold\<close>)
  then show "(case x of (k, _) \<Rightarrow> k \<notin> fst ` set (rows_of_version version d))
      = (case x of (_, r) \<Rightarrow> cr_cipher_key_version r \<noteq> version)"
    by (simp add: case_prod_unfold)
qed

text \<open>
  What a call of a controller leaves: nothing changed, a version shut for writing, a drain
  recorded, a version retired with its expired results, or a probe of the nonce ledger.
\<close>

inductive call_effect :: "aead \<Rightarrow> IdempotencyKeyring \<Rightarrow> 'u idem_db \<Rightarrow> lifecycle_call \<Rightarrow> 'u idem_db \<Rightarrow> bool"
  for cipher ring d where
  no_effect: "call_effect cipher ring d call d"
| disabled: "dict_get (id_versions d) version = Some row \<Longrightarrow>
    ky_write_disabled_epoch row = None \<Longrightarrow> ky_retired_epoch row = None \<Longrightarrow> ky_first_seen_epoch row \<le> t \<Longrightarrow>
    version \<noteq> active_version ring \<Longrightarrow>
    call_effect cipher ring d (WriteDisable version reason t)
      (set_version version (row\<lparr>ky_write_disabled_epoch := Some t, ky_write_disabled_reason := Some reason\<rparr>) d)"
| drained: "dict_get (id_versions d) version = Some row \<Longrightarrow>
    ky_write_disabled_epoch row = Some e \<Longrightarrow> ky_drain_completed_epoch row = None \<Longrightarrow> ky_retired_epoch row = None \<Longrightarrow>
    e \<le> t \<Longrightarrow> version \<noteq> active_version ring \<Longrightarrow>
    call_effect cipher ring d (CompleteDrain version ok t)
      (set_version version (row\<lparr>ky_drain_completed_epoch := Some t\<rparr>) d)"
| retired: "dict_get (id_versions d) version = Some row \<Longrightarrow>
    ky_write_disabled_epoch row = Some e \<Longrightarrow> ky_drain_completed_epoch row = Some e' \<Longrightarrow> ky_retired_epoch row = None \<Longrightarrow>
    e' + IDEMPOTENCY_REMOVAL_WINDOW_SECONDS \<le> clock 2 \<Longrightarrow> version \<noteq> active_version ring \<Longrightarrow> version = rq_version request \<Longrightarrow>
    \<forall>(k, r)\<in>set (id_results d). cr_cipher_key_version r = version \<longrightarrow> cr_expires_at_epoch r \<le> clock 1 \<Longrightarrow>
    results = filter (\<lambda>(k, _). k \<notin> fst ` set (rows_of_version version d)) (id_results d) \<Longrightarrow>
    call_effect cipher ring d (Retire request clock)
      (set_version version (row\<lparr>ky_retired_epoch := Some (clock 2)\<rparr>) (d\<lparr>id_results := results\<rparr>))"
| probed: "reserve_nonce (Some ring) nonce PROBE_INVOCATION t d = (r, d') \<Longrightarrow>
    call_effect cipher ring d (ReserveProbe nonce version t) d'"

lemma write_disable_effect:
  assumes "controller_write_disable ring version reason t f d = (r, f', d')"
  shows "call_effect cipher ring d (WriteDisable version reason t) d'"
proof (cases "dict_get (id_versions d) version")
  case (Some row)
  then show ?thesis
    using assms disabled [OF Some]
    by (auto simp: controller_write_disable_def backend_write_disable_def lifecycle_status_def update_write_disabled_def
        require_old_version_def intro: no_effect split: option.splits if_splits prod.splits)
qed (use assms in \<open>auto simp: controller_write_disable_def backend_write_disable_def lifecycle_status_def
        intro: no_effect split: option.splits if_splits prod.splits\<close>)

lemma exclusive_guard_db:
  "exclusive_guard version body f d = (r, f', d') \<Longrightarrow> d' = d \<or> (\<exists>r'. body d = (r', d'))"
  by (auto simp: exclusive_guard_def split: prod.splits sum.splits)

lemma drain_body_effect:
  assumes "drain_body ring version t d = (r, d')" "version \<noteq> active_version ring"
  shows "call_effect cipher ring d (CompleteDrain version ok t) d'"
proof (cases "dict_get (id_versions d) version")
  case (Some row)
  show ?thesis
  proof (cases "ky_write_disabled_epoch row")
    case e: (Some e)
    then show ?thesis
      using assms drained [OF Some e]
      by (auto simp: drain_body_def lifecycle_status_def update_drain_completed_def coalesce_def Some
          intro: no_effect split: option.splits if_splits)
  qed (use assms Some in \<open>auto simp: drain_body_def lifecycle_status_def intro: no_effect\<close>)
qed (use assms in \<open>auto simp: drain_body_def lifecycle_status_def intro: no_effect\<close>)

lemma update_retired_Some:
  assumes "update_retired version active t d = Some d'"
  obtains row e e' where "dict_get (id_versions d) version = Some row" "ky_write_disabled_epoch row = Some e"
    "ky_drain_completed_epoch row = Some e'" "e' + IDEMPOTENCY_REMOVAL_WINDOW_SECONDS \<le> t"
    "d' = set_version version (row\<lparr>ky_retired_epoch := coalesce (ky_retired_epoch row) t\<rparr>) d"
  using assms by (auto simp: update_retired_def split: option.splits if_splits)

lemma retire_body_effect:
  assumes "retire_body cipher ring (rq_version request) clock d = (r, d')" "rq_version request \<noteq> active_version ring"
  shows "call_effect cipher ring d (Retire request clock) d'"
proof (cases "d' = d")
  case False
  let ?v = "rq_version request"
  let ?results = "filter (\<lambda>(k, _). k \<notin> fst ` set (rows_of_version ?v d)) (id_results d)"
  obtain row where row: "dict_get (id_versions d) ?v = Some row" "ky_retired_epoch row = None"
    and r: "retire_lifecycle_version cipher ring ?v (active_version ring) (clock 1) (clock 2) d = (r, d')"
    using assms(1) False
    by (auto simp: retire_body_def lifecycle_status_def split: option.splits if_splits sum.splits)
  obtain d1 where d1: "retire_rows cipher ring (rows_of_version ?v d) d = Inr d1"
    "\<not> list_ex (\<lambda>(_, r). cr_expires_at_epoch r > clock 1) (rows_of_version ?v d)"
    and u: "update_retired ?v (active_version ring) (clock 2) d1 = Some d'"
    using r False
    by (auto simp: retire_lifecycle_version_def Let_def split: if_splits sum.splits option.splits idem_error.splits)
  have d1': "d1 = d\<lparr>id_results := ?results\<rparr>" by (rule retire_rows_Inr [OF d1(1)])
  from d1(2) have old: "\<forall>(k, r)\<in>set (id_results d). cr_cipher_key_version r = ?v \<longrightarrow> cr_expires_at_epoch r \<le> clock 1"
    by (auto simp: rows_of_version_def list_ex_iff not_less)
  from u show ?thesis
  proof (rule update_retired_Some)
    fix row' e e'
    assume a: "dict_get (id_versions d1) ?v = Some row'" "ky_write_disabled_epoch row' = Some e"
      "ky_drain_completed_epoch row' = Some e'" "e' + IDEMPOTENCY_REMOVAL_WINDOW_SECONDS \<le> clock 2"
      "d' = set_version ?v (row'\<lparr>ky_retired_epoch := coalesce (ky_retired_epoch row') (clock 2)\<rparr>) d1"
    then have "row' = row" using row by (simp add: d1')
    with a row retired [OF row(1) _ _ row(2) a(4) assms(2) refl old refl] show ?thesis
      by (simp add: d1' coalesce_def)
  qed
qed (simp add: no_effect)

lemma lifecycle_call_effect:
  assumes "lifecycle_run_call cipher ring call f d = (r, f', d')"
  shows "call_effect cipher ring d call d'"
proof (cases call)
  case (WriteDisable version reason t)
  then show ?thesis using assms by (auto intro: write_disable_effect)
next
  case (CompleteDrain version ok t)
  then show ?thesis
    using assms
    by (auto simp: controller_complete_drain_def backend_complete_drain_def require_old_version_def
        dest!: exclusive_guard_db intro: no_effect drain_body_effect split: option.splits if_splits)
next
  case (Retire request clock)
  then show ?thesis
    using assms
    by (auto simp: controller_retire_def backend_retire_def require_old_version_def
        dest!: exclusive_guard_db intro: no_effect retire_body_effect split: option.splits if_splits)
next
  case (ReserveProbe nonce version t)
  then show ?thesis
    using assms
    by (auto simp: controller_reserve_nonce_def backend_reserve_nonce_def
        intro: no_effect probed split: prod.splits if_splits sum.splits)
qed

end
