(* ===== verification/IdempotencyReplay.thy ===== *)
theory IdempotencyReplay
  imports IdempotencyLifecycle "HOL-Library.Multiset"
begin

section \<open>What the idempotency store guarantees\<close>

text \<open>
  Properties of \<open>IdempotencyStore\<close>: a stored response is read back as it was written; while a stored
  result lives, no interleaving of other executions removes it, so that a repeated request is
  answered from it and its mutation does not run again; and no nonce of the ledger is handed to two
  encryptions under one key version.

  The cipher is a parameter. \<open>opens\<close> is the documented behaviour of AES-GCM the store relies on: what
  was sealed opens under the same key, nonce and associated data, and carries a tag of 16 bytes.
\<close>

definition opens :: "aead \<Rightarrow> bool" where
  "opens cipher \<longleftrightarrow>
     (\<forall>key nonce plaintext aad ciphertext. seal cipher key nonce plaintext aad = Some ciphertext \<longrightarrow>
        unseal cipher key nonce ciphertext aad = Some plaintext \<and> 16 \<le> length ciphertext)"

subsection \<open>Plaintexts are read back\<close>

lemma from_be_snoc: "from_be (b @ [x]) = 256 * from_be b + unat x"
  by (simp add: from_be_def)

lemma from_be_be_bytes: "n < 256 ^ k \<Longrightarrow> from_be (be_bytes k n) = n"
proof (induction k arbitrary: n)
  case (Suc k)
  have "n div 256 < 256 ^ k" using Suc.prems by (simp add: less_mult_imp_div_less mult.commute)
  then show ?case using Suc.IH by (simp add: from_be_snoc unat_of_nat)
qed (simp add: from_be_def)

lemma utf8_decode_char: "utf8_decode (utf8_char c @ bs) = map_option ((#) c) (utf8_decode bs)"
proof -
  define n where "n = (of_char c :: nat)"
  have n: "n < 256" and c: "c = char_of n" unfolding n_def by simp_all
  have hi: "n div 64 < 4" using n by (simp add: less_mult_imp_div_less)
  show ?thesis
  proof (cases "n < 128")
    case True
    have "utf8_char c = [of_nat n]" using True by (simp add: utf8_char_def n_def)
    moreover have "unat (of_nat n :: 8 word) = n" using n by (simp add: unat_of_nat)
    ultimately show ?thesis using True c by simp
  next
    case False
    define x y :: "8 word" where "x = of_nat (192 + n div 64)" and "y = of_nat (128 + n mod 64)"
    have u: "utf8_char c = [x, y]"
      using False unfolding utf8_char_def n_def [symmetric] Let_def x_def y_def by simp
    have w: "unat x = 192 + n div 64" "unat y = 128 + n mod 64"
      using hi by (simp_all only: x_def y_def unat_of_nat) (simp_all add: mod_less)
    have "2 \<le> n div 64" using False by simp
    then have d: "192 + n div 64 \<in> {194, 195}" using hi by auto
    have e: "(192 + n div 64 - 192) * 64 + (128 + n mod 64 - 128) = n" by simp
    show ?thesis using d by (simp add: u w e c [symmetric])
  qed
qed

lemma utf8_round_trip [simp]: "utf8_decode (utf8 s) = Some s"
  by (induction s) (simp_all add: utf8_decode_char)

lemma read_length_prefix:
  assumes "length_prefix v = Inr b"
  shows "read_length_prefixed (b @ rest) = Some (v, rest)"
proof -
  have v: "length v < 256 ^ 4" and b: "b = be_bytes 4 (length v) @ v"
    using assms by (auto simp: length_prefix_def split: if_splits)
  show ?thesis by (simp only: b read_length_prefixed_def Let_def) (simp add: from_be_be_bytes [OF v])
qed

lemma read_encoded_text:
  assumes "encode_optional_text v = Inr b"
  shows "read_optional_text (b @ rest) = Some (v, rest)"
  using assms
  by (auto simp: encode_optional_text_def read_optional_text_def read_length_prefix split: option.splits sum.splits)

lemma decode_encoded_response:
  assumes "encode_response_plaintext r = Inr p" and "ps_content_type r = ''application/json''"
  shows "decode_response_plaintext (ps_status_code r) p = Inr r"
proof -
  obtain b e d where parts: "length_prefix (ps_body r) = Inr b" "encode_optional_text (ps_error_code r) = Inr e"
      "encode_optional_text (ps_decision r) = Inr d" "p = RESPONSE_PLAINTEXT_DOMAIN @ b @ e @ d"
    using assms(1) by (auto simp: encode_response_plaintext_def split: sum.splits)
  have "read_optional_text d = Some (ps_decision r, [])" using read_encoded_text [OF parts(3), of "[]"] by simp
  then show ?thesis
    using assms(2)
    by (cases r) (simp add: decode_response_plaintext_def parts(4) read_length_prefix [OF parts(1)] read_encoded_text [OF parts(2)])
qed

subsection \<open>A stored result opens\<close>

text \<open>The row that a completion stores.\<close>

definition stored_row ::
  "IdempotencyInvocation \<Rightarrow> CacheableTerminalOutcome \<Rightarrow> EncryptedResponseEnvelope \<Rightarrow> int \<Rightarrow> int \<Rightarrow> CompletedResultRecord" where
  "stored_row invocation outcome envelope now_epoch expires_at_epoch =
     \<lparr>cr_request_fingerprint = iv_request_fingerprint invocation, cr_format_version = en_format_version envelope,
      cr_status_code = ps_status_code (co_response outcome), cr_cipher_key_version = en_version envelope,
      cr_response_nonce = en_nonce envelope, cr_response_ciphertext = en_ciphertext envelope,
      cr_created_at_epoch = now_epoch, cr_expires_at_epoch = expires_at_epoch\<rparr>"

lemma stored_row_sel [simp]:
  "cr_request_fingerprint (stored_row i out env t e) = iv_request_fingerprint i"
  "cr_cipher_key_version (stored_row i out env t e) = en_version env"
  "cr_response_nonce (stored_row i out env t e) = en_nonce env"
  "cr_expires_at_epoch (stored_row i out env t e) = e"
  "cr_status_code (stored_row i out env t e) = ps_status_code (co_response out)"
  by (simp_all add: stored_row_def)

text \<open>A keyring that can open what another one has sealed under a version.\<close>

definition same_key :: "string \<Rightarrow> IdempotencyKeyring \<Rightarrow> IdempotencyKeyring \<Rightarrow> bool" where
  "same_key version ring ring' \<longleftrightarrow>
     map_option kv_material (decryption_key ring version) = map_option kv_material (decryption_key ring' version)"

lemma encrypt_outcome_cases:
  assumes "encrypt_outcome cipher (Some ring) i res out t e = Inr env"
  obtains key aad p data ct where "decryption_key ring (rs_version res) = Some key"
    "result_aad (result_identity i) (stored_row i out env t e) = Inr aad"
    "encode_response_plaintext (co_response out) = Inr p"
    "envelope_aad ENVELOPE_FORMAT_VERSION (rs_version res) aad = Inr data"
    "seal cipher (kv_material key) (rs_nonce res) p data = Some ct"
    "length (kv_material key) = 32" "rs_version res \<noteq> []" "length (rs_nonce res) = 12"
    "env = \<lparr>en_format_version = ENVELOPE_FORMAT_VERSION, en_version = rs_version res, en_nonce = rs_nonce res,
            en_ciphertext = ct\<rparr>"
  using assms
  by (auto simp: encrypt_outcome_def encrypt_reserved_response_def encrypt_with_nonce_def result_aad_def
      result_identity_def stored_row_def split: option.splits sum.splits if_splits)

lemma sealed_row_authenticates:
  assumes enc: "encrypt_outcome cipher (Some ring) i res out t e = Inr env" and op: "opens cipher"
    and key': "same_key (rs_version res) ring ring'"
    and j: "require_invocation j = None" "result_identity j = result_identity i"
  obtains p where "encode_response_plaintext (co_response out) = Inr p"
    "authenticate_completed_result cipher j (stored_row i out env t e) (Some ring') = Inr p"
proof (rule encrypt_outcome_cases [OF enc])
  fix key aad p data ct
  assume a: "decryption_key ring (rs_version res) = Some key"
    "result_aad (result_identity i) (stored_row i out env t e) = Inr aad"
    "encode_response_plaintext (co_response out) = Inr p"
    "envelope_aad ENVELOPE_FORMAT_VERSION (rs_version res) aad = Inr data"
    "seal cipher (kv_material key) (rs_nonce res) p data = Some ct"
    "length (kv_material key) = 32" "rs_version res \<noteq> []" "length (rs_nonce res) = 12"
    "env = \<lparr>en_format_version = ENVELOPE_FORMAT_VERSION, en_version = rs_version res, en_nonce = rs_nonce res,
            en_ciphertext = ct\<rparr>"
  obtain k' where k': "decryption_key ring' (rs_version res) = Some k'" "kv_material k' = kv_material key"
    using key' a(1) by (cases "decryption_key ring' (rs_version res)") (auto simp: same_key_def)
  have un: "unseal cipher (kv_material key) (rs_nonce res) ct data = Some p" "16 \<le> length ct"
    using op a(5) by (auto simp: opens_def)
  have "authenticate_completed_result cipher j (stored_row i out env t e) (Some ring') = Inr p"
    using j a k' un
    by (simp add: authenticate_completed_result_def decrypt_response_def stored_row_def)
  then show thesis using a(3) that by blast
qed

text \<open>What a request gets from a live row.\<close>

definition answer :: "IdempotencyInvocation \<Rightarrow> CompletedResultRecord \<Rightarrow> PreSerializedHttpResponse \<Rightarrow> idem_error + PreSerializedHttpResponse" where
  "answer j row response =
     (if cr_request_fingerprint row = iv_request_fingerprint j then Inr response else Inl IdempotencyConflict)"

text \<open>
  \<open>replays\<close>: the row under an identity is live until its expiry and every keyring with its key reads
  the response from it.
\<close>

definition replays ::
  "aead \<Rightarrow> IdempotencyKeyring \<Rightarrow> identity4 \<Rightarrow> CompletedResultRecord \<Rightarrow> PreSerializedHttpResponse \<Rightarrow> bool" where
  "replays cipher ring ident row response \<longleftrightarrow>
     (\<forall>j ring' t. require_invocation j = None \<longrightarrow> result_identity j = ident \<longrightarrow>
        same_key (cr_cipher_key_version row) ring ring' \<longrightarrow> t < cr_expires_at_epoch row \<longrightarrow>
        classify_completed_result cipher j (Some row) (Some ring') t
          = map_sum id IdempotencyReplayCandidate (answer j row response))"

lemma sealed_row_replays:
  assumes "encrypt_outcome cipher (Some ring) i res out t e = Inr env" "opens cipher"
    and json: "ps_content_type (co_response out) = ''application/json''"
  shows "replays cipher ring (result_identity i) (stored_row i out env t e) (co_response out)"
  unfolding replays_def
proof (intro allI impI)
  fix j ring' t'
  assume j: "require_invocation j = None" "result_identity j = result_identity i"
    and key: "same_key (cr_cipher_key_version (stored_row i out env t e)) ring ring'"
    and live: "t' < cr_expires_at_epoch (stored_row i out env t e)"
  have v: "en_version env = rs_version res" by (rule encrypt_outcome_cases [OF assms(1)]) simp
  obtain p where p: "encode_response_plaintext (co_response out) = Inr p"
    "authenticate_completed_result cipher j (stored_row i out env t e) (Some ring') = Inr p"
    using sealed_row_authenticates [OF assms(1,2) _ j, of ring'] key v by auto
  show "classify_completed_result cipher j (Some (stored_row i out env t e)) (Some ring') t'
      = map_sum id IdempotencyReplayCandidate (answer j (stored_row i out env t e) (co_response out))"
    using j(1) live decode_encoded_response [OF p(1) json]
    by (simp add: classify_completed_result_def p(2) answer_def)
qed

subsection \<open>What a completion does\<close>

lemma classify_proceed:
  "classify_completed_result cipher i (Some row) keyring t = Inr IdempotencyProceedToReservation \<Longrightarrow>
     cr_expires_at_epoch row \<le> t"
  by (auto simp: classify_completed_result_def split: option.splits sum.splits if_splits)
    (auto simp: map_sum_def split: sum.splits)

lemma classify_absent_is_no_replay:
  "classify_completed_result cipher i None keyring t \<noteq> Inr (IdempotencyReplayCandidate r)"
  by (simp add: classify_completed_result_def split: option.split)

lemma delete_absent: "dict_get xs k = None \<Longrightarrow> filter (\<lambda>(k', _). k' \<noteq> k) xs = xs"
  by (induction xs) (auto split: if_splits)

text \<open>The results but for the one under an identity.\<close>

definition others :: "identity4 \<Rightarrow> 'u idem_db \<Rightarrow> (identity4, CompletedResultRecord) dict" where
  "others ident d = filter (\<lambda>(k, _). k \<noteq> ident) (id_results d)"

lemma others_simps [simp]:
  "dict_wf (id_results d) \<Longrightarrow> dict_wf (others ident d)"
  "dict_get (others ident d) ident = None"
  "ident' \<noteq> ident \<Longrightarrow> dict_get (others ident d) ident' = dict_get (id_results d) ident'"
proof -
  show "dict_get (others ident d) ident = None" by (auto simp: others_def map_of_eq_None_iff)
  have "dict_get (filter (\<lambda>(k, _). k \<noteq> ident) xs) ident' = dict_get xs ident'" if "ident' \<noteq> ident"
    for xs :: "(identity4, CompletedResultRecord) dict"
    using that by (induction xs) auto
  then show "ident' \<noteq> ident \<Longrightarrow> dict_get (others ident d) ident' = dict_get (id_results d) ident'"
    by (simp add: others_def)
qed (simp add: others_def)

inductive completes ::
  "aead \<Rightarrow> IdempotencyKeyring option \<Rightarrow> IdempotencyInvocation \<Rightarrow> CryptoReservation \<Rightarrow> 'u mutation \<Rightarrow> int
     \<Rightarrow> 'u idem_db \<Rightarrow> PreSerializedHttpResponse \<Rightarrow> 'u idem_db \<Rightarrow> bool"
  for cipher keyring i res m t d where
  replayed: "load_sqlite_result d i = Some row \<Longrightarrow>
    classify_completed_result cipher i (Some row) keyring t = Inr (IdempotencyReplayCandidate response) \<Longrightarrow>
    completes cipher keyring i res m t d response d"
| uncached: "classify_completed_result cipher i (load_sqlite_result d i) keyring t = Inr IdempotencyProceedToReservation \<Longrightarrow>
    m (id_user d) = Inr (out, u) \<Longrightarrow>
    terminal_expiry_epoch i t (co_replay_not_after_epoch out) \<le> t \<Longrightarrow>
    completes cipher keyring i res m t d (co_response out)
      (d\<lparr>id_results := others (result_identity i) d, id_user := u\<rparr>)"
| cached: "classify_completed_result cipher i (load_sqlite_result d i) keyring t = Inr IdempotencyProceedToReservation \<Longrightarrow>
    m (id_user d) = Inr (out, u) \<Longrightarrow>
    e = terminal_expiry_epoch i t (co_replay_not_after_epoch out) \<Longrightarrow> t < e \<Longrightarrow>
    encrypt_outcome cipher keyring i res out t e = Inr env \<Longrightarrow>
    completes cipher keyring i res m t d (co_response out)
      (d\<lparr>id_user := u,
         id_results := dict_set (result_identity i) (stored_row i out env t e) (others (result_identity i) d)\<rparr>)"

lemma insert_sqlite_result_Inr:
  "insert_sqlite_result i out env t e d = Inr d' \<Longrightarrow>
     d' = d\<lparr>id_results := dict_set (result_identity i) (stored_row i out env t e) (id_results d)\<rparr>"
  by (auto simp: insert_sqlite_result_def Let_def stored_row_def split: if_splits)

lemma complete_in_transaction_completes:
  assumes "complete_in_transaction cipher keyring i res m t d = Inr (response, d')"
  shows "completes cipher keyring i res m t d response d'"
proof -
  have base: "(if load_sqlite_result d i \<noteq> None then delete_sqlite_result i d else d)
      = d\<lparr>id_results := others (result_identity i) d\<rparr>"
    by (auto simp: load_sqlite_result_def delete_sqlite_result_def others_def delete_absent)
  show ?thesis
  proof (cases "classify_completed_result cipher i (load_sqlite_result d i) keyring t")
    case (Inr r)
    show ?thesis
    proof (cases r)
      case (IdempotencyReplayCandidate x)
      then obtain row where "load_sqlite_result d i = Some row"
        using Inr classify_absent_is_no_replay by (cases "load_sqlite_result d i") fastforce+
      then show ?thesis
        using assms Inr IdempotencyReplayCandidate
        by (auto simp: complete_in_transaction_def intro: replayed split: sum.splits option.splits if_splits)
    next
      case IdempotencyProceedToReservation
      obtain out u where m: "m (id_user d) = Inr (out, u)"
        using assms unfolding complete_in_transaction_def base Inr IdempotencyProceedToReservation
        by (auto simp: Let_def split: sum.splits option.splits if_splits)
      let ?e = "terminal_expiry_epoch i t (co_replay_not_after_epoch out)"
      show ?thesis
      proof (cases "?e \<le> t")
        case True
        then show ?thesis
          using assms uncached [where m = m and d = d and res = res, OF Inr [unfolded IdempotencyProceedToReservation] m True]
          unfolding complete_in_transaction_def base Inr IdempotencyProceedToReservation
          by (auto simp: m split: sum.splits option.splits if_splits)
      next
        case False
        then have "\<exists>env. encrypt_outcome cipher keyring i res out t ?e = Inr env \<and> response = co_response out \<and>
            insert_sqlite_result i out env t ?e (d\<lparr>id_results := others (result_identity i) d, id_user := u\<rparr>) = Inr d'"
          using assms unfolding complete_in_transaction_def base Inr IdempotencyProceedToReservation
          by (auto simp: m Let_def split: sum.splits option.splits if_splits)
        with False Inr IdempotencyProceedToReservation m show ?thesis
          by (auto dest!: insert_sqlite_result_Inr intro!: cached)
      qed
    qed
  qed (use assms in \<open>auto simp: complete_in_transaction_def split: sum.splits option.splits if_splits\<close>)
qed

subsection \<open>Runs of concurrent executions\<close>

text \<open>
  A run interleaves the transactions of any number of executions, with any keyrings, nonces and
  mutations, the maintenance of the store and the calls of lifecycle controllers. \<open>rn_claimed\<close> holds the attempts that have claimed their
  reservation and not yet completed; \<open>rn_handed\<close> the key versions and nonces of the completions so far.
  A claim is followed by at most one completion, as in \<^verbatim>\<open>claim_and_complete_sqlite_result\<close>. Processes may
  take and drop the locks of \<open>rn_locks\<close> at any time. A step reads
  the database clock at \<open>t\<close>.
\<close>

record 'u idem_run =
  rn_db :: "'u idem_db"
  rn_claimed :: "(IdempotencyInvocation \<times> CryptoReservation) list"
  rn_handed :: "(string \<times> bytes) list"
  rn_locks :: lock_files

inductive store_step :: "aead \<Rightarrow> int \<Rightarrow> 'u idem_run \<Rightarrow> 'u idem_run \<Rightarrow> bool" for cipher t s where
  step_reserve: "reserve_nonce keyring nonce i t (rn_db s) = (r, d) \<Longrightarrow> store_step cipher t s (s\<lparr>rn_db := d\<rparr>)"
| step_claim: "claim_step i res t (rn_db s) = Inr d \<Longrightarrow>
    store_step cipher t s (s\<lparr>rn_db := d, rn_claimed := (i, res) # rn_claimed s\<rparr>)"
| step_complete: "(i, res) \<in> set (rn_claimed s) \<Longrightarrow>
    complete_sqlite_result cipher keyring i res m t commit (rn_db s) = (r, d) \<Longrightarrow>
    store_step cipher t s
      (s\<lparr>rn_db := d, rn_claimed := remove1 (i, res) (rn_claimed s),
         rn_handed := (rs_version res, rs_nonce res) # rn_handed s\<rparr>)"
| step_collect: "gc_sqlite_results cipher keyring limit t (rn_db s) = (r, d) \<Longrightarrow> store_step cipher t s (s\<lparr>rn_db := d\<rparr>)"
| step_disable: "write_disable version reason t (rn_db s) = Inr d \<Longrightarrow> store_step cipher t s (s\<lparr>rn_db := d\<rparr>)"
| step_register: "register_keyring keyring t (rn_db s) = Inr d \<Longrightarrow> store_step cipher t s (s\<lparr>rn_db := d\<rparr>)"
| step_lifecycle: "lifecycle_run_call cipher ring call (rn_locks s) (rn_db s) = (r, f, d) \<Longrightarrow> call_reads t call \<Longrightarrow>
    store_step cipher t s (s\<lparr>rn_db := d, rn_locks := f\<rparr>)"
| step_locks: "store_step cipher t s (s\<lparr>rn_locks := f\<rparr>)"

text \<open>Runs whose clock readings are below a bound; the readings need not grow.\<close>

inductive store_run :: "aead \<Rightarrow> int \<Rightarrow> 'u idem_run \<Rightarrow> 'u idem_run \<Rightarrow> bool" for cipher bound where
  run_refl: "store_run cipher bound s s"
| run_step: "store_run cipher bound s s' \<Longrightarrow> store_step cipher t s' s'' \<Longrightarrow> t < bound \<Longrightarrow> store_run cipher bound s s''"

lemma write_disable_tables:
  "write_disable version reason t d = Inr d' \<Longrightarrow>
     id_results d' = id_results d \<and> id_nonces d' = id_nonces d \<and> id_user d' = id_user d"
  by (auto simp: write_disable_def split: option.splits if_splits)

lemma disable_and_fail_tables:
  "disable_and_fail version reason t d = (r, d') \<Longrightarrow>
     id_results d' = id_results d \<and> id_nonces d' = id_nonces d \<and> id_user d' = id_user d"
  by (auto simp: disable_and_fail_def dest: write_disable_tables split: sum.splits)

lemma reserve_nonce_results:
  "reserve_nonce keyring nonce i t d = (r, d') \<Longrightarrow> id_results d' = id_results d \<and> id_user d' = id_user d"
  by (auto simp: reserve_nonce_def Let_def dest: disable_and_fail_tables split: option.splits if_splits)

lemma claim_step_results:
  "claim_step i res t d = Inr d' \<Longrightarrow> id_results d' = id_results d \<and> id_user d' = id_user d"
  by (auto simp: claim_step_def claim_sqlite_reservation_def Let_def split: sum.splits if_splits)

lemma register_keyring_results:
  "register_keyring keyring t d = Inr d' \<Longrightarrow>
     id_results d' = id_results d \<and> id_nonces d' = id_nonces d \<and> id_user d' = id_user d"
  by (auto simp: register_keyring_def split: option.splits sum.splits)

lemma complete_sqlite_result_cases:
  assumes "complete_sqlite_result cipher keyring i res m t commit d = (r, d')"
  obtains "d' = d" | response where "completes cipher keyring i res m t d response d'"
  using assms
  by (auto simp: complete_sqlite_result_def dest: complete_in_transaction_completes split: sum.splits option.splits if_splits)

subsection \<open>A live result stays\<close>

definition holds_row :: "identity4 \<Rightarrow> CompletedResultRecord \<Rightarrow> 'u idem_db \<Rightarrow> bool" where
  "holds_row ident row d \<longleftrightarrow> dict_wf (id_results d) \<and> dict_get (id_results d) ident = Some row"

lemma completes_keeps_row:
  assumes "completes cipher keyring i res m t d response d'" "holds_row ident row d" "t < cr_expires_at_epoch row"
  shows "holds_row ident row d' \<and> (result_identity i = ident \<longrightarrow> d' = d)"
  using assms
proof (induction rule: completes.induct)
  case (uncached out u)
  then have "result_identity i \<noteq> ident"
    by (auto simp: holds_row_def load_sqlite_result_def dest!: classify_proceed)
  with uncached show ?case by (auto simp: holds_row_def)
next
  case (cached out u e env)
  then have "result_identity i \<noteq> ident"
    by (auto simp: holds_row_def load_sqlite_result_def dest!: classify_proceed)
  with cached show ?case by (auto simp: holds_row_def)
qed simp

lemma gc_rows_keeps_row:
  assumes "gc_rows cipher keyring t rows d = Inr d'" "holds_row ident row d" "\<forall>(k, r)\<in>set rows. k \<noteq> ident"
  shows "holds_row ident row d'"
  using assms
proof (induction cipher keyring t rows d rule: gc_rows.induct)
  case (2 cipher keyring t w p o' k r rows d)
  have "holds_row ident row (d\<lparr>id_results := others (w, p, o', k) d\<rparr>)"
    using "2.prems" by (auto simp: holds_row_def)
  with 2 show ?case
    by (auto simp: Let_def delete_sqlite_result_def others_def result_identity_def
        split: sum.splits IdempotencyLookupResult.splits)
qed simp

lemma gc_keeps_row:
  assumes "gc_sqlite_results cipher keyring limit t d = (r, d')" "holds_row ident row d" "t < cr_expires_at_epoch row"
  shows "holds_row ident row d'"
proof -
  let ?rows = "take (nat (max 0 (min limit 100))) (filter (\<lambda>(_, r). cr_expires_at_epoch r \<le> t) (id_results d))"
  have "\<forall>(k, r)\<in>set ?rows. k \<noteq> ident"
    using assms(2,3) by (auto simp: holds_row_def dict_get_iff_mem dest!: in_set_takeD dest: eq_key_imp_eq_value [rotated])
      (metis dict_get_iff_mem not_less option.inject)
  with assms(1,2) show ?thesis
    by (auto simp: gc_sqlite_results_def Let_def dest: gc_rows_keeps_row split: if_splits sum.splits)
qed

lemma call_keeps_row:
  assumes "call_effect cipher ring d call d'" "call_reads t call" "holds_row ident row d" "t < cr_expires_at_epoch row"
  shows "holds_row ident row d'"
  using assms
proof (induction rule: call_effect.induct)
  case (retired version vrow e e' clock request results)
  have mem: "(ident, row) \<in> set (id_results d)" and wf: "dict_wf (id_results d)"
    using retired.prems by (auto simp: holds_row_def dict_get_iff_mem)
  have "cr_cipher_key_version row \<noteq> version" using retired mem by fastforce
  with mem have "(ident, row) \<in> set (without_version version (id_results d))" by (simp add: without_version_def)
  moreover have "dict_wf (without_version version (id_results d))" using wf by (simp add: without_version_def)
  ultimately show ?case
    using retired by (simp add: holds_row_def set_version_def keys_of_version [OF wf] dict_get_iff_mem)
next
  case (probed nonce t r d' version)
  then show ?case by (auto simp: holds_row_def dest!: reserve_nonce_results)
qed (simp_all add: holds_row_def set_version_def)

lemma store_step_keeps_row:
  assumes "store_step cipher t s s'" "holds_row ident row (rn_db s)" "t < cr_expires_at_epoch row"
  shows "holds_row ident row (rn_db s')"
  using assms
proof (induction rule: store_step.induct)
  case (step_reserve keyring nonce i r d)
  then show ?case by (auto simp: holds_row_def dest!: reserve_nonce_results)
next
  case (step_claim i res d)
  then show ?case by (auto simp: holds_row_def dest!: claim_step_results)
next
  case (step_complete i res keyring m commit r d)
  then show ?case by (auto elim!: complete_sqlite_result_cases dest: completes_keeps_row)
next
  case (step_collect keyring limit r d)
  then show ?case by (auto dest: gc_keeps_row)
next
  case (step_disable version reason d)
  then show ?case by (auto simp: holds_row_def dest!: write_disable_tables)
next
  case (step_register keyring d)
  then show ?case by (auto simp: holds_row_def dest!: register_keyring_results)
next
  case (step_lifecycle ring call r f d)
  then show ?case by (auto dest: lifecycle_call_effect call_keeps_row)
qed simp

lemma store_run_keeps_row:
  "store_run cipher (cr_expires_at_epoch row) s s' \<Longrightarrow> holds_row ident row (rn_db s) \<Longrightarrow> holds_row ident row (rn_db s')"
  by (induction rule: store_run.induct) (auto intro: store_step_keeps_row)

lemma authenticate_same_key:
  assumes "require_invocation i = None" "require_invocation j = None" "result_identity j = result_identity i"
    "same_key (cr_cipher_key_version row) ring ring'"
  shows "authenticate_completed_result cipher j row (Some ring') = authenticate_completed_result cipher i row (Some ring)"
  using assms
  by (cases "decryption_key ring (cr_cipher_key_version row)"; cases "decryption_key ring' (cr_cipher_key_version row)")
    (auto simp: authenticate_completed_result_def same_key_def cong: sum.case_cong)

lemma classify_replay:
  assumes "classify_completed_result cipher i (Some row) (Some ring) t = Inr (IdempotencyReplayCandidate response)"
  obtains p where "require_invocation i = None" "authenticate_completed_result cipher i row (Some ring) = Inr p"
    "cr_request_fingerprint row = iv_request_fingerprint i" "decode_response_plaintext (cr_status_code row) p = Inr response"
    "t < cr_expires_at_epoch row"
  using assms
  by (auto simp: classify_completed_result_def map_sum_def split: option.splits sum.splits if_splits)

lemma classified_row_replays:
  assumes c: "classify_completed_result cipher i (Some row) (Some ring) t = Inr (IdempotencyReplayCandidate response)"
  shows "replays cipher ring (result_identity i) row response"
proof (rule classify_replay [OF c])
  fix p
  assume a: "require_invocation i = None" "authenticate_completed_result cipher i row (Some ring) = Inr p"
    "decode_response_plaintext (cr_status_code row) p = Inr response"
  show ?thesis unfolding replays_def
    using a authenticate_same_key [OF a(1), of _ row ring _ cipher]
    by (auto simp: classify_completed_result_def answer_def)
qed

lemma completed_row_replays:
  assumes "completes cipher (Some ring) i res m t d response d'" "opens cipher"
    "\<forall>u out u'. m u = Inr (out, u') \<longrightarrow> ps_content_type (co_response out) = ''application/json''"
    "load_sqlite_result d' i = Some row"
  shows "replays cipher ring (result_identity i) row response \<and> cr_request_fingerprint row = iv_request_fingerprint i"
  using assms
proof (induction rule: completes.induct)
  case (replayed row' response)
  then show ?case by (auto intro: classified_row_replays elim: classify_replay)
next
  case (uncached out u)
  then show ?case by (simp add: load_sqlite_result_def)
next
  case (cached out u e env)
  then have "row = stored_row i out env t e" by (simp add: load_sqlite_result_def)
  with cached show ?case by (auto intro: sealed_row_replays)
qed

lemma holds_row_lookup:
  assumes "holds_row (result_identity i) row d" "replays cipher ring (result_identity i) row response"
    "require_invocation j = None" "result_identity j = result_identity i"
    "same_key (cr_cipher_key_version row) ring ring'" "t < cr_expires_at_epoch row"
  shows "idem_lookup cipher (Some ring') j t d = map_sum id IdempotencyReplayCandidate (answer j row response)"
  using assms by (auto simp: holds_row_def replays_def idem_lookup_def load_sqlite_result_def)

lemma completes_wf: "completes cipher keyring i res m t d response d' \<Longrightarrow> dict_wf (id_results d) \<Longrightarrow> dict_wf (id_results d')"
  by (induction rule: completes.induct) auto

lemma holds_row_completion:
  assumes "holds_row (result_identity i) row d" "replays cipher ring (result_identity i) row response"
    "require_invocation j = None" "result_identity j = result_identity i"
    "same_key (cr_cipher_key_version row) ring ring'" "t < cr_expires_at_epoch row"
    "complete_sqlite_result cipher (Some ring') j res m t commit d = (Inr x, d')"
  shows "answer j row response = Inr x"
proof -
  have c: "complete_in_transaction cipher (Some ring') j res m t d = Inr (x, d')"
    using assms(7) by (auto simp: complete_sqlite_result_def split: sum.splits option.splits)
  have "idem_lookup cipher (Some ring') j t d = map_sum id IdempotencyReplayCandidate (answer j row response)"
    using assms(1-6) by (rule holds_row_lookup)
  with complete_in_transaction_completes [OF c] show ?thesis
    by (cases rule: completes.cases) (auto simp: idem_lookup_def answer_def split: if_splits)
qed

text \<open>
  (C13) A mutation runs once. Suppose a completion has answered a request and a
  result is stored that lives until its expiry. Then, whatever other executions, collections and
  changes, rotations and retirements of keys interleave before the expiry, a later execution for the same workspace, principal,
  operation and key answers with the same response when the request is the same one, and with a
  conflict when it is another; the database stays as it is, so the mutation is not run. The same
  holds for a concurrent execution that looked before the result was there and completes after it.
\<close>

theorem mutation_runs_once:
  assumes "opens cipher"
    and "\<forall>u out u'. m u = Inr (out, u') \<longrightarrow> ps_content_type (co_response out) = ''application/json''"
    and "dict_wf (id_results d)"
    and "complete_in_transaction cipher (Some ring) i res m t d = Inr (response, rn_db s)"
    and "load_sqlite_result (rn_db s) i = Some row"
    and "store_run cipher (cr_expires_at_epoch row) s s'"
    and "require_invocation j = None" "result_identity j = result_identity i"
    and "same_key (cr_cipher_key_version row) ring ring'"
    and "\<forall>k. clock k < cr_expires_at_epoch row"
  shows "execute cipher (Some ring') nonce clock commit j m' (rn_db s')
           = (if iv_request_fingerprint j = iv_request_fingerprint i then Inr response else Inl IdempotencyConflict,
              rn_db s')
         \<and> (\<forall>keyring res' r d'.
              complete_sqlite_result cipher keyring j res' m' (clock 3) commit (rn_db s') = (r, d') \<longrightarrow>
                d' = rn_db s'
                \<and> (\<forall>x. keyring = Some ring' \<and> r = Inr x \<longrightarrow>
                      x = response \<and> iv_request_fingerprint j = iv_request_fingerprint i))"
proof -
  let ?ident = "result_identity i"
  have c: "completes cipher (Some ring) i res m t d response (rn_db s)"
    using assms(4) by (rule complete_in_transaction_completes)
  have rep: "replays cipher ring ?ident row response" and fp: "cr_request_fingerprint row = iv_request_fingerprint i"
    using completed_row_replays [OF c assms(1,2,5)] by simp_all
  have "holds_row ?ident row (rn_db s)"
    using completes_wf [OF c assms(3)] assms(5) by (simp add: holds_row_def load_sqlite_result_def)
  then have row: "holds_row ?ident row (rn_db s')" by (rule store_run_keeps_row [OF assms(6)])
  have look: "idem_lookup cipher (Some ring') j (clock k) (rn_db s')
      = map_sum id IdempotencyReplayCandidate (answer j row response)" for k
    using holds_row_lookup [OF row rep assms(7,8,9)] assms(10) by blast
  have "execute cipher (Some ring') nonce clock commit j m' (rn_db s') = (answer j row response, rn_db s')"
    by (simp add: execute_def look answer_def)
  moreover have "d' = rn_db s' \<and> (\<forall>x. keyring = Some ring' \<and> r = Inr x \<longrightarrow> answer j row response = Inr x)"
    if f: "complete_sqlite_result cipher keyring j res' m' (clock 3) commit (rn_db s') = (r, d')" for keyring res' r d'
  proof -
    have "d' = rn_db s'"
      using f by (rule complete_sqlite_result_cases)
        (use completes_keeps_row [OF _ row, of cipher keyring j res' m' "clock 3"] assms(8,10) in auto)
    then show ?thesis using holds_row_completion [OF row rep assms(7,8,9)] assms(10) f by blast
  qed
  ultimately show ?thesis by (fastforce simp: answer_def fp split: if_splits)
qed

subsection \<open>A nonce is used once\<close>

definition nonce_id :: "nonce_row \<Rightarrow> string \<times> bytes" where
  "nonce_id r = (nr_cipher_key_version r, nr_nonce r)"

definition attempt_nonce :: "IdempotencyInvocation \<times> CryptoReservation \<Rightarrow> string \<times> bytes" where
  "attempt_nonce a = (rs_version (snd a), rs_nonce (snd a))"

definition version_nonces :: "string \<Rightarrow> 'u idem_db \<Rightarrow> nonce_row list" where
  "version_nonces v d = filter (\<lambda>r. nr_cipher_key_version r = v) (id_nonces d)"

text \<open>The ledger: nonces are distinct under a key version and its counter counts them.\<close>

definition ledger_ok :: "'u idem_db \<Rightarrow> bool" where
  "ledger_ok d \<longleftrightarrow>
     distinct (map nonce_id (id_nonces d))
     \<and> (\<forall>r\<in>set (id_nonces d). dict_get (id_versions d) (nr_cipher_key_version r) \<noteq> None)
     \<and> (\<forall>v row. dict_get (id_versions d) v = Some row \<longrightarrow>
           ky_reserved_encryption_slots row = int (length (version_nonces v d)))
     \<and> (\<forall>v. int (length (version_nonces v d)) \<le> HARD_SLOT_LIMIT)"

definition claimed_nonce :: "'u idem_db \<Rightarrow> string \<times> bytes \<Rightarrow> bool" where
  "claimed_nonce d x \<longleftrightarrow> (\<exists>r\<in>set (id_nonces d). nonce_id r = x \<and> nr_claimed_at_epoch r \<noteq> None)"

definition uses :: "'u idem_run \<Rightarrow> (string \<times> bytes) list" where
  "uses s = map attempt_nonce (rn_claimed s) @ rn_handed s"

definition result_nonces :: "'u idem_db \<Rightarrow> (string \<times> bytes) set" where
  "result_nonces d = (\<lambda>(_, r). (cr_cipher_key_version r, cr_response_nonce r)) ` set (id_results d)"

definition run_ok :: "'u idem_run \<Rightarrow> bool" where
  "run_ok s \<longleftrightarrow>
     ledger_ok (rn_db s) \<and> distinct (uses s) \<and> (\<forall>x\<in>set (uses s). claimed_nonce (rn_db s) x)
     \<and> result_nonces (rn_db s) \<subseteq> set (rn_handed s)"

lemma ledger_ok_versions:
  assumes "ledger_ok d" "id_nonces d' = id_nonces d"
    and "\<And>v. map_option ky_reserved_encryption_slots (dict_get (id_versions d') v)
           = map_option ky_reserved_encryption_slots (dict_get (id_versions d) v)
         \<or> dict_get (id_versions d) v = None
           \<and> map_option ky_reserved_encryption_slots (dict_get (id_versions d') v) = Some 0"
  shows "ledger_ok d'"
proof -
  have "dict_get (id_versions d') v \<noteq> None" if "dict_get (id_versions d) v \<noteq> None" for v
    using assms(3) [of v] that by auto
  moreover have "ky_reserved_encryption_slots row = int (length (version_nonces v d))"
    if row: "dict_get (id_versions d') v = Some row" for v row
  proof (cases "dict_get (id_versions d) v")
    case None
    then have "version_nonces v d = []" using assms(1) by (auto simp: ledger_ok_def version_nonces_def filter_empty_conv)
    moreover have "ky_reserved_encryption_slots row = 0" using assms(3) [of v] None row by auto
    ultimately show ?thesis by simp
  next
    case (Some row')
    then show ?thesis using assms(1) assms(3) [of v] row by (auto simp: ledger_ok_def)
  qed
  ultimately show ?thesis using assms(1,2) by (auto simp: ledger_ok_def version_nonces_def)
qed

lemma write_disable_ledger: "write_disable version reason t d = Inr d' \<Longrightarrow> ledger_ok d \<Longrightarrow> ledger_ok d'"
  by (erule ledger_ok_versions)
    (auto simp: write_disable_def write_disable_row_def split: option.splits if_splits)

lemma disable_and_fail_ledger: "disable_and_fail version reason t d = (r, d') \<Longrightarrow> ledger_ok d \<Longrightarrow> ledger_ok d'"
  by (auto simp: disable_and_fail_def dest: write_disable_ledger split: sum.splits)

lemma register_versions_slots:
  "register_versions ks t versions = Inr versions' \<Longrightarrow>
     map_option ky_reserved_encryption_slots (dict_get versions' v)
       = map_option ky_reserved_encryption_slots (dict_get versions v)
     \<or> dict_get versions v = None \<and> map_option ky_reserved_encryption_slots (dict_get versions' v) = Some 0"
proof (induction ks t versions rule: register_versions.induct)
  case (2 k ks t versions)
  have first: "map_option ky_reserved_encryption_slots (dict_get (insert_key_version x c t versions) v)
       = map_option ky_reserved_encryption_slots (dict_get versions v)
     \<or> dict_get versions v = None
       \<and> map_option ky_reserved_encryption_slots (dict_get (insert_key_version x c t versions) v) = Some 0" for x c
    by (auto simp: insert_key_version_def fresh_key_version_def)
  from 2 show ?case using first [of "kv_version k" "kv_commitment k"]
    by (auto simp: Let_def split: option.splits if_splits)
qed simp

lemma register_keyring_ledger: "register_keyring keyring t d = Inr d' \<Longrightarrow> ledger_ok d \<Longrightarrow> ledger_ok d'"
  by (erule ledger_ok_versions)
    (auto simp: register_keyring_def dest: register_versions_slots split: option.splits sum.splits)

lemma claimed_nonce_mono: "set (id_nonces d) \<subseteq> set (id_nonces d') \<Longrightarrow> claimed_nonce d x \<Longrightarrow> claimed_nonce d' x"
  by (auto simp: claimed_nonce_def)

text \<open>A reservation adds at most one row, with a new nonce.\<close>

lemma reserve_nonce_cases:
  assumes "reserve_nonce keyring nonce i t d = (r, d')"
  obtains "d' = d" | version reason where "disable_and_fail version reason t d = (r, d')"
  | version v row soft where "dict_get (id_versions d) version = Some v"
      "ky_reserved_encryption_slots v < HARD_SLOT_LIMIT" "nr_cipher_key_version row = version"
      "nonce_id row \<notin> nonce_id ` set (id_nonces d)"
      "d' = d\<lparr>id_versions := dict_set version (v\<lparr>ky_reserved_encryption_slots := ky_reserved_encryption_slots v + 1,
                ky_soft_limit_reported_epoch := soft\<rparr>) (id_versions d), id_nonces := id_nonces d @ [row]\<rparr>"
proof -
  have fresh: "nonce_id row \<notin> nonce_id ` set (id_nonces d)"
    if "\<not> list_ex (\<lambda>r. nr_cipher_key_version r = version \<and> (nr_nonce r = n \<or> nr_slot r = slot)) (id_nonces d)"
      "nr_cipher_key_version row = version" "nr_nonce row = n" for row version n slot
    using that by (auto simp: list_ex_iff nonce_id_def)
  show thesis
  proof (cases keyring)
    case (Some ring)
    let ?version = "kv_version (kr_active_key ring)"
    show thesis
    proof (cases "dict_get (id_versions d) ?version")
      case v: (Some v)
      show thesis
      proof (cases nonce)
        case (Some n)
        let ?slots = "ky_reserved_encryption_slots v + 1"
        let ?row = "\<lparr>nr_cipher_key_version = ?version, nr_slot = ?slots, nr_nonce = n, nr_reserved_at_epoch = t,
          nr_owner = reservation_owner_identity i, nr_claimed_at_epoch = None\<rparr>"
        let ?shut = "ky_write_disabled_epoch v \<noteq> None \<or> ky_retired_epoch v \<noteq> None"
        let ?late = "?slots \<ge> SOFT_SLOT_LIMIT \<and> ky_soft_limit_reported_epoch v = None \<and> t < ky_first_seen_epoch v"
        let ?seen = "list_ex (\<lambda>r. nr_cipher_key_version r = ?version \<and> (nr_nonce r = n \<or> nr_slot r = ?slots)) (id_nonces d)"
        note eqs = reserve_nonce_def Let_def \<open>keyring = Some ring\<close> v Some
        consider (same) "?shut" | (full) "\<not> ?shut" "ky_reserved_encryption_slots v \<ge> HARD_SLOT_LIMIT"
          | (bad) "\<not> ?shut" "\<not> ky_reserved_encryption_slots v \<ge> HARD_SLOT_LIMIT" "?late \<or> length n \<noteq> 12"
          | (collision) "\<not> ?shut" "\<not> ky_reserved_encryption_slots v \<ge> HARD_SLOT_LIMIT" "\<not> ?late" "length n = 12"
              "\<not> nonce_row_ok ?row \<or> ?seen"
          | (ok) "\<not> ?shut" "\<not> ky_reserved_encryption_slots v \<ge> HARD_SLOT_LIMIT" "\<not> ?late" "length n = 12"
              "nonce_row_ok ?row" "\<not> ?seen" by blast
        then show thesis
        proof cases
          case same
          have "d' = d" using assms same by (auto simp: eqs)
          then show thesis by (rule that(1))
        next
          case full
          then show thesis using assms that(2) by (simp add: eqs)
        next
          case bad
          have "d' = d" using assms bad by (auto simp: eqs split: if_splits)
          then show thesis by (rule that(1))
        next
          case collision
          then have "disable_and_fail ?version ''nonce_collision'' t d = (r, d')" using assms by (auto simp: eqs)
          then show thesis by (rule that(2))
        next
          case ok
          have "nonce_id ?row \<notin> nonce_id ` set (id_nonces d)" by (rule fresh [OF ok(6)]) simp_all
          moreover have "\<exists>soft. d' = d\<lparr>id_versions := dict_set ?version (v\<lparr>ky_reserved_encryption_slots := ?slots,
              ky_soft_limit_reported_epoch := soft\<rparr>) (id_versions d), id_nonces := id_nonces d @ [?row]\<rparr>"
            using assms ok
            by (cases "ky_soft_limit_reported_epoch v"; cases "?slots \<ge> SOFT_SLOT_LIMIT") (simp_all add: eqs, blast+)
          ultimately show thesis using ok(2) that(3) [OF v, of ?row] by auto
        qed
      qed (use assms that(1,2) in \<open>auto simp: reserve_nonce_def Let_def Some v split: if_splits\<close>)
    qed (use assms that(1) in \<open>auto simp: reserve_nonce_def Let_def Some\<close>)
  qed (use assms that(1) in \<open>auto simp: reserve_nonce_def\<close>)
qed

lemma reserve_nonce_ledger:
  assumes "reserve_nonce keyring nonce i t d = (r, d')" "ledger_ok d"
  shows "ledger_ok d' \<and> set (id_nonces d) \<subseteq> set (id_nonces d')"
  using assms(1)
proof (cases rule: reserve_nonce_cases)
  case 1
  then show ?thesis using assms(2) by simp
next
  case (2 version reason)
  then show ?thesis using assms(2) disable_and_fail_tables disable_and_fail_ledger by fastforce
next
  case (3 version v row soft)
  have "version_nonces x d' = version_nonces x d @ (if x = version then [row] else [])" for x
    using 3 by (simp add: version_nonces_def)
  then show ?thesis using assms(2) 3 by (auto simp: ledger_ok_def)
qed

lemma distinct_map_eq: "distinct (map f xs) \<Longrightarrow> x \<in> set xs \<Longrightarrow> y \<in> set xs \<Longrightarrow> f x = f y \<Longrightarrow> x = y"
  by (metis distinct_map inj_onD)

lemma claim_step_ledger:
  assumes "claim_step i res t d = Inr d'" "ledger_ok d"
  shows "ledger_ok d'" "claimed_nonce d' (attempt_nonce (i, res))" "\<not> claimed_nonce d (attempt_nonce (i, res))"
    "claimed_nonce d x \<Longrightarrow> claimed_nonce d' x"
proof -
  define P where "P = (\<lambda>r. reservation_row res i r \<and> nr_claimed_at_epoch r = None
      \<and> \<not> sqlite_result_uses_reservation_nonce d res)"
  have one: "length (filter P (id_nonces d)) = 1"
    and d': "d' = d\<lparr>id_nonces := map (\<lambda>r. if P r then r\<lparr>nr_claimed_at_epoch := Some t\<rparr> else r) (id_nonces d)\<rparr>"
    using assms(1) by (auto simp: claim_step_def claim_sqlite_reservation_def Let_def P_def split: sum.splits if_splits)
  obtain r where r: "r \<in> set (id_nonces d)" "P r" 
    using one filter_False [of "id_nonces d" P] by fastforce
  have id: "nonce_id r = attempt_nonce (i, res)" "nr_claimed_at_epoch r = None"
    using r(2) by (auto simp: P_def reservation_row_def nonce_id_def attempt_nonce_def)
  have "map nonce_id (id_nonces d') = map nonce_id (id_nonces d)"
    unfolding d' by (auto simp: nonce_id_def)
  moreover have vs: "id_versions d' = id_versions d" by (simp add: d')
  moreover have "length (version_nonces v d') = length (version_nonces v d)" for v
    by (simp add: version_nonces_def d' filter_map comp_def if_distrib cong: if_cong)
  moreover have "\<forall>r\<in>set (id_nonces d'). dict_get (id_versions d) (nr_cipher_key_version r) \<noteq> None"
    using assms(2) by (auto simp: d' ledger_ok_def)
  ultimately show "ledger_ok d'" using assms(2) by (simp add: ledger_ok_def)
  show "claimed_nonce d' (attempt_nonce (i, res))"
    using r id(1) by (auto simp: claimed_nonce_def d' nonce_id_def intro!: bexI [of _ "r\<lparr>nr_claimed_at_epoch := Some t\<rparr>"])
  show "\<not> claimed_nonce d (attempt_nonce (i, res))"
    using assms(2) r(1) id by (auto simp: claimed_nonce_def ledger_ok_def dest: distinct_map_eq [of nonce_id _ r])
  show "claimed_nonce d x \<Longrightarrow> claimed_nonce d' x"
    by (auto simp: claimed_nonce_def d' nonce_id_def P_def)
qed

lemma completes_nonces:
  assumes "completes cipher keyring i res m t d response d'"
  shows "id_nonces d' = id_nonces d" "id_versions d' = id_versions d"
    "result_nonces d' \<subseteq> insert (rs_version res, rs_nonce res) (result_nonces d)"
proof -
  have sub: "(\<lambda>(_, r). (cr_cipher_key_version r, cr_response_nonce r)) ` set (others x d) \<subseteq> result_nonces d" for x
    by (auto simp: result_nonces_def others_def)
  show "id_nonces d' = id_nonces d" "id_versions d' = id_versions d" using assms by (cases; simp)+
  show "result_nonces d' \<subseteq> insert (rs_version res, rs_nonce res) (result_nonces d)"
    using assms
  proof cases
    case (uncached out u)
    then show ?thesis using sub by (auto simp: result_nonces_def others_def)
  next
    case (cached out u e env)
    then obtain ring where "keyring = Some ring" by (cases keyring) (auto simp: encrypt_outcome_def)
    then have "en_version env = rs_version res" "en_nonce env = rs_nonce res"
      using cached by (auto elim: encrypt_outcome_cases)
    with cached show ?thesis using sub [of "result_identity i"] by (auto simp: result_nonces_def dict_set_fresh)
  qed auto
qed

lemma complete_sqlite_result_nonces:
  assumes "complete_sqlite_result cipher keyring i res m t commit d = (r, d')"
  shows "id_nonces d' = id_nonces d" "id_versions d' = id_versions d"
    "result_nonces d' \<subseteq> insert (rs_version res, rs_nonce res) (result_nonces d)"
proof -
  from assms have "id_nonces d' = id_nonces d \<and> id_versions d' = id_versions d
      \<and> result_nonces d' \<subseteq> insert (rs_version res, rs_nonce res) (result_nonces d)"
  proof (cases rule: complete_sqlite_result_cases)
    case (2 response)
    then show ?thesis using completes_nonces [OF 2] by simp
  qed auto
  then show "id_nonces d' = id_nonces d" "id_versions d' = id_versions d"
    "result_nonces d' \<subseteq> insert (rs_version res, rs_nonce res) (result_nonces d)" by simp_all
qed

lemma gc_rows_nonces:
  "gc_rows cipher keyring t rows d = Inr d' \<Longrightarrow>
     id_nonces d' = id_nonces d \<and> id_versions d' = id_versions d \<and> result_nonces d' \<subseteq> result_nonces d"
proof (induction cipher keyring t rows d rule: gc_rows.induct)
  case (2 cipher keyring t w p o' k r rows d)
  have "result_nonces (d\<lparr>id_results := others x d\<rparr>) \<subseteq> result_nonces d" for x
    by (auto simp: result_nonces_def others_def)
  with 2 show ?case
    by (fastforce simp: Let_def delete_sqlite_result_def result_identity_def others_def [symmetric]
        split: sum.splits IdempotencyLookupResult.splits)
qed simp

lemma gc_nonces:
  "gc_sqlite_results cipher keyring limit t d = (r, d') \<Longrightarrow>
     id_nonces d' = id_nonces d \<and> id_versions d' = id_versions d \<and> result_nonces d' \<subseteq> result_nonces d"
  by (auto simp: gc_sqlite_results_def Let_def dest: gc_rows_nonces split: if_splits sum.splits)

lemma ledger_ok_same: "id_nonces d' = id_nonces d \<Longrightarrow> id_versions d' = id_versions d \<Longrightarrow> ledger_ok d' = ledger_ok d"
  by (simp add: ledger_ok_def version_nonces_def)

text \<open>A step that changes only the database keeps the invariant when it keeps the ledger and adds no result.\<close>

lemma run_ok_db:
  assumes "run_ok s" "ledger_ok d" "set (id_nonces (rn_db s)) \<subseteq> set (id_nonces d)" "result_nonces d \<subseteq> result_nonces (rn_db s)"
  shows "run_ok (s\<lparr>rn_db := d\<rparr>)"
  using assms claimed_nonce_mono [OF assms(3)] by (auto simp: run_ok_def uses_def)

lemma uses_complete:
  assumes "a \<in> set (rn_claimed s)"
  shows "mset (uses (s\<lparr>rn_db := d, rn_claimed := remove1 a (rn_claimed s), rn_handed := attempt_nonce a # rn_handed s\<rparr>))
    = mset (uses s)"
proof -
  have "mset (rn_claimed s) = add_mset a (mset (remove1 a (rn_claimed s)))" using assms by simp
  then have "mset (map attempt_nonce (rn_claimed s))
      = add_mset (attempt_nonce a) (mset (map attempt_nonce (remove1 a (rn_claimed s))))"
    by (metis image_mset_add_mset mset_map)
  then show ?thesis by (simp add: uses_def)
qed

text \<open>Neither a change of a version's epochs nor a probe breaks the ledger.\<close>

lemma set_version_ledger:
  assumes "ledger_ok d" "dict_get (id_versions d) version = Some row"
    "ky_reserved_encryption_slots row' = ky_reserved_encryption_slots row"
  shows "ledger_ok (set_version version row' d)"
  using assms(1) by (rule ledger_ok_versions) (use assms(2,3) in \<open>auto simp: set_version_def\<close>)

lemma call_effect_ledger:
  assumes "call_effect cipher ring d call d'" "ledger_ok d"
  shows "ledger_ok d' \<and> set (id_nonces d) \<subseteq> set (id_nonces d') \<and> result_nonces d' \<subseteq> result_nonces d"
  using assms
proof (induction rule: call_effect.induct)
  case (retired version row e e' clock request results)
  have "ledger_ok (d\<lparr>id_results := results\<rparr>)" using retired.prems by (simp add: ledger_ok_def version_nonces_def)
  then have "ledger_ok (set_version version (row\<lparr>ky_retired_epoch := Some (clock 2)\<rparr>) (d\<lparr>id_results := results\<rparr>))"
    by (rule set_version_ledger [where row = row]) (use retired in simp_all)
  then show ?case using retired by (auto simp: set_version_def result_nonces_def)
next
  case (probed nonce t r d' version)
  then show ?case using reserve_nonce_ledger [OF probed(1)] reserve_nonce_results [OF probed(1)]
    by (simp add: result_nonces_def)
next
  case (disabled version row t reason)
  then show ?case using set_version_ledger [OF disabled(6,1)] by (simp add: set_version_def result_nonces_def)
next
  case (drained version row e t ok)
  then show ?case using set_version_ledger [OF drained(7,1)] by (simp add: set_version_def result_nonces_def)
qed simp

lemma run_ok_locks: "run_ok (s\<lparr>rn_locks := f\<rparr>) = run_ok s"
  by (simp add: run_ok_def uses_def)

lemma store_step_run_ok:
  assumes "store_step cipher t s s'" "run_ok s"
  shows "run_ok s'"
  using assms
proof (induction rule: store_step.induct)
  case (step_reserve keyring nonce i r d)
  then have "ledger_ok d \<and> set (id_nonces (rn_db s)) \<subseteq> set (id_nonces d)"
    by (auto simp: run_ok_def dest: reserve_nonce_ledger)
  with step_reserve(2) show ?case
    using reserve_nonce_results [OF step_reserve(1)] by (intro run_ok_db) (simp_all add: result_nonces_def)
next
  case (step_claim i res d)
  then have l: "ledger_ok (rn_db s)" by (simp add: run_ok_def)
  note c = claim_step_ledger [OF step_claim(1) l]
  have "result_nonces d = result_nonces (rn_db s)" using claim_step_results [OF step_claim(1)] by (simp add: result_nonces_def)
  with step_claim(2) c show ?case by (auto simp: run_ok_def uses_def)
next
  case (step_complete i res keyring m commit r d)
  let ?s = "s\<lparr>rn_db := d, rn_claimed := remove1 (i, res) (rn_claimed s),
    rn_handed := (rs_version res, rs_nonce res) # rn_handed s\<rparr>"
  have a: "(rs_version res, rs_nonce res) = attempt_nonce (i, res)" by (simp add: attempt_nonce_def)
  have ms: "mset (uses ?s) = mset (uses s)" using uses_complete [OF step_complete(1)] by (simp add: a)
  have "distinct (uses ?s)" "set (uses ?s) = set (uses s)"
    using step_complete(3) mset_eq_imp_distinct_iff [OF ms] mset_eq_setD [OF ms] by (simp_all add: run_ok_def)
  moreover note n = complete_sqlite_result_nonces [OF step_complete(2)]
  moreover have "ledger_ok d" using step_complete(3) ledger_ok_same [OF n(1,2)] by (simp add: run_ok_def)
  moreover have "claimed_nonce d = claimed_nonce (rn_db s)" by (simp add: fun_eq_iff claimed_nonce_def n(1))
  ultimately show ?case using step_complete(3) by (auto simp: run_ok_def)
next
  case (step_collect keyring limit r d)
  then show ?case using gc_nonces [OF step_collect(1)] ledger_ok_same [of d "rn_db s"]
    by (intro run_ok_db) (simp_all add: run_ok_def)
next
  case (step_disable version reason d)
  then show ?case using write_disable_tables [OF step_disable(1)]
      write_disable_ledger [OF step_disable(1)]
    by (intro run_ok_db) (simp_all add: run_ok_def result_nonces_def)
next
  case (step_register keyring d)
  then show ?case using register_keyring_results [OF step_register(1)]
      register_keyring_ledger [OF step_register(1)]
    by (intro run_ok_db) (simp_all add: run_ok_def result_nonces_def)
next
  case (step_lifecycle ring call r f d)
  have "ledger_ok (rn_db s)" using step_lifecycle(3) by (simp add: run_ok_def)
  note e = call_effect_ledger [OF lifecycle_call_effect [OF step_lifecycle(1)] this]
  have "run_ok (s\<lparr>rn_db := d\<rparr>)" using e by (intro run_ok_db [OF step_lifecycle(3)]) simp_all
  then show ?case by (simp add: run_ok_def uses_def)
next
  case (step_locks f)
  then show ?case by (simp add: run_ok_locks)
qed

lemma store_run_ok: "store_run cipher bound s s' \<Longrightarrow> run_ok s \<Longrightarrow> run_ok s'"
  by (induction rule: store_run.induct) (auto intro: store_step_run_ok)

text \<open>A completion seals under no other nonce than that of its reservation.\<close>

lemma completion_seals_its_nonce:
  assumes "unseal c' = unseal c" "\<And>k p a. seal c' k (rs_nonce res) p a = seal c k (rs_nonce res) p a"
  shows "complete_sqlite_result c' keyring i res m t commit d = complete_sqlite_result c keyring i res m t commit d"
proof -
  have "decrypt_response c' = decrypt_response c" 
    by (intro ext) (simp add: decrypt_response_def assms(1) cong: if_cong option.case_cong sum.case_cong)
  then have "authenticate_completed_result c' = authenticate_completed_result c"
    by (intro ext) (simp add: authenticate_completed_result_def cong: if_cong option.case_cong sum.case_cong)
  then have "classify_completed_result c' = classify_completed_result c"
    by (intro ext) (simp add: classify_completed_result_def cong: if_cong option.case_cong sum.case_cong)
  moreover have "encrypt_outcome c' keyring i res = encrypt_outcome c keyring i res"
    by (intro ext) (simp add: encrypt_outcome_def encrypt_reserved_response_def encrypt_with_nonce_def assms(2)
        cong: if_cong option.case_cong sum.case_cong)
  ultimately show ?thesis
    by (simp add: complete_sqlite_result_def complete_in_transaction_def
        cong: if_cong option.case_cong sum.case_cong prod.case_cong IdempotencyLookupResult.case_cong)
qed

lemma handed_count:
  assumes "run_ok s"
  shows "int (length (filter (\<lambda>x. fst x = v) (rn_handed s))) \<le> HARD_SLOT_LIMIT"
proof -
  let ?h = "filter (\<lambda>x. fst x = v) (rn_handed s)"
  have "distinct ?h" using assms by (simp add: run_ok_def uses_def)
  moreover have "set ?h \<subseteq> nonce_id ` set (version_nonces v (rn_db s))"
  proof
    fix x assume x: "x \<in> set ?h"
    then have "claimed_nonce (rn_db s) x" using assms by (simp add: run_ok_def uses_def)
    then obtain r where "r \<in> set (id_nonces (rn_db s))" "x = nonce_id r" by (auto simp: claimed_nonce_def)
    with x show "x \<in> nonce_id ` set (version_nonces v (rn_db s))" by (auto simp: version_nonces_def nonce_id_def)
  qed
  ultimately have "length ?h \<le> card (nonce_id ` set (version_nonces v (rn_db s)))"
    using card_mono [of "nonce_id ` set (version_nonces v (rn_db s))" "set ?h"] distinct_card [of ?h] by simp
  also have "\<dots> \<le> length (version_nonces v (rn_db s))"
    using card_image_le [of "set (version_nonces v (rn_db s))" nonce_id] card_length [of "version_nonces v (rn_db s)"] by simp
  finally have "length ?h \<le> length (version_nonces v (rn_db s))" .
  moreover have "int (length (version_nonces v (rn_db s))) \<le> HARD_SLOT_LIMIT"
    using assms by (simp add: run_ok_def ledger_ok_def)
  ultimately show ?thesis by linarith
qed

text \<open>
  (C14) However executions interleave, with whatever nonces the generator
  delivers, no two completions are handed the same nonce under one key version, at most \<open>2^24\<close>
  completions use one version, and every stored ciphertext was sealed under a nonce of a completion,
  so no two stored rows share a nonce. A completion seals under its own nonce only: a cipher that
  agrees on that nonce gives the same outcome.
\<close>

theorem nonces_are_used_once:
  assumes "id_nonces (rn_db s) = []" "id_results (rn_db s) = []" "rn_claimed s = []" "rn_handed s = []"
    and "\<forall>v\<in>set (dict_values (id_versions (rn_db s))). ky_reserved_encryption_slots v = 0"
    and "store_run cipher bound s s'"
  shows "distinct (rn_handed s')
         \<and> int (length (filter (\<lambda>x. fst x = version) (rn_handed s'))) \<le> 2 ^ 24
         \<and> (\<forall>(k, r)\<in>set (id_results (rn_db s')). (cr_cipher_key_version r, cr_response_nonce r) \<in> set (rn_handed s'))
         \<and> (unseal c' = unseal cipher \<and> (\<forall>k p a. seal c' k (rs_nonce res) p a = seal cipher k (rs_nonce res) p a) \<longrightarrow>
              complete_sqlite_result c' keyring i res m t commit (rn_db s')
                = complete_sqlite_result cipher keyring i res m t commit (rn_db s'))"
proof -
  have "run_ok s"
    using assms(1-5)
    by (fastforce simp: run_ok_def ledger_ok_def uses_def result_nonces_def version_nonces_def HARD_SLOT_LIMIT_def
        dest: map_of_SomeD)
  then have ok: "run_ok s'" using store_run_ok [OF assms(6)] by blast
  show ?thesis
    using ok handed_count [OF ok, of version] completion_seals_its_nonce [of c' cipher res]
    by (auto simp: run_ok_def uses_def result_nonces_def HARD_SLOT_LIMIT_def)
qed

subsection \<open>Witnesses\<close>

definition example_cipher :: aead where
  "example_cipher = \<lparr>seal = \<lambda>k n p a. Some (p @ replicate 16 0), unseal = \<lambda>k n c a. Some (take (length c - 16) c)\<rparr>"

definition example_key :: IdempotencyKeyVersion where
  "example_key = \<lparr>kv_version = ''k1'', kv_material = replicate 32 7, kv_commitment = replicate 32 1\<rparr>"

definition example_ring :: IdempotencyKeyring where
  "example_ring = \<lparr>kr_active_key = example_key, kr_decryption_keys = [example_key]\<rparr>"

definition example_invocation :: IdempotencyInvocation where
  "example_invocation =
     \<lparr>iv_workspace_id = ''ws'', iv_principal = ''workspace:ws'', iv_operation = ''grant.issue.v1'',
      iv_key_hash = replicate 32 2, iv_request_fingerprint = replicate 32 3, iv_max_terminal_ttl_seconds = 86400\<rparr>"

definition example_response :: PreSerializedHttpResponse where
  "example_response =
     \<lparr>ps_status_code = 201, ps_content_type = ''application/json'', ps_body = utf8 ''{}'', ps_error_code = None,
      ps_decision = None\<rparr>"

definition example_mutation :: "nat mutation" where
  "example_mutation u = Inr (\<lparr>co_response = example_response, co_replay_not_after_epoch = None\<rparr>, Suc u)"

definition example_empty_db :: "nat idem_db" where
  "example_empty_db =
     \<lparr>id_versions = [(''k1'', fresh_key_version (replicate 32 1) 0)], id_nonces = [], id_results = [], id_user = 0\<rparr>"

definition example_reservation :: CryptoReservation where
  "example_reservation = \<lparr>rs_version = ''k1'', rs_slot = 1, rs_nonce = replicate 12 9, rs_reserved_at_epoch = 50\<rparr>"

definition example_reserved_db :: "nat idem_db" where
  "example_reserved_db =
     example_empty_db\<lparr>
       id_versions := [(''k1'', (fresh_key_version (replicate 32 1) 0)\<lparr>ky_reserved_encryption_slots := 1\<rparr>)],
       id_nonces := [\<lparr>nr_cipher_key_version = ''k1'', nr_slot = 1, nr_nonce = replicate 12 9, nr_reserved_at_epoch = 50,
                      nr_owner = reservation_owner_identity example_invocation, nr_claimed_at_epoch = None\<rparr>]\<rparr>"

lemmas example_store_defs =
  example_key_def example_ring_def example_invocation_def example_empty_db_def example_reservation_def example_reserved_db_def
  reservation_owner_identity_def result_identity_def fresh_key_version_def

lemma example_reserves:
  "reserve_nonce (Some example_ring) (Some (replicate 12 9)) example_invocation 50 example_empty_db
     = (Inr example_reservation, example_reserved_db)"
  by (simp add: reserve_nonce_def Let_def example_store_defs HARD_SLOT_LIMIT_def SOFT_SLOT_LIMIT_def nonce_row_ok_def identity_ok_def)

definition example_claimed_db :: "nat idem_db" where
  "example_claimed_db =
     example_reserved_db\<lparr>id_nonces := map (\<lambda>r. r\<lparr>nr_claimed_at_epoch := Some 60\<rparr>) (id_nonces example_reserved_db)\<rparr>"

lemma example_claims: "claim_step example_invocation example_reservation 60 example_reserved_db = Inr example_claimed_db"
  by (simp add: claim_step_def claim_sqlite_reservation_def reservation_row_def sqlite_result_uses_reservation_nonce_def
      example_claimed_db_def example_store_defs)

definition example_row :: CompletedResultRecord where
  "example_row =
     \<lparr>cr_request_fingerprint = replicate 32 3, cr_format_version = 1, cr_status_code = 201,
      cr_cipher_key_version = ''k1'', cr_response_nonce = replicate 12 9,
      cr_response_ciphertext =
        RESPONSE_PLAINTEXT_DOMAIN @ be_bytes 4 (length (utf8 ''{}'')) @ utf8 ''{}'' @ [0, 0] @ replicate 16 0,
      cr_created_at_epoch = 100, cr_expires_at_epoch = 86500\<rparr>"

definition example_done_db :: "nat idem_db" where
  "example_done_db =
     example_claimed_db\<lparr>id_results := [(result_identity example_invocation, example_row)], id_user := 1\<rparr>"

lemma example_encrypts:
  "encrypt_outcome example_cipher (Some example_ring) example_invocation example_reservation
     \<lparr>co_response = example_response, co_replay_not_after_epoch = None\<rparr> 100 86500
    = Inr \<lparr>en_format_version = 1, en_version = ''k1'', en_nonce = replicate 12 9,
           en_ciphertext = cr_response_ciphertext example_row\<rparr>"
  by (simp add: encrypt_outcome_def encrypt_reserved_response_def encrypt_with_nonce_def
      example_store_defs example_cipher_def decryption_key_def build_response_aad_def int64_def length_prefix_def
      envelope_aad_def ENVELOPE_FORMAT_VERSION_def encode_response_plaintext_def encode_optional_text_def
      example_row_def example_response_def utf8_char_def RESPONSE_AAD_DOMAIN_def ENVELOPE_AAD_DOMAIN_def)

lemma example_completes:
  "complete_in_transaction example_cipher (Some example_ring) example_invocation example_reservation example_mutation 100
     example_claimed_db = Inr (example_response, example_done_db)"
proof -
  have auth: "require_sqlite_reservation_authentic example_claimed_db example_invocation example_reservation = Inr (Some 60)"
    "\<not> sqlite_result_uses_reservation_nonce example_claimed_db example_reservation"
    by (simp_all add: require_sqlite_reservation_authentic_def reservation_row_def sqlite_result_uses_reservation_nonce_def
        example_claimed_db_def example_store_defs)
  have empty: "load_sqlite_result example_claimed_db example_invocation = None" "id_user example_claimed_db = 0"
    "id_results example_claimed_db = []" "dict_get (id_versions example_claimed_db) ''k1'' \<noteq> None"
    by (simp_all add: load_sqlite_result_def example_claimed_db_def example_store_defs)
  have proceed: "classify_completed_result example_cipher example_invocation None (Some example_ring) 100
      = Inr IdempotencyProceedToReservation"
    by (simp add: classify_completed_result_def require_invocation_def example_invocation_def)
  have e: "terminal_expiry_epoch example_invocation 100 None = 86500"
    by (simp add: terminal_expiry_epoch_def example_invocation_def)
  have ok: "result_row_ok (result_identity example_invocation) example_row"
    by (simp add: result_row_ok_def identity_ok_def example_row_def example_store_defs RESPONSE_PLAINTEXT_DOMAIN_def
        utf8_char_def)
  have row: "stored_row example_invocation \<lparr>co_response = example_response, co_replay_not_after_epoch = None\<rparr>
      \<lparr>en_format_version = 1, en_version = ''k1'', en_nonce = replicate 12 9,
           en_ciphertext = cr_response_ciphertext example_row\<rparr> 100 86500 = example_row"
    by (simp add: stored_row_def example_row_def example_invocation_def example_response_def)
  have "insert_sqlite_result example_invocation \<lparr>co_response = example_response, co_replay_not_after_epoch = None\<rparr>
      \<lparr>en_format_version = 1, en_version = ''k1'', en_nonce = replicate 12 9,
           en_ciphertext = cr_response_ciphertext example_row\<rparr> 100 86500 (example_claimed_db\<lparr>id_user := 1\<rparr>)
      = Inr example_done_db"
    unfolding insert_sqlite_result_def stored_row_def [symmetric] row Let_def
    using empty ok by (simp add: example_done_db_def example_row_def)
  then show ?thesis
    by (simp add: complete_in_transaction_def auth empty proceed example_mutation_def e example_encrypts)
      (simp add: example_reservation_def)
qed

lemma example_cipher_opens: "opens example_cipher"
  by (auto simp: opens_def example_cipher_def)

text \<open>The steps of one execution as a run.\<close>

definition example_locks :: lock_files where
  "example_locks = \<lparr>lf_carriers = [], lf_shared = \<lambda>_. 0, lf_exclusive = \<lambda>_. False, lf_broken = False\<rparr>"

definition example_run_at :: "nat idem_db \<Rightarrow> nat idem_run" where
  "example_run_at d = \<lparr>rn_db = d, rn_claimed = [], rn_handed = [], rn_locks = example_locks\<rparr>"

theorem mutation_runs_once_witness:
  "complete_in_transaction example_cipher (Some example_ring) example_invocation example_reservation example_mutation 100
     example_claimed_db = Inr (example_response, example_done_db)
   \<and> execute example_cipher (Some example_ring) None (\<lambda>_. 86499) None example_invocation example_mutation example_done_db
     = (Inr example_response, example_done_db)"
proof -
  let ?s = "example_run_at example_done_db"
  have json: "\<forall>u out u'. example_mutation u = Inr (out, u') \<longrightarrow> ps_content_type (co_response out) = ''application/json''"
    by (auto simp: example_mutation_def example_response_def)
  have wf: "dict_wf (id_results example_claimed_db)" by (simp add: example_claimed_db_def example_store_defs)
  have c: "complete_in_transaction example_cipher (Some example_ring) example_invocation example_reservation
      example_mutation 100 example_claimed_db = Inr (example_response, rn_db ?s)"
    by (simp add: example_completes example_run_at_def)
  have row: "load_sqlite_result (rn_db ?s) example_invocation = Some example_row"
    by (simp add: load_sqlite_result_def example_done_db_def example_run_at_def)
  have j: "require_invocation example_invocation = None" by (simp add: require_invocation_def example_invocation_def)
  have key: "same_key (cr_cipher_key_version example_row) example_ring example_ring" by (simp add: same_key_def)
  have clock: "\<forall>k :: nat. 86499 < cr_expires_at_epoch example_row" by (simp add: example_row_def)
  have "execute example_cipher (Some example_ring) None (\<lambda>_. 86499) None example_invocation example_mutation (rn_db ?s)
      = (Inr example_response, rn_db ?s)"
    using mutation_runs_once [OF example_cipher_opens json wf c row run_refl j refl key clock, of None None example_mutation]
    by simp
  with c show ?thesis by (simp add: example_run_at_def)
qed

theorem nonces_are_used_once_witness:
  "\<exists>s'. store_run example_cipher 200 (example_run_at example_empty_db) s' \<and> rn_handed s' = [(''k1'', replicate 12 9)]
     \<and> distinct (rn_handed s') \<and> rn_db s' = example_done_db"
proof -
  let ?s0 = "example_run_at example_empty_db" and ?a = "(example_invocation, example_reservation)"
  define s1 where "s1 = ?s0\<lparr>rn_db := example_reserved_db\<rparr>"
  define s2 where "s2 = s1\<lparr>rn_db := example_claimed_db, rn_claimed := ?a # rn_claimed s1\<rparr>"
  define s3 where "s3 = s2\<lparr>rn_db := example_done_db, rn_claimed := remove1 ?a (rn_claimed s2),
    rn_handed := (rs_version example_reservation, rs_nonce example_reservation) # rn_handed s2\<rparr>"
  have p1: "store_step example_cipher 50 ?s0 s1"
    unfolding s1_def by (rule step_reserve, unfold example_run_at_def idem_run.simps, rule example_reserves)
  have p2: "store_step example_cipher 60 s1 s2"
    unfolding s2_def by (rule step_claim, unfold s1_def example_run_at_def idem_run.simps, rule example_claims)
  have p3: "store_step example_cipher 100 s2 s3"
    unfolding s3_def
    by (rule step_complete [where keyring = "Some example_ring" and m = example_mutation and commit = None])
      (simp_all add: s2_def complete_sqlite_result_def example_completes)
  have run: "store_run example_cipher 200 ?s0 s3"
    by (rule run_step [OF run_step [OF run_step [OF run_refl p1] p2] p3]) simp_all
  have "distinct (rn_handed s3)"
    using nonces_are_used_once [OF _ _ _ _ _ run, of "''k1''"]
    by (simp add: example_run_at_def example_empty_db_def fresh_key_version_def)
  moreover have "rn_handed s3 = [(''k1'', replicate 12 9)]" "rn_db s3 = example_done_db"
    by (simp_all add: s3_def s2_def s1_def example_run_at_def example_reservation_def)
  ultimately show ?thesis using run by blast
qed

end
