(* ===== verification/IdempotencyRetirement.thy ===== *)
theory IdempotencyRetirement
  imports IdempotencyReplay
begin

section \<open>Retired keys are not needed\<close>

text \<open>
  What the lifecycle of key versions guarantees, in every interleaving with executions: no stored
  result is sealed under a retired version, so the key of a retired version can be removed and a
  keyring without it is ready; and the removal window is long enough, so that a version whose drain
  is complete can be retired once it has passed.
\<close>

subsection \<open>Steps of the registry\<close>

text \<open>
  How the row of a key version may change in a step at \<open>t\<close> that ends in \<open>d'\<close>: a version once shut stays
  shut, a drain is recorded with the time of the step, and a version is retired only after the
  removal window and when it has no result left.
\<close>

definition row_step :: "int \<Rightarrow> string \<Rightarrow> 'u idem_db \<Rightarrow> key_version_row \<Rightarrow> key_version_row \<Rightarrow> bool" where
  "row_step t v d' row row' \<longleftrightarrow>
     (ky_write_disabled_epoch row \<noteq> None \<longrightarrow> ky_write_disabled_epoch row' = ky_write_disabled_epoch row)
     \<and> (ky_drain_completed_epoch row' = ky_drain_completed_epoch row
        \<or> ky_drain_completed_epoch row = None \<and> ky_drain_completed_epoch row' = Some t \<and> ky_write_disabled_epoch row \<noteq> None)
     \<and> (ky_retired_epoch row' = ky_retired_epoch row
        \<or> ky_retired_epoch row = None \<and> ky_write_disabled_epoch row \<noteq> None \<and> rows_of_version v d' = []
          \<and> (\<exists>e c. ky_drain_completed_epoch row = Some e \<and> ky_retired_epoch row' = Some c
               \<and> e + IDEMPOTENCY_REMOVAL_WINDOW_SECONDS \<le> c))"

definition unused_row :: "key_version_row \<Rightarrow> bool" where
  "unused_row row \<longleftrightarrow>
     ky_write_disabled_epoch row = None \<and> ky_drain_completed_epoch row = None \<and> ky_retired_epoch row = None"

text \<open>A result that is new at \<open>t\<close>, under an open version.\<close>

definition new_result :: "int \<Rightarrow> 'u idem_db \<Rightarrow> CompletedResultRecord \<Rightarrow> bool" where
  "new_result t d r \<longleftrightarrow>
     cr_created_at_epoch r = t \<and> cr_expires_at_epoch r \<le> t + 86400
     \<and> (\<exists>row. dict_get (id_versions d) (cr_cipher_key_version r) = Some row
          \<and> ky_write_disabled_epoch row = None \<and> ky_retired_epoch row = None)"

definition registry_step :: "int \<Rightarrow> 'u idem_db \<Rightarrow> 'u idem_db \<Rightarrow> bool" where
  "registry_step t d d' \<longleftrightarrow>
     (\<forall>v row. dict_get (id_versions d) v = Some row \<longrightarrow>
        (\<exists>row'. dict_get (id_versions d') v = Some row' \<and> row_step t v d' row row'))
     \<and> (\<forall>v row'. dict_get (id_versions d') v = Some row' \<longrightarrow> dict_get (id_versions d) v = None \<longrightarrow> unused_row row')
     \<and> (\<forall>(k, r)\<in>set (id_results d'). (k, r) \<in> set (id_results d) \<or> new_result t d' r)
     \<and> (dict_wf (id_versions d) \<longrightarrow> dict_wf (id_versions d')) \<and> (dict_wf (id_results d) \<longrightarrow> dict_wf (id_results d'))"

lemma row_step_refl: "row_step t v d' row row"
  by (simp add: row_step_def)

lemma row_step_slots:
  "row_step t v d' row row' \<Longrightarrow>
     row_step t v d' row (row'\<lparr>ky_reserved_encryption_slots := n, ky_soft_limit_reported_epoch := e\<rparr>)"
  by (simp add: row_step_def)

lemma registry_step_results:
  assumes "id_versions d' = id_versions d" "\<forall>(k, r)\<in>set (id_results d'). (k, r) \<in> set (id_results d) \<or> new_result t d' r"
    "dict_wf (id_results d) \<longrightarrow> dict_wf (id_results d')"
  shows "registry_step t d d'"
  using assms by (auto simp: registry_step_def intro: row_step_refl)

lemma registry_step_row:
  assumes "dict_get (id_versions d) v = Some row" "row_step t v d' row row'"
    "id_versions d' = dict_set v row' (id_versions d)" "set (id_results d') \<subseteq> set (id_results d)"
    "dict_wf (id_results d) \<longrightarrow> dict_wf (id_results d')"
  shows "registry_step t d d'"
  using assms row_step_refl by (fastforce simp: registry_step_def)

lemma registry_step_refl: "registry_step t d d"
  by (rule registry_step_results) auto

lemma write_disable_registry:
  assumes "write_disable version reason t d = Inr d'"
  shows "registry_step t' d d'"
proof (cases "d' = d")
  case False
  then obtain row where row: "dict_get (id_versions d) version = Some row"
    "d' = d\<lparr>id_versions := dict_set version (write_disable_row reason t row) (id_versions d)\<rparr>"
    using assms by (auto simp: write_disable_def split: option.splits if_splits)
  show ?thesis
    by (rule registry_step_row [OF row(1), where row' = "write_disable_row reason t row"])
      (auto simp: row(2) row_step_def write_disable_row_def)
qed (simp add: registry_step_refl)

lemma disable_and_fail_registry: "disable_and_fail version reason t d = (r, d') \<Longrightarrow> registry_step t' d d'"
  by (auto simp: disable_and_fail_def intro: write_disable_registry registry_step_results split: sum.splits)

lemma reserve_nonce_registry:
  assumes "reserve_nonce keyring nonce i t d = (r, d')"
  shows "registry_step t' d d'"
  using assms
proof (cases rule: reserve_nonce_cases)
  case 1
  then show ?thesis by (auto intro: registry_step_results)
next
  case (2 version reason)
  then show ?thesis by (rule disable_and_fail_registry)
next
  case (3 version v row soft)
  show ?thesis by (rule registry_step_row [OF 3(1)], rule row_step_refl [THEN row_step_slots], simp_all add: 3)
qed

lemma register_versions_registry:
  "register_versions ks t versions = Inr versions' \<Longrightarrow>
     (\<forall>v row. dict_get versions v = Some row \<longrightarrow> dict_get versions' v = Some row)
     \<and> (\<forall>v row. dict_get versions' v = Some row \<longrightarrow> dict_get versions v = None \<longrightarrow> unused_row row)
     \<and> (dict_wf versions \<longrightarrow> dict_wf versions')"
proof (induction ks t versions rule: register_versions.induct)
  case (2 k ks t versions)
  let ?v1 = "insert_key_version (kv_version k) (kv_commitment k) t versions"
  have first: "dict_get versions v = Some row \<Longrightarrow> dict_get ?v1 v = Some row"
    "dict_get ?v1 v = Some row \<Longrightarrow> dict_get versions v = None \<Longrightarrow> unused_row row"
    "dict_wf versions \<Longrightarrow> dict_wf ?v1" for v row
    by (auto simp: insert_key_version_def fresh_key_version_def unused_row_def split: if_splits)
  have rest: "(\<forall>v row. dict_get ?v1 v = Some row \<longrightarrow> dict_get versions' v = Some row)
     \<and> (\<forall>v row. dict_get versions' v = Some row \<longrightarrow> dict_get ?v1 v = None \<longrightarrow> unused_row row)
     \<and> (dict_wf ?v1 \<longrightarrow> dict_wf versions')"
    using 2 by (auto simp: Let_def split: option.splits if_splits)
  have "unused_row row" if "dict_get versions' v = Some row" "dict_get versions v = None" for v row
    using that rest first(2) by (cases "dict_get ?v1 v") force+
  then show ?case using first(1,3) rest by blast
qed simp

lemma register_keyring_registry: "register_keyring keyring t d = Inr d' \<Longrightarrow> registry_step t' d d'"
proof (cases keyring)
  case (Some ring)
  assume "register_keyring keyring t d = Inr d'"
  then obtain vs where vs: "register_versions (kr_decryption_keys ring) t (id_versions d) = Inr vs" "d' = d\<lparr>id_versions := vs\<rparr>"
    by (auto simp: register_keyring_def Some split: sum.splits)
  then show ?thesis using register_versions_registry [OF vs(1)] by (auto simp: registry_step_def intro: row_step_refl)
qed (auto simp: register_keyring_def intro: registry_step_results)

lemma gc_rows_subset:
  "gc_rows cipher keyring t rows d = Inr d' \<Longrightarrow>
     set (id_results d') \<subseteq> set (id_results d) \<and> (dict_wf (id_results d) \<longrightarrow> dict_wf (id_results d'))"
proof (induction cipher keyring t rows d rule: gc_rows.induct)
  case (2 cipher keyring t w p o' k r rows d)
  have "set (id_results (delete_sqlite_result j d)) \<subseteq> set (id_results d)
      \<and> (dict_wf (id_results d) \<longrightarrow> dict_wf (id_results (delete_sqlite_result j d)))" for j
    by (auto simp: delete_sqlite_result_def)
  with 2 show ?case by (fastforce simp: Let_def split: sum.splits IdempotencyLookupResult.splits)
qed simp

lemma gc_registry: "gc_sqlite_results cipher keyring limit t d = (r, d') \<Longrightarrow> registry_step t' d d'"
  using gc_nonces [of cipher keyring limit t d r d']
  by (auto simp: gc_sqlite_results_def Let_def dest: gc_rows_subset intro!: registry_step_results split: if_splits sum.splits)

lemma terminal_expiry_bound: "terminal_expiry_epoch i t limit \<le> t + 86400"
  by (auto simp: terminal_expiry_epoch_def Let_def split: option.splits)

lemma complete_registry:
  assumes "complete_sqlite_result cipher keyring i res m t commit d = (r, d')"
  shows "registry_step t d d'"
proof (cases "d' = d")
  case False
  obtain response where c: "complete_in_transaction cipher keyring i res m t d = Inr (response, d')"
    using assms False by (auto simp: complete_sqlite_result_def split: sum.splits option.splits if_splits)
  have opened: "\<exists>row. dict_get (id_versions d) (rs_version res) = Some row
      \<and> ky_write_disabled_epoch row = None \<and> ky_retired_epoch row = None"
    using c find_first_Some [of "reservation_row res i" "id_nonces d"]
    by (auto simp: complete_in_transaction_def require_sqlite_reservation_authentic_def reservation_row_def
        split: sum.splits option.splits if_splits)
  have vs: "id_versions d' = id_versions d" by (rule completes_nonces [OF complete_in_transaction_completes [OF c]])
  have "(k, r) \<in> set (id_results d) \<or> new_result t d' r" if "(k, r) \<in> set (id_results d')" for k r
    using complete_in_transaction_completes [OF c]
  proof cases
    case (cached out u e env)
    then obtain ring where "keyring = Some ring" by (cases keyring) (auto simp: encrypt_outcome_def)
    then have "en_version env = rs_version res" using cached by (auto elim: encrypt_outcome_cases)
    then have "new_result t d' (stored_row i out env t e)"
      using opened cached terminal_expiry_bound by (simp add: new_result_def vs) (simp add: stored_row_def)
    moreover have "id_results d' = others (result_identity i) d @ [(result_identity i, stored_row i out env t e)]"
      using cached by (simp add: dict_set_fresh)
    ultimately show ?thesis using that by (auto simp: others_def)
  qed (use that in \<open>auto simp: others_def\<close>)
  moreover have "dict_wf (id_results d) \<longrightarrow> dict_wf (id_results d')"
    using completes_wf [OF complete_in_transaction_completes [OF c]] by blast
  ultimately show ?thesis by (intro registry_step_results [OF vs]) blast+
qed (auto intro: registry_step_results)

lemma call_registry:
  assumes "call_effect cipher ring d call d'" "call_reads t call"
  shows "registry_step t d d'"
  using assms
proof (induction rule: call_effect.induct)
  case (retired version row e e' clock request results)
  let ?d = "set_version version (row\<lparr>ky_retired_epoch := Some (clock 2)\<rparr>) (d\<lparr>id_results := results\<rparr>)"
  have "rows_of_version version ?d = []"
    using retired by (auto simp: rows_of_version_def set_version_def filter_empty_conv) force
  then show ?case using retired by (intro registry_step_row [OF retired(1)]) (auto simp: row_step_def set_version_def)
next
  case (probed nonce t' r d' version)
  then show ?case by (auto intro: reserve_nonce_registry)
next
  case (disabled version row t' reason)
  then show ?case by (intro registry_step_row [OF disabled(1)]) (auto simp: row_step_def set_version_def)
next
  case (drained version row e t' ok)
  then show ?case by (intro registry_step_row [OF drained(1)]) (auto simp: row_step_def set_version_def)
qed (rule registry_step_refl)

lemma store_step_registry:
  assumes "store_step cipher t s s'"
  shows "registry_step t (rn_db s) (rn_db s')"
  using assms
proof (induction rule: store_step.induct)
  case (step_claim i res d)
  then show ?case
    by (auto simp: claim_step_def claim_sqlite_reservation_def Let_def intro!: registry_step_results
        split: sum.splits if_splits)
qed (auto intro: reserve_nonce_registry complete_registry gc_registry write_disable_registry register_keyring_registry
    call_registry lifecycle_call_effect registry_step_results)

subsection \<open>Invariants\<close>

definition results_at :: "'u idem_db \<Rightarrow> string \<Rightarrow> CompletedResultRecord \<Rightarrow> bool" where
  "results_at d v r \<longleftrightarrow> (\<exists>k. (k, r) \<in> set (id_results d)) \<and> cr_cipher_key_version r = v"

text \<open>Drained versions are shut, retired ones were drained a removal window ago and have no results.\<close>

definition registry_ok :: "'u idem_db \<Rightarrow> bool" where
  "registry_ok d \<longleftrightarrow>
     (\<forall>v row. dict_get (id_versions d) v = Some row \<longrightarrow>
        (ky_drain_completed_epoch row \<noteq> None \<longrightarrow> ky_write_disabled_epoch row \<noteq> None)
        \<and> (\<forall>c. ky_retired_epoch row = Some c \<longrightarrow>
             (\<exists>e. ky_drain_completed_epoch row = Some e \<and> e + IDEMPOTENCY_REMOVAL_WINDOW_SECONDS \<le> c)))
     \<and> (\<forall>v r. results_at d v r \<longrightarrow> (\<exists>row. dict_get (id_versions d) v = Some row \<and> ky_retired_epoch row = None))"

lemma rows_of_version_empty: "rows_of_version v d = [] \<longleftrightarrow> (\<forall>r. \<not> results_at d v r)"
  by (fastforce simp: rows_of_version_def results_at_def filter_empty_conv)

lemma registry_step_result:
  assumes "registry_step t d d'" "results_at d' v r"
  obtains "results_at d v r" | "new_result t d' r"
  using assms by (fastforce simp: registry_step_def results_at_def)

lemma registry_step_keeps_version:
  assumes "registry_step t d d'" "dict_get (id_versions d) v = Some row"
  obtains row' where "dict_get (id_versions d') v = Some row'" "row_step t v d' row row'"
  using assms unfolding registry_step_def by blast

lemma registry_step_row_cases:
  assumes "registry_step t d d'" "dict_get (id_versions d') v = Some row'"
  obtains (unused) "unused_row row'" | (old) row where "dict_get (id_versions d) v = Some row" "row_step t v d' row row'"
  using assms by (cases "dict_get (id_versions d) v") (force simp: registry_step_def)+

lemma registry_step_ok:
  assumes step: "registry_step t d d'" and ok: "registry_ok d"
  shows "registry_ok d'"
  unfolding registry_ok_def
proof (intro conjI allI impI)
  fix v row' assume row': "dict_get (id_versions d') v = Some row'"
  show "ky_write_disabled_epoch row' \<noteq> None" if "ky_drain_completed_epoch row' \<noteq> None"
    using step row'
  proof (cases rule: registry_step_row_cases)
    case (old row)
    then show ?thesis using ok that by (auto simp: registry_ok_def row_step_def)
  qed (use that in \<open>simp add: unused_row_def\<close>)
  show "\<exists>e. ky_drain_completed_epoch row' = Some e \<and> e + IDEMPOTENCY_REMOVAL_WINDOW_SECONDS \<le> c"
    if "ky_retired_epoch row' = Some c" for c
    using step row'
  proof (cases rule: registry_step_row_cases)
    case (old row)
    then show ?thesis using ok that by (fastforce simp: registry_ok_def row_step_def)
  qed (use that in \<open>simp add: unused_row_def\<close>)
next
  fix v r assume r: "results_at d' v r"
  with step show "\<exists>row. dict_get (id_versions d') v = Some row \<and> ky_retired_epoch row = None"
  proof (cases rule: registry_step_result)
    case 1
    then obtain row where row: "dict_get (id_versions d) v = Some row" "ky_retired_epoch row = None"
      using ok by (auto simp: registry_ok_def)
    then obtain row' where row': "dict_get (id_versions d') v = Some row'" "row_step t v d' row row'"
      using registry_step_keeps_version [OF step] by blast
    then have "ky_retired_epoch row' = None" using row r by (auto simp: row_step_def rows_of_version_empty)
    with row' show ?thesis by blast
  qed (use r in \<open>auto simp: new_result_def results_at_def\<close>)
qed

lemma store_run_registry_ok:
  "store_run cipher bound s s' \<Longrightarrow> registry_ok (rn_db s) \<and> dict_wf (id_versions (rn_db s)) \<Longrightarrow>
     registry_ok (rn_db s') \<and> dict_wf (id_versions (rn_db s'))"
proof (induction rule: store_run.induct)
  case (run_step s s' t s'')
  note step = store_step_registry [OF run_step(2)]
  then show ?case using run_step registry_step_ok [OF step] by (simp add: registry_step_def)
qed simp

subsection \<open>Time\<close>

text \<open>Runs whose clock readings do not go back; they end at the time of their last step.\<close>

inductive timed_run :: "aead \<Rightarrow> 'u idem_run \<Rightarrow> int \<Rightarrow> 'u idem_run \<Rightarrow> bool" for cipher s where
  timed_start: "timed_run cipher s t s"
| timed_step: "timed_run cipher s t s' \<Longrightarrow> store_step cipher t' s' s'' \<Longrightarrow> t \<le> t' \<Longrightarrow> timed_run cipher s t' s''"

text \<open>Results are no older than the time, live a day at most, and precede the drain of their version.\<close>

definition timed_ok :: "int \<Rightarrow> 'u idem_db \<Rightarrow> bool" where
  "timed_ok t d \<longleftrightarrow>
     registry_ok d \<and> dict_wf (id_results d)
     \<and> (\<forall>v r. results_at d v r \<longrightarrow>
          cr_created_at_epoch r \<le> t \<and> cr_expires_at_epoch r \<le> cr_created_at_epoch r + 86400
          \<and> (\<forall>row e. dict_get (id_versions d) v = Some row \<longrightarrow> ky_drain_completed_epoch row = Some e \<longrightarrow>
                 cr_created_at_epoch r \<le> e))"

lemma timed_step_ok:
  assumes step: "registry_step t' d d'" and ok: "timed_ok t d" and le: "t \<le> t'"
  shows "timed_ok t' d'"
proof -
  have reg: "registry_ok d'" using registry_step_ok [OF step] ok by (simp add: timed_ok_def)
  have "cr_created_at_epoch r \<le> t' \<and> cr_expires_at_epoch r \<le> cr_created_at_epoch r + 86400
      \<and> (\<forall>row e. dict_get (id_versions d') v = Some row \<longrightarrow> ky_drain_completed_epoch row = Some e \<longrightarrow>
                 cr_created_at_epoch r \<le> e)"
    if r: "results_at d' v r" for v r
    using step r
  proof (cases rule: registry_step_result)
    case 1
    then have created: "cr_created_at_epoch r \<le> t" "cr_expires_at_epoch r \<le> cr_created_at_epoch r + 86400"
      using ok by (auto simp: timed_ok_def)
    obtain row where row: "dict_get (id_versions d) v = Some row"
      using 1 ok by (auto simp: timed_ok_def registry_ok_def)
    obtain row' where row': "dict_get (id_versions d') v = Some row'" "row_step t' v d' row row'"
      using registry_step_keeps_version [OF step row] by blast
    have "cr_created_at_epoch r \<le> e" if "ky_drain_completed_epoch row' = Some e" for e
      using row'(2) that 1 row ok created(1) le by (fastforce simp: row_step_def timed_ok_def)
    then show ?thesis using created le row'(1) by auto
  next
    case 2
    then obtain row where row: "dict_get (id_versions d') v = Some row" "ky_write_disabled_epoch row = None"
      using r by (auto simp: new_result_def results_at_def)
    then have "ky_drain_completed_epoch row = None" using reg unfolding registry_ok_def by blast
    with row 2 show ?thesis by (simp add: new_result_def)
  qed
  moreover have "dict_wf (id_results d')" using step ok by (simp add: registry_step_def timed_ok_def)
  ultimately show ?thesis using reg by (auto simp: timed_ok_def)
qed

lemma timed_run_ok: "timed_run cipher s t s' \<Longrightarrow> (\<And>t. timed_ok t (rn_db s)) \<Longrightarrow> timed_ok t (rn_db s')"
  by (induction rule: timed_run.induct) (auto intro: timed_step_ok store_step_registry)

subsection \<open>A keyring fits the store\<close>

definition empty_run :: "'u \<Rightarrow> lock_files \<Rightarrow> 'u idem_run" where
  "empty_run u f =
     \<lparr>rn_db = \<lparr>id_versions = [], id_nonces = [], id_results = [], id_user = u\<rparr>, rn_claimed = [], rn_handed = [],
      rn_locks = f\<rparr>"

lemma empty_run_ok:
  "run_ok (empty_run u f)" "registry_ok (rn_db (empty_run u f))" "dict_wf (id_versions (rn_db (empty_run u f)))"
  "timed_ok t (rn_db (empty_run u f))"
  by (simp_all add: empty_run_def run_ok_def ledger_ok_def uses_def result_nonces_def version_nonces_def
      HARD_SLOT_LIMIT_def registry_ok_def timed_ok_def results_at_def)

lemma readiness_lookup:
  assumes "dict_wf vs"
  shows "dict_get (rev (map (\<lambda>s. (rd_version s, s)) (map (readiness_state exact d) (sort_key fst vs)))) v
    = map_option (\<lambda>row. readiness_state exact d (v, row)) (dict_get vs v)"
proof -
  let ?f = "\<lambda>x. (fst x, readiness_state exact d x)"
  have "rd_version (readiness_state exact d x) = fst x" for x by (simp add: readiness_state_def)
  then have m: "map (\<lambda>s. (rd_version s, s)) (map (readiness_state exact d) xs) = map ?f xs" for xs by simp
  have "mset (map fst (sort_key fst vs)) = mset (map fst vs)" by simp
  then have d: "distinct (map fst (sort_key fst vs))"
    using assms by (metis dict_wf_def mset_eq_imp_distinct_iff)
  have "map_of (rev (map ?f (sort_key fst vs))) = map_of (map ?f vs)"
    using d assms by (subst map_of_inject_set) (simp_all add: dict_wf_def comp_def rev_map [symmetric])
  moreover have "map_of (map ?f vs) v = map_option (\<lambda>row. readiness_state exact d (v, row)) (map_of vs v)"
    by (induction vs) auto
  ultimately show ?thesis by (simp only: m)
qed

lemma readiness_counters:
  assumes "ledger_ok d" "dict_wf (id_versions d)"
  shows "\<not> list_ex (\<lambda>s. rd_reserved_encryption_slots s \<noteq> rd_nonce_count s
           \<or> \<not> (0 \<le> rd_reserved_encryption_slots s \<and> rd_reserved_encryption_slots s \<le> 2 ^ 24))
         (map (readiness_state exact d) (sort_key fst (id_versions d)))"
proof -
  have "ky_reserved_encryption_slots row = nonce_count v d \<and> nonce_count v d \<le> 2 ^ 24" if "(v, row) \<in> set (id_versions d)" for v row
    using assms that by (simp add: ledger_ok_def nonce_count_def version_nonces_def HARD_SLOT_LIMIT_def dict_get_iff_mem)
  moreover have "0 \<le> nonce_count v d" for v by (simp add: nonce_count_def)
  ultimately show ?thesis unfolding list_ex_iff by (auto simp: readiness_state_def)
qed

definition keyring_mismatch :: "IdempotencyKeyring \<Rightarrow> 'u idem_db \<Rightarrow> bool" where
  "keyring_mismatch ring d \<longleftrightarrow>
     (\<exists>(k, r)\<in>set (id_results d). cr_cipher_key_version r \<notin> kv_version ` set (kr_decryption_keys ring))
     \<or> (\<exists>(v, row)\<in>set (id_versions d). \<exists>key\<in>set (kr_decryption_keys ring).
           (v = kv_version key) \<noteq> (ky_commitment row = kv_commitment key))"

lemma validate_mismatch:
  "validate_startup_compatibility (Some ring) (map (\<lambda>(v, row). (v, ky_commitment row)) (sort_key fst (id_versions d)))
     (sort (remdups (map cr_cipher_key_version (dict_values (id_results d)))))
   = (if keyring_mismatch ring d then Inl IdempotencyKeyringConfigError else Inr True)"
  by (simp add: validate_startup_compatibility_def keyring_mismatch_def list_ex_iff registration_fits_def case_prod_unfold)

lemma sqlite_ready:
  assumes "ledger_ok d" "dict_wf (id_versions d)" "registry_ok d" "kr_active_key ring \<in> set (kr_decryption_keys ring)"
  shows "sqlite_idempotency_ready (Some ring) exact d =
    (if keyring_mismatch ring d then Inl IdempotencyKeyringConfigError
     else Inr (case dict_get (id_versions d) (active_version ring) of
                 None \<Rightarrow> id_versions d = []
               | Some row \<Rightarrow> ky_write_disabled_epoch row = None \<and> ky_retired_epoch row = None))"
proof (cases "keyring_mismatch ring d")
  case False
  let ?required = "set (map cr_cipher_key_version (dict_values (id_results d)))"
  let ?labels = "kv_version ` set (kr_decryption_keys ring)"
  have sub: "?required \<subseteq> ?labels" using False by (force simp: keyring_mismatch_def)
  have active: "active_version ring \<in> ?labels" using assms(4) by (simp add: active_version_def)
  have live: "\<not> (\<exists>v\<in>?required. case map_option (\<lambda>row. readiness_state exact d (v, row)) (dict_get (id_versions d) v) of
      None \<Rightarrow> False | Some s \<Rightarrow> rd_retired s)"
  proof
    assume "\<exists>v\<in>?required. case map_option (\<lambda>row. readiness_state exact d (v, row)) (dict_get (id_versions d) v) of
      None \<Rightarrow> False | Some s \<Rightarrow> rd_retired s"
    then obtain v where v: "v \<in> ?required"
      "case map_option (\<lambda>row. readiness_state exact d (v, row)) (dict_get (id_versions d) v) of
         None \<Rightarrow> False | Some s \<Rightarrow> rd_retired s" by blast
    obtain r where "results_at d v r" using v(1) by (fastforce simp: results_at_def)
    then show False using assms(3) v(2) by (auto simp: registry_ok_def readiness_state_def)
  qed
  have counters: "list_ex (\<lambda>s. rd_reserved_encryption_slots s \<noteq> rd_nonce_count s
      \<or> \<not> (0 \<le> rd_reserved_encryption_slots s \<and> rd_reserved_encryption_slots s \<le> 2 ^ 24))
      (map (readiness_state exact d) (sort_key fst (id_versions d))) = False"
    using readiness_counters [OF assms(1,2)] by blast
  have ne: "(?labels = {}) = False" using active by auto
  have nil: "sort_key fst (id_versions d) = [] \<longleftrightarrow> id_versions d = []" by (metis length_0_conv length_sort)
  have "idempotency_readiness ?labels ?required (Some (active_version ring))
      (map (readiness_state exact d) (sort_key fst (id_versions d))) False
    = (case dict_get (id_versions d) (active_version ring) of
         None \<Rightarrow> id_versions d = []
       | Some row \<Rightarrow> ky_write_disabled_epoch row = None \<and> ky_retired_epoch row = None)"
    unfolding idempotency_readiness_def Let_def readiness_lookup [OF assms(2)] counters ne
    using sub active live
    by (cases "dict_get (id_versions d) (active_version ring)")
      (simp_all only: simp_thms if_True if_False option.case option.map, auto simp: readiness_state_def nil)
  then show ?thesis
    using False unfolding sqlite_idempotency_ready_def evaluate_readiness_def Let_def validate_mismatch by (simp only: if_False sum.case option.case set_sort set_remdups)
qed (simp only: sqlite_idempotency_ready_def evaluate_readiness_def validate_mismatch Let_def if_True sum.case)

text \<open>
  (C15) However executions, collections, rotations and retirements interleave from an
  empty store on, every stored result is sealed under a registered version that is not retired, and
  a version is retired only when it was shut for writing and its drain is 86,700 seconds old. So
  the key of a retired version is not needed. A service is refused when its keyring lacks the version of a stored result or disagrees with a
  registered commitment, and otherwise is ready exactly when its active version is open for writing (or no version is
  registered at all);
  the checks of the counters and of retired versions never fail.
\<close>

theorem retired_versions_hold_no_results:
  assumes "store_run cipher bound (empty_run u f) s" and "kr_active_key ring \<in> set (kr_decryption_keys ring)"
  shows "(\<forall>(k, r)\<in>set (id_results (rn_db s)).
            \<exists>row. dict_get (id_versions (rn_db s)) (cr_cipher_key_version r) = Some row \<and> ky_retired_epoch row = None)
         \<and> (\<forall>v row c. dict_get (id_versions (rn_db s)) v = Some row \<and> ky_retired_epoch row = Some c \<longrightarrow>
              ky_write_disabled_epoch row \<noteq> None \<and> (\<exists>e. ky_drain_completed_epoch row = Some e \<and> e + 86700 \<le> c))
         \<and> sqlite_idempotency_ready (Some ring) exact (rn_db s) =
             (if keyring_mismatch ring (rn_db s) then Inl IdempotencyKeyringConfigError
              else Inr (case dict_get (id_versions (rn_db s)) (active_version ring) of
                          None \<Rightarrow> id_versions (rn_db s) = []
                        | Some row \<Rightarrow> ky_write_disabled_epoch row = None \<and> ky_retired_epoch row = None))"
proof -
  have reg: "registry_ok (rn_db s)" "dict_wf (id_versions (rn_db s))"
    using store_run_registry_ok [OF assms(1)] by (simp_all add: empty_run_ok)
  have led: "ledger_ok (rn_db s)" using store_run_ok [OF assms(1) empty_run_ok(1)] by (simp add: run_ok_def)
  have "\<forall>(k, r)\<in>set (id_results (rn_db s)).
      \<exists>row. dict_get (id_versions (rn_db s)) (cr_cipher_key_version r) = Some row \<and> ky_retired_epoch row = None"
    using reg(1) unfolding registry_ok_def results_at_def by blast
  moreover have "\<forall>v row c. dict_get (id_versions (rn_db s)) v = Some row \<and> ky_retired_epoch row = Some c \<longrightarrow>
      ky_write_disabled_epoch row \<noteq> None \<and> (\<exists>e. ky_drain_completed_epoch row = Some e \<and> e + 86700 \<le> c)"
    using reg(1) by (fastforce simp: registry_ok_def IDEMPOTENCY_REMOVAL_WINDOW_SECONDS_def)
  ultimately show ?thesis using sqlite_ready [OF led reg(2,1) assms(2)] by blast
qed

subsection \<open>The removal window is enough\<close>

lemma retire_rows_opened:
  "\<forall>(k, r)\<in>set rows. \<exists>p. authenticate_completed_result cipher (parse_completed_result_row k r) r (Some ring) = Inr p \<Longrightarrow>
     \<exists>d'. retire_rows cipher ring rows d = Inr d'"
  by (induction cipher ring rows d rule: retire_rows.induct) (auto simp: Let_def split: sum.splits)

lemma drained_results_expired:
  assumes "timed_ok t d" "dict_get (id_versions d) v = Some row" "ky_drain_completed_epoch row = Some e"
    "e + IDEMPOTENCY_REMOVAL_WINDOW_SECONDS \<le> t'"
  shows "\<not> list_ex (\<lambda>(_, r). cr_expires_at_epoch r > t') (rows_of_version v d)"
proof -
  have "cr_expires_at_epoch r \<le> t'" if "results_at d v r" for r
    using assms that by (fastforce simp: timed_ok_def IDEMPOTENCY_REMOVAL_WINDOW_SECONDS_def)
  then show ?thesis by (force simp: list_ex_iff rows_of_version_def results_at_def)
qed

lemma retire_lifecycle_version_succeeds:
  assumes ok: "timed_ok t d" and row: "dict_get (id_versions d) version = Some row" "ky_write_disabled_epoch row \<noteq> None"
    "ky_drain_completed_epoch row = Some e" "ky_retired_epoch row = None"
    and window: "e + IDEMPOTENCY_REMOVAL_WINDOW_SECONDS \<le> t1" "e + IDEMPOTENCY_REMOVAL_WINDOW_SECONDS \<le> t2"
    and active: "dict_get (id_versions d) a = Some arow" "ky_write_disabled_epoch arow = None" "ky_retired_epoch arow = None"
    and opened: "\<forall>(k, r)\<in>set (rows_of_version version d).
      \<exists>p. authenticate_completed_result cipher (parse_completed_result_row k r) r (Some ring) = Inr p"
  shows "retire_lifecycle_version cipher ring version a t1 t2 d =
    (Inr (), d\<lparr>id_versions := dict_set version (row\<lparr>ky_retired_epoch := Some t2\<rparr>) (id_versions d),
                id_results := without_version version (id_results d)\<rparr>)"
proof -
  let ?d1 = "d\<lparr>id_results := without_version version (id_results d)\<rparr>"
  have wf: "dict_wf (id_results d)" using ok by (simp add: timed_ok_def)
  obtain d1 where d1: "retire_rows cipher ring (rows_of_version version d) d = Inr d1"
    using retire_rows_opened [OF opened] by blast
  have rows: "retire_rows cipher ring (rows_of_version version d) d = Inr ?d1"
    using d1 retire_rows_Inr [OF d1] by (simp add: keys_of_version [OF wf])
  have "rows_of_version version ?d1 = []" by (simp add: rows_of_version_def without_version_def filter_empty_conv case_prod_unfold)
  then have "update_retired version a t2 ?d1 =
      Some (?d1\<lparr>id_versions := dict_set version (row\<lparr>ky_retired_epoch := Some t2\<rparr>) (id_versions d)\<rparr>)"
    using row active window(2) by (simp add: update_retired_def set_version_def coalesce_def)
  then show ?thesis
    using drained_results_expired [OF ok row(1,3) window(1)] rows by (simp add: retire_lifecycle_version_def Let_def)
qed

lemma acquired_lock_works: "acquire_exclusive version False f = (Inr (), f') \<Longrightarrow> \<not> lf_broken f'"
  by (auto simp: acquire_exclusive_def open_verified_carrier_def Let_def split: prod.splits sum.splits option.splits if_splits)

lemma retire_rows_opens:
  "retire_rows cipher ring rows d = Inr d' \<Longrightarrow>
     \<forall>(k, r)\<in>set rows. \<exists>p. authenticate_completed_result cipher (parse_completed_result_row k r) r (Some ring) = Inr p"
  by (induction cipher ring rows d rule: retire_rows.induct) (auto simp: Let_def split: sum.splits)

text \<open>What a retirement needs of the database: another version to write under, and results the keyring opens.\<close>

definition open_for_writing :: "string \<Rightarrow> 'u idem_db \<Rightarrow> bool" where
  "open_for_writing version d \<longleftrightarrow>
     (case dict_get (id_versions d) version of
        None \<Rightarrow> False
      | Some row \<Rightarrow> ky_write_disabled_epoch row = None \<and> ky_retired_epoch row = None)"

definition results_open :: "aead \<Rightarrow> IdempotencyKeyring \<Rightarrow> string \<Rightarrow> 'u idem_db \<Rightarrow> bool" where
  "results_open cipher ring version d \<longleftrightarrow>
     (\<forall>(k, r)\<in>set (id_results d). cr_cipher_key_version r = version \<longrightarrow>
        (case authenticate_completed_result cipher (parse_completed_result_row k r) r (Some ring) of
           Inl _ \<Rightarrow> False | Inr _ \<Rightarrow> True))"

definition retired_db :: "string \<Rightarrow> key_version_row \<Rightarrow> int \<Rightarrow> 'u idem_db \<Rightarrow> 'u idem_db" where
  "retired_db version row now_epoch d =
     d\<lparr>id_versions := dict_set version (row\<lparr>ky_retired_epoch := Some now_epoch\<rparr>) (id_versions d),
       id_results := without_version version (id_results d)\<rparr>"

lemma Inr_case: "(case x of Inl _ \<Rightarrow> False | Inr _ \<Rightarrow> True) = (\<exists>p. x = Inr p)"
  by (cases x) simp_all

lemma results_open_rows:
  "results_open cipher ring version d \<longleftrightarrow>
     (\<forall>(k, r)\<in>set (rows_of_version version d).
        \<exists>p. authenticate_completed_result cipher (parse_completed_result_row k r) r (Some ring) = Inr p)"
  unfolding results_open_def rows_of_version_def Inr_case by auto

lemma retire_unopened:
  assumes expired: "\<not> list_ex (\<lambda>(_, r). cr_expires_at_epoch r > t1) (rows_of_version version d)"
    and unopened: "\<not> results_open cipher ring version d"
  shows "\<exists>x. retire_lifecycle_version cipher ring version a t1 t2 d = (Inl x, d)
    \<and> (\<forall>reason. x \<noteq> IdempotencyLifecycleRejected reason)"
proof -
  obtain x where "retire_rows cipher ring (rows_of_version version d) d = Inl x"
    using unopened retire_rows_opens unfolding results_open_rows
    by (cases "retire_rows cipher ring (rows_of_version version d) d") blast+
  then show ?thesis using expired by (cases x) (simp_all add: retire_lifecycle_version_def Let_def)
qed

lemma retire_body_drained:
  assumes ok: "timed_ok t d"
    and row: "dict_get (id_versions d) version = Some row" "ky_write_disabled_epoch row \<noteq> None"
      "ky_drain_completed_epoch row = Some e" "ky_retired_epoch row = None"
    and late: "\<forall>k. e + 86700 \<le> clock k"
  shows "open_for_writing (active_version ring) d \<Longrightarrow> results_open cipher ring version d \<Longrightarrow>
      retire_body cipher ring version clock d = (Inr (), retired_db version row (clock 2) d)"
    and "\<not> (open_for_writing (active_version ring) d \<and> results_open cipher ring version d) \<Longrightarrow>
      \<exists>x. retire_body cipher ring version clock d = (Inl x, d)
        \<and> x \<notin> {IdempotencyLifecycleRejected ''unexpired_results_remain'', IdempotencyLifecycleRejected ''removal_window_not_elapsed''}"
proof -
  have window: "e + IDEMPOTENCY_REMOVAL_WINDOW_SECONDS \<le> clock k" for k
    using late by (simp add: IDEMPOTENCY_REMOVAL_WINDOW_SECONDS_def)
  obtain c where c: "ky_write_disabled_epoch row = Some c" using row(2) by blast
  have body: "retire_body cipher ring version clock d =
      (case lifecycle_status ring (active_version ring) d of
         Inl e \<Rightarrow> (Inl e, d)
       | Inr active \<Rightarrow>
           if ls_write_disabled_epoch active \<noteq> None \<or> ls_retired_epoch active \<noteq> None
           then (Inl (IdempotencyLifecycleRejected ''active_replacement_unavailable''), d)
           else retire_lifecycle_version cipher ring version (active_version ring) (clock 1) (clock 2) d)"
    using window [of 0] row(1,3,4) c by (simp add: retire_body_def lifecycle_status_def not_less)
  show "retire_body cipher ring version clock d = (Inr (), retired_db version row (clock 2) d)"
    if op: "open_for_writing (active_version ring) d" and opened: "results_open cipher ring version d"
  proof -
    obtain arow where active: "dict_get (id_versions d) (active_version ring) = Some arow"
        "ky_write_disabled_epoch arow = None" "ky_retired_epoch arow = None"
      using op by (auto simp: open_for_writing_def split: option.splits)
    show ?thesis
      using retire_lifecycle_version_succeeds [OF ok row window window active opened [unfolded results_open_rows]] active
      unfolding body by (simp add: lifecycle_status_def retired_db_def)
  qed
  show "\<exists>x. retire_body cipher ring version clock d = (Inl x, d)
      \<and> x \<notin> {IdempotencyLifecycleRejected ''unexpired_results_remain'', IdempotencyLifecycleRejected ''removal_window_not_elapsed''}"
    if no: "\<not> (open_for_writing (active_version ring) d \<and> results_open cipher ring version d)"
  proof (cases "open_for_writing (active_version ring) d")
    case True
    then have "\<exists>x. retire_lifecycle_version cipher ring version (active_version ring) (clock 1) (clock 2) d = (Inl x, d)
        \<and> (\<forall>reason. x \<noteq> IdempotencyLifecycleRejected reason)"
      using no retire_unopened [OF drained_results_expired [OF ok row(1,3) window]] by blast
    then show ?thesis
      using True unfolding body by (auto simp: lifecycle_status_def open_for_writing_def split: option.splits)
  next
    case False
    then show ?thesis
      unfolding body by (auto simp: lifecycle_status_def open_for_writing_def split: option.splits)
  qed
qed

lemma acquire_never_rejects: "fst (acquire_exclusive version False f) \<noteq> Inl (IdempotencyLifecycleRejected reason)"
  by (auto simp: acquire_exclusive_def open_verified_carrier_def Let_def split: prod.splits sum.splits option.splits if_splits)

lemma exclusive_guard_body:
  "exclusive_guard version body f d =
     (case acquire_exclusive version False f of
        (Inl e, f') \<Rightarrow> (Inl e, f', d)
      | (Inr _, f') \<Rightarrow> (fst (body d), snd (release_exclusive version f'), snd (body d)))"
  using acquired_lock_works [of version f]
  by (auto simp: exclusive_guard_def release_exclusive_def split: prod.splits sum.splits)

lemma controller_retire_drained:
  assumes ok: "timed_ok t d"
    and row: "dict_get (id_versions d) version = Some row" "ky_write_disabled_epoch row \<noteq> None"
      "ky_drain_completed_epoch row = Some e" "ky_retired_epoch row = None"
    and late: "\<forall>k. e + 86700 \<le> clock k"
    and old: "version \<noteq> []" "version \<noteq> active_version ring"
    and run: "controller_retire cipher ring \<lparr>rq_version = version, rq_confirm_removal_window = True\<rparr> clock f d = (r, f', d')"
  shows "r = Inr () \<longleftrightarrow> fst (acquire_exclusive version False f) = Inr ()
      \<and> open_for_writing (active_version ring) d \<and> results_open cipher ring version d"
    and "d' = (if r = Inr () then retired_db version row (clock 2) d else d)"
    and "r \<notin> {Inl (IdempotencyLifecycleRejected ''unexpired_results_remain''),
           Inl (IdempotencyLifecycleRejected ''removal_window_not_elapsed'')}"
proof -
  have guard: "exclusive_guard version (retire_body cipher ring version clock) f d = (r, f', d')"
    using run old by (simp add: controller_retire_def require_old_version_def backend_retire_def)
  obtain l f1 where l: "acquire_exclusive version False f = (l, f1)" by fastforce
  have "(r = Inr () \<longleftrightarrow> l = Inr () \<and> open_for_writing (active_version ring) d \<and> results_open cipher ring version d)
      \<and> d' = (if r = Inr () then retired_db version row (clock 2) d else d)
      \<and> r \<notin> {Inl (IdempotencyLifecycleRejected ''unexpired_results_remain''),
             Inl (IdempotencyLifecycleRejected ''removal_window_not_elapsed'')}"
  proof (cases l)
    case (Inl x)
    then have "r = Inl x" "d' = d" using guard by (simp_all add: exclusive_guard_body l)
    then show ?thesis using Inl l acquire_never_rejects [of version f] by auto
  next
    case (Inr u)
    then have r: "r = fst (retire_body cipher ring version clock d)" "d' = snd (retire_body cipher ring version clock d)"
      using guard by (simp_all add: exclusive_guard_body l)
    note drained = retire_body_drained [OF ok row late, of ring cipher]
    show ?thesis
    proof (cases "open_for_writing (active_version ring) d \<and> results_open cipher ring version d")
      case True
      then show ?thesis using drained(1) Inr r by simp
    next
      case False
      then show ?thesis using drained(2) [OF False] r by auto
    qed
  qed
  then show "r = Inr () \<longleftrightarrow> fst (acquire_exclusive version False f) = Inr ()
      \<and> open_for_writing (active_version ring) d \<and> results_open cipher ring version d"
    and "d' = (if r = Inr () then retired_db version row (clock 2) d else d)"
    and "r \<notin> {Inl (IdempotencyLifecycleRejected ''unexpired_results_remain''),
           Inl (IdempotencyLifecycleRejected ''removal_window_not_elapsed'')}"
    by (simp_all add: l)
qed

text \<open>
  (C16) The removal window is enough. However executions and lifecycle calls interleave from an
  empty store on, with a clock that does not go back, once 86,700 seconds have passed since the drain of
  a version, no result under it is live any more. A confirmed retirement of that version, asked by a
  controller whose active version is another one, is then never refused for the window or for results that remain. It
  succeeds exactly when the exclusive writer lock of the version can be taken, the
  active version is open for writing and the keyring opens the version's stored results. Then the version is marked
  with the time of the update, its results are removed, and every other version, result and nonce stays. Otherwise
  the database is unchanged.
\<close>

theorem drained_versions_can_be_retired:
  assumes "timed_run cipher (empty_run u f) t s"
    and "dict_get (id_versions (rn_db s)) version = Some row" "ky_write_disabled_epoch row \<noteq> None"
    and "ky_drain_completed_epoch row = Some e" "ky_retired_epoch row = None"
    and "\<forall>k. e + 86700 \<le> clock k"
    and "version \<noteq> []" "version \<noteq> active_version ring"
    and "controller_retire cipher ring \<lparr>rq_version = version, rq_confirm_removal_window = True\<rparr> clock (rn_locks s) (rn_db s)
           = (outcome, f', d')"
  shows "(\<forall>(k, r)\<in>set (id_results (rn_db s)). cr_cipher_key_version r = version \<longrightarrow>
            cr_expires_at_epoch r \<le> e + 86400 \<and> (\<forall>k. cr_expires_at_epoch r < clock k))
         \<and> (outcome = Inr () \<longleftrightarrow>
              fst (acquire_exclusive version False (rn_locks s)) = Inr ()
              \<and> open_for_writing (active_version ring) (rn_db s) \<and> results_open cipher ring version (rn_db s))
         \<and> outcome \<notin> {Inl (IdempotencyLifecycleRejected ''unexpired_results_remain''),
                     Inl (IdempotencyLifecycleRejected ''removal_window_not_elapsed'')}
         \<and> d' = (if outcome = Inr ()
                then (rn_db s)\<lparr>id_versions := dict_set version (row\<lparr>ky_retired_epoch := Some (clock 2)\<rparr>) (id_versions (rn_db s)),
                        id_results := without_version version (id_results (rn_db s))\<rparr>
                else rn_db s)"
proof -
  have ok: "timed_ok t (rn_db s)" by (rule timed_run_ok [OF assms(1) empty_run_ok(4)])
  have life: "cr_expires_at_epoch r \<le> e + 86400" if "results_at (rn_db s) version r" for r
    using ok assms(2,4) that by (fastforce simp: timed_ok_def)
  have late: "e + 86400 < clock k" for k
  proof -
    have "e + 86700 \<le> clock k" using assms(6) by blast
    then show ?thesis by linarith
  qed
  have "cr_expires_at_epoch r \<le> e + 86400 \<and> (\<forall>k. cr_expires_at_epoch r < clock k)"
    if "results_at (rn_db s) version r" for r
    using life [OF that] late by (meson order_le_less_trans)
  then have "\<forall>(k, r)\<in>set (id_results (rn_db s)). cr_cipher_key_version r = version \<longrightarrow>
      cr_expires_at_epoch r \<le> e + 86400 \<and> (\<forall>k. cr_expires_at_epoch r < clock k)"
    unfolding results_at_def by blast
  then show ?thesis
    using controller_retire_drained [OF ok assms(2-9)] by (simp only: retired_db_def simp_thms)
qed

subsection \<open>Witnesses\<close>

text \<open>
  A rotation: a result is stored under \<^verbatim>\<open>k1\<close>, a keyring with \<^verbatim>\<open>k2\<close> as its active version takes over, \<^verbatim>\<open>k1\<close> is
  shut, drained and retired, and a keyring with \<^verbatim>\<open>k2\<close> alone is ready.
\<close>

definition example_next_key :: IdempotencyKeyVersion where
  "example_next_key = \<lparr>kv_version = ''k2'', kv_material = replicate 32 8, kv_commitment = replicate 32 2\<rparr>"

definition example_next_ring :: IdempotencyKeyring where
  "example_next_ring = \<lparr>kr_active_key = example_next_key, kr_decryption_keys = [example_key, example_next_key]\<rparr>"

definition example_last_ring :: IdempotencyKeyring where
  "example_last_ring = \<lparr>kr_active_key = example_next_key, kr_decryption_keys = [example_next_key]\<rparr>"

definition example_old_row :: key_version_row where
  "example_old_row =
     (fresh_key_version (replicate 32 1) 0)\<lparr>ky_reserved_encryption_slots := 1, ky_write_disabled_epoch := Some 300,
       ky_write_disabled_reason := Some ''rotation'', ky_drain_completed_epoch := Some 400\<rparr>"

definition example_drained_db :: "nat idem_db" where
  "example_drained_db =
     example_done_db\<lparr>id_versions := [(''k1'', example_old_row), (''k2'', fresh_key_version (replicate 32 2) 200)]\<rparr>"

lemmas example_rotation_defs =
  example_store_defs example_next_key_def example_next_ring_def example_old_row_def example_done_db_def
  example_claimed_db_def

lemma example_registers:
  "register_keyring (Some example_ring) 0 (rn_db (empty_run 0 example_locks)) = Inr example_empty_db"
  by (simp add: register_keyring_def empty_run_def insert_key_version_def is_version_label_def label_char_def
      example_rotation_defs Let_def)

lemma example_next_registers:
  "register_keyring (Some example_next_ring) 200 example_done_db
     = Inr (example_done_db\<lparr>id_versions := [(''k1'', (fresh_key_version (replicate 32 1) 0)\<lparr>ky_reserved_encryption_slots := 1\<rparr>),
         (''k2'', fresh_key_version (replicate 32 2) 200)]\<rparr>)"
  by (simp add: register_keyring_def insert_key_version_def is_version_label_def label_char_def
      example_rotation_defs Let_def)

definition example_shut_row :: key_version_row where
  "example_shut_row =
     (fresh_key_version (replicate 32 1) 0)\<lparr>ky_reserved_encryption_slots := 1, ky_write_disabled_epoch := Some 300,
       ky_write_disabled_reason := Some ''rotation''\<rparr>"

definition example_versions :: "key_version_row \<Rightarrow> nat idem_db" where
  "example_versions row =
     example_done_db\<lparr>id_versions := [(''k1'', row), (''k2'', fresh_key_version (replicate 32 2) 200)]\<rparr>"

definition example_lock_after :: lock_files where
  "example_lock_after =
     example_locks\<lparr>lf_carriers := [(version_lock_carrier ''k1'', hexdigest (version_lock_identity ''k1''))]\<rparr>"

lemma example_shuts:
  "lifecycle_run_call cipher example_next_ring (WriteDisable ''k1'' ''rotation'' 300) f
     (example_versions ((fresh_key_version (replicate 32 1) 0)\<lparr>ky_reserved_encryption_slots := 1\<rparr>))
   = (Inr (), f, example_versions example_shut_row)"
  by (simp add: controller_write_disable_def require_old_version_def active_version_def ROTATION_REASON_def
      backend_write_disable_def lifecycle_status_def update_write_disabled_def set_version_def example_versions_def
      example_shut_row_def example_next_ring_def example_next_key_def fresh_key_version_def)

lemma example_acquires:
  "acquire_exclusive ''k1'' False example_locks
     = (Inr (), example_lock_after\<lparr>lf_exclusive := (\<lambda>_. False)(version_lock_carrier ''k1'' := True)\<rparr>)"
  "fst (acquire_exclusive ''k1'' False example_lock_after) = Inr ()"
  by (simp_all add: acquire_exclusive_def open_verified_carrier_def example_locks_def example_lock_after_def Let_def)

lemma example_drains:
  "lifecycle_run_call cipher example_next_ring (CompleteDrain ''k1'' True 400) example_locks (example_versions example_shut_row)
   = (Inr (), example_lock_after, example_drained_db)"
proof -
  have "drain_body example_next_ring ''k1'' 400 (example_versions example_shut_row) = (Inr (), example_drained_db)"
    by (simp add: drain_body_def lifecycle_status_def update_drain_completed_def set_version_def coalesce_def
        example_versions_def example_shut_row_def example_drained_db_def example_old_row_def fresh_key_version_def)
  then show ?thesis
    by (simp add: controller_complete_drain_def require_old_version_def active_version_def backend_complete_drain_def
        exclusive_guard_def example_acquires release_exclusive_def example_next_ring_def example_next_key_def)
      (simp add: example_lock_after_def example_locks_def fun_eq_iff)
qed

definition example_rotated :: "nat idem_run" where
  "example_rotated =
     \<lparr>rn_db = example_drained_db, rn_claimed = [], rn_handed = [(''k1'', replicate 12 9)], rn_locks = example_lock_after\<rparr>"

lemma example_timed_run: "timed_run example_cipher (empty_run 0 example_locks) 400 example_rotated"
proof -
  let ?a = "(example_invocation, example_reservation)" and ?c = example_cipher
  define s0 where "s0 = empty_run (0 :: nat) example_locks"
  define s1 where "s1 = s0\<lparr>rn_db := example_empty_db\<rparr>"
  define s2 where "s2 = s1\<lparr>rn_db := example_reserved_db\<rparr>"
  define s3 where "s3 = s2\<lparr>rn_db := example_claimed_db, rn_claimed := ?a # rn_claimed s2\<rparr>"
  define s4 where "s4 = s3\<lparr>rn_db := example_done_db, rn_claimed := remove1 ?a (rn_claimed s3),
    rn_handed := (rs_version example_reservation, rs_nonce example_reservation) # rn_handed s3\<rparr>"
  define s5 where "s5 = s4\<lparr>rn_db := example_versions ((fresh_key_version (replicate 32 1) 0)\<lparr>ky_reserved_encryption_slots := 1\<rparr>)\<rparr>"
  define s6 where "s6 = s5\<lparr>rn_db := example_versions example_shut_row, rn_locks := example_locks\<rparr>"
  define s7 where "s7 = s6\<lparr>rn_db := example_drained_db, rn_locks := example_lock_after\<rparr>"
  have db: "rn_db s1 = example_empty_db" "rn_db s2 = example_reserved_db" "rn_db s6 = example_versions example_shut_row"
    "rn_db s5 = example_versions ((fresh_key_version (replicate 32 1) 0)\<lparr>ky_reserved_encryption_slots := 1\<rparr>)"
    "rn_locks s6 = example_locks"
    by (simp_all add: s1_def s2_def s5_def s6_def)
  have p1: "store_step ?c 0 s0 s1"
    unfolding s1_def by (rule step_register [where keyring = "Some example_ring"]) (simp add: s0_def example_registers)
  have p2: "store_step ?c 50 s1 s2"
    unfolding s2_def by (rule step_reserve, unfold db, rule example_reserves)
  have p3: "store_step ?c 60 s2 s3"
    unfolding s3_def by (rule step_claim, unfold db, rule example_claims)
  have p4: "store_step ?c 100 s3 s4"
    unfolding s4_def
    by (rule step_complete [where keyring = "Some example_ring" and m = example_mutation and commit = None])
      (simp_all add: s3_def complete_sqlite_result_def example_completes)
  have p5: "store_step ?c 200 s4 s5"
    unfolding s5_def
    by (rule step_register [where keyring = "Some example_next_ring"])
      (simp add: s4_def example_next_registers example_versions_def)
  have locks: "rn_locks s5 = example_locks" by (simp add: s5_def s4_def s3_def s2_def s1_def s0_def empty_run_def)
  have p6: "store_step ?c 300 s5 s6"
    unfolding s6_def
    by (rule step_lifecycle [where ring = example_next_ring and call = "WriteDisable ''k1'' ''rotation'' 300" and r = "Inr ()"])
      (simp_all only: locks db example_shuts call_reads.simps)
  have p7: "store_step ?c 400 s6 s7"
    unfolding s7_def
    by (rule step_lifecycle [where ring = example_next_ring and call = "CompleteDrain ''k1'' True 400" and r = "Inr ()"])
      (simp_all only: db example_drains call_reads.simps)
  have "timed_run ?c s0 400 s7"
    by (rule timed_step [OF timed_step [OF timed_step [OF timed_step [OF timed_step [OF timed_step [OF timed_step
          [OF timed_start [where t = 0] p1] p2] p3] p4] p5] p6] p7]) simp_all
  moreover have "s7 = example_rotated"
    by (simp add: s7_def s6_def s5_def s4_def s3_def s2_def s1_def s0_def empty_run_def example_rotated_def
        example_reservation_def)
  ultimately show ?thesis by (simp add: s0_def)
qed

lemma timed_run_store_run: "timed_run cipher s t s' \<Longrightarrow> t < bound \<Longrightarrow> store_run cipher bound s s'"
proof (induction arbitrary: bound rule: timed_run.induct)
  case (timed_step t s' t' s'')
  show ?case by (rule run_step [OF timed_step(4) timed_step(2)]) (use timed_step in simp_all)
qed (rule run_refl)

lemma example_row_opens:
  "\<exists>p. authenticate_completed_result example_cipher (parse_completed_result_row (result_identity example_invocation) example_row)
     example_row (Some example_next_ring) = Inr p"
proof -
  let ?out = "\<lparr>co_response = example_response, co_replay_not_after_epoch = None\<rparr>"
  let ?env = "\<lparr>en_format_version = 1, en_version = ''k1'', en_nonce = replicate 12 9,
    en_ciphertext = cr_response_ciphertext example_row\<rparr>"
  let ?j = "parse_completed_result_row (result_identity example_invocation) example_row"
  have row: "stored_row example_invocation ?out ?env 100 86500 = example_row"
    by (simp add: stored_row_def example_row_def example_invocation_def example_response_def)
  have key: "same_key (rs_version example_reservation) example_ring example_next_ring"
    by (simp add: same_key_def decryption_key_def example_rotation_defs)
  have j: "require_invocation ?j = None"
    by (simp add: require_invocation_def parse_completed_result_row_def result_identity_def example_invocation_def
        example_row_def)
  obtain p where "authenticate_completed_result example_cipher ?j (stored_row example_invocation ?out ?env 100 86500)
      (Some example_next_ring) = Inr p"
    using sealed_row_authenticates [OF example_encrypts example_cipher_opens key j result_identity_parse] by blast
  then show ?thesis unfolding row by blast
qed

definition example_retired_db :: "nat idem_db" where
  "example_retired_db =
     example_drained_db\<lparr>id_versions := [(''k1'', example_old_row\<lparr>ky_retired_epoch := Some 87100\<rparr>),
       (''k2'', fresh_key_version (replicate 32 2) 200)], id_results := []\<rparr>"

lemma example_rotated_state:
  "dict_get (id_versions (rn_db example_rotated)) ''k1'' = Some example_old_row"
  "ky_write_disabled_epoch example_old_row \<noteq> None" "ky_drain_completed_epoch example_old_row = Some 400"
  "ky_retired_epoch example_old_row = None" "\<forall>k. (400 :: int) + 86700 \<le> (\<lambda>_ :: nat. 87100) k"
  "''k1'' \<noteq> []" "''k1'' \<noteq> active_version example_next_ring"
  by (simp_all add: example_rotated_def example_drained_db_def example_old_row_def fresh_key_version_def active_version_def
      example_next_ring_def example_next_key_def)

lemma example_results_open: "results_open example_cipher example_next_ring ''k1'' (rn_db example_rotated)"
  using example_row_opens
  by (auto simp: results_open_def example_rotated_def example_drained_db_def example_done_db_def)

lemma example_next_open: "open_for_writing (active_version example_next_ring) (rn_db example_rotated)"
  by (simp add: open_for_writing_def example_rotated_def example_drained_db_def fresh_key_version_def active_version_def
      example_next_ring_def example_next_key_def)

lemma example_retired_db_eq:
  "(rn_db example_rotated)\<lparr>id_versions := dict_set ''k1'' (example_old_row\<lparr>ky_retired_epoch := Some 87100\<rparr>)
       (id_versions (rn_db example_rotated)),
     id_results := without_version ''k1'' (id_results (rn_db example_rotated))\<rparr> = example_retired_db"
  by (simp add: example_rotated_def example_retired_db_def example_drained_db_def example_done_db_def without_version_def
      example_row_def)

lemma example_lock_free: "fst (acquire_exclusive ''k1'' False (rn_locks example_rotated)) = Inr ()"
  by (simp add: example_rotated_def example_acquires)

theorem drained_versions_can_be_retired_witness:
  "\<exists>f. controller_retire example_cipher example_next_ring \<lparr>rq_version = ''k1'', rq_confirm_removal_window = True\<rparr> (\<lambda>_. 87100)
         (rn_locks example_rotated) (rn_db example_rotated) = (Inr (), f, example_retired_db)"
proof -
  obtain r f' d' where run: "controller_retire example_cipher example_next_ring
      \<lparr>rq_version = ''k1'', rq_confirm_removal_window = True\<rparr> (\<lambda>_. 87100) (rn_locks example_rotated) (rn_db example_rotated) = (r, f', d')"
    by (metis prod_cases3)
  have "r = Inr ()" "d' = example_retired_db"
    using drained_versions_can_be_retired [OF example_timed_run example_rotated_state run] example_lock_free
      example_next_open example_results_open by (simp_all only: example_retired_db_eq simp_thms if_True)
  with run show ?thesis by blast
qed

theorem retired_versions_hold_no_results_witness:
  "\<exists>f. store_run example_cipher 90000 (empty_run 0 example_locks) (example_rotated\<lparr>rn_db := example_retired_db, rn_locks := f\<rparr>)
     \<and> sqlite_idempotency_ready (Some example_last_ring) True example_retired_db = Inr True"
proof -
  have ok: "timed_ok 400 (rn_db example_rotated)" by (rule timed_run_ok [OF example_timed_run empty_run_ok(4)])
  obtain f where "controller_retire example_cipher example_next_ring \<lparr>rq_version = ''k1'', rq_confirm_removal_window = True\<rparr>
      (\<lambda>_. 87100) (rn_locks example_rotated) (rn_db example_rotated) = (Inr (), f, example_retired_db)"
    using controller_retire_drained [OF ok example_rotated_state] example_lock_free example_next_open example_results_open
    by (metis example_retired_db_eq prod_cases3 retired_db_def)
  then have step: "store_step example_cipher 87100 example_rotated (example_rotated\<lparr>rn_db := example_retired_db, rn_locks := f\<rparr>)"
    by (intro step_lifecycle [where ring = example_next_ring and r = "Inr ()"
          and call = "Retire \<lparr>rq_version = ''k1'', rq_confirm_removal_window = True\<rparr> (\<lambda>_. 87100)"]) simp_all
  have run: "store_run example_cipher 90000 (empty_run 0 example_locks) (example_rotated\<lparr>rn_db := example_retired_db, rn_locks := f\<rparr>)"
    by (rule run_step [OF timed_run_store_run [OF example_timed_run] step]) simp_all
  have ring: "kr_active_key example_last_ring \<in> set (kr_decryption_keys example_last_ring)" by (simp add: example_last_ring_def)
  have "\<not> keyring_mismatch example_last_ring example_retired_db"
    by (simp add: keyring_mismatch_def example_retired_db_def example_last_ring_def example_next_key_def example_old_row_def
        fresh_key_version_def)
  then have "sqlite_idempotency_ready (Some example_last_ring) True example_retired_db = Inr True"
    using retired_versions_hold_no_results [OF run ring, of True]
    by (simp add: example_retired_db_def active_version_def example_last_ring_def example_next_key_def fresh_key_version_def)
  with run show ?thesis by blast
qed

end
