(* ===== verification/Keyring.thy ===== *)
theory Keyring
  imports IdempotencyRetirement
begin

section \<open>Loading the idempotency keyring\<close>

text \<open>
  The rest of \<^verbatim>\<open>src/vinctor_service/idempotency_keyring.py\<close>: the keyring of a service is read from two
  environment variables, a JSON object of base64 keys and the label of the active one. Whatever is
  wrong with them raises \<^verbatim>\<open>IdempotencyKeyringConfigError\<close>.

  \<^verbatim>\<open>json.loads\<close> calls \<^verbatim>\<open>_parse_object_pairs\<close> on the members of the object as they stand in the text, so a
  repeated label is seen; the reader here keeps them as a list. \<^verbatim>\<open>base64.b64decode(validate=True)\<close> is
  \<open>b64decode\<close>: groups of four characters, padding in the last one only.
\<close>

subsection \<open>Definitions\<close>

definition KEYRING_ENV :: string where
  "KEYRING_ENV = ''VINCTOR_IDEMPOTENCY_KEYRING_JSON''"

definition ACTIVE_VERSION_ENV :: string where
  "ACTIVE_VERSION_ENV = ''VINCTOR_IDEMPOTENCY_ACTIVE_KEY_VERSION''"

definition AES_256_KEY_BYTES :: nat where
  "AES_256_KEY_BYTES = 32"

definition b64_value :: "char \<Rightarrow> nat option" where
  "b64_value c =
     (let n = of_char c :: nat
      in if 65 \<le> n \<and> n \<le> 90 then Some (n - 65)
         else if 97 \<le> n \<and> n \<le> 122 then Some (n - 71)
         else if 48 \<le> n \<and> n \<le> 57 then Some (n + 4)
         else if c = CHR ''+'' then Some 62
         else if c = CHR ''/'' then Some 63
         else None)"

definition b64_bytes :: "nat \<Rightarrow> bytes" where
  "b64_bytes n = [of_nat (n div 65536), of_nat (n div 256), of_nat n]"

fun b64decode :: "string \<Rightarrow> bytes option" where
  "b64decode [] = Some []"
| "b64decode (a # b # c # d # rest) =
     (case (b64_value a, b64_value b) of
        (Some x, Some y) \<Rightarrow>
          if c = CHR ''='' then (if d = CHR ''='' \<and> rest = [] then Some (take 1 (b64_bytes (262144 * x + 4096 * y))) else None)
          else (case b64_value c of
                  None \<Rightarrow> None
                | Some z \<Rightarrow>
                    if d = CHR ''=''
                    then (if rest = [] then Some (take 2 (b64_bytes (262144 * x + 4096 * y + 64 * z))) else None)
                    else (case b64_value d of
                            None \<Rightarrow> None
                          | Some w \<Rightarrow>
                              map_option (\<lambda>bs. b64_bytes (262144 * x + 4096 * y + 64 * z + w) @ bs) (b64decode rest)))
      | _ \<Rightarrow> None)"
| "b64decode _ = None"

definition parse_version_label :: "string \<Rightarrow> keyring_error + string" where
  "parse_version_label raw = (if is_version_label raw then Inr raw else Inl IdempotencyKeyringConfigError)"

definition parse_key_version :: "string \<Rightarrow> string \<Rightarrow> keyring_error + IdempotencyKeyVersion" where
  "parse_key_version label encoded =
     (case parse_version_label label of
        Inl e \<Rightarrow> Inl e
      | Inr version \<Rightarrow>
          if \<not> is_ascii encoded \<or> list_ex is_space encoded then Inl IdempotencyKeyringConfigError
          else (case b64decode encoded of
                  None \<Rightarrow> Inl IdempotencyKeyringConfigError
                | Some material \<Rightarrow>
                    if length material \<noteq> AES_256_KEY_BYTES then Inl IdempotencyKeyringConfigError
                    else Inr \<lparr>kv_version = version, kv_material = material, kv_commitment = key_commitment material\<rparr>))"

fun parse_object_pairs :: "string list \<Rightarrow> (string \<times> json) list \<Rightarrow> keyring_error + (string \<times> string) list" where
  "parse_object_pairs labels [] = Inr []"
| "parse_object_pairs labels ((label, v) # pairs) =
     (if label \<in> set labels then Inl IdempotencyKeyringConfigError
      else (case v of
              JStr encoded \<Rightarrow> map_sum id ((#) (label, encoded)) (parse_object_pairs (label # labels) pairs)
            | _ \<Rightarrow> Inl IdempotencyKeyringConfigError))"

text \<open>The members of the outermost object up to its closing brace, in the order of the text.\<close>

fun object_members :: "nat \<Rightarrow> (string \<times> json) list \<Rightarrow> string \<Rightarrow> ((string \<times> json) list \<times> string) option" where
  "object_members 0 acc s = None"
| "object_members (Suc n) acc s =
     (case s of
        [] \<Rightarrow> None
      | c # r \<Rightarrow>
          if c \<noteq> CHR 0x22 then None
          else (case json_scan r of
             None \<Rightarrow> None
           | Some (k, r1) \<Rightarrow>
               if \<not> startswith (skip_ws r1) '':'' then None
               else (case json_parse n (skip_ws (tl (skip_ws r1))) of
                  None \<Rightarrow> None
                | Some (v, r2) \<Rightarrow>
                    if startswith (skip_ws r2) [CHR 0x7D] then Some (acc @ [(k, v)], tl (skip_ws r2))
                    else if startswith (skip_ws r2) '','' then object_members n (acc @ [(k, v)]) (skip_ws (tl (skip_ws r2)))
                    else None)))"

definition object_pairs :: "string \<Rightarrow> (string \<times> json) list option" where
  "object_pairs raw =
     (case skip_ws raw of
        [] \<Rightarrow> None
      | c # r \<Rightarrow>
          if c \<noteq> CHR 0x7B then None
          else (case (if startswith (skip_ws r) [CHR 0x7D] then Some ([], tl (skip_ws r))
                      else object_members (length raw) [] (skip_ws r)) of
                  Some (pairs, rest) \<Rightarrow> if skip_ws rest = [] then Some pairs else None
                | None \<Rightarrow> None))"

definition parse_keyring_json :: "string \<Rightarrow> keyring_error + (string \<times> string) list" where
  "parse_keyring_json raw =
     (case object_pairs raw of
        None \<Rightarrow> Inl IdempotencyKeyringConfigError
      | Some pairs \<Rightarrow> parse_object_pairs [] pairs)"

fun parse_key_versions :: "(string \<times> string) list \<Rightarrow> keyring_error + IdempotencyKeyVersion list" where
  "parse_key_versions [] = Inr []"
| "parse_key_versions ((label, encoded) # pairs) =
     (case parse_key_version label encoded of
        Inl e \<Rightarrow> Inl e
      | Inr key \<Rightarrow> map_sum id ((#) key) (parse_key_versions pairs))"

definition build_keyring :: "string \<Rightarrow> IdempotencyKeyVersion list \<Rightarrow> keyring_error + IdempotencyKeyring option" where
  "build_keyring active versions =
     (if versions = [] then Inl IdempotencyKeyringConfigError
      else if card (kv_material ` set versions) \<noteq> length versions then Inl IdempotencyKeyringConfigError
      else (case find_first (\<lambda>key. kv_version key = active) versions of
              None \<Rightarrow> Inl IdempotencyKeyringConfigError
            | Some active_key \<Rightarrow> Inr (Some \<lparr>kr_active_key = active_key, kr_decryption_keys = versions\<rparr>)))"

definition load_idempotency_keyring :: "(string, string) dict \<Rightarrow> keyring_error + IdempotencyKeyring option" where
  "load_idempotency_keyring env =
     (case (dict_get env KEYRING_ENV, dict_get env ACTIVE_VERSION_ENV) of
        (None, None) \<Rightarrow> Inr None
      | (Some raw, Some active) \<Rightarrow>
          (case parse_keyring_json raw of
             Inl e \<Rightarrow> Inl e
           | Inr pairs \<Rightarrow>
               (case parse_version_label active of
                  Inl e \<Rightarrow> Inl e
                | Inr active' \<Rightarrow>
                    (case parse_key_versions pairs of
                       Inl e \<Rightarrow> Inl e
                     | Inr versions \<Rightarrow> build_keyring active' (sort_key kv_version versions))))
      | _ \<Rightarrow> Inl IdempotencyKeyringConfigError)"

subsection \<open>What a loaded keyring is\<close>

lemma parse_object_pairs_distinct:
  "parse_object_pairs labels pairs = Inr kvs \<Longrightarrow> distinct (map fst kvs) \<and> set (map fst kvs) \<inter> set labels = {}"
proof (induction labels pairs arbitrary: kvs rule: parse_object_pairs.induct)
  case (2 labels label v pairs)
  show ?case
  proof (cases v)
    case (JStr encoded)
    with "2.prems" obtain rest where rest: "parse_object_pairs (label # labels) pairs = Inr rest" "kvs = (label, encoded) # rest"
      and new: "label \<notin> set labels"
      by (cases "parse_object_pairs (label # labels) pairs") (auto split: if_splits)
    from "2.IH" [OF new JStr rest(1)] rest new show ?thesis by auto
  qed (use "2.prems" in \<open>auto split: if_splits\<close>)
qed simp

lemma parse_key_version_Inr:
  assumes "parse_key_version label encoded = Inr key"
  shows "kv_version key = label \<and> is_version_label label \<and> length (kv_material key) = 32
    \<and> kv_commitment key = key_commitment (kv_material key)"
proof (cases "is_version_label label \<and> is_ascii encoded \<and> \<not> list_ex is_space encoded")
  case True
  with assms obtain material where "length material = 32"
    "key = \<lparr>kv_version = label, kv_material = material, kv_commitment = key_commitment material\<rparr>"
    by (cases "b64decode encoded")
      (simp_all add: parse_key_version_def parse_version_label_def AES_256_KEY_BYTES_def split: if_splits)
  with True show ?thesis by simp
qed (use assms in \<open>auto simp: parse_key_version_def parse_version_label_def split: if_splits\<close>)

lemma parse_key_versions_Inr:
  "parse_key_versions pairs = Inr keys \<Longrightarrow>
     map kv_version keys = map fst pairs
     \<and> (\<forall>key\<in>set keys. is_version_label (kv_version key) \<and> length (kv_material key) = 32
          \<and> kv_commitment key = key_commitment (kv_material key))"
proof (induction pairs arbitrary: keys rule: parse_key_versions.induct)
  case (2 label encoded pairs)
  obtain key rest where k: "parse_key_version label encoded = Inr key" "parse_key_versions pairs = Inr rest" "keys = key # rest"
    using "2.prems" by (cases "parse_key_version label encoded"; cases "parse_key_versions pairs") auto
  show ?case using "2.IH" [OF k(1,2)] parse_key_version_Inr [OF k(1)] unfolding k(3) by simp
qed simp

definition keyring_wf :: "IdempotencyKeyring \<Rightarrow> bool" where
  "keyring_wf ring \<longleftrightarrow>
     kr_active_key ring \<in> set (kr_decryption_keys ring)
     \<and> distinct (map kv_version (kr_decryption_keys ring)) \<and> distinct (map kv_material (kr_decryption_keys ring))
     \<and> (\<forall>key\<in>set (kr_decryption_keys ring). is_version_label (kv_version key) \<and> length (kv_material key) = 32
          \<and> kv_commitment key = key_commitment (kv_material key))"

lemma build_keyring_Inr:
  assumes "build_keyring active versions = Inr (Some ring)"
  shows "kr_decryption_keys ring = versions" "kr_active_key ring \<in> set versions" "kv_version (kr_active_key ring) = active"
    "distinct (map kv_material versions)"
proof -
  have c: "card (set (map kv_material versions)) = length (map kv_material versions)"
    using assms by (auto simp: build_keyring_def split: if_splits)
  obtain key where f: "find_first (\<lambda>key. kv_version key = active) versions = Some key"
    "ring = \<lparr>kr_active_key = key, kr_decryption_keys = versions\<rparr>"
    using assms by (auto simp: build_keyring_def split: if_splits option.splits)
  from find_first_Some [OF f(1)] f(2)
  show "kr_decryption_keys ring = versions" "kr_active_key ring \<in> set versions" "kv_version (kr_active_key ring) = active"
    by simp_all
  show "distinct (map kv_material versions)" using c by (rule card_distinct)
qed

lemma load_keyring_wf:
  assumes "load_idempotency_keyring env = Inr (Some ring)"
  shows "keyring_wf ring" "dict_get env ACTIVE_VERSION_ENV = Some (active_version ring)"
proof -
  obtain raw active pairs versions where p: "dict_get env KEYRING_ENV = Some raw" "dict_get env ACTIVE_VERSION_ENV = Some active"
    "parse_keyring_json raw = Inr pairs" "parse_key_versions pairs = Inr versions"
    "build_keyring active (sort_key kv_version versions) = Inr (Some ring)"
    using assms
    by (auto simp: load_idempotency_keyring_def parse_version_label_def split: option.splits sum.splits if_splits)
  have "distinct (map fst pairs)"
    using p(3) by (auto simp: parse_keyring_json_def dest: parse_object_pairs_distinct split: option.splits)
  then have d: "distinct (map kv_version versions)" using parse_key_versions_Inr [OF p(4)] by simp
  have "mset (map kv_version (sort_key kv_version versions)) = mset (map kv_version versions)" by simp
  with d have d': "distinct (map kv_version (sort_key kv_version versions))" by (metis mset_eq_imp_distinct_iff)
  note b = build_keyring_Inr [OF p(5)]
  show "keyring_wf ring" using b d' parse_key_versions_Inr [OF p(4)] by (simp add: keyring_wf_def)
  show "dict_get env ACTIVE_VERSION_ENV = Some (active_version ring)" using b(3) p(2) by (simp add: active_version_def)
qed

subsection \<open>A loaded keyring starts a service\<close>

definition registered :: "int \<Rightarrow> IdempotencyKeyVersion list \<Rightarrow> (string, key_version_row) dict" where
  "registered t keys = map (\<lambda>key. (kv_version key, fresh_key_version (kv_commitment key) t)) keys"

lemma register_distinct_versions:
  assumes "distinct (map kv_version (old @ keys))" "distinct (map kv_commitment (old @ keys))" "0 \<le> t"
    "\<forall>key\<in>set keys. is_version_label (kv_version key) \<and> length (kv_commitment key) = 32"
  shows "register_versions keys t (registered t old) = Inr (registered t (old @ keys))"
  using assms
proof (induction keys arbitrary: old)
  case (Cons key keys)
  have new: "dict_get (registered t old) (kv_version key) = None"
    using Cons.prems(1) by (force simp: registered_def map_of_eq_None_iff)
  have "kv_commitment key \<notin> ky_commitment ` set (dict_values (registered t old))"
    using Cons.prems(2) by (auto simp: registered_def fresh_key_version_def)
  then have ins: "insert_key_version (kv_version key) (kv_commitment key) t (registered t old) = registered t (old @ [key])"
    using Cons.prems(3,4) new by (simp add: insert_key_version_def dict_set_fresh) (simp add: registered_def)
  have "dict_get (registered t (old @ [key])) (kv_version key) = Some (fresh_key_version (kv_commitment key) t)"
    using new by (simp add: registered_def map_add_def)
  then show ?case
    using Cons.IH [of "old @ [key]"] Cons.prems by (simp add: ins Let_def) (simp add: fresh_key_version_def)
qed simp

text \<open>
  (C17) A keyring that loads is sound: its active key is the one the environment names, labels and
  materials are distinct, every key has 32 bytes and carries its own commitment. A service with an
  empty store that starts with it registers all its versions and is ready, unless two of its keys
  have the same commitment, which is a collision of SHA-256.
\<close>

theorem loaded_keyring_is_ready:
  assumes "load_idempotency_keyring env = Inr (Some ring)" and "0 \<le> t"
  shows "keyring_wf ring \<and> dict_get env ACTIVE_VERSION_ENV = Some (active_version ring)
    \<and> ((\<exists>d. register_keyring (Some ring) t (rn_db (empty_run u f)) = Inr d
           \<and> id_versions d = registered t (kr_decryption_keys ring)
           \<and> sqlite_idempotency_ready (Some ring) exact d = Inr True)
       \<or> (\<exists>k\<in>set (kr_decryption_keys ring). \<exists>k'\<in>set (kr_decryption_keys ring). kv_material k \<noteq> kv_material k'
            \<and> sha256 (KEY_COMMITMENT_DOMAIN @ kv_material k) = sha256 (KEY_COMMITMENT_DOMAIN @ kv_material k')))"
proof (cases "distinct (map kv_commitment (kr_decryption_keys ring))")
  case True
  let ?keys = "kr_decryption_keys ring" and ?d = "rn_db (empty_run u f)"
  let ?d' = "?d\<lparr>id_versions := registered t ?keys\<rparr>"
  note wf = load_keyring_wf [OF assms(1)]
  have keys: "distinct (map kv_version ?keys)"
    "\<forall>key\<in>set ?keys. is_version_label (kv_version key) \<and> length (kv_commitment key) = 32"
    using wf(1) by (auto simp: keyring_wf_def key_commitment_def)
  have "register_versions ?keys t [] = Inr (registered t ?keys)"
    using register_distinct_versions [of "[]" ?keys t] keys True assms(2) by (simp add: registered_def)
  then have reg: "register_keyring (Some ring) t ?d = Inr ?d'" by (simp add: register_keyring_def empty_run_def)
  have step: "registry_step t ?d ?d'" by (rule register_keyring_registry [OF reg])
  have ok: "registry_ok ?d'" "dict_wf (id_versions ?d')"
    using registry_step_ok [OF step] step empty_run_ok(2,3) [of u f] by (simp_all add: registry_step_def)
  have led: "ledger_ok ?d'" using register_keyring_ledger [OF reg] empty_run_ok(1) [of u f] by (simp add: run_ok_def)
  have fits: "(kv_version k = kv_version k') = (kv_commitment k = kv_commitment k')"
    if "k \<in> set ?keys" "k' \<in> set ?keys" for k k'
    using that keys(1) True by (auto simp: distinct_map inj_on_def)
  have match: "\<not> keyring_mismatch ring ?d'"
    using fits by (auto simp: keyring_mismatch_def registered_def fresh_key_version_def empty_run_def)
  have active: "kr_active_key ring \<in> set ?keys" using wf(1) by (simp add: keyring_wf_def)
  then have "(active_version ring, fresh_key_version (kv_commitment (kr_active_key ring)) t) \<in> set (id_versions ?d')"
    by (auto simp: registered_def active_version_def)
  then have "dict_get (id_versions ?d') (active_version ring) = Some (fresh_key_version (kv_commitment (kr_active_key ring)) t)"
    using ok(2) by (simp add: dict_get_iff_mem)
  then have "sqlite_idempotency_ready (Some ring) exact ?d' = Inr True"
    using sqlite_ready [OF led ok(2,1) active] match by (simp add: fresh_key_version_def)
  then show ?thesis using wf reg by auto
next
  case False
  let ?keys = "kr_decryption_keys ring"
  note wf = load_keyring_wf [OF assms(1)]
  have "distinct ?keys" using wf(1) by (auto simp: keyring_wf_def distinct_map)
  with False obtain k k' where k: "k \<in> set ?keys" "k' \<in> set ?keys" "k \<noteq> k'" "kv_commitment k = kv_commitment k'"
    by (auto simp: distinct_map inj_on_def)
  then have "kv_material k \<noteq> kv_material k'" using wf(1) by (auto simp: keyring_wf_def distinct_map inj_on_def)
  moreover have "key_commitment (kv_material k) = key_commitment (kv_material k')"
    using k wf(1) by (simp add: keyring_wf_def)
  ultimately show ?thesis using wf k(1,2) unfolding key_commitment_def by blast
qed

subsection \<open>Witness\<close>

definition example_key_text :: string where
  "example_key_text = concat (replicate 10 ''AAAA'') @ ''AAA=''"

definition example_keyring_text :: string where
  "example_keyring_text =
     [CHR 0x7B, CHR 0x22] @ ''k1'' @ [CHR 0x22, CHR '':'', CHR 0x22] @ example_key_text @ [CHR 0x22, CHR 0x7D]"

definition example_env :: "(string, string) dict" where
  "example_env = [(KEYRING_ENV, example_keyring_text), (ACTIVE_VERSION_ENV, ''k1'')]"

definition example_loaded_ring :: IdempotencyKeyring where
  "example_loaded_ring =
     (let key = \<lparr>kv_version = ''k1'', kv_material = replicate 32 0, kv_commitment = key_commitment (replicate 32 0)\<rparr>
      in \<lparr>kr_active_key = key, kr_decryption_keys = [key]\<rparr>)"

lemma example_text_parses: "parse_keyring_json example_keyring_text = Inr [(''k1'', example_key_text)]"
  by code_simp

lemma decode_quads: "b64decode (concat (replicate n ''AAAA'') @ s) = map_option ((@) (replicate (3 * n) 0)) (b64decode s)"
proof (induction n)
  case (Suc n)
  have "b64_value CHR ''A'' = Some 0" by (simp add: b64_value_def)
  with Suc show ?case by (simp add: b64_bytes_def option.map_comp comp_def numeral_3_eq_3)
qed (simp add: option.map_ident)

lemma example_text_decodes:
  "b64decode example_key_text = Some (replicate 32 0)" "is_ascii example_key_text" "\<not> list_ex is_space example_key_text"
  "is_version_label ''k1''"
proof -
  have "b64decode ''AAA='' = Some (replicate 2 0)" by (simp add: b64_value_def b64_bytes_def numeral_2_eq_2)
  then show "b64decode example_key_text = Some (replicate 32 0)"
    by (simp add: example_key_text_def decode_quads flip: replicate_add)
qed (code_simp, code_simp, code_simp)

lemma example_env_loads: "load_idempotency_keyring example_env = Inr (Some example_loaded_ring)"
proof -
  have "parse_key_version ''k1'' example_key_text = Inr (kr_active_key example_loaded_ring)"
    using example_text_decodes
    by (simp add: parse_key_version_def parse_version_label_def AES_256_KEY_BYTES_def example_loaded_ring_def Let_def)
  then show ?thesis
    using example_text_decodes(4)
    by (simp add: load_idempotency_keyring_def example_env_def KEYRING_ENV_def ACTIVE_VERSION_ENV_def example_text_parses
        parse_version_label_def build_keyring_def)
      (simp add: example_loaded_ring_def Let_def)
qed

theorem loaded_keyring_is_ready_witness:
  "load_idempotency_keyring example_env = Inr (Some example_loaded_ring)
   \<and> (\<exists>d. register_keyring (Some example_loaded_ring) 5 (rn_db (empty_run (0 :: nat) example_locks)) = Inr d
         \<and> sqlite_idempotency_ready (Some example_loaded_ring) True d = Inr True)"
  using loaded_keyring_is_ready [OF example_env_loads, of 5 "0 :: nat" example_locks True] example_env_loads
  by (auto simp: example_loaded_ring_def Let_def)

end
