(* ===== verification/ControlAudit.thy ===== *)
theory ControlAudit
  imports AuditTamper
begin

section \<open>The audit of the control plane\<close>

text \<open>
  \<^verbatim>\<open>src/vinctor_service/control_audit.py\<close> and the write scopes of \<^verbatim>\<open>sqlite.py\<close> and \<^verbatim>\<open>keys.py\<close>: changes of
  rules, bounds, mandates and keys, each of which commits together with one event on the audit
  chain.

  \<open>control_db\<close> is the part of a connection that every such change shares: whether a transaction is
  open, the depth of suppression of the auditor on this thread, and the audit table. The stores of
  the control plane extend the record with their tables. An operation returns its result or the
  exception, and the database; a scope that owns its transaction restores the database when its
  body raises. Emissions to anchors and exports after a commit are not part of the state.
\<close>

record control_db =
  cd_in_transaction :: bool
  cd_depth :: nat
  cd_audit :: audit_table

type_synonym ('r, 'd) operation = "'d \<Rightarrow> (exn + 'r) \<times> 'd"

text \<open>\<^verbatim>\<open>_write_scope\<close>, \<^verbatim>\<open>_atomic_write\<close>, \<^verbatim>\<open>_key_write_scope\<close>: join an open transaction, or own one.\<close>

definition write_scope :: "('r, 'e control_db_scheme) operation \<Rightarrow> ('r, 'e control_db_scheme) operation" where
  "write_scope body d =
     (if cd_in_transaction d then body d
      else (case body (d\<lparr>cd_in_transaction := True\<rparr>) of
              (Inl e, _) \<Rightarrow> (Inl e, d)
            | (Inr r, d') \<Rightarrow> (Inr r, d'\<lparr>cd_in_transaction := False\<rparr>)))"

subsection \<open>The auditor\<close>

text \<open>
  \<open>bound\<close> is the connection of the audit writer, \<open>conn\<close> the one of the store; \<open>None\<close> when there is none.
\<close>

definition require_bound_to :: "nat option \<Rightarrow> nat option \<Rightarrow> exn option" where
  "require_bound_to bound conn =
     (case bound of
        None \<Rightarrow> Some (ValueError ''control auditor must write through the backend's durable audit writer; a writer without a database connection cannot commit atomically with the control mutation'')
      | Some b \<Rightarrow>
          (case conn of
             None \<Rightarrow> Some (ValueError ''control mutation store exposes no connection to verify against; refusing to assume it matches the audit connection'')
           | Some c \<Rightarrow>
               if b \<noteq> c
               then Some (ValueError ''control auditor must write through the SAME connection as the control repository, or the mutation and its audit row cannot commit as one transaction'')
               else None))"

definition write_control_event :: "AuditEvent \<Rightarrow> (unit, 'e control_db_scheme) operation" where
  "write_control_event event d =
     (case sq_write_event event (cd_audit d) of
        (Inl e, _) \<Rightarrow> (Inl e, d)
      | (Inr _, rows) \<Rightarrow> (Inr (), d\<lparr>cd_audit := rows\<rparr>))"

definition control_record :: "control_args \<Rightarrow> entropy \<Rightarrow> (unit, 'e control_db_scheme) operation" where
  "control_record args rnd d =
     (if 0 < cd_depth d then (Inr (), d) else write_control_event (build_control_audit_event args rnd) d)"

text \<open>\<^verbatim>\<open>PendingControlEvent.set\<close>: the event of a composite operation, recorded once.\<close>

definition pending_set :: "control_args \<Rightarrow> entropy \<Rightarrow> AuditEvent option \<Rightarrow> exn + AuditEvent option" where
  "pending_set args rnd pending =
     (if pending \<noteq> None then Inl (RuntimeError ''composite control operation event already recorded'')
      else Inr (Some (build_control_audit_event args rnd)))"

text \<open>The body of a composite operation returns its result and the pending event.\<close>

definition composite ::
  "('r \<times> AuditEvent option, 'e control_db_scheme) operation \<Rightarrow> ('r, 'e control_db_scheme) operation" where
  "composite body d =
     (if 0 < cd_depth d
      then (Inl (RuntimeError ''composite control operations do not nest: the enclosing operation records the ONE control event for everything inside it''), d)
      else if \<not> cd_in_transaction d
      then (Inl (RuntimeError ''a composite control operation requires an open transaction on the audit connection; without one, suppressed inner mutations would commit individually with no audit record''), d)
      else (case body (d\<lparr>cd_depth := Suc (cd_depth d)\<rparr>) of
              (Inl e, d') \<Rightarrow> (Inl e, d'\<lparr>cd_depth := cd_depth d\<rparr>)
            | (Inr (r, None), d') \<Rightarrow>
                (Inl (RuntimeError ''composite control operation finished without recording its control audit event; refusing to commit an un-audited rule change''),
                 d'\<lparr>cd_depth := cd_depth d\<rparr>)
            | (Inr (r, Some event), d') \<Rightarrow>
                (case write_control_event event (d'\<lparr>cd_depth := cd_depth d\<rparr>) of
                   (Inl e, d'') \<Rightarrow> (Inl e, d'')
                 | (Inr _, d'') \<Rightarrow> (Inr r, d''))))"

subsection \<open>Reasoning about scopes\<close>

text \<open>A database at rest: no transaction is open and nothing is suppressed.\<close>

definition at_rest :: "'e control_db_scheme \<Rightarrow> bool" where
  "at_rest d \<longleftrightarrow> \<not> cd_in_transaction d \<and> cd_depth d = 0"

lemma write_scope_error: "write_scope body d = (Inl e, d') \<Longrightarrow> \<not> cd_in_transaction d \<Longrightarrow> d' = d"
  by (auto simp: write_scope_def split: prod.splits sum.splits if_splits)

lemma write_scope_joined [simp]: "cd_in_transaction d \<Longrightarrow> write_scope body d = body d"
  by (simp add: write_scope_def)

lemma write_scope_ok:
  assumes "write_scope body d = (Inr r, d')" "\<not> cd_in_transaction d"
  obtains d1 where "body (d\<lparr>cd_in_transaction := True\<rparr>) = (Inr r, d1)" "d' = d1\<lparr>cd_in_transaction := False\<rparr>"
  using assms by (auto simp: write_scope_def split: prod.splits sum.splits if_splits)

definition control_log :: "'e control_db_scheme \<Rightarrow> AuditEvent list" where
  "control_log d = sq_log (cd_audit d, ())"

lemma control_log_update [simp]: "control_log (d\<lparr>cd_in_transaction := x\<rparr>) = control_log d" "control_log (d\<lparr>cd_depth := n\<rparr>) = control_log d"
  by (simp_all add: control_log_def)

text \<open>What writing an event does: the log grows by it and nothing else changes, or it raises and nothing changes.\<close>

lemma write_control_event_cases:
  assumes "write_control_event event d = (r, d')"
  obtains (written) rows where "r = Inr ()" "d' = d\<lparr>cd_audit := rows\<rparr>" "control_log d' = control_log d @ [event]"
  | (raised) e where "r = Inl e" "d' = d"
proof (cases "sq_write_event event (cd_audit d)")
  case (Pair x rows)
  show thesis
  proof (cases x)
    case (Inl e)
    then have "r = Inl e" "d' = d" using assms Pair by (auto simp: write_control_event_def)
    then show thesis by (rule raised)
  next
    case (Inr y)
    then have "sq_log (rows, ()) = sq_log (cd_audit d, ()) @ [event]" using sq_log_write Pair by metis
    moreover have "r = Inr ()" "d' = d\<lparr>cd_audit := rows\<rparr>" using assms Pair Inr by (auto simp: write_control_event_def)
    ultimately show thesis using written by (simp add: control_log_def)
  qed
qed

lemma control_record_cases:
  assumes "control_record args rnd d = (r, d')"
  obtains (suppressed) "0 < cd_depth d" "r = Inr ()" "d' = d"
  | (written) rows where "cd_depth d = 0" "r = Inr ()" "d' = d\<lparr>cd_audit := rows\<rparr>"
      "control_log d' = control_log d @ [build_control_audit_event args rnd]"
  | (raised) e where "r = Inl e" "d' = d"
proof (cases "0 < cd_depth d")
  case True
  then have "r = Inr ()" "d' = d" using assms by (auto simp: control_record_def)
  with True show thesis by (rule that(1))
next
  case False
  then have "write_control_event (build_control_audit_event args rnd) d = (r, d')"
    using assms by (simp add: control_record_def)
  then show thesis
  proof (cases rule: write_control_event_cases)
    case (written rows)
    then show thesis using False by (intro that(2)) simp_all
  qed (rule that(3))
qed

lemma composite_ok:
  assumes "composite body d = (Inr r, d')"
  obtains event d1 rows where "cd_depth d = 0" "cd_in_transaction d" "body (d\<lparr>cd_depth := 1\<rparr>) = (Inr (r, Some event), d1)"
    "d' = d1\<lparr>cd_depth := 0, cd_audit := rows\<rparr>" "control_log d' = control_log d1 @ [event]"
proof -
  from assms have g: "cd_depth d = 0" "cd_in_transaction d" by (auto simp: composite_def split: if_splits)
  obtain event d1 where b: "body (d\<lparr>cd_depth := 1\<rparr>) = (Inr (r, Some event), d1)"
    and w: "write_control_event event (d1\<lparr>cd_depth := 0\<rparr>) = (Inr (), d')"
    using assms g by (auto simp: composite_def split: prod.splits sum.splits option.splits if_splits)
  from w show thesis
  proof (cases rule: write_control_event_cases)
    case (written rows)
    then show thesis by (intro that [OF g b]) simp_all
  qed simp
qed

end
