(* ===== verification/Keys.thy ===== *)
theory Keys
  imports ControlAudit SubjectTokens Http
begin

section \<open>API keys\<close>

text \<open>
  \<^verbatim>\<open>src/vinctor_service/keys.py\<close> and \<^verbatim>\<open>key_ops.py\<close>: the SQLite table of local keys, their resolution
  to identities, their revocation, and the audited operations of the operator that rotate, revoke
  and create keys. A key is stored as the hash of its text only.

  The table is the list of its rows, in the order of insertion; \<^verbatim>\<open>key_id\<close> is its primary key and
  \<^verbatim>\<open>key_hash\<close> is unique. \<open>now\<close> is always given. \<open>rnd\<close> holds what \<^verbatim>\<open>token_urlsafe\<close> returns, in the order of
  the calls: the secret of a new key, its id, the id of the audit event.
\<close>

subsection \<open>Rows\<close>

record LocalKeyRecord =
  lk_key_id :: string
  lk_key_type :: string
  lk_workspace_id :: string
  lk_agent_id :: "string option"
  lk_key_hash :: string
  lk_key_prefix :: string
  lk_status :: string
  lk_created_at :: instant
  lk_last_used_at :: "instant option"
  lk_revoked_at :: "instant option"

record CreatedLocalKey =
  cl_raw_key :: string
  cl_record :: LocalKeyRecord

record key_db = control_db +
  kd_keys :: "LocalKeyRecord list"

definition WORKSPACE_KEY_PREFIX :: string where "WORKSPACE_KEY_PREFIX = ''wsk_''"
definition AUDITOR_KEY_PREFIX :: string where "AUDITOR_KEY_PREFIX = ''auk_''"
definition SERVICE_OPERATOR_KEY_PREFIX :: string where "SERVICE_OPERATOR_KEY_PREFIX = ''sok_''"
definition AGENT_KEY_PREFIX :: string where "AGENT_KEY_PREFIX = ''aak_''"
definition PEP_KEY_PREFIX :: string where "PEP_KEY_PREFIX = ''pep_''"
definition MIN_SEEDED_KEY_SECRET_LENGTH :: int where "MIN_SEEDED_KEY_SECRET_LENGTH = 32"

definition key_prefix :: "string \<Rightarrow> string" where
  "key_prefix raw_key =
     (case partition_on CHR ''_'' raw_key of (before, separator, _) \<Rightarrow> if separator \<noteq> [] then before @ separator else [])"

definition mask_key :: "string \<Rightarrow> string" where
  "mask_key raw_key =
     (if length raw_key \<le> 12 then key_prefix raw_key @ ''***''
      else take 8 raw_key @ ''...'' @ drop (length raw_key - 4) raw_key)"

definition validate_prefix :: "string \<Rightarrow> string \<Rightarrow> exn option" where
  "validate_prefix raw_key expected_prefix =
     (if startswith raw_key expected_prefix then None else Some (ValueError (''key must start with '' @ expected_prefix)))"

definition validate_seeded_key :: "string \<Rightarrow> string \<Rightarrow> exn option" where
  "validate_seeded_key raw_key expected_prefix =
     (case validate_prefix raw_key expected_prefix of
        Some e \<Rightarrow> Some e
      | None \<Rightarrow>
          if int (length (removeprefix raw_key expected_prefix)) < MIN_SEEDED_KEY_SECRET_LENGTH
          then Some (ValueError (''seeded key secret must be at least ''
                 @ py_str_int MIN_SEEDED_KEY_SECRET_LENGTH @ '' characters''))
          else None)"

definition require_compatible :: "LocalKeyRecord \<Rightarrow> string \<Rightarrow> string \<Rightarrow> string option \<Rightarrow> exn option" where
  "require_compatible record key_type workspace_id agent_id =
     (if lk_status record \<noteq> ''active'' then Some (ValueError ''key is revoked'')
      else if lk_key_type record \<noteq> key_type \<or> lk_workspace_id record \<noteq> workspace_id \<or> lk_agent_id record \<noteq> agent_id
      then Some (ValueError ''key has incompatible identity'')
      else None)"

subsection \<open>The repository\<close>

definition key_by_id :: "string \<Rightarrow> 'e key_db_scheme \<Rightarrow> LocalKeyRecord option" where
  "key_by_id key_id d = find_first (\<lambda>r. lk_key_id r = key_id) (kd_keys d)"

definition key_by_hash :: "string \<Rightarrow> 'e key_db_scheme \<Rightarrow> LocalKeyRecord option" where
  "key_by_hash h d = find_first (\<lambda>r. lk_key_hash r = h) (kd_keys d)"

definition update_key :: "string \<Rightarrow> (LocalKeyRecord \<Rightarrow> LocalKeyRecord) \<Rightarrow> 'e key_db_scheme \<Rightarrow> 'e key_db_scheme" where
  "update_key key_id f d = d\<lparr>kd_keys := map (\<lambda>r. if lk_key_id r = key_id then f r else r) (kd_keys d)\<rparr>"

definition insert_key :: "LocalKeyRecord \<Rightarrow> (unit, 'e key_db_scheme) operation" where
  "insert_key record d =
     (if \<exists>r\<in>set (kd_keys d). lk_key_id r = lk_key_id record \<or> lk_key_hash r = lk_key_hash record
      then (Inl (OtherException ''IntegrityError''), d)
      else (Inr (), d\<lparr>kd_keys := kd_keys d @ [record]\<rparr>))"

definition create_key ::
  "string \<Rightarrow> string \<Rightarrow> string option \<Rightarrow> string \<Rightarrow> instant \<Rightarrow> string option \<Rightarrow> entropy
     \<Rightarrow> (LocalKeyRecord, 'e key_db_scheme) operation" where
  "create_key key_type workspace_id agent_id raw_key now key_id rnd d =
     (let record = \<lparr>lk_key_id = py_or key_id (new_key ''lkey_'' (rnd 1)), lk_key_type = key_type,
                    lk_workspace_id = workspace_id, lk_agent_id = agent_id, lk_key_hash = hash_key raw_key,
                    lk_key_prefix = key_prefix raw_key, lk_status = ''active'', lk_created_at = now,
                    lk_last_used_at = None, lk_revoked_at = None\<rparr>
      in case write_scope (insert_key record) d of
           (Inl e, d') \<Rightarrow> (Inl e, d')
         | (Inr _, d') \<Rightarrow> (Inr record, d'))"

text \<open>What the five \<^verbatim>\<open>create_*_key\<close> methods share: the key is given or drawn, checked and stored.\<close>

definition create_prefixed_key ::
  "string \<Rightarrow> string \<Rightarrow> string \<Rightarrow> string option \<Rightarrow> string option \<Rightarrow> instant \<Rightarrow> string option \<Rightarrow> entropy
     \<Rightarrow> (CreatedLocalKey, 'e key_db_scheme) operation" where
  "create_prefixed_key expected_prefix key_type workspace_id agent_id raw_key now key_id rnd d =
     (let key = py_or raw_key (new_key expected_prefix (rnd 0))
      in case validate_prefix key expected_prefix of
           Some e \<Rightarrow> (Inl e, d)
         | None \<Rightarrow>
             (case create_key key_type workspace_id agent_id key now key_id rnd d of
                (Inl e, d') \<Rightarrow> (Inl e, d')
              | (Inr record, d') \<Rightarrow> (Inr \<lparr>cl_raw_key = key, cl_record = record\<rparr>, d')))"

definition create_workspace_key ::
  "string \<Rightarrow> string option \<Rightarrow> instant \<Rightarrow> string option \<Rightarrow> entropy \<Rightarrow> (CreatedLocalKey, 'e key_db_scheme) operation" where
  "create_workspace_key workspace_id = create_prefixed_key WORKSPACE_KEY_PREFIX ''workspace'' workspace_id None"

definition create_agent_key ::
  "string \<Rightarrow> string \<Rightarrow> string option \<Rightarrow> instant \<Rightarrow> string option \<Rightarrow> entropy
     \<Rightarrow> (CreatedLocalKey, 'e key_db_scheme) operation" where
  "create_agent_key workspace_id agent_id = create_prefixed_key AGENT_KEY_PREFIX ''agent'' workspace_id (Some agent_id)"

definition create_auditor_key ::
  "string \<Rightarrow> string option \<Rightarrow> instant \<Rightarrow> string option \<Rightarrow> entropy \<Rightarrow> (CreatedLocalKey, 'e key_db_scheme) operation" where
  "create_auditor_key workspace_id = create_prefixed_key AUDITOR_KEY_PREFIX ''auditor'' workspace_id None"

definition create_service_operator_key ::
  "string option \<Rightarrow> instant \<Rightarrow> string option \<Rightarrow> entropy \<Rightarrow> (CreatedLocalKey, 'e key_db_scheme) operation" where
  "create_service_operator_key = create_prefixed_key SERVICE_OPERATOR_KEY_PREFIX ''service_operator'' ''*'' None"

definition create_pep_key ::
  "string \<Rightarrow> string \<Rightarrow> string option \<Rightarrow> instant \<Rightarrow> string option \<Rightarrow> entropy
     \<Rightarrow> (CreatedLocalKey, 'e key_db_scheme) operation" where
  "create_pep_key workspace_id pep_id = create_prefixed_key PEP_KEY_PREFIX ''resource_server'' workspace_id (Some pep_id)"

definition get_by_raw_key ::
  "string \<Rightarrow> instant \<Rightarrow> bool \<Rightarrow> 'e key_db_scheme \<Rightarrow> LocalKeyRecord option \<times> 'e key_db_scheme" where
  "get_by_raw_key raw_key now touch d =
     (case key_by_hash (hash_key raw_key) d of
        None \<Rightarrow> (None, d)
      | Some record \<Rightarrow>
          if \<not> touch \<or> lk_status record \<noteq> ''active'' then (Some record, d)
          else (Some (record\<lparr>lk_last_used_at := Some now\<rparr>),
                update_key (lk_key_id record) (\<lambda>r. r\<lparr>lk_last_used_at := Some now\<rparr>) d))"

text \<open>What the three \<^verbatim>\<open>ensure_*_key\<close> methods share.\<close>

definition ensure_key ::
  "string \<Rightarrow> string \<Rightarrow> string \<Rightarrow> string option \<Rightarrow> string \<Rightarrow> instant
     \<Rightarrow> (string option \<Rightarrow> instant \<Rightarrow> string option \<Rightarrow> entropy \<Rightarrow> (CreatedLocalKey, 'e key_db_scheme) operation)
     \<Rightarrow> entropy \<Rightarrow> (LocalKeyRecord, 'e key_db_scheme) operation" where
  "ensure_key expected_prefix key_type workspace_id agent_id raw_key now create rnd d =
     (case validate_seeded_key raw_key expected_prefix of
        Some e \<Rightarrow> (Inl e, d)
      | None \<Rightarrow>
          (case get_by_raw_key raw_key now False d of
             (Some existing, d') \<Rightarrow>
               (case require_compatible existing key_type workspace_id agent_id of
                  Some e \<Rightarrow> (Inl e, d')
                | None \<Rightarrow> (Inr existing, d'))
           | (None, d') \<Rightarrow>
               (case create (Some raw_key) now None rnd d' of
                  (Inl e, d'') \<Rightarrow> (Inl e, d'')
                | (Inr created, d'') \<Rightarrow> (Inr (cl_record created), d''))))"

definition ensure_workspace_key ::
  "string \<Rightarrow> string \<Rightarrow> instant \<Rightarrow> entropy \<Rightarrow> (LocalKeyRecord, 'e key_db_scheme) operation" where
  "ensure_workspace_key workspace_id raw_key now =
     ensure_key WORKSPACE_KEY_PREFIX ''workspace'' workspace_id None raw_key now (create_workspace_key workspace_id)"

definition ensure_agent_key ::
  "string \<Rightarrow> string \<Rightarrow> string \<Rightarrow> instant \<Rightarrow> entropy \<Rightarrow> (LocalKeyRecord, 'e key_db_scheme) operation" where
  "ensure_agent_key workspace_id agent_id raw_key now =
     ensure_key AGENT_KEY_PREFIX ''agent'' workspace_id (Some agent_id) raw_key now (create_agent_key workspace_id agent_id)"

definition ensure_pep_key ::
  "string \<Rightarrow> string \<Rightarrow> string \<Rightarrow> instant \<Rightarrow> entropy \<Rightarrow> (LocalKeyRecord, 'e key_db_scheme) operation" where
  "ensure_pep_key workspace_id pep_id raw_key now =
     ensure_key PEP_KEY_PREFIX ''resource_server'' workspace_id (Some pep_id) raw_key now (create_pep_key workspace_id pep_id)"

text \<open>The record of a raw key, when it is active and of the given type.\<close>

definition resolve_record ::
  "string \<Rightarrow> string \<Rightarrow> instant \<Rightarrow> 'e key_db_scheme \<Rightarrow> LocalKeyRecord option \<times> 'e key_db_scheme" where
  "resolve_record key_type raw_key now d =
     (case get_by_raw_key raw_key now True d of
        (Some r, d') \<Rightarrow> (if lk_status r \<noteq> ''active'' \<or> lk_key_type r \<noteq> key_type then None else Some r, d')
      | (None, d') \<Rightarrow> (None, d'))"

definition key_workspace_identity ::
  "string \<Rightarrow> instant \<Rightarrow> 'e key_db_scheme \<Rightarrow> WorkspaceIdentity option \<times> 'e key_db_scheme" where
  "key_workspace_identity raw_key now d =
     map_prod (map_option (\<lambda>r. \<lparr>wi_workspace_id = lk_workspace_id r\<rparr>)) id (resolve_record ''workspace'' raw_key now d)"

definition key_auditor_identity ::
  "string \<Rightarrow> instant \<Rightarrow> 'e key_db_scheme \<Rightarrow> WorkspaceIdentity option \<times> 'e key_db_scheme" where
  "key_auditor_identity raw_key now d =
     map_prod (map_option (\<lambda>r. \<lparr>wi_workspace_id = lk_workspace_id r\<rparr>)) id (resolve_record ''auditor'' raw_key now d)"

definition key_service_operator :: "string \<Rightarrow> instant \<Rightarrow> 'e key_db_scheme \<Rightarrow> bool \<times> 'e key_db_scheme" where
  "key_service_operator raw_key now d =
     map_prod (\<lambda>r. r \<noteq> None) id (resolve_record ''service_operator'' raw_key now d)"

definition key_agent_identity :: "string \<Rightarrow> instant \<Rightarrow> 'e key_db_scheme \<Rightarrow> AgentIdentity option \<times> 'e key_db_scheme" where
  "key_agent_identity raw_key now d =
     map_prod (\<lambda>x. case x of
                 Some r \<Rightarrow> map_option (\<lambda>a. \<lparr>ai_workspace_id = lk_workspace_id r, ai_agent_id = a\<rparr>) (lk_agent_id r)
               | None \<Rightarrow> None) id (resolve_record ''agent'' raw_key now d)"

definition key_pep_identity :: "string \<Rightarrow> instant \<Rightarrow> 'e key_db_scheme \<Rightarrow> PepIdentity option \<times> 'e key_db_scheme" where
  "key_pep_identity raw_key now d =
     map_prod (\<lambda>x. case x of
                 Some r \<Rightarrow> map_option (\<lambda>a. \<lparr>pe_workspace_id = lk_workspace_id r, pe_pep_id = a\<rparr>) (lk_agent_id r)
               | None \<Rightarrow> None) id (resolve_record ''resource_server'' raw_key now d)"

definition revoke_row :: "instant \<Rightarrow> LocalKeyRecord \<Rightarrow> LocalKeyRecord" where
  "revoke_row now r = r\<lparr>lk_status := ''revoked'', lk_revoked_at := Some now\<rparr>"

definition revoke_key :: "string \<Rightarrow> instant \<Rightarrow> 'e key_db_scheme \<Rightarrow> LocalKeyRecord option \<times> 'e key_db_scheme" where
  "revoke_key key_id now d =
     (case key_by_id key_id d of
        None \<Rightarrow> (None, d)
      | Some record \<Rightarrow>
          if lk_status record = ''revoked'' then (Some record, d)
          else (Some (revoke_row now record), update_key key_id (revoke_row now) d))"

definition list_keys_for_workspace :: "string \<Rightarrow> 'e key_db_scheme \<Rightarrow> LocalKeyRecord list" where
  "list_keys_for_workspace workspace_id d =
     sort_key (\<lambda>r. (isoformat (lk_created_at r), lk_key_id r)) (filter (\<lambda>r. lk_workspace_id r = workspace_id) (kd_keys d))"

subsection \<open>Operations of the operator\<close>

definition EVENT_KEY_CREATED :: string where "EVENT_KEY_CREATED = ''key_created''"
definition EVENT_KEY_ROTATED :: string where "EVENT_KEY_ROTATED = ''key_rotated''"
definition EVENT_KEY_REVOKED :: string where "EVENT_KEY_REVOKED = ''key_revoked''"

text \<open>\<^verbatim>\<open>SQLiteLocalKeyRepository.transaction\<close>: it must own its transaction.\<close>

definition key_transaction :: "('r, 'e key_db_scheme) operation \<Rightarrow> ('r, 'e key_db_scheme) operation" where
  "key_transaction body d =
     (if cd_in_transaction d
      then (Inl (RuntimeError ''key rotation cannot run inside an open transaction; it must own its transaction so the plaintext is returned only after commit''), d)
      else write_scope body d)"

record RotationResult =
  rr_raw_key :: string
  rr_new_key_id :: string
  rr_revoked_key_ids :: "string list"

definition serialize_key_record :: "LocalKeyRecord \<Rightarrow> (string \<times> json) list" where
  "serialize_key_record record =
     [(''key_id'', JStr (lk_key_id record)), (''key_type'', JStr (lk_key_type record)),
      (''workspace_id'', JStr (lk_workspace_id record)), (''agent_id'', json_opt (lk_agent_id record)),
      (''key_prefix'', JStr (lk_key_prefix record)), (''status'', JStr (lk_status record)),
      (''created_at'', JStr (isoformat (lk_created_at record))),
      (''last_used_at'', json_opt (map_option isoformat (lk_last_used_at record))),
      (''revoked_at'', json_opt (map_option isoformat (lk_revoked_at record)))]"

definition later :: "entropy \<Rightarrow> nat \<Rightarrow> entropy" where
  "later rnd k = (\<lambda>n. rnd (n + k))"

fun revoke_each ::
  "instant \<Rightarrow> string \<Rightarrow> (LocalKeyRecord \<Rightarrow> bool) \<Rightarrow> LocalKeyRecord list \<Rightarrow> 'e key_db_scheme
     \<Rightarrow> string list \<times> 'e key_db_scheme" where
  "revoke_each now new_key_id keep [] d = ([], d)"
| "revoke_each now new_key_id keep (r # rs) d =
     (if lk_key_id r = new_key_id \<or> lk_status r \<noteq> ''active'' \<or> \<not> keep r then revoke_each now new_key_id keep rs d
      else (case revoke_each now new_key_id keep rs (snd (revoke_key (lk_key_id r) now d)) of
              (revoked, d') \<Rightarrow> (lk_key_id r # revoked, d')))"

definition revoke_prior ::
  "string \<Rightarrow> string \<Rightarrow> (LocalKeyRecord \<Rightarrow> bool) \<Rightarrow> instant \<Rightarrow> 'e key_db_scheme \<Rightarrow> string list \<times> 'e key_db_scheme" where
  "revoke_prior workspace_id new_key_id keep now d =
     revoke_each now new_key_id keep (list_keys_for_workspace workspace_id d) d"

definition record_rotation ::
  "string \<Rightarrow> CreatedLocalKey \<Rightarrow> string list \<Rightarrow> string \<Rightarrow> instant \<Rightarrow> string \<Rightarrow> string option \<Rightarrow> entropy
     \<Rightarrow> (unit, 'e key_db_scheme) operation" where
  "record_rotation action created revoked workspace_id now agent_id enforcing_principal rnd =
     control_record
       ((control EVENT_KEY_ROTATED workspace_id action
           (''key/'' @ lk_key_type (cl_record created) @ ''/'' @ lk_key_id (cl_record created))
           (''revoked='' @ py_str_int (int (length revoked))) now)
          \<lparr>ca_agent_id := agent_id, ca_enforcing_principal := enforcing_principal\<rparr>) rnd"

text \<open>
  What the five rotations share, from the check of the connections to the result: \<open>create\<close> mints
  the new key, \<open>keep\<close> selects the keys it replaces.
\<close>

definition rotation_body ::
  "(entropy \<Rightarrow> (CreatedLocalKey, 'e key_db_scheme) operation)
     \<Rightarrow> (LocalKeyRecord \<Rightarrow> bool) \<Rightarrow> string \<Rightarrow> string \<Rightarrow> string \<Rightarrow> instant \<Rightarrow> string option \<Rightarrow> entropy
     \<Rightarrow> (RotationResult, 'e key_db_scheme) operation" where
  "rotation_body create keep action workspace_id agent_id now enforcing_principal rnd d =
     (case create rnd d of
        (Inl e, d1) \<Rightarrow> (Inl e, d1)
      | (Inr created, d1) \<Rightarrow>
          (case revoke_prior workspace_id (lk_key_id (cl_record created)) keep now d1 of
             (revoked, d2) \<Rightarrow>
               (case record_rotation action created revoked workspace_id now agent_id enforcing_principal (later rnd 2) d2 of
                  (Inl e, d3) \<Rightarrow> (Inl e, d3)
                | (Inr _, d3) \<Rightarrow>
                    (Inr \<lparr>rr_raw_key = cl_raw_key created, rr_new_key_id = lk_key_id (cl_record created),
                          rr_revoked_key_ids = revoked\<rparr>, d3))))"

definition rotation ::
  "nat option \<Rightarrow> nat option \<Rightarrow> (entropy \<Rightarrow> (CreatedLocalKey, 'e key_db_scheme) operation)
     \<Rightarrow> (LocalKeyRecord \<Rightarrow> bool) \<Rightarrow> string \<Rightarrow> string \<Rightarrow> string \<Rightarrow> instant \<Rightarrow> string option \<Rightarrow> entropy
     \<Rightarrow> (RotationResult, 'e key_db_scheme) operation" where
  "rotation bound conn create keep action workspace_id agent_id now enforcing_principal rnd d =
     (case require_bound_to bound conn of
        Some e \<Rightarrow> (Inl e, d)
      | None \<Rightarrow> key_transaction (rotation_body create keep action workspace_id agent_id now enforcing_principal rnd) d)"

definition rotate_workspace_key ::
  "nat option \<Rightarrow> nat option \<Rightarrow> string \<Rightarrow> instant \<Rightarrow> string option \<Rightarrow> entropy \<Rightarrow> (RotationResult, 'e key_db_scheme) operation" where
  "rotate_workspace_key bound conn workspace_id now =
     rotation bound conn (create_workspace_key workspace_id None now None) (\<lambda>r. lk_key_type r = ''workspace'')
       ''rotate_workspace_key'' workspace_id [] now"

definition rotate_auditor_key ::
  "nat option \<Rightarrow> nat option \<Rightarrow> string \<Rightarrow> instant \<Rightarrow> string option \<Rightarrow> entropy \<Rightarrow> (RotationResult, 'e key_db_scheme) operation" where
  "rotate_auditor_key bound conn workspace_id now =
     rotation bound conn (create_auditor_key workspace_id None now None) (\<lambda>r. lk_key_type r = ''auditor'')
       ''rotate_auditor_key'' workspace_id [] now"

definition rotate_service_operator_key ::
  "nat option \<Rightarrow> nat option \<Rightarrow> instant \<Rightarrow> string option \<Rightarrow> entropy \<Rightarrow> (RotationResult, 'e key_db_scheme) operation" where
  "rotate_service_operator_key bound conn now =
     rotation bound conn (create_service_operator_key None now None) (\<lambda>r. lk_key_type r = ''service_operator'')
       ''rotate_service_operator_key'' ''*'' [] now"

definition rotate_agent_key ::
  "nat option \<Rightarrow> nat option \<Rightarrow> string \<Rightarrow> string \<Rightarrow> instant \<Rightarrow> string option \<Rightarrow> entropy
     \<Rightarrow> (RotationResult, 'e key_db_scheme) operation" where
  "rotate_agent_key bound conn workspace_id agent_id now =
     rotation bound conn (create_agent_key workspace_id agent_id None now None)
       (\<lambda>r. lk_key_type r = ''agent'' \<and> lk_agent_id r = Some agent_id) ''rotate_agent_key'' workspace_id agent_id now"

definition rotate_pep_key ::
  "nat option \<Rightarrow> nat option \<Rightarrow> string \<Rightarrow> string \<Rightarrow> instant \<Rightarrow> string option \<Rightarrow> entropy
     \<Rightarrow> (RotationResult, 'e key_db_scheme) operation" where
  "rotate_pep_key bound conn workspace_id pep_id now =
     rotation bound conn (create_pep_key workspace_id pep_id None now None)
       (\<lambda>r. lk_key_type r = ''resource_server'' \<and> lk_agent_id r = Some pep_id) ''rotate_pep_key'' workspace_id pep_id now"

definition revoke_local_key ::
  "nat option \<Rightarrow> nat option \<Rightarrow> string \<Rightarrow> instant \<Rightarrow> string option \<Rightarrow> entropy
     \<Rightarrow> (LocalKeyRecord option, 'e key_db_scheme) operation" where
  "revoke_local_key bound conn key_id now enforcing_principal rnd d =
     (case require_bound_to bound conn of
        Some e \<Rightarrow> (Inl e, d)
      | None \<Rightarrow>
          key_transaction (\<lambda>d.
            case key_by_id key_id d of
              None \<Rightarrow> (Inr None, d)
            | Some existing \<Rightarrow>
                if lk_status existing = ''revoked'' then (Inr (Some existing), d)
                else (case revoke_key key_id now d of
                        (record, d1) \<Rightarrow>
                          (case control_record
                                  ((control EVENT_KEY_REVOKED (lk_workspace_id existing) ''revoke_key''
                                      (''key/'' @ lk_key_type existing @ ''/'' @ key_id) ''status=revoked'' now)
                                     \<lparr>ca_enforcing_principal := enforcing_principal\<rparr>) rnd d1 of
                             (Inl e, d2) \<Rightarrow> (Inl e, d2)
                           | (Inr _, d2) \<Rightarrow> (Inr record, d2)))) d)"

definition create_pep_local_key ::
  "nat option \<Rightarrow> nat option \<Rightarrow> string \<Rightarrow> string \<Rightarrow> instant \<Rightarrow> string option \<Rightarrow> entropy
     \<Rightarrow> (CreatedLocalKey, 'e key_db_scheme) operation" where
  "create_pep_local_key bound conn workspace_id pep_id now enforcing_principal rnd d =
     (case require_bound_to bound conn of
        Some e \<Rightarrow> (Inl e, d)
      | None \<Rightarrow>
          key_transaction (\<lambda>d.
            case create_pep_key workspace_id pep_id None now None rnd d of
              (Inl e, d1) \<Rightarrow> (Inl e, d1)
            | (Inr created, d1) \<Rightarrow>
                (case control_record
                        ((control EVENT_KEY_CREATED workspace_id ''create_pep_key''
                            (''key/'' @ lk_key_type (cl_record created) @ ''/'' @ lk_key_id (cl_record created))
                            ''status=active'' now)
                           \<lparr>ca_agent_id := pep_id, ca_enforcing_principal := enforcing_principal\<rparr>) (later rnd 2) d1 of
                   (Inl e, d2) \<Rightarrow> (Inl e, d2)
                 | (Inr _, d2) \<Rightarrow> (Inr created, d2))) d)"

subsection \<open>A key never changes hands\<close>

text \<open>
  What may happen to a row: its identity stays, and it does not become active again.
\<close>

definition kept :: "LocalKeyRecord \<Rightarrow> LocalKeyRecord \<Rightarrow> bool" where
  "kept r r' \<longleftrightarrow>
     lk_key_id r' = lk_key_id r \<and> lk_key_type r' = lk_key_type r \<and> lk_workspace_id r' = lk_workspace_id r
     \<and> lk_agent_id r' = lk_agent_id r \<and> lk_key_hash r' = lk_key_hash r
     \<and> (lk_status r \<noteq> ''active'' \<longrightarrow> lk_status r' \<noteq> ''active'')"

definition evolves :: "'e key_db_scheme \<Rightarrow> 'e key_db_scheme \<Rightarrow> bool" where
  "evolves d d' \<longleftrightarrow> (\<forall>h r. key_by_hash h d = Some r \<longrightarrow> (\<exists>r'. key_by_hash h d' = Some r' \<and> kept r r'))"

lemma kept_refl [simp]: "kept r r"
  by (simp add: kept_def)

lemma kept_trans: "kept r r' \<Longrightarrow> kept r' r'' \<Longrightarrow> kept r r''"
  by (simp add: kept_def)

lemma evolves_refl: "evolves d d"
  by (simp add: evolves_def)

lemma evolves_trans: "evolves d d' \<Longrightarrow> evolves d' d'' \<Longrightarrow> evolves d d''"
  unfolding evolves_def by (meson kept_trans)

lemma evolves_same: "kd_keys d' = kd_keys d \<Longrightarrow> evolves d d'"
  by (simp add: evolves_def key_by_hash_def)

lemma key_by_hash_update:
  assumes "\<And>r. lk_key_hash (f r) = lk_key_hash r"
  shows "key_by_hash h (update_key k f d) = map_option (\<lambda>r. if lk_key_id r = k then f r else r) (key_by_hash h d)"
proof -
  have "find_first (\<lambda>r. lk_key_hash r = h) (map (\<lambda>r. if lk_key_id r = k then f r else r) rs)
      = map_option (\<lambda>r. if lk_key_id r = k then f r else r) (find_first (\<lambda>r. lk_key_hash r = h) rs)" for rs
    by (induction rs) (auto simp: assms)
  then show ?thesis by (simp add: key_by_hash_def update_key_def)
qed

lemma evolves_update: "(\<And>r. kept r (f r)) \<Longrightarrow> evolves d (update_key k f d)"
  by (auto simp: evolves_def key_by_hash_update kept_def)

lemma evolves_insert: "insert_key record d = (r, d') \<Longrightarrow> evolves d d'"
  by (auto simp: insert_key_def evolves_def key_by_hash_def find_first_append split: if_splits)

lemma evolves_write_scope:
  assumes "\<And>d r d'. body d = (r, d') \<Longrightarrow> evolves d d'" "write_scope body d = (r, d')"
  shows "evolves d d'"
proof (cases "cd_in_transaction d")
  case False
  obtain x d1 where b: "body (d\<lparr>cd_in_transaction := True\<rparr>) = (x, d1)" by (meson surj_pair)
  from assms(1) [OF this] have "evolves d (d1\<lparr>cd_in_transaction := False\<rparr>)"
    by (simp add: evolves_def key_by_hash_def)
  with assms(2) b False show ?thesis by (cases x) (auto simp: write_scope_def evolves_refl)
qed (use assms in simp)

lemma evolves_insert_scope: "write_scope (insert_key record) d = (r, d') \<Longrightarrow> evolves d d'"
  by (rule evolves_write_scope [OF evolves_insert])

lemma evolves_create_key: "create_key ty w a raw now kid rnd d = (r, d') \<Longrightarrow> evolves d d'"
  by (auto simp: create_key_def Let_def dest: evolves_insert_scope split: prod.splits sum.splits)

lemma evolves_create: "create_prefixed_key p ty w a raw now kid rnd d = (r, d') \<Longrightarrow> evolves d d'"
  by (auto simp: create_prefixed_key_def Let_def evolves_refl dest: evolves_create_key
      split: prod.splits sum.splits option.splits)

lemmas create_defs = create_workspace_key_def create_agent_key_def create_auditor_key_def
  create_service_operator_key_def create_pep_key_def

lemma evolves_touch: "get_by_raw_key raw now touch d = (r, d') \<Longrightarrow> evolves d d'"
  by (auto simp: get_by_raw_key_def evolves_refl kept_def intro!: evolves_update split: option.splits if_splits)

lemma evolves_ensure:
  assumes "ensure_key p ty w a raw now create rnd d = (r, d')"
    and "\<And>k now kid rnd d r d'. create k now kid rnd d = (r, d') \<Longrightarrow> evolves d d'"
  shows "evolves d d'"
  using assms(1)
  by (auto simp: ensure_key_def evolves_refl dest: evolves_touch assms(2)
      intro: evolves_trans split: option.splits prod.splits sum.splits)

lemma evolves_resolve: "resolve_record ty raw now d = (r, d') \<Longrightarrow> evolves d d'"
  by (auto simp: resolve_record_def dest: evolves_touch split: prod.splits option.splits)

lemma evolves_revoke: "revoke_key k now d = (r, d') \<Longrightarrow> evolves d d'"
  by (auto simp: revoke_key_def evolves_refl kept_def revoke_row_def intro!: evolves_update split: option.splits if_splits)

lemma evolves_record: "control_record args rnd d = (r, d') \<Longrightarrow> evolves d d'"
  by (erule control_record_cases) (auto simp: evolves_refl intro: evolves_same)

lemma evolves_revoke_each: "revoke_each now new keep rs d = (ids, d') \<Longrightarrow> evolves d d'"
proof (induction now new keep rs d arbitrary: ids d' rule: revoke_each.induct)
  case (2 now new keep r rs d)
  have "evolves d (snd (revoke_key (lk_key_id r) now d))" by (metis evolves_revoke prod.collapse)
  with 2 show ?case by (auto split: if_splits prod.splits intro: evolves_trans)
qed (simp add: evolves_refl)

lemma evolves_rotation:
  assumes "rotation bound conn create keep action w a now p rnd d = (r, d')"
    and "\<And>rnd d r d'. create rnd d = (r, d') \<Longrightarrow> evolves d d'"
  shows "evolves d d'"
proof -
  have body: "evolves d d'" if "rotation_body create keep action w a now p rnd d = (r, d')" for d r d'
  proof -
    obtain x d1 where c: "create rnd d = (x, d1)" by (meson surj_pair)
    show ?thesis
    proof (cases x)
      case (Inr created)
      obtain ids d2 where v: "revoke_prior w (lk_key_id (cl_record created)) keep now d1 = (ids, d2)" by (meson surj_pair)
      obtain y d3 where rec: "record_rotation action created ids w now a p (later rnd 2) d2 = (y, d3)" by (meson surj_pair)
      have "evolves d d1" "evolves d1 d2" "evolves d2 d3"
        using assms(2) [OF c] evolves_revoke_each v evolves_record rec
        by (auto simp: revoke_prior_def record_rotation_def)
      then have "evolves d d3" by (blast intro: evolves_trans)
      with that c Inr v rec show ?thesis by (cases y) (auto simp: rotation_body_def)
    qed (use that c assms(2) [OF c] in \<open>auto simp: rotation_body_def\<close>)
  qed
  show ?thesis
    using assms(1) evolves_write_scope [OF body]
    by (auto simp: rotation_def key_transaction_def evolves_refl split: option.splits if_splits)
qed

end
