(* ===== verification/KeyHistory.thy ===== *)
theory KeyHistory
  imports Keys
begin

section \<open>What keys guarantee\<close>

text \<open>
  Properties of \<open>Keys\<close> over sequences of operations: a key stands for one identity for ever and a
  revoked key is dead; a rotation leaves the new key as the only live one of its class, touches no
  other key and is recorded once, or does nothing.
\<close>

subsection \<open>Histories\<close>

inductive key_step :: "key_db \<Rightarrow> key_db \<Rightarrow> bool" where
  "create_workspace_key w raw now kid rnd d = (r, d') \<Longrightarrow> key_step d d'"
| "create_agent_key w a raw now kid rnd d = (r, d') \<Longrightarrow> key_step d d'"
| "create_auditor_key w raw now kid rnd d = (r, d') \<Longrightarrow> key_step d d'"
| "create_service_operator_key raw now kid rnd d = (r, d') \<Longrightarrow> key_step d d'"
| "create_pep_key w a raw now kid rnd d = (r, d') \<Longrightarrow> key_step d d'"
| "ensure_workspace_key w raw' now rnd d = (r', d') \<Longrightarrow> key_step d d'"
| "ensure_agent_key w a raw' now rnd d = (r', d') \<Longrightarrow> key_step d d'"
| "ensure_pep_key w a raw' now rnd d = (r', d') \<Longrightarrow> key_step d d'"
| "resolve_record ty raw' now d = (r'', d') \<Longrightarrow> key_step d d'"
| "revoke_key kid' now d = (r'', d') \<Longrightarrow> key_step d d'"
| "rotate_workspace_key b c w now p rnd d = (res, d') \<Longrightarrow> key_step d d'"
| "rotate_auditor_key b c w now p rnd d = (res, d') \<Longrightarrow> key_step d d'"
| "rotate_service_operator_key b c now p rnd d = (res, d') \<Longrightarrow> key_step d d'"
| "rotate_agent_key b c w a now p rnd d = (res, d') \<Longrightarrow> key_step d d'"
| "rotate_pep_key b c w a now p rnd d = (res, d') \<Longrightarrow> key_step d d'"
| "revoke_local_key b c kid' now p rnd d = (res', d') \<Longrightarrow> key_step d d'"
| "create_pep_local_key b c w a now p rnd d = (r, d') \<Longrightarrow> key_step d d'"

lemma evolves_key_transaction:
  assumes "key_transaction body d = (r, d')" "\<And>d r d'. body d = (r, d') \<Longrightarrow> evolves d d'"
  shows "evolves d d'"
  using assms(1) evolves_write_scope [OF assms(2)]
  by (auto simp: key_transaction_def evolves_refl split: if_splits)

lemma evolves_revoke_local: "revoke_local_key b c k now p rnd d = (r, d') \<Longrightarrow> evolves d d'"
  unfolding revoke_local_key_def
  by (auto split: option.splits simp: evolves_refl elim!: evolves_key_transaction)
    (auto simp: evolves_refl split: option.splits if_splits prod.splits sum.splits
      intro: evolves_trans dest!: evolves_revoke evolves_record)

lemma evolves_create_local: "create_pep_local_key b c w a now p rnd d = (r, d') \<Longrightarrow> evolves d d'"
  unfolding create_pep_local_key_def create_defs
  by (auto split: option.splits simp: evolves_refl elim!: evolves_key_transaction)
    (auto simp: evolves_refl split: prod.splits sum.splits intro: evolves_trans dest!: evolves_create evolves_record)

lemma key_step_evolves: "key_step d d' \<Longrightarrow> evolves d d'"
proof (induction rule: key_step.induct)
  case (9 ty raw' now d r'' d')
  then show ?case by (rule evolves_resolve)
next
  case (10 kid' now d r'' d')
  then show ?case by (rule evolves_revoke)
qed (auto simp: create_defs ensure_workspace_key_def ensure_agent_key_def ensure_pep_key_def
    rotate_workspace_key_def rotate_auditor_key_def rotate_service_operator_key_def rotate_agent_key_def rotate_pep_key_def
    intro: evolves_create evolves_revoke_local evolves_create_local
    elim!: evolves_ensure evolves_rotation)

lemma history_evolves: "key_step\<^sup>*\<^sup>* d d' \<Longrightarrow> evolves d d'"
  by (induction rule: rtranclp_induct) (auto intro: evolves_refl evolves_trans key_step_evolves)

text \<open>Whom a raw key stands for, whatever the type that is asked for.\<close>

definition stands_for :: "string \<Rightarrow> 'e key_db_scheme \<Rightarrow> (string \<times> string \<times> string option) option" where
  "stands_for raw_key d =
     (case key_by_hash (hash_key raw_key) d of
        Some r \<Rightarrow> if lk_status r = ''active'' then Some (lk_key_type r, lk_workspace_id r, lk_agent_id r) else None
      | None \<Rightarrow> None)"

lemma resolve_record_stands_for:
  "fst (resolve_record ty raw now d) = Some r \<longleftrightarrow>
     (\<exists>row. key_by_hash (hash_key raw) d = Some row \<and> lk_status row = ''active'' \<and> lk_key_type row = ty
       \<and> r = row\<lparr>lk_last_used_at := Some now\<rparr>)"
  by (auto simp: resolve_record_def get_by_raw_key_def split: option.splits)

lemma resolvers_stand_for:
  "fst (key_workspace_identity raw now d) = Some \<lparr>wi_workspace_id = w\<rparr> \<longleftrightarrow>
     (\<exists>a. stands_for raw d = Some (''workspace'', w, a))"
  "fst (key_auditor_identity raw now d) = Some \<lparr>wi_workspace_id = w\<rparr> \<longleftrightarrow>
     (\<exists>a. stands_for raw d = Some (''auditor'', w, a))"
  "fst (key_service_operator raw now d) \<longleftrightarrow> (\<exists>w a. stands_for raw d = Some (''service_operator'', w, a))"
  "fst (key_agent_identity raw now d) = Some \<lparr>ai_workspace_id = w, ai_agent_id = a\<rparr> \<longleftrightarrow>
     stands_for raw d = Some (''agent'', w, Some a)"
  "fst (key_pep_identity raw now d) = Some \<lparr>pe_workspace_id = w, pe_pep_id = a\<rparr> \<longleftrightarrow>
     stands_for raw d = Some (''resource_server'', w, Some a)"
  by (auto simp: key_workspace_identity_def key_auditor_identity_def key_service_operator_def key_agent_identity_def
      key_pep_identity_def stands_for_def resolve_record_def get_by_raw_key_def split: option.splits if_splits)

text \<open>
  (C10) Whatever operations follow, a stored key resolves to nothing or to the
  very identity it was stored with: no operation gives it another type, workspace, agent or
  enforcement point, and a key that is not active never resolves again.
\<close>

theorem keys_never_change_hands:
  assumes "key_step\<^sup>*\<^sup>* d d'" and "key_by_hash (hash_key raw) d = Some r"
  shows "(fst (key_workspace_identity raw now d') = Some i \<longrightarrow>
            lk_status r = ''active'' \<and> lk_key_type r = ''workspace'' \<and> wi_workspace_id i = lk_workspace_id r)
         \<and> (fst (key_auditor_identity raw now d') = Some i \<longrightarrow>
            lk_status r = ''active'' \<and> lk_key_type r = ''auditor'' \<and> wi_workspace_id i = lk_workspace_id r)
         \<and> (fst (key_service_operator raw now d') \<longrightarrow> lk_status r = ''active'' \<and> lk_key_type r = ''service_operator'')
         \<and> (fst (key_agent_identity raw now d') = Some a \<longrightarrow>
            lk_status r = ''active'' \<and> lk_key_type r = ''agent'' \<and> ai_workspace_id a = lk_workspace_id r
            \<and> lk_agent_id r = Some (ai_agent_id a))
         \<and> (fst (key_pep_identity raw now d') = Some p \<longrightarrow>
            lk_status r = ''active'' \<and> lk_key_type r = ''resource_server'' \<and> pe_workspace_id p = lk_workspace_id r
            \<and> lk_agent_id r = Some (pe_pep_id p))"
proof -
  obtain r' where r': "key_by_hash (hash_key raw) d' = Some r'" "kept r r'"
    using history_evolves [OF assms(1)] assms(2) by (auto simp: evolves_def)
  then have *: "stands_for raw d' = Some (ty, w, x) \<Longrightarrow>
      lk_status r = ''active'' \<and> lk_key_type r = ty \<and> lk_workspace_id r = w \<and> lk_agent_id r = x" for ty w x
    by (auto simp: stands_for_def kept_def split: if_splits)
  show ?thesis
    by (cases i; cases a; cases p) (auto simp: resolvers_stand_for dest!: *)
qed

subsection \<open>A table\<close>

lemma length_hash_key [simp]: "length (hash_key raw) = 64"
proof -
  have "length (hexdigest bs) = 2 * length bs" for bs
    by (induction bs) (simp_all add: hexdigest_def)
  then show ?thesis by (simp add: hash_key_def)
qed

lemma hash_key_neq: "length h \<noteq> 64 \<Longrightarrow> h \<noteq> hash_key raw"
  by (metis length_hash_key)

definition example_row :: "string \<Rightarrow> string \<Rightarrow> string option \<Rightarrow> string \<Rightarrow> LocalKeyRecord" where
  "example_row key_id key_type agent_id key_hash =
     \<lparr>lk_key_id = key_id, lk_key_type = key_type, lk_workspace_id = ''ws'', lk_agent_id = agent_id, lk_key_hash = key_hash,
      lk_key_prefix = [], lk_status = ''active'', lk_created_at = 0, lk_last_used_at = None, lk_revoked_at = None\<rparr>"

definition example_keys :: key_db where
  "example_keys =
     \<lparr>cd_in_transaction = False, cd_depth = 0, cd_audit = [],
      kd_keys = [example_row ''k1'' ''agent'' (Some ''a1'') ''h1'', example_row ''k2'' ''agent'' (Some ''a2'') ''h2'',
                 example_row ''k3'' ''workspace'' None (hash_key ''wsk_3'')]\<rparr>"

text \<open>The workspace key resolves, and no longer once it is revoked.\<close>

theorem keys_never_change_hands_witness:
  "\<not> fst (key_service_operator ''wsk_3'' 5 (snd (revoke_key ''k3'' 4 example_keys)))
   \<and> fst (key_workspace_identity ''wsk_3'' 5 (snd (revoke_key ''k3'' 4 example_keys))) \<noteq> Some \<lparr>wi_workspace_id = ''other''\<rparr>"
proof -
  have "key_step example_keys (snd (revoke_key ''k3'' 4 example_keys))"
    by (rule key_step.intros(10)) (rule prod.collapse [symmetric])
  then have *: "key_step\<^sup>*\<^sup>* example_keys (snd (revoke_key ''k3'' 4 example_keys))" by (rule r_into_rtranclp)
  have row: "key_by_hash (hash_key ''wsk_3'') example_keys = Some (example_row ''k3'' ''workspace'' None (hash_key ''wsk_3''))"
    by (simp add: key_by_hash_def example_keys_def example_row_def hash_key_neq)
  show ?thesis using keys_never_change_hands [OF * row, of 5 "\<lparr>wi_workspace_id = ''other''\<rparr>"] by (auto simp: example_row_def)
qed

subsection \<open>Rotation\<close>

definition keys_ok :: "'e key_db_scheme \<Rightarrow> bool" where
  "keys_ok d \<longleftrightarrow> distinct (map lk_key_id (kd_keys d)) \<and> distinct (map lk_key_hash (kd_keys d))"

datatype key_class =
    WorkspaceClass string
  | AuditorClass string
  | OperatorClass
  | AgentClass string string
  | PepClass string string

fun rotate ::
  "key_class \<Rightarrow> nat option \<Rightarrow> nat option \<Rightarrow> instant \<Rightarrow> string option \<Rightarrow> entropy \<Rightarrow> (RotationResult, 'e key_db_scheme) operation" where
  "rotate (WorkspaceClass w) b c = rotate_workspace_key b c w"
| "rotate (AuditorClass w) b c = rotate_auditor_key b c w"
| "rotate OperatorClass b c = rotate_service_operator_key b c"
| "rotate (AgentClass w a) b c = rotate_agent_key b c w a"
| "rotate (PepClass w a) b c = rotate_pep_key b c w a"

fun in_class :: "key_class \<Rightarrow> LocalKeyRecord \<Rightarrow> bool" where
  "in_class (WorkspaceClass w) r \<longleftrightarrow> lk_key_type r = ''workspace'' \<and> lk_workspace_id r = w"
| "in_class (AuditorClass w) r \<longleftrightarrow> lk_key_type r = ''auditor'' \<and> lk_workspace_id r = w"
| "in_class OperatorClass r \<longleftrightarrow> lk_key_type r = ''service_operator'' \<and> lk_workspace_id r = ''*''"
| "in_class (AgentClass w a) r \<longleftrightarrow> lk_key_type r = ''agent'' \<and> lk_workspace_id r = w \<and> lk_agent_id r = Some a"
| "in_class (PepClass w a) r \<longleftrightarrow> lk_key_type r = ''resource_server'' \<and> lk_workspace_id r = w \<and> lk_agent_id r = Some a"

lemma find_first_row: "distinct (map f xs) \<Longrightarrow> x \<in> set xs \<Longrightarrow> find_first (\<lambda>y. f y = f x) xs = Some x"
  by (induction xs) (auto simp: image_iff)

lemma distinct_map_sort_filter: "distinct (map f xs) \<Longrightarrow> distinct (map f (sort_key g (filter P xs)))"
  by (simp add: distinct_map inj_on_def)

lemma revoke_key_row:
  assumes "distinct (map lk_key_id (kd_keys d))" "r \<in> set (kd_keys d)" "lk_status r = ''active''"
  shows "snd (revoke_key (lk_key_id r) now d) = update_key (lk_key_id r) (revoke_row now) d"
  using find_first_row [OF assms(1,2)] assms(3) by (simp add: revoke_key_def key_by_id_def)

lemma revoke_row_id [simp]: "lk_key_id (revoke_row now r) = lk_key_id r" "lk_key_hash (revoke_row now r) = lk_key_hash r"
  "lk_status (revoke_row now r) = ''revoked''"
  by (simp_all add: revoke_row_def)

definition replaced :: "string \<Rightarrow> (LocalKeyRecord \<Rightarrow> bool) \<Rightarrow> LocalKeyRecord \<Rightarrow> bool" where
  "replaced new_key_id keep r \<longleftrightarrow> lk_key_id r \<noteq> new_key_id \<and> lk_status r = ''active'' \<and> keep r"

definition revoke_ids :: "instant \<Rightarrow> string set \<Rightarrow> LocalKeyRecord list \<Rightarrow> LocalKeyRecord list" where
  "revoke_ids now ids rs = map (\<lambda>x. if lk_key_id x \<in> ids then revoke_row now x else x) rs"

lemma revoke_each_eq:
  assumes "distinct (map lk_key_id rs)" "set rs \<subseteq> set (kd_keys d)" "distinct (map lk_key_id (kd_keys d))"
  shows "revoke_each now new keep rs d =
    (map lk_key_id (filter (replaced new keep) rs),
     d\<lparr>kd_keys := revoke_ids now (lk_key_id ` set (filter (replaced new keep) rs)) (kd_keys d)\<rparr>)"
  using assms
proof (induction rs arbitrary: d)
  case Nil
  then show ?case by (simp add: revoke_ids_def)
next
  case (Cons r rs)
  show ?case
  proof (cases "replaced new keep r")
    case True
    let ?d = "update_key (lk_key_id r) (revoke_row now) d"
    have k: "kd_keys ?d = revoke_ids now {lk_key_id r} (kd_keys d)" by (auto simp: update_key_def revoke_ids_def)
    have ids: "map lk_key_id (kd_keys ?d) = map lk_key_id (kd_keys d)" by (simp add: k revoke_ids_def)
    have "set rs \<subseteq> set (kd_keys ?d)"
    proof
      fix x assume x: "x \<in> set rs"
      then have "lk_key_id x \<in> lk_key_id ` set rs" by (rule imageI)
      moreover have "lk_key_id r \<notin> lk_key_id ` set rs" using Cons.prems(1) by simp
      ultimately have "lk_key_id x \<noteq> lk_key_id r" by metis
      moreover have "x \<in> set (kd_keys d)" using Cons.prems(2) x by auto
      ultimately show "x \<in> set (kd_keys ?d)" by (force simp: k revoke_ids_def)
    qed
    with Cons.IH [of ?d] Cons.prems ids have
      "revoke_each now new keep rs ?d = (map lk_key_id (filter (replaced new keep) rs),
         ?d\<lparr>kd_keys := revoke_ids now (lk_key_id ` set (filter (replaced new keep) rs)) (kd_keys ?d)\<rparr>)" by simp
    moreover have "snd (revoke_key (lk_key_id r) now d) = ?d"
      using revoke_key_row [of d r now] Cons.prems True by (simp add: replaced_def)
    moreover have "revoke_ids now X (kd_keys ?d) = revoke_ids now (insert (lk_key_id r) X) (kd_keys d)"
      if "lk_key_id r \<notin> X" for X
      using that by (auto simp: k revoke_ids_def)
    moreover have "lk_key_id r \<notin> lk_key_id ` set (filter (replaced new keep) rs)" using Cons.prems by auto
    moreover have "lk_key_id r \<noteq> new" "lk_status r = ''active''" "keep r" using True by (simp_all add: replaced_def)
    ultimately show ?thesis using True by (simp add: update_key_def)
  next
    case False
    with Cons.IH [of d] Cons.prems show ?thesis by (auto simp: replaced_def)
  qed
qed

text \<open>What a rotation does when it commits.\<close>

lemma rotation_commits:
  assumes "rotation bound conn (create_prefixed_key pf ty w a None now None) keep action w aid now p rnd d = (Inr r, d')"
    and "keys_ok d" "at_rest d"
  obtains row where "lk_key_id row = rr_new_key_id r" "lk_key_type row = ty" "lk_workspace_id row = w" "lk_agent_id row = a"
    "lk_key_hash row = hash_key (rr_raw_key r)" "lk_status row = ''active''"
    "lk_key_id row \<notin> lk_key_id ` set (kd_keys d)" "lk_key_hash row \<notin> lk_key_hash ` set (kd_keys d)"
    "set (rr_revoked_key_ids r) = lk_key_id ` {x\<in>set (kd_keys d). lk_workspace_id x = w \<and> lk_status x = ''active'' \<and> keep x}"
    "kd_keys d' = revoke_ids now (set (rr_revoked_key_ids r)) (kd_keys d) @ [row]"
    "control_log d' = control_log d @ [build_control_audit_event
       ((control EVENT_KEY_ROTATED w action (''key/'' @ ty @ ''/'' @ rr_new_key_id r)
          (''revoked='' @ py_str_int (int (length (rr_revoked_key_ids r)))) now)
        \<lparr>ca_agent_id := aid, ca_enforcing_principal := p\<rparr>) (later rnd 2)]"
    "at_rest d'"
proof -
  let ?raw = "new_key pf (rnd 0)"
  define row where "row = \<lparr>lk_key_id = new_key ''lkey_'' (rnd 1), lk_key_type = ty, lk_workspace_id = w, lk_agent_id = a,
    lk_key_hash = hash_key ?raw, lk_key_prefix = key_prefix ?raw, lk_status = ''active'', lk_created_at = now,
    lk_last_used_at = None, lk_revoked_at = None\<rparr>"
  let ?d0 = "d\<lparr>cd_in_transaction := True\<rparr>"
  let ?d1 = "?d0\<lparr>kd_keys := kd_keys d @ [row]\<rparr>"
  obtain d3 where body: "rotation_body (create_prefixed_key pf ty w a None now None) keep action w aid now p rnd ?d0 = (Inr r, d3)"
    and d': "d' = d3\<lparr>cd_in_transaction := False\<rparr>"
    using assms(1,3)
    by (auto simp: rotation_def key_transaction_def at_rest_def split: option.splits elim!: write_scope_ok)
  have fresh: "\<forall>x\<in>set (kd_keys d). lk_key_id x \<noteq> lk_key_id row \<and> lk_key_hash x \<noteq> lk_key_hash row"
    and created: "create_prefixed_key pf ty w a None now None rnd ?d0 = (Inr \<lparr>cl_raw_key = ?raw, cl_record = row\<rparr>, ?d1)"
    using body
    by (auto simp: rotation_body_def create_prefixed_key_def create_key_def insert_key_def Let_def row_def py_or_def
        split: option.splits if_splits prod.splits sum.splits)
  let ?rs = "list_keys_for_workspace w ?d1"
  have d1ids: "distinct (map lk_key_id (kd_keys ?d1))" using assms(2) fresh by (auto simp: keys_ok_def)
  have rs1: "set ?rs \<subseteq> set (kd_keys ?d1)" by (auto simp: list_keys_for_workspace_def)
  have rs2: "distinct (map lk_key_id ?rs)"
    unfolding list_keys_for_workspace_def by (rule distinct_map_sort_filter [OF d1ids])
  let ?ids = "map lk_key_id (filter (replaced (lk_key_id row) keep) ?rs)"
  have idset: "set ?ids = lk_key_id ` {x\<in>set (kd_keys d). lk_workspace_id x = w \<and> lk_status x = ''active'' \<and> keep x}"
    using fresh by (auto simp: list_keys_for_workspace_def replaced_def)
  have revoked: "revoke_prior w (lk_key_id row) keep now ?d1
      = (?ids, ?d1\<lparr>kd_keys := revoke_ids now (set ?ids) (kd_keys ?d1)\<rparr>)"
    using revoke_each_eq [OF rs2 rs1 d1ids] by (simp add: revoke_prior_def)
  have "lk_key_id row \<notin> set ?ids" using idset fresh by auto
  then have keys: "revoke_ids now (set ?ids) (kd_keys ?d1) = revoke_ids now (set ?ids) (kd_keys d) @ [row]"
    by (auto simp: revoke_ids_def)
  let ?d2 = "?d1\<lparr>kd_keys := revoke_ids now (set ?ids) (kd_keys ?d1)\<rparr>"
  let ?args = "(control EVENT_KEY_ROTATED w action (''key/'' @ ty @ ''/'' @ lk_key_id row)
      (''revoked='' @ py_str_int (int (length ?ids))) now)\<lparr>ca_agent_id := aid, ca_enforcing_principal := p\<rparr>"
  have type: "lk_key_type row = ty" by (simp add: row_def)
  have r: "r = \<lparr>rr_raw_key = ?raw, rr_new_key_id = lk_key_id row, rr_revoked_key_ids = ?ids\<rparr>"
    and rec: "control_record ?args (later rnd 2) ?d2 = (Inr (), d3)"
    using body unfolding rotation_body_def created
    by (auto simp: revoked record_rotation_def type split: prod.splits sum.splits)
  have "kd_keys d3 = kd_keys ?d2 \<and> cd_depth d3 = cd_depth ?d2
      \<and> control_log d3 = control_log ?d2 @ [build_control_audit_event ?args (later rnd 2)]"
    using rec by (cases rule: control_record_cases) (use assms(3) in \<open>auto simp: at_rest_def\<close>)
  moreover have "control_log ?d2 = control_log d" by (simp add: control_log_def)
  ultimately show thesis
    using assms(3) fresh idset keys
    by (intro that [of row]) (auto simp: r d' row_def at_rest_def)
qed


text \<open>The five rotations are one, and the keys each replaces are those of its class.\<close>

lemma rotate_rotation:
  obtains pf ty w a keep action aid where
    "rotate cls b c now p rnd d = rotation b c (create_prefixed_key pf ty w a None now None) keep action w aid now p rnd d"
    "\<And>x. in_class cls x \<longleftrightarrow> lk_workspace_id x = w \<and> keep x"
    "\<And>x. lk_key_type x = ty \<Longrightarrow> lk_workspace_id x = w \<Longrightarrow> lk_agent_id x = a \<Longrightarrow> in_class cls x"
proof (cases cls)
  case (WorkspaceClass w)
  then show thesis by (intro that) (auto simp: rotate_workspace_key_def create_defs fun_eq_iff)
next
  case (AuditorClass w)
  then show thesis by (intro that) (auto simp: rotate_auditor_key_def create_defs fun_eq_iff)
next
  case OperatorClass
  then show thesis by (intro that) (auto simp: rotate_service_operator_key_def create_defs fun_eq_iff)
next
  case (AgentClass w a)
  then show thesis by (intro that) (auto simp: rotate_agent_key_def create_defs fun_eq_iff)
next
  case (PepClass w a)
  then show thesis by (intro that) (auto simp: rotate_pep_key_def create_defs fun_eq_iff)
qed

lemma in_class_revoke_row [simp]: "in_class cls (revoke_row now x) \<longleftrightarrow> in_class cls x"
  by (cases cls) (simp_all add: revoke_row_def)

lemma map_revoke_ids [simp]:
  "map lk_key_id (revoke_ids now ids rs) = map lk_key_id rs" "map lk_key_hash (revoke_ids now ids rs) = map lk_key_hash rs"
  by (auto simp: revoke_ids_def)

lemma revoke_ids_other:
  "(\<And>x. x \<in> set rs \<Longrightarrow> lk_key_id x \<in> ids \<Longrightarrow> in_class cls x) \<Longrightarrow>
     filter (\<lambda>x. \<not> in_class cls x) (revoke_ids now ids rs) = filter (\<lambda>x. \<not> in_class cls x) rs"
  by (induction rs) (auto simp: revoke_ids_def)

text \<open>
  (C11) A rotation that raises leaves the database as it was. One that
  returns has stored the key it returns, active and of the class asked for; no other key of that
  class is active any more, the ids it reports are those of the keys it revoked, every key of
  another class is untouched, and exactly one event was appended to the audit log.
\<close>

theorem rotation_replaces_the_live_key:
  assumes "rotate cls b c now p rnd d = (res, d')" "keys_ok d" "at_rest d"
  shows "case res of
      Inl e \<Rightarrow> d' = d
    | Inr r \<Rightarrow>
        (\<exists>row. key_by_hash (hash_key (rr_raw_key r)) d' = Some row \<and> lk_key_id row = rr_new_key_id r
           \<and> in_class cls row \<and> lk_status row = ''active'')
        \<and> (\<forall>x. x \<in> set (kd_keys d') \<and> in_class cls x \<and> lk_status x = ''active'' \<longrightarrow> lk_key_id x = rr_new_key_id r)
        \<and> set (rr_revoked_key_ids r) = lk_key_id ` {x. x \<in> set (kd_keys d) \<and> in_class cls x \<and> lk_status x = ''active''}
        \<and> filter (\<lambda>x. \<not> in_class cls x) (kd_keys d') = filter (\<lambda>x. \<not> in_class cls x) (kd_keys d)
        \<and> (\<exists>event. control_log d' = control_log d @ [event]) \<and> keys_ok d' \<and> at_rest d'"
proof -
  obtain pf ty w a keep action aid where rot:
      "rotate cls b c now p rnd d
       = rotation b c (create_prefixed_key pf ty w a None now None) keep action w aid now p rnd d"
    and cls: "\<And>x. in_class cls x \<longleftrightarrow> lk_workspace_id x = w \<and> keep x"
    and new: "\<And>x. lk_key_type x = ty \<Longrightarrow> lk_workspace_id x = w \<Longrightarrow> lk_agent_id x = a \<Longrightarrow> in_class cls x"
    by (rule rotate_rotation [of cls b c now p rnd d]) (rule that)
  show ?thesis
  proof (cases res)
    case (Inl e)
    then show ?thesis
      using assms(1,3) unfolding rot
      by (auto simp: rotation_def key_transaction_def at_rest_def split: option.splits if_splits dest: write_scope_error)
  next
    case (Inr r)
    have "rotation b c (create_prefixed_key pf ty w a None now None) keep action w aid now p rnd d = (Inr r, d')"
      using assms(1) rot Inr by simp
    then show ?thesis
    proof (rule rotation_commits [OF _ assms(2,3)])
      fix row
      assume row: "lk_key_id row = rr_new_key_id r" "lk_key_type row = ty" "lk_workspace_id row = w" "lk_agent_id row = a"
        "lk_key_hash row = hash_key (rr_raw_key r)" "lk_status row = ''active''"
        and fresh: "lk_key_id row \<notin> lk_key_id ` set (kd_keys d)" "lk_key_hash row \<notin> lk_key_hash ` set (kd_keys d)"
        and ids: "set (rr_revoked_key_ids r)
          = lk_key_id ` {x\<in>set (kd_keys d). lk_workspace_id x = w \<and> lk_status x = ''active'' \<and> keep x}"
        and keys: "kd_keys d' = revoke_ids now (set (rr_revoked_key_ids r)) (kd_keys d) @ [row]"
        and log: "control_log d' = control_log d @ [build_control_audit_event
           ((control EVENT_KEY_ROTATED w action (''key/'' @ ty @ ''/'' @ rr_new_key_id r)
              (''revoked='' @ py_str_int (int (length (rr_revoked_key_ids r)))) now)
            \<lparr>ca_agent_id := aid, ca_enforcing_principal := p\<rparr>) (later rnd 2)]"
        and rest: "at_rest d'"
      let ?ids = "set (rr_revoked_key_ids r)"
      have row_cls: "in_class cls row" using new row by blast
      have ids': "?ids = lk_key_id ` {x. x \<in> set (kd_keys d) \<and> in_class cls x \<and> lk_status x = ''active''}"
        using ids cls by auto
      have one: "x \<in> set (kd_keys d) \<Longrightarrow> lk_key_id x \<in> ?ids \<Longrightarrow> in_class cls x" for x
        using ids' assms(2) by (auto simp: keys_ok_def distinct_map inj_on_def)
      have "find_first (\<lambda>x. lk_key_hash x = lk_key_hash row) (revoke_ids now ?ids (kd_keys d)) = None"
        using fresh(2) by (force simp: find_first_None_iff revoke_ids_def image_iff)
      then have "key_by_hash (hash_key (rr_raw_key r)) d' = Some row"
        using row(5) by (simp add: key_by_hash_def keys find_first_append)
      moreover have "lk_key_id x = rr_new_key_id r"
        if "x \<in> set (kd_keys d')" "in_class cls x" "lk_status x = ''active''" for x
        using that row(1) ids' by (auto simp: keys revoke_ids_def split: if_splits)
      moreover have "filter (\<lambda>x. \<not> in_class cls x) (kd_keys d') = filter (\<lambda>x. \<not> in_class cls x) (kd_keys d)"
        using revoke_ids_other [OF one] row_cls by (simp add: keys)
      moreover have "keys_ok d'"
        using assms(2) fresh by (auto simp: keys_ok_def keys simp flip: set_map)
      ultimately show ?thesis using Inr row row_cls ids' log rest by simp
    qed
  qed
qed



text \<open>Agent \<^verbatim>\<open>a1\<close> gets a new key and loses \<^verbatim>\<open>k1\<close>.\<close>

definition example_agents :: key_db where
  "example_agents = example_keys\<lparr>kd_keys := take 2 (kd_keys example_keys)\<rparr>"

lemma revoke_each_frame:
  "cd_audit (snd (revoke_each now new keep rs d)) = cd_audit d \<and> cd_depth (snd (revoke_each now new keep rs d)) = cd_depth d"
proof (induction now new keep rs d rule: revoke_each.induct)
  case (2 now new keep r rs d)
  then show ?case by (auto simp: revoke_key_def update_key_def split: prod.splits option.splits)
qed simp

lemma record_rotation_first:
  "cd_depth d = 0 \<Longrightarrow> cd_audit d = [] \<Longrightarrow> \<exists>d'. record_rotation action created ids w 7 a None rnd d = (Inr (), d')"
proof -
  assume d: "cd_depth d = 0" "cd_audit d = []"
  define e where "e = build_control_audit_event
      ((control EVENT_KEY_ROTATED w action (''key/'' @ lk_key_type (cl_record created) @ ''/'' @ lk_key_id (cl_record created))
         (''revoked='' @ py_str_int (int (length ids))) 7)\<lparr>ca_agent_id := a, ca_enforcing_principal := None\<rparr>) rnd"
  have "serialisable e"
    by (simp add: e_def serialisable_def build_control_audit_event_def control_def is_datetime_def EPOCH_ORDINAL_def)
  then obtain x r where "sq_write_event e [] = (Inr x, [r])" using write_fresh [of e "[]"] by auto
  then have "write_control_event e d = (Inr (), d\<lparr>cd_audit := [r]\<rparr>)" using d by (simp add: write_control_event_def)
  then show ?thesis using d by (simp add: record_rotation_def control_record_def e_def)
qed

lemma create_fresh:
  assumes "cd_in_transaction d"
    "\<forall>x\<in>set (kd_keys d). lk_key_id x \<noteq> new_key ''lkey_'' (rnd 1) \<and> lk_key_hash x \<noteq> hash_key (new_key pf (rnd 0))"
  shows "\<exists>created. create_prefixed_key pf ty w a None now None rnd d
    = (Inr created, d\<lparr>kd_keys := kd_keys d @ [cl_record created]\<rparr>)"
  using assms
  by (auto simp: create_prefixed_key_def create_key_def insert_key_def Let_def py_or_def validate_prefix_def startswith_def new_key_def)

lemma example_rotation:
  "\<exists>r d'. rotate (AgentClass ''ws'' ''a1'') (Some 0) (Some 0) 7 None (\<lambda>_. ''x'') example_agents = (Inr r, d')"
proof -
  let ?d = "example_agents\<lparr>cd_in_transaction := True\<rparr>"
  obtain created where
    c: "create_agent_key ''ws'' ''a1'' None 7 None (\<lambda>_. ''x'') ?d = (Inr created, ?d\<lparr>kd_keys := kd_keys ?d @ [cl_record created]\<rparr>)"
    using create_fresh [of ?d "\<lambda>_. ''x''" AGENT_KEY_PREFIX "''agent''" "''ws''" "Some ''a1''" 7] hash_key_neq [of "''h1''"] hash_key_neq [of "''h2''"]
    by (auto simp: create_agent_key_def example_agents_def example_keys_def example_row_def new_key_def)
  let ?d1 = "?d\<lparr>kd_keys := kd_keys ?d @ [cl_record created]\<rparr>"
  obtain ids d2 where v: "revoke_prior ''ws'' (lk_key_id (cl_record created)) (\<lambda>r. lk_key_type r = ''agent'' \<and> lk_agent_id r = Some ''a1'') 7 ?d1 = (ids, d2)"
    by (meson surj_pair)
  have "cd_depth d2 = 0" "cd_audit d2 = []"
    using revoke_each_frame [of 7 "lk_key_id (cl_record created)" "\<lambda>r. lk_key_type r = ''agent'' \<and> lk_agent_id r = Some ''a1''"
        "list_keys_for_workspace ''ws'' ?d1" ?d1] v
    by (simp_all add: revoke_prior_def example_agents_def example_keys_def)
  from record_rotation_first [OF this, of "''rotate_agent_key''" created ids "''ws''" "''a1''" "later (\<lambda>_. ''x'') 2"]
  obtain d3 where "record_rotation ''rotate_agent_key'' created ids ''ws'' 7 ''a1'' None (later (\<lambda>_. ''x'') 2) d2 = (Inr (), d3)"
    by blast
  with v c show ?thesis
    by (simp add: rotate_agent_key_def rotation_def require_bound_to_def key_transaction_def write_scope_def rotation_body_def
        example_agents_def example_keys_def)
qed

theorem rotation_replaces_the_live_key_witness:
  "\<exists>r d'. rotate (AgentClass ''ws'' ''a1'') (Some 0) (Some 0) 7 None (\<lambda>_. ''x'') example_agents = (Inr r, d')
     \<and> set (rr_revoked_key_ids r) = {''k1''}
     \<and> (\<forall>x. x \<in> set (kd_keys d') \<and> in_class (AgentClass ''ws'' ''a1'') x \<and> lk_status x = ''active'' \<longrightarrow> lk_key_id x = rr_new_key_id r)"
proof -
  obtain r d' where *: "rotate (AgentClass ''ws'' ''a1'') (Some 0) (Some 0) 7 None (\<lambda>_. ''x'') example_agents = (Inr r, d')"
    using example_rotation by blast
  have "keys_ok example_agents" "at_rest example_agents"
    by (simp_all add: keys_ok_def at_rest_def example_agents_def example_keys_def example_row_def)
  note props = rotation_replaces_the_live_key [OF * this]
  have "lk_key_id ` {x. x \<in> set (kd_keys example_agents) \<and> in_class (AgentClass ''ws'' ''a1'') x \<and> lk_status x = ''active''} = {''k1''}"
    by (force simp: example_agents_def example_keys_def example_row_def image_iff)
  with props * show ?thesis by auto
qed

end
