(* ===== verification/SqliteControl.thy ===== *)
theory SqliteControl
  imports ControlAudit Settings AutoApproval Http
begin

section \<open>The control plane on SQLite\<close>

text \<open>
  The SQLite repositories of issuable bounds, enforcement settings and auto-approval rules in
  \<^verbatim>\<open>src/vinctor_service/sqlite.py\<close>. Each change commits together with its audit event.

  A table is the list of its rows in the order of insertion. A column of JSON text holds the list
  of strings it encodes; an instant is kept as its text. \<open>pd_require_boundary_default\<close> is the default the
  table declares for \<^verbatim>\<open>require_boundary\<close>, which is on in a fresh database.
\<close>

subsection \<open>Tables\<close>

record bounds_row =
  br_workspace_id :: string
  br_agent_id :: string
  br_scopes :: "string list"
  br_max_ttl_seconds :: "int option"
  br_updated_at :: string

record setting_row =
  sr_workspace_id :: string
  sr_agent_id :: string
  sr_require_boundary :: bool
  sr_require_boundary_set :: bool
  sr_require_subject_token :: bool
  sr_require_subject_token_set :: bool
  sr_require_pop :: bool
  sr_require_pop_set :: bool
  sr_updated_at :: string

record rule_row =
  rl_rule_id :: string
  rl_workspace_id :: string
  rl_name :: string
  rl_target_agent_id :: string
  rl_allowed_scopes :: "string list"
  rl_max_ttl_seconds :: int
  rl_status :: string
  rl_created_by :: string
  rl_created_at :: string
  rl_updated_by :: "string option"
  rl_updated_at :: "string option"

record version_row =
  pv_workspace_id :: string
  pv_version :: int
  pv_action :: string
  pv_source_version :: "int option"
  pv_snapshot_json :: string
  pv_applied_by :: string
  pv_created_at :: string

record policy_db = control_db +
  pd_require_boundary_default :: bool
  pd_bounds :: "bounds_row list"
  pd_settings :: "setting_row list"
  pd_rules :: "rule_row list"
  pd_versions :: "version_row list"

text \<open>\<^verbatim>\<open>INSERT ... ON CONFLICT DO UPDATE\<close>.\<close>

definition sql_upsert :: "('row \<Rightarrow> 'k) \<Rightarrow> 'row \<Rightarrow> ('row \<Rightarrow> 'row) \<Rightarrow> 'row list \<Rightarrow> 'row list" where
  "sql_upsert key new update rows =
     (if key new \<in> key ` set rows then map (\<lambda>r. if key r = key new then update r else r) rows else rows @ [new])"

text \<open>The integers a SQLite column holds; Python raises \<^verbatim>\<open>OverflowError\<close> for others.\<close>

definition fits_int64 :: "int \<Rightarrow> bool" where
  "fits_int64 n \<longleftrightarrow> - (2 ^ 63) \<le> n \<and> n < 2 ^ 63"

subsection \<open>Issuable bounds\<close>

definition bounds_key :: "bounds_row \<Rightarrow> string \<times> string" where
  "bounds_key r = (br_workspace_id r, br_agent_id r)"

definition bounds_at :: "string \<Rightarrow> string \<Rightarrow> 'e policy_db_scheme \<Rightarrow> bounds_row option" where
  "bounds_at workspace_id agent_id d = find_first (\<lambda>r. bounds_key r = (workspace_id, agent_id)) (pd_bounds d)"

definition sq_get_bounds :: "string \<Rightarrow> string \<Rightarrow> 'e policy_db_scheme \<Rightarrow> string list option" where
  "sq_get_bounds workspace_id agent_id d = map_option br_scopes (bounds_at workspace_id agent_id d)"

definition sq_get_max_ttl_seconds :: "string \<Rightarrow> string \<Rightarrow> 'e policy_db_scheme \<Rightarrow> int option" where
  "sq_get_max_ttl_seconds workspace_id agent_id d =
     (case bounds_at workspace_id agent_id d of None \<Rightarrow> None | Some r \<Rightarrow> br_max_ttl_seconds r)"

definition sq_get_bounds_with_max_ttl :: "string \<Rightarrow> string \<Rightarrow> 'e policy_db_scheme \<Rightarrow> AgentIssuableBounds option" where
  "sq_get_bounds_with_max_ttl workspace_id agent_id d =
     map_option (\<lambda>r. \<lparr>aib_scopes = br_scopes r, aib_max_ttl_seconds = br_max_ttl_seconds r\<rparr>) (bounds_at workspace_id agent_id d)"

definition sq_list_bounds_for_workspace :: "string \<Rightarrow> 'e policy_db_scheme \<Rightarrow> (string \<times> string list) list" where
  "sq_list_bounds_for_workspace workspace_id d =
     map (\<lambda>r. (br_agent_id r, br_scopes r))
       (sort_key br_agent_id (filter (\<lambda>r. br_workspace_id r = workspace_id) (pd_bounds d)))"

definition write_bounds ::
  "string \<Rightarrow> string \<Rightarrow> string list \<Rightarrow> int option \<Rightarrow> bool \<Rightarrow> instant \<Rightarrow> 'e policy_db_scheme \<Rightarrow> 'e policy_db_scheme" where
  "write_bounds workspace_id agent_id scopes max_ttl_seconds clear_max_ttl now d =
     d\<lparr>pd_bounds := sql_upsert bounds_key
          \<lparr>br_workspace_id = workspace_id, br_agent_id = agent_id, br_scopes = scopes,
           br_max_ttl_seconds = max_ttl_seconds, br_updated_at = isoformat now\<rparr>
          (\<lambda>r. r\<lparr>br_scopes := scopes,
                 br_max_ttl_seconds :=
                   (if clear_max_ttl then None
                    else case max_ttl_seconds of Some m \<Rightarrow> Some m | None \<Rightarrow> br_max_ttl_seconds r),
                 br_updated_at := isoformat now\<rparr>)
          (pd_bounds d)\<rparr>"

definition sq_set_bounds ::
  "string \<Rightarrow> string \<Rightarrow> string list \<Rightarrow> int option \<Rightarrow> bool \<Rightarrow> instant \<Rightarrow> string option \<Rightarrow> entropy
     \<Rightarrow> (unit, 'e policy_db_scheme) operation" where
  "sq_set_bounds workspace_id agent_id scopes max_ttl_seconds clear_max_ttl now enforcing_principal rnd d =
     (case validate_issuable_scope_bounds scopes max_ttl_seconds of
        Some e \<Rightarrow> (Inl e, d)
      | None \<Rightarrow>
          (case validate_clear_max_ttl max_ttl_seconds clear_max_ttl of
             Some e \<Rightarrow> (Inl e, d)
           | None \<Rightarrow>
               write_scope (\<lambda>d.
                 control_record
                   ((control EVENT_SCOPE_BOUNDS_SET workspace_id ''set_issuable_scope_bounds''
                       (''issuable_scope_bounds/'' @ agent_id) (set_bounds_audit_reason max_ttl_seconds clear_max_ttl) now)
                      \<lparr>ca_agent_id := agent_id, ca_scope_attempted := join_with '' '' scopes,
                       ca_enforcing_principal := enforcing_principal\<rparr>) rnd
                   (write_bounds workspace_id agent_id scopes max_ttl_seconds clear_max_ttl now d)) d))"

subsection \<open>Enforcement settings\<close>

definition setting_key :: "setting_row \<Rightarrow> string \<times> string" where
  "setting_key r = (sr_workspace_id r, sr_agent_id r)"

definition setting_at :: "string \<Rightarrow> string \<Rightarrow> 'e policy_db_scheme \<Rightarrow> setting_row option" where
  "setting_at workspace_id agent_id d = find_first (\<lambda>r. setting_key r = (workspace_id, agent_id)) (pd_settings d)"

definition sq_get_require_boundary_setting :: "string \<Rightarrow> string \<Rightarrow> 'e policy_db_scheme \<Rightarrow> bool option" where
  "sq_get_require_boundary_setting workspace_id agent_id d =
     (case setting_at workspace_id agent_id d of
        Some r \<Rightarrow> if sr_require_boundary_set r then Some (sr_require_boundary r) else None
      | None \<Rightarrow> None)"

definition sq_is_boundary_required :: "string \<Rightarrow> string \<Rightarrow> 'e policy_db_scheme \<Rightarrow> bool" where
  "sq_is_boundary_required workspace_id agent_id d =
     (case sq_get_require_boundary_setting workspace_id agent_id d of
        Some agent \<Rightarrow> agent
      | None \<Rightarrow>
          (case sq_get_require_boundary_setting workspace_id [] d of
             Some ws \<Rightarrow> ws | None \<Rightarrow> pd_require_boundary_default d))"

definition sq_get_require_boundary :: "string \<Rightarrow> string \<Rightarrow> 'e policy_db_scheme \<Rightarrow> bool" where
  "sq_get_require_boundary workspace_id agent_id d = sq_is_boundary_required workspace_id agent_id d"

definition sq_list_require_boundary :: "string \<Rightarrow> 'e policy_db_scheme \<Rightarrow> (string \<times> bool) list" where
  "sq_list_require_boundary workspace_id d =
     map (\<lambda>r. (sr_agent_id r, sr_require_boundary r))
       (sort_key sr_agent_id (filter (\<lambda>r. sr_workspace_id r = workspace_id \<and> sr_require_boundary_set r) (pd_settings d)))"

definition sq_get_require_subject_token_setting :: "string \<Rightarrow> string \<Rightarrow> 'e policy_db_scheme \<Rightarrow> bool option" where
  "sq_get_require_subject_token_setting workspace_id agent_id d =
     (case setting_at workspace_id agent_id d of
        Some r \<Rightarrow> if sr_require_subject_token_set r then Some (sr_require_subject_token r) else None
      | None \<Rightarrow> None)"

definition sq_is_subject_token_required :: "string \<Rightarrow> string \<Rightarrow> 'e policy_db_scheme \<Rightarrow> bool" where
  "sq_is_subject_token_required workspace_id agent_id d =
     (case sq_get_require_subject_token_setting workspace_id agent_id d of
        Some agent \<Rightarrow> agent
      | None \<Rightarrow>
          (case sq_get_require_subject_token_setting workspace_id [] d of Some ws \<Rightarrow> ws | None \<Rightarrow> False))"

definition sq_get_require_pop_setting :: "string \<Rightarrow> string \<Rightarrow> 'e policy_db_scheme \<Rightarrow> bool option" where
  "sq_get_require_pop_setting workspace_id agent_id d =
     (case setting_at workspace_id agent_id d of
        Some r \<Rightarrow> if sr_require_pop_set r then Some (sr_require_pop r) else None
      | None \<Rightarrow> None)"

definition sq_is_pop_required :: "string \<Rightarrow> string \<Rightarrow> 'e policy_db_scheme \<Rightarrow> bool" where
  "sq_is_pop_required workspace_id agent_id d =
     (case sq_get_require_pop_setting workspace_id agent_id d of
        Some agent \<Rightarrow> agent
      | None \<Rightarrow> (case sq_get_require_pop_setting workspace_id [] d of Some ws \<Rightarrow> ws | None \<Rightarrow> False))"

text \<open>The row the schema defaults give, before the columns an \<^verbatim>\<open>INSERT\<close> names.\<close>

definition default_setting :: "string \<Rightarrow> string \<Rightarrow> instant \<Rightarrow> 'e policy_db_scheme \<Rightarrow> setting_row" where
  "default_setting workspace_id agent_id now d =
     \<lparr>sr_workspace_id = workspace_id, sr_agent_id = agent_id,
      sr_require_boundary = pd_require_boundary_default d, sr_require_boundary_set = False,
      sr_require_subject_token = False, sr_require_subject_token_set = False,
      sr_require_pop = False, sr_require_pop_set = False, sr_updated_at = isoformat now\<rparr>"

definition record_setting_change ::
  "string \<Rightarrow> bool \<Rightarrow> string \<Rightarrow> string \<Rightarrow> instant \<Rightarrow> string option \<Rightarrow> entropy \<Rightarrow> (unit, 'e policy_db_scheme) operation" where
  "record_setting_change setting v workspace_id agent_id now enforcing_principal rnd =
     control_record
       ((control EVENT_ENFORCEMENT_SETTING_CHANGED workspace_id (''set_'' @ setting) (''enforcement_setting/'' @ setting)
           (setting @ ''='' @ (if v then ''true'' else ''false'')) now)
          \<lparr>ca_agent_id := agent_id, ca_enforcing_principal := enforcing_principal\<rparr>) rnd"

text \<open>What the three setters share; \<open>column\<close> sets the value and its flag.\<close>

definition write_setting ::
  "(setting_row \<Rightarrow> setting_row) \<Rightarrow> string \<Rightarrow> string \<Rightarrow> instant \<Rightarrow> 'e policy_db_scheme \<Rightarrow> 'e policy_db_scheme" where
  "write_setting column workspace_id agent_id now d =
     d\<lparr>pd_settings := sql_upsert setting_key (column (default_setting workspace_id agent_id now d))
          (\<lambda>r. (column r)\<lparr>sr_updated_at := isoformat now\<rparr>) (pd_settings d)\<rparr>"

definition set_setting ::
  "string \<Rightarrow> (setting_row \<Rightarrow> setting_row) \<Rightarrow> bool \<Rightarrow> string \<Rightarrow> string \<Rightarrow> instant \<Rightarrow> string option \<Rightarrow> entropy
     \<Rightarrow> (unit, 'e policy_db_scheme) operation" where
  "set_setting setting column v workspace_id agent_id now enforcing_principal rnd =
     write_scope (\<lambda>d.
       record_setting_change setting v workspace_id agent_id now enforcing_principal rnd
         (write_setting column workspace_id agent_id now d))"

definition sq_set_require_boundary ::
  "string \<Rightarrow> string \<Rightarrow> bool \<Rightarrow> instant \<Rightarrow> string option \<Rightarrow> entropy \<Rightarrow> (unit, 'e policy_db_scheme) operation" where
  "sq_set_require_boundary workspace_id agent_id require_boundary =
     set_setting ''require_boundary''
       (\<lambda>r. r\<lparr>sr_require_boundary := require_boundary, sr_require_boundary_set := True\<rparr>) require_boundary workspace_id agent_id"

definition sq_set_require_subject_token ::
  "string \<Rightarrow> string \<Rightarrow> bool \<Rightarrow> instant \<Rightarrow> string option \<Rightarrow> entropy \<Rightarrow> (unit, 'e policy_db_scheme) operation" where
  "sq_set_require_subject_token workspace_id agent_id require_subject_token =
     set_setting ''require_subject_token''
       (\<lambda>r. r\<lparr>sr_require_subject_token := require_subject_token, sr_require_subject_token_set := True\<rparr>)
       require_subject_token workspace_id agent_id"

definition sq_set_require_pop ::
  "string \<Rightarrow> string \<Rightarrow> bool \<Rightarrow> instant \<Rightarrow> string option \<Rightarrow> entropy \<Rightarrow> (unit, 'e policy_db_scheme) operation" where
  "sq_set_require_pop workspace_id agent_id require_pop =
     set_setting ''require_pop'' (\<lambda>r. r\<lparr>sr_require_pop := require_pop, sr_require_pop_set := True\<rparr>)
       require_pop workspace_id agent_id"

subsection \<open>Auto-approval rules\<close>

definition EVENT_AUTO_APPROVAL_RULE_CREATED :: string where
  "EVENT_AUTO_APPROVAL_RULE_CREATED = ''auto_approval_rule_created''"

definition auto_approval_rule_values :: "AutoApprovalRule \<Rightarrow> rule_row" where
  "auto_approval_rule_values rule =
     \<lparr>rl_rule_id = aar_rule_id rule, rl_workspace_id = aar_workspace_id rule, rl_name = aar_name rule,
      rl_target_agent_id = aar_target_agent_id rule, rl_allowed_scopes = aar_allowed_scopes rule,
      rl_max_ttl_seconds = aar_max_ttl_seconds rule, rl_status = aar_status rule,
      rl_created_by = aar_created_by rule, rl_created_at = isoformat (aar_created_at rule),
      rl_updated_by = aar_updated_by rule, rl_updated_at = map_option isoformat (aar_updated_at rule)\<rparr>"

definition read_datetime :: "string \<Rightarrow> exn + instant" where
  "read_datetime s =
     (case fromisoformat s of
        Some t \<Rightarrow> Inr t
      | None \<Rightarrow> Inl (ValueError (''Invalid isoformat string'')))"

definition auto_approval_rule_from_row :: "rule_row \<Rightarrow> exn + AutoApprovalRule" where
  "auto_approval_rule_from_row r =
     (case read_datetime (rl_created_at r) of
        Inl e \<Rightarrow> Inl e
      | Inr created_at \<Rightarrow>
          let rule = \<lparr>aar_rule_id = rl_rule_id r, aar_workspace_id = rl_workspace_id r, aar_name = rl_name r,
                      aar_target_agent_id = rl_target_agent_id r, aar_allowed_scopes = rl_allowed_scopes r,
                      aar_max_ttl_seconds = rl_max_ttl_seconds r, aar_status = rl_status r,
                      aar_created_by = rl_created_by r, aar_created_at = created_at,
                      aar_updated_by = rl_updated_by r, aar_updated_at = None\<rparr>
          in (case rl_updated_at r of
                None \<Rightarrow> Inr rule
              | Some s \<Rightarrow>
                  (case read_datetime s of
                     Inl e \<Rightarrow> Inl e
                   | Inr t \<Rightarrow> Inr (rule\<lparr>aar_updated_at := Some t\<rparr>))))"

definition sq_get_rule :: "string \<Rightarrow> 'e policy_db_scheme \<Rightarrow> exn + AutoApprovalRule option" where
  "sq_get_rule rule_id d =
     (case find_first (\<lambda>r. rl_rule_id r = rule_id) (pd_rules d) of
        None \<Rightarrow> Inr None
      | Some r \<Rightarrow> (case auto_approval_rule_from_row r of Inl e \<Rightarrow> Inl e | Inr rule \<Rightarrow> Inr (Some rule)))"

fun rules_from_rows :: "rule_row list \<Rightarrow> exn + AutoApprovalRule list" where
  "rules_from_rows [] = Inr []"
| "rules_from_rows (r # rs) =
     (case auto_approval_rule_from_row r of
        Inl e \<Rightarrow> Inl e
      | Inr rule \<Rightarrow> (case rules_from_rows rs of Inl e \<Rightarrow> Inl e | Inr rules \<Rightarrow> Inr (rule # rules)))"

definition rule_rows :: "string \<Rightarrow> 'e policy_db_scheme \<Rightarrow> rule_row list" where
  "rule_rows workspace_id d =
     sort_key (\<lambda>r. (rl_created_at r, rl_rule_id r)) (filter (\<lambda>r. rl_workspace_id r = workspace_id) (pd_rules d))"

definition sq_list_rules_for_workspace :: "string \<Rightarrow> 'e policy_db_scheme \<Rightarrow> exn + AutoApprovalRule list" where
  "sq_list_rules_for_workspace workspace_id d = rules_from_rows (rule_rows workspace_id d)"

definition insert_rule_row :: "rule_row \<Rightarrow> (unit, 'e policy_db_scheme) operation" where
  "insert_rule_row row d =
     (if \<not> fits_int64 (rl_max_ttl_seconds row) then (Inl (OtherException ''OverflowError''), d)
      else if rl_rule_id row \<in> rl_rule_id ` set (pd_rules d) then (Inl (OtherException ''IntegrityError''), d)
      else (Inr (), d\<lparr>pd_rules := pd_rules d @ [row]\<rparr>))"

definition sq_add_rule :: "AutoApprovalRule \<Rightarrow> entropy \<Rightarrow> (unit, 'e policy_db_scheme) operation" where
  "sq_add_rule rule rnd d =
     (case sq_get_rule (aar_rule_id rule) d of
        Inl e \<Rightarrow> (Inl e, d)
      | Inr (Some _) \<Rightarrow> (Inl (ValueError (''duplicate auto-approval rule_id: '' @ aar_rule_id rule)), d)
      | Inr None \<Rightarrow>
          write_scope (\<lambda>d.
            case insert_rule_row (auto_approval_rule_values rule) d of
              (Inl e, d') \<Rightarrow> (Inl e, d')
            | (Inr _, d') \<Rightarrow>
                control_record
                  ((control EVENT_AUTO_APPROVAL_RULE_CREATED (aar_workspace_id rule) ''create_auto_approval_rule''
                      (''auto_approval_rule/'' @ aar_rule_id rule) (''status='' @ aar_status rule) (aar_created_at rule))
                     \<lparr>ca_enforcing_principal := py_or_opt (Some (aar_created_by rule)) None\<rparr>) rnd d') d)"

definition update_rule_row :: "rule_row \<Rightarrow> (unit, 'e policy_db_scheme) operation" where
  "update_rule_row row d =
     (if \<not> fits_int64 (rl_max_ttl_seconds row) then (Inl (OtherException ''OverflowError''), d)
      else (Inr (), d\<lparr>pd_rules := map (\<lambda>r. if rl_rule_id r = rl_rule_id row then row else r) (pd_rules d)\<rparr>))"

definition sq_update_rule :: "AutoApprovalRule \<Rightarrow> entropy \<Rightarrow> (unit, 'e policy_db_scheme) operation" where
  "sq_update_rule rule rnd =
     write_scope (\<lambda>d.
       case sq_get_rule (aar_rule_id rule) d of
         Inl e \<Rightarrow> (Inl e, d)
       | Inr None \<Rightarrow> (Inl (ValueError (''unknown auto-approval rule_id: '' @ aar_rule_id rule)), d)
       | Inr (Some prior) \<Rightarrow>
           (case update_rule_row (auto_approval_rule_values rule) d of
              (Inl e, d') \<Rightarrow> (Inl e, d')
            | (Inr _, d') \<Rightarrow>
                (let event = auto_approval_update_control_event prior rule
                 in control_record
                      ((control (ru_event_type event) (aar_workspace_id rule) (ru_action event)
                          (''auto_approval_rule/'' @ aar_rule_id rule) (ru_reason event)
                          (case aar_updated_at rule of Some t \<Rightarrow> t | None \<Rightarrow> aar_created_at rule))
                         \<lparr>ca_scope_attempted := ru_scope_attempted event,
                          ca_enforcing_principal := py_or_opt (aar_updated_by rule) None\<rparr>) rnd d')))"

text \<open>\<^verbatim>\<open>create_auto_approval_rule\<close>, \<^verbatim>\<open>upsert_auto_approval_rule\<close> and \<^verbatim>\<open>disable_auto_approval_rule\<close> over this repository.\<close>

definition sq_create_auto_approval_rule :: "AutoApprovalRule \<Rightarrow> entropy \<Rightarrow> (AutoApprovalRule, 'e policy_db_scheme) operation" where
  "sq_create_auto_approval_rule rule rnd d =
     (case validate_rule rule of
        Some e \<Rightarrow> (Inl e, d)
      | None \<Rightarrow> (case sq_add_rule rule rnd d of (Inl e, d') \<Rightarrow> (Inl e, d') | (Inr _, d') \<Rightarrow> (Inr rule, d')))"

definition sq_upsert_auto_approval_rule :: "AutoApprovalRule \<Rightarrow> entropy \<Rightarrow> (string, 'e policy_db_scheme) operation" where
  "sq_upsert_auto_approval_rule rule rnd d =
     (case validate_rule rule of
        Some e \<Rightarrow> (Inl e, d)
      | None \<Rightarrow>
          (case sq_get_rule (aar_rule_id rule) d of
             Inl e \<Rightarrow> (Inl e, d)
           | Inr None \<Rightarrow>
               (case sq_add_rule rule rnd d of (Inl e, d') \<Rightarrow> (Inl e, d') | (Inr _, d') \<Rightarrow> (Inr ''created'', d'))
           | Inr (Some existing) \<Rightarrow>
               if aar_workspace_id existing \<noteq> aar_workspace_id rule
               then (Inl (ValueError ''auto-approval rule_id belongs to another workspace''), d)
               else (case sq_update_rule rule rnd d of (Inl e, d') \<Rightarrow> (Inl e, d') | (Inr _, d') \<Rightarrow> (Inr ''updated'', d'))))"

definition sq_disable_auto_approval_rule ::
  "string \<Rightarrow> string \<Rightarrow> string \<Rightarrow> instant \<Rightarrow> entropy \<Rightarrow> (AutoApprovalRule option, 'e policy_db_scheme) operation" where
  "sq_disable_auto_approval_rule rule_id workspace_id disabled_by now rnd d =
     (case sq_get_rule rule_id d of
        Inl e \<Rightarrow> (Inl e, d)
      | Inr None \<Rightarrow> (Inr None, d)
      | Inr (Some rule) \<Rightarrow>
          if aar_workspace_id rule \<noteq> workspace_id then (Inr None, d)
          else (let disabled = rule\<lparr>aar_status := ''disabled'', aar_updated_by := Some disabled_by, aar_updated_at := Some now\<rparr>
                in (case sq_update_rule disabled rnd d of
                      (Inl e, d') \<Rightarrow> (Inl e, d')
                    | (Inr _, d') \<Rightarrow> (Inr (Some disabled), d'))))"

end
