(* ===== verification/JsonRoundTrip.thy ===== *)
theory JsonRoundTrip
  imports PyJsonLoads
begin

section \<open>Nested JSON reads back\<close>

text \<open>
  What \<open>json_dumps\<close> writes, \<open>json_loads\<close> reads: lists and dictionaries nested to any depth, with the
  keys of each dictionary sorted. The length of the text is enough fuel.
\<close>

fun json_wf :: "json \<Rightarrow> bool" where
  "json_wf (JList xs) \<longleftrightarrow> (\<forall>x\<in>set xs. json_wf x)"
| "json_wf (JObj kvs) \<longleftrightarrow> dict_wf kvs \<and> (\<forall>kv\<in>set kvs. json_wf (snd kv))"
| "json_wf v \<longleftrightarrow> True"

fun json_sorted :: "json \<Rightarrow> json" where
  "json_sorted (JList xs) = JList (map json_sorted xs)"
| "json_sorted (JObj kvs) = JObj (sort_key fst (map (\<lambda>(k, v). (k, json_sorted v)) kvs))"
| "json_sorted v = v"

text \<open>A value that is read back from its text, with enough fuel, whatever follows it.\<close>

definition reads_back :: "json \<Rightarrow> bool" where
  "reads_back v \<longleftrightarrow>
     (\<forall>n r. length (json_dumps v) \<le> n \<longrightarrow> (r = [] \<or> \<not> is_digit (hd r)) \<longrightarrow>
        json_parse n (json_dumps v @ r) = Some (json_sorted v, r))"

lemma json_dumps_head:
  "\<exists>c cs. json_dumps v = c # cs \<and> \<not> json_space c \<and> c \<noteq> CHR 0x5D \<and> c \<noteq> CHR 0x7D"
proof (cases v)
  case (JInt i)
  obtain c cs where c: "py_str_int i = c # cs" "is_digit c \<or> c = CHR ''-''" using py_str_int_head by blast
  then have "\<not> json_space c" "c \<noteq> CHR 0x5D" "c \<noteq> CHR 0x7D" by (auto simp: is_digit_def json_space_def)
  with c JInt show ?thesis by simp
qed (auto simp: json_string_def json_space_def)

lemma json_dumps_skip [simp]: "skip_ws (json_dumps v @ r) = json_dumps v @ r"
  using json_dumps_head [of v] by auto

lemma json_dumps_start:
  "\<not> startswith (json_dumps v @ r) [CHR 0x5D]" "\<not> startswith (json_dumps v @ r) [CHR 0x7D]"
  using json_dumps_head [of v] by (auto simp: startswith_def)

lemma reads_back_scalar: "scalar v \<Longrightarrow> reads_back v"
proof -
  assume v: "scalar v"
  have "json_sorted v = v" using v by (cases v) (auto simp: scalar_def)
  moreover have "json_parse n (json_dumps v @ r) = Some (v, r)"
    if "length (json_dumps v) \<le> n" "r = [] \<or> \<not> is_digit (hd r)" for n r
    using that json_dumps_head [of v] json_parse_scalar [OF v that(2), of "n - 1"] by (cases n) auto
  ultimately show ?thesis unfolding reads_back_def by simp
qed

lemma json_elements_read:
  assumes "xs \<noteq> []" "\<forall>x\<in>set xs. reads_back x" "length (join_with '', '' (map json_dumps xs)) < n"
  shows "json_elements n acc (join_with '', '' (map json_dumps xs) @ CHR 0x5D # r) = Some (JList (acc @ map json_sorted xs), r)"
  using assms
proof (induction xs arbitrary: acc n)
  case (Cons x xs)
  obtain m where n: "n = Suc m" using Cons.prems(3) by (cases n) auto
  show ?case
  proof (cases "xs = []")
    case True
    then have "json_parse m (json_dumps x @ CHR 0x5D # r) = Some (json_sorted x, CHR 0x5D # r)"
      using Cons.prems n by (simp add: reads_back_def is_digit_def)
    then show ?thesis using True n by (simp add: startswith_def json_space_def)
  next
    case False
    let ?t = "join_with '', '' (map json_dumps xs) @ CHR 0x5D # r"
    have j: "join_with '', '' (map json_dumps (x # xs)) = json_dumps x @ '', '' @ join_with '', '' (map json_dumps xs)"
      using False by (simp add: join_with_Cons)
    have p: "json_parse m (json_dumps x @ '', '' @ ?t) = Some (json_sorted x, '', '' @ ?t)"
      using Cons.prems n j by (simp add: reads_back_def is_digit_def)
    obtain y ys where xs: "xs = y # ys" using False by (cases xs) auto
    have q: "skip_ws ?t = ?t"
      by (cases ys) (simp_all add: xs)
    have "json_elements m (acc @ [json_sorted x]) ?t = Some (JList ((acc @ [json_sorted x]) @ map json_sorted xs), r)"
      using Cons.prems False n j by (intro Cons.IH) auto
    with p q n show ?thesis unfolding j by (simp add: startswith_def)
  qed
qed simp

lemma json_members_read_nested:
  assumes "kvs \<noteq> []" "\<forall>kv\<in>set kvs. reads_back (snd kv)" "dict_wf (acc @ kvs)"
    "length (join_with '', '' (map member_text kvs)) < n"
  shows "json_members n acc (join_with '', '' (map member_text kvs) @ CHR 0x7D # r)
    = Some (JObj (acc @ map (\<lambda>(k, v). (k, json_sorted v)) kvs), r)"
  using assms
proof (induction kvs arbitrary: acc n)
  case (Cons kv kvs)
  obtain k v where kv: "kv = (k, v)" by (cases kv)
  obtain m where n: "n = Suc m" using Cons.prems(4) by (cases n) auto
  have v: "reads_back v" using Cons.prems(2) kv by simp
  have fresh: "dict_set k w acc = acc @ [(k, w)]" for w
    using Cons.prems(3) kv by (auto intro!: dict_set_fresh simp: dict_wf_def map_of_eq_None_iff)
  show ?case
  proof (cases "kvs = []")
    case True
    have "length (json_dumps v) \<le> m" using Cons.prems(4) True kv n by (simp add: member_text_def)
    then have "json_parse m (json_dumps v @ CHR 0x7D # r) = Some (json_sorted v, CHR 0x7D # r)"
      using v by (simp add: reads_back_def is_digit_def)
    with True kv n fresh show ?thesis
      by (simp add: member_text_def json_string_append startswith_def)
  next
    case False
    let ?t = "join_with '', '' (map member_text kvs) @ CHR 0x7D # r"
    have j: "join_with '', '' (map member_text (kv # kvs)) @ CHR 0x7D # r = member_text kv @ '', '' @ ?t"
      using False by (simp add: join_with_Cons)
    have len: "length (json_dumps v) \<le> m" "length (join_with '', '' (map member_text kvs)) < m"
      using Cons.prems(4) False kv n by (simp_all add: join_with_Cons) (simp add: member_text_def)
    have p: "json_parse m (json_dumps v @ '', '' @ ?t) = Some (json_sorted v, '', '' @ ?t)"
      using v len by (simp add: reads_back_def is_digit_def)
    obtain kv2 rest where k2: "kvs = kv2 # rest" using False by (cases kvs) auto
    have q: "skip_ws ?t = ?t"
      by (cases rest) (simp_all add: k2 member_text_def json_string_append)
    have "dict_wf ((acc @ [(k, json_sorted v)]) @ kvs)" using Cons.prems(3) kv by (simp add: dict_wf_def)
    then have ih: "json_members m (acc @ [(k, json_sorted v)]) ?t
        = Some (JObj ((acc @ [(k, json_sorted v)]) @ map (\<lambda>(k, v). (k, json_sorted v)) kvs), r)"
      using Cons.IH [of "acc @ [(k, json_sorted v)]" m] Cons.prems(2) False len by simp
    show ?thesis
      unfolding j using p q ih fresh
      by (simp add: kv n member_text_def json_string_append startswith_def)
  qed
qed simp

lemma reads_back_list: "\<forall>x\<in>set xs. reads_back x \<Longrightarrow> reads_back (JList xs)"
proof -
  assume xs: "\<forall>x\<in>set xs. reads_back x"
  have "json_parse n (json_dumps (JList xs) @ r) = Some (json_sorted (JList xs), r)"
    if n: "length (json_dumps (JList xs)) \<le> n" for n r
  proof (cases "xs = []")
    case True
    then show ?thesis using n by (cases n) (simp_all add: startswith_def json_space_def)
  next
    case False
    obtain m where m: "n = Suc m" using n by (cases n) auto
    let ?t = "join_with '', '' (map json_dumps xs)"
    obtain y ys where y: "xs = y # ys" using False by (cases xs) auto
    have q: "skip_ws (?t @ CHR 0x5D # r) = ?t @ CHR 0x5D # r" "\<not> startswith (?t @ CHR 0x5D # r) [CHR 0x5D]"
      by (cases ys; simp add: y json_dumps_start)+
    have "json_elements m [] (?t @ CHR 0x5D # r) = Some (JList ([] @ map json_sorted xs), r)"
      using False xs n m by (intro json_elements_read) auto
    with q m show ?thesis by simp
  qed
  then show ?thesis by (simp add: reads_back_def)
qed

lemma reads_back_obj:
  assumes "dict_wf kvs" "\<forall>kv\<in>set kvs. reads_back (snd kv)"
  shows "reads_back (JObj kvs)"
proof -
  let ?s = "sort_key fst kvs"
  let ?t = "join_with '', '' (map member_text ?s)"
  have sorted: "json_sorted (JObj kvs) = JObj (map (\<lambda>(k, v). (k, json_sorted v)) ?s)"
    by (simp add: sort_key_map [of "\<lambda>(k, v). (k, json_sorted v)"] case_prod_beta)
  have s: "\<forall>kv\<in>set ?s. reads_back (snd kv)" "dict_wf ([] @ ?s)"
    using assms by (simp_all add: dict_wf_def distinct_map)
  have "json_parse n (json_dumps (JObj kvs) @ r) = Some (json_sorted (JObj kvs), r)"
    if n: "length (json_dumps (JObj kvs)) \<le> n" for n r
  proof (cases "kvs = []")
    case True
    then show ?thesis using n by (cases n) (simp_all add: startswith_def)
  next
    case False
    then have ne: "?s \<noteq> []" by (metis length_0_conv length_sort)
    obtain m where m: "n = Suc m" using n by (cases n) (auto simp: json_dumps_obj simp del: json_dumps.simps)
    obtain kv2 rest where k2: "?s = kv2 # rest" using ne by (cases ?s) auto
    have q: "skip_ws (?t @ CHR 0x7D # r) = ?t @ CHR 0x7D # r" "\<not> startswith (?t @ CHR 0x7D # r) [CHR 0x7D]"
      by (cases rest; simp add: k2 member_text_def json_string_append startswith_def)+
    have "length ?t < m" using n m by (simp add: json_dumps_obj del: json_dumps.simps)
    then have "json_members m [] (?t @ CHR 0x7D # r) = Some (JObj ([] @ map (\<lambda>(k, v). (k, json_sorted v)) ?s), r)"
      using ne s by (intro json_members_read_nested)
    with q m show ?thesis unfolding sorted by (simp add: json_dumps_obj del: json_dumps.simps)
  qed
  then show ?thesis by (simp add: reads_back_def)
qed

lemma json_reads_back: "json_wf v \<Longrightarrow> reads_back v"
proof (induction v)
  case (JObj kvs)
  have "\<forall>kv\<in>set kvs. reads_back (snd kv)" using JObj by (metis json_wf.simps(2) prod.collapse snds.intros)
  then show ?case using JObj.prems by (intro reads_back_obj) auto
qed (auto intro: reads_back_list reads_back_scalar simp: scalar_def)

theorem json_loads_dumps_nested:
  assumes "json_wf v"
  shows "json_loads (json_dumps v) = Some (json_sorted v)"
proof -
  have "json_parse (Suc (length (json_dumps v))) (json_dumps v @ []) = Some (json_sorted v, [])"
    using json_reads_back [OF assms] by (simp add: reads_back_def del: json_parse.simps append_Nil2)
  then show ?thesis using json_dumps_skip [of v "[]"] by (simp add: json_loads_def del: json_parse.simps)
qed

end
