(* ===== verification/PolicyFiles.thy ===== *)
theory PolicyFiles
  imports SqliteControl JsonRoundTrip SubjectTokens
begin

section \<open>Policy files\<close>

text \<open>
  \<^verbatim>\<open>src/vinctor_service/policy_files.py\<close> on SQLite: a document declares bounds, auto-approval rules and
  the boundary mandate of a workspace; applying it validates all of it, writes it in one
  transaction with one audit event, and records the resulting state as a version, to which an
  operator can roll back.

  The YAML parser is not part of the repository: what reading a file gives is the argument \<open>file\<close>, an
  error or a value. The values are those of the type \<open>json\<close>, so mappings have strings as their keys.
  A mapping of a Python dictionary is the list of its items. Within an
  apply the events of the single writes are suppressed, so they may share the randomness \<open>rnd\<close>.
\<close>

subsection \<open>Values\<close>

definition EVENT_POLICY_APPLIED :: string where "EVENT_POLICY_APPLIED = ''policy_applied''"
definition EVENT_POLICY_ROLLED_BACK :: string where "EVENT_POLICY_ROLLED_BACK = ''policy_rolled_back''"

type_synonym mapping_items = "(string \<times> json) list"

datatype yaml_file = FileOSError | FileYAMLError string | FileLoaded json

text \<open>\<^verbatim>\<open>str\<close> and \<^verbatim>\<open>repr\<close> of a value, as messages show it.\<close>

definition repr_char :: "char \<Rightarrow> char \<Rightarrow> string" where
  "repr_char quote c =
     (let n = of_char c :: nat
      in if c = quote \<or> c = CHR 0x5C then [CHR 0x5C, c]
         else if c = CHR 0x0A then [CHR 0x5C, CHR ''n'']
         else if c = CHR 0x0D then [CHR 0x5C, CHR ''r'']
         else if c = CHR 0x09 then [CHR 0x5C, CHR ''t'']
         else if (32 \<le> n \<and> n \<le> 126) \<or> (161 \<le> n \<and> n \<noteq> 173) then [c]
         else [CHR 0x5C, CHR ''x'', hex_digit (n div 16), hex_digit n])"

definition py_repr_str :: "string \<Rightarrow> string" where
  "py_repr_str s =
     (let quote = (if CHR 0x27 \<in> set s \<and> CHR 0x22 \<notin> set s then CHR 0x22 else CHR 0x27)
      in [quote] @ concat (map (repr_char quote) s) @ [quote])"

fun py_repr :: "json \<Rightarrow> string" where
  "py_repr JNull = ''None''"
| "py_repr (JBool b) = (if b then ''True'' else ''False'')"
| "py_repr (JInt n) = py_str_int n"
| "py_repr (JStr s) = py_repr_str s"
| "py_repr (JList xs) = ''['' @ join_with '', '' (map py_repr xs) @ '']''"
| "py_repr (JObj kvs) = ''{'' @ join_with '', '' (map (\<lambda>(k, t). py_repr_str k @ '': '' @ t) (map (\<lambda>(k, v). (k, py_repr v)) kvs)) @ ''}''"

definition py_str_value :: "json \<Rightarrow> string" where
  "py_str_value v = (case v of JStr s \<Rightarrow> s | _ \<Rightarrow> py_repr v)"

definition json_is_int :: "json \<Rightarrow> bool" where
  "json_is_int v = (case v of JInt _ \<Rightarrow> True | JBool _ \<Rightarrow> True | _ \<Rightarrow> False)"

text \<open>The integer an \<^verbatim>\<open>int\<close> is; a \<^verbatim>\<open>bool\<close> is an \<^verbatim>\<open>int\<close>.\<close>

definition json_int :: "json \<Rightarrow> int" where
  "json_int v = (case v of JInt n \<Rightarrow> n | JBool b \<Rightarrow> of_bool b | _ \<Rightarrow> 0)"

definition json_equals_one :: "json option \<Rightarrow> bool" where
  "json_equals_one v = (case v of Some w \<Rightarrow> json_is_int w \<and> json_int w = 1 | None \<Rightarrow> False)"

definition json_hashable :: "json \<Rightarrow> bool" where
  "json_hashable v = (case v of JList _ \<Rightarrow> False | JObj _ \<Rightarrow> False | _ \<Rightarrow> True)"

subsection \<open>Reading a document\<close>

definition as_mapping :: "json \<Rightarrow> string \<Rightarrow> exn + mapping_items" where
  "as_mapping v label =
     (case v of JObj kvs \<Rightarrow> Inr kvs | _ \<Rightarrow> Inl (ValueError (label @ '' must be a mapping'')))"

definition reject_extra :: "mapping_items \<Rightarrow> string list \<Rightarrow> string \<Rightarrow> exn option" where
  "reject_extra m allowed label =
     (case sort (filter (\<lambda>k. k \<notin> set allowed) (map fst m)) of
        [] \<Rightarrow> None
      | k # _ \<Rightarrow> Some (ValueError (''unexpected '' @ label @ '' field: '' @ k)))"

definition required_string :: "mapping_items \<Rightarrow> string \<Rightarrow> exn + string" where
  "required_string m fld =
     (case dict_get m fld of
        Some (JStr s) \<Rightarrow> if s = [] then Inl (ValueError (fld @ '' must be a non-empty string'')) else Inr s
      | _ \<Rightarrow> Inl (ValueError (fld @ '' must be a non-empty string'')))"

definition optional_string :: "mapping_items \<Rightarrow> string \<Rightarrow> exn + string option" where
  "optional_string m fld =
     (case dict_get m fld of
        None \<Rightarrow> Inr None
      | Some JNull \<Rightarrow> Inr None
      | Some (JStr s) \<Rightarrow>
          if s = [] then Inl (ValueError (fld @ '' must be a non-empty string when provided'')) else Inr (Some s)
      | _ \<Rightarrow> Inl (ValueError (fld @ '' must be a non-empty string when provided'')))"

definition nonempty_string :: "json \<Rightarrow> bool" where
  "nonempty_string v = (case v of JStr s \<Rightarrow> s \<noteq> [] | _ \<Rightarrow> False)"

definition string_of :: "json \<Rightarrow> string" where
  "string_of v = (case v of JStr s \<Rightarrow> s | _ \<Rightarrow> [])"

definition required_string_list :: "mapping_items \<Rightarrow> string \<Rightarrow> exn + string list" where
  "required_string_list m fld =
     (case dict_get m fld of
        Some (JList xs) \<Rightarrow>
          if xs = [] then Inl (ValueError (fld @ '' must be a non-empty list''))
          else if \<exists>x\<in>set xs. \<not> nonempty_string x
          then Inl (ValueError (fld @ '' must contain only non-empty strings''))
          else Inr (map string_of xs)
      | _ \<Rightarrow> Inl (ValueError (fld @ '' must be a non-empty list'')))"

definition required_list :: "mapping_items \<Rightarrow> string \<Rightarrow> exn + json list" where
  "required_list m fld =
     (case dict_get m fld of
        None \<Rightarrow> Inr []
      | Some JNull \<Rightarrow> Inr []
      | Some (JList xs) \<Rightarrow> Inr xs
      | Some _ \<Rightarrow> Inl (ValueError (fld @ '' must be a list'')))"

text \<open>\<^verbatim>\<open>str.isdigit\<close> on characters below 256.\<close>

definition unicode_digit :: "char \<Rightarrow> bool" where
  "unicode_digit c \<longleftrightarrow> is_digit c \<or> c \<in> {CHR 0xB2, CHR 0xB3, CHR 0xB9}"

definition py_int_call :: "string \<Rightarrow> exn + int" where
  "py_int_call s =
     (case py_int s of
        Some n \<Rightarrow> Inr n
      | None \<Rightarrow> Inl (ValueError (''invalid literal for int() with base 10: '' @ py_repr_str s)))"

definition duration_unit :: "char \<Rightarrow> int option" where
  "duration_unit c =
     (if c = CHR ''s'' then Some 1 else if c = CHR ''m'' then Some 60 else if c = CHR ''h'' then Some 3600 else None)"

definition duration_string_seconds :: "string \<Rightarrow> exn + int" where
  "duration_string_seconds raw =
     (case duration_unit (last raw) of
        Some factor \<Rightarrow>
          if butlast raw \<noteq> [] \<and> (\<forall>c\<in>set (butlast raw). unicode_digit c)
          then (case py_int_call (butlast raw) of Inl e \<Rightarrow> Inl e | Inr n \<Rightarrow> Inr (n * factor))
          else Inl (ValueError (''invalid max_ttl duration: '' @ raw))
      | None \<Rightarrow> Inl (ValueError (''invalid max_ttl duration: '' @ raw)))"

definition positive_json_int :: "json \<Rightarrow> exn + int" where
  "positive_json_int v =
     (case v of
        JInt n \<Rightarrow> if n \<le> 0 then Inl (ValueError ''max_ttl_seconds must be a positive integer'') else Inr n
      | _ \<Rightarrow> Inl (ValueError ''max_ttl_seconds must be a positive integer''))"

definition bounds_max_ttl :: "mapping_items \<Rightarrow> exn + bool \<times> int option" where
  "bounds_max_ttl m =
     (if dict_get m ''max_ttl'' \<noteq> None \<and> dict_get m ''max_ttl_seconds'' \<noteq> None
      then Inl (ValueError ''agent_bounds entry must not set both max_ttl and max_ttl_seconds'')
      else case dict_get m ''max_ttl_seconds'' of
        Some JNull \<Rightarrow> Inr (True, None)
      | Some v \<Rightarrow> (case positive_json_int v of Inl e \<Rightarrow> Inl e | Inr n \<Rightarrow> Inr (True, Some n))
      | None \<Rightarrow>
          (case dict_get m ''max_ttl'' of
             None \<Rightarrow> Inr (False, None)
           | Some JNull \<Rightarrow> Inr (True, None)
           | Some v \<Rightarrow>
               if nonempty_string v
               then (case duration_string_seconds (string_of v) of Inl e \<Rightarrow> Inl e | Inr n \<Rightarrow> Inr (True, Some n))
               else Inl (ValueError (''invalid max_ttl duration: '' @ py_str_value v))))"

definition duration_seconds :: "mapping_items \<Rightarrow> exn + int" where
  "duration_seconds m =
     (case dict_get m ''max_ttl_seconds'' of
        Some v \<Rightarrow> positive_json_int v
      | None \<Rightarrow>
          (case dict_get m ''max_ttl'' of
             Some v \<Rightarrow>
               if nonempty_string v then duration_string_seconds (string_of v)
               else Inl (ValueError ''rule must set max_ttl or max_ttl_seconds'')
           | None \<Rightarrow> Inl (ValueError ''rule must set max_ttl or max_ttl_seconds'')))"

record bounds_entry =
  be_agent_id :: string
  be_scopes :: "string list"
  be_max_ttl_declared :: bool
  be_max_ttl_seconds :: "int option"

definition parse_bounds_entry :: "json \<Rightarrow> exn + bounds_entry" where
  "parse_bounds_entry entry =
     (case as_mapping entry ''agent_bounds entry'' of
        Inl e \<Rightarrow> Inl e
      | Inr m \<Rightarrow>
          (case reject_extra m [''agent_id'', ''scopes'', ''max_ttl'', ''max_ttl_seconds''] ''agent_bounds entry'' of
             Some e \<Rightarrow> Inl e
           | None \<Rightarrow>
               (case required_string m ''agent_id'' of
                  Inl e \<Rightarrow> Inl e
                | Inr agent_id \<Rightarrow>
                    (case required_string_list m ''scopes'' of
                       Inl e \<Rightarrow> Inl e
                     | Inr scopes \<Rightarrow>
                         (case bounds_max_ttl m of
                            Inl e \<Rightarrow> Inl e
                          | Inr (declared, max_ttl_seconds) \<Rightarrow>
                              Inr \<lparr>be_agent_id = agent_id, be_scopes = scopes, be_max_ttl_declared = declared,
                                   be_max_ttl_seconds = max_ttl_seconds\<rparr>)))))"

record rule_entry =
  re_rule_id :: "string option"
  re_name :: string
  re_target_agent_id :: string
  re_allowed_scopes :: "string list"
  re_max_ttl_seconds :: int
  re_status :: string

definition RULE_FIELDS :: "string list" where
  "RULE_FIELDS = [''rule_id'', ''name'', ''target_agent_id'', ''allowed_scopes'', ''max_ttl'', ''max_ttl_seconds'', ''status'']"

definition rule_status :: "json option \<Rightarrow> exn + string" where
  "rule_status v =
     (case v of
        None \<Rightarrow> Inr ''active''
      | Some w \<Rightarrow>
          if \<not> json_hashable w then Inl (TypeError ''unhashable type'')
          else if w = JStr ''active'' \<or> w = JStr ''disabled'' then Inr (string_of w)
          else Inl (ValueError ''rule status must be active or disabled''))"

definition rule_fields :: "mapping_items \<Rightarrow> string \<Rightarrow> exn + rule_entry" where
  "rule_fields m status =
     (case optional_string m ''rule_id'' of
        Inl e \<Rightarrow> Inl e
      | Inr rule_id \<Rightarrow>
          (case required_string m ''name'' of
             Inl e \<Rightarrow> Inl e
           | Inr name \<Rightarrow>
               (case required_string m ''target_agent_id'' of
                  Inl e \<Rightarrow> Inl e
                | Inr target_agent_id \<Rightarrow>
                    (case required_string_list m ''allowed_scopes'' of
                       Inl e \<Rightarrow> Inl e
                     | Inr allowed_scopes \<Rightarrow>
                         (case duration_seconds m of
                            Inl e \<Rightarrow> Inl e
                          | Inr max_ttl_seconds \<Rightarrow>
                              Inr \<lparr>re_rule_id = rule_id, re_name = name, re_target_agent_id = target_agent_id,
                                   re_allowed_scopes = allowed_scopes, re_max_ttl_seconds = max_ttl_seconds,
                                   re_status = status\<rparr>)))))"

definition parse_rule_entry :: "json \<Rightarrow> exn + rule_entry" where
  "parse_rule_entry entry =
     (case as_mapping entry ''auto_approval_rules entry'' of
        Inl e \<Rightarrow> Inl e
      | Inr m \<Rightarrow>
          (case reject_extra m RULE_FIELDS ''auto_approval_rules entry'' of
             Some e \<Rightarrow> Inl e
           | None \<Rightarrow>
               if dict_get m ''max_ttl'' \<noteq> None \<and> dict_get m ''max_ttl_seconds'' \<noteq> None
               then Inl (ValueError ''rule must not set both max_ttl and max_ttl_seconds'')
               else (case rule_status (dict_get m ''status'') of
                       Inl e \<Rightarrow> Inl e
                     | Inr status \<Rightarrow> rule_fields m status)))"

definition parse_agents :: "json option \<Rightarrow> exn + string list" where
  "parse_agents v =
     (case v of
        None \<Rightarrow> Inr []
      | Some (JList xs) \<Rightarrow>
          if \<exists>x\<in>set xs. \<not> nonempty_string x
          then Inl (ValueError ''require_boundary agents must contain only non-empty strings'')
          else Inr (map string_of xs)
      | Some _ \<Rightarrow> Inl (ValueError ''require_boundary agents must be a list''))"

definition parse_require_boundary :: "mapping_items \<Rightarrow> exn + bool option \<times> string list" where
  "parse_require_boundary document =
     (case dict_get document ''require_boundary'' of
        None \<Rightarrow> Inr (None, [])
      | Some JNull \<Rightarrow> Inr (None, [])
      | Some raw \<Rightarrow>
          (case as_mapping raw ''require_boundary'' of
             Inl e \<Rightarrow> Inl e
           | Inr m \<Rightarrow>
               (case reject_extra m [''workspace'', ''agents''] ''require_boundary'' of
                  Some e \<Rightarrow> Inl e
                | None \<Rightarrow>
                    (case dict_get m ''workspace'' of
                       None \<Rightarrow> (case parse_agents (dict_get m ''agents'') of Inl e \<Rightarrow> Inl e | Inr agents \<Rightarrow> Inr (None, agents))
                     | Some (JBool b) \<Rightarrow>
                         (case parse_agents (dict_get m ''agents'') of Inl e \<Rightarrow> Inl e | Inr agents \<Rightarrow> Inr (Some b, agents))
                     | Some _ \<Rightarrow> Inl (ValueError ''require_boundary workspace must be a boolean'')))))"

definition POLICY_FIELDS :: "string list" where
  "POLICY_FIELDS = [''version'', ''workspace_id'', ''agent_bounds'', ''auto_approval_rules'', ''require_boundary'']"

definition load_policy_document :: "string \<Rightarrow> yaml_file \<Rightarrow> exn + mapping_items" where
  "load_policy_document path file =
     (case file of
        FileOSError \<Rightarrow> Inl (ValueError (''could not read policy file: '' @ path))
      | FileYAMLError msg \<Rightarrow> Inl (ValueError (''invalid YAML policy file: '' @ msg))
      | FileLoaded (JObj m) \<Rightarrow>
          if dict_get m ''proposed'' \<noteq> None
          then Inl (ValueError ''this is a proposal document; review and author a policy file'')
          else (case reject_extra m POLICY_FIELDS ''policy'' of
                  Some e \<Rightarrow> Inl e
                | None \<Rightarrow>
                    if \<not> json_equals_one (dict_get m ''version'') then Inl (ValueError ''policy version must be 1'')
                    else if dict_get m ''agent_bounds'' = None \<and> dict_get m ''auto_approval_rules'' = None
                      \<and> dict_get m ''require_boundary'' = None
                    then Inl (ValueError ''policy file must contain agent_bounds, auto_approval_rules, or require_boundary'')
                    else Inr m)
      | FileLoaded _ \<Rightarrow> Inl (ValueError ''policy file must contain a mapping''))"


subsection \<open>Preparing an apply\<close>

text \<open>\<^verbatim>\<open>re.sub(r"[^a-z0-9]+", "_", s)\<close>; the flag tells whether the last character was replaced.\<close>

definition slug_char :: "char \<Rightarrow> bool" where
  "slug_char c \<longleftrightarrow> (let n = of_char c :: nat in 97 \<le> n \<and> n \<le> 122 \<or> 48 \<le> n \<and> n \<le> 57)"

fun slugify :: "bool \<Rightarrow> string \<Rightarrow> string" where
  "slugify replaced [] = []"
| "slugify replaced (c # cs) =
     (if slug_char c then c # slugify False cs
      else if replaced then slugify True cs else CHR ''_'' # slugify True cs)"

definition strip_underscores :: "string \<Rightarrow> string" where
  "strip_underscores s = rev (dropWhile (\<lambda>c. c = CHR ''_'') (rev (dropWhile (\<lambda>c. c = CHR ''_'') s)))"

definition stable_rule_id :: "string \<Rightarrow> string \<Rightarrow> string \<Rightarrow> string list \<Rightarrow> string" where
  "stable_rule_id workspace_id name target_agent_id scopes =
     (let slug = strip_underscores (slugify False (py_lower name));
          slug = (if slug = [] then ''rule'' else slug);
          digest = take 8 (hexdigest (sha256 (utf8
            (join_with ''|'' [workspace_id, name, target_agent_id, join_with '','' scopes]))))
      in ''apr_'' @ take 32 slug @ ''_'' @ digest)"

fun prepare_bounds :: "json list \<Rightarrow> exn + bounds_entry list" where
  "prepare_bounds [] = Inr []"
| "prepare_bounds (entry # entries) =
     (case parse_bounds_entry entry of
        Inl e \<Rightarrow> Inl e
      | Inr parsed \<Rightarrow>
          (case validate_issuable_scope_bounds (be_scopes parsed) (be_max_ttl_seconds parsed) of
             Some e \<Rightarrow> Inl e
           | None \<Rightarrow> (case prepare_bounds entries of Inl e \<Rightarrow> Inl e | Inr rest \<Rightarrow> Inr (parsed # rest))))"

definition prepared_rule ::
  "string \<Rightarrow> string \<Rightarrow> instant \<Rightarrow> rule_entry \<Rightarrow> string \<Rightarrow> AutoApprovalRule option \<Rightarrow> AutoApprovalRule" where
  "prepared_rule workspace_id applied_by now parsed rule_id existing =
     \<lparr>aar_rule_id = rule_id, aar_workspace_id = workspace_id, aar_name = re_name parsed,
      aar_target_agent_id = re_target_agent_id parsed, aar_allowed_scopes = re_allowed_scopes parsed,
      aar_max_ttl_seconds = re_max_ttl_seconds parsed, aar_status = re_status parsed,
      aar_created_by = (case existing of Some r \<Rightarrow> aar_created_by r | None \<Rightarrow> applied_by),
      aar_created_at = (case existing of Some r \<Rightarrow> aar_created_at r | None \<Rightarrow> now),
      aar_updated_by = (case existing of Some _ \<Rightarrow> Some applied_by | None \<Rightarrow> None),
      aar_updated_at = (case existing of Some _ \<Rightarrow> Some now | None \<Rightarrow> None)\<rparr>"

fun prepare_rules ::
  "string \<Rightarrow> string \<Rightarrow> instant \<Rightarrow> 'e policy_db_scheme \<Rightarrow> json list \<Rightarrow> exn + AutoApprovalRule list" where
  "prepare_rules workspace_id applied_by now d [] = Inr []"
| "prepare_rules workspace_id applied_by now d (entry # entries) =
     (case parse_rule_entry entry of
        Inl e \<Rightarrow> Inl e
      | Inr parsed \<Rightarrow>
          (case find_first (\<lambda>scope. \<not> is_valid_grant_scope scope) (re_allowed_scopes parsed) of
             Some scope \<Rightarrow> Inl (ValueError (''invalid allowed scope: '' @ scope))
           | None \<Rightarrow>
               (let rule_id = py_or (re_rule_id parsed)
                      (stable_rule_id workspace_id (re_name parsed) (re_target_agent_id parsed) (re_allowed_scopes parsed))
                in case sq_get_rule rule_id d of
                     Inl e \<Rightarrow> Inl e
                   | Inr existing \<Rightarrow>
                       (case prepare_rules workspace_id applied_by now d entries of
                          Inl e \<Rightarrow> Inl e
                        | Inr rest \<Rightarrow> Inr (prepared_rule workspace_id applied_by now parsed rule_id existing # rest)))))"

subsection \<open>Writing\<close>

fun apply_bounds ::
  "string \<Rightarrow> string \<Rightarrow> instant \<Rightarrow> entropy \<Rightarrow> bounds_entry list \<Rightarrow> (unit, 'e policy_db_scheme) operation" where
  "apply_bounds workspace_id applied_by now rnd [] d = (Inr (), d)"
| "apply_bounds workspace_id applied_by now rnd (parsed # rest) d =
     (case sq_set_bounds workspace_id (be_agent_id parsed) (be_scopes parsed) (be_max_ttl_seconds parsed)
             (be_max_ttl_declared parsed \<and> be_max_ttl_seconds parsed = None) now (Some applied_by) rnd d of
        (Inl e, d') \<Rightarrow> (Inl e, d')
      | (Inr _, d') \<Rightarrow> apply_bounds workspace_id applied_by now rnd rest d')"

fun apply_rules :: "entropy \<Rightarrow> AutoApprovalRule list \<Rightarrow> (int \<times> int, 'e policy_db_scheme) operation" where
  "apply_rules rnd [] d = (Inr (0, 0), d)"
| "apply_rules rnd (rule # rules) d =
     (case sq_upsert_auto_approval_rule rule rnd d of
        (Inl e, d') \<Rightarrow> (Inl e, d')
      | (Inr action, d') \<Rightarrow>
          (case apply_rules rnd rules d' of
             (Inl e, d'') \<Rightarrow> (Inl e, d'')
           | (Inr (created, updated), d'') \<Rightarrow>
               (Inr (if action = ''created'' then (created + 1, updated) else (created, updated + 1)), d'')))"

fun apply_agents :: "string \<Rightarrow> string \<Rightarrow> instant \<Rightarrow> entropy \<Rightarrow> string list \<Rightarrow> (unit, 'e policy_db_scheme) operation" where
  "apply_agents workspace_id applied_by now rnd [] d = (Inr (), d)"
| "apply_agents workspace_id applied_by now rnd (agent_id # agents) d =
     (case sq_set_require_boundary workspace_id agent_id True now (Some applied_by) rnd d of
        (Inl e, d') \<Rightarrow> (Inl e, d')
      | (Inr _, d') \<Rightarrow> apply_agents workspace_id applied_by now rnd agents d')"

definition apply_require_boundary ::
  "string \<Rightarrow> string \<Rightarrow> instant \<Rightarrow> entropy \<Rightarrow> bool option \<times> string list \<Rightarrow> (unit, 'e policy_db_scheme) operation" where
  "apply_require_boundary workspace_id applied_by now rnd parsed d =
     (case fst parsed of
        None \<Rightarrow> apply_agents workspace_id applied_by now rnd (snd parsed) d
      | Some b \<Rightarrow>
          (case sq_set_require_boundary workspace_id [] b now (Some applied_by) rnd d of
             (Inl e, d') \<Rightarrow> (Inl e, d')
           | (Inr _, d') \<Rightarrow> apply_agents workspace_id applied_by now rnd (snd parsed) d'))"

subsection \<open>Versions\<close>

definition bound_item :: "bounds_row \<Rightarrow> json" where
  "bound_item r =
     JObj [(''agent_id'', JStr (br_agent_id r)), (''scopes'', JList (map JStr (br_scopes r))),
           (''max_ttl_seconds'', (case br_max_ttl_seconds r of None \<Rightarrow> JNull | Some n \<Rightarrow> JInt n)),
           (''updated_at'', JStr (br_updated_at r))]"

definition rule_item :: "rule_row \<Rightarrow> json" where
  "rule_item r =
     JObj [(''rule_id'', JStr (rl_rule_id r)), (''name'', JStr (rl_name r)),
           (''target_agent_id'', JStr (rl_target_agent_id r)), (''allowed_scopes'', JList (map JStr (rl_allowed_scopes r))),
           (''max_ttl_seconds'', JInt (rl_max_ttl_seconds r)), (''status'', JStr (rl_status r)),
           (''created_by'', JStr (rl_created_by r)), (''created_at'', JStr (rl_created_at r)),
           (''updated_by'', json_opt (rl_updated_by r)), (''updated_at'', json_opt (rl_updated_at r))]"

definition setting_item :: "setting_row \<Rightarrow> json" where
  "setting_item r =
     JObj [(''agent_id'', JStr (sr_agent_id r)), (''require_boundary'', JBool (sr_require_boundary r)),
           (''updated_at'', JStr (sr_updated_at r))]"

definition bounds_of :: "string \<Rightarrow> 'e policy_db_scheme \<Rightarrow> bounds_row list" where
  "bounds_of workspace_id d = sort_key br_agent_id (filter (\<lambda>r. br_workspace_id r = workspace_id) (pd_bounds d))"

definition boundary_settings_of :: "string \<Rightarrow> 'e policy_db_scheme \<Rightarrow> setting_row list" where
  "boundary_settings_of workspace_id d =
     sort_key sr_agent_id (filter (\<lambda>r. sr_workspace_id r = workspace_id \<and> sr_require_boundary_set r) (pd_settings d))"

definition snapshot_policy_state :: "string \<Rightarrow> 'e policy_db_scheme \<Rightarrow> json" where
  "snapshot_policy_state workspace_id d =
     JObj [(''version'', JInt 1),
           (''agent_bounds'', JList (map bound_item (bounds_of workspace_id d))),
           (''auto_approval_rules'', JList (map rule_item (rule_rows workspace_id d))),
           (''require_boundary_settings'', JList (map setting_item (boundary_settings_of workspace_id d)))]"

definition max_version :: "string \<Rightarrow> 'e policy_db_scheme \<Rightarrow> int" where
  "max_version workspace_id d =
     (case map pv_version (filter (\<lambda>r. pv_workspace_id r = workspace_id) (pd_versions d)) of
        [] \<Rightarrow> 0 | v # vs \<Rightarrow> fold max vs v)"

definition insert_policy_version ::
  "string \<Rightarrow> string \<Rightarrow> int option \<Rightarrow> string \<Rightarrow> instant \<Rightarrow> 'e policy_db_scheme \<Rightarrow> int \<times> 'e policy_db_scheme" where
  "insert_policy_version workspace_id action source_version applied_by now d =
     (let version = max_version workspace_id d + 1
      in (version,
          d\<lparr>pd_versions := pd_versions d @
              [\<lparr>pv_workspace_id = workspace_id, pv_version = version, pv_action = action,
                pv_source_version = source_version, pv_snapshot_json = json_dumps (snapshot_policy_state workspace_id d),
                pv_applied_by = applied_by, pv_created_at = isoformat now\<rparr>]\<rparr>))"

record PolicyVersionInfo =
  vi_workspace_id :: string
  vi_version :: int
  vi_action :: string
  vi_source_version :: "int option"
  vi_applied_by :: string
  vi_created_at :: instant

fun version_infos :: "version_row list \<Rightarrow> exn + PolicyVersionInfo list" where
  "version_infos [] = Inr []"
| "version_infos (r # rs) =
     (case read_datetime (pv_created_at r) of
        Inl e \<Rightarrow> Inl e
      | Inr created_at \<Rightarrow>
          (case version_infos rs of
             Inl e \<Rightarrow> Inl e
           | Inr infos \<Rightarrow>
               Inr (\<lparr>vi_workspace_id = pv_workspace_id r, vi_version = pv_version r, vi_action = pv_action r,
                     vi_source_version = pv_source_version r, vi_applied_by = pv_applied_by r,
                     vi_created_at = created_at\<rparr> # infos)))"

definition list_policy_versions :: "string \<Rightarrow> 'e policy_db_scheme \<Rightarrow> exn + PolicyVersionInfo list" where
  "list_policy_versions workspace_id d =
     version_infos (sort_key pv_version (filter (\<lambda>r. pv_workspace_id r = workspace_id) (pd_versions d)))"

subsection \<open>Applying\<close>

record PolicyApplyResult =
  pa_workspace_id :: string
  pa_bounds_set :: int
  pa_rules_created :: int
  pa_rules_updated :: int
  pa_policy_version :: int

definition write_policy ::
  "string \<Rightarrow> string \<Rightarrow> instant \<Rightarrow> entropy \<Rightarrow> bounds_entry list \<Rightarrow> AutoApprovalRule list \<Rightarrow> bool option \<times> string list
     \<Rightarrow> (PolicyApplyResult, 'e policy_db_scheme) operation" where
  "write_policy workspace_id applied_by now rnd bounds rules boundary d =
     (case apply_bounds workspace_id applied_by now rnd bounds d of
        (Inl e, d1) \<Rightarrow> (Inl e, d1)
      | (Inr _, d1) \<Rightarrow>
          (case apply_rules rnd rules d1 of
             (Inl e, d2) \<Rightarrow> (Inl e, d2)
           | (Inr (created, updated), d2) \<Rightarrow>
               (case apply_require_boundary workspace_id applied_by now rnd boundary d2 of
                  (Inl e, d3) \<Rightarrow> (Inl e, d3)
                | (Inr _, d3) \<Rightarrow>
                    (case insert_policy_version workspace_id ''apply'' None applied_by now d3 of
                       (version, d4) \<Rightarrow>
                         (Inr \<lparr>pa_workspace_id = workspace_id, pa_bounds_set = int (length bounds), pa_rules_created = created,
                               pa_rules_updated = updated, pa_policy_version = version\<rparr>, d4)))))"

definition apply_policy_document ::
  "mapping_items \<Rightarrow> string \<Rightarrow> string \<Rightarrow> instant \<Rightarrow> entropy \<Rightarrow> (PolicyApplyResult, 'e policy_db_scheme) operation" where
  "apply_policy_document document workspace_id applied_by now rnd d =
     (case required_list document ''agent_bounds'' of
        Inl e \<Rightarrow> (Inl e, d)
      | Inr bounds_entries \<Rightarrow>
          (case prepare_bounds bounds_entries of
             Inl e \<Rightarrow> (Inl e, d)
           | Inr bounds \<Rightarrow>
               (case required_list document ''auto_approval_rules'' of
                  Inl e \<Rightarrow> (Inl e, d)
                | Inr rule_entries \<Rightarrow>
                    (case prepare_rules workspace_id applied_by now d rule_entries of
                       Inl e \<Rightarrow> (Inl e, d)
                     | Inr rules \<Rightarrow>
                         (case parse_require_boundary document of
                            Inl e \<Rightarrow> (Inl e, d)
                          | Inr boundary \<Rightarrow> write_policy workspace_id applied_by now rnd bounds rules boundary d)))))"

text \<open>\<^verbatim>\<open>_sqlite_apply_transaction\<close>: it begins its own transaction, which SQLite refuses inside another one.\<close>

definition sqlite_apply_transaction :: "('r, 'e policy_db_scheme) operation \<Rightarrow> ('r, 'e policy_db_scheme) operation" where
  "sqlite_apply_transaction body d =
     (if cd_in_transaction d then (Inl (OtherException ''OperationalError''), d) else write_scope body d)"

definition applied_event :: "PolicyApplyResult \<Rightarrow> string \<Rightarrow> string \<Rightarrow> instant \<Rightarrow> control_args" where
  "applied_event result workspace_id applied_by now =
     (control EVENT_POLICY_APPLIED workspace_id ''policy_apply'' (''policy/version/'' @ py_str_int (pa_policy_version result))
        (''bounds_set='' @ py_str_int (pa_bounds_set result) @ '' rules_created='' @ py_str_int (pa_rules_created result)
           @ '' rules_updated='' @ py_str_int (pa_rules_updated result)) now)
       \<lparr>ca_enforcing_principal := Some applied_by\<rparr>"

definition apply_body ::
  "mapping_items \<Rightarrow> string \<Rightarrow> string \<Rightarrow> instant \<Rightarrow> entropy \<Rightarrow> (PolicyApplyResult \<times> AuditEvent option, 'e policy_db_scheme) operation" where
  "apply_body document workspace_id applied_by now rnd d =
     (case apply_policy_document document workspace_id applied_by now rnd d of
        (Inl e, d') \<Rightarrow> (Inl e, d')
      | (Inr result, d') \<Rightarrow>
          (case pending_set (applied_event result workspace_id applied_by now) rnd None of
             Inl e \<Rightarrow> (Inl e, d')
           | Inr pending \<Rightarrow> (Inr (result, pending), d')))"

definition apply_policy_file ::
  "nat option \<Rightarrow> nat option \<Rightarrow> string \<Rightarrow> yaml_file \<Rightarrow> string \<Rightarrow> string \<Rightarrow> instant \<Rightarrow> entropy
     \<Rightarrow> (PolicyApplyResult, 'e policy_db_scheme) operation" where
  "apply_policy_file bound conn path file workspace_id applied_by now rnd d =
     (case load_policy_document path file of
        Inl e \<Rightarrow> (Inl e, d)
      | Inr document \<Rightarrow>
          if \<not> (case dict_get document ''workspace_id'' of None \<Rightarrow> True | Some JNull \<Rightarrow> True | Some v \<Rightarrow> v = JStr workspace_id)
          then (Inl (ValueError ''policy workspace_id does not match selected workspace''), d)
          else (case require_bound_to bound conn of
                  Some e \<Rightarrow> (Inl e, d)
                | None \<Rightarrow>
                    sqlite_apply_transaction (composite (apply_body document workspace_id applied_by now rnd)) d))"

subsection \<open>Rolling back\<close>

definition validate_snapshot_bound :: "json \<Rightarrow> exn option" where
  "validate_snapshot_bound raw =
     (case as_mapping raw ''policy snapshot bound'' of
        Inl e \<Rightarrow> Some e
      | Inr entry \<Rightarrow>
          (case required_string_list entry ''scopes'' of
             Inl e \<Rightarrow> Some e
           | Inr scopes \<Rightarrow>
               (let max_ttl = (case dict_get entry ''max_ttl_seconds'' of None \<Rightarrow> JNull | Some v \<Rightarrow> v)
                in if max_ttl \<noteq> JNull \<and> (\<not> json_is_int max_ttl \<or> json_int max_ttl \<le> 0)
                   then Some (ValueError ''invalid policy snapshot bound max_ttl_seconds'')
                   else (case validate_issuable_scope_bounds scopes (if max_ttl = JNull then None else Some (json_int max_ttl)) of
                           Some e \<Rightarrow> Some e
                         | None \<Rightarrow>
                             (case required_string entry ''agent_id'' of
                                Inl e \<Rightarrow> Some e
                              | Inr _ \<Rightarrow>
                                  (case required_string entry ''updated_at'' of Inl e \<Rightarrow> Some e | Inr _ \<Rightarrow> None))))))"

fun required_strings :: "mapping_items \<Rightarrow> string list \<Rightarrow> exn option" where
  "required_strings entry [] = None"
| "required_strings entry (fld # flds) =
     (case required_string entry fld of Inl e \<Rightarrow> Some e | Inr _ \<Rightarrow> required_strings entry flds)"

definition string_when_set :: "mapping_items \<Rightarrow> string \<Rightarrow> exn option" where
  "string_when_set entry fld =
     (case dict_get entry fld of
        None \<Rightarrow> None
      | Some JNull \<Rightarrow> None
      | Some _ \<Rightarrow> (case required_string entry fld of Inl e \<Rightarrow> Some e | Inr _ \<Rightarrow> None))"

definition validate_snapshot_rule :: "json \<Rightarrow> exn option" where
  "validate_snapshot_rule raw =
     (case as_mapping raw ''policy snapshot rule'' of
        Inl e \<Rightarrow> Some e
      | Inr entry \<Rightarrow>
          (case required_strings entry [''rule_id'', ''name'', ''target_agent_id'', ''created_by'', ''created_at''] of
             Some e \<Rightarrow> Some e
           | None \<Rightarrow>
               (case required_string_list entry ''allowed_scopes'' of
                  Inl e \<Rightarrow> Some e
                | Inr scopes \<Rightarrow>
                    if \<exists>scope\<in>set scopes. \<not> is_valid_grant_scope scope
                    then Some (ValueError ''invalid policy snapshot rule scope'')
                    else (let ttl = (case dict_get entry ''max_ttl_seconds'' of None \<Rightarrow> JNull | Some v \<Rightarrow> v);
                              status = (case dict_get entry ''status'' of None \<Rightarrow> JNull | Some v \<Rightarrow> v)
                          in if \<not> json_is_int ttl \<or> json_int ttl \<le> 0
                             then Some (ValueError ''invalid policy snapshot rule max_ttl_seconds'')
                             else if \<not> json_hashable status then Some (TypeError ''unhashable type'')
                             else if status \<noteq> JStr ''active'' \<and> status \<noteq> JStr ''disabled''
                             then Some (ValueError ''invalid policy snapshot rule status'')
                             else (case string_when_set entry ''updated_by'' of
                                     Some e \<Rightarrow> Some e
                                   | None \<Rightarrow> string_when_set entry ''updated_at'')))))"

definition validate_snapshot_setting :: "json \<Rightarrow> exn option" where
  "validate_snapshot_setting raw =
     (case as_mapping raw ''policy snapshot boundary setting'' of
        Inl e \<Rightarrow> Some e
      | Inr entry \<Rightarrow>
          if \<not> (case dict_get entry ''agent_id'' of Some (JStr _) \<Rightarrow> True | _ \<Rightarrow> False)
          then Some (ValueError ''invalid policy snapshot boundary agent_id'')
          else if \<not> (case dict_get entry ''require_boundary'' of Some (JBool _) \<Rightarrow> True | _ \<Rightarrow> False)
          then Some (ValueError ''invalid policy snapshot require_boundary'')
          else (case required_string entry ''updated_at'' of Inl e \<Rightarrow> Some e | Inr _ \<Rightarrow> None))"

fun first_error :: "(json \<Rightarrow> exn option) \<Rightarrow> json list \<Rightarrow> exn option" where
  "first_error f [] = None"
| "first_error f (x # xs) = (case f x of Some e \<Rightarrow> Some e | None \<Rightarrow> first_error f xs)"

definition validated_policy_snapshot :: "json \<Rightarrow> exn + mapping_items" where
  "validated_policy_snapshot v =
     (case as_mapping v ''policy snapshot'' of
        Inl e \<Rightarrow> Inl e
      | Inr snapshot \<Rightarrow>
          if \<not> json_equals_one (dict_get snapshot ''version'') then Inl (ValueError ''unsupported policy snapshot version'')
          else (case required_list snapshot ''agent_bounds'' of
                  Inl e \<Rightarrow> Inl e
                | Inr bounds \<Rightarrow>
                    (case required_list snapshot ''auto_approval_rules'' of
                       Inl e \<Rightarrow> Inl e
                     | Inr rules \<Rightarrow>
                         (case required_list snapshot ''require_boundary_settings'' of
                            Inl e \<Rightarrow> Inl e
                          | Inr settings \<Rightarrow>
                              (case first_error validate_snapshot_bound bounds of
                                 Some e \<Rightarrow> Inl e
                               | None \<Rightarrow>
                                   (case first_error validate_snapshot_rule rules of
                                      Some e \<Rightarrow> Inl e
                                    | None \<Rightarrow>
                                        (case first_error validate_snapshot_setting settings of
                                           Some e \<Rightarrow> Inl e
                                         | None \<Rightarrow> Inr snapshot)))))))"

text \<open>\<^verbatim>\<open>entry[field]\<close>, and the iteration over a list under a key.\<close>

definition item :: "json \<Rightarrow> string \<Rightarrow> exn + json" where
  "item entry fld =
     (case entry of
        JObj m \<Rightarrow> (case dict_get m fld of Some v \<Rightarrow> Inr v | None \<Rightarrow> Inl (OtherException ''KeyError''))
      | _ \<Rightarrow> Inl (TypeError ''not subscriptable''))"

fun items :: "json \<Rightarrow> string list \<Rightarrow> exn + json list" where
  "items entry [] = Inr []"
| "items entry (fld # flds) =
     (case item entry fld of
        Inl e \<Rightarrow> Inl e
      | Inr v \<Rightarrow> (case items entry flds of Inl e \<Rightarrow> Inl e | Inr vs \<Rightarrow> Inr (v # vs)))"

definition snapshot_list :: "mapping_items \<Rightarrow> string \<Rightarrow> exn + json list" where
  "snapshot_list snapshot fld =
     (case item (JObj snapshot) fld of
        Inl e \<Rightarrow> Inl e
      | Inr (JList xs) \<Rightarrow> Inr xs
      | Inr _ \<Rightarrow> Inl (TypeError ''not iterable''))"

definition strings_of_list :: "json \<Rightarrow> string list" where
  "strings_of_list v = (case v of JList xs \<Rightarrow> map string_of xs | _ \<Rightarrow> [])"

definition opt_string_of :: "json \<Rightarrow> string option" where
  "opt_string_of v = (case v of JStr s \<Rightarrow> Some s | _ \<Rightarrow> None)"

definition restored_bound :: "string \<Rightarrow> json \<Rightarrow> exn + bounds_row" where
  "restored_bound workspace_id entry =
     (case items entry [''agent_id'', ''scopes'', ''max_ttl_seconds'', ''updated_at''] of
        Inr [agent_id, scopes, max_ttl_seconds, updated_at] \<Rightarrow>
          Inr \<lparr>br_workspace_id = workspace_id, br_agent_id = string_of agent_id, br_scopes = strings_of_list scopes,
               br_max_ttl_seconds = (if json_is_int max_ttl_seconds then Some (json_int max_ttl_seconds) else None),
               br_updated_at = string_of updated_at\<rparr>
      | Inl e \<Rightarrow> Inl e)"

definition restored_rule :: "string \<Rightarrow> json \<Rightarrow> exn + rule_row" where
  "restored_rule workspace_id entry =
     (case items entry [''rule_id'', ''name'', ''target_agent_id'', ''allowed_scopes'', ''max_ttl_seconds'', ''status'',
                        ''created_by'', ''created_at'', ''updated_by'', ''updated_at''] of
        Inr [rule_id, name, target_agent_id, allowed_scopes, max_ttl_seconds, status, created_by, created_at, updated_by, updated_at] \<Rightarrow>
          Inr \<lparr>rl_rule_id = string_of rule_id, rl_workspace_id = workspace_id, rl_name = string_of name,
               rl_target_agent_id = string_of target_agent_id, rl_allowed_scopes = strings_of_list allowed_scopes,
               rl_max_ttl_seconds = json_int max_ttl_seconds, rl_status = string_of status,
               rl_created_by = string_of created_by, rl_created_at = string_of created_at,
               rl_updated_by = opt_string_of updated_by, rl_updated_at = opt_string_of updated_at\<rparr>
      | Inl e \<Rightarrow> Inl e)"

definition insert_bounds_row :: "bounds_row \<Rightarrow> (unit, 'e policy_db_scheme) operation" where
  "insert_bounds_row row d =
     (if bounds_key row \<in> bounds_key ` set (pd_bounds d) then (Inl (OtherException ''IntegrityError''), d)
      else (Inr (), d\<lparr>pd_bounds := pd_bounds d @ [row]\<rparr>))"

fun restore_bounds :: "string \<Rightarrow> json list \<Rightarrow> (unit, 'e policy_db_scheme) operation" where
  "restore_bounds workspace_id [] d = (Inr (), d)"
| "restore_bounds workspace_id (entry # entries) d =
     (case restored_bound workspace_id entry of
        Inl e \<Rightarrow> (Inl e, d)
      | Inr row \<Rightarrow>
          (case insert_bounds_row row d of
             (Inl e, d') \<Rightarrow> (Inl e, d')
           | (Inr _, d') \<Rightarrow> restore_bounds workspace_id entries d'))"

fun restore_rules :: "string \<Rightarrow> json list \<Rightarrow> (unit, 'e policy_db_scheme) operation" where
  "restore_rules workspace_id [] d = (Inr (), d)"
| "restore_rules workspace_id (entry # entries) d =
     (case restored_rule workspace_id entry of
        Inl e \<Rightarrow> (Inl e, d)
      | Inr row \<Rightarrow>
          (case insert_rule_row row d of
             (Inl e, d') \<Rightarrow> (Inl e, d')
           | (Inr _, d') \<Rightarrow> restore_rules workspace_id entries d'))"

text \<open>The agents of the saved settings, with their values.\<close>

fun saved_settings :: "json list \<Rightarrow> exn + (string \<times> bool) list" where
  "saved_settings [] = Inr []"
| "saved_settings (entry # entries) =
     (case items entry [''agent_id'', ''require_boundary''] of
        Inr [agent_id, require_boundary] \<Rightarrow>
          (case saved_settings entries of
             Inl e \<Rightarrow> Inl e
           | Inr rest \<Rightarrow> Inr ((string_of agent_id, json_int require_boundary \<noteq> 0) # rest))
      | Inl e \<Rightarrow> Inl e)"

definition clear_boundary_settings :: "string \<Rightarrow> string list \<Rightarrow> instant \<Rightarrow> 'e policy_db_scheme \<Rightarrow> 'e policy_db_scheme" where
  "clear_boundary_settings workspace_id saved_agent_ids now d =
     (let cleared = map (\<lambda>r. if sr_workspace_id r = workspace_id
                             then r\<lparr>sr_require_boundary_set := False, sr_updated_at := isoformat now\<rparr> else r) (pd_settings d)
      in d\<lparr>pd_settings := filter (\<lambda>r. \<not> (sr_workspace_id r = workspace_id \<and> sr_agent_id r \<notin> set saved_agent_ids
              \<and> \<not> sr_require_boundary_set r \<and> \<not> sr_require_subject_token r \<and> \<not> sr_require_pop r)) cleared\<rparr>)"

definition restore_setting :: "string \<Rightarrow> instant \<Rightarrow> string \<times> bool \<Rightarrow> 'e policy_db_scheme \<Rightarrow> 'e policy_db_scheme" where
  "restore_setting workspace_id now entry =
     write_setting (\<lambda>r. r\<lparr>sr_require_boundary := snd entry, sr_require_boundary_set := True\<rparr>) workspace_id (fst entry) now"

definition restore_settings :: "string \<Rightarrow> (string \<times> bool) list \<Rightarrow> instant \<Rightarrow> 'e policy_db_scheme \<Rightarrow> 'e policy_db_scheme" where
  "restore_settings workspace_id saved now d =
     fold (restore_setting workspace_id now) saved (clear_boundary_settings workspace_id (map fst saved) now d)"

definition restore_policy_snapshot :: "string \<Rightarrow> mapping_items \<Rightarrow> instant \<Rightarrow> (unit, 'e policy_db_scheme) operation" where
  "restore_policy_snapshot workspace_id snapshot now d =
     (case snapshot_list snapshot ''agent_bounds'' of
        Inl e \<Rightarrow> (Inl e, d)
      | Inr bounds \<Rightarrow>
          (case restore_bounds workspace_id bounds
                  (d\<lparr>pd_bounds := filter (\<lambda>r. br_workspace_id r \<noteq> workspace_id) (pd_bounds d)\<rparr>) of
             (Inl e, d1) \<Rightarrow> (Inl e, d1)
           | (Inr _, d1) \<Rightarrow>
               (case snapshot_list snapshot ''auto_approval_rules'' of
                  Inl e \<Rightarrow> (Inl e, d1)
                | Inr rules \<Rightarrow>
                    (case restore_rules workspace_id rules
                            (d1\<lparr>pd_rules := filter (\<lambda>r. rl_workspace_id r \<noteq> workspace_id) (pd_rules d1)\<rparr>) of
                       (Inl e, d2) \<Rightarrow> (Inl e, d2)
                     | (Inr _, d2) \<Rightarrow>
                         (case snapshot_list snapshot ''require_boundary_settings'' of
                            Inl e \<Rightarrow> (Inl e, d2)
                          | Inr settings \<Rightarrow>
                              (case saved_settings settings of
                                 Inl e \<Rightarrow> (Inl e, d2)
                               | Inr saved \<Rightarrow> (Inr (), restore_settings workspace_id saved now d2)))))))"

record PolicyRollbackResult =
  pr_workspace_id :: string
  pr_restored_version :: int
  pr_policy_version :: int

definition rollback_body ::
  "string \<Rightarrow> int \<Rightarrow> string \<Rightarrow> instant \<Rightarrow> entropy \<Rightarrow> (PolicyRollbackResult, 'e policy_db_scheme) operation" where
  "rollback_body workspace_id version applied_by now rnd d =
     (case find_first (\<lambda>r. pv_workspace_id r = workspace_id \<and> pv_version r = version) (pd_versions d) of
        None \<Rightarrow> (Inl (ValueError (''unknown policy version: '' @ py_str_int version)), d)
      | Some row \<Rightarrow>
          (case json_loads (pv_snapshot_json row) of
             None \<Rightarrow> (Inl (ValueError ''invalid JSON''), d)
           | Some v \<Rightarrow>
               (case validated_policy_snapshot v of
                  Inl e \<Rightarrow> (Inl e, d)
                | Inr snapshot \<Rightarrow>
                    (case restore_policy_snapshot workspace_id snapshot now d of
                       (Inl e, d1) \<Rightarrow> (Inl e, d1)
                     | (Inr _, d1) \<Rightarrow>
                         (case insert_policy_version workspace_id ''rollback'' (Some version) applied_by now d1 of
                            (new_version, d2) \<Rightarrow>
                              (case control_record
                                      ((control EVENT_POLICY_ROLLED_BACK workspace_id ''policy_rollback''
                                          (''policy/version/'' @ py_str_int new_version)
                                          (''restored_version='' @ py_str_int version) now)
                                         \<lparr>ca_enforcing_principal := Some applied_by\<rparr>) rnd d2 of
                                 (Inl e, d3) \<Rightarrow> (Inl e, d3)
                               | (Inr _, d3) \<Rightarrow>
                                   (Inr \<lparr>pr_workspace_id = workspace_id, pr_restored_version = version,
                                         pr_policy_version = new_version\<rparr>, d3)))))))"

definition rollback_policy_version ::
  "nat option \<Rightarrow> nat option \<Rightarrow> string \<Rightarrow> int \<Rightarrow> string \<Rightarrow> instant \<Rightarrow> entropy
     \<Rightarrow> (PolicyRollbackResult, 'e policy_db_scheme) operation" where
  "rollback_policy_version bound conn workspace_id version applied_by now rnd d =
     (case require_bound_to bound conn of
        Some e \<Rightarrow> (Inl e, d)
      | None \<Rightarrow> sqlite_apply_transaction (rollback_body workspace_id version applied_by now rnd) d)"

subsection \<open>Exporting\<close>

definition exported_bound :: "string \<Rightarrow> 'e policy_db_scheme \<Rightarrow> string \<times> string list \<Rightarrow> json" where
  "exported_bound workspace_id d entry =
     JObj ([(''agent_id'', JStr (fst entry)), (''scopes'', JList (map JStr (snd entry)))]
       @ (case sq_get_bounds_with_max_ttl workspace_id (fst entry) d of
            None \<Rightarrow> []
          | Some issuable \<Rightarrow>
              (case aib_max_ttl_seconds issuable of
                 None \<Rightarrow> []
               | Some n \<Rightarrow> [(''max_ttl'', JStr (py_str_int n @ ''s''))])))"

definition exported_rule :: "AutoApprovalRule \<Rightarrow> json" where
  "exported_rule rule =
     JObj [(''rule_id'', JStr (aar_rule_id rule)), (''name'', JStr (aar_name rule)),
           (''target_agent_id'', JStr (aar_target_agent_id rule)),
           (''allowed_scopes'', JList (map JStr (aar_allowed_scopes rule))),
           (''max_ttl'', JStr (py_str_int (aar_max_ttl_seconds rule) @ ''s'')), (''status'', JStr (aar_status rule))]"

definition exported_boundary :: "(string \<times> bool) list \<Rightarrow> mapping_items" where
  "exported_boundary rows =
     (let agents = sort (map fst (filter (\<lambda>(agent_id, v). agent_id \<noteq> [] \<and> v) rows))
      in (case find_first (\<lambda>(agent_id, v). agent_id = []) rows of Some (_, v) \<Rightarrow> [(''workspace'', JBool v)] | None \<Rightarrow> [])
         @ (if agents = [] then [] else [(''agents'', JList (map JStr agents))]))"

definition export_policy_document :: "string \<Rightarrow> 'e policy_db_scheme \<Rightarrow> exn + mapping_items" where
  "export_policy_document workspace_id d =
     (case sq_list_rules_for_workspace workspace_id d of
        Inl e \<Rightarrow> Inl e
      | Inr rules \<Rightarrow>
          (let rows = sq_list_require_boundary workspace_id d
           in Inr ([(''version'', JInt 1), (''workspace_id'', JStr workspace_id),
                    (''agent_bounds'', JList (map (exported_bound workspace_id d) (sq_list_bounds_for_workspace workspace_id d))),
                    (''auto_approval_rules'', JList (map exported_rule rules))]
                   @ (if rows = [] then [] else [(''require_boundary'', JObj (exported_boundary rows))]))))"

end
