(* ===== verification/PolicyHistory.thy ===== *)
theory PolicyHistory
  imports PolicyFiles
begin

section \<open>What the control plane guarantees\<close>

text \<open>
  Properties of \<open>SqliteControl\<close> and \<open>PolicyFiles\<close> over sequences of changes: the policy of a workspace
  changes only together with an audit event that names it; a rollback restores the policy a
  version recorded.
\<close>

subsection \<open>Changes are confined and recorded\<close>

text \<open>The rows of the other workspaces.\<close>

definition elsewhere :: "string \<Rightarrow> policy_db \<Rightarrow> bool \<times> bounds_row list \<times> setting_row list \<times> rule_row list \<times> version_row list" where
  "elsewhere w d =
     (pd_require_boundary_default d, filter (\<lambda>r. br_workspace_id r \<noteq> w) (pd_bounds d),
      filter (\<lambda>r. sr_workspace_id r \<noteq> w) (pd_settings d), filter (\<lambda>r. rl_workspace_id r \<noteq> w) (pd_rules d),
      filter (\<lambda>r. pv_workspace_id r \<noteq> w) (pd_versions d))"

definition policy_wf :: "policy_db \<Rightarrow> bool" where
  "policy_wf d \<longleftrightarrow> distinct (map bounds_key (pd_bounds d)) \<and> distinct (map setting_key (pd_settings d))
     \<and> distinct (map rl_rule_id (pd_rules d))"

text \<open>Versions are only ever added, and never under a number the workspace has used.\<close>

definition versions_grow :: "policy_db \<Rightarrow> policy_db \<Rightarrow> bool" where
  "versions_grow d d' \<longleftrightarrow> (\<exists>vs. pd_versions d' = pd_versions d @ vs)"

definition names :: "string \<Rightarrow> AuditEvent \<Rightarrow> bool" where
  "names w e \<longleftrightarrow> ae_workspace_id e = w \<and> ae_event_class e = EVENT_CLASS_CONTROL"

text \<open>
  What every operation on the policy of workspace \<open>w\<close> does, alone, in an enclosing transaction or in a
  composite operation, which suppresses its event.
\<close>

definition confined_to :: "string \<Rightarrow> policy_db \<Rightarrow> policy_db \<Rightarrow> bool" where
  "confined_to w d d' \<longleftrightarrow> elsewhere w d' = elsewhere w d \<and> cd_depth d' = cd_depth d
     \<and> cd_in_transaction d' = cd_in_transaction d \<and> (policy_wf d \<longrightarrow> policy_wf d') \<and> versions_grow d d'"

definition recorded_at :: "string \<Rightarrow> ('r, policy_db) operation \<Rightarrow> policy_db \<Rightarrow> bool" where
  "recorded_at w op d \<longleftrightarrow>
     (\<forall>r d'. op d = (r, d') \<longrightarrow> confined_to w d d' \<and> (0 < cd_depth d \<longrightarrow> control_log d' = control_log d)
        \<and> (cd_depth d = 0 \<longrightarrow> is_Inr r \<longrightarrow> d' = d \<or> (\<exists>e. control_log d' = control_log d @ [e] \<and> names w e)))"

lemma confined_refl [simp]: "confined_to w d d"
  by (simp add: confined_to_def versions_grow_def)

lemma confined_trans: "confined_to w d d' \<Longrightarrow> confined_to w d' d'' \<Longrightarrow> confined_to w d d''"
  by (auto simp: confined_to_def versions_grow_def)

lemma recorded_atI:
  assumes "\<And>r d'. op d = (r, d') \<Longrightarrow> confined_to w d d' \<and> (0 < cd_depth d \<longrightarrow> control_log d' = control_log d)
        \<and> (cd_depth d = 0 \<longrightarrow> is_Inr r \<longrightarrow> d' = d \<or> (\<exists>e. control_log d' = control_log d @ [e] \<and> names w e))"
  shows "recorded_at w op d"
  unfolding recorded_at_def using assms by blast

lemma recorded_atD:
  assumes "recorded_at w op d" "op d = (r, d')"
  shows "confined_to w d d'" "0 < cd_depth d \<Longrightarrow> control_log d' = control_log d"
    "cd_depth d = 0 \<Longrightarrow> is_Inr r \<Longrightarrow> d' = d \<or> (\<exists>e. control_log d' = control_log d @ [e] \<and> names w e)"
  using assms unfolding recorded_at_def by blast+

lemma recorded_raise [simp]: "op d = (Inl e, d) \<Longrightarrow> recorded_at w op d"
  by (simp add: recorded_at_def)

lemma recorded_same: "op d = (r, d) \<Longrightarrow> recorded_at w op d"
  by (simp add: recorded_at_def)

text \<open>Mapping the result keeps what was done.\<close>

lemma recorded_map:
  assumes "recorded_at w op d" "\<And>r d'. op d = (r, d') \<Longrightarrow> \<exists>r'. op' d = (r', d') \<and> (is_Inr r' \<longrightarrow> is_Inr r)"
  shows "recorded_at w op' d"
proof (rule recorded_atI)
  fix r' d' assume op': "op' d = (r', d')"
  obtain r d1 where op: "op d = (r, d1)" by (meson surj_pair)
  with assms(2) op' have "d1 = d'" "is_Inr r' \<Longrightarrow> is_Inr r" by fastforce+
  with recorded_atD [OF assms(1) op]
  show "confined_to w d d' \<and> (0 < cd_depth d \<longrightarrow> control_log d' = control_log d)
      \<and> (cd_depth d = 0 \<longrightarrow> is_Inr r' \<longrightarrow> d' = d \<or> (\<exists>e. control_log d' = control_log d @ [e] \<and> names w e))" by blast
qed

lemma recorded_scope:
  assumes b: "\<And>x. recorded_at w body (d\<lparr>cd_in_transaction := x\<rparr>)"
  shows "recorded_at w (write_scope body) d"
proof (rule recorded_atI)
  fix r d' assume op: "write_scope body d = (r, d')"
  show "confined_to w d d' \<and> (0 < cd_depth d \<longrightarrow> control_log d' = control_log d)
      \<and> (cd_depth d = 0 \<longrightarrow> is_Inr r \<longrightarrow> d' = d \<or> (\<exists>e. control_log d' = control_log d @ [e] \<and> names w e))"
  proof (cases "cd_in_transaction d")
    case True
    have "recorded_at w body d" using b [of "cd_in_transaction d"] by simp
    with op True show ?thesis by (simp add: recorded_at_def)
  next
    case False
    show ?thesis
    proof (cases r)
      case (Inl e)
      with op False have "d' = d" by (auto dest: write_scope_error)
      with Inl show ?thesis by simp
    next
      case (Inr x)
      obtain d1 where d1: "body (d\<lparr>cd_in_transaction := True\<rparr>) = (Inr x, d1)" "d' = d1\<lparr>cd_in_transaction := False\<rparr>"
        using op False Inr by (auto elim!: write_scope_ok)
      note c = recorded_atD [OF b d1(1)]
      have "confined_to w d d'" using c(1) False d1(2)
        by (simp add: confined_to_def elsewhere_def policy_wf_def versions_grow_def)
      moreover have "0 < cd_depth d \<longrightarrow> control_log d' = control_log d" using c(2) d1(2) by simp
      moreover have "cd_depth d = 0 \<longrightarrow> d' = d \<or> (\<exists>e. control_log d' = control_log d @ [e] \<and> names w e)"
      proof
        assume "cd_depth d = 0"
        with c(3) have "d1 = d\<lparr>cd_in_transaction := True\<rparr> \<or> (\<exists>e. control_log d1 = control_log d @ [e] \<and> names w e)" by simp
        then show "d' = d \<or> (\<exists>e. control_log d' = control_log d @ [e] \<and> names w e)"
        proof
          assume "d1 = d\<lparr>cd_in_transaction := True\<rparr>"
          then have "d' = d" using d1(2) False by (cases d) simp
          then show ?thesis by simp
        qed (use d1(2) in simp)
      qed
      ultimately show ?thesis by simp
    qed
  qed
qed

text \<open>A write followed by its event.\<close>

lemma recorded_write:
  assumes "control_record args rnd d1 = (r, d')" "confined_to w d d1" "control_log d1 = control_log d" "ca_workspace_id args = w"
  shows "confined_to w d d' \<and> (0 < cd_depth d \<longrightarrow> control_log d' = control_log d)
      \<and> (cd_depth d = 0 \<longrightarrow> is_Inr r \<longrightarrow> d' = d \<or> (\<exists>e. control_log d' = control_log d @ [e] \<and> names w e))"
  using assms(1)
proof (cases rule: control_record_cases)
  case suppressed
  with assms show ?thesis by (auto simp: confined_to_def)
next
  case (written rows)
  moreover have "confined_to w d d'" using assms(2) written(3)
    by (simp add: confined_to_def elsewhere_def policy_wf_def versions_grow_def)
  moreover have "names w (build_control_audit_event args rnd)"
    using assms(4) by (simp add: names_def build_control_audit_event_def)
  ultimately show ?thesis using assms(2,3) by (auto simp: confined_to_def)
next
  case (raised e)
  with assms show ?thesis by (auto simp: confined_to_def)
qed

lemma map_upsert_key: "(\<And>r. key (update r) = key r) \<Longrightarrow> distinct (map key rows) \<Longrightarrow> distinct (map key (sql_upsert key new update rows))"
proof -
  assume k: "\<And>r. key (update r) = key r" and rows: "distinct (map key rows)"
  have "map key (map (\<lambda>r. if key r = key new then update r else r) rows) = map key rows" using k by simp
  then show ?thesis using rows by (cases "key new \<in> key ` set rows") (simp_all add: sql_upsert_def del: map_map)
qed

lemma filter_upsert:
  assumes "\<And>r. key (update r) = key r" "\<And>r r'. key r = key r' \<Longrightarrow> P r \<longleftrightarrow> P r'" "\<not> P new"
  shows "filter P (sql_upsert key new update rows) = filter P rows"
proof -
  have "filter P (map (\<lambda>r. if key r = key new then update r else r) rows) = filter P rows"
  proof (induction rows)
    case (Cons r rows)
    show ?case
    proof (cases "key r = key new")
      case True
      then have "\<not> P r" "\<not> P (update r)" using assms by metis+
      with Cons True show ?thesis by simp
    qed (use Cons in simp)
  qed simp
  then show ?thesis using assms(3) by (simp add: sql_upsert_def)
qed

lemma write_bounds_confined: "confined_to w d (write_bounds w a scopes m clear now d)"
proof -
  let ?new = "\<lparr>br_workspace_id = w, br_agent_id = a, br_scopes = scopes, br_max_ttl_seconds = m, br_updated_at = isoformat now\<rparr>"
  let ?upd = "\<lambda>r. r\<lparr>br_scopes := scopes,
      br_max_ttl_seconds := (if clear then None else case m of Some m \<Rightarrow> Some m | None \<Rightarrow> br_max_ttl_seconds r),
      br_updated_at := isoformat now\<rparr>"
  have "filter (\<lambda>r. br_workspace_id r \<noteq> w) (sql_upsert bounds_key ?new ?upd (pd_bounds d)) = filter (\<lambda>r. br_workspace_id r \<noteq> w) (pd_bounds d)"
    by (rule filter_upsert) (auto simp: bounds_key_def)
  moreover have "distinct (map bounds_key (pd_bounds d)) \<Longrightarrow> distinct (map bounds_key (sql_upsert bounds_key ?new ?upd (pd_bounds d)))"
    by (rule map_upsert_key) (auto simp: bounds_key_def)
  ultimately show ?thesis
    by (simp add: confined_to_def elsewhere_def policy_wf_def versions_grow_def write_bounds_def)
qed

lemma write_setting_confined:
  assumes "\<And>r. setting_key (column r) = setting_key r"
  shows "confined_to w d (write_setting column w a now d)"
proof -
  let ?new = "column (default_setting w a now d)"
  let ?upd = "\<lambda>r. (column r)\<lparr>sr_updated_at := isoformat now\<rparr>"
  have k: "setting_key (?upd r) = setting_key r" for r using assms [of r] by (simp add: setting_key_def)
  have new: "setting_key ?new = (w, a)" using assms by (simp add: setting_key_def default_setting_def)
  have "filter (\<lambda>r. sr_workspace_id r \<noteq> w) (sql_upsert setting_key ?new ?upd (pd_settings d))
      = filter (\<lambda>r. sr_workspace_id r \<noteq> w) (pd_settings d)"
    by (rule filter_upsert) (use k new in \<open>auto simp: setting_key_def\<close>)
  moreover have "distinct (map setting_key (pd_settings d)) \<Longrightarrow> distinct (map setting_key (sql_upsert setting_key ?new ?upd (pd_settings d)))"
    by (rule map_upsert_key) (rule k)
  ultimately show ?thesis
    by (simp add: confined_to_def elsewhere_def policy_wf_def versions_grow_def write_setting_def)
qed

lemma control_log_writes [simp]:
  "control_log (write_bounds w a scopes m clear now d) = control_log d"
  "control_log (write_setting column w a now d) = control_log d"
  "control_log (d\<lparr>pd_bounds := bs\<rparr>) = control_log d" "control_log (d\<lparr>pd_rules := rs\<rparr>) = control_log d"
  "control_log (d\<lparr>pd_settings := ss\<rparr>) = control_log d" "control_log (d\<lparr>pd_versions := vs\<rparr>) = control_log d"
  by (simp_all add: control_log_def write_bounds_def write_setting_def)

lemma ca_workspace_updates [simp]:
  "ca_workspace_id ((control t w action resource reason now)\<lparr>ca_enforcing_principal := p\<rparr>) = w"
  "ca_workspace_id ((control t w action resource reason now)\<lparr>ca_agent_id := a, ca_enforcing_principal := p\<rparr>) = w"
  "ca_workspace_id ((control t w action resource reason now)\<lparr>ca_scope_attempted := s, ca_enforcing_principal := p\<rparr>) = w"
  "ca_workspace_id ((control t w action resource reason now)\<lparr>ca_agent_id := a, ca_scope_attempted := s, ca_enforcing_principal := p\<rparr>) = w"
  by (simp_all add: control_def)

lemma recorded_set_bounds: "recorded_at w (sq_set_bounds w a scopes m clear now p rnd) d"
proof -
  have "recorded_at w (write_scope (\<lambda>d. control_record
      ((control EVENT_SCOPE_BOUNDS_SET w ''set_issuable_scope_bounds'' (''issuable_scope_bounds/'' @ a)
          (set_bounds_audit_reason m clear) now)
         \<lparr>ca_agent_id := a, ca_scope_attempted := join_with '' '' scopes, ca_enforcing_principal := p\<rparr>) rnd
      (write_bounds w a scopes m clear now d))) d"
    by (intro recorded_scope recorded_atI, erule recorded_write [OF _ write_bounds_confined]) simp_all
  then show ?thesis
    unfolding recorded_at_def sq_set_bounds_def by (auto split: option.splits)
qed

lemma recorded_set_setting:
  assumes "\<And>r. setting_key (column r) = setting_key r"
  shows "recorded_at w (set_setting setting column v w a now p rnd) d"
  unfolding set_setting_def record_setting_change_def
  by (intro recorded_scope recorded_atI, erule recorded_write [OF _ write_setting_confined [OF assms]]) simp_all

lemma recorded_settings:
  "recorded_at w (sq_set_require_boundary w a v now p rnd) d"
  "recorded_at w (sq_set_require_subject_token w a v now p rnd) d"
  "recorded_at w (sq_set_require_pop w a v now p rnd) d"
  unfolding sq_set_require_boundary_def sq_set_require_subject_token_def sq_set_require_pop_def
  by (rule recorded_set_setting; simp add: setting_key_def)+

text \<open>Rules.\<close>

lemma insert_rule_confined:
  "insert_rule_row row d = (r, d') \<Longrightarrow> rl_workspace_id row = w \<Longrightarrow> confined_to w d d' \<and> control_log d' = control_log d"
  by (auto simp: insert_rule_row_def confined_to_def elsewhere_def policy_wf_def versions_grow_def split: if_splits)

lemma sq_get_rule_row:
  assumes "sq_get_rule rule_id d = Inr (Some rule)"
  obtains row where "find_first (\<lambda>r. rl_rule_id r = rule_id) (pd_rules d) = Some row" "rl_workspace_id row = aar_workspace_id rule"
    "rl_rule_id row = aar_rule_id rule"
  using assms
  by (auto simp: sq_get_rule_def auto_approval_rule_from_row_def Let_def split: option.splits sum.splits)

lemma update_rule_confined:
  assumes "update_rule_row row d = (r, d')" "rl_workspace_id row = w"
    "\<And>x. x \<in> set (pd_rules d) \<Longrightarrow> rl_rule_id x = rl_rule_id row \<Longrightarrow> rl_workspace_id x = w"
  shows "confined_to w d d' \<and> control_log d' = control_log d"
proof -
  let ?f = "\<lambda>x. if rl_rule_id x = rl_rule_id row then row else x"
  have "filter (\<lambda>x. rl_workspace_id x \<noteq> w) (map ?f rs) = filter (\<lambda>x. rl_workspace_id x \<noteq> w) rs" if "set rs \<subseteq> set (pd_rules d)" for rs
    using that by (induction rs) (auto simp: assms(2) dest: assms(3))
  moreover have "map rl_rule_id (map ?f (pd_rules d)) = map rl_rule_id (pd_rules d)" by simp
  ultimately show ?thesis
    using assms(1)
    by (auto simp: update_rule_row_def confined_to_def elsewhere_def policy_wf_def versions_grow_def split: if_splits simp del: map_map)
qed

lemma recorded_add_rule: "recorded_at (aar_workspace_id rule) (sq_add_rule rule rnd) d"
proof -
  let ?w = "aar_workspace_id rule"
  let ?args = "(control EVENT_AUTO_APPROVAL_RULE_CREATED ?w ''create_auto_approval_rule''
      (''auto_approval_rule/'' @ aar_rule_id rule) (''status='' @ aar_status rule) (aar_created_at rule))
     \<lparr>ca_enforcing_principal := py_or_opt (Some (aar_created_by rule)) None\<rparr>"
  have "recorded_at ?w (write_scope (\<lambda>d. case insert_rule_row (auto_approval_rule_values rule) d of
      (Inl e, d') \<Rightarrow> (Inl e, d') | (Inr _, d') \<Rightarrow> control_record ?args rnd d')) d"
  proof (intro recorded_scope recorded_atI)
    fix x r d'
    assume op: "(case insert_rule_row (auto_approval_rule_values rule) (d\<lparr>cd_in_transaction := x\<rparr>) of
        (Inl e, d') \<Rightarrow> (Inl e, d') | (Inr _, d') \<Rightarrow> control_record ?args rnd d') = (r, d')"
    obtain y d1 where y: "insert_rule_row (auto_approval_rule_values rule) (d\<lparr>cd_in_transaction := x\<rparr>) = (y, d1)" by (meson surj_pair)
    have c: "confined_to ?w (d\<lparr>cd_in_transaction := x\<rparr>) d1" "control_log d1 = control_log (d\<lparr>cd_in_transaction := x\<rparr>)"
      using insert_rule_confined [OF y, of ?w] by (simp_all add: auto_approval_rule_values_def)
    show "confined_to ?w (d\<lparr>cd_in_transaction := x\<rparr>) d' \<and> (0 < cd_depth (d\<lparr>cd_in_transaction := x\<rparr>) \<longrightarrow> control_log d' = control_log (d\<lparr>cd_in_transaction := x\<rparr>))
      \<and> (cd_depth (d\<lparr>cd_in_transaction := x\<rparr>) = 0 \<longrightarrow> is_Inr r \<longrightarrow> d' = d\<lparr>cd_in_transaction := x\<rparr>
        \<or> (\<exists>e. control_log d' = control_log (d\<lparr>cd_in_transaction := x\<rparr>) @ [e] \<and> names ?w e))"
    proof (cases y)
      case (Inl e)
      with op y c show ?thesis by auto
    next
      case (Inr u)
      with op y have "control_record ?args rnd d1 = (r, d')" by simp
      from recorded_write [OF this c] show ?thesis by simp
    qed
  qed
  then show ?thesis
    unfolding recorded_at_def sq_add_rule_def by (auto split: option.splits sum.splits)
qed

lemma recorded_update_rule:
  assumes "\<And>x. x \<in> set (pd_rules d) \<Longrightarrow> rl_rule_id x = aar_rule_id rule \<Longrightarrow> rl_workspace_id x = aar_workspace_id rule"
  shows "recorded_at (aar_workspace_id rule) (sq_update_rule rule rnd) d"
  unfolding sq_update_rule_def
proof (intro recorded_scope recorded_atI)
  let ?w = "aar_workspace_id rule"
  fix x r d'
  let ?d = "d\<lparr>cd_in_transaction := x\<rparr>"
  let ?args = "\<lambda>prior. (control (ru_event_type (auto_approval_update_control_event prior rule)) ?w
      (ru_action (auto_approval_update_control_event prior rule)) (''auto_approval_rule/'' @ aar_rule_id rule)
      (ru_reason (auto_approval_update_control_event prior rule)) (case aar_updated_at rule of Some t \<Rightarrow> t | None \<Rightarrow> aar_created_at rule))
     \<lparr>ca_scope_attempted := ru_scope_attempted (auto_approval_update_control_event prior rule),
      ca_enforcing_principal := py_or_opt (aar_updated_by rule) None\<rparr>"
  assume op: "(case sq_get_rule (aar_rule_id rule) ?d of
       Inl e \<Rightarrow> (Inl e, ?d)
     | Inr None \<Rightarrow> (Inl (ValueError (''unknown auto-approval rule_id: '' @ aar_rule_id rule)), ?d)
     | Inr (Some prior) \<Rightarrow>
         (case update_rule_row (auto_approval_rule_values rule) ?d of
            (Inl e, d') \<Rightarrow> (Inl e, d')
          | (Inr _, d') \<Rightarrow>
              (let event = auto_approval_update_control_event prior rule
               in control_record
                    ((control (ru_event_type event) (aar_workspace_id rule) (ru_action event)
                        (''auto_approval_rule/'' @ aar_rule_id rule) (ru_reason event)
                        (case aar_updated_at rule of Some t \<Rightarrow> t | None \<Rightarrow> aar_created_at rule))
                       \<lparr>ca_scope_attempted := ru_scope_attempted event,
                        ca_enforcing_principal := py_or_opt (aar_updated_by rule) None\<rparr>) rnd d'))) = (r, d')"
  obtain y d1 where y: "update_rule_row (auto_approval_rule_values rule) ?d = (y, d1)" by (meson surj_pair)
  have c: "confined_to ?w ?d d1" "control_log d1 = control_log ?d"
    using update_rule_confined [OF y, of ?w] assms by (simp_all add: auto_approval_rule_values_def)
  consider (same) e where "r = Inl e" "d' = ?d" | (failed) e where "r = Inl e" "d' = d1"
    | (written) prior where "control_record (?args prior) rnd d1 = (r, d')"
    using op y by (auto simp: Let_def split: sum.splits option.splits)
  then show "confined_to ?w ?d d' \<and> (0 < cd_depth ?d \<longrightarrow> control_log d' = control_log ?d)
      \<and> (cd_depth ?d = 0 \<longrightarrow> is_Inr r \<longrightarrow> d' = ?d \<or> (\<exists>e. control_log d' = control_log ?d @ [e] \<and> names ?w e))"
  proof cases
    case (written prior)
    from recorded_write [OF this c] show ?thesis by simp
  qed (use c in simp_all)
qed

lemma wf_same_rule:
  assumes "policy_wf d" "find_first (\<lambda>r. rl_rule_id r = i) (pd_rules d) = Some row" "x \<in> set (pd_rules d)" "rl_rule_id x = i"
  shows "x = row"
  using find_first_Some [OF assms(2)] assms(1,3,4) by (auto simp: policy_wf_def distinct_map inj_on_def)

lemma recorded_create_rule: "recorded_at (aar_workspace_id rule) (sq_create_auto_approval_rule rule rnd) d"
proof (cases "validate_rule rule")
  case None
  show ?thesis
    by (rule recorded_map [OF recorded_add_rule [of rule rnd d]])
      (auto simp: sq_create_auto_approval_rule_def None split: sum.splits)
qed (simp add: sq_create_auto_approval_rule_def)

lemma recorded_upsert_rule:
  assumes "policy_wf d"
  shows "recorded_at (aar_workspace_id rule) (sq_upsert_auto_approval_rule rule rnd) d"
proof (cases "validate_rule rule")
  case ok: None
  show ?thesis
  proof (cases "sq_get_rule (aar_rule_id rule) d")
    case (Inr found)
    show ?thesis
    proof (cases found)
      case None
      show ?thesis
        by (rule recorded_map [OF recorded_add_rule [of rule rnd d]])
          (auto simp: sq_upsert_auto_approval_rule_def ok Inr None split: sum.splits)
    next
      case (Some existing)
      show ?thesis
      proof (cases "aar_workspace_id existing = aar_workspace_id rule")
        case True
        obtain row where row: "find_first (\<lambda>r. rl_rule_id r = aar_rule_id rule) (pd_rules d) = Some row"
            "rl_workspace_id row = aar_workspace_id existing"
          using Inr Some by (auto elim: sq_get_rule_row)
        then have "recorded_at (aar_workspace_id rule) (sq_update_rule rule rnd) d"
          using True wf_same_rule [OF assms] by (intro recorded_update_rule) auto
        then show ?thesis
          by (rule recorded_map) (auto simp: sq_upsert_auto_approval_rule_def ok Inr Some True split: sum.splits)
      qed (simp add: sq_upsert_auto_approval_rule_def ok Inr Some)
    qed
  qed (simp add: sq_upsert_auto_approval_rule_def ok)
qed (simp add: sq_upsert_auto_approval_rule_def)

lemma recorded_disable_rule:
  assumes "policy_wf d"
  shows "recorded_at w (sq_disable_auto_approval_rule rule_id w by_whom now rnd) d"
proof (cases "\<exists>rule. sq_get_rule rule_id d = Inr (Some rule) \<and> aar_workspace_id rule = w")
  case True
  then obtain rule where rule: "sq_get_rule rule_id d = Inr (Some rule)" "aar_workspace_id rule = w" by blast
  define disabled where "disabled = rule\<lparr>aar_status := ''disabled'', aar_updated_by := Some by_whom, aar_updated_at := Some now\<rparr>"
  obtain row where row: "find_first (\<lambda>r. rl_rule_id r = rule_id) (pd_rules d) = Some row" "rl_workspace_id row = aar_workspace_id rule"
      "rl_rule_id row = aar_rule_id rule"
    using rule(1) by (rule sq_get_rule_row)
  have "aar_workspace_id disabled = w" "aar_rule_id disabled = rule_id"
    using find_first_Some [OF row(1)] row(3) rule(2) by (simp_all add: disabled_def)
  then have "recorded_at w (sq_update_rule disabled rnd) d"
    using wf_same_rule [OF assms row(1)] row(2) rule(2) recorded_update_rule [of d disabled rnd] by auto
  then show ?thesis
    by (rule recorded_map)
      (auto simp: sq_disable_auto_approval_rule_def rule disabled_def Let_def split: sum.splits)
next
  case False
  then have "\<exists>r. sq_disable_auto_approval_rule rule_id w by_whom now rnd d = (r, d)"
    by (auto simp: sq_disable_auto_approval_rule_def split: option.splits sum.splits)
  then show ?thesis by (auto intro: recorded_same)
qed

subsection \<open>Policy files\<close>

lemma confined_to_wf: "confined_to w d d' \<Longrightarrow> policy_wf d \<Longrightarrow> policy_wf d'"
  by (simp add: confined_to_def)

text \<open>Inside a composite operation the steps are confined and silent.\<close>

definition silent :: "string \<Rightarrow> policy_db \<Rightarrow> policy_db \<Rightarrow> bool" where
  "silent w d d' \<longleftrightarrow> confined_to w d d' \<and> control_log d' = control_log d"

definition enclosed :: "policy_db \<Rightarrow> bool" where
  "enclosed d \<longleftrightarrow> policy_wf d \<and> 0 < cd_depth d"

lemma silent_refl [simp]: "silent w d d"
  by (simp add: silent_def)

lemma silent_trans: "silent w d d' \<Longrightarrow> silent w d' d'' \<Longrightarrow> silent w d d''"
  by (auto simp: silent_def intro: confined_trans)

lemma silent_enclosed: "silent w d d' \<Longrightarrow> enclosed d \<Longrightarrow> enclosed d'"
  by (auto simp: silent_def enclosed_def confined_to_def)

lemma silent_step: "recorded_at w op d \<Longrightarrow> enclosed d \<Longrightarrow> op d = (r, d') \<Longrightarrow> silent w d d'"
  by (auto simp: silent_def enclosed_def dest: recorded_atD)

lemma silent_apply_bounds: "apply_bounds w p now rnd entries d = (r, d') \<Longrightarrow> enclosed d \<Longrightarrow> silent w d d'"
proof (induction w p now rnd entries d rule: apply_bounds.induct)
  case (2 w p now rnd parsed rest d)
  obtain x d1 where x: "sq_set_bounds w (be_agent_id parsed) (be_scopes parsed) (be_max_ttl_seconds parsed)
      (be_max_ttl_declared parsed \<and> be_max_ttl_seconds parsed = None) now (Some p) rnd d = (x, d1)" by (meson surj_pair)
  have "silent w d d1" using recorded_set_bounds 2(3) x by (rule silent_step)
  with 2 x show ?case by (cases x) (auto intro: silent_trans dest: silent_enclosed)
qed simp

lemma silent_apply_agents: "apply_agents w p now rnd agents d = (r, d') \<Longrightarrow> enclosed d \<Longrightarrow> silent w d d'"
proof (induction w p now rnd agents d rule: apply_agents.induct)
  case (2 w p now rnd agent_id agents d)
  obtain x d1 where x: "sq_set_require_boundary w agent_id True now (Some p) rnd d = (x, d1)" by (meson surj_pair)
  have "silent w d d1" using recorded_settings(1) 2(3) x by (rule silent_step)
  with 2 x show ?case by (cases x) (auto intro: silent_trans dest: silent_enclosed)
qed simp

lemma silent_apply_rules:
  "apply_rules rnd rules d = (r, d') \<Longrightarrow> \<forall>rule\<in>set rules. aar_workspace_id rule = w \<Longrightarrow> enclosed d \<Longrightarrow> silent w d d'"
proof (induction rnd rules d arbitrary: r d' rule: apply_rules.induct)
  case (2 rnd rule rules d)
  obtain x d1 where x: "sq_upsert_auto_approval_rule rule rnd d = (x, d1)" by (meson surj_pair)
  have "recorded_at w (sq_upsert_auto_approval_rule rule rnd) d"
    using recorded_upsert_rule [of d rule rnd] 2(3,4) by (simp add: enclosed_def)
  then have s: "silent w d d1" using 2(4) x by (rule silent_step)
  show ?case
  proof (cases x)
    case (Inr action)
    obtain y d2 where y: "apply_rules rnd rules d1 = (y, d2)" by (meson surj_pair)
    have "silent w d1 d2" using 2(1) [OF x [symmetric] Inr y] 2(3) silent_enclosed [OF s 2(4)] by simp
    moreover have "d' = d2" using 2(2) x Inr y by (auto split: sum.splits)
    ultimately show ?thesis using s by (blast intro: silent_trans)
  qed (use 2(2) x s in auto)
qed simp

lemma silent_apply_boundary:
  assumes "apply_require_boundary w p now rnd parsed d = (r, d')" "enclosed d"
  shows "silent w d d'"
proof (cases "fst parsed")
  case None
  with assms show ?thesis by (auto simp: apply_require_boundary_def intro: silent_apply_agents)
next
  case (Some b)
  obtain x d1 where x: "sq_set_require_boundary w [] b now (Some p) rnd d = (x, d1)" by (meson surj_pair)
  have s: "silent w d d1" using recorded_settings(1) assms(2) x by (rule silent_step)
  show ?thesis
  proof (cases x)
    case (Inr u)
    with assms(1) x Some have "apply_agents w p now rnd (snd parsed) d1 = (r, d')" by (simp add: apply_require_boundary_def)
    then show ?thesis using silent_apply_agents silent_enclosed [OF s assms(2)] s by (blast intro: silent_trans)
  qed (use assms(1) x s Some in \<open>auto simp: apply_require_boundary_def\<close>)
qed

lemma silent_version: "insert_policy_version w action source p now d = (v, d') \<Longrightarrow> silent w d d'"
  by (auto simp: insert_policy_version_def Let_def silent_def confined_to_def elsewhere_def policy_wf_def versions_grow_def)

lemma silent_write_policy:
  assumes "write_policy w p now rnd bounds rules boundary d = (r, d')" "\<forall>rule\<in>set rules. aar_workspace_id rule = w" "enclosed d"
  shows "silent w d d'"
proof -
  obtain x1 d1 where 1: "apply_bounds w p now rnd bounds d = (x1, d1)" by (meson surj_pair)
  have s1: "silent w d d1" using silent_apply_bounds [OF 1 assms(3)] .
  obtain x2 d2 where 2: "apply_rules rnd rules d1 = (x2, d2)" by (meson surj_pair)
  have s2: "silent w d d2"
    using silent_apply_rules [OF 2 assms(2) silent_enclosed [OF s1 assms(3)]] s1 by (blast intro: silent_trans)
  obtain x3 d3 where 3: "apply_require_boundary w p now rnd boundary d2 = (x3, d3)" by (meson surj_pair)
  have s3: "silent w d d3"
    using silent_apply_boundary [OF 3 silent_enclosed [OF s2 assms(3)]] s2 by (blast intro: silent_trans)
  obtain v d4 where 4: "insert_policy_version w ''apply'' None p now d3 = (v, d4)" by (meson surj_pair)
  have s4: "silent w d d4" using silent_version [OF 4] s3 by (blast intro: silent_trans)
  from assms(1) 1 2 3 4 have "d' \<in> {d1, d2, d3, d4}"
    by (auto simp: write_policy_def split: sum.splits)
  with s1 s2 s3 s4 show ?thesis by auto
qed

lemma prepared_rules_workspace: "prepare_rules w p now d entries = Inr rules \<Longrightarrow> \<forall>rule\<in>set rules. aar_workspace_id rule = w"
  by (induction entries arbitrary: rules)
    (auto simp: Let_def prepared_rule_def split: sum.splits option.splits)

lemma silent_apply_document:
  assumes "apply_policy_document document w p now rnd d = (r, d')" "enclosed d"
  shows "silent w d d'"
  using assms
  by (auto simp: apply_policy_document_def split: sum.splits dest: prepared_rules_workspace intro: silent_write_policy)

lemma silent_apply_body:
  assumes "apply_body document w p now rnd d = (r, d')" "enclosed d"
  shows "silent w d d'" "\<And>x pending. r = Inr (x, pending) \<Longrightarrow> \<exists>e. pending = Some e \<and> names w e"
  using assms
  by (auto simp: apply_body_def pending_set_def names_def applied_event_def split: sum.splits prod.splits intro: silent_apply_document)

text \<open>The steps of a rollback.\<close>

lemma silent_delete:
  "silent w d (d\<lparr>pd_bounds := filter (\<lambda>r. br_workspace_id r \<noteq> w) (pd_bounds d)\<rparr>)"
  "silent w d (d\<lparr>pd_rules := filter (\<lambda>r. rl_workspace_id r \<noteq> w) (pd_rules d)\<rparr>)"
  by (simp_all add: silent_def confined_to_def elsewhere_def policy_wf_def versions_grow_def distinct_map_filter)

lemma restored_bound_workspace: "restored_bound w entry = Inr row \<Longrightarrow> br_workspace_id row = w"
  by (auto simp: restored_bound_def split: sum.splits list.splits option.splits)

lemma restored_rule_workspace: "restored_rule w entry = Inr row \<Longrightarrow> rl_workspace_id row = w"
  by (auto simp: restored_rule_def split: sum.splits list.splits option.splits)

lemma silent_insert_bounds: "insert_bounds_row row d = (r, d') \<Longrightarrow> br_workspace_id row = w \<Longrightarrow> silent w d d'"
  by (auto simp: insert_bounds_row_def silent_def confined_to_def elsewhere_def policy_wf_def versions_grow_def split: if_splits)

lemma silent_restore_bounds: "restore_bounds w entries d = (r, d') \<Longrightarrow> silent w d d'"
proof (induction w entries d rule: restore_bounds.induct)
  case (2 w entry entries d)
  show ?case
  proof (cases "restored_bound w entry")
    case (Inr row)
    obtain x d1 where x: "insert_bounds_row row d = (x, d1)" by (meson surj_pair)
    have "silent w d d1" using x restored_bound_workspace [OF Inr] by (rule silent_insert_bounds)
    with 2 Inr x show ?thesis by (cases x) (auto intro: silent_trans)
  qed (use 2 in auto)
qed simp

lemma silent_restore_rules: "restore_rules w entries d = (r, d') \<Longrightarrow> silent w d d'"
proof (induction w entries d rule: restore_rules.induct)
  case (2 w entry entries d)
  show ?case
  proof (cases "restored_rule w entry")
    case (Inr row)
    obtain x d1 where x: "insert_rule_row row d = (x, d1)" by (meson surj_pair)
    have "silent w d d1" using insert_rule_confined [OF x restored_rule_workspace [OF Inr]] by (simp add: silent_def)
    with 2 Inr x show ?thesis by (cases x) (auto intro: silent_trans)
  qed (use 2 in auto)
qed simp

lemma silent_restore_settings: "silent w d (restore_settings w saved now d)"
proof -
  have "silent w d (clear_boundary_settings w agents now d)" for agents
  proof -
    define f where "f = (\<lambda>r :: setting_row. if sr_workspace_id r = w then r\<lparr>sr_require_boundary_set := False, sr_updated_at := isoformat now\<rparr> else r)"
    have k: "map setting_key (map f rs) = map setting_key rs" for rs by (simp add: setting_key_def f_def)
    have "distinct (map setting_key (filter P (map f rs)))" if "distinct (map setting_key rs)" for P rs
      using distinct_map_filter [of setting_key "map f rs" P] that by (simp only: k)
    moreover have "filter (\<lambda>r. sr_workspace_id r \<noteq> w) (filter (\<lambda>r. sr_workspace_id r = w \<longrightarrow> Q r) (map f rs))
        = filter (\<lambda>r. sr_workspace_id r \<noteq> w) rs" for Q rs
      by (induction rs) (auto simp: f_def)
    ultimately show ?thesis
      by (simp add: clear_boundary_settings_def Let_def silent_def confined_to_def elsewhere_def policy_wf_def versions_grow_def
          f_def [symmetric] del: filter_filter)
  qed
  moreover have "silent w d (fold (restore_setting w now) saved d)" for d
  proof (induction saved arbitrary: d)
    case (Cons x saved)
    have "silent w d (restore_setting w now x d)"
      unfolding restore_setting_def silent_def by (simp add: write_setting_confined setting_key_def)
    with Cons show ?case by (auto intro: silent_trans)
  qed simp
  ultimately show ?thesis unfolding restore_settings_def by (blast intro: silent_trans)
qed

lemma silent_restore:
  assumes "restore_policy_snapshot w snapshot now d = (r, d')"
  shows "silent w d d'"
proof -
  let ?da = "d\<lparr>pd_bounds := filter (\<lambda>r. br_workspace_id r \<noteq> w) (pd_bounds d)\<rparr>"
  have step2: "silent w d1 d2" if "restore_rules w rules (d1\<lparr>pd_rules := filter (\<lambda>r. rl_workspace_id r \<noteq> w) (pd_rules d1)\<rparr>) = (x, d2)" for rules d1 x d2
    using silent_restore_rules [OF that] silent_delete(2) by (blast intro: silent_trans)
  have step1: "silent w d d1" if "restore_bounds w bounds ?da = (x, d1)" for bounds x d1
    using silent_restore_bounds [OF that] silent_delete(1) by (blast intro: silent_trans)
  show ?thesis
  proof (cases "snapshot_list snapshot ''agent_bounds''")
    case bounds: (Inr bounds)
    obtain x1 d1 where 1: "restore_bounds w bounds ?da = (x1, d1)" by (meson surj_pair)
    note s1 = step1 [OF 1]
    show ?thesis
    proof (cases "snapshot_list snapshot ''auto_approval_rules''")
      case rules: (Inr rules)
      obtain x2 d2 where 2: "restore_rules w rules (d1\<lparr>pd_rules := filter (\<lambda>r. rl_workspace_id r \<noteq> w) (pd_rules d1)\<rparr>) = (x2, d2)"
        by (meson surj_pair)
      have s2: "silent w d d2" using s1 step2 [OF 2] by (rule silent_trans)
      have "d' \<in> {d1, d2} \<or> (\<exists>saved. d' = restore_settings w saved now d2)"
        using assms 1 2 by (auto simp: restore_policy_snapshot_def bounds rules split: sum.splits)
      then show ?thesis using s1 s2 silent_restore_settings by (auto intro: silent_trans)
    qed (use assms 1 s1 in \<open>auto simp: restore_policy_snapshot_def bounds split: sum.splits\<close>)
  qed (use assms in \<open>simp add: restore_policy_snapshot_def\<close>)
qed

subsection \<open>The log tells every change\<close>

text \<open>One change of the policy of a workspace.\<close>

inductive control_change :: "string \<Rightarrow> policy_db \<Rightarrow> policy_db \<Rightarrow> bool" where
  "sq_set_bounds w a scopes m clear now p rnd d = (r, d') \<Longrightarrow> control_change w d d'"
| "sq_set_require_boundary w a v now p rnd d = (r, d') \<Longrightarrow> control_change w d d'"
| "sq_set_require_subject_token w a v now p rnd d = (r, d') \<Longrightarrow> control_change w d d'"
| "sq_set_require_pop w a v now p rnd d = (r, d') \<Longrightarrow> control_change w d d'"
| "sq_create_auto_approval_rule rule rnd d = (r2, d') \<Longrightarrow> aar_workspace_id rule = w \<Longrightarrow> control_change w d d'"
| "sq_upsert_auto_approval_rule rule rnd d = (r3, d') \<Longrightarrow> aar_workspace_id rule = w \<Longrightarrow> control_change w d d'"
| "sq_disable_auto_approval_rule rule_id w by_whom now rnd d = (r4, d') \<Longrightarrow> control_change w d d'"
| "apply_policy_file bound conn path file w applied_by now rnd d = (r5, d') \<Longrightarrow> control_change w d d'"
| "rollback_policy_version bound conn w version applied_by now rnd d = (r6, d') \<Longrightarrow> control_change w d d'"

text \<open>What a change leaves behind: nothing, or one event and changes of this workspace only.\<close>

definition accounted_change :: "string \<Rightarrow> policy_db \<Rightarrow> policy_db \<Rightarrow> bool" where
  "accounted_change w d d' \<longleftrightarrow> d' = d \<or> (\<exists>e. control_log d' = control_log d @ [e] \<and> names w e \<and> confined_to w d d')"

lemma recorded_accounted:
  assumes "recorded_at w op d" "op d = (r, d')" "at_rest d" "is_Inr r \<or> d' = d"
  shows "accounted_change w d d'"
  using recorded_atD [OF assms(1,2)] assms(3,4) by (auto simp: accounted_change_def at_rest_def)

lemma apply_accounted:
  assumes "apply_policy_file bound conn path file w p now rnd d = (r, d')" "at_rest d" "policy_wf d"
  shows "accounted_change w d d'"
proof (cases r)
  case (Inl e)
  then have "d' = d"
    using assms(1,2)
    by (auto simp: apply_policy_file_def sqlite_apply_transaction_def at_rest_def split: sum.splits option.splits if_splits
        dest: write_scope_error)
  then show ?thesis by (simp add: accounted_change_def)
next
  case (Inr x)
  obtain document where "write_scope (composite (apply_body document w p now rnd)) d = (Inr x, d')"
    using assms(1,2) Inr
    by (auto simp: apply_policy_file_def sqlite_apply_transaction_def at_rest_def split: sum.splits option.splits if_splits)
  then obtain d1 where d1: "composite (apply_body document w p now rnd) (d\<lparr>cd_in_transaction := True\<rparr>) = (Inr x, d1)"
      "d' = d1\<lparr>cd_in_transaction := False\<rparr>"
    using assms(2) by (auto simp: at_rest_def elim: write_scope_ok)
  let ?d0 = "d\<lparr>cd_in_transaction := True, cd_depth := 1\<rparr>"
  obtain event d2 rows where d2: "apply_body document w p now rnd ?d0 = (Inr (x, Some event), d2)"
      "d1 = d2\<lparr>cd_depth := 0, cd_audit := rows\<rparr>" "control_log d1 = control_log d2 @ [event]"
    using d1(1) by (rule composite_ok) simp
  have "enclosed ?d0" using assms(3) by (simp add: enclosed_def policy_wf_def)
  from silent_apply_body [OF d2(1) this] have s: "silent w ?d0 d2" "names w event" by auto
  have "confined_to w d d'"
    using s(1) assms(2) by (simp add: d1(2) d2(2) silent_def confined_to_def elsewhere_def policy_wf_def versions_grow_def at_rest_def)
  moreover have "control_log d' = control_log d @ [event]" using d1(2) d2(3) s(1) by (simp add: silent_def)
  ultimately show ?thesis using s(2) by (auto simp: accounted_change_def)
qed

lemma rollback_accounted:
  assumes "rollback_policy_version bound conn w v p now rnd d = (r, d')" "at_rest d" "policy_wf d"
  shows "accounted_change w d d'"
proof (cases r)
  case (Inl e)
  then have "d' = d"
    using assms(1,2)
    by (auto simp: rollback_policy_version_def sqlite_apply_transaction_def at_rest_def split: option.splits dest: write_scope_error)
  then show ?thesis by (simp add: accounted_change_def)
next
  case (Inr x)
  obtain d4 where d4: "rollback_body w v p now rnd (d\<lparr>cd_in_transaction := True\<rparr>) = (Inr x, d4)" "d' = d4\<lparr>cd_in_transaction := False\<rparr>"
    using assms(1,2) Inr
    by (auto simp: rollback_policy_version_def sqlite_apply_transaction_def at_rest_def split: option.splits elim: write_scope_ok)
  let ?d0 = "d\<lparr>cd_in_transaction := True\<rparr>"
  obtain snapshot d1 nv d2 where
      1: "restore_policy_snapshot w snapshot now ?d0 = (Inr (), d1)"
    and 2: "insert_policy_version w ''rollback'' (Some v) p now d1 = (nv, d2)"
    and 3: "control_record ((control EVENT_POLICY_ROLLED_BACK w ''policy_rollback'' (''policy/version/'' @ py_str_int nv)
        (''restored_version='' @ py_str_int v) now)\<lparr>ca_enforcing_principal := Some p\<rparr>) rnd d2 = (Inr (), d4)"
    using d4(1) by (auto simp: rollback_body_def split: option.splits sum.splits prod.splits)
  have s: "silent w ?d0 d2" using silent_restore [OF 1] silent_version [OF 2] by (rule silent_trans)
  have z: "cd_depth ?d0 = 0" using assms(2) by (simp add: at_rest_def)
  from recorded_write [OF 3, of w ?d0] s have "confined_to w ?d0 d4 \<and> (d4 = ?d0 \<or> (\<exists>e. control_log d4 = control_log ?d0 @ [e] \<and> names w e))"
    using z by (simp add: silent_def)
  moreover have "d4 = ?d0 \<Longrightarrow> d' = d" using d4(2) assms(2) by (cases d) (simp add: at_rest_def)
  ultimately show ?thesis
    using assms(2) by (auto simp: accounted_change_def d4(2) confined_to_def elsewhere_def policy_wf_def versions_grow_def at_rest_def)
qed

lemma scope_error_same:
  assumes "op d = (Inl e, d')" "at_rest d"
    and "op \<in> {sq_set_bounds w a scopes m clear now p rnd, sq_set_require_boundary w a v now p rnd,
      sq_set_require_subject_token w a v now p rnd, sq_set_require_pop w a v now p rnd, sq_add_rule rule rnd, sq_update_rule rule rnd}"
  shows "d' = d"
  using assms
  by (auto simp: sq_set_bounds_def set_setting_def sq_set_require_boundary_def sq_set_require_subject_token_def
      sq_set_require_pop_def sq_add_rule_def sq_update_rule_def at_rest_def dest: write_scope_error
      split: option.splits sum.splits)

lemma rule_error_same:
  "sq_create_auto_approval_rule rule rnd d = (Inl e, d') \<Longrightarrow> at_rest d \<Longrightarrow> d' = d"
  "sq_upsert_auto_approval_rule rule rnd d = (Inl e, d') \<Longrightarrow> at_rest d \<Longrightarrow> d' = d"
  "sq_disable_auto_approval_rule rule_id w by_whom now rnd d = (Inl e, d') \<Longrightarrow> at_rest d \<Longrightarrow> d' = d"
  by (auto simp: sq_create_auto_approval_rule_def sq_upsert_auto_approval_rule_def sq_disable_auto_approval_rule_def Let_def
      split: option.splits sum.splits prod.splits if_splits intro: scope_error_same)

lemma change_accounted:
  assumes "control_change w d d'" "at_rest d" "policy_wf d"
  shows "accounted_change w d d'"
proof -
  have ok: "is_Inr r \<or> d' = d" if "\<And>e. r = Inl e \<Longrightarrow> d' = d" for r :: "exn + 'x"
    using that by (cases r) auto
  show ?thesis
    using assms(1)
  proof cases
    case (1 a scopes m clear now p rnd r)
    then show ?thesis
      by (intro recorded_accounted [OF recorded_set_bounds _ assms(2)] ok) (auto intro: scope_error_same [OF _ assms(2)])
  next
    case (2 a v now p rnd r)
    then show ?thesis
      by (intro recorded_accounted [OF recorded_settings(1) _ assms(2)] ok) (auto intro: scope_error_same [OF _ assms(2)])
  next
    case (3 a v now p rnd r)
    then show ?thesis
      by (intro recorded_accounted [OF recorded_settings(2) _ assms(2)] ok) (auto intro: scope_error_same [OF _ assms(2)])
  next
    case (4 a v now p rnd r)
    then show ?thesis
      by (intro recorded_accounted [OF recorded_settings(3) _ assms(2)] ok) (auto intro: scope_error_same [OF _ assms(2)])
  next
    case (5 rule rnd r2)
    then show ?thesis
      using recorded_accounted [OF recorded_create_rule 5(1) assms(2)] ok [of r2] rule_error_same(1) [OF _ assms(2)] by blast
  next
    case (6 rule rnd r3)
    then show ?thesis
      using recorded_accounted [OF recorded_upsert_rule [OF assms(3)] 6(1) assms(2)] ok [of r3] rule_error_same(2) [OF _ assms(2)] by blast
  next
    case (7 rule_id by_whom now rnd r4)
    then show ?thesis
      using recorded_accounted [OF recorded_disable_rule [OF assms(3)] 7 assms(2)] ok [of r4] rule_error_same(3) [OF _ assms(2)] by blast
  qed (use assms(2,3) in \<open>auto intro: apply_accounted rollback_accounted\<close>)
qed

text \<open>Any number of changes, of any workspaces.\<close>

inductive control_history :: "policy_db \<Rightarrow> policy_db \<Rightarrow> bool" where
  "control_history d d"
| "control_history d d' \<Longrightarrow> control_change w d' d'' \<Longrightarrow> control_history d d''"

text \<open>What the policy of a workspace is.\<close>

definition policy_view :: "string \<Rightarrow> policy_db \<Rightarrow> bounds_row list \<times> setting_row list \<times> rule_row list \<times> version_row list" where
  "policy_view w d =
     (filter (\<lambda>r. br_workspace_id r = w) (pd_bounds d), filter (\<lambda>r. sr_workspace_id r = w) (pd_settings d),
      filter (\<lambda>r. rl_workspace_id r = w) (pd_rules d), filter (\<lambda>r. pv_workspace_id r = w) (pd_versions d))"

lemma filter_other:
  assumes "filter (\<lambda>r. f r \<noteq> w) xs = filter (\<lambda>r. f r \<noteq> w) ys" "w' \<noteq> w"
  shows "filter (\<lambda>r. f r = w') xs = filter (\<lambda>r. f r = w') ys"
proof -
  have "filter (\<lambda>r. f r = w') zs = filter (\<lambda>r. f r = w') (filter (\<lambda>r. f r \<noteq> w) zs)" for zs
    using assms(2) by (induction zs) auto
  then show ?thesis using assms(1) by metis
qed

lemma elsewhere_view: "elsewhere w d' = elsewhere w d \<Longrightarrow> w' \<noteq> w \<Longrightarrow> policy_view w' d' = policy_view w' d"
  unfolding elsewhere_def policy_view_def
  by (auto intro: filter_other)

lemma accounted_rest: "accounted_change w d d' \<Longrightarrow> at_rest d \<Longrightarrow> policy_wf d \<Longrightarrow> at_rest d' \<and> policy_wf d' \<and> versions_grow d d'"
  by (auto simp: accounted_change_def confined_to_def at_rest_def versions_grow_def)

lemma history_accounted_for:
  assumes "control_history d d'" "at_rest d" "policy_wf d"
  shows "at_rest d' \<and> policy_wf d' \<and> versions_grow d d'
    \<and> (\<exists>events. control_log d' = control_log d @ events \<and> (\<forall>e\<in>set events. ae_event_class e = EVENT_CLASS_CONTROL)
         \<and> (\<forall>w. w \<notin> ae_workspace_id ` set events \<longrightarrow> policy_view w d' = policy_view w d))"
  using assms
proof (induction rule: control_history.induct)
  case (1 d)
  then show ?case by (auto simp: versions_grow_def)
next
  case (2 d d' w d'')
  then obtain events where ih: "at_rest d'" "policy_wf d'" "versions_grow d d'" "control_log d' = control_log d @ events"
      "\<forall>e\<in>set events. ae_event_class e = EVENT_CLASS_CONTROL"
      "\<forall>w. w \<notin> ae_workspace_id ` set events \<longrightarrow> policy_view w d' = policy_view w d" by blast
  have c: "accounted_change w d' d''" using change_accounted 2(2) ih(1,2) by blast
  have rest: "at_rest d''" "policy_wf d''" "versions_grow d d''"
    using accounted_rest [OF c ih(1,2)] ih(3) by (auto simp: versions_grow_def)
  show ?case
  proof (cases "d'' = d'")
    case True
    with ih rest show ?thesis by auto
  next
    case False
    with c obtain e where e: "control_log d'' = control_log d' @ [e]" "names w e" "confined_to w d' d''"
      by (auto simp: accounted_change_def)
    have "policy_view w' d'' = policy_view w' d" if "w' \<notin> ae_workspace_id ` set (events @ [e])" for w'
      using elsewhere_view [of w d'' d' w'] e(2,3) ih(6) that by (auto simp: confined_to_def names_def)
    then show ?thesis using rest e ih(4,5) by (intro conjI exI [of _ "events @ [e]"]) (auto simp: names_def)
  qed
qed

text \<open>
  (C9) Whatever changes are made to bounds, mandates and
  auto-approval rules, singly, by policy files or by rollbacks, the audit log only grows by
  control events, and the policy of a workspace none of them names is what it was: no change of a
  policy goes unrecorded, and none reaches another workspace.
\<close>

theorem policy_changes_are_on_the_record:
  assumes "control_history d d'" "at_rest d" "policy_wf d"
  shows "\<exists>events. control_log d' = control_log d @ events
     \<and> (\<forall>e. e \<in> set events \<longrightarrow> ae_event_class e = EVENT_CLASS_CONTROL)
     \<and> (\<forall>w. w \<notin> ae_workspace_id ` set events \<longrightarrow> policy_view w d' = policy_view w d)"
  using history_accounted_for [OF assms] by blast

definition example_policy :: policy_db where
  "example_policy =
     \<lparr>cd_in_transaction = False, cd_depth = 0, cd_audit = [], pd_require_boundary_default = True,
      pd_bounds = [\<lparr>br_workspace_id = ''ws'', br_agent_id = ''a1'', br_scopes = [''read:repo/main''],
                    br_max_ttl_seconds = Some 60, br_updated_at = ''2026-01-01T00:00:00+00:00''\<rparr>],
      pd_settings = [], pd_rules = [], pd_versions = []\<rparr>"

text \<open>A mandate of one workspace leaves the other one as it was.\<close>

theorem policy_changes_are_on_the_record_witness:
  "\<exists>d'. snd (sq_set_require_pop ''other'' ''a'' True 5 None (\<lambda>_. ''x'') example_policy) = d'
     \<and> (\<exists>events. control_log d' = control_log example_policy @ events
          \<and> (\<forall>w. w \<notin> ae_workspace_id ` set events \<longrightarrow> policy_view w d' = policy_view w example_policy))"
proof -
  have "control_change ''other'' example_policy (snd (sq_set_require_pop ''other'' ''a'' True 5 None (\<lambda>_. ''x'') example_policy))"
    by (rule control_change.intros(4)) (rule prod.collapse [symmetric])
  then have "control_history example_policy (snd (sq_set_require_pop ''other'' ''a'' True 5 None (\<lambda>_. ''x'') example_policy))"
    by (rule control_history.intros(2) [OF control_history.intros(1)])
  moreover have "at_rest example_policy" "policy_wf example_policy"
    by (simp_all add: at_rest_def policy_wf_def example_policy_def)
  ultimately show ?thesis using policy_changes_are_on_the_record by blast
qed

end
