(* ===== verification/PolicyRollback.thy ===== *)
theory PolicyRollback
  imports PolicyHistory
begin

section \<open>A rollback restores the version\<close>

text \<open>
  The snapshot a version holds is written as JSON text and read back on rollback. Whatever was
  changed in between, the bounds, rules and boundary settings of the workspace are again those of
  the version.
\<close>

subsection \<open>Snapshots read back\<close>

lemma dict_get_map: "dict_get (map (\<lambda>(k, v). (k, f v)) kvs) k = map_option f (dict_get kvs k)"
  by (induction kvs) auto

lemma dict_wf_map: "dict_wf (map (\<lambda>(k, v). (k, f v)) kvs) = dict_wf kvs"
  by (simp add: dict_wf_def case_prod_beta comp_def)

lemma item_sorted: "dict_wf kvs \<Longrightarrow> item (json_sorted (JObj kvs)) fld = map_sum id json_sorted (item (JObj kvs) fld)"
  by (simp add: item_def dict_get_sorted dict_wf_map dict_get_map split: option.splits)

lemma items_sorted: "dict_wf kvs \<Longrightarrow> items (json_sorted (JObj kvs)) flds = map_sum id (map json_sorted) (items (JObj kvs) flds)"
  by (induction flds) (auto simp: item_sorted simp del: json_sorted.simps split: sum.splits)

lemma string_of_sorted [simp]: "string_of (json_sorted (JStr s)) = s"
  by (simp add: string_of_def)

lemma strings_of_list_sorted [simp]:
  "strings_of_list (JList (map (json_sorted \<circ> JStr) xs)) = xs" "strings_of_list (JList (map JStr xs)) = xs"
  by (simp_all add: strings_of_list_def string_of_def comp_def)

lemma json_wf_items:
  "json_wf (bound_item r)" "json_wf (rule_item q)" "json_wf (setting_item t)"
  by (auto simp: bound_item_def rule_item_def setting_item_def dict_wf_def json_opt_def split: option.splits)

lemma restored_bound_item: "restored_bound (br_workspace_id r) (json_sorted (bound_item r)) = Inr r"
proof -
  have "dict_wf [(''agent_id'', JStr (br_agent_id r)), (''scopes'', JList (map JStr (br_scopes r))),
      (''max_ttl_seconds'', (case br_max_ttl_seconds r of None \<Rightarrow> JNull | Some n \<Rightarrow> JInt n)), (''updated_at'', JStr (br_updated_at r))]"
    by (simp add: dict_wf_def)
  from items_sorted [OF this, of "[''agent_id'', ''scopes'', ''max_ttl_seconds'', ''updated_at'']"] show ?thesis
    unfolding restored_bound_def bound_item_def
    by (cases r) (simp add: item_def json_is_int_def json_int_def string_of_def split: option.split del: json_sorted.simps(2))
qed

lemma restored_rule_item: "restored_rule (rl_workspace_id r) (json_sorted (rule_item r)) = Inr r"
proof -
  have "dict_wf [(''rule_id'', JStr (rl_rule_id r)), (''name'', JStr (rl_name r)),
      (''target_agent_id'', JStr (rl_target_agent_id r)), (''allowed_scopes'', JList (map JStr (rl_allowed_scopes r))),
      (''max_ttl_seconds'', JInt (rl_max_ttl_seconds r)), (''status'', JStr (rl_status r)),
      (''created_by'', JStr (rl_created_by r)), (''created_at'', JStr (rl_created_at r)),
      (''updated_by'', json_opt (rl_updated_by r)), (''updated_at'', json_opt (rl_updated_at r))]"
    by (simp add: dict_wf_def)
  from items_sorted [OF this, of "[''rule_id'', ''name'', ''target_agent_id'', ''allowed_scopes'', ''max_ttl_seconds'', ''status'',
      ''created_by'', ''created_at'', ''updated_by'', ''updated_at'']"] show ?thesis
    unfolding restored_rule_def rule_item_def
    by (cases r) (simp add: item_def json_int_def json_opt_def string_of_def opt_string_of_def split: option.split del: json_sorted.simps(2))
qed

lemma saved_setting_items:
  "saved_settings (map (\<lambda>r. json_sorted (setting_item r)) rs) = Inr (map (\<lambda>r. (sr_agent_id r, sr_require_boundary r)) rs)"
proof (induction rs)
  case (Cons r rs)
  have "dict_wf [(''agent_id'', JStr (sr_agent_id r)), (''require_boundary'', JBool (sr_require_boundary r)), (''updated_at'', JStr (sr_updated_at r))]"
    by (simp add: dict_wf_def)
  from items_sorted [OF this, of "[''agent_id'', ''require_boundary'']"] Cons show ?case
    by (simp add: setting_item_def item_def string_of_def json_int_def del: json_sorted.simps(2))
qed simp

lemma json_wf_snapshot: "json_wf (snapshot_policy_state w d)"
  by (simp add: snapshot_policy_state_def dict_wf_def json_wf_items)

lemma snapshot_reads_back:
  "json_loads (json_dumps (snapshot_policy_state w d)) = Some (json_sorted (snapshot_policy_state w d))"
  by (rule json_loads_dumps_nested [OF json_wf_snapshot])

lemma snapshot_lists:
  assumes "json_sorted (snapshot_policy_state w d) = JObj snapshot"
  shows "snapshot_list snapshot ''agent_bounds'' = Inr (map (\<lambda>r. json_sorted (bound_item r)) (bounds_of w d))"
    "snapshot_list snapshot ''auto_approval_rules'' = Inr (map (\<lambda>r. json_sorted (rule_item r)) (rule_rows w d))"
    "snapshot_list snapshot ''require_boundary_settings'' = Inr (map (\<lambda>r. json_sorted (setting_item r)) (boundary_settings_of w d))"
proof -
  let ?kvs = "[(''version'', JInt 1), (''agent_bounds'', JList (map bound_item (bounds_of w d))),
           (''auto_approval_rules'', JList (map rule_item (rule_rows w d))),
           (''require_boundary_settings'', JList (map setting_item (boundary_settings_of w d)))]"
  have "dict_wf ?kvs" by (simp add: dict_wf_def)
  then have i: "item (JObj snapshot) fld = map_sum id json_sorted (item (JObj ?kvs) fld)" for fld
    using item_sorted [of ?kvs fld] assms by (simp only: snapshot_policy_state_def)
  show "snapshot_list snapshot ''agent_bounds'' = Inr (map (\<lambda>r. json_sorted (bound_item r)) (bounds_of w d))"
    "snapshot_list snapshot ''auto_approval_rules'' = Inr (map (\<lambda>r. json_sorted (rule_item r)) (rule_rows w d))"
    "snapshot_list snapshot ''require_boundary_settings'' = Inr (map (\<lambda>r. json_sorted (setting_item r)) (boundary_settings_of w d))"
    by (simp_all add: snapshot_list_def i) (simp_all add: item_def comp_def)
qed

subsection \<open>Restored tables\<close>

lemma restore_bounds_rows:
  assumes "restore_bounds w (map (\<lambda>r. json_sorted (bound_item r)) rows) d = (Inr (), d')" "\<forall>r\<in>set rows. br_workspace_id r = w"
  shows "d' = d\<lparr>pd_bounds := pd_bounds d @ rows\<rparr>"
  using assms
proof (induction rows arbitrary: d)
  case (Cons r rows)
  have r: "restored_bound w (json_sorted (bound_item r)) = Inr r" using restored_bound_item [of r] Cons.prems(2) by simp
  have "restore_bounds w (map (\<lambda>r. json_sorted (bound_item r)) rows) (d\<lparr>pd_bounds := pd_bounds d @ [r]\<rparr>) = (Inr (), d')"
    using Cons.prems(1) by (auto simp: r insert_bounds_row_def split: if_splits)
  from Cons.IH [OF this] Cons.prems(2) show ?case by simp
qed simp

lemma restore_rules_rows:
  assumes "restore_rules w (map (\<lambda>r. json_sorted (rule_item r)) rows) d = (Inr (), d')" "\<forall>r\<in>set rows. rl_workspace_id r = w"
  shows "d' = d\<lparr>pd_rules := pd_rules d @ rows\<rparr>"
  using assms
proof (induction rows arbitrary: d)
  case (Cons r rows)
  have r: "restored_rule w (json_sorted (rule_item r)) = Inr r" using restored_rule_item [of r] Cons.prems(2) by simp
  have "restore_rules w (map (\<lambda>r. json_sorted (rule_item r)) rows) (d\<lparr>pd_rules := pd_rules d @ [r]\<rparr>) = (Inr (), d')"
    using Cons.prems(1) by (auto simp: r insert_rule_row_def split: if_splits)
  from Cons.IH [OF this] Cons.prems(2) show ?case by simp
qed simp

lemma filter_replaced:
  "\<forall>r\<in>set rows. f r = w \<Longrightarrow> filter (\<lambda>r. f r = w) (filter (\<lambda>r. f r \<noteq> w) xs @ rows) = rows"
  by (auto simp: filter_id_conv)

lemma sort_key_sorted [simp]: "sort_key f (sort_key f xs) = sort_key f xs"
  by (rule sort_key_id_if_sorted) simp

subsection \<open>Restored settings\<close>

lemma find_first_upsert:
  assumes "\<And>r. key (update r) = key r"
  shows "find_first (\<lambda>r. key r = k) (sql_upsert key new update rows) =
     (if k = key new then Some (case find_first (\<lambda>r. key r = k) rows of Some r \<Rightarrow> update r | None \<Rightarrow> new)
      else find_first (\<lambda>r. key r = k) rows)"
proof -
  have m: "find_first (\<lambda>r. key r = k) (map (\<lambda>r. if key r = key new then update r else r) rs)
      = map_option (\<lambda>r. if key r = key new then update r else r) (find_first (\<lambda>r. key r = k) rs)" for rs
    by (induction rs) (auto simp: assms)
  show ?thesis
  proof (cases "key new \<in> key ` set rows")
    case True
    then have some: "k = key new \<Longrightarrow> find_first (\<lambda>r. key r = k) rows \<noteq> None" by (auto simp: find_first_None_iff)
    show ?thesis
    proof (cases "find_first (\<lambda>r. key r = k) rows")
      case None
      with some True have "k \<noteq> key new" by auto
      with None True show ?thesis by (simp add: sql_upsert_def m)
    next
      case (Some r)
      then have "key r = k" by (auto dest: find_first_Some)
      then show ?thesis using m [of rows] True unfolding sql_upsert_def Some by simp
    qed
  next
    case False
    then have "k = key new \<Longrightarrow> find_first (\<lambda>r. key r = k) rows = None" by (force simp: find_first_None_iff image_iff)
    then show ?thesis using False by (auto simp: sql_upsert_def find_first_append split: option.splits)
  qed
qed

lemma find_first_filter_map:
  assumes "distinct (map key rows)" "\<And>r. key (f r) = key r"
  shows "find_first (\<lambda>r. key r = k) (filter P (map f rows)) =
     (case find_first (\<lambda>r. key r = k) rows of Some r \<Rightarrow> if P (f r) then Some (f r) else None | None \<Rightarrow> None)"
  using assms(1)
proof (induction rows)
  case (Cons r rows)
  show ?case
  proof (cases "key r = k")
    case True
    with Cons.prems have "find_first (\<lambda>r. key r = k) rows = None" by (force simp: find_first_None_iff image_iff)
    with Cons True show ?thesis by (simp add: assms(2))
  next
    case False
    with Cons show ?thesis by (simp add: assms(2))
  qed
qed simp

lemma setting_at_write:
  assumes "\<And>r. setting_key (column r) = setting_key r"
  shows "setting_at w a (write_setting column w b now d) =
     (if a = b then Some (case setting_at w a d of Some r \<Rightarrow> (column r)\<lparr>sr_updated_at := isoformat now\<rparr>
                          | None \<Rightarrow> column (default_setting w a now d))
      else setting_at w a d)"
proof -
  have k: "setting_key ((column r)\<lparr>sr_updated_at := isoformat now\<rparr>) = setting_key r" for r
    using assms [of r] by (simp add: setting_key_def)
  have new: "setting_key (column (default_setting w b now d)) = (w, b)" using assms by (simp add: setting_key_def default_setting_def)
  show ?thesis
    unfolding setting_at_def write_setting_def
    by (simp add: find_first_upsert [where key = setting_key and update = "\<lambda>r. (column r)\<lparr>sr_updated_at := isoformat now\<rparr>", OF k] new cong: option.case_cong)
qed

lemma setting_at_clear:
  assumes "policy_wf d"
  shows "setting_at w a (clear_boundary_settings w agents now d) =
     (case setting_at w a d of
        None \<Rightarrow> None
      | Some r \<Rightarrow> if a \<notin> set agents \<and> \<not> sr_require_subject_token r \<and> \<not> sr_require_pop r then None
                  else Some (r\<lparr>sr_require_boundary_set := False, sr_updated_at := isoformat now\<rparr>))"
proof -
  define f where "f = (\<lambda>r :: setting_row. if sr_workspace_id r = w then r\<lparr>sr_require_boundary_set := False, sr_updated_at := isoformat now\<rparr> else r)"
  have k: "setting_key (f r) = setting_key r" for r by (simp add: f_def setting_key_def)
  have wf: "distinct (map setting_key (pd_settings d))" using assms by (simp add: policy_wf_def)
  show ?thesis
  proof (cases "setting_at w a d")
    case None
    then show ?thesis
      using find_first_filter_map [OF wf k]
      by (simp add: clear_boundary_settings_def Let_def setting_at_def f_def [symmetric])
  next
    case (Some r)
    then have r: "sr_workspace_id r = w" "sr_agent_id r = a"
      by (auto simp: setting_at_def setting_key_def dest: find_first_Some)
    with Some show ?thesis
      using find_first_filter_map [OF wf k]
      by (simp add: clear_boundary_settings_def Let_def setting_at_def f_def [symmetric]) (simp add: f_def)
  qed
qed

lemma setting_at_restore_fold:
  "distinct (map fst saved) \<Longrightarrow> setting_at w a (fold (restore_setting w now) saved d) =
     (case map_of saved a of
        Some b \<Rightarrow> Some (case setting_at w a d of
            Some r \<Rightarrow> r\<lparr>sr_require_boundary := b, sr_require_boundary_set := True, sr_updated_at := isoformat now\<rparr>
          | None \<Rightarrow> (default_setting w a now d)\<lparr>sr_require_boundary := b, sr_require_boundary_set := True\<rparr>)
      | None \<Rightarrow> setting_at w a d)"
proof (induction saved arbitrary: d)
  case (Cons x saved)
  obtain c b where x: "x = (c, b)" by (cases x)
  have d: "pd_require_boundary_default (restore_setting w now (c, b) d) = pd_require_boundary_default d"
    by (simp add: restore_setting_def write_setting_def)
  have "setting_at w a (restore_setting w now (c, b) d) =
     (if a = c then Some (case setting_at w a d of
          Some r \<Rightarrow> r\<lparr>sr_require_boundary := b, sr_require_boundary_set := True, sr_updated_at := isoformat now\<rparr>
        | None \<Rightarrow> (default_setting w a now d)\<lparr>sr_require_boundary := b, sr_require_boundary_set := True\<rparr>)
      else setting_at w a d)"
    unfolding restore_setting_def by (simp add: setting_at_write setting_key_def)
  moreover have "default_setting w a now (restore_setting w now (c, b) d) = default_setting w a now d"
    by (simp add: default_setting_def d)
  moreover have "a = c \<Longrightarrow> map_of saved a = None" using Cons.prems x by (auto simp: map_of_eq_None_iff)
  ultimately show ?case using Cons.IH [of "restore_setting w now x d"] Cons.prems x by (auto split: option.splits)
qed simp

lemma setting_at_same: "pd_settings d' = pd_settings d \<Longrightarrow> setting_at w a d' = setting_at w a d"
  by (simp add: setting_at_def)

lemma boundary_setting_saved:
  assumes "policy_wf d"
  shows "map_of (map (\<lambda>r. (sr_agent_id r, sr_require_boundary r)) (boundary_settings_of w d)) a = sq_get_require_boundary_setting w a d"
    and "distinct (map sr_agent_id (boundary_settings_of w d))"
proof -
  let ?P = "\<lambda>r. sr_workspace_id r = w \<and> sr_require_boundary_set r"
  have wf: "distinct (map setting_key (pd_settings d))" using assms by (simp add: policy_wf_def)
  have "inj_on sr_agent_id (set (filter ?P (pd_settings d)))"
    using wf by (auto simp: distinct_map inj_on_def setting_key_def)
  then have dist: "distinct (map sr_agent_id (filter ?P (pd_settings d)))" using wf by (simp add: distinct_map)
  then show "distinct (map sr_agent_id (boundary_settings_of w d))" by (simp add: boundary_settings_of_def distinct_map)
  then have d: "distinct (map fst (map (\<lambda>r. (sr_agent_id r, sr_require_boundary r)) (boundary_settings_of w d)))" by (simp add: comp_def)
  have iff: "map_of (map (\<lambda>r. (sr_agent_id r, sr_require_boundary r)) (boundary_settings_of w d)) a = Some b
      \<longleftrightarrow> sq_get_require_boundary_setting w a d = Some b" for b
  proof -
    have "map_of (map (\<lambda>r. (sr_agent_id r, sr_require_boundary r)) (boundary_settings_of w d)) a = Some b
        \<longleftrightarrow> (\<exists>r\<in>set (pd_settings d). setting_key r = (w, a) \<and> sr_require_boundary_set r \<and> sr_require_boundary r = b)"
      unfolding map_of_eq_Some_iff [OF d] by (auto simp: boundary_settings_of_def setting_key_def)
    also have "\<dots> \<longleftrightarrow> (\<exists>r. setting_at w a d = Some r \<and> sr_require_boundary_set r \<and> sr_require_boundary r = b)"
    proof -
      have "r \<in> set (pd_settings d) \<and> setting_key r = (w, a) \<longleftrightarrow> setting_at w a d = Some r" for r
      proof
        assume r: "r \<in> set (pd_settings d) \<and> setting_key r = (w, a)"
        then obtain q where q: "setting_at w a d = Some q"
          by (cases "setting_at w a d") (auto simp: setting_at_def find_first_None_iff)
        then have "q \<in> set (pd_settings d)" "setting_key q = (w, a)" by (auto simp: setting_at_def dest: find_first_Some)
        with r wf q show "setting_at w a d = Some r" by (auto simp: distinct_map inj_on_def)
      qed (auto simp: setting_at_def dest: find_first_Some)
      then show ?thesis by blast
    qed
    also have "\<dots> \<longleftrightarrow> sq_get_require_boundary_setting w a d = Some b"
      by (auto simp: sq_get_require_boundary_setting_def split: option.splits)
    finally show ?thesis .
  qed
  show "map_of (map (\<lambda>r. (sr_agent_id r, sr_require_boundary r)) (boundary_settings_of w d)) a = sq_get_require_boundary_setting w a d"
    by (metis iff not_None_eq)
qed

subsection \<open>Versions\<close>

text \<open>An apply and a rollback record the state they leave as a version.\<close>

inductive takes_version :: "string \<Rightarrow> int \<Rightarrow> policy_db \<Rightarrow> policy_db \<Rightarrow> bool" where
  "apply_policy_file bound conn path file w p now rnd d = (Inr res, d') \<Longrightarrow> takes_version w (pa_policy_version res) d d'"
| "rollback_policy_version bound conn w v p now rnd d = (Inr back, d') \<Longrightarrow> takes_version w (pr_policy_version back) d d'"

definition version_at :: "string \<Rightarrow> int \<Rightarrow> policy_db \<Rightarrow> version_row option" where
  "version_at w v d = find_first (\<lambda>r. pv_workspace_id r = w \<and> pv_version r = v) (pd_versions d)"

definition recorded_version :: "string \<Rightarrow> int \<Rightarrow> policy_db \<Rightarrow> bool" where
  "recorded_version w v d \<longleftrightarrow> (\<exists>row. version_at w v d = Some row \<and> pv_snapshot_json row = json_dumps (snapshot_policy_state w d))"

lemma fold_max_ge: "(x :: int) \<le> fold max xs x \<and> (\<forall>y\<in>set xs. y \<le> fold max xs x)"
proof (induction xs arbitrary: x)
  case (Cons a xs)
  from Cons.IH [of "max a x"] show ?case by auto
qed simp

lemma max_version_ge: "r \<in> set (pd_versions d) \<Longrightarrow> pv_workspace_id r = w \<Longrightarrow> pv_version r \<le> max_version w d"
proof -
  assume r: "r \<in> set (pd_versions d)" "pv_workspace_id r = w"
  let ?vs = "map pv_version (filter (\<lambda>r. pv_workspace_id r = w) (pd_versions d))"
  have m: "pv_version r \<in> set ?vs" using r by auto
  show ?thesis
  proof (cases ?vs)
    case (Cons v vs)
    then show ?thesis using m fold_max_ge [of v vs] by (auto simp: max_version_def)
  qed (use m in simp)
qed

lemma snapshot_same:
  "pd_bounds d' = pd_bounds d \<Longrightarrow> pd_rules d' = pd_rules d \<Longrightarrow> pd_settings d' = pd_settings d \<Longrightarrow>
     snapshot_policy_state w d' = snapshot_policy_state w d"
  by (simp add: snapshot_policy_state_def bounds_of_def rule_rows_def boundary_settings_of_def)

lemma insert_records:
  assumes "insert_policy_version w action source p now d = (v, d')"
  shows "recorded_version w v d'" "v = max_version w d + 1"
    "pd_bounds d' = pd_bounds d" "pd_rules d' = pd_rules d" "pd_settings d' = pd_settings d"
proof -
  let ?row = "\<lparr>pv_workspace_id = w, pv_version = v, pv_action = action, pv_source_version = source,
      pv_snapshot_json = json_dumps (snapshot_policy_state w d), pv_applied_by = p, pv_created_at = isoformat now\<rparr>"
  have d': "d' = d\<lparr>pd_versions := pd_versions d @ [?row]\<rparr>" and v: "v = max_version w d + 1"
    using assms by (auto simp: insert_policy_version_def Let_def)
  have "find_first (\<lambda>r. pv_workspace_id r = w \<and> pv_version r = v) (pd_versions d) = None"
    using max_version_ge [of _ d w] v by (fastforce simp: find_first_None_iff)
  then have "version_at w v d' = Some ?row" by (simp add: version_at_def d' find_first_append)
  then show "recorded_version w v d'" using snapshot_same [of d' d w] by (simp add: recorded_version_def d')
  show "v = max_version w d + 1" "pd_bounds d' = pd_bounds d" "pd_rules d' = pd_rules d" "pd_settings d' = pd_settings d"
    using v by (simp_all add: d')
qed

lemma recorded_version_same:
  assumes "recorded_version w v d" "pd_bounds d' = pd_bounds d" "pd_rules d' = pd_rules d" "pd_settings d' = pd_settings d"
    "pd_versions d' = pd_versions d"
  shows "recorded_version w v d'"
  using assms snapshot_same [of d' d w] by (simp add: recorded_version_def version_at_def)

lemma apply_document_records:
  assumes "apply_policy_document document w p now rnd d = (Inr res, d')"
  shows "recorded_version w (pa_policy_version res) d'"
  using assms
  by (auto simp: apply_policy_document_def write_policy_def split: sum.splits prod.splits intro: insert_records(1))

text \<open>What a rollback has done when it returns.\<close>

lemma rollback_commits:
  assumes "rollback_policy_version bound conn w v p now rnd d = (Inr res, d')" "at_rest d"
  obtains row val snapshot d1 d2 where "version_at w v d = Some row" "json_loads (pv_snapshot_json row) = Some val"
    "validated_policy_snapshot val = Inr snapshot"
    "restore_policy_snapshot w snapshot now (d\<lparr>cd_in_transaction := True\<rparr>) = (Inr (), d1)"
    "insert_policy_version w ''rollback'' (Some v) p now d1 = (pr_policy_version res, d2)"
    "pd_bounds d' = pd_bounds d2" "pd_rules d' = pd_rules d2" "pd_settings d' = pd_settings d2" "pd_versions d' = pd_versions d2"
proof -
  obtain d4 where d4: "rollback_body w v p now rnd (d\<lparr>cd_in_transaction := True\<rparr>) = (Inr res, d4)" "d' = d4\<lparr>cd_in_transaction := False\<rparr>"
    using assms by (auto simp: rollback_policy_version_def sqlite_apply_transaction_def at_rest_def split: option.splits elim: write_scope_ok)
  obtain row val snapshot d1 nv d2 where s: "version_at w v d = Some row" "json_loads (pv_snapshot_json row) = Some val"
      "validated_policy_snapshot val = Inr snapshot"
      "restore_policy_snapshot w snapshot now (d\<lparr>cd_in_transaction := True\<rparr>) = (Inr (), d1)"
      "insert_policy_version w ''rollback'' (Some v) p now d1 = (nv, d2)" "pr_policy_version res = nv"
    and r: "control_record ((control EVENT_POLICY_ROLLED_BACK w ''policy_rollback'' (''policy/version/'' @ py_str_int nv)
        (''restored_version='' @ py_str_int v) now)\<lparr>ca_enforcing_principal := Some p\<rparr>) rnd d2 = (Inr (), d4)"
    using d4(1) by (auto simp: rollback_body_def version_at_def split: option.splits sum.splits prod.splits)
  have "pd_bounds d4 = pd_bounds d2 \<and> pd_rules d4 = pd_rules d2 \<and> pd_settings d4 = pd_settings d2 \<and> pd_versions d4 = pd_versions d2"
    using r by (cases rule: control_record_cases) auto
  then show thesis by (intro that [OF s(1-4)]) (use s(5,6) d4(2) in simp_all)
qed

lemma version_recorded:
  assumes "takes_version w v d d'" "at_rest d"
  shows "recorded_version w v d'"
  using assms(1)
proof cases
  case (1 bound conn path src p now rnd res)
  obtain document where "write_scope (composite (apply_body document w p now rnd)) d = (Inr res, d')"
    using 1(2) assms(2)
    by (auto simp: apply_policy_file_def sqlite_apply_transaction_def at_rest_def split: sum.splits option.splits if_splits)
  then obtain d1 where d1: "composite (apply_body document w p now rnd) (d\<lparr>cd_in_transaction := True\<rparr>) = (Inr res, d1)"
      "d' = d1\<lparr>cd_in_transaction := False\<rparr>"
    using assms(2) by (auto simp: at_rest_def elim: write_scope_ok)
  obtain event d2 rows where d2: "apply_body document w p now rnd (d\<lparr>cd_in_transaction := True, cd_depth := 1\<rparr>) = (Inr (res, Some event), d2)"
      "d1 = d2\<lparr>cd_depth := 0, cd_audit := rows\<rparr>"
    using d1(1) by (rule composite_ok) simp
  then have "recorded_version w (pa_policy_version res) d2"
    by (auto simp: apply_body_def split: sum.splits prod.splits intro: apply_document_records)
  then show ?thesis using 1(1) by (auto simp: d1(2) d2(2) intro: recorded_version_same)
next
  case (2 bound conn u p now rnd res)
  from 2(2) assms(2) show ?thesis
    by (rule rollback_commits) (use 2(1) in \<open>auto intro: recorded_version_same dest: insert_records(1)\<close>)
qed

subsection \<open>The theorem\<close>

lemma validated_same: "validated_policy_snapshot v = Inr m \<Longrightarrow> v = JObj m"
  by (auto simp: validated_policy_snapshot_def as_mapping_def split: json.splits if_splits sum.splits option.splits)

lemma takes_version_change: "takes_version w v d d' \<Longrightarrow> control_change w d d'"
  by (induction rule: takes_version.induct) (auto intro: control_change.intros)

lemma version_kept: "versions_grow d d' \<Longrightarrow> version_at w v d = Some row \<Longrightarrow> version_at w v d' = Some row"
  by (auto simp: versions_grow_def version_at_def find_first_append)

text \<open>The settings after a restore: the saved boundary settings, and what is left of the other two mandates.\<close>

definition row_dropped :: "string \<Rightarrow> string \<Rightarrow> policy_db \<Rightarrow> policy_db \<Rightarrow> bool" where
  "row_dropped w a s d \<longleftrightarrow> sq_get_require_boundary_setting w a s = None
     \<and> (case setting_at w a d of Some r \<Rightarrow> \<not> sr_require_subject_token r \<and> \<not> sr_require_pop r | None \<Rightarrow> False)"

lemma restored_settings:
  fixes d s :: policy_db
  assumes "policy_wf d" "policy_wf s"
    and d': "pd_settings d' = pd_settings (restore_settings w (map (\<lambda>r. (sr_agent_id r, sr_require_boundary r)) (boundary_settings_of w s)) now d)"
  shows "sq_get_require_boundary_setting w a d' = sq_get_require_boundary_setting w a s"
    "sq_get_require_subject_token_setting w a d' = (if row_dropped w a s d then None else sq_get_require_subject_token_setting w a d)"
    "sq_get_require_pop_setting w a d' = (if row_dropped w a s d then None else sq_get_require_pop_setting w a d)"
proof -
  let ?saved = "map (\<lambda>r. (sr_agent_id r, sr_require_boundary r)) (boundary_settings_of w s)"
  have dist: "distinct (map fst ?saved)" using boundary_setting_saved(2) [OF assms(2)] by (simp add: comp_def)
  have saved: "map_of ?saved a = sq_get_require_boundary_setting w a s" by (rule boundary_setting_saved(1) [OF assms(2)])
  then have mem: "a \<in> set (map fst ?saved) \<longleftrightarrow> sq_get_require_boundary_setting w a s \<noteq> None"
    by (metis map_of_eq_None_iff list.set_map)
  have at: "setting_at w a d' = setting_at w a (restore_settings w ?saved now d)" using d' by (rule setting_at_same)
  note at' = at [unfolded restore_settings_def setting_at_restore_fold [OF dist] setting_at_clear [OF assms(1)] saved]
  show "sq_get_require_boundary_setting w a d' = sq_get_require_boundary_setting w a s"
    using mem unfolding sq_get_require_boundary_setting_def [of w a d'] at'
    by (cases "setting_at w a d"; cases "sq_get_require_boundary_setting w a s") simp_all
  show "sq_get_require_subject_token_setting w a d' = (if row_dropped w a s d then None else sq_get_require_subject_token_setting w a d)"
    using mem unfolding sq_get_require_subject_token_setting_def at' row_dropped_def
    by (cases "setting_at w a d"; cases "sq_get_require_boundary_setting w a s") (simp_all add: default_setting_def)
  show "sq_get_require_pop_setting w a d' = (if row_dropped w a s d then None else sq_get_require_pop_setting w a d)"
    using mem unfolding sq_get_require_pop_setting_def at' row_dropped_def
    by (cases "setting_at w a d"; cases "sq_get_require_boundary_setting w a s") (simp_all add: default_setting_def)
qed

text \<open>What a restore from the snapshot of a state does.\<close>

lemma restore_snapshot:
  assumes "restore_policy_snapshot w snapshot now d = (Inr (), d')" "json_sorted (snapshot_policy_state w s) = JObj snapshot"
  shows "pd_bounds d' = filter (\<lambda>r. br_workspace_id r \<noteq> w) (pd_bounds d) @ bounds_of w s"
    "pd_rules d' = filter (\<lambda>r. rl_workspace_id r \<noteq> w) (pd_rules d) @ rule_rows w s"
    "pd_settings d' = pd_settings (restore_settings w (map (\<lambda>r. (sr_agent_id r, sr_require_boundary r)) (boundary_settings_of w s)) now d)"
    "pd_versions d' = pd_versions d"
proof -
  note lists = snapshot_lists [OF assms(2)]
  let ?da = "d\<lparr>pd_bounds := filter (\<lambda>r. br_workspace_id r \<noteq> w) (pd_bounds d)\<rparr>"
  obtain d1 d2 where 1: "restore_bounds w (map (\<lambda>r. json_sorted (bound_item r)) (bounds_of w s)) ?da = (Inr (), d1)"
    and 2: "restore_rules w (map (\<lambda>r. json_sorted (rule_item r)) (rule_rows w s))
        (d1\<lparr>pd_rules := filter (\<lambda>r. rl_workspace_id r \<noteq> w) (pd_rules d1)\<rparr>) = (Inr (), d2)"
    and 3: "d' = restore_settings w (map (\<lambda>r. (sr_agent_id r, sr_require_boundary r)) (boundary_settings_of w s)) now d2"
    using assms(1) by (auto simp: restore_policy_snapshot_def lists saved_setting_items split: sum.splits prod.splits)
  have d1: "d1 = ?da\<lparr>pd_bounds := pd_bounds ?da @ bounds_of w s\<rparr>"
    by (rule restore_bounds_rows [OF 1]) (simp add: bounds_of_def)
  have d2: "d2 = d1\<lparr>pd_rules := filter (\<lambda>r. rl_workspace_id r \<noteq> w) (pd_rules d1) @ rule_rows w s\<rparr>"
    using restore_rules_rows [OF 2] by (simp add: rule_rows_def)
  have fold_tables: "pd_bounds (fold (restore_setting w now) saved x) = pd_bounds x
      \<and> pd_rules (fold (restore_setting w now) saved x) = pd_rules x \<and> pd_versions (fold (restore_setting w now) saved x) = pd_versions x" for saved x
    by (induction saved arbitrary: x) (simp_all add: restore_setting_def write_setting_def)
  have fold_settings: "pd_settings (fold (restore_setting w now) saved x) = pd_settings (fold (restore_setting w now) saved y)"
    if "pd_settings x = pd_settings y" "pd_require_boundary_default x = pd_require_boundary_default y" for saved and x y :: "'a policy_db_scheme"
    using that by (induction saved arbitrary: x y) (simp_all add: restore_setting_def write_setting_def default_setting_def)
  show "pd_bounds d' = filter (\<lambda>r. br_workspace_id r \<noteq> w) (pd_bounds d) @ bounds_of w s"
    "pd_rules d' = filter (\<lambda>r. rl_workspace_id r \<noteq> w) (pd_rules d) @ rule_rows w s" "pd_versions d' = pd_versions d"
    by (simp_all add: 3 restore_settings_def fold_tables clear_boundary_settings_def Let_def d2 d1)
  show "pd_settings d' = pd_settings (restore_settings w (map (\<lambda>r. (sr_agent_id r, sr_require_boundary r)) (boundary_settings_of w s)) now d)"
    unfolding 3 restore_settings_def by (rule fold_settings) (simp_all add: clear_boundary_settings_def Let_def d2 d1)
qed

text \<open>
  (C8) Whatever was changed since an apply or a rollback recorded a
  version, rolling back to it restores exactly the bounds, the auto-approval rules and the boundary
  overrides of that moment, leaves every other workspace alone and takes the next version number.
  The subject-token and proof-of-possession overrides of an agent stay, except that the row of an
  agent is dropped when it had no boundary override then and neither of the two is on now: an
  explicit exemption from them is lost.
\<close>

theorem rollback_restores_the_version:
  assumes "takes_version w v d0 s" "at_rest d0" "policy_wf d0" "control_history s d"
    and "rollback_policy_version bound conn w v p now rnd d = (Inr res, d')"
  shows "bounds_of w d' = bounds_of w s \<and> rule_rows w d' = rule_rows w s
    \<and> (\<forall>a. sq_get_require_boundary_setting w a d' = sq_get_require_boundary_setting w a s)
    \<and> elsewhere w d' = elsewhere w d \<and> pr_policy_version res = max_version w d + 1
    \<and> (\<forall>a. sq_get_require_subject_token_setting w a d'
             = (if row_dropped w a s d then None else sq_get_require_subject_token_setting w a d)
           \<and> sq_get_require_pop_setting w a d' = (if row_dropped w a s d then None else sq_get_require_pop_setting w a d))"
proof -
  have "accounted_change w d0 s" using change_accounted [OF takes_version_change [OF assms(1)] assms(2,3)] .
  then have s: "at_rest s" "policy_wf s" using accounted_rest assms(2,3) by blast+
  have d: "at_rest d" "policy_wf d" "versions_grow s d" using history_accounted_for [OF assms(4) s] by blast+
  obtain row where row: "version_at w v d = Some row" "pv_snapshot_json row = json_dumps (snapshot_policy_state w s)"
    using version_recorded [OF assms(1,2)] version_kept [OF d(3)] by (auto simp: recorded_version_def)
  have acc: "accounted_change w d d'" using rollback_accounted [OF assms(5) d(1,2)] .
  from assms(5) d(1) show ?thesis
  proof (rule rollback_commits)
    fix row' val snapshot d1 d2
    assume "version_at w v d = Some row'" "json_loads (pv_snapshot_json row') = Some val"
      and val: "validated_policy_snapshot val = Inr snapshot"
      and 1: "restore_policy_snapshot w snapshot now (d\<lparr>cd_in_transaction := True\<rparr>) = (Inr (), d1)"
      and 2: "insert_policy_version w ''rollback'' (Some v) p now d1 = (pr_policy_version res, d2)"
      and same: "pd_bounds d' = pd_bounds d2" "pd_rules d' = pd_rules d2" "pd_settings d' = pd_settings d2"
    then have "val = json_sorted (snapshot_policy_state w s)" using row snapshot_reads_back [of w s] by simp
    then have snap: "json_sorted (snapshot_policy_state w s) = JObj snapshot" using validated_same [OF val] by simp
    note r = restore_snapshot [OF 1 snap]
    note i = insert_records [OF 2]
    have "bounds_of w d' = bounds_of w s"
      by (simp only: bounds_of_def [of w d'] same(1) i(3) r(1), subst filter_replaced) (simp_all add: bounds_of_def)
    moreover have "rule_rows w d' = rule_rows w s"
      by (simp only: rule_rows_def [of w d'] same(2) i(4) r(2), subst filter_replaced) (simp_all add: rule_rows_def)
    moreover have "elsewhere w d' = elsewhere w d" using acc by (auto simp: accounted_change_def confined_to_def)
    moreover have "pr_policy_version res = max_version w d + 1" using i(2) r(4) by (simp add: max_version_def)
    moreover have "sq_get_require_boundary_setting w a d' = sq_get_require_boundary_setting w a s
        \<and> sq_get_require_subject_token_setting w a d' = (if row_dropped w a s d then None else sq_get_require_subject_token_setting w a d)
        \<and> sq_get_require_pop_setting w a d' = (if row_dropped w a s d then None else sq_get_require_pop_setting w a d)" for a
    proof -
      have wf: "policy_wf (d\<lparr>cd_in_transaction := True\<rparr>)" using d(2) by (simp add: policy_wf_def)
      have st: "pd_settings d' = pd_settings (restore_settings w
          (map (\<lambda>r. (sr_agent_id r, sr_require_boundary r)) (boundary_settings_of w s)) now (d\<lparr>cd_in_transaction := True\<rparr>))"
        using same(3) i(5) r(3) by simp
      have "row_dropped w a s (d\<lparr>cd_in_transaction := True\<rparr>) = row_dropped w a s d"
        "sq_get_require_subject_token_setting w a (d\<lparr>cd_in_transaction := True\<rparr>) = sq_get_require_subject_token_setting w a d"
        "sq_get_require_pop_setting w a (d\<lparr>cd_in_transaction := True\<rparr>) = sq_get_require_pop_setting w a d"
        by (simp_all add: row_dropped_def setting_at_def sq_get_require_subject_token_setting_def sq_get_require_pop_setting_def)
      then show ?thesis using restored_settings [OF wf s(2) st, of a] by simp
    qed
    ultimately show ?thesis by blast
  qed
qed

text \<open>A file that turns the boundary mandate on, and a rollback to the version it made.\<close>

definition empty_policy :: policy_db where
  "empty_policy =
     \<lparr>cd_in_transaction = False, cd_depth = 0, cd_audit = [], pd_require_boundary_default = True,
      pd_bounds = [], pd_settings = [], pd_rules = [], pd_versions = []\<rparr>"

definition mandate_document :: mapping_items where
  "mandate_document = [(''version'', JInt 1), (''require_boundary'', JObj [(''workspace'', JBool True)])]"

definition mandate_row :: setting_row where
  "mandate_row = (default_setting ''ws'' [] 5 empty_policy)\<lparr>sr_require_boundary := True, sr_require_boundary_set := True\<rparr>"

lemma write_event_fresh:
  assumes "serialisable e" "\<forall>r\<in>set (cd_audit d). take 1 (rw_columns r) \<noteq> [JStr (ae_event_id e)]"
  shows "\<exists>r. write_control_event e d = (Inr (), d\<lparr>cd_audit := cd_audit d @ [r]\<rparr>) \<and> take 1 (rw_columns r) = [JStr (ae_event_id e)]"
  using write_fresh [OF assms] by (auto simp: write_control_event_def)

lemma control_serialisable: "serialisable (build_control_audit_event ((control t w a r s 5)\<lparr>ca_enforcing_principal := p\<rparr>) rnd)"
  by (simp add: serialisable_def build_control_audit_event_def control_def is_datetime_def EPOCH_ORDINAL_def)

lemma example_document:
  "\<exists>res d'. apply_policy_document mandate_document ''ws'' ''op'' 5 (\<lambda>_. ''x'') (empty_policy\<lparr>cd_in_transaction := True, cd_depth := 1\<rparr>)
     = (Inr res, d') \<and> cd_audit d' = [] \<and> cd_depth d' = 1 \<and> pd_bounds d' = [] \<and> pd_rules d' = [] \<and> pd_settings d' = [mandate_row]"
  by (simp add: apply_policy_document_def mandate_document_def required_list_def parse_require_boundary_def as_mapping_def
      reject_extra_def parse_agents_def write_policy_def apply_require_boundary_def sq_set_require_boundary_def set_setting_def
      record_setting_change_def control_record_def write_setting_def write_scope_def empty_policy_def sql_upsert_def
      insert_policy_version_def mandate_row_def default_setting_def Let_def)

lemma example_apply:
  "\<exists>res s r. apply_policy_file (Some 0) (Some 0) ''p'' (FileLoaded (JObj mandate_document)) ''ws'' ''op'' 5 (\<lambda>_. ''x'') empty_policy = (Inr res, s)
     \<and> cd_audit s = [r] \<and> take 1 (rw_columns r) = [JStr ''evt_x''] \<and> pd_bounds s = [] \<and> pd_rules s = [] \<and> pd_settings s = [mandate_row]"
proof -
  let ?d0 = "empty_policy\<lparr>cd_in_transaction := True\<rparr>"
  obtain res d1 where d1: "apply_policy_document mandate_document ''ws'' ''op'' 5 (\<lambda>_. ''x'') (?d0\<lparr>cd_depth := 1\<rparr>) = (Inr res, d1)"
      "cd_audit d1 = []" "cd_depth d1 = 1" "pd_bounds d1 = []" "pd_rules d1 = []" "pd_settings d1 = [mandate_row]"
    using example_document by auto
  define e where "e = build_control_audit_event (applied_event res ''ws'' ''op'' 5) (\<lambda>_. ''x'')"
  have id: "ae_event_id e = ''evt_x''"
    by (simp add: e_def applied_event_def build_control_audit_event_def control_def py_or_def new_event_id_def)
  have "serialisable e" unfolding e_def applied_event_def by (rule control_serialisable)
  then obtain r where r: "write_control_event e (d1\<lparr>cd_depth := 0\<rparr>) = (Inr (), d1\<lparr>cd_depth := 0, cd_audit := [r]\<rparr>)"
      "take 1 (rw_columns r) = [JStr ''evt_x'']"
    using write_event_fresh [of e "d1\<lparr>cd_depth := 0\<rparr>"] d1(2) id by auto
  have "composite (apply_body mandate_document ''ws'' ''op'' 5 (\<lambda>_. ''x'')) ?d0 = (Inr res, d1\<lparr>cd_depth := 0, cd_audit := [r]\<rparr>)"
    using d1(1) r(1)
    by (simp add: composite_def apply_body_def pending_set_def e_def) (simp add: empty_policy_def)
  moreover have "load_policy_document ''p'' (FileLoaded (JObj mandate_document)) = Inr mandate_document"
    by (simp add: load_policy_document_def mandate_document_def reject_extra_def POLICY_FIELDS_def json_equals_one_def
        json_is_int_def json_int_def)
  moreover have "dict_get mandate_document ''workspace_id'' = None" by (simp add: mandate_document_def)
  ultimately show ?thesis
    using r(2) d1
    by (simp add: apply_policy_file_def require_bound_to_def sqlite_apply_transaction_def write_scope_def) (simp add: empty_policy_def)
qed

lemma isoformat_nonempty [simp]: "isoformat t \<noteq> []"
  unfolding isoformat_def Let_def
  by (cases "ord2ymd (t div 1000000 div 86400 + EPOCH_ORDINAL)")
    (simp only: prod.case append_is_Nil_conv list.distinct simp_thms)

lemma example_rollback:
  assumes "recorded_version ''ws'' v s" "at_rest s" "cd_audit s = [r]" "take 1 (rw_columns r) = [JStr ''evt_x'']"
    "pd_bounds s = []" "pd_rules s = []" "pd_settings s = [mandate_row]"
  shows "\<exists>res d'. rollback_policy_version (Some 0) (Some 0) ''ws'' v ''op'' 5 (\<lambda>_. ''y'') s = (Inr res, d')"
proof -
  let ?d0 = "s\<lparr>cd_in_transaction := True\<rparr>"
  obtain row where row: "version_at ''ws'' v s = Some row" "pv_snapshot_json row = json_dumps (snapshot_policy_state ''ws'' s)"
    using assms(1) by (auto simp: recorded_version_def)
  have of: "bounds_of ''ws'' s = []" "rule_rows ''ws'' s = []" "boundary_settings_of ''ws'' s = [mandate_row]"
    using assms(5-7) by (simp_all add: bounds_of_def rule_rows_def boundary_settings_of_def mandate_row_def default_setting_def)
  obtain m where m: "json_sorted (snapshot_policy_state ''ws'' s) = JObj m" by (simp add: snapshot_policy_state_def)
  have "validated_policy_snapshot (json_sorted (snapshot_policy_state ''ws'' s)) = Inr m"
    using m
    by (auto simp: snapshot_policy_state_def of validated_policy_snapshot_def as_mapping_def json_equals_one_def json_is_int_def
        json_int_def required_list_def validate_snapshot_setting_def setting_item_def mandate_row_def default_setting_def required_string_def)
  moreover obtain d1 where d1: "restore_policy_snapshot ''ws'' m 5 ?d0 = (Inr (), d1)" "cd_depth d1 = 0" "cd_audit d1 = [r]"
  proof -
    let ?d1 = "restore_settings ''ws'' [(sr_agent_id mandate_row, sr_require_boundary mandate_row)] 5 (?d0\<lparr>pd_bounds := [], pd_rules := []\<rparr>)"
    have saved: "saved_settings [json_sorted (setting_item mandate_row)] = Inr [(sr_agent_id mandate_row, sr_require_boundary mandate_row)]"
      using saved_setting_items [of "[mandate_row]"] by (simp del: saved_settings.simps)
    have "restore_policy_snapshot ''ws'' m 5 ?d0 = (Inr (), ?d1)"
      using assms(5,6) by (simp add: restore_policy_snapshot_def snapshot_lists [OF m] of saved del: saved_settings.simps)
    moreover have "cd_depth ?d1 = 0" "cd_audit ?d1 = [r]"
      using assms(2,3) by (simp_all add: restore_settings_def restore_setting_def write_setting_def clear_boundary_settings_def Let_def at_rest_def)
    ultimately show ?thesis by (rule that)
  qed
  moreover obtain nv d2 where d2: "insert_policy_version ''ws'' ''rollback'' (Some v) ''op'' 5 d1 = (nv, d2)" "cd_depth d2 = 0" "cd_audit d2 = [r]"
    using d1(2,3) by (simp add: insert_policy_version_def Let_def)
  moreover have "\<exists>d3. control_record ((control EVENT_POLICY_ROLLED_BACK ''ws'' ''policy_rollback'' (''policy/version/'' @ py_str_int nv)
        (''restored_version='' @ py_str_int v) 5)\<lparr>ca_enforcing_principal := Some ''op''\<rparr>) (\<lambda>_. ''y'') d2 = (Inr (), d3)"
  proof -
    let ?e = "build_control_audit_event ((control EVENT_POLICY_ROLLED_BACK ''ws'' ''policy_rollback'' (''policy/version/'' @ py_str_int nv)
        (''restored_version='' @ py_str_int v) 5)\<lparr>ca_enforcing_principal := Some ''op''\<rparr>) (\<lambda>_. ''y'')"
    have "ae_event_id ?e = ''evt_y''" by (simp add: build_control_audit_event_def control_def py_or_def new_event_id_def)
    moreover have "serialisable ?e" by (rule control_serialisable)
    ultimately show ?thesis using write_event_fresh [of ?e d2] d2(2,3) assms(4) by (auto simp: control_record_def)
  qed
  ultimately show ?thesis
    using row snapshot_reads_back [of "''ws''" s] assms(2)
    by (auto simp: rollback_policy_version_def require_bound_to_def sqlite_apply_transaction_def write_scope_def at_rest_def
        rollback_body_def version_at_def)
qed

theorem rollback_restores_the_version_witness:
  "\<exists>v s res d'. takes_version ''ws'' v empty_policy s \<and> sq_get_require_boundary_setting ''ws'' [] s = Some True
     \<and> rollback_policy_version (Some 0) (Some 0) ''ws'' v ''op'' 5 (\<lambda>_. ''y'') s = (Inr res, d')
     \<and> sq_get_require_boundary_setting ''ws'' [] d' = Some True \<and> pr_policy_version res = max_version ''ws'' s + 1"
proof -
  obtain ares s r where s: "apply_policy_file (Some 0) (Some 0) ''p'' (FileLoaded (JObj mandate_document)) ''ws'' ''op'' 5 (\<lambda>_. ''x'') empty_policy = (Inr ares, s)"
      "cd_audit s = [r]" "take 1 (rw_columns r) = [JStr ''evt_x'']" "pd_bounds s = []" "pd_rules s = []" "pd_settings s = [mandate_row]"
    using example_apply by blast
  have d0: "at_rest empty_policy" "policy_wf empty_policy" by (simp_all add: at_rest_def policy_wf_def empty_policy_def)
  have t: "takes_version ''ws'' (pa_policy_version ares) empty_policy s" using s(1) by (rule takes_version.intros)
  have "accounted_change ''ws'' empty_policy s" using apply_accounted [OF s(1) d0] .
  then have rest: "at_rest s" using accounted_rest d0 by blast
  obtain res d' where rb: "rollback_policy_version (Some 0) (Some 0) ''ws'' (pa_policy_version ares) ''op'' 5 (\<lambda>_. ''y'') s = (Inr res, d')"
    using example_rollback [OF version_recorded [OF t d0(1)] rest s(2-6)] by blast
  have "sq_get_require_boundary_setting ''ws'' [] s = Some True"
    using s(6) by (simp add: sq_get_require_boundary_setting_def setting_at_def setting_key_def mandate_row_def default_setting_def)
  moreover have "sq_get_require_boundary_setting ''ws'' [] d' = sq_get_require_boundary_setting ''ws'' [] s"
      "pr_policy_version res = max_version ''ws'' s + 1"
    using rollback_restores_the_version [OF t d0 control_history.intros(1) rb] by auto
  ultimately have "takes_version ''ws'' (pa_policy_version ares) empty_policy s \<and> sq_get_require_boundary_setting ''ws'' [] s = Some True
     \<and> rollback_policy_version (Some 0) (Some 0) ''ws'' (pa_policy_version ares) ''op'' 5 (\<lambda>_. ''y'') s = (Inr res, d')
     \<and> sq_get_require_boundary_setting ''ws'' [] d' = Some True \<and> pr_policy_version res = max_version ''ws'' s + 1"
    using t rb by simp
  then show ?thesis by blast
qed

end
