(* ===== verification/Spec2Isabelle.thy ===== *)
theory Spec2Isabelle
  imports Authorize Infer HttpIsolation Keyring KeyHistory PolicyRollback
begin

text \<open>
  \<^bold>\<open>Verification of vinctor-core\<close>

  Vinctor decides whether an AI agent may perform an action on a resource. An agent holds
  \<^emph>\<open>grants\<close>: revocable, expiring lists of scopes such as \<^verbatim>\<open>write:repo/feature/*\<close>. The service issues grants
  within bounds an operator has set, answers every request with a permit or a deny, and
  writes each answer to an audit log before it is given. The theories follow the repository:
  one theory per component, and a definition for each function, with the name it has in
  Python, prefixed where it would clash. Paths are relative to \<^verbatim>\<open>src/src\<close>.

  \<^bold>\<open>Parts and theories\<close>

  \<^item> \<^emph>\<open>Foundations.\<close> \<open>Prelude\<close> (exceptions, instants, dictionaries that keep insertion order,
    tables), \<open>PyStr\<close> (string methods), \<open>PyTime\<close> (the calendar behind \<^verbatim>\<open>isoformat\<close> and
    \<^verbatim>\<open>fromisoformat\<close>), \<open>PyJson\<close> and \<open>PyJsonLoads\<close> (\<^verbatim>\<open>json.dumps\<close> and \<^verbatim>\<open>json.loads\<close>),
    \<open>JsonRoundTrip\<close> (nested values written and read back), \<open>Sha256\<close> (SHA-256 and HMAC on 32-bit words).
  \<^item> \<^emph>\<open>Core\<close> (\<^verbatim>\<open>vinctor_core\<close>). \<open>Scope\<close> (\<^verbatim>\<open>scope.py\<close>), \<open>CoreModels\<close> (\<^verbatim>\<open>models.py\<close>), \<open>Enforce\<close>
    (\<^verbatim>\<open>enforce.py\<close>: one grant, one action), \<open>Policy\<close> (\<^verbatim>\<open>policy.py\<close>: the grants of an agent), \<open>Registry\<close>
    (\<^verbatim>\<open>registry.py\<close>: boundaries), \<open>CoreAudit\<close> (\<^verbatim>\<open>audit.py\<close>: events), \<open>Infer\<close> (\<^verbatim>\<open>infer.py\<close>: scopes proposed from
    observations).
  \<^item> \<^emph>\<open>Repositories\<close> (\<^verbatim>\<open>vinctor_service/repositories.py\<close>, \<^verbatim>\<open>sqlite.py\<close>). \<open>GrantRepo\<close>, \<open>RequestRepo\<close>,
    \<open>Settings\<close>, and the token and rule stores in \<open>SubjectTokens\<close> and \<open>AutoApproval\<close>. An
    interface of the Python code is a record of operations; its contract is a locale
    (\<open>grant_store\<close>, \<open>request_store\<close>, \<open>audit_log\<close>, \<open>replay_store\<close>), interpreted on the in-memory and on
    the SQLite implementation. A SQLite table is the list of its rows.
  \<^item> \<^emph>\<open>Grant lifecycle.\<close> \<open>Grants\<close> (\<^verbatim>\<open>grants.py\<close>), \<open>GrantRequests\<close> (\<^verbatim>\<open>grant_requests.py\<close>, with the
    interleaving of concurrent deciders as a step relation), \<open>AutoApproval\<close> (\<^verbatim>\<open>auto_approval.py\<close>).
  \<^item> \<^emph>\<open>Enforcement.\<close> \<open>Authorize\<close> (\<^verbatim>\<open>authorize.py\<close>), \<open>V1Enforce\<close> (\<^verbatim>\<open>v1_enforce.py\<close>: direct and
    delegated), \<open>Simulations\<close> (\<^verbatim>\<open>simulations.py\<close>), \<open>Observations\<close> (\<^verbatim>\<open>observations.py\<close>), \<open>Pop\<close>
    (\<^verbatim>\<open>pop.py\<close>: proofs of possession and replay), \<open>SubjectTokens\<close> (\<^verbatim>\<open>subject_tokens.py\<close>).
  \<^item> \<^emph>\<open>Audit.\<close> \<open>ServiceAudit\<close> (\<^verbatim>\<open>audit.py\<close>: writers and the throttle of failed
    authentications), \<open>AuditChain\<close> (\<^verbatim>\<open>audit_chain.py\<close>, the SQLite writer, anchors), \<open>AuditTamper\<close>
    (what the chain detects), \<open>AuditQuery\<close> (filtered and paged reading).
  \<^item> \<^emph>\<open>The control plane.\<close> \<open>ControlAudit\<close> (\<^verbatim>\<open>control_audit.py\<close>, with the scopes of \<^verbatim>\<open>sqlite.py\<close> that join or
    own a transaction), \<open>Keys\<close> (\<^verbatim>\<open>keys.py\<close>, \<^verbatim>\<open>key_ops.py\<close>), \<open>KeyHistory\<close> (what sequences of key operations
    keep), \<open>SqliteControl\<close> (bounds, mandates and rules of \<^verbatim>\<open>sqlite.py\<close>), \<open>PolicyFiles\<close> (\<^verbatim>\<open>policy_files.py\<close>: parsing,
    apply, versions, rollback, export), \<open>PolicyHistory\<close> (changes and their audit events) and
    \<open>PolicyRollback\<close> (what a rollback restores). The components extend one database record.
  \<^item> \<^emph>\<open>The service.\<close> \<open>InMemoryService\<close> (\<^verbatim>\<open>in_memory.py\<close>: one state record, one function per method),
    \<open>ServiceHistory\<close> (an abstract machine of labelled effects that the calls refine, and the
    properties of whole histories).
  \<^item> \<^emph>\<open>The HTTP interface.\<close> \<open>Http\<close> (identities, headers, strict bodies), \<open>V1Http\<close> (\<^verbatim>\<open>v1_http.py\<close>), \<open>AdminHttp\<close>
    (\<^verbatim>\<open>boundary_http.py\<close>, \<^verbatim>\<open>grant_http.py\<close>, \<^verbatim>\<open>grant_issue_http.py\<close>, \<^verbatim>\<open>auto_approval_http.py\<close>), \<open>RequestHttp\<close>
    (\<^verbatim>\<open>grant_request_http.py\<close>), \<open>AuditHttp\<close> (\<^verbatim>\<open>audit_http.py\<close>), \<open>RateLimit\<close> (\<^verbatim>\<open>ratelimit.py\<close>), \<open>LocalHttp\<close>
    (\<^verbatim>\<open>local_http.py\<close>: from a request to the handler of its route over the in-memory service),
    \<open>HttpIsolation\<close> (what requests can reach).
  \<^item> \<^emph>\<open>Idempotent replies.\<close> \<open>Idempotency\<close> (\<^verbatim>\<open>idempotency_models.py\<close>, \<^verbatim>\<open>idempotency_http.py\<close>, the encodings of
    \<^verbatim>\<open>idempotency_crypto.py\<close>), \<open>IdempotencyStore\<close> (\<^verbatim>\<open>idempotency_storage.py\<close>, \<^verbatim>\<open>idempotency_sqlite.py\<close> and its
    completion, result storage and executor), \<open>IdempotencyLifecycle\<close> (\<^verbatim>\<open>idempotency_lifecycle.py\<close>, its SQLite
    backend and lock files, readiness), \<open>IdempotencyReplay\<close> (what the store guarantees, with the
    interleaving of executions and rotations as a step relation), \<open>IdempotencyRetirement\<close> (what retirement
    guarantees), \<open>Keyring\<close> (\<^verbatim>\<open>idempotency_keyring.py\<close>: the keyring of the environment).

  \<^bold>\<open>How a definition reads\<close>

  A function that changes state takes it as its last argument and returns it; a raised
  exception is \<open>Inl\<close> or \<open>Some\<close> of an \<open>exn\<close>. Randomness (\<^verbatim>\<open>secrets.token_urlsafe\<close>) and the wall clock are arguments, so
  every statement holds for all their values. Instants are whole microseconds as integers;
  text is a list of characters with code points below 256, which is what the definitions of
  UTF-8 and JSON escapes cover. A method of SQLite that runs in one transaction is one step.

  \<^bold>\<open>What is shown\<close>

  Scope subsumption is inclusion of what scopes authorise, and the string matcher refines
  segment matching. Enforcement permits exactly under the documented conditions. Issued,
  approved and auto-approved grants stay within bounds and rules. A revoked grant is dead in
  every later state. No decision is given that is not recorded; the audit log of a running service accounts for
  its grants, requests, decisions and tokens; the hash chain and the anchors detect
  tampering, or exhibit a collision of SHA-256. A delegated decision rests on the trusted
  identity, a live token and a proof used once. Workspaces do not interfere, and refusals do
  not tell an unknown grant from a foreign one. The in-memory and the SQLite stores agree.
  No request changes a workspace it does not authenticate for, and none without a valid key
  succeeds. A mutation under an idempotency key runs once while its result lives, and no nonce
  of a key version encrypts twice; a key is retired only when no stored result needs it, and can be once its
  removal window has passed; a keyring that loads fits an empty store. A stored key resolves to its own identity or to none, a revoked
  one to none; a rotation leaves the new key as the only active one of its class. The policy of a workspace
  changes only with a control event that names it, and a rollback restores the version it
  names, whatever happened in between. The rate limiter bounds every source and spares light ones.

  \<^bold>\<open>Bounds and fuel\<close>

  All recursion is structural or has a termination proof, but for two fuelled functions:
  \<open>json_loads\<close> (and \<open>object_members\<close> of \<open>Keyring\<close>) is given the length of its text, and every recursive call consumes a
  character, so a text that \<open>json_dumps\<close> has written is always parsed (shown in \<open>JsonRoundTrip\<close> for
  nested values); \<open>read_pages\<close> of
  \<open>AuditQuery\<close>, a client and not part of the code, is given the number of pages of the matches at its start, and the property
  shows that it needs exactly as many requests.

  \<^bold>\<open>Not modelled\<close>

  PostgreSQL storage (the same repositories over a third-party driver), connection pools and
  thread locks (a locked section is one step), the command line, sockets and process start,
  backups, the counters of the metrics, configuration from the environment but for the keyring,
  snapshots and migrations of database files, OIDC tokens (a parameter of the server) and the MCP client. AES-GCM,
  \<^verbatim>\<open>ipaddress\<close> and the result of the YAML parser are arguments. The manifest lists each file with its reason.
\<close>

end
